(* ===== verification/Prelude.thy ===== *)
theory Prelude
  imports Main "HOL-Library.Monad_Syntax" "HOL-Library.Word"
begin

text \<open>
  Shared vocabulary of the development: the result type of Go calls, the collections the
  component proofs use, and generic lemmas on lists and options.

  A Go call either returns to its caller or it does not: it panics (nil dereference,
  index out of range, failed type assertion) or it runs for ever. Both are the value
  \<open>None\<close> of the type \<open>'a go\<close>; a call that returns is \<open>Some\<close> of what it returns. Go
  errors are ordinary values and are part of \<open>'a\<close>. Effects are explicit: a call that can
  act on the outside world takes the world \<open>'w\<close> as its last argument and returns the
  new one.
\<close>

type_synonym 'a go = "'a option"

named_theorems returns_intro
named_theorems go_defs

definition returns :: "'a go \<Rightarrow> bool" where
  "returns m \<longleftrightarrow> m \<noteq> None"

lemma returns_Some [simp, returns_intro]: "returns (Some x)"
  by (simp add: returns_def)

lemma returns_None [simp]: "\<not> returns None"
  by (simp add: returns_def)

lemma returns_iff: "returns m \<longleftrightarrow> (\<exists>x. m = Some x)"
  by (cases m) auto

lemma returns_bind [returns_intro]:
  "returns m \<Longrightarrow> (\<And>x. m = Some x \<Longrightarrow> returns (f x)) \<Longrightarrow> returns (Option.bind m f)"
  by (cases m) auto

lemma returns_if [returns_intro]:
  "(b \<Longrightarrow> returns x) \<Longrightarrow> (\<not> b \<Longrightarrow> returns y) \<Longrightarrow> returns (if b then x else y)"
  by simp

lemma returns_case_prod [returns_intro]:
  "(\<And>a b. p = (a, b) \<Longrightarrow> returns (f a b)) \<Longrightarrow> returns (case p of (a, b) \<Rightarrow> f a b)"
  by (cases p) simp

lemma returns_case_option [returns_intro]:
  "(p = None \<Longrightarrow> returns x) \<Longrightarrow> (\<And>a. p = Some a \<Longrightarrow> returns (f a))
    \<Longrightarrow> returns (case p of None \<Rightarrow> x | Some a \<Rightarrow> f a)"
  by (cases p) simp_all

lemma bind_eq_Some_iff:
  "Option.bind m f = Some y \<longleftrightarrow> (\<exists>x. m = Some x \<and> f x = Some y)"
  by (cases m) auto

lemma bind_eq_SomeE:
  assumes "Option.bind m f = Some y"
  obtains x where "m = Some x" "f x = Some y"
  using assms by (auto simp: bind_eq_Some_iff)

text \<open>A nil pointer, interface or error is \<open>None\<close>.\<close>

definition non_nil :: "'a option \<Rightarrow> bool" where
  "non_nil x \<longleftrightarrow> x \<noteq> None"

lemma non_nil_simps [simp]: "non_nil (Some x)" "\<not> non_nil None"
  by (simp_all add: non_nil_def)

text \<open>A pointer dereference: panics on nil.\<close>

definition deref :: "'a option \<Rightarrow> 'a go" where
  "deref p = p"

text \<open>Indexing a slice: panics out of range.\<close>

definition go_index :: "'a list \<Rightarrow> nat \<Rightarrow> 'a go" where
  "go_index xs i = (if i < length xs then Some (xs ! i) else None)"

text \<open>Counting the elements of a slice that satisfy a test, as the counting loops do.\<close>

fun count_if :: "('a \<Rightarrow> bool) \<Rightarrow> 'a list \<Rightarrow> nat" where
  "count_if p [] = 0"
| "count_if p (x # xs) = (if p x then Suc (count_if p xs) else count_if p xs)"

lemma count_if_filter: "count_if p xs = length (filter p xs)"
  by (induction xs) auto

lemma count_if_le: "count_if p xs \<le> length xs"
  by (simp add: count_if_filter)

text \<open>Functional options: a request is its default value with the options applied in order.\<close>

definition apply_opts :: "('r \<Rightarrow> 'r) list \<Rightarrow> 'r \<Rightarrow> 'r" where
  "apply_opts opts r = fold (\<lambda>opt c. opt c) opts r"

lemma apply_opts_Nil [simp]: "apply_opts [] r = r"
  by (simp add: apply_opts_def)

lemma apply_opts_Cons [simp]: "apply_opts (opt # opts) r = apply_opts opts (opt r)"
  by (simp add: apply_opts_def)

lemma apply_opts_append [simp]: "apply_opts (xs @ ys) r = apply_opts ys (apply_opts xs r)"
  by (simp add: apply_opts_def)

lemma apply_opts_frame:
  "(\<And>opt c. opt \<in> set opts \<Longrightarrow> f (opt c) = f c) \<Longrightarrow> f (apply_opts opts r) = f r"
  by (induction opts arbitrary: r) auto

text \<open>
  Maps are lists of entries with distinct keys; an entry met again replaces the old one.
  The order of the list is not the order in which Go ranges over the map.
\<close>

fun map_set :: "'k \<Rightarrow> 'v \<Rightarrow> ('k \<times> 'v) list \<Rightarrow> ('k \<times> 'v) list" where
  "map_set k v [] = [(k, v)]"
| "map_set k v ((k', v') # m) = (if k = k' then (k, v) # m else (k', v') # map_set k v m)"

lemma map_of_map_set: "map_of (map_set k v m) = (map_of m)(k \<mapsto> v)"
  by (induction k v m rule: map_set.induct) auto

lemma map_set_keys: "fst ` set (map_set k v m) = insert k (fst ` set m)"
  by (induction k v m rule: map_set.induct) auto

lemma distinct_map_set: "distinct (map fst m) \<Longrightarrow> distinct (map fst (map_set k v m))"
  by (induction k v m rule: map_set.induct) (simp_all add: map_set_keys)

lemma distinct_map_map_set [simp]:
  "distinct (map fst m) \<Longrightarrow> distinct (map fst (fold (\<lambda>(k, v) m. map_set k v m) kvs m))"
  by (induction kvs arbitrary: m) (auto simp: distinct_map_set)

lemma map_set_new: "k \<notin> fst ` set m \<Longrightarrow> map_set k v m = m @ [(k, v)]"
  by (induction k v m rule: map_set.induct) auto

end
