(* ===== verification/GoErrors.thy ===== *)
theory GoErrors
  imports Prelude
begin

text \<open>
  Go errors as values. A \<open>nil\<close> error is \<open>None\<close> of \<open>goerr option\<close>. The constructors
  follow how the code makes errors, because \<open>errors.Is\<close> and \<open>errors.As\<close> look at the
  structure and not at the text.
\<close>

datatype goerr =
    ErrNew string                \<comment> \<open>errors.New or fmt.Errorf without %w: a fresh pointer\<close>
  | ErrSentinel string           \<comment> \<open>a package variable, compared by identity\<close>
  | ErrText string goerr string  \<comment> \<open>fmt.Errorf with the cause printed by %s: not unwrapped\<close>
  | ErrWrap string goerr string  \<comment> \<open>fmt.Errorf with the cause given by %w\<close>
  | ErrJoin "goerr list"         \<comment> \<open>errors.Join of the non-nil errors\<close>
  | ErrExec "goerr list" int     \<comment> \<open>transport.ExecError: wrapped errors and the exit code\<close>
  | ErrMulti "goerr list"        \<comment> \<open>multierror.Error\<close>

type_synonym error = "goerr option"

text \<open>\<open>errors.Join\<close> drops the nil errors and is nil when all are.\<close>

definition join_errs :: "error list \<Rightarrow> error" where
  "join_errs es = (let xs = List.map_filter id es in if xs = [] then None else Some (ErrJoin xs))"

lemma join_errs_eq_None [simp]: "join_errs es = None \<longleftrightarrow> (\<forall>e \<in> set es. e = None)"
  by (induction es) (auto simp: join_errs_def map_filter_simps Let_def split: option.splits)

lemma join_errs_Some_iff: "non_nil (join_errs es) \<longleftrightarrow> (\<exists>e \<in> set es. non_nil e)"
  by (auto simp: non_nil_def)

lemma join_errs_ex_Some [simp]: "(\<exists>y. join_errs es = Some y) \<longleftrightarrow> (\<exists>e \<in> set es. e \<noteq> None)"
  by (subst not_None_eq [symmetric]) auto

text \<open>\<open>fmt.Errorf("pre %w post", err)\<close> with a non-nil error.\<close>

definition wrap_err :: "string \<Rightarrow> goerr \<Rightarrow> error" where
  "wrap_err msg e = Some (ErrWrap msg e [])"

lemma wrap_err_not_None [simp]: "wrap_err msg e \<noteq> None"
  by (simp add: wrap_err_def)

text \<open>
  \<open>errors.Is(err, target)\<close>: the tree of wrapped errors holds the target. Only sentinel
  values can be equal to a target the caller holds; an error made by \<open>errors.New\<close> or
  \<open>fmt.Errorf\<close> inside a call is a new pointer every time.
\<close>

fun err_is :: "goerr \<Rightarrow> goerr \<Rightarrow> bool" where
  "err_is (ErrNew s) t = False"
| "err_is (ErrSentinel s) t = (t = ErrSentinel s)"
| "err_is (ErrText s e s') t = False"
| "err_is (ErrWrap s e s') t = err_is e t"
| "err_is (ErrJoin es) t = list_ex (\<lambda>e. err_is e t) es"
| "err_is (ErrExec es c) t = list_ex (\<lambda>e. err_is e t) es"
| "err_is (ErrMulti es) t = list_ex (\<lambda>e. err_is e t) es"

text \<open>\<open>errors.Is\<close> on an error that may be nil.\<close>

definition error_is :: "error \<Rightarrow> goerr \<Rightarrow> bool" where
  "error_is err t = (case err of None \<Rightarrow> False | Some e \<Rightarrow> err_is e t)"

lemma error_is_join: "error_is (join_errs es) t \<longleftrightarrow> (\<exists>e \<in> set es. error_is e t)"
proof -
  have "list_ex (\<lambda>e. err_is e t) (List.map_filter id es) \<longleftrightarrow> (\<exists>e \<in> set es. error_is e t)"
    by (induction es) (auto simp: map_filter_simps error_is_def split: option.splits)
  then show ?thesis
    by (auto simp: join_errs_def Let_def error_is_def)
qed

text \<open>
  \<open>errors.As(err, &execErr)\<close>: the exit code of the first \<open>ExecError\<close> of the tree, in
  the pre-order in which Go walks it.
\<close>

fun first_some :: "'a option list \<Rightarrow> 'a option" where
  "first_some [] = None"
| "first_some (Some x # xs) = Some x"
| "first_some (None # xs) = first_some xs"

fun as_exec :: "goerr \<Rightarrow> int option" where
  "as_exec (ErrNew s) = None"
| "as_exec (ErrSentinel s) = None"
| "as_exec (ErrText s e s') = None"
| "as_exec (ErrWrap s e s') = as_exec e"
| "as_exec (ErrJoin es) = first_some (map as_exec es)"
| "as_exec (ErrExec es c) = Some c"
| "as_exec (ErrMulti es) = first_some (map as_exec es)"

lemma first_some_eq_None: "first_some xs = None \<longleftrightarrow> (\<forall>x \<in> set xs. x = None)"
  by (induction xs rule: first_some.induct) auto

lemma first_some_in: "first_some xs = Some y \<Longrightarrow> Some y \<in> set xs"
  by (induction xs rule: first_some.induct) auto

text \<open>The sentinel errors of the standard library that the code meets.\<close>

definition err_canceled :: goerr where
  "err_canceled = ErrSentinel ''context canceled''"

definition err_deadline :: goerr where
  "err_deadline = ErrSentinel ''context deadline exceeded''"

definition err_token_too_long :: goerr where
  "err_token_too_long = ErrSentinel ''bufio.Scanner: token too long''"

text \<open>\<open>remoteflight.WrapErrorWith\<close>: wrap the error with every non-empty message in turn.\<close>

fun wrap_error_with :: "goerr \<Rightarrow> string list \<Rightarrow> goerr" where
  "wrap_error_with e [] = e"
| "wrap_error_with e (m # ms) =
     wrap_error_with (if m = [] then e else ErrWrap [] e ('': '' @ m)) ms"

lemma wrap_error_with_is [simp]: "err_is (wrap_error_with e ms) t = err_is e t"
  by (induction e ms rule: wrap_error_with.induct) auto

lemma wrap_error_with_as [simp]: "as_exec (wrap_error_with e ms) = as_exec e"
  by (induction e ms rule: wrap_error_with.induct) auto

end
