(* ===== verification/GoStrings.thy ===== *)
theory GoStrings
  imports GoErrors
begin

text \<open>
  What the code uses of the packages \<open>strings\<close>, \<open>bufio\<close>, \<open>fmt\<close>, \<open>strconv\<close> and
  \<open>path/filepath\<close>, and the module \<open>internal/strings\<close>. A Go string is a sequence of
  bytes and so is a \<open>string\<close> here. Case folding and white space are those of ASCII.
\<close>

abbreviation nl :: char where "nl \<equiv> CHR 0x0A"
abbreviation cr :: char where "cr \<equiv> CHR 0x0D"
abbreviation quote_char :: char where "quote_char \<equiv> CHR 0x27"
abbreviation dquote :: char where "dquote \<equiv> CHR 0x22"

definition quoted :: "string \<Rightarrow> string" where
  "quoted s = quote_char # s @ [quote_char]"

definition line :: "string \<Rightarrow> string" where
  "line s = s @ [nl]"

text \<open>\<open>strings.Split\<close> on a one byte separator. The result is never empty.\<close>

fun split_on :: "char \<Rightarrow> string \<Rightarrow> string list" where
  "split_on c [] = [[]]"
| "split_on c (x # xs) =
     (if x = c then [] # split_on c xs
      else (case split_on c xs of [] \<Rightarrow> [[x]] | y # ys \<Rightarrow> (x # y) # ys))"

fun join_with :: "string \<Rightarrow> string list \<Rightarrow> string" where
  "join_with sep [] = []"
| "join_with sep [x] = x"
| "join_with sep (x # y # ys) = x @ sep @ join_with sep (y # ys)"

lemma split_on_not_Nil [simp]: "split_on c s \<noteq> []"
  by (cases s) (auto split: list.splits)

lemma join_split [simp]: "join_with [c] (split_on c s) = s"
proof (induction s)
  case Nil
  show ?case by simp
next
  case (Cons x s)
  obtain y ys where s: "split_on c s = y # ys"
    by (cases "split_on c s") auto
  then have "join_with [c] (y # ys) = s" using Cons.IH by simp
  then show ?case using s by (cases ys) auto
qed

lemma split_on_pieces: "p \<in> set (split_on c s) \<Longrightarrow> c \<notin> set p"
proof (induction s arbitrary: p)
  case Nil
  then show ?case by simp
next
  case (Cons x s)
  obtain y ys where s: "split_on c s = y # ys"
    by (cases "split_on c s") auto
  show ?case using Cons s by (auto split: if_splits)
qed

lemma split_on_no_sep: "c \<notin> set s \<Longrightarrow> split_on c s = [s]"
  by (induction s) auto

lemma split_on_append_sep:
  "c \<notin> set s \<Longrightarrow> split_on c (s @ c # t) = s # split_on c t"
  by (induction s) (auto split: list.splits)

lemma split_on_join:
  "xs \<noteq> [] \<Longrightarrow> (\<And>x. x \<in> set xs \<Longrightarrow> c \<notin> set x) \<Longrightarrow> split_on c (join_with [c] xs) = xs"
proof (induction "[c]" xs rule: join_with.induct)
  case (2 x)
  then show ?case by (simp add: split_on_no_sep)
next
  case (3 x y ys)
  then show ?case by (simp add: split_on_append_sep)
qed simp

text \<open>\<open>strings.SplitN(s, sep, 2)\<close>: at most two pieces.\<close>

definition split_n2 :: "char \<Rightarrow> string \<Rightarrow> string list" where
  "split_n2 c s =
     (case dropWhile (\<lambda>x. x \<noteq> c) s of
        [] \<Rightarrow> [s]
      | _ # rest \<Rightarrow> [takeWhile (\<lambda>x. x \<noteq> c) s, rest])"

lemma takeWhile_append_neq: "c \<notin> set k \<Longrightarrow> takeWhile (\<lambda>x. x \<noteq> c) (k @ c # v) = k"
  by (induction k) auto

lemma dropWhile_append_neq: "c \<notin> set k \<Longrightarrow> dropWhile (\<lambda>x. x \<noteq> c) (k @ c # v) = c # v"
  by (induction k) auto

lemma split_n2_pair: "c \<notin> set k \<Longrightarrow> split_n2 c (k @ c # v) = [k, v]"
  by (simp add: split_n2_def takeWhile_append_neq dropWhile_append_neq)

lemma split_n2_single: "c \<notin> set s \<Longrightarrow> split_n2 c s = [s]"
proof -
  assume "c \<notin> set s"
  then have d: "dropWhile (\<lambda>x. x \<noteq> c) s = []" by (auto simp: dropWhile_eq_Nil_conv)
  show ?thesis unfolding split_n2_def d by simp
qed

text \<open>\<open>strings.SplitAfter(s, "\n")\<close>: every piece but the last keeps its newline.\<close>

fun split_after :: "char \<Rightarrow> string \<Rightarrow> string list" where
  "split_after c [] = [[]]"
| "split_after c (x # xs) =
     (if x = c then [x] # split_after c xs
      else (case split_after c xs of [] \<Rightarrow> [[x]] | y # ys \<Rightarrow> (x # y) # ys))"

lemma split_after_not_Nil [simp]: "split_after c s \<noteq> []"
  by (cases s) (auto split: list.splits)

lemma concat_split_after [simp]: "concat (split_after c s) = s"
proof (induction s)
  case Nil
  show ?case by simp
next
  case (Cons x s)
  obtain y ys where "split_after c s = y # ys" by (cases "split_after c s") auto
  then show ?case using Cons.IH by auto
qed

text \<open>\<open>internal/strings.Indent\<close>: prefix every line of the body.\<close>

definition indent :: "string \<Rightarrow> string \<Rightarrow> string" where
  "indent pre s =
     (if pre = [] \<or> s = [] then s
      else let lines = split_after nl s;
               lines = (if last lines = [] then butlast lines else lines)
           in join_with pre ([] # lines))"

text \<open>\<open>strings.TrimSuffix\<close>, \<open>HasPrefix\<close>, \<open>TrimSpace\<close>, \<open>Trim\<close>, \<open>ToLower\<close>, \<open>ReplaceAll\<close>.\<close>

definition has_prefix :: "string \<Rightarrow> string \<Rightarrow> bool" where
  "has_prefix s p \<longleftrightarrow> take (length p) s = p"

definition has_suffix :: "string \<Rightarrow> string \<Rightarrow> bool" where
  "has_suffix s p \<longleftrightarrow> has_prefix (rev s) (rev p)"

definition trim_suffix :: "string \<Rightarrow> string \<Rightarrow> string" where
  "trim_suffix s p = (if has_suffix s p then take (length s - length p) s else s)"

definition is_space :: "char \<Rightarrow> bool" where
  "is_space c \<longleftrightarrow> c \<in> set [CHR '' '', CHR 0x09, CHR 0x0A, CHR 0x0B, CHR 0x0C, CHR 0x0D]"

definition trim_left_if :: "(char \<Rightarrow> bool) \<Rightarrow> string \<Rightarrow> string" where
  "trim_left_if p s = dropWhile p s"

definition trim_if :: "(char \<Rightarrow> bool) \<Rightarrow> string \<Rightarrow> string" where
  "trim_if p s = rev (dropWhile p (rev (dropWhile p s)))"

definition trim_space :: "string \<Rightarrow> string" where
  "trim_space = trim_if is_space"

definition lower_char :: "char \<Rightarrow> char" where
  "lower_char c = (let n = of_char c :: nat in
     if 65 \<le> n \<and> n \<le> 90 then char_of (n + 32) else c)"

definition to_lower :: "string \<Rightarrow> string" where
  "to_lower = map lower_char"

lemma length_to_lower [simp]: "length (to_lower s) = length s"
  by (simp add: to_lower_def)

text \<open>Decimal printing of integers, \<open>%d\<close>, and of truth values, \<open>%t\<close>.\<close>

definition digit_char :: "nat \<Rightarrow> char" where
  "digit_char d = char_of (48 + d)"

fun show_nat :: "nat \<Rightarrow> string" where
  "show_nat n = (if n < 10 then [digit_char n] else show_nat (n div 10) @ [digit_char (n mod 10)])"

declare show_nat.simps [simp del]

definition show_int :: "int \<Rightarrow> string" where
  "show_int i = (if i < 0 then CHR ''-'' # show_nat (nat (- i)) else show_nat (nat i))"

definition show_bool :: "bool \<Rightarrow> string" where
  "show_bool b = (if b then ''true'' else ''false'')"

lemma show_nat_not_Nil [simp]: "show_nat n \<noteq> []"
  by (subst show_nat.simps) simp

lemma show_int_not_Nil [simp]: "show_int i \<noteq> []"
  by (simp add: show_int_def)

text \<open>
  \<open>bufio.Scanner\<close> with its default line splitting: lines without their newline and
  without one carriage return before it; a last line without newline counts when it is not
  empty. A line of 65536 bytes or more stops the scanner, with \<open>Err()\<close> set.
\<close>

definition drop_cr :: "string \<Rightarrow> string" where
  "drop_cr s = (if s \<noteq> [] \<and> last s = cr then butlast s else s)"

definition raw_lines :: "string \<Rightarrow> string list" where
  "raw_lines s = (let ps = split_on nl s in if last ps = [] then butlast ps else ps)"

definition scan_fits :: "string \<Rightarrow> bool" where
  "scan_fits l \<longleftrightarrow> length l < 65536"

definition scan_lines :: "string \<Rightarrow> string list" where
  "scan_lines s = map drop_cr (takeWhile scan_fits (raw_lines s))"

definition scan_err :: "string \<Rightarrow> error" where
  "scan_err s = (if list_all scan_fits (raw_lines s) then None else Some err_token_too_long)"

lemma raw_lines_join:
  assumes "\<And>l. l \<in> set ls \<Longrightarrow> nl \<notin> set l"
  shows "raw_lines (concat (map line ls)) = ls"
  using assms
proof (induction ls)
  case Nil
  show ?case by (simp add: raw_lines_def)
next
  case (Cons l ls)
  have eq: "split_on nl (concat (map line (l # ls))) = l # split_on nl (concat (map line ls))"
    using Cons.prems by (simp add: line_def split_on_append_sep)
  have IH: "raw_lines (concat (map line ls)) = ls" using Cons by simp
  show ?case using IH unfolding raw_lines_def eq Let_def by (simp split: if_splits)
qed

lemma scan_lines_join:
  assumes "\<And>l. l \<in> set ls \<Longrightarrow> nl \<notin> set l \<and> cr \<notin> set l \<and> length l < 65536"
  shows "scan_lines (concat (map line ls)) = ls"
proof -
  have 1: "raw_lines (concat (map line ls)) = ls"
    using assms by (intro raw_lines_join) auto
  have 2: "takeWhile scan_fits ls = ls"
    using assms by (auto simp: takeWhile_eq_all_conv scan_fits_def)
  have 3: "map drop_cr ls = ls"
    using assms by (intro map_idI) (metis drop_cr_def last_in_set)
  show ?thesis by (simp add: scan_lines_def 1 2 3)
qed

text \<open>
  \<open>path/filepath\<close> on a Unix host: \<open>Clean\<close> works on the elements between slashes,
  \<open>Join\<close> cleans the non-empty elements joined by slashes.
\<close>

abbreviation slash :: char where "slash \<equiv> CHR ''/''"

fun clean_elems :: "bool \<Rightarrow> string list \<Rightarrow> string list \<Rightarrow> string list" where
  "clean_elems rooted out [] = rev out"
| "clean_elems rooted out (e # es) =
     (if e = [] \<or> e = ''.'' then clean_elems rooted out es
      else if e = ''..'' then
        (case out of
           [] \<Rightarrow> if rooted then clean_elems rooted [] es else clean_elems rooted [''..''] es
         | o1 # out' \<Rightarrow> if o1 = ''..'' then clean_elems rooted (''..'' # out) es
                       else clean_elems rooted out' es)
      else clean_elems rooted (e # out) es)"

definition path_clean :: "string \<Rightarrow> string" where
  "path_clean p =
     (if p = [] then ''.''
      else let rooted = (hd p = slash);
               body = join_with [slash] (clean_elems rooted [] (split_on slash p))
           in if rooted then slash # body else if body = [] then ''.'' else body)"

definition path_join :: "string list \<Rightarrow> string" where
  "path_join es =
     (let xs = filter (\<lambda>e. e \<noteq> []) es in if xs = [] then [] else path_clean (join_with [slash] xs))"

definition path_base :: "string \<Rightarrow> string" where
  "path_base p =
     (if p = [] then ''.''
      else let q = rev (dropWhile (\<lambda>c. c = slash) (rev p)) in
        if q = [] then ''/'' else last (split_on slash q))"

definition path_dir :: "string \<Rightarrow> string" where
  "path_dir p = path_clean (rev (dropWhile (\<lambda>c. c \<noteq> slash) (rev p)))"

text \<open>\<open>filepath.Ext\<close>: from the last dot of the last element, or empty.\<close>

definition path_ext :: "string \<Rightarrow> string" where
  "path_ext p =
     (let e = last (split_on slash p); parts = split_on (CHR ''.'') e in
      if length parts < 2 then [] else CHR ''.'' # last parts)"

end
