(* ===== verification/Retry.thy ===== *)
theory Retry
  imports GoStrings
begin

text \<open>
  The package \<open>internal/retry\<close> (\<open>retry.go\<close>): the loop \<open>Retry\<close> over the interface
  \<open>Retryable\<close>, its implementation \<open>Retrier\<close> with its options, and the interval
  functions. Durations are Go's \<open>time.Duration\<close>, 64-bit integers that wrap around.
\<close>

type_synonym duration = "64 word"

text \<open>
  The ambient operations of a call: \<open>ctx_err\<close> is \<open>ctx.Err()\<close>, non-nil exactly when
  \<open>ctx.Done()\<close> is ready; \<open>time_sleep\<close> lets the world move on; \<open>random_id\<close> is
  \<open>random.ID()\<close>; \<open>pow_overflow\<close> is what the platform makes of a float that no
  \<open>time.Duration\<close> can hold.
\<close>

record 'w go_ctx =
  ctx_err :: "'w \<Rightarrow> error"
  time_sleep :: "duration \<Rightarrow> 'w \<Rightarrow> 'w"
  random_id :: "'w \<Rightarrow> string \<times> 'w"
  pow_overflow :: duration

text \<open>
  A closure given to Retry may keep state of its own between attempts (a request it
  updates, a reader it consumes). The loop then runs over the world paired with that state.
\<close>

definition lift_ctx :: "'w go_ctx \<Rightarrow> ('w \<times> 's) go_ctx" where
  "lift_ctx ctx = \<lparr>ctx_err = (\<lambda>(w, s). ctx_err ctx w),
     time_sleep = (\<lambda>d (w, s). (time_sleep ctx d w, s)),
     random_id = (\<lambda>(w, s). case random_id ctx w of (i, w1) \<Rightarrow> (i, (w1, s))),
     pow_overflow = pow_overflow ctx\<rparr>"

lemma lift_ctx_simps [simp]:
  "ctx_err (lift_ctx ctx) (w, s) = ctx_err ctx w"
  "time_sleep (lift_ctx ctx) d (w, s) = (time_sleep ctx d w, s)"
  "pow_overflow (lift_ctx ctx) = pow_overflow ctx"
  by (simp_all add: lift_ctx_def)

definition second :: duration where
  "second = 1000000000"

subsection \<open>The interface and the loop\<close>

record ('w, 'q, 'a) retryable =
  rq_interval :: "'q \<Rightarrow> duration go"
  rq_run :: "'q \<Rightarrow> 'w \<Rightarrow> (('a option \<times> error) \<times> 'q \<times> 'w) go"
  rq_should_retry :: "'q \<Rightarrow> bool"

text \<open>How \<open>Retry\<close> adds the error of attempt \<open>n\<close> to those of the attempts before it.\<close>

definition add_attempt_err :: "nat \<Rightarrow> error \<Rightarrow> goerr \<Rightarrow> error" where
  "add_attempt_err n err e1 =
     (if n > 1 then join_errs [err, Some (ErrWrap (''attempt '' @ show_nat n @ '': '') e1 [nl])]
      else join_errs [err, Some e1])"

partial_function (option) retry_loop ::
  "('w, 'q, 'a) retryable \<Rightarrow> 'w go_ctx \<Rightarrow> nat \<Rightarrow> 'a option \<Rightarrow> error \<Rightarrow> 'q \<Rightarrow> 'w
    \<Rightarrow> (('a option \<times> error) \<times> 'q \<times> 'w) go" where
  "retry_loop ops ctx n res err q w =
     (case ctx_err ctx w of
        Some e \<Rightarrow> Some ((res, join_errs [err, Some e]), q, w)
      | None \<Rightarrow>
          Option.bind (rq_run ops q w) (\<lambda>(out, q1, w1).
            (case snd out of
               None \<Rightarrow> Some ((fst out, None), q1, w1)
             | Some e1 \<Rightarrow>
                 if \<not> rq_should_retry ops q1
                 then Some ((fst out, add_attempt_err n err e1), q1, w1)
                 else Option.bind (rq_interval ops q1) (\<lambda>d.
                   retry_loop ops ctx (Suc n) (fst out) (add_attempt_err n err e1) q1
                     (time_sleep ctx d w1)))))"

definition retry ::
  "('w, 'q, 'a) retryable \<Rightarrow> 'w go_ctx \<Rightarrow> 'q \<Rightarrow> 'w \<Rightarrow> (('a option \<times> error) \<times> 'q \<times> 'w) go" where
  "retry ops ctx q w = retry_loop ops ctx 1 None None q w"

subsection \<open>Retrier\<close>

definition max_retries_unlimited :: int where
  "max_retries_unlimited = -1"

definition err_no_retry_func :: goerr where
  "err_no_retry_func = ErrSentinel ''no retry function has been set''"

record ('w, 'a) retrier =
  attempts :: int
  max_retries :: int
  only_retry_error :: "goerr list"
  retry_interval :: "int \<Rightarrow> duration go"
  retry_func :: "('w \<Rightarrow> (('a option \<times> error) \<times> 'w) go) option"
  last_err :: error

type_synonym ('w, 'a) retrier_opt = "('w, 'a) retrier \<Rightarrow> ('w, 'a) retrier"

text \<open>\<open>Run\<close>: count the attempt, call the function and remember its error.\<close>

definition retrier_run ::
  "('w, 'a) retrier \<Rightarrow> 'w \<Rightarrow> (('a option \<times> error) \<times> ('w, 'a) retrier \<times> 'w) go" where
  "retrier_run r w =
     (case retry_func r of
        None \<Rightarrow> None
      | Some f \<Rightarrow> do {
          (out, w1) \<leftarrow> f w;
          Some (out, r\<lparr>attempts := attempts r + 1, last_err := snd out\<rparr>, w1)
        })"

definition retrier_interval :: "('w, 'a) retrier \<Rightarrow> duration go" where
  "retrier_interval r = retry_interval r (attempts r)"

definition retrier_should_retry :: "('w, 'a) retrier \<Rightarrow> bool" where
  "retrier_should_retry r =
     (if max_retries r > max_retries_unlimited \<and> attempts r \<ge> max_retries r then False
      else if length (only_retry_error r) > 0
      then list_ex (\<lambda>t. case last_err r of None \<Rightarrow> False | Some e \<Rightarrow> err_is e t) (only_retry_error r)
      else True)"

definition retrier_ops :: "('w, ('w, 'a) retrier, 'a) retryable" where
  "retrier_ops = \<lparr>rq_interval = retrier_interval, rq_run = retrier_run,
     rq_should_retry = retrier_should_retry\<rparr>"

subsection \<open>Interval functions\<close>

definition interval_duration :: "duration \<Rightarrow> int \<Rightarrow> duration go" where
  "interval_duration dur attempt = (if attempt = 0 then Some 0 else Some dur)"

text \<open>
  \<open>time.Duration(math.Pow(2, float64(attempt)))\<close>: exact below \<open>2\<^sup>6\<^sup>3\<close>; truncated to 0 for
  negative attempts; from \<open>2\<^sup>6\<^sup>3\<close> on Go leaves the conversion to the platform, which is the
  argument \<open>ovf\<close>.
\<close>

definition pow2_duration :: "duration \<Rightarrow> int \<Rightarrow> duration" where
  "pow2_duration ovf attempt =
     (if attempt < 0 then 0 else if attempt < 63 then 2 ^ nat attempt else ovf)"

definition interval_exponential :: "duration \<Rightarrow> duration \<Rightarrow> int \<Rightarrow> duration go" where
  "interval_exponential ovf base attempt =
     (if attempt = 0 then Some 0 else Some (pow2_duration ovf attempt * base))"

text \<open>
  The loop of \<open>IntervalFibonacci\<close> fills a slice from index 2 on. A negative attempt makes
  the slice expression panic.
\<close>

fun fib_fill :: "nat \<Rightarrow> nat \<Rightarrow> duration list \<Rightarrow> duration list" where
  "fib_fill i 0 s = s"
| "fib_fill i (Suc k) s = fib_fill (Suc i) k (s[i := s ! (i - 1) + s ! (i - 2)])"

definition interval_fibonacci :: "duration \<Rightarrow> int \<Rightarrow> duration go" where
  "interval_fibonacci base attempt =
     (if attempt < 0 then None
      else let n = nat attempt;
               s = replicate (if n \<le> 1 then 2 else n + 1) 0;
               s = s[0 := 0, 1 := 1];
               s = fib_fill 2 (n - 1) s
           in Some (s ! n * base))"

subsection \<open>Construction\<close>

definition default_retrier :: "('w, 'a) retrier" where
  "default_retrier = \<lparr>attempts = 0, max_retries = max_retries_unlimited, only_retry_error = [],
     retry_interval = interval_fibonacci (1 * second), retry_func = None, last_err = None\<rparr>"

definition new_retrier :: "('w, 'a) retrier_opt list \<Rightarrow> ('w, 'a) retrier \<times> error" where
  "new_retrier opts =
     (let r = apply_opts opts default_retrier in
      if retry_func r = None then (r, Some err_no_retry_func) else (r, None))"

definition with_retrier_func ::
  "('w \<Rightarrow> (('a option \<times> error) \<times> 'w) go) \<Rightarrow> ('w, 'a) retrier_opt" where
  "with_retrier_func f r = r\<lparr>retry_func := Some f\<rparr>"

definition with_max_retries :: "int \<Rightarrow> ('w, 'a) retrier_opt" where
  "with_max_retries n r = r\<lparr>max_retries := n\<rparr>"

definition with_only_retry_errors :: "goerr list \<Rightarrow> ('w, 'a) retrier_opt" where
  "with_only_retry_errors es r = r\<lparr>only_retry_error := es\<rparr>"

definition with_interval_func :: "(int \<Rightarrow> duration go) \<Rightarrow> ('w, 'a) retrier_opt" where
  "with_interval_func i r = r\<lparr>retry_interval := i\<rparr>"

definition retrier_clone :: "('w, 'a) retrier option \<Rightarrow> ('w, 'a) retrier option" where
  "retrier_clone r = r"

lemmas retrier_opt_defs = with_retrier_func_def with_max_retries_def
  with_only_retry_errors_def with_interval_func_def

lemma retrier_ops_simps [simp]:
  "rq_interval retrier_ops = retrier_interval"
  "rq_run retrier_ops = retrier_run"
  "rq_should_retry retrier_ops = retrier_should_retry"
  by (simp_all add: retrier_ops_def)

subsection \<open>What Retry promises\<close>

text \<open>
  The executions of the loop as a relation: \<open>retry_spec ops ctx res0 q w es oc res q' w'\<close>
  holds when, from the state \<open>q\<close> and the world \<open>w\<close>, the attempts fail with the errors \<open>es\<close>
  in this order and the run ends as \<open>oc\<close> says, leaving the last result \<open>res\<close>.
\<close>

datatype retry_outcome = Cancelled goerr | Succeeded | Gave_Up

inductive retry_spec ::
  "('w, 'q, 'a) retryable \<Rightarrow> 'w go_ctx \<Rightarrow> 'a option \<Rightarrow> 'q \<Rightarrow> 'w \<Rightarrow> goerr list \<Rightarrow> retry_outcome
    \<Rightarrow> 'a option \<Rightarrow> 'q \<Rightarrow> 'w \<Rightarrow> bool"
  for ops ctx where
  cancelled: "ctx_err ctx w = Some e \<Longrightarrow> retry_spec ops ctx res q w [] (Cancelled e) res q w"
| succeeded: "ctx_err ctx w = None \<Longrightarrow> rq_run ops q w = Some ((res1, None), q1, w1)
    \<Longrightarrow> retry_spec ops ctx res q w [] Succeeded res1 q1 w1"
| gave_up: "ctx_err ctx w = None \<Longrightarrow> rq_run ops q w = Some ((res1, Some e), q1, w1)
    \<Longrightarrow> \<not> rq_should_retry ops q1 \<Longrightarrow> retry_spec ops ctx res q w [e] Gave_Up res1 q1 w1"
| again: "ctx_err ctx w = None \<Longrightarrow> rq_run ops q w = Some ((res1, Some e), q1, w1)
    \<Longrightarrow> rq_should_retry ops q1 \<Longrightarrow> rq_interval ops q1 = Some d
    \<Longrightarrow> retry_spec ops ctx res1 q1 (time_sleep ctx d w1) es oc res2 q2 w2
    \<Longrightarrow> retry_spec ops ctx res q w (e # es) oc res2 q2 w2"

fun add_attempt_errs :: "nat \<Rightarrow> error \<Rightarrow> goerr list \<Rightarrow> error" where
  "add_attempt_errs n err [] = err"
| "add_attempt_errs n err (e # es) = add_attempt_errs (Suc n) (add_attempt_err n err e) es"

fun outcome_err :: "retry_outcome \<Rightarrow> error \<Rightarrow> error" where
  "outcome_err (Cancelled e) err = join_errs [err, Some e]"
| "outcome_err Succeeded err = None"
| "outcome_err Gave_Up err = err"

lemma spec_imp_loop:
  "retry_spec ops ctx res q w es oc res' q' w' \<Longrightarrow>
    retry_loop ops ctx n res err q w
      = Some ((res', outcome_err oc (add_attempt_errs n err es)), q', w')"
  by (induction arbitrary: n err rule: retry_spec.induct) (simp_all add: retry_loop.simps)

lemma loop_imp_spec:
  assumes "retry_loop ops ctx n res err q w = Some ((res', err'), q', w')"
  shows "\<exists>es oc. retry_spec ops ctx res q w es oc res' q' w'
    \<and> err' = outcome_err oc (add_attempt_errs n err es)"
proof -
  let ?P = "\<lambda>ops ctx n res err q w out. \<exists>es oc.
    retry_spec ops ctx res q w es oc (fst (fst out)) (fst (snd out)) (snd (snd out))
    \<and> snd (fst out) = outcome_err oc (add_attempt_errs n err es)"
  have "?P ops ctx n res err q w ((res', err'), q', w')"
  proof (rule retry_loop.raw_induct [where P = ?P, OF _ assms])
    fix f ops ctx n res err q w out
    assume IH: "\<And>ops ctx n res err q w out. f ops ctx n res err q w = Some out
        \<Longrightarrow> ?P ops ctx n res err q w out"
      and eq: "(case ctx_err ctx w of
        Some e \<Rightarrow> Some ((res, join_errs [err, Some e]), q, w)
      | None \<Rightarrow>
          Option.bind (rq_run ops q w) (\<lambda>(out, q1, w1).
            (case snd out of
               None \<Rightarrow> Some ((fst out, None), q1, w1)
             | Some e1 \<Rightarrow>
                 if \<not> rq_should_retry ops q1
                 then Some ((fst out, add_attempt_err n err e1), q1, w1)
                 else Option.bind (rq_interval ops q1) (\<lambda>d.
                   f ops ctx (Suc n) (fst out) (add_attempt_err n err e1) q1
                     (time_sleep ctx d w1))))) = Some out"
    show "?P ops ctx n res err q w out"
    proof (cases "ctx_err ctx w")
      case (Some e)
      with eq have "out = ((res, join_errs [err, Some e]), q, w)" by simp
      moreover have "retry_spec ops ctx res q w [] (Cancelled e) res q w"
        using Some by (rule retry_spec.cancelled)
      ultimately show ?thesis by (intro exI [of _ "[]"] exI [of _ "Cancelled e"]) simp
    next
      case None
      with eq obtain r1 e1 q1 w1 where run: "rq_run ops q w = Some ((r1, e1), q1, w1)"
        by (auto simp: bind_eq_Some_iff)
      show ?thesis
      proof (cases e1)
        case e1: None
        with eq None run have "out = ((r1, None), q1, w1)" by simp
        moreover have "retry_spec ops ctx res q w [] Succeeded r1 q1 w1"
          using None run e1 by (auto intro: retry_spec.succeeded)
        ultimately show ?thesis by (intro exI [of _ "[]"] exI [of _ Succeeded]) simp
      next
        case e1: (Some e)
        show ?thesis
        proof (cases "rq_should_retry ops q1")
          case False
          with eq None run e1 have "out = ((r1, add_attempt_err n err e), q1, w1)" by simp
          moreover have "retry_spec ops ctx res q w [e] Gave_Up r1 q1 w1"
            using None run e1 False by (auto intro: retry_spec.gave_up)
          ultimately show ?thesis by (intro exI [of _ "[e]"] exI [of _ Gave_Up]) simp
        next
          case True
          with eq None run e1 obtain d where d: "rq_interval ops q1 = Some d"
            and rec: "f ops ctx (Suc n) r1 (add_attempt_err n err e) q1 (time_sleep ctx d w1)
              = Some out"
            by (auto simp: bind_eq_Some_iff)
          from IH [OF rec] obtain es oc where
            "retry_spec ops ctx r1 q1 (time_sleep ctx d w1) es oc (fst (fst out)) (fst (snd out))
               (snd (snd out))"
            and "snd (fst out) = outcome_err oc (add_attempt_errs (Suc n) (add_attempt_err n err e) es)"
            by blast
          then show ?thesis using None run e1 True d
            by (intro exI [of _ "e # es"] exI [of _ oc]) (auto intro: retry_spec.again)
        qed
      qed
    qed
  qed
  then show ?thesis by simp
qed

text \<open>The loop and the relation describe the same executions.\<close>

lemma retry_iff_spec:
  "retry ops ctx q w = Some ((res, err), q', w') \<longleftrightarrow>
    (\<exists>es oc. retry_spec ops ctx None q w es oc res q' w'
       \<and> err = outcome_err oc (add_attempt_errs 1 None es))"
  unfolding retry_def by (auto dest: loop_imp_spec simp: spec_imp_loop)

lemma add_attempt_err_not_None [simp]: "add_attempt_err n err e = None \<longleftrightarrow> False"
  by (simp add: add_attempt_err_def)

lemma add_attempt_errs_eq_None [simp]:
  "add_attempt_errs n err es = None \<longleftrightarrow> es = [] \<and> err = None"
  by (induction n err es rule: add_attempt_errs.induct) auto

lemma outcome_err_None_iff:
  "retry_spec ops ctx res q w es oc res' q' w' \<Longrightarrow>
    outcome_err oc (add_attempt_errs n err es) = None \<longleftrightarrow> oc = Succeeded"
  by (induction arbitrary: n err rule: retry_spec.induct) auto

text \<open>No error is lost: what an attempt failed with can be found in the error returned.\<close>

lemma error_is_add_attempt_err [simp]:
  "error_is (add_attempt_err n err e) t \<longleftrightarrow> error_is err t \<or> err_is e t"
  by (auto simp: add_attempt_err_def error_is_join) (auto simp: error_is_def)

lemma error_is_add_attempt_errs [simp]:
  "error_is (add_attempt_errs n err es) t \<longleftrightarrow> error_is err t \<or> list_ex (\<lambda>e. err_is e t) es"
  by (induction n err es rule: add_attempt_errs.induct) auto

subsection \<open>Termination: every retry makes progress\<close>

text \<open>
  A retryable makes progress when each failed attempt that will be retried decreases a
  variant. Then the loop returns, whatever the attempts do.
\<close>

locale retry_progress =
  fixes ops :: "('w, 'q, 'a) retryable"
    and ctx :: "'w go_ctx"
    and inv :: "'q \<Rightarrow> 'w \<Rightarrow> bool"
    and variant :: "'q \<Rightarrow> 'w \<Rightarrow> nat"
  assumes run_returns: "inv q w \<Longrightarrow> ctx_err ctx w = None \<Longrightarrow> returns (rq_run ops q w)"
    and interval_returns: "inv q w \<Longrightarrow> ctx_err ctx w = None
      \<Longrightarrow> rq_run ops q w = Some ((res, Some e), q1, w1) \<Longrightarrow> rq_should_retry ops q1
      \<Longrightarrow> returns (rq_interval ops q1)"
    and retry_inv: "inv q w \<Longrightarrow> ctx_err ctx w = None
      \<Longrightarrow> rq_run ops q w = Some ((res, Some e), q1, w1) \<Longrightarrow> rq_should_retry ops q1
      \<Longrightarrow> rq_interval ops q1 = Some d \<Longrightarrow> inv q1 (time_sleep ctx d w1)"
    and retry_decreases: "inv q w \<Longrightarrow> ctx_err ctx w = None
      \<Longrightarrow> rq_run ops q w = Some ((res, Some e), q1, w1) \<Longrightarrow> rq_should_retry ops q1
      \<Longrightarrow> rq_interval ops q1 = Some d \<Longrightarrow> variant q1 (time_sleep ctx d w1) < variant q w"
begin

lemma loop_returns: "inv q w \<Longrightarrow> returns (retry_loop ops ctx n res err q w)"
proof (induction "variant q w" arbitrary: n res err q w rule: less_induct)
  case less
  show ?case
  proof (cases "ctx_err ctx w")
    case (Some e)
    then show ?thesis by (simp add: retry_loop.simps)
  next
    case None
    then obtain r1 e1 q1 w1 where run: "rq_run ops q w = Some ((r1, e1), q1, w1)"
      using run_returns [OF less.prems] by (auto simp: returns_iff)
    show ?thesis
    proof (cases "e1 = None \<or> \<not> rq_should_retry ops q1")
      case True
      with None run show ?thesis by (auto simp: retry_loop.simps split: option.splits)
    next
      case False
      then obtain e where e: "e1 = Some e" and sr: "rq_should_retry ops q1" by auto
      note step = less.prems None run [unfolded e] sr
      obtain d where d: "rq_interval ops q1 = Some d"
        using interval_returns [OF step] by (auto simp: returns_iff)
      have "returns (retry_loop ops ctx (Suc n) r1 (add_attempt_err n err e) q1 (time_sleep ctx d w1))"
        by (rule less.hyps [OF retry_decreases [OF step d] retry_inv [OF step d]])
      with None run e sr d show ?thesis by (simp add: retry_loop.simps [of ops ctx n])
    qed
  qed
qed

lemma retry_returns: "inv q w \<Longrightarrow> returns (retry ops ctx q w)"
  by (simp add: retry_def loop_returns)

end

text \<open>A retryable with a budget: each attempt it is willing to repeat uses some of it.\<close>

locale bounded_retryable =
  fixes ops :: "('w, 'q, 'a) retryable"
    and ok :: "'q \<Rightarrow> bool"
    and budget :: "'q \<Rightarrow> nat"
  assumes ok_run: "ok q \<Longrightarrow> returns (rq_run ops q w)"
    and ok_interval: "ok q \<Longrightarrow> returns (rq_interval ops q)"
    and run_ok: "ok q \<Longrightarrow> rq_run ops q w = Some (out, q1, w1) \<Longrightarrow> ok q1"
    and run_budget: "ok q \<Longrightarrow> rq_run ops q w = Some (out, q1, w1) \<Longrightarrow> rq_should_retry ops q1
      \<Longrightarrow> budget q1 < budget q"
begin

lemma bounded_progress: "retry_progress ops ctx (\<lambda>q w. ok q) (\<lambda>q w. budget q)"
  by unfold_locales (auto intro: ok_run ok_interval run_ok run_budget)

lemma bounded_returns: "ok q \<Longrightarrow> returns (retry ops ctx q w)"
  by (rule retry_progress.retry_returns [OF bounded_progress])

end

text \<open>The retrier with a maximum is such a retryable: its budget is what it has left.\<close>

definition retrier_total :: "('w, 'a) retrier \<Rightarrow> bool" where
  "retrier_total r \<longleftrightarrow> (\<exists>f. retry_func r = Some f \<and> (\<forall>w. returns (f w)))
     \<and> (\<forall>n. returns (retry_interval r n))"

definition retrier_bounded :: "('w, 'a) retrier \<Rightarrow> bool" where
  "retrier_bounded r \<longleftrightarrow> retrier_total r \<and> 0 \<le> max_retries r"

definition retrier_budget :: "('w, 'a) retrier \<Rightarrow> nat" where
  "retrier_budget r = nat (max_retries r - attempts r)"

lemma retrier_run_Some_iff:
  "retrier_run r w = Some (out, r1, w1) \<longleftrightarrow>
     (\<exists>f. retry_func r = Some f \<and> f w = Some (out, w1)
        \<and> r1 = r\<lparr>attempts := attempts r + 1, last_err := snd out\<rparr>)"
  by (cases out) (auto simp: retrier_run_def bind_eq_Some_iff split: option.splits)

lemma retrier_total_run:
  "retrier_total r \<Longrightarrow> returns (retrier_run r w)"
  by (auto simp: retrier_total_def retrier_run_def intro!: returns_intro)

lemma retrier_should_retry_max:
  "retrier_should_retry r \<Longrightarrow> 0 \<le> max_retries r \<Longrightarrow> attempts r < max_retries r"
  by (auto simp: retrier_should_retry_def max_retries_unlimited_def split: if_splits)

interpretation bounded_retrier: bounded_retryable retrier_ops retrier_bounded retrier_budget
proof (unfold_locales, goal_cases)
  case (1 r w)
  then show ?case by (simp add: retrier_bounded_def retrier_total_run)
next
  case (2 r)
  then show ?case by (simp add: retrier_bounded_def retrier_total_def retrier_interval_def)
next
  case (3 r w out r1 w1)
  then show ?case by (auto simp: retrier_run_Some_iff retrier_bounded_def retrier_total_def)
next
  case (4 r w out r1 w1)
  then have m: "max_retries r1 = max_retries r" "attempts r1 = attempts r + 1"
    by (auto simp: retrier_run_Some_iff)
  with 4 have "attempts r + 1 < max_retries r"
    using retrier_should_retry_max [of r1] by (simp add: retrier_bounded_def)
  then show ?case using m by (simp add: retrier_budget_def)
qed

interpretation bounded_run: retry_progress retrier_ops ctx
    "\<lambda>r w. retrier_bounded r" "\<lambda>r w. retrier_budget r" for ctx
  by (rule bounded_retrier.bounded_progress)

subsection \<open>How often a retrier runs\<close>

text \<open>A run of the retrier changes only the attempt counter and the last error.\<close>

lemma retrier_spec_frame:
  assumes "retry_spec retrier_ops ctx res r w es oc res' r' w'"
  shows "max_retries r' = max_retries r \<and> only_retry_error r' = only_retry_error r
    \<and> retry_interval r' = retry_interval r \<and> retry_func r' = retry_func r"
  using assms by (induction rule: retry_spec.induct) (auto simp: retrier_run_Some_iff)

lemma retrier_spec_attempts:
  assumes "retry_spec retrier_ops ctx res r w es oc res' r' w'"
  shows "attempts r' = attempts r + int (length es) + (if oc = Succeeded then 1 else 0)"
  using assms by (induction rule: retry_spec.induct) (auto simp: retrier_run_Some_iff)

lemma retrier_spec_bound:
  assumes "retry_spec retrier_ops ctx res r w es oc res' r' w'" "0 \<le> max_retries r"
  shows "attempts r' \<le> max (attempts r + 1) (max_retries r)"
  using assms
proof (induction rule: retry_spec.induct)
  case (again w r res1 e r1 w1 d es oc res2 r2 w2 res)
  have m: "max_retries r1 = max_retries r" "attempts r1 = attempts r + 1"
    using again.hyps(2) by (auto simp: retrier_run_Some_iff)
  moreover have "attempts r1 < max_retries r1"
    using retrier_should_retry_max [of r1] again.hyps(3) again.prems m by simp
  ultimately show ?case using again.IH again.prems by simp
qed (auto simp: retrier_run_Some_iff)

text \<open>An operation that only fails is run exactly as often as the maximum allows.\<close>

definition always_fails :: "('w, 'a) retrier \<Rightarrow> bool" where
  "always_fails r \<longleftrightarrow> (\<exists>f. retry_func r = Some f \<and> (\<forall>w. \<exists>res e w1. f w = Some ((res, Some e), w1)))"

lemma always_fails_run:
  assumes "always_fails r"
  shows "\<exists>res e r1 w1. retrier_run r w = Some ((res, Some e), r1, w1)"
proof -
  obtain f where f: "retry_func r = Some f" and "\<forall>w. \<exists>res e w1. f w = Some ((res, Some e), w1)"
    using assms by (auto simp: always_fails_def)
  then obtain res e w1 where "f w = Some ((res, Some e), w1)" by blast
  with f show ?thesis by (simp add: retrier_run_def)
qed

lemma retrier_spec_exhausts:
  assumes "retry_spec retrier_ops ctx res r w es oc res' r' w'"
    and "0 \<le> max_retries r" "only_retry_error r = []" "always_fails r" "\<And>w. ctx_err ctx w = None"
  shows "oc = Gave_Up \<and> attempts r' = max (attempts r + 1) (max_retries r)"
  using assms
proof (induction rule: retry_spec.induct)
  case (cancelled w e res r)
  then show ?case by simp
next
  case (succeeded w r res1 r1 w1 res)
  then show ?case using always_fails_run [of r w] by auto
next
  case (gave_up w r res1 e r1 w1 res)
  then have "max_retries r1 \<le> attempts r1" "max_retries r1 = max_retries r"
    "attempts r1 = attempts r + 1"
    by (auto simp: retrier_run_Some_iff retrier_should_retry_def max_retries_unlimited_def
        split: if_splits)
  then show ?case by simp
next
  case (again w r res1 e r1 w1 d es oc res2 r2 w2 res)
  have m: "max_retries r1 = max_retries r" "attempts r1 = attempts r + 1"
    "only_retry_error r1 = []" "always_fails r1"
    using again.hyps(2) again.prems by (auto simp: retrier_run_Some_iff always_fails_def)
  moreover have "attempts r1 < max_retries r1"
    using retrier_should_retry_max [of r1] again.hyps(3) again.prems m by simp
  ultimately show ?case using again.IH again.prems by simp
qed

text \<open>
  A retrier with a maximum and a total interval function, whatever its function is: the
  state in which callers keep a retrier between calls that set its function.
\<close>

definition retrier_capped :: "('w, 'a) retrier \<Rightarrow> bool" where
  "retrier_capped r \<longleftrightarrow> 0 \<le> max_retries r \<and> (\<forall>n. returns (retry_interval r n))"

lemma capped_retry_returns:
  assumes "retrier_capped r" "\<And>w. returns (f w)"
  shows "\<exists>res err r' w'. retry retrier_ops ctx (with_retrier_func f r) w = Some ((res, err), r', w')
    \<and> retrier_capped r'"
proof -
  let ?r = "with_retrier_func f r"
  have b: "retrier_bounded ?r"
    using assms by (simp add: retrier_capped_def retrier_bounded_def retrier_total_def retrier_opt_defs)
  obtain res err r' w' where ret: "retry retrier_ops ctx ?r w = Some ((res, err), r', w')"
    using bounded_retrier.bounded_returns [OF b, of ctx w] by (auto simp: returns_iff)
  then obtain es oc where "retry_spec retrier_ops ctx None ?r w es oc res r' w'"
    unfolding retry_iff_spec by blast
  from retrier_spec_frame [OF this] have "retrier_capped r'"
    using assms(1) by (simp add: retrier_capped_def retrier_opt_defs)
  with ret show ?thesis by blast
qed

text \<open>A retry without error ends with a run without error, made while the context was live.\<close>

lemma retry_spec_ok_last:
  assumes "retry_spec ops ctx res0 q w es oc res q' w'" "oc = Succeeded"
  shows "\<exists>q1 w1. ctx_err ctx w1 = None \<and> rq_run ops q1 w1 = Some ((res, None), q', w')"
  using assms by (induction rule: retry_spec.induct) auto

lemma retrier_ok_last:
  assumes "retry retrier_ops ctx r w = Some ((res, None), r', w')" "retry_func r = Some f"
  shows "\<exists>w1. ctx_err ctx w1 = None \<and> f w1 = Some ((res, None), w')"
proof -
  obtain es oc where spec: "retry_spec retrier_ops ctx None r w es oc res r' w'"
    and err: "None = outcome_err oc (add_attempt_errs 1 None es)"
    using assms(1) unfolding retry_iff_spec by blast
  have "oc = Succeeded" using outcome_err_None_iff [OF spec, of 1 None] err by simp
  then obtain r1 w1 where "ctx_err ctx w1 = None" "rq_run retrier_ops r1 w1 = Some ((res, None), r', w')"
    using retry_spec_ok_last [OF spec] by blast
  moreover from this have "retry_func r1 = Some f"
    using retrier_spec_frame [OF spec] assms(2) by (auto simp: retrier_run_Some_iff)
  ultimately show ?thesis by (auto simp: retrier_run_Some_iff)
qed

text \<open>The value of a retry is that of some run, unless the context was done at the outset.\<close>

lemma retrier_spec_func:
  assumes "retry_spec retrier_ops ctx res0 r w es oc res r' w'"
    and "retry_func r = Some f" "ctx_err ctx w = None"
  shows "\<exists>w1 e w2. f w1 = Some ((res, e), w2)"
  using assms
proof (induction rule: retry_spec.induct)
  case (again w q res1 e q1 w1 d es oc res2 q2 w2 res)
  have f: "retry_func q1 = Some f" "\<exists>v. f w = Some ((res1, Some e), v)"
    using again.hyps(2) again.prems by (auto simp: retrier_run_Some_iff)
  show ?case
  proof (cases "ctx_err ctx (time_sleep ctx d w1)")
    case None
    then show ?thesis using again.IH f(1) by blast
  next
    case (Some c)
    from again.hyps(5) Some have "res2 = res1" by (cases rule: retry_spec.cases) auto
    then show ?thesis using f(2) by blast
  qed
qed (auto simp: retrier_run_Some_iff)

lemma retrier_value:
  assumes "retry retrier_ops ctx r w = Some ((res, err), r', w')" "retry_func r = Some f"
    and "ctx_err ctx w = None"
  shows "\<exists>w1 e w2. f w1 = Some ((res, e), w2)"
proof -
  obtain es oc where "retry_spec retrier_ops ctx None r w es oc res r' w'"
    using assms(1) unfolding retry_iff_spec by blast
  from retrier_spec_func [OF this assms(2,3)] show ?thesis .
qed

text \<open>
  Waiting: a closure that reads a value, which may change the state it keeps, and succeeds
  only with a value it read without error and that passes a test. Then so does a retry of it.
\<close>

locale checked_source =
  fixes ctx :: "'w go_ctx"
    and get :: "'q \<Rightarrow> 'w \<Rightarrow> (('s option \<times> error) \<times> 'q \<times> 'w) go"
    and holds :: "'s \<Rightarrow> bool"
    and fn :: "'w \<times> 'q \<Rightarrow> (('s option option \<times> error) \<times> 'w \<times> 'q) go"
  assumes fn_ok: "fn (w, req) = Some ((v, None), w1, req1)
    \<Longrightarrow> \<exists>st. v = Some (Some st) \<and> get req w = Some ((Some st, None), req1, w1) \<and> holds st"
begin

lemma waited:
  assumes "retry retrier_ops (lift_ctx ctx) r (w, req) = Some ((v, None), r', w', req')"
    and "retry_func r = Some fn"
  shows "\<exists>st w1 req1. v = Some (Some st) \<and> ctx_err ctx w1 = None
    \<and> get req1 w1 = Some ((Some st, None), req', w') \<and> holds st"
proof -
  obtain s where "ctx_err (lift_ctx ctx) s = None" "fn s = Some ((v, None), w', req')"
    using retrier_ok_last [OF assms] by blast
  moreover obtain w1 req1 where "s = (w1, req1)" by (cases s)
  ultimately show ?thesis using fn_ok [of w1 req1 v w' req'] by auto
qed

end

text \<open>A retry whose context is already done does nothing.\<close>

lemma retry_cancelled:
  "ctx_err ctx w = Some e \<Longrightarrow> retry ops ctx q w = Some ((None, Some (ErrJoin [e])), q, w)"
  by (simp add: retry_def retry_loop.simps join_errs_def map_filter_simps)

text \<open>
  An unlimited retrier whose function always fails never returns while the context is live.
\<close>

lemma unlimited_spec_False:
  assumes "retry_spec retrier_ops ctx res0 r w es oc res r' w'"
    and "retry_func r = Some f" "max_retries r = max_retries_unlimited" "only_retry_error r = []"
    and "\<And>w. ctx_err ctx w = None" "\<And>w v w'. f w \<noteq> Some ((v, None), w')"
  shows False
  using assms
proof (induction rule: retry_spec.induct)
  case (succeeded w q res1 q1 w1 res)
  then show ?case by (auto simp: retrier_run_Some_iff)
next
  case (gave_up w q res1 e q1 w1 res)
  then show ?case by (auto simp: retrier_run_Some_iff retrier_should_retry_def)
next
  case (again w q res1 e q1 w1 d es oc res2 q2 w2 res)
  have "retry_func q1 = Some f" "max_retries q1 = max_retries_unlimited" "only_retry_error q1 = []"
    using again.hyps(2) again.prems by (auto simp: retrier_run_Some_iff)
  then show ?case using again.IH again.prems by blast
qed simp

lemma unlimited_retry_diverges:
  assumes "retry_func r = Some f" "max_retries r = max_retries_unlimited" "only_retry_error r = []"
    and "\<And>w. ctx_err ctx w = None" "\<And>w v w'. f w \<noteq> Some ((v, None), w')"
  shows "retry retrier_ops ctx r w = None"
proof (rule ccontr)
  assume "retry retrier_ops ctx r w \<noteq> None"
  then obtain res err r' w' where "retry retrier_ops ctx r w = Some ((res, err), r', w')"
    by (metis not_None_eq prod.exhaust_sel)
  then obtain es oc where "retry_spec retrier_ops ctx None r w es oc res r' w'"
    unfolding retry_iff_spec by blast
  from unlimited_spec_False [OF this assms] show False .
qed

text \<open>A retrier with a maximum of at most one is run once.\<close>

lemma retry_once:
  assumes "ctx_err ctx w = None" "retry_func r = Some f" "f w = Some ((res, err), w1)"
    and "0 \<le> max_retries r" "max_retries r \<le> attempts r + 1"
  shows "retry retrier_ops ctx r w = Some ((res, map_option (\<lambda>e. ErrJoin [e]) err),
    r\<lparr>attempts := attempts r + 1, last_err := err\<rparr>, w1)"
  using assms
  by (cases err) (auto simp: retry_def retry_loop.simps retrier_run_def retrier_should_retry_def
      max_retries_unlimited_def add_attempt_err_def join_errs_def map_filter_simps)

subsection \<open>Intervals\<close>

fun fib :: "nat \<Rightarrow> nat" where
  "fib 0 = 0"
| "fib (Suc 0) = 1"
| "fib (Suc (Suc n)) = fib (Suc n) + fib n"

lemma fib_fill_correct:
  assumes "2 \<le> i" "i + k \<le> length s" "\<And>j. j < i \<Longrightarrow> s ! j = of_nat (fib j)"
  shows "length (fib_fill i k s) = length s
    \<and> (\<forall>j < i + k. fib_fill i k s ! j = of_nat (fib j))"
  using assms
proof (induction i k s rule: fib_fill.induct)
  case (1 i s)
  then show ?case by simp
next
  case (2 i k s)
  obtain m where i: "i = Suc (Suc m)" using "2.prems"(1) by (metis add_2_eq_Suc le_Suc_ex)
  let ?s = "s[i := s ! (i - 1) + s ! (i - 2)]"
  have "?s ! j = of_nat (fib j)" if "j < Suc i" for j
    using that "2.prems" by (cases "j = i") (auto simp: i nth_list_update)
  then show ?case using "2" by simp
qed

lemma interval_fibonacci_eq:
  "interval_fibonacci base (int n) = Some (of_nat (fib n) * base)"
proof -
  let ?s0 = "(replicate (if n \<le> 1 then 2 else n + 1) (0::duration))[0 := 0, 1 := 1]"
  have "?s0 ! j = of_nat (fib j)" if "j < 2" for j
    using that by (cases j) (auto simp: less_Suc_eq numeral_2_eq_2)
  then have "fib_fill 2 (n - 1) ?s0 ! n = of_nat (fib n)"
    using fib_fill_correct [of 2 "n - 1" ?s0] by auto
  then show ?thesis by (simp add: interval_fibonacci_def Let_def)
qed

lemma unat_fib_times: "unat (of_nat (fib n) * base :: duration) = (fib n * unat base) mod 2 ^ 64"
proof -
  have "of_nat (fib n) * base = (of_nat (fib n * unat base) :: duration)" by simp
  then show ?thesis by (simp only: unat_of_nat) simp
qed

lemma unat_pow2_times: "unat (2 ^ n * base :: duration) = (2 ^ n * unat base) mod 2 ^ 64"
proof -
  have "2 ^ n * base = (of_nat (2 ^ n * unat base) :: duration)" by simp
  then show ?thesis by (simp only: unat_of_nat) simp
qed

subsection \<open>Properties\<close>

text \<open>
  C4: the result, the final state and the errors that Retry returns are exactly
  those of an execution of the attempt relation: each attempt runs only while the context
  is live, a successful attempt ends the loop without error, a failed one is repeated when
  ShouldRetry allows it, and the error returned joins the errors of all attempts in order.
\<close>

theorem retry_meets_spec:
  "retry ops ctx q w = Some ((res, err), q', w') \<longleftrightarrow>
    (\<exists>es oc. retry_spec ops ctx None q w es oc res q' w'
       \<and> err = outcome_err oc (add_attempt_errs 1 None es))"
  by (rule retry_iff_spec)

text \<open>
  Retry of a retrier whose maximum is set always returns, however its
  function behaves and without any help of the context, and it has run the function at
  most as often as the maximum says (once when the maximum is 0).
\<close>

theorem retry_bounded_returns:
  assumes "retrier_bounded r"
  shows "\<exists>res err r' w'. retry retrier_ops ctx r w = Some ((res, err), r', w')
    \<and> attempts r' \<le> max (attempts r + 1) (max_retries r)"
proof -
  obtain res err r' w' where ret: "retry retrier_ops ctx r w = Some ((res, err), r', w')"
    using bounded_retrier.bounded_returns [OF assms, of ctx w] by (auto simp: returns_iff)
  then obtain es oc where "retry_spec retrier_ops ctx None r w es oc res r' w'"
    unfolding retry_iff_spec by blast
  then show ?thesis using ret retrier_spec_bound assms by (fastforce simp: retrier_bounded_def)
qed

definition live_ctx :: "nat go_ctx" where
  "live_ctx = \<lparr>ctx_err = (\<lambda>w. None), time_sleep = (\<lambda>d w. w), random_id = (\<lambda>w. (''1'', w)),
     pow_overflow = 0\<rparr>"

definition failing_retrier :: "int \<Rightarrow> (nat, unit) retrier" where
  "failing_retrier n = default_retrier\<lparr>max_retries := n, retry_interval := interval_duration second,
     retry_func := Some (\<lambda>w. Some ((None, Some err_deadline), Suc w))\<rparr>"

lemma failing_retrier_bounded: "0 \<le> n \<Longrightarrow> retrier_bounded (failing_retrier n)"
  by (simp add: retrier_bounded_def retrier_total_def failing_retrier_def interval_duration_def)

theorem retry_bounded_returns_witness:
  "\<exists>res err r' w'. retry retrier_ops live_ctx (failing_retrier 3) 0 = Some ((res, err), r', w')
    \<and> attempts r' \<le> 3"
proof -
  have b: "retrier_bounded (failing_retrier 3)" by (simp add: failing_retrier_bounded)
  have m: "max (attempts (failing_retrier 3) + 1) (max_retries (failing_retrier 3)) = 3"
    by (simp add: failing_retrier_def default_retrier_def)
  show ?thesis using retry_bounded_returns [OF b, of live_ctx 0] unfolding m .
qed

text \<open>
  C5: while the context is live, a retrier that retries on every error and
  whose function only fails is run exactly max 1 MaxRetries times in all, so MaxRetries is
  the number of attempts and not the number of retries after the first, and the call ends
  with an error.
\<close>

theorem retry_exhausts_max:
  assumes "retrier_bounded r" "attempts r = 0" "only_retry_error r = []" "always_fails r"
    and "\<And>w. ctx_err ctx w = None"
  shows "\<exists>res e r' w'. retry retrier_ops ctx r w = Some ((res, Some e), r', w')
    \<and> attempts r' = max 1 (max_retries r)"
proof -
  obtain res err r' w' where ret: "retry retrier_ops ctx r w = Some ((res, err), r', w')"
    using bounded_retrier.bounded_returns [OF assms(1), of ctx w] by (auto simp: returns_iff)
  then obtain es oc where spec: "retry_spec retrier_ops ctx None r w es oc res r' w'"
    and err: "err = outcome_err oc (add_attempt_errs 1 None es)"
    unfolding retry_iff_spec by blast
  have ex: "oc = Gave_Up \<and> attempts r' = max (attempts r + 1) (max_retries r)"
    using retrier_spec_exhausts [OF spec] assms by (simp add: retrier_bounded_def)
  moreover have "err \<noteq> None" using outcome_err_None_iff [OF spec, of 1 None] ex err by simp
  ultimately show ?thesis using ret assms(2) by auto
qed

theorem retry_exhausts_max_witness:
  "\<exists>res e r' w'. retry retrier_ops live_ctx (failing_retrier 3) 0 = Some ((res, Some e), r', w')
    \<and> attempts r' = 3"
proof -
  have f: "always_fails (failing_retrier 3)"
    by (auto simp: always_fails_def failing_retrier_def)
  have "max 1 (max_retries (failing_retrier 3)) = 3" by (simp add: failing_retrier_def)
  then show ?thesis
    using retry_exhausts_max [OF failing_retrier_bounded _ _ f, of live_ctx 0]
    by (simp add: failing_retrier_def default_retrier_def live_ctx_def)
qed

text \<open>
  C6: when Retry ends with an error, errors.Is finds in it every error that any
  of the attempts failed with.
\<close>

theorem retry_keeps_errors:
  assumes "retry_spec ops ctx None q w es oc res q' w'" "oc \<noteq> Succeeded"
    and "e \<in> set es" "err_is e t"
  shows "\<exists>err. retry ops ctx q w = Some ((res, Some err), q', w') \<and> err_is err t"
proof -
  let ?err = "outcome_err oc (add_attempt_errs 1 None es)"
  have ret: "retry ops ctx q w = Some ((res, ?err), q', w')"
    using assms(1) unfolding retry_iff_spec by blast
  have "list_ex (\<lambda>e. err_is e t) es" using assms(3,4) by (auto simp: list_ex_iff)
  then have "error_is ?err t" using assms(2) by (cases oc) (auto simp: error_is_join)
  then show ?thesis using ret by (auto simp: error_is_def split: option.splits)
qed

theorem retry_keeps_errors_witness:
  "\<exists>res err q' w'. retry retrier_ops live_ctx (failing_retrier 1) 0 = Some ((res, Some err), q', w')
    \<and> err_is err err_deadline"
proof -
  let ?r = "failing_retrier 1"
  let ?r1 = "?r\<lparr>attempts := 1, last_err := Some err_deadline\<rparr>"
  have run: "rq_run retrier_ops ?r 0 = Some ((None, Some err_deadline), ?r1, 1)"
    by (simp add: failing_retrier_def default_retrier_def retrier_run_def)
  have stop: "\<not> rq_should_retry retrier_ops ?r1"
    by (simp add: failing_retrier_def retrier_should_retry_def max_retries_unlimited_def)
  have "retry_spec retrier_ops live_ctx None ?r 0 [err_deadline] Gave_Up None ?r1 1"
    using run stop by (intro retry_spec.gave_up) (simp_all add: live_ctx_def)
  from retry_keeps_errors [OF this, of err_deadline err_deadline]
  show ?thesis by (auto simp: err_deadline_def)
qed

text \<open>
  With OnlyRetryErrors set, an attempt that fails with an error that is
  none of those ends the loop at once, with that error alone.
\<close>

theorem retry_only_listed_errors:
  assumes "ctx_err ctx w = None" "retry_func r = Some f" "f w = Some ((res, Some e), w1)"
    and "only_retry_error r \<noteq> []" "\<And>t. t \<in> set (only_retry_error r) \<Longrightarrow> \<not> err_is e t"
  shows "retry retrier_ops ctx r w
    = Some ((res, Some (ErrJoin [e])), r\<lparr>attempts := attempts r + 1, last_err := Some e\<rparr>, w1)"
proof -
  let ?r1 = "r\<lparr>attempts := attempts r + 1, last_err := Some e\<rparr>"
  have "rq_run retrier_ops r w = Some ((res, Some e), ?r1, w1)"
    using assms(2,3) by (simp add: retrier_run_def)
  moreover have "\<not> retrier_should_retry ?r1"
    using assms(4,5) by (auto simp: retrier_should_retry_def list_ex_iff)
  ultimately show ?thesis using assms(1)
    by (simp add: retry_def retry_loop.simps add_attempt_err_def join_errs_def map_filter_simps)
qed

theorem retry_only_listed_errors_witness:
  "retry retrier_ops live_ctx (failing_retrier 5\<lparr>only_retry_error := [err_canceled]\<rparr>) 0
    = Some ((None, Some (ErrJoin [err_deadline])),
        failing_retrier 5\<lparr>only_retry_error := [err_canceled], attempts := 1,
          last_err := Some err_deadline\<rparr>, 1)"
  using retry_only_listed_errors
    [of live_ctx 0 "failing_retrier 5\<lparr>only_retry_error := [err_canceled]\<rparr>"
      "\<lambda>w. Some ((None, Some err_deadline), Suc w)" None err_deadline 1]
  by (simp add: live_ctx_def failing_retrier_def default_retrier_def err_deadline_def err_canceled_def)

text \<open>
  The Fibonacci interval of attempt n is the n-th Fibonacci number times
  the base duration, reduced to 64 bits.
\<close>

theorem interval_fibonacci_value:
  "\<exists>d. interval_fibonacci base (int n) = Some d \<and> unat d = (fib n * unat base) mod 2 ^ 64"
  by (simp add: interval_fibonacci_eq unat_fib_times)

text \<open>
  The exponential interval of attempt n, from 1 to 62, is 2 to the n
  times the base duration, reduced to 64 bits; it is exact as long as the product fits in
  a signed 64-bit integer.
\<close>

theorem interval_exponential_value:
  assumes "0 < n" "n < 63"
  shows "\<exists>d. interval_exponential ovf base (int n) = Some d
    \<and> unat d = (2 ^ n * unat base) mod 2 ^ 64
    \<and> (2 ^ n * unat base < 2 ^ 63 \<longrightarrow> unat d = 2 ^ n * unat base)"
  using assms by (simp add: interval_exponential_def pow2_duration_def unat_pow2_times)

theorem interval_exponential_value_witness:
  "\<exists>d. interval_exponential 0 (2 * second) (int 5) = Some d \<and> unat d = 64000000000"
proof -
  have "unat (2 * second) = 2000000000" by (simp add: second_def)
  then show ?thesis using interval_exponential_value [of 5 0 "2 * second"] by auto
qed

end
