(* ===== verification/Transport.thy ===== *)
theory Transport
  imports Retry
begin

text \<open>
  The packages \<open>internal/transport\<close> and \<open>internal/transport/command\<close>, and the part of the
  transports their clients see: a command to run is its text and environment, and a
  transport is what its operations do to the outside world. How a transport reaches its
  host (ssh, the Kubernetes and Nomad clients) is third-party code and stays a parameter.
\<close>

subsection \<open>Commands\<close>

record command =
  cmd_env :: "string \<Rightarrow> string option"
  cmd_text :: string

type_synonym command_opt = "command \<Rightarrow> command"

definition new_command :: "string \<Rightarrow> command_opt list \<Rightarrow> command" where
  "new_command text opts = apply_opts opts \<lparr>cmd_env = Map.empty, cmd_text = text\<rparr>"

definition with_env_vars :: "(string \<Rightarrow> string option) \<Rightarrow> command_opt" where
  "with_env_vars vars c = c\<lparr>cmd_env := cmd_env c ++ vars\<rparr>"

definition with_env_var :: "string \<Rightarrow> string \<Rightarrow> command_opt" where
  "with_env_var key val c = c\<lparr>cmd_env := (cmd_env c)(key \<mapsto> val)\<rparr>"

text \<open>
  \<open>Cmd()\<close> ranges over the environment map; \<open>order\<close> is the order in which this call visits
  the keys.
\<close>

definition env_word :: "string \<Rightarrow> string \<Rightarrow> string" where
  "env_word key val = key @ ''='' @ quoted val @ '' ''"

definition render_cmd :: "string list \<Rightarrow> command \<Rightarrow> string" where
  "render_cmd order c =
     concat (map (\<lambda>k. case cmd_env c k of Some v \<Rightarrow> env_word k v | None \<Rightarrow> []) order) @ cmd_text c"

subsection \<open>Errors of executions\<close>

text \<open>\<open>multierror.Append\<close> flattens multierrors and drops nil errors.\<close>

fun multi_append :: "goerr list \<Rightarrow> error list \<Rightarrow> goerr list" where
  "multi_append acc [] = acc"
| "multi_append acc (None # es) = multi_append acc es"
| "multi_append acc (Some e # es) =
     multi_append (acc @ (case e of ErrMulti xs \<Rightarrow> xs | _ \<Rightarrow> [e])) es"

definition error_or_nil :: "goerr list \<Rightarrow> error" where
  "error_or_nil es = (if es = [] then None else Some (ErrMulti es))"

definition new_exec_error :: "error \<Rightarrow> int \<Rightarrow> goerr" where
  "new_exec_error err code = ErrExec (multi_append [] [err]) code"

text \<open>\<open>ExecError.Append\<close>, \<open>Unwrap\<close> and \<open>ExitCode\<close>.\<close>

fun exec_append :: "goerr \<Rightarrow> error \<Rightarrow> goerr" where
  "exec_append (ErrExec es c) err = ErrExec (multi_append es [err]) c"
| "exec_append e err = e"

fun exec_unwrap :: "goerr \<Rightarrow> error" where
  "exec_unwrap (ErrExec [e] c) = Some e"
| "exec_unwrap (ErrExec es c) = error_or_nil es"
| "exec_unwrap e = None"

fun exit_code :: "goerr \<Rightarrow> int option" where
  "exit_code (ErrExec es c) = Some c"
| "exit_code e = None"

text \<open>
  \<open>ExecResponse\<close> once both streams have been drained: a stream is nil when the execution
  failed early. The buffers the streams are copied to never fail to take a write.
\<close>

record exec_response =
  resp_stdout :: "string option"
  resp_stderr :: "string option"
  resp_err :: error

definition captured :: "string option \<Rightarrow> string" where
  "captured r = (case r of None \<Rightarrow> [] | Some s \<Rightarrow> s)"

definition with_more_errs :: "error \<Rightarrow> goerr list \<Rightarrow> error" where
  "with_more_errs exec_err merr =
     (case exec_err of
        None \<Rightarrow> error_or_nil merr
      | Some e \<Rightarrow>
          (case e of
             ErrExec es c \<Rightarrow> Some (exec_append e (Some (ErrMulti merr)))
           | _ \<Rightarrow> error_or_nil (multi_append [] [Some e, Some (ErrMulti merr)])))"

definition wait_for_results :: "exec_response \<Rightarrow> string \<times> string \<times> error" where
  "wait_for_results r =
     (trim_suffix (captured (resp_stdout r)) [nl], trim_suffix (captured (resp_stderr r)) [nl],
      with_more_errs (resp_err r) [])"

text \<open>\<open>Copy\<close>: the error of the writer, the standard error of the remote side and its exit.\<close>

definition exec_copy :: "error \<Rightarrow> string \<Rightarrow> exec_response \<Rightarrow> error" where
  "exec_copy write_err dst r =
     (case wait_for_results r of (_, stderr, exec_err) \<Rightarrow>
        let merr = multi_append [] [write_err];
            merr = (if length stderr > 0
                    then multi_append merr [Some (ErrNew (''failed to copy to dst: ['' @ dst
                           @ ''], due to: ['' @ stderr @ '']''))]
                    else merr)
        in with_more_errs exec_err merr)"

subsection \<open>Transports\<close>

text \<open>
  Pods as \<open>k8s.io/api/core/v1\<close> gives them, cut to the fields the code reads when it checks
  states, and \<open>kubernetes.ListPods\<close> over the client's list call.
\<close>

record container_status =
  cs_name :: string
  cs_ready :: bool

record pod =
  pod_name :: string
  pod_phase :: string
  pod_message :: string
  pod_reason :: string
  pod_containers :: "container_status list"

type_synonym pod_list = "pod list"

record list_pods_response =
  lp_pods :: "pod_list option"

record 'w list_pods_request =
  lpr_namespace :: string
  lpr_labels :: "string list"
  lpr_fields :: "string list"
  lpr_retrier :: "('w, pod_list) retrier"
  lpr_retry_opts :: "('w, pod_list) retrier_opt list"

type_synonym 'w pods_client = "string \<Rightarrow> string \<Rightarrow> string \<Rightarrow> 'w \<Rightarrow> (pod_list \<times> error) \<times> 'w"

record 'w k8s_transport =
  k8s_pods :: "'w pods_client"
  k8s_namespace :: string
  k8s_pod :: string

text \<open>
  What \<open>Copy\<close> reads: \<open>file.NewReader\<close> makes a \<open>Copyable\<close> over the bytes of a string. It
  has a position, so copying consumes it. (\<open>transport/file/string_reader.go\<close>)
\<close>

record copyable =
  cp_bytes :: string
  cp_pos :: nat

definition new_reader :: "string \<Rightarrow> copyable" where
  "new_reader s = \<lparr>cp_bytes = s, cp_pos = 0\<rparr>"

definition cp_size :: "copyable \<Rightarrow> nat" where
  "cp_size c = length (cp_bytes c)"

definition cp_rest :: "copyable \<Rightarrow> string" where
  "cp_rest c = drop (cp_pos c) (cp_bytes c)"

definition cp_drain :: "copyable \<Rightarrow> copyable" where
  "cp_drain c = c\<lparr>cp_pos := length (cp_bytes c)\<rparr>"

lemma cp_rest_new_reader [simp]: "cp_rest (new_reader s) = s"
  by (simp add: cp_rest_def new_reader_def)

lemma cp_rest_drain [simp]: "cp_rest (cp_drain c) = []"
  by (simp add: cp_rest_def cp_drain_def)

record 'w transport =
  tr_type :: string
  tr_run :: "command \<Rightarrow> 'w \<Rightarrow> (string \<times> string \<times> error) \<times> 'w"
  tr_copy :: "copyable \<Rightarrow> string \<Rightarrow> 'w \<Rightarrow> error \<times> copyable \<times> 'w"
  tr_k8s :: "'w k8s_transport option"

text \<open>\<open>mock.New()\<close>: a transport that does nothing.\<close>

definition mock_transport :: "'w transport" where
  "mock_transport = \<lparr>tr_type = ''mock'', tr_run = (\<lambda>c w. (([], [], None), w)),
     tr_copy = (\<lambda>b d w. (None, b, w)), tr_k8s = None\<rparr>"

definition default_namespace :: string where
  "default_namespace = ''default''"

definition new_list_pods_request ::
  "duration \<Rightarrow> ('w list_pods_request \<Rightarrow> 'w list_pods_request) list \<Rightarrow> 'w list_pods_request" where
  "new_list_pods_request ovf opts =
     (let req = apply_opts opts
        \<lparr>lpr_namespace = default_namespace, lpr_labels = [], lpr_fields = [],
         lpr_retrier = \<lparr>attempts = 0, max_retries = max_retries_unlimited, only_retry_error = [],
           retry_interval = interval_exponential ovf (2 * second), retry_func = None,
           last_err = None\<rparr>,
         lpr_retry_opts = []\<rparr>
      in req\<lparr>lpr_retrier := apply_opts (lpr_retry_opts req) (lpr_retrier req)\<rparr>)"

definition with_list_pods_namespace :: "string \<Rightarrow> 'w list_pods_request \<Rightarrow> 'w list_pods_request" where
  "with_list_pods_namespace n r = r\<lparr>lpr_namespace := n\<rparr>"

definition with_list_pods_fields :: "string list \<Rightarrow> 'w list_pods_request \<Rightarrow> 'w list_pods_request" where
  "with_list_pods_fields fs r = r\<lparr>lpr_fields := fs\<rparr>"

definition with_list_pods_labels :: "string list \<Rightarrow> 'w list_pods_request \<Rightarrow> 'w list_pods_request" where
  "with_list_pods_labels ls r = r\<lparr>lpr_labels := ls\<rparr>"

definition with_list_pods_retry_opts ::
  "('w, pod_list) retrier_opt list \<Rightarrow> 'w list_pods_request \<Rightarrow> 'w list_pods_request" where
  "with_list_pods_retry_opts os r = r\<lparr>lpr_retry_opts := os\<rparr>"

text \<open>
  \<open>ListPods\<close>. The request keeps the retrier, with the function and the attempts of this
  call, for the next one.
\<close>

definition list_pods ::
  "'w go_ctx \<Rightarrow> 'w pods_client \<Rightarrow> 'w list_pods_request \<Rightarrow> 'w
    \<Rightarrow> ((list_pods_response \<times> error) \<times> 'w list_pods_request \<times> 'w) go" where
  "list_pods ctx client req w =
     (let ns = (if trim_space (lpr_namespace req) = [] then default_namespace else lpr_namespace req);
          labels = join_with '','' (lpr_labels req);
          fields = join_with '','' (lpr_fields req);
          f = (\<lambda>w. case client ns labels fields w of ((ps, e), w1) \<Rightarrow> Some ((Some ps, e), w1));
          r = with_retrier_func f (lpr_retrier req)
      in do {
        ((res, err), r1, w1) \<leftarrow> retry retrier_ops ctx r w;
        let req1 = req\<lparr>lpr_retrier := r1\<rparr>;
        Some (case err of
            Some e \<Rightarrow> ((\<lparr>lp_pods = None\<rparr>, Some (ErrWrap ''listing pods: '' e [])), req1, w1)
          | None \<Rightarrow>
              (case res of
                 Some ps \<Rightarrow> ((\<lparr>lp_pods = Some ps\<rparr>, None), req1, w1)
               | None \<Rightarrow> ((\<lparr>lp_pods = None\<rparr>,
                   Some (ErrNew ''listing pods: unexpected response type: <nil>'')), req1, w1)))
      })"

subsection \<open>Lemmas\<close>

lemma multi_append_Nil_iff:
  "multi_append acc es = [] \<longleftrightarrow> acc = [] \<and> (\<forall>e \<in> set es. e = None \<or> e = Some (ErrMulti []))"
  by (induction acc es rule: multi_append.induct) (auto split: goerr.splits)

lemma exit_code_with_more_errs:
  "with_more_errs (Some (ErrExec es c)) merr = Some (ErrExec (es @ merr) c)"
  by (simp add: with_more_errs_def)

lemma with_more_errs_None_iff:
  "with_more_errs err merr = None \<longleftrightarrow> merr = [] \<and> (err = None \<or> err = Some (ErrMulti []))"
  by (auto simp: with_more_errs_def error_or_nil_def split: option.splits goerr.splits)

lemma first_some_append_Some: "first_some xs = Some y \<Longrightarrow> first_some (xs @ ys) = Some y"
  by (induction xs rule: first_some.induct) auto

lemma with_more_errs_as_exec:
  "with_more_errs (Some e) merr = Some e' \<Longrightarrow> as_exec e = Some c \<Longrightarrow> as_exec e' = Some c"
  by (auto simp: with_more_errs_def error_or_nil_def first_some_append_Some
      split: goerr.splits if_splits)

lemma with_more_errs_is:
  "with_more_errs (Some e) merr = Some e' \<Longrightarrow> err_is e t \<Longrightarrow> err_is e' t"
  by (cases e) (auto simp: with_more_errs_def error_or_nil_def list_ex_iff split: if_splits)

lemma list_pods_returns:
  assumes "retrier_capped (lpr_retrier req)"
  shows "\<exists>out req1 w1. list_pods ctx client req w = Some (out, req1, w1)
    \<and> retrier_capped (lpr_retrier req1)"
proof -
  let ?ns = "if trim_space (lpr_namespace req) = [] then default_namespace else lpr_namespace req"
  let ?f = "\<lambda>w. case client ?ns (join_with '','' (lpr_labels req)) (join_with '','' (lpr_fields req)) w
    of ((ps, e), w1) \<Rightarrow> Some ((Some ps, e), w1)"
  have "\<And>w. returns (?f w)" by (auto split: prod.splits)
  from capped_retry_returns [OF assms, of ?f ctx w, OF this] obtain res err r1 w1 where
    "retry retrier_ops ctx (with_retrier_func ?f (lpr_retrier req)) w = Some ((res, err), r1, w1)"
    "retrier_capped r1" by blast
  then show ?thesis
    by (auto simp: list_pods_def Let_def split: option.splits)
qed

subsection \<open>Recording what is run\<close>

text \<open>
  The same transport in a world that also records the text of every command that was run,
  in order. It states which commands an operation runs, in its own terms.
\<close>

definition logged :: "'w transport \<Rightarrow> ('w \<times> string list) transport" where
  "logged tr = \<lparr>tr_type = tr_type tr,
     tr_run = (\<lambda>c s. case s of (w, log) \<Rightarrow>
       (case tr_run tr c w of (r, w1) \<Rightarrow> (r, (w1, log @ [cmd_text c])))),
     tr_copy = (\<lambda>b d s. case s of (w, log) \<Rightarrow>
       (case tr_copy tr b d w of (e, b1, w1) \<Rightarrow> (e, b1, (w1, log)))),
     tr_k8s = (case tr_k8s tr of None \<Rightarrow> None | Some k \<Rightarrow> Some
       \<lparr>k8s_pods = (\<lambda>ns ls fs s. case s of (w, log) \<Rightarrow>
          (case k8s_pods k ns ls fs w of (r, w1) \<Rightarrow> (r, (w1, log)))),
        k8s_namespace = k8s_namespace k, k8s_pod = k8s_pod k\<rparr>)\<rparr>"

lemma cmd_text_with_env_vars [simp]: "cmd_text (with_env_vars vs c) = cmd_text c"
  by (simp add: with_env_vars_def)

lemma cmd_text_with_env_var [simp]: "cmd_text (with_env_var k v c) = cmd_text c"
  by (simp add: with_env_var_def)

lemma cmd_text_new_command:
  "(\<And>opt c. opt \<in> set opts \<Longrightarrow> cmd_text (opt c) = cmd_text c)
    \<Longrightarrow> cmd_text (new_command text opts) = text"
  by (simp add: new_command_def apply_opts_frame [of opts cmd_text])

lemma tr_run_logged:
  "tr_run (logged tr) c (w, log) = (case tr_run tr c w of (r, w1) \<Rightarrow> (r, (w1, log @ [cmd_text c])))"
  by (simp add: logged_def)

lemma tr_copy_logged:
  "tr_copy (logged tr) b d (w, log) = (case tr_copy tr b d w of (e, b1, w1) \<Rightarrow> (e, b1, (w1, log)))"
  by (simp add: logged_def)

lemma tr_type_logged [simp]: "tr_type (logged tr) = tr_type tr"
  by (simp add: logged_def)

end
