(* ===== verification/RemoteFile.thy ===== *)
theory RemoteFile
  imports Transport
begin

text \<open>
  The files and directories a provider resource puts on a host: \<open>internal/remoteflight\<close>
  \<open>file.go\<close>, \<open>directory.go\<close> and \<open>errors.go\<close>. Every command is tried as the user first
  and with sudo when that fails.
\<close>

definition run_cmd :: "'w transport \<Rightarrow> string \<Rightarrow> 'w \<Rightarrow> (string \<times> string \<times> error) \<times> 'w" where
  "run_cmd tr text w = tr_run tr (new_command text []) w"

text \<open>
  One stage of \<open>CopyFile\<close>: run \<open>cmd\<close>; when it fails remember the error wrapped with its
  output and \<open>msg\<close>, run \<open>sudo_cmd\<close> and fail with both errors when that fails too.
\<close>

definition try_then_sudo ::
  "'w transport \<Rightarrow> string \<Rightarrow> string \<Rightarrow> string \<Rightarrow> string \<Rightarrow> 'w \<Rightarrow> error \<times> 'w" where
  "try_then_sudo tr cmd msg sudo_cmd sudo_msg w =
     (case run_cmd tr cmd w of
        ((_, _, None), w1) \<Rightarrow> (None, w1)
      | ((out, serr, Some e), w1) \<Rightarrow>
          (case run_cmd tr sudo_cmd w1 of
             ((_, _, None), w2) \<Rightarrow> (None, w2)
           | ((out1, serr1, Some e1), w2) \<Rightarrow>
               (join_errs [Some (wrap_error_with e [out, serr, msg]),
                  Some (wrap_error_with e1 [out1, serr1, sudo_msg])], w2)))"

record 'w copy_file_request =
  cf_content :: copyable
  cf_tmp_dir :: string
  cf_chmod :: string
  cf_chown :: string
  cf_destination :: string
  cf_retry_opts :: "('w \<times> copyable, unit) retrier_opt list"

type_synonym 'w copy_file_opt = "'w copy_file_request \<Rightarrow> 'w copy_file_request"

definition default_retry_opts :: "('w, 'a) retrier_opt list" where
  "default_retry_opts = [with_max_retries 3, with_interval_func (interval_fibonacci second)]"

text \<open>
  The content of a new request is nil in the code and an empty reader here; every caller sets it.
\<close>

definition new_copy_file_request :: "'w copy_file_opt list \<Rightarrow> 'w copy_file_request" where
  "new_copy_file_request opts = apply_opts opts
     \<lparr>cf_content = new_reader [], cf_tmp_dir = ''/tmp'', cf_chmod = [], cf_chown = [],
      cf_destination = [], cf_retry_opts = default_retry_opts\<rparr>"

definition with_copy_file_content :: "copyable \<Rightarrow> 'w copy_file_opt" where
  "with_copy_file_content c r = r\<lparr>cf_content := c\<rparr>"

definition with_copy_file_tmp_dir :: "string \<Rightarrow> 'w copy_file_opt" where
  "with_copy_file_tmp_dir d r = r\<lparr>cf_tmp_dir := d\<rparr>"

definition with_copy_file_chmod :: "string \<Rightarrow> 'w copy_file_opt" where
  "with_copy_file_chmod m r = r\<lparr>cf_chmod := m\<rparr>"

definition with_copy_file_chown :: "string \<Rightarrow> 'w copy_file_opt" where
  "with_copy_file_chown m r = r\<lparr>cf_chown := m\<rparr>"

definition with_copy_file_destination :: "string \<Rightarrow> 'w copy_file_opt" where
  "with_copy_file_destination d r = r\<lparr>cf_destination := d\<rparr>"

definition with_copy_file_retry_options ::
  "('w \<times> copyable, unit) retrier_opt list \<Rightarrow> 'w copy_file_opt" where
  "with_copy_file_retry_options os r = r\<lparr>cf_retry_opts := os\<rparr>"

lemmas copy_file_opt_defs = with_copy_file_content_def with_copy_file_tmp_dir_def
  with_copy_file_chmod_def with_copy_file_chown_def with_copy_file_destination_def
  with_copy_file_retry_options_def

text \<open>
  The closure \<open>fileOperations\<close>: copy to the temporary path, set mode and owner when asked
  for, make the directory, move the file into place. Its state is the content's reader.
\<close>

definition chmod_stage :: "'w transport \<Rightarrow> 'w copy_file_request \<Rightarrow> string \<Rightarrow> 'w \<Rightarrow> error \<times> 'w" where
  "chmod_stage tr file tmp w =
     (if cf_chmod file \<noteq> [] then
        try_then_sudo tr
          (''chmod '' @ cf_chmod file @ '' '' @ tmp) ''changing file permissions''
          (''sudo chmod '' @ cf_chmod file @ '' '' @ tmp) ''changing file permissions with sudo'' w
      else (None, w))"

definition chown_stage :: "'w transport \<Rightarrow> 'w copy_file_request \<Rightarrow> string \<Rightarrow> 'w \<Rightarrow> error \<times> 'w" where
  "chown_stage tr file tmp w =
     (if cf_chown file \<noteq> [] then
        try_then_sudo tr
          (''chown '' @ cf_chown file @ '' '' @ tmp) ''changing file ownership''
          (''sudo chown '' @ cf_chown file @ '' '' @ tmp) ''changing file ownership with sudo'' w
      else (None, w))"

definition mkdir_stage :: "'w transport \<Rightarrow> 'w copy_file_request \<Rightarrow> 'w \<Rightarrow> error \<times> 'w" where
  "mkdir_stage tr file w =
     (let dir = quoted (path_dir (cf_destination file));
          msg = ''creating file'' @ [quote_char] @ ''s directory on target host'' in
      try_then_sudo tr (''mkdir -p '' @ dir) msg (''sudo mkdir -p '' @ dir) msg w)"

definition mv_stage :: "'w transport \<Rightarrow> 'w copy_file_request \<Rightarrow> string \<Rightarrow> 'w \<Rightarrow> error \<times> 'w" where
  "mv_stage tr file tmp w =
     (let cmd = ''mv '' @ tmp @ '' '' @ cf_destination file;
          sudo_cmd = ''sudo mv '' @ tmp @ '' '' @ cf_destination file in
      try_then_sudo tr cmd (''moving file to destination path, cmd: '' @ cmd)
        sudo_cmd (''moving file to destination path with sudo, cmd: '' @ sudo_cmd) w)"

definition file_operations ::
  "'w transport \<Rightarrow> 'w copy_file_request \<Rightarrow> string \<Rightarrow> 'w \<times> copyable
    \<Rightarrow> ((unit option \<times> error) \<times> 'w \<times> copyable) go" where
  "file_operations tr file tmp s =
     (case s of (w, cp) \<Rightarrow>
      (case tr_copy tr cp tmp w of
         (Some e, cp1, w1) \<Rightarrow>
           Some ((None, Some (ErrWrap ''copying file to target host: '' e [])), w1, cp1)
       | (None, cp1, w1) \<Rightarrow>
      (case chmod_stage tr file tmp w1 of
         (Some e, w2) \<Rightarrow> Some ((None, Some e), w2, cp1)
       | (None, w2) \<Rightarrow>
      (case chown_stage tr file tmp w2 of
         (Some e, w3) \<Rightarrow> Some ((None, Some e), w3, cp1)
       | (None, w3) \<Rightarrow>
      (case mkdir_stage tr file w3 of
         (Some e, w4) \<Rightarrow> Some ((None, Some e), w4, cp1)
       | (None, w4) \<Rightarrow>
      (case mv_stage tr file tmp w4 of
         (Some e, w5) \<Rightarrow> Some ((None, Some e), w5, cp1)
       | (None, w5) \<Rightarrow> Some ((None, None), w5, cp1)))))))"

definition tmp_path :: "'w copy_file_request \<Rightarrow> string \<Rightarrow> string" where
  "tmp_path file rid =
     path_join [cf_tmp_dir file, path_base (cf_destination file) @ ''-'' @ rid]"

text \<open>\<open>CopyFile\<close>. It also gives back the reader, which the copies have moved on.\<close>

definition copy_file ::
  "'w go_ctx \<Rightarrow> 'w transport \<Rightarrow> 'w copy_file_request option \<Rightarrow> 'w
    \<Rightarrow> ((error \<times> copyable option) \<times> 'w) go" where
  "copy_file ctx tr req w =
     (case req of
        None \<Rightarrow> Some ((Some (ErrNew ''no file copy request provided''), None), w)
      | Some file \<Rightarrow>
          if cf_destination file = [] then
            Some ((Some (ErrNew ''you must supply a destination path''), Some (cf_content file)), w)
          else
            (case random_id ctx w of (rid, w0) \<Rightarrow>
             (case new_retrier (cf_retry_opts file
                 @ [with_retrier_func (file_operations tr file (tmp_path file rid))]) of
                (_, Some e) \<Rightarrow> Some ((Some e, Some (cf_content file)), w0)
              | (r, None) \<Rightarrow> do {
                  ((_, err), _, w1, cp) \<leftarrow> retry retrier_ops (lift_ctx ctx) r (w0, cf_content file);
                  Some ((err, Some cp), w1)
                })))"

record 'w delete_file_request =
  df_path :: string
  df_retry_opts :: "('w, unit) retrier_opt list"

definition new_delete_file_request ::
  "('w delete_file_request \<Rightarrow> 'w delete_file_request) list \<Rightarrow> 'w delete_file_request" where
  "new_delete_file_request opts =
     apply_opts opts \<lparr>df_path = [], df_retry_opts = default_retry_opts\<rparr>"

definition with_delete_file_retry_options ::
  "('w, unit) retrier_opt list \<Rightarrow> 'w delete_file_request \<Rightarrow> 'w delete_file_request" where
  "with_delete_file_retry_options os r = r\<lparr>df_retry_opts := os\<rparr>"

definition with_delete_file_path :: "string \<Rightarrow> 'w delete_file_request \<Rightarrow> 'w delete_file_request" where
  "with_delete_file_path p r = r\<lparr>df_path := p\<rparr>"

definition rm_file :: "'w transport \<Rightarrow> string \<Rightarrow> 'w \<Rightarrow> ((unit option \<times> error) \<times> 'w) go" where
  "rm_file tr path w =
     (case run_cmd tr (''rm -r '' @ path @ '' || sudo rm -r '' @ path) w of
        ((out, serr, Some e), w1) \<Rightarrow>
          Some ((None, Some (wrap_error_with e [out, serr, ''deleting file''])), w1)
      | ((out, serr, None), w1) \<Rightarrow> Some ((None, None), w1))"

definition delete_file ::
  "'w go_ctx \<Rightarrow> 'w transport \<Rightarrow> 'w delete_file_request option \<Rightarrow> 'w \<Rightarrow> (error \<times> 'w) go" where
  "delete_file ctx tr req w =
     (case req of
        None \<Rightarrow> Some (Some (ErrNew ''no file delete request provided''), w)
      | Some file \<Rightarrow>
          (case new_retrier (df_retry_opts file @ [with_retrier_func (rm_file tr (df_path file))]) of
             (_, Some e) \<Rightarrow> Some (Some e, w)
           | (r, None) \<Rightarrow> do {
               ((_, err), _, w1) \<leftarrow> retry retrier_ops ctx r w;
               Some (err, w1)
             }))"

subsection \<open>Directories\<close>

record create_directory_request =
  cd_name :: string
  cd_owner :: string

definition new_create_directory_request ::
  "(create_directory_request \<Rightarrow> create_directory_request) list \<Rightarrow> create_directory_request" where
  "new_create_directory_request opts = apply_opts opts \<lparr>cd_name = [], cd_owner = []\<rparr>"

definition with_dir_name :: "string \<Rightarrow> create_directory_request \<Rightarrow> create_directory_request" where
  "with_dir_name d r = r\<lparr>cd_name := d\<rparr>"

definition with_dir_chown :: "string \<Rightarrow> create_directory_request \<Rightarrow> create_directory_request" where
  "with_dir_chown o' r = r\<lparr>cd_owner := o'\<rparr>"

definition create_directory ::
  "'w transport \<Rightarrow> create_directory_request option \<Rightarrow> 'w \<Rightarrow> error \<times> 'w" where
  "create_directory tr req w =
     (case req of
        None \<Rightarrow> (Some (ErrNew ''no directory or owner provided''), w)
      | Some dir \<Rightarrow>
          if cd_name dir = [] then (Some (ErrNew ''no directory provided''), w)
          else
            (case run_cmd tr (''mkdir -p '' @ quoted (cd_name dir)
                @ '' || sudo mkdir -p '' @ quoted (cd_name dir)) w of
               ((out, serr, Some e), w1) \<Rightarrow>
                 (Some (wrap_error_with e [out, serr, ''creating directory on target host'']), w1)
             | ((_, _, None), w1) \<Rightarrow>
                 if cd_owner dir \<noteq> [] then
                   (case run_cmd tr (''chown -R '' @ cd_owner dir @ '' '' @ cd_name dir
                       @ '' || sudo chown -R '' @ cd_owner dir @ '' '' @ cd_name dir) w1 of
                      ((out, serr, Some e), w2) \<Rightarrow>
                        (Some (wrap_error_with e [out, serr, ''changing file ownership'']), w2)
                    | ((_, _, None), w2) \<Rightarrow> (None, w2))
                 else (None, w1)))"

subsection \<open>Lemmas\<close>

text \<open>A command ran as the user, or failed as the user and ran with sudo.\<close>

definition ran_ok :: "'w transport \<Rightarrow> string \<Rightarrow> string \<Rightarrow> 'w \<Rightarrow> 'w \<Rightarrow> bool" where
  "ran_ok tr cmd sudo_cmd w w' \<longleftrightarrow>
     (\<exists>out serr. run_cmd tr cmd w = ((out, serr, None), w'))
     \<or> (\<exists>out serr e w1 out1 serr1. run_cmd tr cmd w = ((out, serr, Some e), w1)
          \<and> run_cmd tr sudo_cmd w1 = ((out1, serr1, None), w'))"

lemma try_then_sudo_ok_iff:
  "try_then_sudo tr cmd msg sudo_cmd sudo_msg w = (None, w') \<longleftrightarrow> ran_ok tr cmd sudo_cmd w w'"
  by (auto simp: try_then_sudo_def ran_ok_def split: prod.splits option.splits)

lemma file_operations_returns: "returns (file_operations tr file tmp s)"
  by (auto simp: file_operations_def split: prod.splits option.splits)

lemma file_operations_ok_iff:
  "file_operations tr file tmp (w, cp) = Some ((r, None), w', cp') \<longleftrightarrow>
     r = None \<and> (\<exists>w1 w2 w3 w4. tr_copy tr cp tmp w = (None, cp', w1)
       \<and> chmod_stage tr file tmp w1 = (None, w2) \<and> chown_stage tr file tmp w2 = (None, w3)
       \<and> mkdir_stage tr file w3 = (None, w4) \<and> mv_stage tr file tmp w4 = (None, w'))"
  by (auto simp: file_operations_def split: prod.splits option.splits)

lemma new_retrier_with_func:
  "new_retrier (opts @ [with_retrier_func f])
    = (with_retrier_func f (apply_opts opts default_retrier), None)"
  by (simp add: new_retrier_def Let_def retrier_opt_defs)

lemma copy_file_ok_cases:
  assumes "copy_file ctx tr (Some file) w = Some ((None, cp), w')"
  shows "\<exists>rid w0 cp0 cp1. random_id ctx w = (rid, w0) \<and> cp = Some cp1 \<and>
    (\<exists>w1. ctx_err ctx w1 = None
       \<and> file_operations tr file (tmp_path file rid) (w1, cp0) = Some ((None, None), w', cp1))"
proof -
  obtain rid w0 where rid: "random_id ctx w = (rid, w0)" by (cases "random_id ctx w")
  let ?f = "file_operations tr file (tmp_path file rid)"
  let ?r = "with_retrier_func ?f (apply_opts (cf_retry_opts file) default_retrier)"
  from assms rid obtain res r1 cp1 where
    ret: "retry retrier_ops (lift_ctx ctx) ?r (w0, cf_content file) = Some ((res, None), r1, w', cp1)"
    and cp: "cp = Some cp1"
    by (auto simp: copy_file_def new_retrier_with_func bind_eq_Some_iff split: if_splits)
  have "retry_func ?r = Some ?f" by (simp add: with_retrier_func_def)
  from retrier_ok_last [OF ret this] obtain w1 cp0
    where "ctx_err ctx w1 = None" "?f (w1, cp0) = Some ((res, None), w', cp1)" by auto
  moreover from this have "res = None" by (simp add: file_operations_ok_iff)
  ultimately show ?thesis using rid cp by auto
qed

subsection \<open>Properties\<close>

text \<open>
  C7: when CopyFile returns without error, some attempt made while the
  context was live went through every stage: the content was copied to the temporary path
  of this call, the mode and the owner were set when the request names them, the directory
  was made, and last the temporary file was moved to the destination; each command either
  ran as the user or, after failing so, ran with sudo.
\<close>

theorem copy_file_complete:
  assumes "copy_file ctx tr (Some file) w = Some ((None, cp), w')"
  shows "\<exists>rid cp0 cp1 w0 w1 w2 w3 w4. ctx_err ctx w0 = None
    \<and> fst (random_id ctx w) = rid
    \<and> tr_copy tr cp0 (tmp_path file rid) w0 = (None, cp1, w1)
    \<and> (if cf_chmod file \<noteq> [] then
         ran_ok tr (''chmod '' @ cf_chmod file @ '' '' @ tmp_path file rid)
           (''sudo chmod '' @ cf_chmod file @ '' '' @ tmp_path file rid) w1 w2 else w2 = w1)
    \<and> (if cf_chown file \<noteq> [] then
         ran_ok tr (''chown '' @ cf_chown file @ '' '' @ tmp_path file rid)
           (''sudo chown '' @ cf_chown file @ '' '' @ tmp_path file rid) w2 w3 else w3 = w2)
    \<and> ran_ok tr (''mkdir -p '' @ quoted (path_dir (cf_destination file)))
         (''sudo mkdir -p '' @ quoted (path_dir (cf_destination file))) w3 w4
    \<and> ran_ok tr (''mv '' @ tmp_path file rid @ '' '' @ cf_destination file)
         (''sudo mv '' @ tmp_path file rid @ '' '' @ cf_destination file) w4 w'"
proof -
  obtain rid w00 cp0 cp1 w0 where rid: "random_id ctx w = (rid, w00)" "ctx_err ctx w0 = None"
    and ops: "file_operations tr file (tmp_path file rid) (w0, cp0) = Some ((None, None), w', cp1)"
    using copy_file_ok_cases [OF assms] by auto
  from ops obtain w1 w2 w3 w4 where
    st: "tr_copy tr cp0 (tmp_path file rid) w0 = (None, cp1, w1)"
    "chmod_stage tr file (tmp_path file rid) w1 = (None, w2)"
    "chown_stage tr file (tmp_path file rid) w2 = (None, w3)"
    "mkdir_stage tr file w3 = (None, w4)" "mv_stage tr file (tmp_path file rid) w4 = (None, w')"
    unfolding file_operations_ok_iff by blast
  show ?thesis
    by (rule exI [of _ rid], rule exI [of _ cp0], rule exI [of _ cp1], rule exI [of _ w0],
        rule exI [of _ w1], rule exI [of _ w2], rule exI [of _ w3], rule exI [of _ w4])
      (use rid st in \<open>auto simp: chmod_stage_def chown_stage_def mkdir_stage_def mv_stage_def
        Let_def try_then_sudo_ok_iff\<close>)
qed

definition demo_copy :: "nat copy_file_request" where
  "demo_copy = new_copy_file_request [with_copy_file_content (new_reader ''x''),
     with_copy_file_destination ''/opt/bin/x'', with_copy_file_chmod ''+x'']"

text \<open>
  A host on which every command works and changes nothing one can see, except perhaps
  those that name a program by its absolute path.
\<close>

definition quiet :: "'w transport \<Rightarrow> bool" where
  "quiet tr \<longleftrightarrow>
     (\<forall>c w. take 1 (cmd_text c) \<noteq> [slash] \<longrightarrow> (\<exists>out serr. tr_run tr c w = ((out, serr, None), w)))
     \<and> (\<forall>b d w. tr_copy tr b d w = (None, b, w))"

lemma quiet_mock: "quiet mock_transport"
  by (simp add: quiet_def mock_transport_def)

lemma quiet_run: "quiet tr \<Longrightarrow> take 1 c \<noteq> [slash] \<Longrightarrow> \<exists>out serr. run_cmd tr c w = ((out, serr, None), w)"
  by (simp add: run_cmd_def quiet_def new_command_def)

lemma quiet_try_then_sudo:
  "quiet tr \<Longrightarrow> take 1 c \<noteq> [slash] \<Longrightarrow> try_then_sudo tr c m sc sm w = (None, w)"
  using quiet_run [of tr c w] by (auto simp: try_then_sudo_ok_iff ran_ok_def)

lemma quiet_copy_file:
  assumes "quiet tr" "cf_destination file \<noteq> []"
  shows "copy_file live_ctx tr (Some file) w = Some ((None, Some (cf_content file)), w)"
proof -
  have "file_operations tr file tmp (w, cp) = Some ((None, None), w, cp)" for tmp cp
  proof -
    have "tr_copy tr b d v = (None, b, v)" for b d v using assms(1) by (simp add: quiet_def)
    then show ?thesis
      by (simp add: file_operations_def chmod_stage_def chown_stage_def mkdir_stage_def
          mv_stage_def quiet_try_then_sudo [OF assms(1)] Let_def)
  qed
  then show ?thesis
    using assms(2)
    by (simp add: copy_file_def live_ctx_def new_retrier_with_func retry_def retry_loop.simps
        retrier_run_def with_retrier_func_def lift_ctx_def)
qed

theorem copy_file_complete_witness:
  "\<exists>w3 w4. ran_ok mock_transport
     (''mv '' @ tmp_path demo_copy ''1'' @ '' /opt/bin/x'')
     (''sudo mv '' @ tmp_path demo_copy ''1'' @ '' /opt/bin/x'') w3 (w4::nat)"
proof -
  have "cf_destination demo_copy \<noteq> []"
    by (simp add: demo_copy_def new_copy_file_request_def copy_file_opt_defs)
  from copy_file_complete [OF quiet_copy_file [OF quiet_mock this, of "0::nat"]] show ?thesis
    by (auto simp: live_ctx_def demo_copy_def new_copy_file_request_def copy_file_opt_defs)
qed

subsection \<open>Returning\<close>

lemma copy_file_returns:
  assumes "retrier_capped (apply_opts (cf_retry_opts file) default_retrier)"
  shows "returns (copy_file ctx tr (Some file) w)"
proof -
  obtain rid w0 where rid: "random_id ctx w = (rid, w0)" by (cases "random_id ctx w")
  have "returns (file_operations tr file (tmp_path file rid) s)" for s
    by (rule file_operations_returns)
  with capped_retry_returns [OF assms, of "file_operations tr file (tmp_path file rid)"
      "lift_ctx ctx" "(w0, cf_content file)"]
  show ?thesis
    by (auto simp: copy_file_def rid new_retrier_with_func)
qed

end
