(* ===== verification/Target.thy ===== *)
theory Target
  imports RemoteFile
begin

text \<open>
  What a provider resource finds out about its host: \<open>internal/remoteflight/target.go\<close>.
  Every question is a command run under the retrier of the request. The request is a
  pointer: its retrier, with the function and the attempt counter of the last question, is
  still there for the next one, so every operation also returns the request. The dynamic
  value \<open>any\<close> that Retry returns is \<open>None\<close> for the nil interface; the type assertion
  \<open>v.(string)\<close> panics on it.
\<close>

record 'w target_request =
  tg_retrier :: "('w, string) retrier"
  tg_retry_opts :: "('w, string) retrier_opt list"

type_synonym 'w target_opt = "'w target_request \<Rightarrow> 'w target_request"
type_synonym 'w target_fn = "'w \<Rightarrow> ((string option \<times> error) \<times> 'w) go"
type_synonym ('w, 'a) target_result = "(('a \<times> error) \<times> 'w target_request \<times> 'w) go"

definition target_clone :: "'w target_request \<Rightarrow> 'w target_request" where
  "target_clone t = \<lparr>tg_retrier = tg_retrier t, tg_retry_opts = tg_retry_opts t\<rparr>"

record host_info =
  hi_arch :: string
  hi_distro :: string
  hi_distro_version :: string
  hi_hostname :: string
  hi_pid1 :: string
  hi_platform :: string
  hi_platform_version :: string

definition new_target_request :: "duration \<Rightarrow> 'w target_opt list \<Rightarrow> 'w target_request" where
  "new_target_request ovf opts =
     (let req = apply_opts opts
        \<lparr>tg_retrier = \<lparr>attempts = 0, max_retries = max_retries_unlimited, only_retry_error = [],
           retry_interval = interval_exponential ovf (2 * second), retry_func = None,
           last_err = None\<rparr>,
         tg_retry_opts = []\<rparr>
      in req\<lparr>tg_retrier := apply_opts (tg_retry_opts req) (tg_retrier req)\<rparr>)"

definition with_target_request_retry_opts ::
  "('w, string) retrier_opt list \<Rightarrow> 'w target_opt" where
  "with_target_request_retry_opts os t = t\<lparr>tg_retry_opts := os\<rparr>"

text \<open>\<open>req.Func = f; retry.Retry(ctx, req.Retrier)\<close>.\<close>

definition retry_target ::
  "'w go_ctx \<Rightarrow> 'w target_fn \<Rightarrow> 'w target_request \<Rightarrow> 'w
    \<Rightarrow> ((string option \<times> error) \<times> 'w target_request \<times> 'w) go" where
  "retry_target ctx f req w = do {
     (out, r1, w1) \<leftarrow> retry retrier_ops ctx (with_retrier_func f (tg_retrier req)) w;
     Some (out, req\<lparr>tg_retrier := r1\<rparr>, w1)
   }"

text \<open>
  The closures that run one command: its error is wrapped with \<open>what\<close> and the standard
  error; an empty answer is an error, too.
\<close>

definition ask ::
  "'w transport \<Rightarrow> string \<Rightarrow> (goerr \<Rightarrow> string \<Rightarrow> goerr) \<Rightarrow> (string \<Rightarrow> goerr) \<Rightarrow> 'w target_fn" where
  "ask tr cmd on_err on_empty w =
     (case run_cmd tr cmd w of
        ((out, serr, Some e), w1) \<Rightarrow> Some ((Some [], Some (on_err e serr)), w1)
      | ((out, serr, None), w1) \<Rightarrow>
          if out = [] then Some ((Some [], Some (on_empty serr)), w1)
          else Some ((Some out, None), w1))"

definition format_platform :: "string \<Rightarrow> string" where
  "format_platform = to_lower"

definition format_arch :: "string \<Rightarrow> string" where
  "format_arch arch =
     (if arch = ''x86_64'' then ''amd64'' else if arch = ''aarch64'' then ''arm64'' else arch)"

definition arch_fn :: "'w transport \<Rightarrow> 'w target_fn" where
  "arch_fn tr = ask tr ''uname -m''
     (\<lambda>e serr. ErrWrap ''determining target host architecture: '' e ('', STDERR:'' @ serr))
     (\<lambda>serr. ErrNew (''failed to determine architecture, STDERR: '' @ serr))"

definition target_architecture ::
  "'w go_ctx \<Rightarrow> 'w transport \<Rightarrow> 'w target_request \<Rightarrow> 'w \<Rightarrow> ('w, string) target_result" where
  "target_architecture ctx tr req w = do {
     ((arch, err), req1, w1) \<leftarrow> retry_target ctx (arch_fn tr) req w;
     Some (case (err, arch) of
         (None, Some a) \<Rightarrow> ((format_arch a, None), req1, w1)
       | _ \<Rightarrow> (([], err), req1, w1))
   }"

text \<open>\<open>findInOsRelease\<close>: the value of the first line whose key is the needle.\<close>

fun find_os_line :: "string list \<Rightarrow> string \<Rightarrow> string option" where
  "find_os_line [] needle = None"
| "find_os_line (l # ls) needle =
     (case split_on (CHR ''='') l of
        k # v # _ \<Rightarrow> if k = needle then Some (trim_if (\<lambda>c. c = dquote) v) else find_os_line ls needle
      | _ \<Rightarrow> find_os_line ls needle)"

definition find_in_os_release :: "string \<Rightarrow> string \<Rightarrow> string \<times> error" where
  "find_in_os_release haystack needle =
     (if haystack = [] then
        ([], Some (ErrNew (''cannot find '' @ needle @ '' in blank /etc/os-release'')))
      else
        (case find_os_line (scan_lines haystack) needle of
           Some v \<Rightarrow> (v, None)
         | None \<Rightarrow>
             (let err = ErrNew (''cannot find '' @ needle
                    @ '' in /etc/os-release, /etc/os-release: '' @ haystack) in
              case scan_err haystack of
                Some serr \<Rightarrow> ([], join_errs [Some serr, Some err])
              | None \<Rightarrow> ([], Some err))))"

text \<open>\<open>fmt.Errorf("pre %w post", err)\<close> when \<open>err\<close> may be nil: then nothing is wrapped.\<close>

definition errorf_w :: "string \<Rightarrow> error \<Rightarrow> string \<Rightarrow> goerr" where
  "errorf_w pre err post =
     (case err of Some e \<Rightarrow> ErrWrap pre e post | None \<Rightarrow> ErrNew (pre @ ''%!w(<nil>)'' @ post))"

definition distro_fn :: "'w transport \<Rightarrow> 'w target_fn" where
  "distro_fn tr w =
     (case run_cmd tr ''cat /etc/os-release'' w of ((content, serr, err), w1) \<Rightarrow>
      let errs = (case err of
             Some e \<Rightarrow> join_errs [Some (ErrWrap ''attempting to get distro from /etc/os-release: ''
                         e ('': STDERR: '' @ serr))]
           | None \<Rightarrow> None);
          (found, errs) =
            (if err = None \<and> content \<noteq> [] then
               (let (distro, e1) = find_in_os_release content ''ID'';
                    errs = join_errs [errs, Some (errorf_w
                      ''attempting to get distro from /etc/os-release content: '' e1
                      ('': STDERR: '' @ serr))]
                in (if distro \<noteq> [] \<and> e1 = None then Some distro else None, errs))
             else (None, errs))
      in case found of
           Some distro \<Rightarrow> Some ((Some distro, None), w1)
         | None \<Rightarrow>
             (case run_cmd tr ''lsb_release -si'' w1 of ((content, serr, err), w2) \<Rightarrow>
                (case err of
                   Some e \<Rightarrow> Some ((Some [], join_errs [errs,
                       Some (ErrWrap ''attempting to get distro from lsb_release: '' e
                         ('': STDERR: '' @ serr))]), w2)
                 | None \<Rightarrow>
                     if content \<noteq> [] then Some ((Some (to_lower content), None), w2)
                     else Some ((Some [], errs), w2))))"

definition target_distro ::
  "'w go_ctx \<Rightarrow> 'w transport \<Rightarrow> 'w target_request \<Rightarrow> 'w \<Rightarrow> ('w, string) target_result" where
  "target_distro ctx tr req w = do {
     ((distro, err), req1, w1) \<leftarrow> retry_target ctx (distro_fn tr) req w;
     d \<leftarrow> deref distro;
     Some ((d, err), req1, w1)
   }"

text \<open>Here every step overwrites the errors of the ones before it.\<close>

definition distro_version_fn :: "'w transport \<Rightarrow> 'w target_fn" where
  "distro_version_fn tr w =
     (case run_cmd tr ''cat /etc/os-release'' w of ((content, serr, err), w1) \<Rightarrow>
      let errs = (case err of
             Some e \<Rightarrow> join_errs [err,
               Some (ErrWrap ''attempting to get distro version from /etc/os-release: ''
                 e ('': STDERR: '' @ serr))]
           | None \<Rightarrow> None);
          (found, errs) =
            (if err = None \<and> content \<noteq> [] then
               (let (version, e1) = find_in_os_release content ''VERSION_ID'';
                    errs = join_errs [e1, Some (errorf_w
                      ''attempting to get distro version from /etc/os-release content: '' e1
                      ('': STDERR: '' @ serr))]
                in (if version \<noteq> [] \<and> e1 = None then Some version else None, errs))
             else (None, errs))
      in case found of
           Some version \<Rightarrow> Some ((Some version, None), w1)
         | None \<Rightarrow>
             (case run_cmd tr ''lsb_release -sr'' w1 of ((content, serr, err), w2) \<Rightarrow>
                (case err of
                   Some e \<Rightarrow> Some ((Some [], join_errs [err,
                       Some (ErrWrap ''attempting to get distro version from lsb_release: '' e
                         ('': STDERR: '' @ serr))]), w2)
                 | None \<Rightarrow>
                     if content \<noteq> [] then Some ((Some (to_lower content), None), w2)
                     else Some ((Some [], errs), w2))))"

definition target_distro_version ::
  "'w go_ctx \<Rightarrow> 'w transport \<Rightarrow> 'w target_request \<Rightarrow> 'w \<Rightarrow> ('w, string) target_result" where
  "target_distro_version ctx tr req w = do {
     ((version, err), req1, w1) \<leftarrow> retry_target ctx (distro_version_fn tr) req w;
     v \<leftarrow> deref version;
     Some ((v, err), req1, w1)
   }"

text \<open>
  \<open>TargetHomeDir\<close>: $HOME, tilde expansion, and the entry of /etc/passwd. The last one is
  guarded by \<open>err1 != nil && me != ""\<close>, so it runs when \<open>whoami\<close> failed.
\<close>

definition home_step ::
  "'w transport \<Rightarrow> string \<Rightarrow> string \<Rightarrow> error \<Rightarrow> 'w \<Rightarrow> string option \<times> error \<times> 'w" where
  "home_step tr cmd what err w =
     (case run_cmd tr cmd w of ((home, serr, err1), w1) \<Rightarrow>
        (case err1 of
           Some e \<Rightarrow> (None, join_errs [err, Some (ErrWrap what e ('': STDERR: '' @ serr))], w1)
         | None \<Rightarrow> (if home \<noteq> [] then Some home else None, err, w1)))"

definition passwd_cmd :: "string \<Rightarrow> string" where
  "passwd_cmd me = ''grep '' @ me @ '' /etc/passwd | cut -d: -f 6''"

definition home_dir_fn :: "'w transport \<Rightarrow> 'w target_fn" where
  "home_dir_fn tr w =
     (case home_step tr ''echo $HOME'' ''getting target home directory with $HOME env var: '' None w of
        (Some home, _, w1) \<Rightarrow> Some ((Some home, None), w1)
      | (None, err, w1) \<Rightarrow>
     (case home_step tr ''echo ~'' ''getting target home directory with ~ expansion: '' err w1 of
        (Some home, _, w2) \<Rightarrow> Some ((Some home, None), w2)
      | (None, err, w2) \<Rightarrow>
     (case run_cmd tr ''whoami'' w2 of
        ((me, serr, None), w3) \<Rightarrow> Some ((Some [], err), w3)
      | ((me, serr, Some e), w3) \<Rightarrow>
          (let err = join_errs [err, Some (ErrWrap
                 (''getting target user with '' @ quoted ''whoami'' @ '': '') e ('', STDERR: '' @ serr))] in
           if me \<noteq> [] then
             (case home_step tr (passwd_cmd me)
                 (''getting target user '' @ me @ '' from /etc/password: '') err w3 of
                (Some home, _, w4) \<Rightarrow> Some ((Some home, None), w4)
              | (None, err, w4) \<Rightarrow> Some ((Some [], err), w4))
           else Some ((Some [], err), w3)))))"

definition target_home_dir ::
  "'w go_ctx \<Rightarrow> 'w transport \<Rightarrow> 'w target_request \<Rightarrow> 'w \<Rightarrow> ('w, string) target_result" where
  "target_home_dir ctx tr req w = do {
     ((home, err), req1, w1) \<leftarrow> retry_target ctx (home_dir_fn tr) req w;
     Some (case (err, home) of
         (None, Some h) \<Rightarrow> ((h, None), req1, w1)
       | _ \<Rightarrow> (([], err), req1, w1))
   }"

text \<open>
  The questions that assert the type only when there was no error: a nil value without
  error panics.
\<close>

definition string_result ::
  "(string \<Rightarrow> string) \<Rightarrow> ((string option \<times> error) \<times> 'w target_request \<times> 'w) go
    \<Rightarrow> ('w, string) target_result" where
  "string_result fmt m = do {
     ((v, err), req1, w1) \<leftarrow> m;
     (case err of
        Some e \<Rightarrow> Some (([], Some e), req1, w1)
      | None \<Rightarrow> do { s \<leftarrow> deref v; Some ((fmt s, None), req1, w1) })
   }"

definition hostname_fn :: "'w transport \<Rightarrow> 'w target_fn" where
  "hostname_fn tr = ask tr ''uname -n''
     (\<lambda>e serr. ErrWrap ''determining target hostname: '' e ('', STDERR: '' @ serr))
     (\<lambda>serr. ErrNew (''failed to determine hostname, STDERR: '' @ serr))"

definition target_hostname ::
  "'w go_ctx \<Rightarrow> 'w transport \<Rightarrow> 'w target_request \<Rightarrow> 'w \<Rightarrow> ('w, string) target_result" where
  "target_hostname ctx tr req w = string_result id (retry_target ctx (hostname_fn tr) req w)"

definition platform_fn :: "'w transport \<Rightarrow> 'w target_fn" where
  "platform_fn tr = ask tr ''uname -s''
     (\<lambda>e serr. ErrWrap ''determining target host platform: '' e ('': STDERR: '' @ serr))
     (\<lambda>serr. ErrNew (''failed to determine platform, STDERR: '' @ serr))"

definition target_platform ::
  "'w go_ctx \<Rightarrow> 'w transport \<Rightarrow> 'w target_request \<Rightarrow> 'w \<Rightarrow> ('w, string) target_result" where
  "target_platform ctx tr req w =
     string_result format_platform (retry_target ctx (platform_fn tr) req w)"

definition platform_version_fn :: "'w transport \<Rightarrow> 'w target_fn" where
  "platform_version_fn tr = ask tr ''uname -r''
     (\<lambda>e serr. ErrWrap ''determining target host platform version: '' e ('': STDERR: '' @ serr))
     (\<lambda>serr. ErrNew (''failed to determine platform version: STDERR: '' @ serr))"

definition target_platform_version ::
  "'w go_ctx \<Rightarrow> 'w transport \<Rightarrow> 'w target_request \<Rightarrow> 'w \<Rightarrow> ('w, string) target_result" where
  "target_platform_version ctx tr req w =
     string_result id (retry_target ctx (platform_version_fn tr) req w)"

text \<open>The message for an empty answer prints the error, which is nil there.\<close>

definition pid1_fn :: "'w transport \<Rightarrow> 'w target_fn" where
  "pid1_fn tr = ask tr ''ps -p 1 -c -o command=''
     (\<lambda>e serr. ErrWrap ''failed to determine target process manager: '' e ('': STDERR: '' @ serr))
     (\<lambda>serr. ErrNew ''failed to determine target process manager, STDERR: %!s(<nil>)'')"

definition target_process_manager ::
  "'w go_ctx \<Rightarrow> 'w transport \<Rightarrow> 'w target_request \<Rightarrow> 'w \<Rightarrow> ('w, string) target_result" where
  "target_process_manager ctx tr req w =
     (if tr_type tr = ''ssh'' then do {
        ((pid1, err), req1, w1) \<leftarrow> retry_target ctx (pid1_fn tr) req w;
        Some (case (err, pid1) of
            (None, Some p) \<Rightarrow> ((p, None), req1, w1)
          | _ \<Rightarrow> (([], err), req1, w1))
      }
      else if tr_type tr = ''kubernetes'' then Some ((''kubernetes'', None), req, w)
      else if tr_type tr = ''nomad'' then Some ((''nomad'', None), req, w)
      else Some (([], Some (ErrNew
        (''failed to determine target process manager: unsupported transport type: '' @ tr_type tr))),
        req, w))"

text \<open>\<open>TargetHostInfo\<close>: every question with a clone of the request, all errors joined.\<close>

definition ask_clone ::
  "('w target_request \<Rightarrow> 'w \<Rightarrow> ('w, string) target_result) \<Rightarrow> 'w target_request
    \<Rightarrow> error \<times> 'w \<Rightarrow> (string \<times> error \<times> 'w) go" where
  "ask_clone question req s =
     (case s of (errs, w) \<Rightarrow> do {
        ((v, err), _, w1) \<leftarrow> question (target_clone req) w;
        Some (v, join_errs [errs, err], w1)
      })"

definition target_host_info ::
  "'w go_ctx \<Rightarrow> 'w transport \<Rightarrow> 'w target_request \<Rightarrow> 'w \<Rightarrow> ((host_info \<times> error) \<times> 'w) go" where
  "target_host_info ctx tr req w = do {
     (arch, s) \<leftarrow> ask_clone (target_architecture ctx tr) req (None, w);
     (distro, s) \<leftarrow> ask_clone (target_distro ctx tr) req s;
     (distro_ver, s) \<leftarrow> ask_clone (target_distro_version ctx tr) req s;
     (hostname, s) \<leftarrow> ask_clone (target_hostname ctx tr) req s;
     (pid1, s) \<leftarrow> ask_clone (target_process_manager ctx tr) req s;
     (platform, s) \<leftarrow> ask_clone (target_platform ctx tr) req s;
     (platform_ver, errs, w) \<leftarrow> ask_clone (target_platform_version ctx tr) req s;
     Some ((\<lparr>hi_arch = arch, hi_distro = distro, hi_distro_version = distro_ver,
       hi_hostname = hostname, hi_pid1 = pid1, hi_platform = platform,
       hi_platform_version = platform_ver\<rparr>, errs), w)
   }"

subsection \<open>Lemmas on the retried questions\<close>

lemma retry_target_returns:
  assumes "retrier_capped (tg_retrier req)" "\<And>w. returns (f w)"
  shows "\<exists>v err req1 w1. retry_target ctx f req w = Some ((v, err), req1, w1)
    \<and> retrier_capped (tg_retrier req1)"
  using capped_retry_returns [OF assms(1), of f ctx w] assms(2) by (auto simp: retry_target_def)

lemma retry_target_ok:
  assumes "retry_target ctx f req w = Some ((v, None), req1, w')"
  shows "\<exists>w1. ctx_err ctx w1 = None \<and> f w1 = Some ((v, None), w')"
proof -
  obtain r1 where "retry retrier_ops ctx (with_retrier_func f (tg_retrier req)) w
      = Some ((v, None), r1, w')"
    using assms by (auto simp: retry_target_def bind_eq_Some_iff)
  from retrier_ok_last [OF this] show ?thesis by (simp add: with_retrier_func_def)
qed

lemma retry_target_value:
  assumes "retry_target ctx f req w = Some ((v, err), req1, w')" "ctx_err ctx w = None"
    and "\<And>w v e w'. f w = Some ((v, e), w') \<Longrightarrow> non_nil v"
  shows "non_nil v"
proof -
  obtain r1 where "retry retrier_ops ctx (with_retrier_func f (tg_retrier req)) w
      = Some ((v, err), r1, w')"
    using assms by (auto simp: retry_target_def bind_eq_Some_iff)
  from retrier_value [OF this, of f] show ?thesis using assms by (auto simp: with_retrier_func_def)
qed

lemma retry_target_first:
  assumes "f w = Some ((v, None), w')" "ctx_err ctx w = None"
  shows "\<exists>req1. retry_target ctx f req w = Some ((v, None), req1, w')"
  using assms by (simp add: retry_target_def retry_def retry_loop.simps retrier_run_def
      with_retrier_func_def)

lemma retry_target_cancelled:
  "ctx_err ctx w = Some e \<Longrightarrow> \<exists>req1. retry_target ctx f req w = Some ((None, Some (ErrJoin [e])), req1, w)"
  by (simp add: retry_target_def retry_cancelled)

lemma ask_total: "returns (ask tr cmd on_err on_empty w)"
  by (auto simp: ask_def split: prod.splits option.splits)

lemma ask_value: "ask tr cmd on_err on_empty w = Some ((v, e), w') \<Longrightarrow> non_nil v"
  by (auto simp: ask_def split: prod.splits option.splits if_splits)

lemma ask_ok_iff:
  "ask tr cmd on_err on_empty w = Some ((v, None), w') \<longleftrightarrow>
     (\<exists>out serr. run_cmd tr cmd w = ((out, serr, None), w') \<and> out \<noteq> [] \<and> v = Some out)"
  by (auto simp: ask_def split: prod.splits option.splits if_splits)

lemma distro_fn_value: "\<exists>d e w'. distro_fn tr w = Some ((Some d, e), w')"
  by (auto simp: distro_fn_def Let_def split: prod.splits option.splits)

lemma distro_version_fn_value: "\<exists>d e w'. distro_version_fn tr w = Some ((Some d, e), w')"
  by (auto simp: distro_version_fn_def Let_def split: prod.splits option.splits)

lemma home_dir_fn_total: "returns (home_dir_fn tr w)"
  by (auto simp: home_dir_fn_def Let_def split: prod.splits option.splits)

lemma target_architecture_returns:
  assumes "retrier_capped (tg_retrier req)"
  shows "\<exists>a err req1 w1. target_architecture ctx tr req w = Some ((a, err), req1, w1)
    \<and> retrier_capped (tg_retrier req1)"
  using retry_target_returns [OF assms, of "arch_fn tr" ctx w]
  by (fastforce simp: target_architecture_def arch_fn_def ask_total split: option.splits)

lemma target_home_dir_returns:
  assumes "retrier_capped (tg_retrier req)"
  shows "returns (target_home_dir ctx tr req w)"
  using retry_target_returns [OF assms, of "home_dir_fn tr" ctx w]
  by (auto simp: target_home_dir_def home_dir_fn_total split: option.splits)

lemma target_process_manager_capped:
  assumes "retrier_capped (tg_retrier req)"
  shows "\<exists>p err req1 w1. target_process_manager ctx tr req w = Some ((p, err), req1, w1)
    \<and> retrier_capped (tg_retrier req1)"
proof -
  have "returns (pid1_fn tr v)" for v by (simp add: pid1_fn_def ask_total)
  then obtain v err req1 w1 where "retry_target ctx (pid1_fn tr) req w = Some ((v, err), req1, w1)"
    "retrier_capped (tg_retrier req1)"
    using retry_target_returns [OF assms, of "pid1_fn tr" ctx w] by blast
  then show ?thesis
    using assms by (cases err; cases v) (auto simp: target_process_manager_def)
qed

lemma target_process_manager_returns:
  assumes "retrier_capped (tg_retrier req)"
  shows "returns (target_process_manager ctx tr req w)"
  using target_process_manager_capped [OF assms, of ctx tr w] by auto

text \<open>Questions that assert the type of the value return when no attempt gives a nil value.\<close>

lemma string_result_returns:
  assumes "retrier_capped (tg_retrier req)" "\<And>w. returns (f w)"
    and "\<And>w e w'. f w \<noteq> Some ((None, None :: error), w')"
  shows "\<exists>v err req1 w1. string_result fmt (retry_target ctx f req w) = Some ((v, err), req1, w1)
    \<and> retrier_capped (tg_retrier req1)"
proof -
  obtain v err req1 w1 where r: "retry_target ctx f req w = Some ((v, err), req1, w1)"
    "retrier_capped (tg_retrier req1)"
    using retry_target_returns [OF assms(1), of f ctx w] assms(2) by blast
  have "v \<noteq> None" if "err = None"
    using retry_target_ok [of ctx f req w v req1 w1] r(1) that assms(3) by (cases v) auto
  then show ?thesis
    using r by (cases err) (auto simp: string_result_def deref_def)
qed

lemma ask_not_nil: "ask tr cmd on_err on_empty w \<noteq> Some ((None, None), w')"
  by (auto simp: ask_def split: prod.splits option.splits)

lemma target_platform_returns:
  assumes "retrier_capped (tg_retrier req)"
  shows "\<exists>p err req1 w1. target_platform ctx tr req w = Some ((p, err), req1, w1)
    \<and> retrier_capped (tg_retrier req1)"
  unfolding target_platform_def platform_fn_def
  by (rule string_result_returns) (simp_all add: assms ask_total ask_not_nil)

lemma target_platform_version_returns:
  assumes "retrier_capped (tg_retrier req)"
  shows "\<exists>p err req1 w1. target_platform_version ctx tr req w = Some ((p, err), req1, w1)
    \<and> retrier_capped (tg_retrier req1)"
  unfolding target_platform_version_def platform_version_fn_def
  by (rule string_result_returns) (simp_all add: assms ask_total ask_not_nil)

lemma target_hostname_returns:
  assumes "retrier_capped (tg_retrier req)"
  shows "\<exists>p err req1 w1. target_hostname ctx tr req w = Some ((p, err), req1, w1)
    \<and> retrier_capped (tg_retrier req1)"
  unfolding target_hostname_def hostname_fn_def
  by (rule string_result_returns) (simp_all add: assms ask_total ask_not_nil)

lemma target_distro_returns:
  assumes "retrier_capped (tg_retrier req)" "ctx_err ctx w = None"
  shows "returns (target_distro ctx tr req w)"
proof -
  have t: "returns (distro_fn tr w)" for w using distro_fn_value [of tr w] by auto
  obtain v err req1 w1 where r: "retry_target ctx (distro_fn tr) req w = Some ((v, err), req1, w1)"
    using retry_target_returns [OF assms(1), of "distro_fn tr" ctx w] t by blast
  have "non_nil v"
    by (rule retry_target_value [OF r assms(2)]) (use distro_fn_value in \<open>metis non_nil_simps(1)
      option.inject prod.inject\<close>)
  then show ?thesis by (auto simp: target_distro_def r deref_def non_nil_def)
qed

lemma target_distro_version_returns:
  assumes "retrier_capped (tg_retrier req)" "ctx_err ctx w = None"
  shows "returns (target_distro_version ctx tr req w)"
proof -
  have t: "returns (distro_version_fn tr w)" for w using distro_version_fn_value [of tr w] by auto
  obtain v err req1 w1
    where r: "retry_target ctx (distro_version_fn tr) req w = Some ((v, err), req1, w1)"
    using retry_target_returns [OF assms(1), of "distro_version_fn tr" ctx w] t by blast
  have "non_nil v"
    by (rule retry_target_value [OF r assms(2)]) (use distro_version_fn_value in \<open>metis
      non_nil_simps(1) option.inject prod.inject\<close>)
  then show ?thesis by (auto simp: target_distro_version_def r deref_def non_nil_def)
qed

subsection \<open>Lemmas on the answers\<close>

text \<open>The answer of a command: it ran without error while the context was live and printed \<open>a\<close>.\<close>

definition answered :: "'w go_ctx \<Rightarrow> 'w transport \<Rightarrow> string \<Rightarrow> string \<Rightarrow> bool" where
  "answered ctx tr cmd a \<longleftrightarrow> a \<noteq> [] \<and>
     (\<exists>w serr w'. ctx_err ctx w = None \<and> run_cmd tr cmd w = ((a, serr, None), w'))"

lemma retry_ask_answered:
  assumes "retry_target ctx (ask tr cmd on_err on_empty) req w = Some ((v, None), req1, w')"
  shows "\<exists>a. v = Some a \<and> answered ctx tr cmd a"
  using retry_target_ok [OF assms] by (auto simp: ask_ok_iff answered_def)

lemma target_architecture_answered:
  assumes "target_architecture ctx tr req w = Some ((v, None), req1, w')"
  shows "\<exists>a. v = format_arch a \<and> answered ctx tr ''uname -m'' a"
  using assms retry_ask_answered unfolding target_architecture_def arch_fn_def
  by (fastforce simp: bind_eq_Some_iff split: option.splits)

lemma string_result_ok:
  assumes "string_result fmt m = Some ((v, None), req1, w')"
  shows "\<exists>s. m = Some ((Some s, None), req1, w') \<and> v = fmt s"
  using assms by (auto simp: string_result_def bind_eq_Some_iff deref_def split: option.splits)

lemma target_platform_answered:
  assumes "target_platform ctx tr req w = Some ((v, None), req1, w')"
  shows "\<exists>a. v = format_platform a \<and> answered ctx tr ''uname -s'' a"
  using string_result_ok [OF assms [unfolded target_platform_def platform_fn_def]]
    retry_ask_answered by fastforce

lemma target_platform_version_answered:
  assumes "target_platform_version ctx tr req w = Some ((v, None), req1, w')"
  shows "answered ctx tr ''uname -r'' v"
  using string_result_ok [OF assms [unfolded target_platform_version_def platform_version_fn_def]]
    retry_ask_answered by fastforce

lemma target_hostname_answered:
  assumes "target_hostname ctx tr req w = Some ((v, None), req1, w')"
  shows "answered ctx tr ''uname -n'' v"
  using string_result_ok [OF assms [unfolded target_hostname_def hostname_fn_def]]
    retry_ask_answered by fastforce

lemma target_process_manager_answered:
  assumes "target_process_manager ctx tr req w = Some ((v, None), req1, w')"
  shows "(tr_type tr = ''ssh'' \<and> answered ctx tr ''ps -p 1 -c -o command='' v)
    \<or> (v = tr_type tr \<and> v \<in> {''kubernetes'', ''nomad''})"
  using assms retry_ask_answered unfolding target_process_manager_def pid1_fn_def
  by (fastforce simp: bind_eq_Some_iff split: option.splits if_splits)

lemma ask_clone_ok:
  assumes "ask_clone q req (errs, w) = Some (v, None, w')"
  shows "errs = None \<and> (\<exists>req1. q (target_clone req) w = Some ((v, None), req1, w'))"
  using assms by (auto simp: ask_clone_def bind_eq_Some_iff)

lemma ask_clone_errs:
  "ask_clone q req (errs, w) = Some (v, e, w') \<Longrightarrow> errs \<noteq> None \<Longrightarrow> e \<noteq> None"
  by (auto simp: ask_clone_def bind_eq_Some_iff)

lemma ask_clone_returns:
  "returns (q (target_clone req) w) \<Longrightarrow> returns (ask_clone q req (errs, w))"
  by (auto simp: ask_clone_def returns_iff)

text \<open>An os-release file of the given entries.\<close>

definition os_release :: "(string \<times> string) list \<Rightarrow> string" where
  "os_release kvs = concat (map (\<lambda>(k, v). line (k @ ''='' @ dquote # v @ [dquote])) kvs)"

definition os_entry :: "string \<times> string \<Rightarrow> bool" where
  "os_entry kv \<longleftrightarrow> (case kv of (k, v) \<Rightarrow>
     nl \<notin> set (k @ v) \<and> cr \<notin> set (k @ v) \<and> CHR ''='' \<notin> set (k @ v) \<and> dquote \<notin> set v
     \<and> length (k @ ''='' @ dquote # v @ [dquote]) < 65536)"

lemma trim_if_enclosed:
  assumes "q \<notin> set v"
  shows "trim_if (\<lambda>c. c = q) (q # v @ [q]) = v"
proof -
  have none: "q \<notin> set u \<Longrightarrow> dropWhile (\<lambda>c. c = q) (u @ t) = (if u = [] then dropWhile (\<lambda>c. c = q) t else u @ t)"
    for u t by (cases u) auto
  show ?thesis
    using none [of v "[q]"] none [of "rev v" "[]"] assms by (simp add: trim_if_def)
qed

lemma scan_os_release:
  assumes "list_all os_entry kvs"
  shows "scan_lines (os_release kvs) = map (\<lambda>(k, v). k @ ''='' @ dquote # v @ [dquote]) kvs"
proof -
  let ?ls = "map (\<lambda>(k, v). k @ ''='' @ dquote # v @ [dquote]) kvs"
  have "os_release kvs = concat (map line ?ls)"
    by (simp add: os_release_def comp_def split_def)
  then show ?thesis
    using assms by (simp only:) (rule scan_lines_join, auto simp: os_entry_def list_all_iff)
qed

lemma find_os_line_entries:
  "list_all os_entry kvs \<Longrightarrow>
    find_os_line (map (\<lambda>(k, v). k @ ''='' @ dquote # v @ [dquote]) kvs) needle = map_of kvs needle"
proof (induction kvs)
  case Nil
  then show ?case by simp
next
  case (Cons kv kvs)
  obtain k v where kv: "kv = (k, v)" by (cases kv)
  have e: "CHR ''='' \<notin> set k" "CHR ''='' \<notin> set (dquote # v @ [dquote])" "dquote \<notin> set v"
    using Cons.prems kv by (auto simp: os_entry_def)
  have "split_on (CHR ''='') (k @ ''='' @ dquote # v @ [dquote]) = [k, dquote # v @ [dquote]]"
    using split_on_append_sep [OF e(1)] split_on_no_sep [OF e(2)] by simp
  then show ?case using Cons kv trim_if_enclosed [OF e(3)] by simp
qed

lemma scan_err_os_release: "list_all os_entry kvs \<Longrightarrow> scan_err (os_release kvs) = None"
proof -
  let ?ls = "map (\<lambda>(k, v). k @ ''='' @ dquote # v @ [dquote]) kvs"
  assume e: "list_all os_entry kvs"
  have "os_release kvs = concat (map line ?ls)"
    by (simp add: os_release_def comp_def split_def)
  then have "raw_lines (os_release kvs) = ?ls"
    using e by (simp only:) (rule raw_lines_join, auto simp: os_entry_def list_all_iff)
  moreover have "list_all scan_fits ?ls"
    using e by (auto simp: os_entry_def list_all_iff scan_fits_def)
  ultimately show ?thesis by (simp add: scan_err_def)
qed

subsection \<open>Properties\<close>

text \<open>
  In an os-release file of quoted entries, findInOsRelease finds
  the value of the first entry with the given key, without its quotes, and fails exactly when
  there is none.
\<close>

theorem find_in_os_release_entries:
  assumes "list_all os_entry kvs" "kvs \<noteq> []"
  shows "case map_of kvs key of
      Some v \<Rightarrow> find_in_os_release (os_release kvs) key = (v, None)
    | None \<Rightarrow> \<exists>e. find_in_os_release (os_release kvs) key = ([], Some e)"
proof -
  have "os_release kvs \<noteq> []" using assms(2) by (cases kvs) (auto simp: os_release_def line_def)
  then show ?thesis
    using scan_os_release [OF assms(1)] find_os_line_entries [OF assms(1), of key]
      scan_err_os_release [OF assms(1)]
    by (simp add: find_in_os_release_def Let_def split: option.splits)
qed

theorem find_in_os_release_entries_witness:
  "find_in_os_release (os_release [(''NAME'', ''Ubuntu''), (''ID'', ''ubuntu''), (''VERSION_ID'', ''22.04'')])
    ''VERSION_ID'' = (''22.04'', None)"
  using find_in_os_release_entries [of "[(''NAME'', ''Ubuntu''), (''ID'', ''ubuntu''),
      (''VERSION_ID'', ''22.04'')]" "''VERSION_ID''"]
  by (simp add: os_entry_def)

text \<open>
  C11: with a retrier that has a maximum and a context that stays live,
  TargetHostInfo returns, whatever the transport answers and on every kind of transport.
\<close>

theorem target_host_info_returns:
  assumes "retrier_capped (tg_retrier req)" "\<And>w. ctx_err ctx w = None"
  shows "returns (target_host_info ctx tr req w)"
proof -
  have c: "retrier_capped (tg_retrier (target_clone req))"
    using assms(1) by (simp add: target_clone_def)
  have q: "returns (target_architecture ctx tr (target_clone req) v)"
    "returns (target_distro ctx tr (target_clone req) v)"
    "returns (target_distro_version ctx tr (target_clone req) v)"
    "returns (target_hostname ctx tr (target_clone req) v)"
    "returns (target_process_manager ctx tr (target_clone req) v)"
    "returns (target_platform ctx tr (target_clone req) v)"
    "returns (target_platform_version ctx tr (target_clone req) v)" for v
    using target_architecture_returns [OF c, of ctx tr v] target_hostname_returns [OF c, of ctx tr v]
      target_platform_returns [OF c, of ctx tr v] target_platform_version_returns [OF c, of ctx tr v]
    by (auto intro: target_distro_returns [OF c] target_distro_version_returns [OF c]
        target_process_manager_returns [OF c] simp: assms(2))
  have "returns (ask_clone (target_architecture ctx tr) req s)"
    "returns (ask_clone (target_distro ctx tr) req s)"
    "returns (ask_clone (target_distro_version ctx tr) req s)"
    "returns (ask_clone (target_hostname ctx tr) req s)"
    "returns (ask_clone (target_process_manager ctx tr) req s)"
    "returns (ask_clone (target_platform ctx tr) req s)"
    "returns (ask_clone (target_platform_version ctx tr) req s)" for s
    by (cases s, simp add: ask_clone_returns q)+
  then show ?thesis
    unfolding target_host_info_def by (auto intro!: returns_intro)
qed

definition demo_target :: "nat target_request" where
  "demo_target = new_target_request 0 [with_target_request_retry_opts
     [with_max_retries 2, with_interval_func (interval_duration second)]]"

theorem target_host_info_returns_witness:
  "returns (target_host_info live_ctx mock_transport demo_target 0)"
  by (rule target_host_info_returns)
    (simp_all add: demo_target_def new_target_request_def with_target_request_retry_opts_def
      retrier_opt_defs retrier_capped_def interval_duration_def live_ctx_def Let_def)

text \<open>
  When the context is already done, TargetHostInfo does not return:
  Retry hands TargetDistro a nil value with the context's error, and the type assertion on
  it panics, so the error of the context never reaches the caller.
\<close>

theorem target_host_info_cancelled:
  assumes "ctx_err ctx w = Some e"
  shows "target_distro ctx tr req w = None \<and> target_distro_version ctx tr req w = None
    \<and> target_host_info ctx tr req w = None"
proof -
  have d: "target_distro ctx tr r w = None" "target_distro_version ctx tr r w = None" for r
    using retry_target_cancelled [OF assms, of "distro_fn tr" r]
      retry_target_cancelled [OF assms, of "distro_version_fn tr" r]
    by (auto simp: target_distro_def target_distro_version_def deref_def)
  have a: "\<exists>s. ask_clone (target_architecture ctx tr) req (None, w) = Some (s, join_errs
      [None, Some (ErrJoin [e])], w)"
    using retry_target_cancelled [OF assms, of "arch_fn tr" "target_clone req"]
    by (auto simp: ask_clone_def target_architecture_def)
  have "ask_clone (target_distro ctx tr) req (x, w) = None" for x
    by (simp add: ask_clone_def d)
  then show ?thesis
    using a d by (auto simp: target_host_info_def)
qed

theorem target_host_info_cancelled_witness:
  "target_host_info (live_ctx\<lparr>ctx_err := \<lambda>w. Some err_canceled\<rparr>) mock_transport demo_target 0 = None"
  using target_host_info_cancelled [of "live_ctx\<lparr>ctx_err := \<lambda>w. Some err_canceled\<rparr>" 0 err_canceled
      mock_transport demo_target]
  by simp

text \<open>
  When TargetHostInfo returns without error, architecture, host name,
  platform and kernel release are the (formatted) non-empty answers of uname, each given
  without error while the context was live, and the process manager is what ps says of
  process 1 on an ssh transport and the transport's own name on Kubernetes and Nomad.
\<close>

theorem target_host_info_answers:
  assumes "target_host_info ctx tr req w = Some ((info, None), w')"
  shows "(\<exists>a. hi_arch info = format_arch a \<and> answered ctx tr ''uname -m'' a)
    \<and> answered ctx tr ''uname -n'' (hi_hostname info)
    \<and> (\<exists>p. hi_platform info = format_platform p \<and> answered ctx tr ''uname -s'' p)
    \<and> answered ctx tr ''uname -r'' (hi_platform_version info)
    \<and> (if tr_type tr = ''ssh'' then answered ctx tr ''ps -p 1 -c -o command='' (hi_pid1 info)
       else hi_pid1 info = tr_type tr \<and> tr_type tr \<in> {''kubernetes'', ''nomad''})"
proof -
  obtain arch e1 w1 distro e2 w2 dver e3 w3 host e4 w4 pid1 e5 w5 plat e6 w6 pver where
    s: "ask_clone (target_architecture ctx tr) req (None, w) = Some (arch, e1, w1)"
    "ask_clone (target_distro ctx tr) req (e1, w1) = Some (distro, e2, w2)"
    "ask_clone (target_distro_version ctx tr) req (e2, w2) = Some (dver, e3, w3)"
    "ask_clone (target_hostname ctx tr) req (e3, w3) = Some (host, e4, w4)"
    "ask_clone (target_process_manager ctx tr) req (e4, w4) = Some (pid1, e5, w5)"
    "ask_clone (target_platform ctx tr) req (e5, w5) = Some (plat, e6, w6)"
    "ask_clone (target_platform_version ctx tr) req (e6, w6) = Some (pver, None, w')"
    and info: "hi_arch info = arch" "hi_hostname info = host" "hi_pid1 info = pid1"
      "hi_platform info = plat" "hi_platform_version info = pver"
    using assms by (auto simp: target_host_info_def bind_eq_Some_iff)
  have e6: "e6 = None" using ask_clone_ok [OF s(7)] by simp
  have e5: "e5 = None" using ask_clone_ok [OF s(6) [unfolded e6]] by simp
  have e4: "e4 = None" using ask_clone_ok [OF s(5) [unfolded e5]] by simp
  have e3: "e3 = None" using ask_clone_ok [OF s(4) [unfolded e4]] by simp
  have e2: "e2 = None" using ask_clone_ok [OF s(3) [unfolded e3]] by simp
  have e1: "e1 = None" using ask_clone_ok [OF s(2) [unfolded e2]] by simp
  obtain r1 r4 r5 r6 r7 where
    "target_architecture ctx tr r1 w = Some ((arch, None), r4, w1)"
    using ask_clone_ok [OF s(1) [unfolded e1]] by blast
  note arch = target_architecture_answered [OF this]
  obtain r r' where "target_hostname ctx tr r w3 = Some ((host, None), r', w4)"
    using ask_clone_ok [OF s(4) [unfolded e4]] by blast
  note host = target_hostname_answered [OF this]
  obtain r r' where "target_process_manager ctx tr r w4 = Some ((pid1, None), r', w5)"
    using ask_clone_ok [OF s(5) [unfolded e5]] by blast
  note pid1 = target_process_manager_answered [OF this]
  obtain r r' where "target_platform ctx tr r w5 = Some ((plat, None), r', w6)"
    using ask_clone_ok [OF s(6) [unfolded e6]] by blast
  note plat = target_platform_answered [OF this]
  obtain r r' where "target_platform_version ctx tr r w6 = Some ((pver, None), r', w')"
    using ask_clone_ok [OF s(7)] by blast
  note pver = target_platform_version_answered [OF this]
  show ?thesis using arch host pid1 plat pver by (auto simp: info)
qed

text \<open>A host that answers every command with the same word.\<close>

definition echo_transport :: "nat transport" where
  "echo_transport = mock_transport\<lparr>tr_type := ''ssh'', tr_run := (\<lambda>c w. ((''x86_64'', [], None), w))\<rparr>"

theorem target_host_info_answers_witness:
  "\<exists>info. target_host_info live_ctx echo_transport demo_target 0 = Some ((info, None), 0)
    \<and> hi_arch info = ''amd64'' \<and> hi_pid1 info \<noteq> []"
proof -
  have run: "run_cmd echo_transport c w = ((''x86_64'', [], None), w)" for c w
    by (simp add: run_cmd_def echo_transport_def)
  have cap: "max_retries (tg_retrier (target_clone demo_target)) = 2"
    by (simp add: target_clone_def demo_target_def new_target_request_def
        with_target_request_retry_opts_def retrier_opt_defs Let_def)
  have ask: "ask echo_transport c f g w = Some ((Some ''x86_64'', None), w)" for c f g w
    by (simp add: ask_def run)
  have ret: "\<exists>r'. retry_target live_ctx f req w = Some ((v, None), r', w')"
    if "f w = Some ((v, None), w')" for f req w w' v
    by (rule retry_target_first) (simp_all add: that live_ctx_def)
  have os: "find_in_os_release ''x86_64'' n = ([], Some (ErrNew (''cannot find '' @ n
      @ '' in /etc/os-release, /etc/os-release: x86_64'')))" for n
    by (simp add: find_in_os_release_def scan_lines_def scan_err_def raw_lines_def scan_fits_def
        drop_cr_def)
  have fns: "distro_fn echo_transport w = Some ((Some ''x86_64'', None), w)"
    "distro_version_fn echo_transport w = Some ((Some ''x86_64'', None), w)"
    "arch_fn echo_transport w = Some ((Some ''x86_64'', None), w)"
    "hostname_fn echo_transport w = Some ((Some ''x86_64'', None), w)"
    "pid1_fn echo_transport w = Some ((Some ''x86_64'', None), w)"
    "platform_fn echo_transport w = Some ((Some ''x86_64'', None), w)"
    "platform_version_fn echo_transport w = Some ((Some ''x86_64'', None), w)" for w
    by (simp_all add: distro_fn_def distro_version_fn_def run os to_lower_def lower_char_def Let_def
        arch_fn_def hostname_fn_def pid1_fn_def platform_fn_def platform_version_fn_def ask)
  have ty: "tr_type echo_transport = ''ssh''" by (simp add: echo_transport_def)
  have q: "\<exists>r'. target_architecture live_ctx echo_transport r w = Some ((''amd64'', None), r', w)"
    "\<exists>r'. target_distro live_ctx echo_transport r w = Some ((''x86_64'', None), r', w)"
    "\<exists>r'. target_distro_version live_ctx echo_transport r w = Some ((''x86_64'', None), r', w)"
    "\<exists>r'. target_hostname live_ctx echo_transport r w = Some ((''x86_64'', None), r', w)"
    "\<exists>r'. target_process_manager live_ctx echo_transport r w = Some ((''x86_64'', None), r', w)"
    "\<exists>r'. target_platform live_ctx echo_transport r w = Some ((''x86_64'', None), r', w)"
    "\<exists>r'. target_platform_version live_ctx echo_transport r w = Some ((''x86_64'', None), r', w)"
    for r w
    using ret [where f = "distro_fn echo_transport" and w = w and req = r, OF fns(1)]
      ret [where f = "distro_version_fn echo_transport" and w = w and req = r, OF fns(2)]
      ret [where f = "arch_fn echo_transport" and w = w and req = r, OF fns(3)]
      ret [where f = "hostname_fn echo_transport" and w = w and req = r, OF fns(4)]
      ret [where f = "pid1_fn echo_transport" and w = w and req = r, OF fns(5)]
      ret [where f = "platform_fn echo_transport" and w = w and req = r, OF fns(6)]
      ret [where f = "platform_version_fn echo_transport" and w = w and req = r, OF fns(7)]
    by (auto simp: target_architecture_def target_distro_def target_distro_version_def
        target_hostname_def target_process_manager_def target_platform_def
        target_platform_version_def string_result_def deref_def format_arch_def
        format_platform_def to_lower_def lower_char_def ty)
  have ac: "ask_clone qf demo_target (None, w) = Some (v, None, w)"
    if "\<And>r. \<exists>r'. qf r w = Some ((v, None), r', w)" for qf v w
    using that [of "target_clone demo_target"] by (auto simp: ask_clone_def)
  obtain info where i: "target_host_info live_ctx echo_transport demo_target 0 = Some ((info, None), 0)"
    and a: "hi_arch info = ''amd64''"
    by (simp add: target_host_info_def ac [OF q(1)] ac [OF q(2)] ac [OF q(3)] ac [OF q(4)]
        ac [OF q(5)] ac [OF q(6)] ac [OF q(7)])
  have "hi_pid1 info \<noteq> []"
    using target_host_info_answers [OF i] by (simp add: echo_transport_def answered_def)
  then show ?thesis using i a by blast
qed

end
