(* ===== verification/FlightControl.thy ===== *)
theory FlightControl
  imports Target Sha256
begin

text \<open>
  The embedded enos-flight-control binaries (\<open>internal/flightcontrol/flightcontrol.go\<close>) and
  their installation on a host (\<open>internal/remoteflight/flightcontrol.go\<close>). The embedded
  file system is made by the build, so its directory \<open>binaries\<close> is a parameter: the
  entries by name, a directory entry without content, or \<open>None\<close> when it is not there.
\<close>

type_synonym embed_fs = "(string \<times> string option) list option"

definition err_not_exist :: goerr where
  "err_not_exist = ErrSentinel ''file does not exist''"

definition embed_read_file :: "embed_fs \<Rightarrow> string \<Rightarrow> (string \<times> error)" where
  "embed_read_file fs name =
     (case fs of
        None \<Rightarrow> ([], Some (ErrWrap (''open binaries/'' @ name @ '': '') err_not_exist []))
      | Some entries \<Rightarrow>
          (case map_of entries name of
             None \<Rightarrow> ([], Some (ErrWrap (''open binaries/'' @ name @ '': '') err_not_exist []))
           | Some None \<Rightarrow> ([], Some (ErrNew (''read binaries/'' @ name @ '': is a directory'')))
           | Some (Some content) \<Rightarrow> (content, None)))"

text \<open>
  The regular expression \<open>enos-flight-control_(\w*)_(\w*)$\<close>: the first occurrence of the
  prefix that only word characters follow; the greedy platform ends at the last underscore.
\<close>

definition word_char :: "char \<Rightarrow> bool" where
  "word_char c \<longleftrightarrow> (let n = of_char c :: nat in
     (48 \<le> n \<and> n \<le> 57) \<or> (65 \<le> n \<and> n \<le> 90) \<or> (97 \<le> n \<and> n \<le> 122) \<or> n = 95)"

definition binary_prefix :: string where
  "binary_prefix = ''enos-flight-control_''"

definition match_target :: "string \<Rightarrow> (string \<times> string) option" where
  "match_target r =
     (if list_all word_char r \<and> CHR ''_'' \<in> set r
      then Some (rev (tl (dropWhile (\<lambda>c. c \<noteq> CHR ''_'') (rev r))),
                 rev (takeWhile (\<lambda>c. c \<noteq> CHR ''_'') (rev r)))
      else None)"

fun match_binary :: "string \<Rightarrow> (string \<times> string) option" where
  "match_binary [] = None"
| "match_binary (c # cs) =
     (if has_prefix (c # cs) binary_prefix
      then (case match_target (drop (length binary_prefix) (c # cs)) of
              Some m \<Rightarrow> Some m
            | None \<Rightarrow> match_binary cs)
      else match_binary cs)"

fun add_targets :: "(string \<times> string option) list \<Rightarrow> (string \<times> string list) list
    \<Rightarrow> (string \<times> string list) list" where
  "add_targets [] targets = targets"
| "add_targets ((name, content) # es) targets =
     (case content of
        None \<Rightarrow> add_targets es targets
      | Some _ \<Rightarrow>
          (case match_binary name of
             None \<Rightarrow> add_targets es targets
           | Some (platform, arch) \<Rightarrow>
               add_targets es (map_set platform
                 ((case map_of targets platform of None \<Rightarrow> [] | Some as \<Rightarrow> as) @ [arch]) targets)))"

definition supported_targets :: "embed_fs \<Rightarrow> (string \<times> string list) list \<times> error" where
  "supported_targets fs =
     (case fs of
        None \<Rightarrow> ([], Some (ErrWrap ''open binaries: '' err_not_exist []))
      | Some entries \<Rightarrow> (add_targets entries [], None))"

definition supported_target :: "embed_fs \<Rightarrow> string \<Rightarrow> string \<Rightarrow> bool \<times> error" where
  "supported_target fs platform arch =
     (case supported_targets fs of
        (_, Some e) \<Rightarrow> (False, Some e)
      | (targets, None) \<Rightarrow>
          (case map_of targets platform of
             None \<Rightarrow> (False, None)
           | Some archs \<Rightarrow> (arch \<in> set archs, None)))"

definition read_target_file :: "embed_fs \<Rightarrow> string \<Rightarrow> string \<Rightarrow> string \<times> error" where
  "read_target_file fs platform arch =
     embed_read_file fs (binary_prefix @ platform @ ''_'' @ arch)"

subsection \<open>Installing\<close>

definition default_flight_control_path :: string where
  "default_flight_control_path = ''/opt/qti/bin/enos-flight-control''"

record 'w install_fc_request =
  fc_path :: string
  fc_use_home_dir :: bool
  fc_target :: "'w target_request option"

record install_fc_response =
  fcr_path :: string

type_synonym 'w install_fc_opt = "'w install_fc_request \<Rightarrow> 'w install_fc_request"

definition new_install_fc_request ::
  "duration \<Rightarrow> 'w install_fc_opt list \<Rightarrow> 'w install_fc_request" where
  "new_install_fc_request ovf opts = apply_opts opts
     \<lparr>fc_path = default_flight_control_path, fc_use_home_dir = False,
      fc_target = Some (new_target_request ovf [])\<rparr>"

definition with_install_fc_path :: "string \<Rightarrow> 'w install_fc_opt" where
  "with_install_fc_path p ir = ir\<lparr>fc_path := p\<rparr>"

definition with_install_fc_use_home_dir :: "'w install_fc_opt" where
  "with_install_fc_use_home_dir ir = ir\<lparr>fc_use_home_dir := True\<rparr>"

definition with_install_fc_target_request :: "'w target_request option \<Rightarrow> 'w install_fc_opt" where
  "with_install_fc_target_request tr ir = ir\<lparr>fc_target := tr\<rparr>"

text \<open>
  \<open>^.* \<close> replaced by nothing: the first line up to its last blank.
\<close>

definition trim_digest :: "string \<Rightarrow> string" where
  "trim_digest s =
     (let first = takeWhile (\<lambda>c. c \<noteq> nl) s; rest = dropWhile (\<lambda>c. c \<noteq> nl) s in
      if CHR '' '' \<in> set first
      then rev (takeWhile (\<lambda>c. c \<noteq> CHR '' '') (rev first)) @ rest
      else s)"

text \<open>Whether the binary at the path is there and is the embedded one.\<close>

definition fc_installed :: "'w transport \<Rightarrow> string \<Rightarrow> string \<Rightarrow> 'w \<Rightarrow> bool \<times> 'w" where
  "fc_installed tr path binary w =
     (case run_cmd tr (''test -f '' @ quoted path) w of
        ((_, _, Some e), w1) \<Rightarrow> (False, w1)
      | ((_, _, None), w1) \<Rightarrow>
          (case run_cmd tr (''openssl dgst -sha256 '' @ quoted path) w1 of
             ((digest_out, _, None), w2) \<Rightarrow>
               (let sha = trim_digest digest_out in (sha \<noteq> [] \<and> sha = sha256_hex binary, w2))
           | ((_, _, Some e), w2) \<Rightarrow>
               (case run_cmd tr (''sha256sum '' @ quoted path @ '' | cut -d '' @ quoted '' ''
                   @ '' -f1'') w2 of
                  ((sha, _, err), w3) \<Rightarrow>
                    (err = None \<and> sha \<noteq> [] \<and> sha = sha256_hex binary, w3))))"

definition fc_copy_request :: "('w, string) retrier \<Rightarrow> string \<Rightarrow> string \<Rightarrow> 'w copy_file_request" where
  "fc_copy_request r binary path = new_copy_file_request
     [with_copy_file_content (new_reader binary), with_copy_file_destination path,
      with_copy_file_chmod ''+x'',
      with_copy_file_retry_options
        [with_max_retries (max_retries r), with_interval_func (retry_interval r),
         with_only_retry_errors (only_retry_error r)]]"

text \<open>The path to install at, and the response with it when it is in the home directory.\<close>

definition fc_install_path ::
  "'w go_ctx \<Rightarrow> 'w transport \<Rightarrow> 'w install_fc_request \<Rightarrow> 'w
    \<Rightarrow> ((string \<times> install_fc_response \<times> error) \<times> 'w) go" where
  "fc_install_path ctx tr ir w =
     (if fc_use_home_dir ir then do {
        ((home, err), _, w1) \<leftarrow> target_home_dir ctx tr (new_target_request (pow_overflow ctx) []) w;
        Some (case err of
            Some e \<Rightarrow> (([], \<lparr>fcr_path = []\<rparr>,
               Some (ErrWrap ''getting home directory to install enos-flight-control: '' e [])), w1)
          | None \<Rightarrow> (let path = path_join [home, ''enos-flight-control'']
                     in ((path, \<lparr>fcr_path = path\<rparr>, None), w1)))
      }
      else Some ((fc_path ir, \<lparr>fcr_path = []\<rparr>, None), w))"

text \<open>
  \<open>InstallFlightControl\<close>. The response is never nil. The target request is the caller's:
  the questions asked here leave their function and attempts in its retrier, which the
  next question starts over, so it is not returned.
\<close>

definition fc_target_os ::
  "'w go_ctx \<Rightarrow> 'w transport \<Rightarrow> 'w target_request \<Rightarrow> 'w
    \<Rightarrow> ((string \<times> string \<times> error) \<times> 'w target_request \<times> 'w) go" where
  "fc_target_os ctx tr req w = do {
     ((platform, err), req1, w1) \<leftarrow> target_platform ctx tr req w;
     (case err of
        Some e \<Rightarrow> Some (([], [], Some (ErrWrap ''determining target host platform: '' e [])), req1, w1)
      | None \<Rightarrow> do {
          ((arch, err), req2, w2) \<leftarrow> target_architecture ctx tr req1 w1;
          Some (case err of
              Some e \<Rightarrow>
                (([], [], Some (ErrWrap ''determining target host architecture: '' e [])), req2, w2)
            | None \<Rightarrow> ((platform, arch, None), req2, w2))
        })
   }"

definition fc_binary :: "embed_fs \<Rightarrow> string \<Rightarrow> string \<Rightarrow> string \<times> error" where
  "fc_binary fs platform arch =
     (case supported_target fs platform arch of
        (_, Some e) \<Rightarrow> ([], Some (ErrWrap
          ''determining if target host is a supported platform and architecture: '' e []))
      | (supported, None) \<Rightarrow>
          if \<not> supported then
            ([], Some (ErrNew (''install error: '' @ platform @ ''_'' @ arch
               @ '' is not a supported target'')))
          else
            (case read_target_file fs platform arch of
               (_, Some e) \<Rightarrow>
                 ([], Some (ErrWrap ''reading embedded enos-flight-control binary: '' e []))
             | (binary, None) \<Rightarrow> (binary, None)))"

definition install_flight_control ::
  "embed_fs \<Rightarrow> 'w go_ctx \<Rightarrow> 'w transport \<Rightarrow> 'w install_fc_request \<Rightarrow> 'w
    \<Rightarrow> ((install_fc_response \<times> error) \<times> 'w) go" where
  "install_flight_control fs ctx tr ir w =
     (let none = \<lparr>fcr_path = []\<rparr> in
      case ctx_err ctx w of
        Some e \<Rightarrow> Some ((none, Some e), w)
      | None \<Rightarrow> do {
          req \<leftarrow> deref (fc_target ir);
          ((platform, arch, err), req2, w2) \<leftarrow> fc_target_os ctx tr req w;
          (case err of
             Some e \<Rightarrow> Some ((none, Some e), w2)
           | None \<Rightarrow>
          (case fc_binary fs platform arch of
             (_, Some e) \<Rightarrow> Some ((none, Some e), w2)
           | (binary, None) \<Rightarrow> do {
               ((path, res, err), w3) \<leftarrow> fc_install_path ctx tr ir w2;
               (case err of
                  Some e \<Rightarrow> Some ((none, Some e), w3)
                | None \<Rightarrow>
               (case fc_installed tr path binary w3 of
                  (True, w4) \<Rightarrow> Some ((res, None), w4)
                | (False, w4) \<Rightarrow> do {
                    ((err, _), w5) \<leftarrow>
                      copy_file ctx tr (Some (fc_copy_request (tg_retrier req2) binary path)) w4;
                    Some ((res, case err of
                        Some e \<Rightarrow> Some (ErrWrap ''copying binary to target host: '' e [])
                      | None \<Rightarrow> None), w5)
                  }))
             }))
        })"

subsection \<open>Lemmas\<close>

lemma match_target_Some:
  assumes "match_target r = Some (p, a)"
  shows "r = p @ ''_'' @ a"
proof -
  obtain ys zs where r: "rev r = ys @ CHR ''_'' # zs" "CHR ''_'' \<notin> set ys"
    using assms split_list_first [of "CHR ''_''" "rev r"] by (auto simp: match_target_def split: if_splits)
  then have "p = rev zs" "a = rev ys"
    using assms by (simp_all add: match_target_def takeWhile_append_neq dropWhile_append_neq
        split: if_splits)
  moreover have "r = rev (ys @ CHR ''_'' # zs)" using r(1) by (metis rev_rev_ident)
  ultimately show ?thesis by simp
qed

lemma has_prefix_append [simp]: "has_prefix (p @ r) p"
  by (simp add: has_prefix_def)

lemma match_binary_prefix:
  assumes "match_target r = Some m"
  shows "match_binary (binary_prefix @ r) = Some m"
proof -
  obtain c cs where c: "binary_prefix @ r = c # cs" by (cases "binary_prefix @ r") (auto simp: binary_prefix_def)
  have "has_prefix (c # cs) binary_prefix" "drop (length binary_prefix) (c # cs) = r"
    unfolding c [symmetric] by simp_all
  then show ?thesis using assms unfolding c by simp
qed

text \<open>A directory of binaries named by platform and architecture, as the build makes it.\<close>

definition binaries_dir :: "(string \<times> string option) list \<Rightarrow> bool" where
  "binaries_dir es \<longleftrightarrow> distinct (map fst es) \<and>
     (\<forall>(name, _) \<in> set es. \<exists>r. name = binary_prefix @ r \<and> list_all word_char r \<and> CHR ''_'' \<in> set r)"

lemma match_binary_entry:
  assumes "binaries_dir es" "(name, c) \<in> set es"
  shows "\<exists>p a. match_binary name = Some (p, a) \<and> name = binary_prefix @ p @ ''_'' @ a"
proof -
  obtain r where r: "name = binary_prefix @ r" "list_all word_char r" "CHR ''_'' \<in> set r"
    using assms by (auto simp: binaries_dir_def)
  then obtain p a where m: "match_target r = Some (p, a)" by (auto simp: match_target_def)
  show ?thesis using r(1) match_binary_prefix [OF m] match_target_Some [OF m] by simp
qed

definition listed :: "(string \<times> string list) list \<Rightarrow> string \<Rightarrow> string \<Rightarrow> bool" where
  "listed targets p a \<longleftrightarrow> (\<exists>as. map_of targets p = Some as \<and> a \<in> set as)"

lemma add_targets_listed:
  "listed (add_targets es targets) p a \<longleftrightarrow> listed targets p a \<or>
    (\<exists>name c. (name, Some c) \<in> set es \<and> match_binary name = Some (p, a))"
proof (induction es targets rule: add_targets.induct)
  case (1 targets)
  then show ?case by simp
next
  case (2 name content es targets)
  show ?case
  proof (cases content)
    case None
    then show ?thesis using 2 by auto
  next
    case (Some c)
    show ?thesis
    proof (cases "match_binary name")
      case None
      then show ?thesis using 2 Some by auto
    next
      case (Some m)
      obtain q b where m: "m = (q, b)" by (cases m)
      let ?t = "map_set q ((case map_of targets q of None \<Rightarrow> [] | Some as \<Rightarrow> as) @ [b]) targets"
      have "listed ?t p a \<longleftrightarrow> listed targets p a \<or> (p = q \<and> a = b)"
        by (cases "map_of targets q") (auto simp: listed_def map_of_map_set)
      then show ?thesis using 2(3) [OF \<open>content = Some c\<close> Some m [symmetric]] \<open>content = Some c\<close> Some m
        by (auto simp: m)
    qed
  qed
qed

lemma supported_target_iff:
  "supported_target (Some es) p a = (b, e) \<longleftrightarrow>
    e = None \<and> b = (\<exists>name c. (name, Some c) \<in> set es \<and> match_binary name = Some (p, a))"
  using add_targets_listed [of es "[]" p a]
  by (auto simp: supported_target_def supported_targets_def listed_def split: option.splits)

lemma fc_binary_ok:
  assumes "fc_binary fs p a = (binary, None)"
  shows "supported_target fs p a = (True, None) \<and> read_target_file fs p a = (binary, None)"
  using assms by (auto simp: fc_binary_def split: prod.splits option.splits if_splits)

lemma fc_target_os_ok:
  assumes "fc_target_os ctx tr req w = Some ((p, a, None), req2, w2)"
  shows "(\<exists>x. p = format_platform x \<and> answered ctx tr ''uname -s'' x)
    \<and> (\<exists>x. a = format_arch x \<and> answered ctx tr ''uname -m'' x)"
proof -
  obtain req1 w1 where p: "target_platform ctx tr req w = Some ((p, None), req1, w1)"
    and a: "target_architecture ctx tr req1 w1 = Some ((a, None), req2, w2)"
    using assms by (auto simp: fc_target_os_def bind_eq_Some_iff split: option.splits)
  show ?thesis using target_platform_answered [OF p] target_architecture_answered [OF a] by blast
qed

lemma fc_install_path_ok:
  assumes "fc_install_path ctx tr ir w = Some ((path, res, None), w1)"
  shows "if fc_use_home_dir ir
    then fcr_path res = path \<and> (\<exists>home. path = path_join [home, ''enos-flight-control''])
    else fcr_path res = [] \<and> path = fc_path ir"
  using assms by (auto simp: fc_install_path_def bind_eq_Some_iff Let_def split: option.splits)

text \<open>With a capped target request and outside the home directory the installation returns.\<close>

lemma fc_target_os_returns:
  assumes "retrier_capped (tg_retrier req)"
  shows "\<exists>p a err req2 w2. fc_target_os ctx tr req w = Some ((p, a, err), req2, w2)
    \<and> retrier_capped (tg_retrier req2)"
proof -
  obtain p err req1 w1 where p: "target_platform ctx tr req w = Some ((p, err), req1, w1)"
    "retrier_capped (tg_retrier req1)"
    using target_platform_returns [OF assms] by blast
  obtain a err' req2 w2 where a: "target_architecture ctx tr req1 w1 = Some ((a, err'), req2, w2)"
    "retrier_capped (tg_retrier req2)"
    using target_architecture_returns [OF p(2)] by blast
  show ?thesis using p a by (cases err; cases err') (auto simp: fc_target_os_def)
qed

lemma fc_copy_request_capped:
  assumes "retrier_capped r"
  shows "retrier_capped (apply_opts (cf_retry_opts (fc_copy_request r b p)) default_retrier)"
  using assms by (simp add: fc_copy_request_def new_copy_file_request_def copy_file_opt_defs
      retrier_opt_defs retrier_capped_def)

lemma install_flight_control_returns:
  assumes "fc_target ir = Some req" "retrier_capped (tg_retrier req)" "\<not> fc_use_home_dir ir"
  shows "returns (install_flight_control fs ctx tr ir w)"
proof -
  obtain p a err req2 w2 where os: "fc_target_os ctx tr req w = Some ((p, a, err), req2, w2)"
    "retrier_capped (tg_retrier req2)"
    using fc_target_os_returns [OF assms(2)] by blast
  have "returns (copy_file ctx tr (Some (fc_copy_request (tg_retrier req2) b path)) v)" for b path v
    by (rule copy_file_returns) (rule fc_copy_request_capped [OF os(2)])
  then show ?thesis
    using assms os
    by (auto simp: install_flight_control_def deref_def fc_install_path_def Let_def
        intro!: returns_intro split: prod.splits option.splits bool.splits)
qed

text \<open>The response has a path only when the binary goes to the home directory.\<close>

lemma fc_install_path_none:
  "fc_install_path ctx tr ir w = Some ((path, res, err), w1) \<Longrightarrow> \<not> fc_use_home_dir ir \<Longrightarrow> fcr_path res = []"
  by (auto simp: fc_install_path_def)

lemma install_flight_control_no_path:
  assumes "install_flight_control fs ctx tr ir w = Some ((res, None), w')" "\<not> fc_use_home_dir ir"
  shows "fcr_path res = []"
  using assms
  by (auto simp: install_flight_control_def bind_eq_Some_iff Let_def dest!: fc_install_path_none
      split: option.splits prod.splits bool.splits)

text \<open>On a quiet host that answers uname and knows its home directory the binary is installed.\<close>

lemma install_home_quiet:
  assumes "quiet tr" "fc_use_home_dir ir" "fc_target ir = Some req"
    and "\<exists>serr. run_cmd tr ''uname -s'' w = ((sys, serr, None), w)" "sys \<noteq> []"
    and "\<exists>serr. run_cmd tr ''uname -m'' w = ((mach, serr, None), w)" "mach \<noteq> []"
    and "\<exists>serr. run_cmd tr ''echo $HOME'' w = ((home, serr, None), w)" "home \<noteq> []"
    and "fc_binary fs (format_platform sys) (format_arch mach) = (binary, None)"
    and "path_join [home, ''enos-flight-control''] = path" "path \<noteq> []"
    and "fst (fc_installed tr path binary w) = b"
  shows "install_flight_control fs live_ctx tr ir w = Some ((\<lparr>fcr_path = path\<rparr>, None), w)"
proof -
  have live: "ctx_err live_ctx v = None" for v by (simp add: live_ctx_def)
  obtain r1 where p1: "target_platform live_ctx tr req w = Some ((format_platform sys, None), r1, w)"
    using retry_target_first [of "platform_fn tr" w "Some sys" w live_ctx req] assms(4,5) live
    by (auto simp: target_platform_def string_result_def deref_def platform_fn_def ask_def)
  obtain r2 where p2: "target_architecture live_ctx tr r1 w = Some ((format_arch mach, None), r2, w)"
    using retry_target_first [of "arch_fn tr" w "Some mach" w live_ctx r1] assms(6,7) live
    by (auto simp: target_architecture_def arch_fn_def ask_def)
  have os: "fc_target_os live_ctx tr req w = Some ((format_platform sys, format_arch mach, None), r2, w)"
    by (simp add: fc_target_os_def p1 p2)
  have "home_dir_fn tr w = Some ((Some home, None), w)"
    using assms(8,9) by (auto simp: home_dir_fn_def home_step_def)
  then obtain r3 where home: "target_home_dir live_ctx tr (new_target_request (pow_overflow live_ctx) []) w
      = Some ((home, None), r3, w)"
    using retry_target_first [of "home_dir_fn tr" w "Some home" w live_ctx
        "new_target_request (pow_overflow live_ctx) []"] live
    by (auto simp: target_home_dir_def)
  note q = quiet_run [OF assms(1)]
  have "snd (fc_installed tr path binary w) = w"
    using q [of "''test -f '' @ quoted path" w] q [of "''openssl dgst -sha256 '' @ quoted path" w]
    by (fastforce simp: fc_installed_def Let_def)
  then have inst: "fc_installed tr path binary w = (b, w)"
    using assms(13) by (cases "fc_installed tr path binary w") simp
  have "cf_destination (fc_copy_request r binary path) \<noteq> []" for r :: "(nat, string) retrier"
    using assms(12) by (simp add: fc_copy_request_def new_copy_file_request_def copy_file_opt_defs)
  then show ?thesis
    using quiet_copy_file [OF assms(1)] assms(2,3,10,11)
    by (simp add: install_flight_control_def live deref_def os fc_install_path_def home inst Let_def
        split: bool.splits)
qed

subsection \<open>Properties\<close>

text \<open>
  Of binaries named by platform and architecture, exactly those that
  are embedded as files are supported targets, and the file of a supported target is always
  found: ReadTargetFile gives its content.
\<close>

theorem supported_target_readable:
  assumes "binaries_dir es"
  shows "supported_target (Some es) p a =
      (\<exists>c. map_of es (binary_prefix @ p @ ''_'' @ a) = Some (Some c) \<and> match_target (p @ ''_'' @ a) = Some (p, a), None)
    \<and> (supported_target (Some es) p a = (True, None) \<longrightarrow>
       (\<exists>c. map_of es (binary_prefix @ p @ ''_'' @ a) = Some (Some c)
          \<and> read_target_file (Some es) p a = (c, None)))"
proof -
  let ?n = "binary_prefix @ p @ ''_'' @ a"
  have dist: "distinct (map fst es)" using assms by (simp add: binaries_dir_def)
  have fwd: "map_of es ?n = Some (Some c) \<and> match_target (p @ ''_'' @ a) = Some (p, a)"
    if "(name, Some c) \<in> set es" "match_binary name = Some (p, a)" for name c
  proof -
    note entry = that
    have n: "name = ?n" using match_binary_entry [OF assms that(1)] that(2) by auto
    obtain r where r: "name = binary_prefix @ r" "list_all word_char r" "CHR ''_'' \<in> set r"
      using assms entry(1) by (fastforce simp: binaries_dir_def)
    then obtain m where m: "match_target r = Some m" by (auto simp: match_target_def)
    then have "m = (p, a)" using match_binary_prefix [OF m] that(2) r(1) by simp
    then show ?thesis using m n r(1) that(1) dist by (auto intro: map_of_is_SomeI)
  qed
  have bwd: "\<exists>name. (name, Some c) \<in> set es \<and> match_binary name = Some (p, a)"
    if "map_of es ?n = Some (Some c)" "match_target (p @ ''_'' @ a) = Some (p, a)" for c
    using match_binary_prefix [OF that(2)] map_of_SomeD [OF that(1)] by blast
  have iff: "(\<exists>name c. (name, Some c) \<in> set es \<and> match_binary name = Some (p, a)) =
    (\<exists>c. map_of es ?n = Some (Some c) \<and> match_target (p @ ''_'' @ a) = Some (p, a))"
    using fwd bwd by blast
  show ?thesis
    unfolding supported_target_iff iff
    by (auto simp: read_target_file_def embed_read_file_def)
qed

theorem supported_target_readable_witness:
  "read_target_file (Some [(''enos-flight-control_linux_amd64'', Some ''ELF'')]) ''linux'' ''amd64'' = (''ELF'', None)"
proof -
  have "binaries_dir [(''enos-flight-control_linux_amd64'', Some ''ELF'')]"
  proof -
    have "''enos-flight-control_linux_amd64'' = binary_prefix @ ''linux_amd64''"
      "list_all word_char ''linux_amd64''" "CHR ''_'' \<in> set ''linux_amd64''"
      by (simp_all add: binary_prefix_def word_char_def Let_def)
    then have "\<exists>r. ''enos-flight-control_linux_amd64'' = binary_prefix @ r \<and> list_all word_char r
      \<and> CHR ''_'' \<in> set r" by blast
    then show ?thesis unfolding binaries_dir_def by simp
  qed
  from supported_target_readable [OF this, of "''linux''" "''amd64''"] show ?thesis
    by (simp add: binary_prefix_def match_target_def word_char_def Let_def)
qed

text \<open>
  C8: when InstallFlightControl returns without error, the platform and
  architecture the host answered with are a supported target with an embedded binary; the
  binary is installed in the home directory, with its path in the response, or else at the
  request's path, and then the response's path is empty; and it is there because the host's
  digest of the file is the SHA-256 of the binary, or because CopyFile put the binary at the
  path without error.
\<close>

theorem install_flight_control_ok:
  assumes "install_flight_control fs ctx tr ir w = Some ((res, None), w')"
  shows "\<exists>sys mach binary path r.
      answered ctx tr ''uname -s'' sys \<and> answered ctx tr ''uname -m'' mach
    \<and> supported_target fs (format_platform sys) (format_arch mach) = (True, None)
    \<and> read_target_file fs (format_platform sys) (format_arch mach) = (binary, None)
    \<and> (if fc_use_home_dir ir
       then fcr_path res = path \<and> (\<exists>home. path = path_join [home, ''enos-flight-control''])
       else fcr_path res = [] \<and> path = fc_path ir)
    \<and> ((\<exists>v. fc_installed tr path binary v = (True, w'))
       \<or> (\<exists>v c. copy_file ctx tr (Some (fc_copy_request r binary path)) v = Some ((None, c), w')))"
proof -
  obtain req p a req2 w2 binary path res1 w3 b w4 where
    os: "fc_target_os ctx tr req w = Some ((p, a, None), req2, w2)"
    and bin: "fc_binary fs p a = (binary, None)"
    and path: "fc_install_path ctx tr ir w2 = Some ((path, res1, None), w3)"
    and inst: "fc_installed tr path binary w3 = (b, w4)"
    and fin: "(b \<and> res = res1 \<and> w' = w4) \<or>
      (\<exists>c. res = res1 \<and> copy_file ctx tr (Some (fc_copy_request (tg_retrier req2) binary path)) w4
         = Some ((None, c), w'))"
    using assms
    by (auto simp: install_flight_control_def bind_eq_Some_iff Let_def
        split: option.splits prod.splits bool.splits)
  obtain sys mach where sm: "p = format_platform sys" "answered ctx tr ''uname -s'' sys"
    "a = format_arch mach" "answered ctx tr ''uname -m'' mach"
    using fc_target_os_ok [OF os] by blast
  have res: "res = res1" using fin by blast
  have placed: "(\<exists>v. fc_installed tr path binary v = (True, w')) \<or>
    (\<exists>v c. copy_file ctx tr (Some (fc_copy_request (tg_retrier req2) binary path)) v = Some ((None, c), w'))"
    using inst fin by (cases b) auto
  show ?thesis
    by (rule exI [of _ sys], rule exI [of _ mach], rule exI [of _ binary], rule exI [of _ path],
        rule exI [of _ "tg_retrier req2"])
      (use sm fc_binary_ok [OF bin] fc_install_path_ok [OF path] placed res in simp)
qed

text \<open>An amd64 Linux host on which every command succeeds.\<close>

definition linux_host :: "nat transport" where
  "linux_host = mock_transport\<lparr>tr_run := (\<lambda>c w.
     ((if cmd_text c = ''uname -s'' then ''Linux''
       else if cmd_text c = ''uname -m'' then ''x86_64'' else [], [], None), w))\<rparr>"

theorem install_flight_control_ok_witness:
  "\<exists>res. install_flight_control (Some [(''enos-flight-control_linux_amd64'', Some ''ELF'')]) live_ctx
      linux_host (new_install_fc_request 0 []) 0 = Some ((res, None), 0) \<and> fcr_path res = []"
proof -
  let ?fs = "Some [(''enos-flight-control_linux_amd64'', Some ''ELF'')]"
  let ?ir = "new_install_fc_request 0 [] :: nat install_fc_request"
  have ir: "fc_target ?ir = Some (new_target_request 0 [])" "\<not> fc_use_home_dir ?ir"
    "fc_path ?ir = default_flight_control_path"
    by (simp_all add: new_install_fc_request_def)
  have live: "ctx_err live_ctx w = None" for w by (simp add: live_ctx_def)
  have run: "run_cmd linux_host c w = ((if c = ''uname -s'' then ''Linux''
       else if c = ''uname -m'' then ''x86_64'' else [], [], None), w)" for c w
    by (simp add: run_cmd_def linux_host_def new_command_def)
  have "platform_fn linux_host w = Some ((Some ''Linux'', None), w)"
    "arch_fn linux_host w = Some ((Some ''x86_64'', None), w)" for w
    by (simp_all add: platform_fn_def arch_fn_def ask_def run)
  moreover have "format_platform ''Linux'' = ''linux''" by code_simp
  ultimately have pa: "\<exists>r'. target_platform live_ctx linux_host r w = Some ((''linux'', None), r', w)"
    "\<exists>r'. target_architecture live_ctx linux_host r w = Some ((''amd64'', None), r', w)" for r w
    using retry_target_first [of "platform_fn linux_host" w "Some ''Linux''" w live_ctx r]
      retry_target_first [of "arch_fn linux_host" w "Some ''x86_64''" w live_ctx r]
    by (auto simp: target_platform_def target_architecture_def string_result_def deref_def live
        format_arch_def)
  obtain r1 where p1: "target_platform live_ctx linux_host (new_target_request 0 []) 0
      = Some ((''linux'', None), r1, 0)"
    using pa(1) by blast
  obtain r2 where p2: "target_architecture live_ctx linux_host r1 0 = Some ((''amd64'', None), r2, 0)"
    using pa(2) by blast
  have os: "fc_target_os live_ctx linux_host (new_target_request 0 []) 0
      = Some ((''linux'', ''amd64'', None), r2, 0)"
    by (simp add: fc_target_os_def p1 p2)
  have bin: "fc_binary ?fs ''linux'' ''amd64'' = (''ELF'', None)"
    by (simp add: fc_binary_def supported_target_def supported_targets_def binary_prefix_def
        has_prefix_def match_target_def word_char_def read_target_file_def embed_read_file_def Let_def)
  have inst: "fc_installed linux_host p b 0 = (False, 0)" if "p \<noteq> []" for p b
    by (simp add: fc_installed_def run trim_digest_def)
  have "quiet linux_host" by (simp add: quiet_def linux_host_def mock_transport_def)
  moreover have "cf_destination (fc_copy_request r b p) \<noteq> []" if "p \<noteq> []"
    for r :: "(nat, string) retrier" and b p
    using that by (simp add: fc_copy_request_def new_copy_file_request_def copy_file_opt_defs)
  moreover have "default_flight_control_path \<noteq> []" by (simp add: default_flight_control_path_def)
  ultimately obtain res where
    i: "install_flight_control ?fs live_ctx linux_host ?ir 0 = Some ((res, None), 0)"
    using quiet_copy_file [of linux_host]
    by (simp add: install_flight_control_def ir live os bin fc_install_path_def inst deref_def Let_def)
  from install_flight_control_ok [OF i] have "fcr_path res = []" using ir(2) by auto
  then show ?thesis using i by blast
qed

lemma home_dir_fn_fails:
  assumes "\<And>c w. c \<notin> {''uname -s'', ''uname -m''} \<Longrightarrow> \<exists>out serr e w'. run_cmd tr c w = ((out, serr, Some e), w')"
  shows "home_dir_fn tr w \<noteq> Some ((v, None), w')"
proof -
  have f: "\<exists>e w1. home_step tr c m err w = (None, Some e, w1)" if "c \<notin> {''uname -s'', ''uname -m''}"
    for c m err w
    using assms [OF that, of w] by (auto simp: home_step_def)
  obtain e1 w1 where 1: "\<And>m err. home_step tr ''echo $HOME'' m err w = (None, join_errs [err, e1 m], w1)"
    using assms [of "''echo $HOME''" w] by (auto simp: home_step_def)
  obtain e2 w2 where 2: "\<And>m err. home_step tr ''echo ~'' m err w1 = (None, join_errs [err, e2 m], w2)"
    using assms [of "''echo ~''" w1] by (auto simp: home_step_def)
  obtain me serr e3 w3 where 3: "run_cmd tr ''whoami'' w2 = ((me, serr, Some e3), w3)"
    using assms [of "''whoami''" w2] by auto
  have "passwd_cmd me \<notin> {''uname -s'', ''uname -m''}" by (simp add: passwd_cmd_def)
  from f [OF this] have "\<exists>e w4. home_step tr (passwd_cmd me) m err w3
    = (None, Some e, w4)" for m err by blast
  then obtain ef wf where 4: "\<And>m err. home_step tr (passwd_cmd me) m err w3
    = (None, Some (ef m err), wf m err)" by metis
  show ?thesis by (auto simp: home_dir_fn_def 1 2 3 4 Let_def)
qed

text \<open>
  C9: the question for the home directory has a retrier of its own, without
  a maximum. On a host that answers uname but on which every other command fails,
  InstallFlightControl into the home directory never returns while its context is live, even
  when the request it was given allows a single attempt.
\<close>

theorem install_home_dir_unbounded:
  assumes "\<And>w. ctx_err ctx w = None" "fc_use_home_dir ir"
    and "\<And>c w. c \<notin> {''uname -s'', ''uname -m''} \<Longrightarrow> \<exists>out serr e w'. run_cmd tr c w = ((out, serr, Some e), w')"
    and "fc_target ir = Some req" "fc_target_os ctx tr req w = Some ((p, a, None), req2, w2)"
    and "fc_binary fs p a = (binary, None)"
  shows "install_flight_control fs ctx tr ir w = None"
proof -
  let ?req = "new_target_request (pow_overflow ctx) [] :: 'a target_request"
  have fails: "home_dir_fn tr v \<noteq> Some ((x, None), v')" for v x v'
    by (rule home_dir_fn_fails) (rule assms(3))
  have "retry retrier_ops ctx (with_retrier_func (home_dir_fn tr) (tg_retrier ?req)) v = None" for v
    by (rule unlimited_retry_diverges [where f = "home_dir_fn tr"])
      (simp_all add: with_retrier_func_def new_target_request_def Let_def assms(1) fails)
  then have "target_home_dir ctx tr ?req v = None" for v
    by (simp add: target_home_dir_def retry_target_def)
  then show ?thesis
    using assms by (simp add: install_flight_control_def deref_def fc_install_path_def Let_def)
qed

definition broken_host :: "nat transport" where
  "broken_host = linux_host\<lparr>tr_run := (\<lambda>c w.
     if cmd_text c \<in> {''uname -s'', ''uname -m''} then tr_run linux_host c w
     else (([], [], Some (ErrExec [] 1)), w))\<rparr>"

theorem install_home_dir_unbounded_witness:
  "install_flight_control (Some [(''enos-flight-control_linux_amd64'', Some ''ELF'')]) live_ctx broken_host
    (new_install_fc_request 0 [with_install_fc_use_home_dir, with_install_fc_target_request (Some demo_target)]) 0
    = None"
proof -
  let ?fs = "Some [(''enos-flight-control_linux_amd64'', Some ''ELF'')]"
  have live: "ctx_err live_ctx w = None" for w by (simp add: live_ctx_def)
  have run: "run_cmd broken_host c w = (if c = ''uname -s'' then ((''Linux'', [], None), w)
    else if c = ''uname -m'' then ((''x86_64'', [], None), w) else (([], [], Some (ErrExec [] 1)), w))" for c w
    by (simp add: run_cmd_def broken_host_def linux_host_def new_command_def)
  have "platform_fn broken_host w = Some ((Some ''Linux'', None), w)"
    "arch_fn broken_host w = Some ((Some ''x86_64'', None), w)" for w
    by (simp_all add: platform_fn_def arch_fn_def ask_def run)
  moreover have "format_platform ''Linux'' = ''linux''" by code_simp
  ultimately have pa: "\<exists>r'. target_platform live_ctx broken_host r w = Some ((''linux'', None), r', w)"
    "\<exists>r'. target_architecture live_ctx broken_host r w = Some ((''amd64'', None), r', w)" for r w
    using retry_target_first [of "platform_fn broken_host" w "Some ''Linux''" w live_ctx r]
      retry_target_first [of "arch_fn broken_host" w "Some ''x86_64''" w live_ctx r]
    by (auto simp: target_platform_def target_architecture_def string_result_def deref_def live
        format_arch_def)
  obtain r1 where p1: "target_platform live_ctx broken_host demo_target 0 = Some ((''linux'', None), r1, 0)"
    using pa(1) by blast
  obtain r2 where p2: "target_architecture live_ctx broken_host r1 0 = Some ((''amd64'', None), r2, 0)"
    using pa(2) by blast
  have os: "fc_target_os live_ctx broken_host demo_target 0 = Some ((''linux'', ''amd64'', None), r2, 0)"
    by (simp add: fc_target_os_def p1 p2)
  have bin: "fc_binary ?fs ''linux'' ''amd64'' = (''ELF'', None)"
    by (simp add: fc_binary_def supported_target_def supported_targets_def binary_prefix_def
        has_prefix_def match_target_def word_char_def read_target_file_def embed_read_file_def Let_def)
  show ?thesis
    by (rule install_home_dir_unbounded [OF live _ _ _ os bin])
      (simp_all add: new_install_fc_request_def with_install_fc_use_home_dir_def
        with_install_fc_target_request_def run)
qed

end
