(* ===== verification/GoJson.thy ===== *)
theory GoJson
  imports GoStrings
begin

text \<open>
  What the code uses of \<open>encoding/json\<close>: \<open>json.Unmarshal\<close> onto the structs of the
  responses. As in Go, the text is checked as a whole first (a scanner with a stack of open
  arrays and objects, at most 10000 of them) and only then decoded onto the value the
  pointer holds: members the struct does not name are ignored, members it names overwrite
  the field, \<open>null\<close> clears pointers, slices and maps and leaves other fields as they
  are, and a value of the wrong type is remembered as an error while decoding goes on.
  Strings are bytes: Go's replacement of invalid UTF-8 is not modelled.
\<close>

datatype json =
    JNull
  | JBool bool
  | JNum string
  | JStr string
  | JArr "json list"
  | JObj "(string \<times> json) list"

subsection \<open>Tokens\<close>

datatype token =
  TLBrace | TRBrace | TLBracket | TRBracket | TColon | TComma
  | TStr string | TNum string | TWord string

datatype lex_mode = Between | In_Str string bool | In_Num string | In_Word string

definition is_num_char :: "char \<Rightarrow> bool" where
  "is_num_char c \<longleftrightarrow> c \<in> set ''+-.0123456789eE''"

definition is_num_start :: "char \<Rightarrow> bool" where
  "is_num_start c \<longleftrightarrow> c \<in> set ''-0123456789''"

definition is_word_char :: "char \<Rightarrow> bool" where
  "is_word_char c \<longleftrightarrow> c \<in> set ''abcdefghijklmnopqrstuvwxyz''"

definition is_json_space :: "char \<Rightarrow> bool" where
  "is_json_space c \<longleftrightarrow> c \<in> set [CHR '' '', CHR 0x09, CHR 0x0A, CHR 0x0D]"

definition backslash :: char where
  "backslash = CHR 0x5C"

definition punct :: "char \<Rightarrow> token option" where
  "punct c = map_of [(CHR ''{'', TLBrace), (CHR ''}'', TRBrace), (CHR ''['', TLBracket),
     (CHR '']'', TRBracket), (CHR '':'', TColon), (CHR '','', TComma)] c"

text \<open>
  The scanner, one byte at a time. \<open>start_token\<close> is what a byte between tokens begins:
  a finished token, or a mode.
\<close>

definition start_token :: "char \<Rightarrow> (token list \<times> lex_mode) option" where
  "start_token c =
     (if is_json_space c then Some ([], Between)
      else case punct c of
        Some t \<Rightarrow> Some ([t], Between)
      | None \<Rightarrow>
          if c = dquote then Some ([], In_Str [] False)
          else if is_num_start c then Some ([], In_Num [c])
          else if is_word_char c then Some ([], In_Word [c])
          else None)"

fun lex :: "lex_mode \<Rightarrow> string \<Rightarrow> token list option" where
  "lex Between [] = Some []"
| "lex (In_Str acc esc) [] = None"
| "lex (In_Num acc) [] = Some [TNum (rev acc)]"
| "lex (In_Word acc) [] = Some [TWord (rev acc)]"
| "lex Between (c # cs) = do {
     (ts, m) \<leftarrow> start_token c;
     rest \<leftarrow> lex m cs;
     Some (ts @ rest)
   }"
| "lex (In_Str acc esc) (c # cs) =
     (if of_char c < (32::nat) then None
      else if esc then lex (In_Str (c # acc) False) cs
      else if c = backslash then lex (In_Str (c # acc) True) cs
      else if c = dquote then map_option (\<lambda>ts. TStr (rev acc) # ts) (lex Between cs)
      else lex (In_Str (c # acc) False) cs)"
| "lex (In_Num acc) (c # cs) =
     (if is_num_char c then lex (In_Num (c # acc)) cs
      else do {
        (ts, m) \<leftarrow> start_token c;
        rest \<leftarrow> lex m cs;
        Some (TNum (rev acc) # ts @ rest)
      })"
| "lex (In_Word acc) (c # cs) =
     (if is_word_char c then lex (In_Word (c # acc)) cs
      else do {
        (ts, m) \<leftarrow> start_token c;
        rest \<leftarrow> lex m cs;
        Some (TWord (rev acc) # ts @ rest)
      })"

text \<open>Number literals: \<open>-?(0|[1-9][0-9]*)(.[0-9]+)?([eE][+-]?[0-9]+)?\<close>.\<close>

definition is_digit :: "char \<Rightarrow> bool" where
  "is_digit c \<longleftrightarrow> c \<in> set ''0123456789''"

definition strip_exp :: "string \<Rightarrow> string option" where
  "strip_exp s =
     (case s of
        [] \<Rightarrow> Some []
      | c # r \<Rightarrow>
          if c = CHR ''e'' \<or> c = CHR ''E'' then
            (let r = (case r of d # t \<Rightarrow> if d = CHR ''+'' \<or> d = CHR ''-'' then t else r | [] \<Rightarrow> r)
             in if r \<noteq> [] \<and> list_all is_digit r then Some [] else None)
          else None)"

definition strip_frac :: "string \<Rightarrow> string option" where
  "strip_frac s =
     (case s of
        [] \<Rightarrow> Some []
      | c # r \<Rightarrow>
          if c = CHR ''.'' then
            (if takeWhile is_digit r = [] then None else Some (dropWhile is_digit r))
          else Some s)"

definition strip_int :: "string \<Rightarrow> string option" where
  "strip_int s =
     (let s = (case s of c # r \<Rightarrow> if c = CHR ''-'' then r else s | [] \<Rightarrow> s) in
      case s of
        [] \<Rightarrow> None
      | c # r \<Rightarrow>
          if c = CHR ''0'' then Some r
          else if is_digit c then Some (dropWhile is_digit r)
          else None)"

definition valid_number :: "string \<Rightarrow> bool" where
  "valid_number s \<longleftrightarrow>
     Option.bind (strip_int s) (\<lambda>r. Option.bind (strip_frac r) strip_exp) = Some []"

text \<open>The bytes a string literal stands for.\<close>

definition hex_val :: "char \<Rightarrow> nat option" where
  "hex_val c = (let n = of_char c in
     if 48 \<le> n \<and> n \<le> 57 then Some (n - 48)
     else if 65 \<le> n \<and> n \<le> 70 then Some (n - 55)
     else if 97 \<le> n \<and> n \<le> 102 then Some (n - 87) else None)"

definition hex4 :: "char \<Rightarrow> char \<Rightarrow> char \<Rightarrow> char \<Rightarrow> nat option" where
  "hex4 a b c d = do {
     a \<leftarrow> hex_val a; b \<leftarrow> hex_val b; c \<leftarrow> hex_val c; d \<leftarrow> hex_val d;
     Some (((a * 16 + b) * 16 + c) * 16 + d)
   }"

definition utf8 :: "nat \<Rightarrow> string" where
  "utf8 n = map char_of
     (if n < 128 then [n]
      else if n < 2048 then [192 + n div 64, 128 + n mod 64]
      else if n < 65536 then [224 + n div 4096, 128 + n div 64 mod 64, 128 + n mod 64]
      else [240 + n div 262144, 128 + n div 4096 mod 64, 128 + n div 64 mod 64, 128 + n mod 64])"

definition escape_char :: "char \<Rightarrow> char option" where
  "escape_char c = map_of [(dquote, dquote), (backslash, backslash), (slash, slash),
     (CHR ''b'', CHR 0x08), (CHR ''f'', CHR 0x0C), (CHR ''n'', CHR 0x0A), (CHR ''r'', CHR 0x0D),
     (CHR ''t'', CHR 0x09)] c"

text \<open>The low surrogate a second escape right after a high one stands for.\<close>

definition low_surrogate :: "string \<Rightarrow> (nat \<times> string) option" where
  "low_surrogate s =
     (case s of
        x # u # a # b # c # d # r \<Rightarrow>
          if x = backslash \<and> u = CHR ''u'' then
            (case hex4 a b c d of
               Some n \<Rightarrow> if 56320 \<le> n \<and> n < 57344 then Some (n, r) else None
             | None \<Rightarrow> None)
          else None
      | _ \<Rightarrow> None)"

lemma low_surrogate_length: "low_surrogate s = Some (n, r) \<Longrightarrow> length r < length s"
  by (auto simp: low_surrogate_def split: list.splits if_splits option.splits)

fun unquote :: "string \<Rightarrow> string option" where
  "unquote [] = Some []"
| "unquote (x # cs) =
     (if x \<noteq> backslash then map_option (\<lambda>r. x # r) (unquote cs)
      else case cs of
        [] \<Rightarrow> None
      | e # r \<Rightarrow>
          if e = CHR ''u'' then
            (case r of
               a # b # c # d # r' \<Rightarrow>
                 (case hex4 a b c d of
                    None \<Rightarrow> None
                  | Some n \<Rightarrow>
                      if 55296 \<le> n \<and> n < 56320 then
                        (case low_surrogate r' of
                           Some (m, r'') \<Rightarrow>
                             if length r'' < length r'
                             then map_option (\<lambda>t. utf8 (65536 + (n - 55296) * 1024 + (m - 56320)) @ t)
                                    (unquote r'')
                             else None
                         | None \<Rightarrow> map_option (\<lambda>t. utf8 65533 @ t) (unquote r'))
                      else if 56320 \<le> n \<and> n < 57344
                      then map_option (\<lambda>t. utf8 65533 @ t) (unquote r')
                      else map_option (\<lambda>t. utf8 n @ t) (unquote r'))
             | _ \<Rightarrow> None)
          else (case escape_char e of
                  None \<Rightarrow> None
                | Some x' \<Rightarrow> map_option (\<lambda>t. x' # t) (unquote r)))"

subsection \<open>The parser\<close>

datatype frame = FArr "json list" | FObj "(string \<times> json) list" string

datatype expect =
  EValue | EValueOrEnd | EKey | EKeyOrEnd | EColon | ECommaOrEnd | EDone json

definition max_nesting :: nat where
  "max_nesting = 10000"

type_synonym pstate = "expect \<times> frame list"

fun put_value :: "json \<Rightarrow> frame list \<Rightarrow> pstate" where
  "put_value v [] = (EDone v, [])"
| "put_value v (FArr xs # st) = (ECommaOrEnd, FArr (v # xs) # st)"
| "put_value v (FObj ms k # st) = (ECommaOrEnd, FObj ((k, v) # ms) k # st)"

definition push_frame :: "expect \<Rightarrow> frame \<Rightarrow> frame list \<Rightarrow> pstate option" where
  "push_frame e f st = (if length st < max_nesting then Some (e, f # st) else None)"

definition wants_value :: "expect \<Rightarrow> bool" where
  "wants_value e \<longleftrightarrow> e = EValue \<or> e = EValueOrEnd"

definition word_value :: "string \<Rightarrow> json option" where
  "word_value s = map_of [(''null'', JNull), (''true'', JBool True), (''false'', JBool False)] s"

definition parse_token :: "token \<Rightarrow> pstate \<Rightarrow> pstate option" where
  "parse_token t s =
     (case s of (e, st) \<Rightarrow>
      (case t of
         TLBrace \<Rightarrow> if wants_value e then push_frame EKeyOrEnd (FObj [] []) st else None
       | TLBracket \<Rightarrow> if wants_value e then push_frame EValueOrEnd (FArr []) st else None
       | TRBrace \<Rightarrow>
           (case st of
              FObj ms k # st' \<Rightarrow>
                if e = ECommaOrEnd \<or> e = EKeyOrEnd then Some (put_value (JObj (rev ms)) st') else None
            | _ \<Rightarrow> None)
       | TRBracket \<Rightarrow>
           (case st of
              FArr xs # st' \<Rightarrow>
                if e = ECommaOrEnd \<or> e = EValueOrEnd then Some (put_value (JArr (rev xs)) st') else None
            | _ \<Rightarrow> None)
       | TColon \<Rightarrow> if e = EColon then Some (EValue, st) else None
       | TComma \<Rightarrow>
           if e = ECommaOrEnd then
             (case st of FObj ms k # _ \<Rightarrow> Some (EKey, st) | FArr xs # _ \<Rightarrow> Some (EValue, st) | [] \<Rightarrow> None)
           else None
       | TNum n \<Rightarrow> if wants_value e \<and> valid_number n then Some (put_value (JNum n) st) else None
       | TWord w \<Rightarrow>
           if wants_value e then map_option (\<lambda>v. put_value v st) (word_value w) else None
       | TStr raw \<Rightarrow>
           (case unquote raw of
              None \<Rightarrow> None
            | Some str \<Rightarrow>
                if wants_value e then Some (put_value (JStr str) st)
                else if e = EKey \<or> e = EKeyOrEnd then
                  (case st of FObj ms k # st' \<Rightarrow> Some (EColon, FObj ms str # st') | _ \<Rightarrow> None)
                else None)))"

fun parse_tokens :: "token list \<Rightarrow> pstate \<Rightarrow> pstate option" where
  "parse_tokens [] s = Some s"
| "parse_tokens (t # ts) s = Option.bind (parse_token t s) (parse_tokens ts)"

definition parse_json :: "string \<Rightarrow> json option" where
  "parse_json s = do {
     ts \<leftarrow> lex Between s;
     (e, st) \<leftarrow> parse_tokens ts (EValue, []);
     (case e of EDone v \<Rightarrow> Some v | _ \<Rightarrow> None)
   }"

subsection \<open>Decoding onto a value\<close>

type_synonym 's decoder = "json \<Rightarrow> 's \<Rightarrow> 's \<times> error"

definition err_json_syntax :: goerr where
  "err_json_syntax = ErrNew ''json: syntax error''"

definition err_json_type :: goerr where
  "err_json_type = ErrNew ''json: cannot unmarshal value into Go value''"

definition err_json_number :: goerr where
  "err_json_number = ErrNew ''json: invalid number literal, trying to unmarshal into Number''"

text \<open>The first error met is the one \<open>Unmarshal\<close> returns.\<close>

definition first_err :: "error \<Rightarrow> error \<Rightarrow> error" where
  "first_err e1 e2 = (case e1 of Some e \<Rightarrow> Some e | None \<Rightarrow> e2)"

lemma first_err_simps [simp]: "first_err None e = e" "first_err (Some x) e = Some x"
  by (simp_all add: first_err_def)

lemma first_err_eq_None [simp]: "first_err a b = None \<longleftrightarrow> a = None \<and> b = None"
  by (cases a) auto

fun dec_string :: "string decoder" where
  "dec_string (JStr t) s = (t, None)"
| "dec_string JNull s = (s, None)"
| "dec_string _ s = (s, Some err_json_type)"

fun dec_bool :: "bool decoder" where
  "dec_bool (JBool b) s = (b, None)"
| "dec_bool JNull s = (s, None)"
| "dec_bool _ s = (s, Some err_json_type)"

text \<open>\<open>json.Number\<close> keeps the text of a number, also of one inside a string.\<close>

fun dec_number :: "string decoder" where
  "dec_number (JNum n) s = (n, None)"
| "dec_number (JStr t) s = (if valid_number t then (t, None) else (s, Some err_json_number))"
| "dec_number JNull s = (s, None)"
| "dec_number _ s = (s, Some err_json_type)"

definition digits_value :: "string \<Rightarrow> nat" where
  "digits_value = foldl (\<lambda>n c. n * 10 + (of_char c - 48)) 0"

definition parse_nat :: "string \<Rightarrow> nat option" where
  "parse_nat s = (if s \<noteq> [] \<and> list_all is_digit s then Some (digits_value s) else None)"

definition parse_int :: "string \<Rightarrow> int option" where
  "parse_int s =
     (case s of
        [] \<Rightarrow> None
      | c # r \<Rightarrow> if c = CHR ''-'' then map_option (\<lambda>n. - int n) (parse_nat r)
                 else map_option int (parse_nat s))"

fun dec_int :: "int decoder" where
  "dec_int (JNum n) s =
     (case parse_int n of
        Some i \<Rightarrow> if - (2 ^ 63) \<le> i \<and> i < 2 ^ 63 then (i, None) else (s, Some err_json_type)
      | None \<Rightarrow> (s, Some err_json_type))"
| "dec_int JNull s = (s, None)"
| "dec_int _ s = (s, Some err_json_type)"

fun dec_uint64 :: "nat decoder" where
  "dec_uint64 (JNum n) s =
     (case parse_nat n of
        Some i \<Rightarrow> if i < 2 ^ 64 then (i, None) else (s, Some err_json_type)
      | None \<Rightarrow> (s, Some err_json_type))"
| "dec_uint64 JNull s = (s, None)"
| "dec_uint64 _ s = (s, Some err_json_type)"

definition dec_ptr :: "'s \<Rightarrow> 's decoder \<Rightarrow> 's option decoder" where
  "dec_ptr zero d j p =
     (if j = JNull then (None, None)
      else let (v, e) = d j (case p of None \<Rightarrow> zero | Some v \<Rightarrow> v) in (Some v, e))"

text \<open>
  Slices: every slice of the responses is empty before decoding, so each element is
  decoded onto a zero value. The nil slice is the empty list.
\<close>

fun dec_elems :: "'s \<Rightarrow> 's decoder \<Rightarrow> json list \<Rightarrow> 's list \<times> error" where
  "dec_elems zero d [] = ([], None)"
| "dec_elems zero d (j # js) =
     (let (v, e) = d j zero; (vs, e') = dec_elems zero d js in (v # vs, first_err e e'))"

fun dec_slice :: "'s \<Rightarrow> 's decoder \<Rightarrow> 's list decoder" where
  "dec_slice zero d (JArr js) s = dec_elems zero d js"
| "dec_slice zero d JNull s = ([], None)"
| "dec_slice zero d _ s = (s, Some err_json_type)"

fun dec_members :: "'s \<Rightarrow> 's decoder \<Rightarrow> (string \<times> json) list \<Rightarrow> (string \<times> 's) list
    \<Rightarrow> (string \<times> 's) list \<times> error" where
  "dec_members zero d [] m = (m, None)"
| "dec_members zero d ((k, j) # js) m =
     (let (v, e) = d j zero; (m', e') = dec_members zero d js (map_set k v m)
      in (m', first_err e e'))"

fun dec_map :: "'s \<Rightarrow> 's decoder \<Rightarrow> (string \<times> 's) list decoder" where
  "dec_map zero d (JObj js) m = dec_members zero d js m"
| "dec_map zero d JNull m = ([], None)"
| "dec_map zero d _ m = (m, Some err_json_type)"

text \<open>
  Structs: a member name selects the field with exactly this name, or else the first one
  that differs only in case.
\<close>

definition field ::
  "string \<Rightarrow> 'f decoder \<Rightarrow> ('s \<Rightarrow> 'f) \<Rightarrow> (('f \<Rightarrow> 'f) \<Rightarrow> 's \<Rightarrow> 's) \<Rightarrow> string \<times> 's decoder" where
  "field name d get upd = (name, \<lambda>j s. let (v, e) = d j (get s) in (upd (\<lambda>_. v) s, e))"

definition find_field :: "(string \<times> 's decoder) list \<Rightarrow> string \<Rightarrow> 's decoder option" where
  "find_field fs k =
     (case map_of fs k of
        Some d \<Rightarrow> Some d
      | None \<Rightarrow> map_option snd (List.find (\<lambda>(n, d). to_lower n = to_lower k) fs))"

fun dec_fields :: "(string \<times> 's decoder) list \<Rightarrow> (string \<times> json) list \<Rightarrow> 's \<Rightarrow> 's \<times> error" where
  "dec_fields fs [] s = (s, None)"
| "dec_fields fs ((k, j) # ms) s =
     (let (s1, e1) = (case find_field fs k of Some d \<Rightarrow> d j s | None \<Rightarrow> (s, None));
          (s2, e2) = dec_fields fs ms s1
      in (s2, first_err e1 e2))"

fun dec_struct :: "(string \<times> 's decoder) list \<Rightarrow> 's decoder" where
  "dec_struct fs (JObj ms) s = dec_fields fs ms s"
| "dec_struct fs JNull s = (s, None)"
| "dec_struct fs _ s = (s, Some err_json_type)"

text \<open>\<open>json.Unmarshal([]byte(text), &v)\<close>.\<close>

definition unmarshal :: "'s decoder \<Rightarrow> string \<Rightarrow> 's \<Rightarrow> 's \<times> error" where
  "unmarshal d text v =
     (case parse_json text of None \<Rightarrow> (v, Some err_json_syntax) | Some j \<Rightarrow> d j v)"

text \<open>
  \<open>json.Unmarshal([]byte(text), p)\<close> where the pointer itself may be nil, which is an
  error once the text has been checked.
\<close>

definition err_json_nil :: goerr where
  "err_json_nil = ErrNew ''json: Unmarshal(nil)''"

definition unmarshal_ptr :: "'s decoder \<Rightarrow> string \<Rightarrow> 's option \<Rightarrow> 's option \<times> error" where
  "unmarshal_ptr d text p =
     (case p of
        None \<Rightarrow> (None, Some (if parse_json text = None then err_json_syntax else err_json_nil))
      | Some v \<Rightarrow> (let (v', e) = unmarshal d text v in (Some v', e)))"

lemma dec_fields_append:
  "dec_fields fs (xs @ ys) s =
    (let (s1, e1) = dec_fields fs xs s; (s2, e2) = dec_fields fs ys s1 in (s2, first_err e1 e2))"
proof (induction fs xs s rule: dec_fields.induct)
  case (1 fs s)
  then show ?case by (simp split: prod.splits)
next
  case (2 fs k j ms s)
  then show ?case
    by (auto simp: Let_def first_err_def split: prod.splits option.splits)
qed

text \<open>A member the struct does not name changes nothing.\<close>

lemma dec_fields_unknown:
  assumes "\<And>k j. (k, j) \<in> set ms \<Longrightarrow> find_field fs k = None"
  shows "dec_fields fs ms s = (s, None)"
  using assms
proof (induction ms)
  case Nil
  show ?case by simp
next
  case (Cons m ms)
  obtain k j where m: "m = (k, j)" by (cases m)
  have "find_field fs k = None" using Cons.prems [of k j] by (simp add: m)
  moreover have "dec_fields fs ms s = (s, None)"
    using Cons.prems by (intro Cons.IH) (meson list.set_intros(2))
  ultimately show ?case by (simp add: m)
qed

text \<open>What evaluates the parser on a literal text by rewriting.\<close>

lemmas json_text_defs = parse_json_def start_token_def is_json_space_def punct_def is_num_start_def
  is_word_char_def is_num_char_def backslash_def parse_token_def push_frame_def wants_value_def
  max_nesting_def word_value_def

end
