(* ===== verification/VaultStatus.thy ===== *)
theory VaultStatus
  imports FlightControl GoJson
begin

text \<open>
  Reading a Vault node, first part: \<open>internal/remoteflight/vault\<close> \<open>cli.go\<close>, \<open>status.go\<close>,
  \<open>seal_status.go\<close>, \<open>health.go\<close> and \<open>ha_status.go\<close>. A response is decoded from the output of
  a command onto a response with default values, the way encoding/json does it. Requests
  are never nil in the code that makes them and are plain values here.
\<close>

subsection \<open>What the readers share\<close>

record cli_request =
  cli_addr :: string
  cli_token :: string
  cli_bin :: string

text \<open>\<open>if val == "" { err = errors.Join(err, errors.New(msg)) }\<close>.\<close>

definition need :: "string \<times> string \<Rightarrow> error \<Rightarrow> error" where
  "need mv err = (case mv of (msg, val) \<Rightarrow>
     if val = [] then join_errs [err, Some (ErrNew msg)] else err)"

definition needs :: "(string \<times> string) list \<Rightarrow> error \<Rightarrow> error" where
  "needs mvs err = fold need mvs err"

text \<open>
  Run a command and decode what it prints onto \<open>res\<close>. What it writes to standard error is
  an error, an empty output is one, and they are joined with that of the command.
\<close>

definition read_body ::
  "'w transport \<Rightarrow> command \<Rightarrow> string \<Rightarrow> string \<Rightarrow> 's decoder \<Rightarrow> 's \<Rightarrow> 'w \<Rightarrow> ('s \<times> error) \<times> 'w" where
  "read_body tr cmd unexpected no_body d res w =
     (case tr_run tr cmd w of
        ((out, serr, err), w1) \<Rightarrow>
          let err = (if serr \<noteq> [] then join_errs [err, Some (ErrNew (unexpected @ serr))] else err) in
          if out = [] then ((res, join_errs [err, Some (ErrNew no_body)]), w1)
          else (let (res1, e) = unmarshal d out res in ((res1, join_errs [err, e]), w1)))"

text \<open>
  The shape of the readers: check the context and the request, then read the body; the
  response is nil when there was an error, which \<open>final\<close> puts into words.
\<close>

definition read_with ::
  "'w go_ctx \<Rightarrow> (string \<times> string) list \<Rightarrow> ('w \<Rightarrow> ('s \<times> error) \<times> 'w) \<Rightarrow> (goerr \<Rightarrow> error) \<Rightarrow> 'w
    \<Rightarrow> ('s option \<times> error) \<times> 'w" where
  "read_with ctx mvs body final w =
     (case needs mvs (ctx_err ctx w) of
        Some e \<Rightarrow> ((None, final e), w)
      | None \<Rightarrow>
          (case body w of
             ((_, Some e), w1) \<Rightarrow> ((None, final e), w1)
           | ((res, None), w1) \<Rightarrow> ((Some res, None), w1)))"

definition need_bin :: "cli_request \<Rightarrow> string \<times> string" where
  "need_bin req = (''you must supply a vault bin path'', cli_bin req)"

definition need_addr :: "string \<Rightarrow> string \<times> string" where
  "need_addr addr = (''you must supply a vault listen address'', addr)"

definition need_token :: "string \<Rightarrow> cli_request \<Rightarrow> string \<times> string" where
  "need_token endpoint req =
     (''you must supply a vault token for the '' @ endpoint @ '' endpoint'', cli_token req)"

definition need_fc :: "string \<Rightarrow> string \<times> string" where
  "need_fc path = (''you must supply an enos-flight-control path'', path)"

definition vault_cmd :: "cli_request \<Rightarrow> string \<Rightarrow> command" where
  "vault_cmd req words =
     new_command (cli_bin req @ words) [with_env_var ''VAULT_ADDR'' (cli_addr req)]"

definition vault_token_cmd :: "cli_request \<Rightarrow> string \<Rightarrow> command" where
  "vault_token_cmd req words = new_command (cli_bin req @ words)
     [with_env_var ''VAULT_ADDR'' (cli_addr req), with_env_var ''VAULT_TOKEN'' (cli_token req)]"

definition final_after :: "string \<Rightarrow> goerr \<Rightarrow> error" where
  "final_after msg e = join_errs [Some (ErrNew msg), Some e]"

definition kv :: "string \<Rightarrow> string \<Rightarrow> string" where
  "kv name val = line (name @ '': '' @ val)"

definition kv_opt :: "string \<Rightarrow> string \<Rightarrow> string" where
  "kv_opt name val = (if val \<noteq> [] then kv name val else [])"

subsection \<open>vault status (status.go)\<close>

type_synonym vault_code = int

definition StatusInitializedUnsealed :: vault_code where "StatusInitializedUnsealed = 0"
definition StatusError :: vault_code where "StatusError = 1"
definition StatusSealed :: vault_code where "StatusSealed = 2"
definition StatusUnknown :: vault_code where "StatusUnknown = 9"

lemmas vault_code_defs = StatusInitializedUnsealed_def StatusError_def StatusSealed_def
  StatusUnknown_def

definition vault_code_string :: "vault_code \<Rightarrow> string" where
  "vault_code_string s =
     (if s = StatusInitializedUnsealed then ''unsealed''
      else if s = StatusError then ''error''
      else if s = StatusSealed then ''sealed''
      else if s = StatusUnknown then ''unknown''
      else ''undefined'')"

record status_response =
  vs_code :: vault_code
  vs_seal_type :: string
  vs_initialized :: bool
  vs_sealed :: bool
  vs_version :: string
  vs_ha_enabled :: bool

definition new_status_response :: status_response where
  "new_status_response = \<lparr>vs_code = 0, vs_seal_type = [], vs_initialized = False,
     vs_sealed = False, vs_version = [], vs_ha_enabled = False\<rparr>"

definition dec_status :: "status_response decoder" where
  "dec_status = dec_struct
     [field ''StatusCode'' dec_int vs_code vs_code_update,
      field ''type'' dec_string vs_seal_type vs_seal_type_update,
      field ''initialized'' dec_bool vs_initialized vs_initialized_update,
      field ''sealed'' dec_bool vs_sealed vs_sealed_update,
      field ''version'' dec_string vs_version vs_version_update,
      field ''ha_enabled'' dec_bool vs_ha_enabled vs_ha_enabled_update]"

definition code_words :: "string \<Rightarrow> vault_code \<Rightarrow> string" where
  "code_words msg c = msg @ show_int c @ '' ('' @ vault_code_string c @ '')''"

definition vault_status_code_from_error :: "goerr \<Rightarrow> vault_code \<times> error" where
  "vault_status_code_from_error err =
     (case as_exec err of
        Some code \<Rightarrow>
          if code \<in> {StatusInitializedUnsealed, StatusSealed, StatusError} then (code, None)
          else if code = StatusUnknown then
            (code, Some (ErrNew (code_words ''did not get an exit code: '' code)))
          else (code, Some (ErrNew (code_words ''invalid exit code: '' code)))
      | None \<Rightarrow> (StatusUnknown, Some (ErrWrap ''err did not include exit code: '' err [])))"

definition status_body :: "'w transport \<Rightarrow> cli_request \<Rightarrow> 'w \<Rightarrow> (status_response \<times> error) \<times> 'w" where
  "status_body tr req w =
     (case tr_run tr (vault_cmd req '' status -format=json'') w of
        ((out, serr, err1), w1) \<Rightarrow>
          let (code, err2) =
                (case err1 of
                   None \<Rightarrow> if serr = [] then (StatusInitializedUnsealed, None) else (StatusError, None)
                 | Some e1 \<Rightarrow> vault_status_code_from_error e1);
              res = new_status_response\<lparr>vs_code := code\<rparr>;
              err = (if code = StatusInitializedUnsealed \<or> code = StatusSealed then None
                     else join_errs [None, err1, err2]);
              err = (if serr \<noteq> []
                     then join_errs [err, Some (ErrNew (''unexpected write to STDERR: '' @ serr))]
                     else err)
          in if out = []
             then ((res, join_errs [err, Some (ErrNew ''no JSON body was written to STDOUT'')]), w1)
             else (let (res1, e) = unmarshal dec_status out res in ((res1, join_errs [err, e]), w1)))"

definition get_status ::
  "'w go_ctx \<Rightarrow> 'w transport \<Rightarrow> cli_request \<Rightarrow> 'w \<Rightarrow> (status_response option \<times> error) \<times> 'w" where
  "get_status ctx tr req w =
     read_with ctx [need_bin req, need_addr (cli_addr req)] (status_body tr req)
       (final_after ''get vault status: vault status'') w"

definition status_is_sealed :: "status_response option \<Rightarrow> bool \<times> error" where
  "status_is_sealed s =
     (case s of
        None \<Rightarrow> (True, Some (ErrNew ''state does not include status body''))
      | Some r \<Rightarrow>
          if vs_code r = StatusInitializedUnsealed then
            (if vs_sealed r then (True, Some (ErrNew
               ''status response does not match status code, expected sealed=false, got sealed=true''))
             else (False, None))
          else if vs_code r = StatusError then (True, Some (ErrNew
            ''unable to determine seal status because status returned an error exit code''))
          else if vs_code r = StatusSealed then
            (if \<not> vs_sealed r then (True, Some (ErrNew
               ''status response does not match status code, expected sealed=true, got sealed=false''))
             else (True, None))
          else if vs_code r = StatusUnknown then
            (True, Some (ErrNew ''unable to determine vault status''))
          else (True, Some (ErrNew (''unable to determine vault status, unexpected exit code ''
                 @ vault_code_string (vs_code r)))))"

definition status_string :: "status_response option \<Rightarrow> string" where
  "status_string s =
     (case s of
        None \<Rightarrow> []
      | Some r \<Rightarrow>
          line (code_words ''Code: '' (vs_code r))
          @ kv_opt ''Seal Type'' (vs_seal_type r)
          @ kv ''Initialized'' (show_bool (vs_initialized r))
          @ kv ''Sealed'' (show_bool (vs_sealed r))
          @ kv_opt ''Version'' (vs_version r)
          @ kv ''HA Enabled'' (show_bool (vs_ha_enabled r)))"

subsection \<open>Seal status (seal\_status.go)\<close>

record seal_status_request =
  ssr_addr :: string
  ssr_fc_path :: string

type_synonym seal_status_opt = "seal_status_request \<Rightarrow> seal_status_request"

definition new_seal_status_request :: "seal_status_opt list \<Rightarrow> seal_status_request" where
  "new_seal_status_request opts =
     apply_opts opts \<lparr>ssr_addr = [], ssr_fc_path = default_flight_control_path\<rparr>"

definition with_seal_status_fc_path :: "string \<Rightarrow> seal_status_opt" where
  "with_seal_status_fc_path p u = u\<lparr>ssr_fc_path := p\<rparr>"

definition with_seal_status_addr :: "string \<Rightarrow> seal_status_opt" where
  "with_seal_status_addr a u = u\<lparr>ssr_addr := a\<rparr>"

record seal_status_data =
  sd_build_date :: string
  sd_cluster_id :: string
  sd_cluster_name :: string
  sd_initialized :: bool
  sd_migration :: bool
  sd_number :: string
  sd_nonce :: string
  sd_progress :: string
  sd_recovery_seal :: bool
  sd_sealed :: bool
  sd_storage_type :: string
  sd_threshold :: string
  sd_type :: string
  sd_version :: string

record seal_status_response =
  ss_data :: "seal_status_data option"

definition zero_seal_data :: seal_status_data where
  "zero_seal_data = \<lparr>sd_build_date = [], sd_cluster_id = [], sd_cluster_name = [],
     sd_initialized = False, sd_migration = False, sd_number = [], sd_nonce = [], sd_progress = [],
     sd_recovery_seal = False, sd_sealed = False, sd_storage_type = [], sd_threshold = [],
     sd_type = [], sd_version = []\<rparr>"

definition new_seal_status_response :: seal_status_response where
  "new_seal_status_response = \<lparr>ss_data = Some zero_seal_data\<rparr>"

definition dec_seal_data :: "seal_status_data decoder" where
  "dec_seal_data = dec_struct
     [field ''build_date'' dec_string sd_build_date sd_build_date_update,
      field ''cluster_id'' dec_string sd_cluster_id sd_cluster_id_update,
      field ''cluster_name'' dec_string sd_cluster_name sd_cluster_name_update,
      field ''initialized'' dec_bool sd_initialized sd_initialized_update,
      field ''migration'' dec_bool sd_migration sd_migration_update,
      field ''n'' dec_number sd_number sd_number_update,
      field ''nonce'' dec_string sd_nonce sd_nonce_update,
      field ''progress'' dec_number sd_progress sd_progress_update,
      field ''recovery_seal'' dec_bool sd_recovery_seal sd_recovery_seal_update,
      field ''sealed'' dec_bool sd_sealed sd_sealed_update,
      field ''storage_type'' dec_string sd_storage_type sd_storage_type_update,
      field ''t'' dec_number sd_threshold sd_threshold_update,
      field ''type'' dec_string sd_type sd_type_update,
      field ''version'' dec_string sd_version sd_version_update]"

definition dec_seal_status :: "seal_status_response decoder" where
  "dec_seal_status = dec_struct
     [field ''data'' (dec_ptr zero_seal_data dec_seal_data) ss_data ss_data_update]"

definition seal_status_request_string :: "seal_status_request \<Rightarrow> string" where
  "seal_status_request_string r =
     ssr_fc_path r @ '' download --stdout --url '' @ quoted (ssr_addr r @ ''/v1/sys/seal-status'')"

text \<open>
  Older versions answer with the bare data: when there was no data, or none with a type,
  the body is decoded again, onto the data.
\<close>

definition seal_status_body ::
  "'w transport \<Rightarrow> seal_status_request \<Rightarrow> 'w \<Rightarrow> (seal_status_response \<times> error) \<times> 'w" where
  "seal_status_body tr req w =
     (case tr_run tr (new_command (seal_status_request_string req) []) w of
        ((out, serr, err), w1) \<Rightarrow>
          let res = new_seal_status_response;
              err = (if serr \<noteq> []
                     then join_errs [err, Some (ErrNew (''unexpected write to STDERR: '' @ serr))]
                     else err) in
          if out = []
          then ((res, join_errs [err, Some (ErrNew ''no JSON body was written to STDOUT'')]), w1)
          else
            (let (res, e) = unmarshal dec_seal_status out res;
                 err = join_errs [err, e] in
             if (case ss_data res of None \<Rightarrow> True | Some d \<Rightarrow> sd_type d = [])
             then (let (dat, e2) = unmarshal_ptr dec_seal_data out (ss_data res)
                   in ((res\<lparr>ss_data := dat\<rparr>, join_errs [err, e2]), w1))
             else ((res, err), w1)))"

definition get_seal_status ::
  "'w go_ctx \<Rightarrow> 'w transport \<Rightarrow> seal_status_request \<Rightarrow> 'w
    \<Rightarrow> (seal_status_response option \<times> error) \<times> 'w" where
  "get_seal_status ctx tr req w =
     read_with ctx [need_fc (ssr_fc_path req), need_addr (ssr_addr req)] (seal_status_body tr req)
       (final_after ''get vault seal status: vault read sys/seal-status'') w"

definition seal_status_is_sealed :: "seal_status_response option \<Rightarrow> bool \<times> error" where
  "seal_status_is_sealed s =
     (case s of
        None \<Rightarrow> (True, Some (ErrNew ''seal response is nil''))
      | Some r \<Rightarrow>
          (case ss_data r of
             None \<Rightarrow> (True, Some (ErrNew ''seal response does not have seal data''))
           | Some d \<Rightarrow> (sd_sealed d, None)))"

definition seal_data_string :: "seal_status_data \<Rightarrow> string" where
  "seal_data_string s =
     kv ''Build Date'' (sd_build_date s)
     @ kv ''Cluster ID'' (sd_cluster_id s)
     @ kv ''Cluster Name'' (sd_cluster_name s)
     @ kv ''Initialized'' (show_bool (sd_initialized s))
     @ kv ''Migration'' (show_bool (sd_migration s))
     @ kv ''Number'' (sd_number s)
     @ kv ''Nonce'' (sd_nonce s)
     @ kv ''Progress'' (sd_progress s)
     @ kv ''Recovery Seal'' (show_bool (sd_recovery_seal s))
     @ kv ''Sealed'' (show_bool (sd_sealed s))
     @ kv ''Storage Type'' (sd_storage_type s)
     @ kv ''Threshold'' (sd_threshold s)
     @ kv ''Type'' (sd_type s)
     @ kv ''Version'' (sd_version s)"

definition seal_status_string :: "seal_status_response option \<Rightarrow> string" where
  "seal_status_string s =
     (case s of
        None \<Rightarrow> []
      | Some r \<Rightarrow> (case ss_data r of None \<Rightarrow> [] | Some d \<Rightarrow> seal_data_string d))"

subsection \<open>Health (health.go)\<close>

type_synonym health_status = int

definition HealthActive :: health_status where "HealthActive = 230"
definition HealthUnsealedStandby :: health_status where "HealthUnsealedStandby = 231"
definition HealthDRSecondary :: health_status where "HealthDRSecondary = 232"
definition HealthPerformanceStandby :: health_status where "HealthPerformanceStandby = 233"
definition HealthNotInitialized :: health_status where "HealthNotInitialized = 234"
definition HealthSealed :: health_status where "HealthSealed = 235"
definition HealthUnknown :: health_status where "HealthUnknown = 9"

lemmas health_defs = HealthActive_def HealthUnsealedStandby_def HealthDRSecondary_def
  HealthPerformanceStandby_def HealthNotInitialized_def HealthSealed_def HealthUnknown_def

definition health_status_string :: "health_status \<Rightarrow> string" where
  "health_status_string s =
     (if s = HealthActive then ''initialized-unsealed-active''
      else if s = HealthUnsealedStandby then ''unsealed-standby''
      else if s = HealthDRSecondary then ''dr-replication-secondary-active''
      else if s = HealthPerformanceStandby then ''performance-standby''
      else if s = HealthNotInitialized then ''not-initialized''
      else if s = HealthSealed then ''sealed''
      else if s = HealthUnknown then ''unknown''
      else ''undefined'')"

definition ReplicationModeUnset :: string where "ReplicationModeUnset = []"
definition ReplicationModeUnknown :: string where "ReplicationModeUnknown = ''unknown''"
definition ReplicationModeDisabled :: string where "ReplicationModeDisabled = ''disabled''"
definition ReplicationModePrimary :: string where "ReplicationModePrimary = ''primary''"
definition ReplicationModeSecondary :: string where "ReplicationModeSecondary = ''secondary''"

record health_request =
  hr_addr :: string
  hr_fc_path :: string
  hr_standby_ok :: bool
  hr_perf_standby_ok :: bool
  hr_active_code :: health_status
  hr_standby_code :: health_status
  hr_dr_secondary_code :: health_status
  hr_performance_standby_code :: health_status
  hr_sealed_code :: health_status
  hr_uninit_code :: health_status

type_synonym health_opt = "health_request \<Rightarrow> health_request"

definition new_health_request :: "health_opt list \<Rightarrow> health_request" where
  "new_health_request opts = apply_opts opts
     \<lparr>hr_addr = [], hr_fc_path = default_flight_control_path, hr_standby_ok = False,
      hr_perf_standby_ok = False, hr_active_code = HealthActive,
      hr_standby_code = HealthUnsealedStandby, hr_dr_secondary_code = HealthDRSecondary,
      hr_performance_standby_code = HealthPerformanceStandby, hr_sealed_code = HealthSealed,
      hr_uninit_code = HealthNotInitialized\<rparr>"

definition with_health_fc_path :: "string \<Rightarrow> health_opt" where
  "with_health_fc_path p u = u\<lparr>hr_fc_path := p\<rparr>"

definition with_health_addr :: "string \<Rightarrow> health_opt" where
  "with_health_addr a u = u\<lparr>hr_addr := a\<rparr>"

record health_license =
  hl_expiry :: string
  hl_state :: string
  hl_terminated :: bool

record health_response =
  hs_status :: health_status
  hs_cluster_id :: string
  hs_cluster_name :: string
  hs_initialized :: bool
  hs_last_wal :: nat
  hs_license :: "health_license option"
  hs_perf_standby :: bool
  hs_dr_mode :: string
  hs_perf_mode :: string
  hs_sealed :: bool
  hs_server_time :: nat
  hs_standby :: bool
  hs_version :: string

definition zero_license :: health_license where
  "zero_license = \<lparr>hl_expiry = [], hl_state = [], hl_terminated = False\<rparr>"

definition new_health_response :: health_response where
  "new_health_response = \<lparr>hs_status = 0, hs_cluster_id = [], hs_cluster_name = [],
     hs_initialized = False, hs_last_wal = 0, hs_license = Some zero_license,
     hs_perf_standby = False, hs_dr_mode = [], hs_perf_mode = [], hs_sealed = False,
     hs_server_time = 0, hs_standby = False, hs_version = []\<rparr>"

definition dec_license :: "health_license decoder" where
  "dec_license = dec_struct
     [field ''expiry_time'' dec_string hl_expiry hl_expiry_update,
      field ''state'' dec_string hl_state hl_state_update,
      field ''terminated'' dec_bool hl_terminated hl_terminated_update]"

definition dec_health :: "health_response decoder" where
  "dec_health = dec_struct
     [field ''HealthStatus'' dec_int hs_status hs_status_update,
      field ''cluster_id'' dec_string hs_cluster_id hs_cluster_id_update,
      field ''cluster_name'' dec_string hs_cluster_name hs_cluster_name_update,
      field ''initialized'' dec_bool hs_initialized hs_initialized_update,
      field ''last_wal'' dec_uint64 hs_last_wal hs_last_wal_update,
      field ''license'' (dec_ptr zero_license dec_license) hs_license hs_license_update,
      field ''performance_standby'' dec_bool hs_perf_standby hs_perf_standby_update,
      field ''replication_dr_mode'' dec_string hs_dr_mode hs_dr_mode_update,
      field ''replication_performance_mode'' dec_string hs_perf_mode hs_perf_mode_update,
      field ''sealed'' dec_bool hs_sealed hs_sealed_update,
      field ''server_time_utc'' dec_uint64 hs_server_time hs_server_time_update,
      field ''standby'' dec_bool hs_standby hs_standby_update,
      field ''version'' dec_string hs_version hs_version_update]"

definition health_request_string :: "health_request \<Rightarrow> string" where
  "health_request_string r =
     hr_fc_path r @ '' download --exit-with-status-code --stdout --url '' @ quoted
       (hr_addr r @ ''/v1/sys/health?standbyok='' @ show_bool (hr_standby_ok r)
        @ ''&perfstandbyok='' @ show_bool (hr_perf_standby_ok r)
        @ ''&activecode='' @ show_int (hr_active_code r)
        @ ''&standbycode='' @ show_int (hr_standby_code r)
        @ ''&drsecondarycode='' @ show_int (hr_dr_secondary_code r)
        @ ''&performancestandbycode='' @ show_int (hr_performance_standby_code r)
        @ ''&sealedcode='' @ show_int (hr_sealed_code r)
        @ ''&uninitcode='' @ show_int (hr_uninit_code r))"

definition health_status_from_error :: "goerr \<Rightarrow> health_status \<times> error" where
  "health_status_from_error err =
     (case as_exec err of
        Some code \<Rightarrow>
          if code \<in> {HealthActive, HealthUnsealedStandby, HealthDRSecondary,
              HealthPerformanceStandby, HealthNotInitialized, HealthSealed} then (code, None)
          else (code, Some (ErrNew (''invalid health status: '' @ show_int code @ '' (''
                 @ health_status_string code @ '')'')))
      | None \<Rightarrow> (HealthUnknown, Some (ErrWrap ''err did not include exit code: '' err [])))"

text \<open>A run without error is an error: the endpoint always answers with a code.\<close>

definition health_body ::
  "'w transport \<Rightarrow> health_request \<Rightarrow> 'w \<Rightarrow> (health_response \<times> error) \<times> 'w" where
  "health_body tr req w =
     (let res = new_health_response\<lparr>hs_status := HealthUnknown\<rparr> in
      case tr_run tr (new_command (health_request_string req) []) w of
        ((out, serr, None), w1) \<Rightarrow>
          ((res, join_errs [None, Some (ErrNew (''received expected response, stdout: '' @ out
             @ '', stderr: '' @ serr))]), w1)
      | ((out, serr, Some e1), w1) \<Rightarrow>
          (let (res, err) = (case health_status_from_error e1 of
                  (_, Some e) \<Rightarrow> (res, Some e)
                | (code, None) \<Rightarrow> (res\<lparr>hs_status := code\<rparr>, None)) in
           if out = []
           then ((res, join_errs [err, Some (ErrNew ''no JSON body was written to STDOUT'')]), w1)
           else (let (res1, e) = unmarshal dec_health out res in ((res1, join_errs [err, e]), w1))))"

definition get_health ::
  "'w go_ctx \<Rightarrow> 'w transport \<Rightarrow> health_request \<Rightarrow> 'w \<Rightarrow> (health_response option \<times> error) \<times> 'w" where
  "get_health ctx tr req w =
     read_with ctx [need_fc (hr_fc_path req), need_addr (hr_addr req)] (health_body tr req)
       (final_after ''get vault health: vault read sys/health'') w"

definition health_response_status :: "health_response \<Rightarrow> health_status" where
  "health_response_status r = hs_status r"

definition status_is_one_of :: "health_response \<Rightarrow> health_status list \<Rightarrow> bool" where
  "status_is_one_of r statuses =
     (if length statuses = 0 then False else health_response_status r \<in> set statuses)"

definition health_is_sealed :: "health_response option \<Rightarrow> bool \<times> error" where
  "health_is_sealed r =
     (case r of
        None \<Rightarrow> (True, Some (ErrNew ''health status is unknown''))
      | Some h \<Rightarrow>
          (let status_sealed = status_is_one_of h [HealthNotInitialized, HealthSealed] in
           if hs_sealed h \<noteq> status_sealed then
             (True, Some (ErrNew (''health status does not match status code, expected sealed=''
                @ show_bool status_sealed @ '', got sealed='' @ show_bool (hs_sealed h))))
           else (status_sealed, None)))"

definition license_string :: "health_license option \<Rightarrow> string" where
  "license_string l =
     (case l of
        None \<Rightarrow> []
      | Some x \<Rightarrow>
          if hl_expiry x = [] \<and> hl_state x = [] \<and> \<not> hl_terminated x then []
          else kv ''State'' (hl_state x) @ kv ''Expiry Time'' (hl_expiry x)
            @ kv ''Terminated'' (show_bool (hl_terminated x)))"

definition health_string :: "health_response option \<Rightarrow> string" where
  "health_string r =
     (case r of
        None \<Rightarrow> []
      | Some h \<Rightarrow>
          kv ''Status'' (health_status_string (health_response_status h))
          @ kv ''Cluster ID'' (hs_cluster_id h)
          @ kv ''Cluster Name'' (hs_cluster_id h)
          @ kv ''Initialized'' (show_bool (hs_initialized h))
          @ kv ''Sealed'' (show_bool (hs_sealed h))
          @ kv ''Standby'' (show_bool (hs_standby h))
          @ kv ''Version'' (show_bool (hs_standby h))
          @ kv ''Last WAL'' (show_nat (hs_last_wal h))
          @ kv ''Performance Standby'' (show_bool (hs_perf_standby h))
          @ kv ''Replication DR Mode'' (hs_dr_mode h)
          @ kv ''Replication Performance Mode'' (hs_perf_mode h)
          @ kv ''Server Time UTC'' (show_nat (hs_server_time h))
          @ (case hs_license h of
               None \<Rightarrow> []
             | Some l \<Rightarrow> line ''License:'' @ indent ''  '' (license_string (Some l))))"

subsection \<open>HA status (ha\_status.go)\<close>

record ha_node =
  hn_active :: bool
  hn_api_address :: string
  hn_cluster_address :: string
  hn_hostname :: string
  hn_last_echo :: string
  hn_version :: string
  hn_redundancy_zone :: string
  hn_upgrade_version :: string

record ha_status_data =
  had_nodes :: "ha_node option list"

record ha_status_response =
  ha_data :: "ha_status_data option"

definition zero_ha_node :: ha_node where
  "zero_ha_node = \<lparr>hn_active = False, hn_api_address = [], hn_cluster_address = [],
     hn_hostname = [], hn_last_echo = [], hn_version = [], hn_redundancy_zone = [],
     hn_upgrade_version = []\<rparr>"

definition new_ha_status_response :: ha_status_response where
  "new_ha_status_response = \<lparr>ha_data = Some \<lparr>had_nodes = []\<rparr>\<rparr>"

definition dec_ha_node :: "ha_node decoder" where
  "dec_ha_node = dec_struct
     [field ''active_node'' dec_bool hn_active hn_active_update,
      field ''api_address'' dec_string hn_api_address hn_api_address_update,
      field ''cluster_address'' dec_string hn_cluster_address hn_cluster_address_update,
      field ''hostname'' dec_string hn_hostname hn_hostname_update,
      field ''last_echo'' dec_string hn_last_echo hn_last_echo_update,
      field ''version'' dec_string hn_version hn_version_update,
      field ''redundancy_zone'' dec_string hn_redundancy_zone hn_redundancy_zone_update,
      field ''upgrade_version'' dec_string hn_upgrade_version hn_upgrade_version_update]"

definition dec_ha_status :: "ha_status_response decoder" where
  "dec_ha_status = dec_struct
     [field ''data'' (dec_ptr \<lparr>had_nodes = []\<rparr> (dec_struct
        [field ''nodes'' (dec_slice None (dec_ptr zero_ha_node dec_ha_node)) had_nodes had_nodes_update]))
        ha_data ha_data_update]"

text \<open>The error says only which call failed: its cause is dropped.\<close>

definition get_ha_status ::
  "'w go_ctx \<Rightarrow> 'w transport \<Rightarrow> cli_request \<Rightarrow> 'w \<Rightarrow> (ha_status_response option \<times> error) \<times> 'w" where
  "get_ha_status ctx tr req w =
     read_with ctx [need_bin req, need_addr (cli_addr req), need_token ''/v1/sys/ha-status'' req]
       (read_body tr (vault_token_cmd req '' read -format=json sys/ha-status'')
          ''unexpected write to stderr: '' ''no body was written to stdout'' dec_ha_status
          new_ha_status_response)
       (\<lambda>e. join_errs [Some (ErrNew ''get vault ha-status: vault read sys/ha-status'')]) w"

definition ha_node_string :: "ha_node option \<Rightarrow> string" where
  "ha_node_string s =
     (case s of
        None \<Rightarrow> []
      | Some n \<Rightarrow>
          line ''Node''
          @ kv ''  Active Node'' (show_bool (hn_active n))
          @ kv ''  API Address'' (hn_api_address n)
          @ kv ''  Cluster Address'' (hn_cluster_address n)
          @ kv ''  Hostname'' (hn_hostname n)
          @ kv_opt ''  Last Echo'' (hn_last_echo n)
          @ kv_opt ''  Redundancy Zone'' (hn_redundancy_zone n)
          @ kv_opt ''  Upgrade Version'' (hn_upgrade_version n))"

definition ha_status_data_string :: "ha_status_data \<Rightarrow> string" where
  "ha_status_data_string s =
     (if length (had_nodes s) < 1 then [] else concat (map ha_node_string (had_nodes s)))"

definition ha_status_string :: "ha_status_response option \<Rightarrow> string" where
  "ha_status_string s =
     (case s of
        None \<Rightarrow> []
      | Some r \<Rightarrow> (case ha_data r of None \<Rightarrow> [] | Some d \<Rightarrow> ha_status_data_string d))"

subsection \<open>The contract of the readers\<close>

lemma needs_None_iff:
  "needs mvs err = None \<longleftrightarrow> err = None \<and> (\<forall>(msg, val) \<in> set mvs. val \<noteq> [])"
proof (induction mvs arbitrary: err)
  case Nil
  then show ?case by (simp add: needs_def)
next
  case (Cons mv mvs)
  then show ?case by (cases mv) (auto simp: needs_def need_def)
qed

lemma needs_cancelled: "err \<noteq> None \<Longrightarrow> needs mvs err \<noteq> None"
  by (simp add: needs_None_iff)

text \<open>
  What callers rely on: a reader gives a response or an error and not both, and with a
  context that is done it gives an error and runs nothing.
\<close>

locale reader =
  fixes get :: "'w go_ctx \<Rightarrow> 'w transport \<Rightarrow> 'q \<Rightarrow> 'w \<Rightarrow> ('r option \<times> error) \<times> 'w"
  assumes nil_iff: "get ctx tr req w = ((res, err), w1) \<Longrightarrow> res = None \<longleftrightarrow> err \<noteq> None"
    and cancelled: "ctx_err ctx w \<noteq> None \<Longrightarrow> \<exists>e. get ctx tr req w = ((None, Some e), w)"
begin

lemma some_no_err: "get ctx tr req w = ((Some r, err), w1) \<Longrightarrow> err = None"
  using nil_iff by fastforce

lemma err_nil: "get ctx tr req w = ((res, Some e), w1) \<Longrightarrow> res = None"
  using nil_iff by fastforce

lemma ok_live: "get ctx tr req w = ((res, None), w1) \<Longrightarrow> ctx_err ctx w = None"
  using cancelled [of ctx w tr req] by (cases "ctx_err ctx w") auto

end

lemma read_with_nil_iff:
  "read_with ctx mvs body final w = ((res, err), w1) \<Longrightarrow> (\<And>e. final e \<noteq> None)
    \<Longrightarrow> res = None \<longleftrightarrow> err \<noteq> None"
  by (auto simp: read_with_def split: option.splits prod.splits)

lemma read_with_cancelled:
  assumes "ctx_err ctx w \<noteq> None" "\<And>e. final e \<noteq> None"
  shows "\<exists>e. read_with ctx mvs body final w = ((None, Some e), w)"
proof -
  obtain e where e: "needs mvs (ctx_err ctx w) = Some e"
    using needs_cancelled [OF assms(1), of mvs] by blast
  obtain f where "final e = Some f" using assms(2) [of e] by blast
  then show ?thesis by (simp add: read_with_def e)
qed

lemma read_with_ok_iff:
  "read_with ctx mvs body final w = ((Some res, None), w1) \<longleftrightarrow>
     ctx_err ctx w = None \<and> (\<forall>(msg, val) \<in> set mvs. val \<noteq> []) \<and> body w = ((res, None), w1)"
  unfolding needs_None_iff [symmetric] conj_assoc [symmetric]
  by (auto simp: read_with_def split: option.splits prod.splits)

lemma read_body_ok_iff:
  "read_body tr cmd unexpected no_body d res w = ((r, None), w1) \<longleftrightarrow>
     (\<exists>out. tr_run tr cmd w = ((out, [], None), w1) \<and> out \<noteq> [] \<and> unmarshal d out res = (r, None))"
  by (auto simp: read_body_def Let_def split: prod.splits if_splits)

lemma final_after_not_None [simp]: "final_after msg e \<noteq> None"
  by (simp add: final_after_def)

lemma reader_read_with:
  assumes "\<And>e. final e \<noteq> None"
  shows "reader (\<lambda>ctx tr req. read_with ctx (mvs req) (body tr req) final)"
  by unfold_locales (erule read_with_nil_iff [OF _ assms], erule read_with_cancelled [OF _ assms])

interpretation status_reader: reader get_status
  unfolding get_status_def [abs_def] by (rule reader_read_with) simp

interpretation seal_status_reader: reader get_seal_status
  unfolding get_seal_status_def [abs_def] by (rule reader_read_with) simp

interpretation health_reader: reader get_health
  unfolding get_health_def [abs_def] by (rule reader_read_with) simp

interpretation ha_status_reader: reader get_ha_status
  unfolding get_ha_status_def [abs_def] by (rule reader_read_with) simp

end
