(* ===== verification/VaultApi.thy ===== *)
theory VaultApi
  imports VaultStatus
begin

text \<open>
  Reading a Vault node, second part: \<open>internal/remoteflight/vault\<close> \<open>replication.go\<close>,
  \<open>raft.go\<close>, \<open>config_state.go\<close> and \<open>host_info.go\<close>. Every reader has the shape of
  \<open>VaultStatus\<close>. A map is an association list in the order in which a \<open>String\<close> method ranges
  over it.
\<close>

subsection \<open>Printing\<close>

text \<open>A heading before the first of the items, which are indented.\<close>

definition listing :: "string \<Rightarrow> string list \<Rightarrow> string" where
  "listing heading xs =
     (if xs = [] then [] else line heading @ concat (map (\<lambda>x. line (''  '' @ x)) xs))"

subsection \<open>Replication (replication.go)\<close>

type_synonym replication_request = cli_request

definition new_replication_request ::
  "(replication_request \<Rightarrow> replication_request) list \<Rightarrow> replication_request" where
  "new_replication_request opts =
     apply_opts opts \<lparr>cli_addr = [], cli_token = [], cli_bin = []\<rparr>"

definition with_replication_bin_path :: "string \<Rightarrow> replication_request \<Rightarrow> replication_request" where
  "with_replication_bin_path p u = u\<lparr>cli_bin := p\<rparr>"

definition with_replication_addr :: "string \<Rightarrow> replication_request \<Rightarrow> replication_request" where
  "with_replication_addr a u = u\<lparr>cli_addr := a\<rparr>"

record replication_secondary =
  rs_api_address :: string
  rs_cluster_address :: string
  rs_connection_status :: string
  rs_last_heartbeat :: string
  rs_node_id :: string

definition zero_replication_secondary :: replication_secondary where
  "zero_replication_secondary = \<lparr>rs_api_address = [], rs_cluster_address = [], rs_connection_status = [],
     rs_last_heartbeat = [], rs_node_id = []\<rparr>"

definition dec_replication_secondary :: "replication_secondary decoder" where
  "dec_replication_secondary = dec_struct
     [field ''api_address'' dec_string rs_api_address rs_api_address_update,
      field ''cluster_address'' dec_string rs_cluster_address rs_cluster_address_update,
      field ''connection_status'' dec_string rs_connection_status rs_connection_status_update,
      field ''last_heartbeat'' dec_string rs_last_heartbeat rs_last_heartbeat_update,
      field ''node_id'' dec_string rs_node_id rs_node_id_update]"

record replication_status =
  rp_cluster_id :: string
  rp_known_secondaries :: "string list"
  rp_last_wal :: string
  rp_merkle_root :: string
  rp_mode :: string
  rp_secondaries :: "replication_secondary option list"

definition new_replication_data_status :: replication_status where
  "new_replication_data_status = \<lparr>rp_cluster_id = [], rp_known_secondaries = [], rp_last_wal = [],
     rp_merkle_root = [], rp_mode = [], rp_secondaries = []\<rparr>"

definition dec_replication_status :: "replication_status decoder" where
  "dec_replication_status = dec_struct
     [field ''cluster_id'' dec_string rp_cluster_id rp_cluster_id_update,
      field ''known_secondaries'' (dec_slice [] dec_string) rp_known_secondaries rp_known_secondaries_update,
      field ''last_wal'' dec_number rp_last_wal rp_last_wal_update,
      field ''merkle_root'' dec_string rp_merkle_root rp_merkle_root_update,
      field ''mode'' dec_string rp_mode rp_mode_update,
      field ''secondaries'' (dec_slice None (dec_ptr zero_replication_secondary dec_replication_secondary)) rp_secondaries rp_secondaries_update]"

record replication_data =
  rd_dr :: "replication_status option"
  rd_performance :: "replication_status option"

definition zero_replication_data :: replication_data where
  "zero_replication_data = \<lparr>rd_dr = None, rd_performance = None\<rparr>"

definition dec_replication_data :: "replication_data decoder" where
  "dec_replication_data = dec_struct
     [field ''dr'' (dec_ptr new_replication_data_status dec_replication_status) rd_dr rd_dr_update,
      field ''performance'' (dec_ptr new_replication_data_status dec_replication_status) rd_performance rd_performance_update]"

record replication_response =
  rr_data :: "replication_data option"

definition new_replication_response :: replication_response where
  "new_replication_response = \<lparr>rr_data = Some \<lparr>rd_dr = Some new_replication_data_status,
     rd_performance = Some new_replication_data_status\<rparr>\<rparr>"

definition dec_replication :: "replication_response decoder" where
  "dec_replication = dec_struct
     [field ''data'' (dec_ptr zero_replication_data dec_replication_data) rr_data rr_data_update]"

definition get_replication_status ::
  "'w go_ctx \<Rightarrow> 'w transport \<Rightarrow> replication_request \<Rightarrow> 'w \<Rightarrow> (replication_response option \<times> error) \<times> 'w" where
  "get_replication_status ctx tr req w =
     read_with ctx [need_bin req, need_addr (cli_addr req)]
       (read_body tr (vault_cmd req '' read -format=json sys/replication/status'')
          ''unexpected write to STDERR: '' ''no JSON body was written to STDOUT'' dec_replication
          new_replication_response)
       (\<lambda>e. join_errs [Some e,
          Some (ErrNew ''get vault replication status: vault read sys/replication/status'')]) w"

definition replication_secondary_string :: "replication_secondary option \<Rightarrow> string" where
  "replication_secondary_string s =
     (case s of
        None \<Rightarrow> []
      | Some r \<Rightarrow>
          line ''Secondary''
          @ kv ''  API Address'' (rs_api_address r)
          @ kv ''  Cluster Address'' (rs_cluster_address r)
          @ kv ''  Connection Status'' (rs_connection_status r)
          @ kv ''  Last Heartbeat'' (rs_last_heartbeat r)
          @ kv ''  Node ID'' (rs_node_id r))"

definition replication_data_status_string :: "replication_status \<Rightarrow> string" where
  "replication_data_status_string s =
     kv ''Cluster ID'' (rp_cluster_id s)
     @ listing ''Known Secondaries'' (rp_known_secondaries s)
     @ kv ''Last WAL'' (rp_last_wal s)
     @ kv ''Merkle Root'' (rp_merkle_root s)
     @ kv ''Mode'' (rp_mode s)
     @ (if length (rp_secondaries s) > 0
        then line ''Secondaries''
          @ concat (map (\<lambda>x. indent ''  '' (replication_secondary_string x)) (rp_secondaries s))
        else [])"

definition replication_data_string :: "replication_data \<Rightarrow> string" where
  "replication_data_string s =
     (let dr = (case rd_dr s of None \<Rightarrow> [] | Some d \<Rightarrow> replication_data_status_string d);
          perf = (case rd_performance s of None \<Rightarrow> [] | Some d \<Rightarrow> replication_data_status_string d)
      in if dr = [] \<and> perf = [] then []
         else (if dr \<noteq> [] then line ''DR'' @ indent ''  '' dr else [])
            @ (if perf \<noteq> [] then line ''Performance'' @ indent ''  '' perf else []))"

definition replication_string :: "replication_response option \<Rightarrow> string" where
  "replication_string s =
     (case s of
        None \<Rightarrow> []
      | Some r \<Rightarrow> (case rr_data r of None \<Rightarrow> [] | Some d \<Rightarrow> replication_data_string d))"

subsection \<open>Host info (host\_info.go)\<close>

record host_info_host =
  hh_boot_time :: string
  hh_host_id :: string
  hh_hostname :: string
  hh_kernel_arch :: string
  hh_kernel_version :: string
  hh_os :: string
  hh_platform :: string
  hh_platform_family :: string
  hh_platform_version :: string
  hh_procs :: string
  hh_uptime :: string
  hh_virt_role :: string
  hh_virt_system :: string

definition zero_host_info_host :: host_info_host where
  "zero_host_info_host = \<lparr>hh_boot_time = [], hh_host_id = [], hh_hostname = [], hh_kernel_arch = [],
     hh_kernel_version = [], hh_os = [], hh_platform = [],
     hh_platform_family = [], hh_platform_version = [], hh_procs = [],
     hh_uptime = [], hh_virt_role = [], hh_virt_system = []\<rparr>"

definition dec_host_info_host :: "host_info_host decoder" where
  "dec_host_info_host = dec_struct
     [field ''bootTime'' dec_number hh_boot_time hh_boot_time_update,
      field ''hostid'' dec_string hh_host_id hh_host_id_update,
      field ''hostname'' dec_string hh_hostname hh_hostname_update,
      field ''kernelArch'' dec_string hh_kernel_arch hh_kernel_arch_update,
      field ''kernelVersion'' dec_string hh_kernel_version hh_kernel_version_update,
      field ''os'' dec_string hh_os hh_os_update,
      field ''platform'' dec_string hh_platform hh_platform_update,
      field ''platformFamily'' dec_string hh_platform_family hh_platform_family_update,
      field ''platformVersion'' dec_string hh_platform_version hh_platform_version_update,
      field ''procs'' dec_number hh_procs hh_procs_update,
      field ''uptime'' dec_number hh_uptime hh_uptime_update,
      field ''virtualizationRole'' dec_string hh_virt_role hh_virt_role_update,
      field ''virtualizationSystem'' dec_string hh_virt_system hh_virt_system_update]"

record host_info_data =
  hi_host :: "host_info_host option"

record host_info_response =
  hir_data :: "host_info_data option"

definition new_host_info_response :: host_info_response where
  "new_host_info_response = \<lparr>hir_data = Some \<lparr>hi_host = Some zero_host_info_host\<rparr>\<rparr>"

definition dec_host_info :: "host_info_response decoder" where
  "dec_host_info = dec_struct
     [field ''data'' (dec_ptr \<lparr>hi_host = None\<rparr> (dec_struct
        [field ''host'' (dec_ptr zero_host_info_host dec_host_info_host) hi_host hi_host_update]))
        hir_data hir_data_update]"

definition get_host_info ::
  "'w go_ctx \<Rightarrow> 'w transport \<Rightarrow> cli_request \<Rightarrow> 'w \<Rightarrow> (host_info_response option \<times> error) \<times> 'w" where
  "get_host_info ctx tr req w =
     read_with ctx [need_bin req, need_addr (cli_addr req), need_token ''/v1/sys/host-info'' req]
       (read_body tr (vault_token_cmd req '' read -format=json sys/host-info'')
          ''unexpected write to STDERR: '' ''no JSON body was written to STDOUT'' dec_host_info
          new_host_info_response)
       (final_after ''get vault host info: vault read sys/host-info'') w"

definition host_info_host_string :: "host_info_host \<Rightarrow> string" where
  "host_info_host_string s =
     kv ''Boot Time'' (hh_boot_time s)
     @ kv ''Host ID'' (hh_host_id s)
     @ kv ''Hostname'' (hh_hostname s)
     @ kv ''Kernel Arch'' (hh_kernel_arch s)
     @ kv ''Kernel Version'' (hh_kernel_version s)
     @ kv ''OS'' (hh_os s)
     @ kv ''Platform'' (hh_platform s)
     @ kv ''Platform Family'' (hh_platform_family s)
     @ kv ''Procs'' (hh_procs s)
     @ kv ''Uptime'' (hh_uptime s)
     @ kv_opt ''Virtualization Role'' (hh_virt_role s)
     @ kv_opt ''Virtualization System'' (hh_virt_system s)"

definition host_info_data_string :: "host_info_data \<Rightarrow> string" where
  "host_info_data_string s =
     (case hi_host s of None \<Rightarrow> [] | Some h \<Rightarrow> host_info_host_string h)"

definition host_info_string :: "host_info_response option \<Rightarrow> string" where
  "host_info_string s =
     (case s of
        None \<Rightarrow> []
      | Some r \<Rightarrow> (case hir_data r of None \<Rightarrow> [] | Some d \<Rightarrow> host_info_data_string d))"

subsection \<open>Configuration (config\_state.go)\<close>

record config_listener_config =
  lc_address :: string
  lc_tls_disable :: string

definition zero_config_listener_config :: config_listener_config where
  "zero_config_listener_config = \<lparr>lc_address = [], lc_tls_disable = []\<rparr>"

definition dec_config_listener_config :: "config_listener_config decoder" where
  "dec_config_listener_config = dec_struct
     [field ''address'' dec_string lc_address lc_address_update,
      field ''tls_disable'' dec_string lc_tls_disable lc_tls_disable_update]"

record config_listener =
  ln_config :: "config_listener_config option"
  ln_type :: string

definition zero_config_listener :: config_listener where
  "zero_config_listener = \<lparr>ln_config = None, ln_type = []\<rparr>"

definition dec_config_listener :: "config_listener decoder" where
  "dec_config_listener = dec_struct
     [field ''config'' (dec_ptr zero_config_listener_config dec_config_listener_config) ln_config ln_config_update,
      field ''type'' dec_string ln_type ln_type_update]"

record config_seals =
  cs_disabled :: bool
  cs_type :: string

definition zero_config_seals :: config_seals where
  "zero_config_seals = \<lparr>cs_disabled = False, cs_type = []\<rparr>"

definition dec_config_seals :: "config_seals decoder" where
  "dec_config_seals = dec_struct
     [field ''disabled'' dec_bool cs_disabled cs_disabled_update,
      field ''type'' dec_string cs_type cs_type_update]"

record config_storage =
  sg_cluster_addr :: string
  sg_disable_clustering :: bool
  sg_redirect_addr :: string
  sg_type :: string

definition zero_config_storage :: config_storage where
  "zero_config_storage = \<lparr>sg_cluster_addr = [], sg_disable_clustering = False, sg_redirect_addr = [],
     sg_type = []\<rparr>"

definition dec_config_storage :: "config_storage decoder" where
  "dec_config_storage = dec_struct
     [field ''cluster_addr'' dec_string sg_cluster_addr sg_cluster_addr_update,
      field ''disable_clustering'' dec_bool sg_disable_clustering sg_disable_clustering_update,
      field ''redirect_addr'' dec_string sg_redirect_addr sg_redirect_addr_update,
      field ''type'' dec_string sg_type sg_type_update]"

record config_state_data =
  cd_api_addr :: string
  cd_cache_size :: string
  cd_cluster_addr :: string
  cd_cipher_suites :: string
  cd_cluster_name :: string
  cd_default_lease_ttl :: string
  cd_default_max_request :: string
  cd_disable_cache :: bool
  cd_disable_clustering :: bool
  cd_disable_indexing :: bool
  cd_disable_mlock :: bool
  cd_disable_perf_standby :: bool
  cd_disable_printable_check :: bool
  cd_disable_sealwrap :: bool
  cd_enable_ui :: bool
  cd_listeners :: "config_listener option list"
  cd_log_format :: string
  cd_log_level :: string
  cd_max_lease_ttl :: string
  cd_pid_file :: string
  cd_plugin_directory :: string
  cd_raw_storage_endpoint :: bool
  cd_seals :: "config_seals option list"
  cd_storage :: "config_storage option"

definition zero_config_state_data :: config_state_data where
  "zero_config_state_data = \<lparr>cd_api_addr = [], cd_cache_size = [], cd_cluster_addr = [],
     cd_cipher_suites = [], cd_cluster_name = [], cd_default_lease_ttl = [],
     cd_default_max_request = [], cd_disable_cache = False,
     cd_disable_clustering = False, cd_disable_indexing = False,
     cd_disable_mlock = False, cd_disable_perf_standby = False,
     cd_disable_printable_check = False, cd_disable_sealwrap = False,
     cd_enable_ui = False, cd_listeners = [], cd_log_format = [],
     cd_log_level = [], cd_max_lease_ttl = [], cd_pid_file = [],
     cd_plugin_directory = [], cd_raw_storage_endpoint = False, cd_seals = [],
     cd_storage = None\<rparr>"

definition dec_config_state_data :: "config_state_data decoder" where
  "dec_config_state_data = dec_struct
     [field ''api_addr'' dec_string cd_api_addr cd_api_addr_update,
      field ''cache_size'' dec_number cd_cache_size cd_cache_size_update,
      field ''cluster_addr'' dec_string cd_cluster_addr cd_cluster_addr_update,
      field ''cluster_cipher_suites'' dec_string cd_cipher_suites cd_cipher_suites_update,
      field ''cluster_name'' dec_string cd_cluster_name cd_cluster_name_update,
      field ''default_lease_ttl'' dec_number cd_default_lease_ttl cd_default_lease_ttl_update,
      field ''default_max_request_duration'' dec_number cd_default_max_request cd_default_max_request_update,
      field ''disable_cache'' dec_bool cd_disable_cache cd_disable_cache_update,
      field ''disable_clustering'' dec_bool cd_disable_clustering cd_disable_clustering_update,
      field ''disable_indexing'' dec_bool cd_disable_indexing cd_disable_indexing_update,
      field ''disable_mlock'' dec_bool cd_disable_mlock cd_disable_mlock_update,
      field ''disable_performance_standby'' dec_bool cd_disable_perf_standby cd_disable_perf_standby_update,
      field ''disable_printable_check'' dec_bool cd_disable_printable_check cd_disable_printable_check_update,
      field ''disable_sealwrap'' dec_bool cd_disable_sealwrap cd_disable_sealwrap_update,
      field ''enable_ui'' dec_bool cd_enable_ui cd_enable_ui_update,
      field ''listeners'' (dec_slice None (dec_ptr zero_config_listener dec_config_listener)) cd_listeners cd_listeners_update,
      field ''log_format'' dec_string cd_log_format cd_log_format_update,
      field ''log_level'' dec_string cd_log_level cd_log_level_update,
      field ''max_lease_ttl'' dec_number cd_max_lease_ttl cd_max_lease_ttl_update,
      field ''pid_file'' dec_string cd_pid_file cd_pid_file_update,
      field ''plugin_directory'' dec_string cd_plugin_directory cd_plugin_directory_update,
      field ''raw_storage_endpoint'' dec_bool cd_raw_storage_endpoint cd_raw_storage_endpoint_update,
      field ''seals'' (dec_slice None (dec_ptr zero_config_seals dec_config_seals)) cd_seals cd_seals_update,
      field ''storage'' (dec_ptr zero_config_storage dec_config_storage) cd_storage cd_storage_update]"

record config_state_response =
  csr_data :: "config_state_data option"

definition new_config_state_response :: config_state_response where
  "new_config_state_response =
     \<lparr>csr_data = Some (zero_config_state_data\<lparr>cd_storage := Some zero_config_storage\<rparr>)\<rparr>"

definition dec_config_state :: "config_state_response decoder" where
  "dec_config_state = dec_struct
     [field ''data'' (dec_ptr zero_config_state_data dec_config_state_data) csr_data csr_data_update]"

text \<open>Here, too, the cause of the error is dropped.\<close>

definition get_config_state_sanitized ::
  "'w go_ctx \<Rightarrow> 'w transport \<Rightarrow> cli_request \<Rightarrow> 'w \<Rightarrow> (config_state_response option \<times> error) \<times> 'w" where
  "get_config_state_sanitized ctx tr req w =
     read_with ctx [need_bin req, need_addr (cli_addr req), need_token ''/v1/sys/config/state/sanitized'' req]
       (read_body tr (vault_token_cmd req '' read -format=json sys/config/state/sanitized'')
          ''unexpected write to stderr: '' ''no body was written to stdout'' dec_config_state
          new_config_state_response)
       (\<lambda>e. join_errs [Some (ErrNew
          ''get config state sanitized: vault read sys/config/state/sanitized'')]) w"

definition config_listener_string :: "config_listener option \<Rightarrow> string" where
  "config_listener_string l =
     (case l of
        None \<Rightarrow> []
      | Some x \<Rightarrow>
          kv ''  Type'' (ln_type x)
          @ (case ln_config x of
               None \<Rightarrow> []
             | Some c \<Rightarrow> kv ''  Address'' (lc_address c) @ kv ''  TLS Disable'' (lc_tls_disable c)))"

definition config_seals_string :: "config_seals option \<Rightarrow> string" where
  "config_seals_string s =
     (case s of
        None \<Rightarrow> []
      | Some x \<Rightarrow> kv '' Disabled'' (show_bool (cs_disabled x)) @ kv ''  Type'' (cs_type x))"

text \<open>The storage is dereferenced: a nil one panics.\<close>

definition config_data_string :: "config_state_data \<Rightarrow> string go" where
  "config_data_string s = do {
     storage \<leftarrow> deref (cd_storage s);
     Some (kv ''API Addr'' (cd_api_addr s)
       @ kv ''Cache Size'' (cd_cache_size s)
       @ kv ''Cluster Addr'' (cd_cluster_addr s)
       @ kv ''Cluster Cipher Suites'' (cd_cipher_suites s)
       @ kv ''Cluster Name'' (cd_cluster_name s)
       @ kv ''Default Lease TTL'' (cd_default_lease_ttl s)
       @ kv ''Default Max Request Duration'' (cd_default_max_request s)
       @ kv ''Disable Cache'' (show_bool (cd_disable_cache s))
       @ kv ''Disable Clustering'' (show_bool (cd_disable_clustering s))
       @ kv ''Disable Indexing'' (show_bool (cd_disable_indexing s))
       @ kv ''Disable Mlock'' (show_bool (cd_disable_mlock s))
       @ kv ''Disable Performance Standby'' (show_bool (cd_disable_perf_standby s))
       @ kv ''Disable Printable Check'' (show_bool (cd_disable_printable_check s))
       @ kv ''Disable Sealwrap'' (show_bool (cd_disable_sealwrap s))
       @ kv ''Enable UI'' (show_bool (cd_enable_ui s))
       @ (if cd_listeners s = [] then []
          else line ''Listeners'' @ concat (map config_listener_string (cd_listeners s)))
       @ kv ''Log Format'' (cd_log_format s)
       @ kv ''Log Level'' (cd_log_level s)
       @ kv ''Max Lease TTL'' (cd_max_lease_ttl s)
       @ kv ''PID File'' (cd_pid_file s)
       @ kv ''Plugin Directory'' (cd_plugin_directory s)
       @ kv ''Raw Storage Endpoint'' (show_bool (cd_raw_storage_endpoint s))
       @ (if cd_seals s = [] then []
          else line ''Seals'' @ concat (map config_seals_string (cd_seals s)))
       @ line ''Storage''
       @ kv ''  Cluster Addr'' (sg_cluster_addr storage)
       @ kv ''  Disable Clustering'' (show_bool (sg_disable_clustering storage))
       @ kv ''  Redirect Addr'' (sg_redirect_addr storage)
       @ kv ''  Type'' (sg_type storage))
   }"

definition config_state_string :: "config_state_response option \<Rightarrow> string go" where
  "config_state_string s =
     (case s of
        None \<Rightarrow> Some []
      | Some r \<Rightarrow> (case csr_data r of None \<Rightarrow> Some [] | Some d \<Rightarrow> config_data_string d))"

subsection \<open>Raft configuration (raft.go)\<close>

record raft_server =
  rv_address :: string
  rv_leader :: bool
  rv_node_id :: string
  rv_protocol_version :: string
  rv_voter :: bool

definition zero_raft_server :: raft_server where
  "zero_raft_server = \<lparr>rv_address = [], rv_leader = False, rv_node_id = [], rv_protocol_version = [],
     rv_voter = False\<rparr>"

definition dec_raft_server :: "raft_server decoder" where
  "dec_raft_server = dec_struct
     [field ''address'' dec_string rv_address rv_address_update,
      field ''leader'' dec_bool rv_leader rv_leader_update,
      field ''node_id'' dec_string rv_node_id rv_node_id_update,
      field ''protocol_version'' dec_string rv_protocol_version rv_protocol_version_update,
      field ''voter'' dec_bool rv_voter rv_voter_update]"

record raft_config =
  rc_index :: string
  rc_servers :: "raft_server option list"

definition zero_raft_config :: raft_config where
  "zero_raft_config = \<lparr>rc_index = [], rc_servers = []\<rparr>"

definition dec_raft_config :: "raft_config decoder" where
  "dec_raft_config = dec_struct
     [field ''index'' dec_number rc_index rc_index_update,
      field ''servers'' (dec_slice None (dec_ptr zero_raft_server dec_raft_server)) rc_servers rc_servers_update]"

record raft_configuration_data =
  rcd_config :: "raft_config option"

definition zero_raft_configuration_data :: raft_configuration_data where
  "zero_raft_configuration_data = \<lparr>rcd_config = None\<rparr>"

definition dec_raft_configuration_data :: "raft_configuration_data decoder" where
  "dec_raft_configuration_data = dec_struct
     [field ''config'' (dec_ptr zero_raft_config dec_raft_config) rcd_config rcd_config_update]"

record raft_configuration_response =
  rcr_data :: "raft_configuration_data option"

definition new_raft_configuration_response :: raft_configuration_response where
  "new_raft_configuration_response =
     \<lparr>rcr_data = Some \<lparr>rcd_config = Some zero_raft_config\<rparr>\<rparr>"

definition dec_raft_configuration :: "raft_configuration_response decoder" where
  "dec_raft_configuration = dec_struct
     [field ''data'' (dec_ptr zero_raft_configuration_data dec_raft_configuration_data)
        rcr_data rcr_data_update]"

definition get_raft_configuration ::
  "'w go_ctx \<Rightarrow> 'w transport \<Rightarrow> cli_request \<Rightarrow> 'w \<Rightarrow> (raft_configuration_response option \<times> error) \<times> 'w" where
  "get_raft_configuration ctx tr req w =
     read_with ctx [need_bin req, need_addr (cli_addr req), need_token ''/v1/sys/storage/raft/configuration'' req]
       (read_body tr (vault_token_cmd req '' read -format=json sys/storage/raft/configuration'')
          ''unexpected write to STDERR: '' ''no JSON body was written to STDOUT'' dec_raft_configuration
          new_raft_configuration_response)
       (final_after
          ''get vault raft configuration: vault read sys/storage/raft/configuration'') w"

definition raft_server_string :: "raft_server option \<Rightarrow> string" where
  "raft_server_string s =
     (case s of
        None \<Rightarrow> []
      | Some r \<Rightarrow>
          line ''Server''
          @ kv ''  Address'' (rv_address r)
          @ kv ''  Leader'' (show_bool (rv_leader r))
          @ kv ''  Node ID'' (rv_node_id r)
          @ kv ''  Protocol Version'' (rv_protocol_version r)
          @ kv ''  Voter'' (show_bool (rv_voter r)))"

definition raft_config_string :: "raft_config \<Rightarrow> string" where
  "raft_config_string s =
     kv ''Index'' (rc_index s)
     @ (if length (rc_servers s) < 1 then []
        else line ''Servers:'' @ concat (map (\<lambda>x. indent ''  '' (raft_server_string x)) (rc_servers s)))"

definition raft_configuration_data_string :: "raft_configuration_data \<Rightarrow> string" where
  "raft_configuration_data_string s =
     (case rcd_config s of None \<Rightarrow> [] | Some c \<Rightarrow> raft_config_string c)"

definition raft_configuration_string :: "raft_configuration_response option \<Rightarrow> string" where
  "raft_configuration_string s =
     (case s of
        None \<Rightarrow> []
      | Some r \<Rightarrow> (case rcr_data r of None \<Rightarrow> [] | Some d \<Rightarrow> raft_configuration_data_string d))"

subsection \<open>Raft autopilot configuration (raft.go)\<close>

record autopilot_config =
  ac_cleanup_dead_servers :: bool
  ac_dead_server_threshold :: string
  ac_last_contact_threshold :: string
  ac_max_trailing_logs :: string
  ac_min_quorum :: string
  ac_server_stabilization_time :: string
  ac_disable_upgrade_migration :: bool

definition zero_autopilot_config :: autopilot_config where
  "zero_autopilot_config = \<lparr>ac_cleanup_dead_servers = False, ac_dead_server_threshold = [],
     ac_last_contact_threshold = [], ac_max_trailing_logs = [],
     ac_min_quorum = [], ac_server_stabilization_time = [],
     ac_disable_upgrade_migration = False\<rparr>"

definition dec_autopilot_config :: "autopilot_config decoder" where
  "dec_autopilot_config = dec_struct
     [field ''cleanup_dead_servers'' dec_bool ac_cleanup_dead_servers ac_cleanup_dead_servers_update,
      field ''dead_server_last_contact_threshold'' dec_string ac_dead_server_threshold ac_dead_server_threshold_update,
      field ''last_contact_threshold'' dec_string ac_last_contact_threshold ac_last_contact_threshold_update,
      field ''max_trailing_logs'' dec_number ac_max_trailing_logs ac_max_trailing_logs_update,
      field ''min_quorum'' dec_number ac_min_quorum ac_min_quorum_update,
      field ''server_stabilization_time'' dec_string ac_server_stabilization_time ac_server_stabilization_time_update,
      field ''disable_upgrade_migration'' dec_bool ac_disable_upgrade_migration ac_disable_upgrade_migration_update]"

record autopilot_config_response =
  acr_data :: "autopilot_config option"

definition new_autopilot_config_response :: autopilot_config_response where
  "new_autopilot_config_response = \<lparr>acr_data = Some zero_autopilot_config\<rparr>"

definition dec_autopilot_configuration :: "autopilot_config_response decoder" where
  "dec_autopilot_configuration = dec_struct
     [field ''data'' (dec_ptr zero_autopilot_config dec_autopilot_config) acr_data acr_data_update]"

definition get_raft_autopilot_configuration ::
  "'w go_ctx \<Rightarrow> 'w transport \<Rightarrow> cli_request \<Rightarrow> 'w \<Rightarrow> (autopilot_config_response option \<times> error) \<times> 'w" where
  "get_raft_autopilot_configuration ctx tr req w =
     read_with ctx [need_bin req, need_addr (cli_addr req), need_token ''/v1/sys/storage/raft/autopilot/configuration'' req]
       (read_body tr (vault_token_cmd req '' read -format=json sys/storage/raft/autopilot/configuration'')
          ''unexpected write to STDERR: '' ''no JSON body was written to STDOUT'' dec_autopilot_configuration
          new_autopilot_config_response)
       (final_after
          ''get vault autopilot configuration: vault read sys/storage/raft/autopilot/configuration'') w"

definition autopilot_config_data_string :: "autopilot_config \<Rightarrow> string" where
  "autopilot_config_data_string s =
     kv ''Cleanup Dead Servers'' (show_bool (ac_cleanup_dead_servers s))
     @ kv ''Dead Server Last Contact Threshold'' (ac_dead_server_threshold s)
     @ kv ''Last Contact Threshold'' (ac_last_contact_threshold s)
     @ kv ''Max Trailing Logs'' (ac_max_trailing_logs s)
     @ kv ''Min Quorum'' (ac_min_quorum s)
     @ kv ''Server Stabilization Time'' (ac_server_stabilization_time s)
     @ kv ''Disable Upgrade Migration'' (show_bool (ac_disable_upgrade_migration s))"

definition autopilot_config_string :: "autopilot_config_response option \<Rightarrow> string" where
  "autopilot_config_string s =
     (case s of
        None \<Rightarrow> []
      | Some r \<Rightarrow> (case acr_data r of None \<Rightarrow> [] | Some d \<Rightarrow> autopilot_config_data_string d))"

subsection \<open>Raft autopilot state (raft.go)\<close>

text \<open>
  \<open>json.RawMessage\<close> keeps the value as it was written; here it is the value, and \<open>raw\<close>
  gives back its text where it is printed.
\<close>

fun dec_raw :: "json option decoder" where
  "dec_raw j s = (Some j, None)"

record autopilot_zone =
  az_servers :: "string list"
  az_voters :: "string list"
  az_failure_tolerance :: string

definition zero_autopilot_zone :: autopilot_zone where
  "zero_autopilot_zone = \<lparr>az_servers = [], az_voters = [], az_failure_tolerance = []\<rparr>"

definition dec_autopilot_zone :: "autopilot_zone decoder" where
  "dec_autopilot_zone = dec_struct
     [field ''servers'' (dec_slice [] dec_string) az_servers az_servers_update,
      field ''voters'' (dec_slice [] dec_string) az_voters az_voters_update,
      field ''failure_tolerance'' dec_number az_failure_tolerance az_failure_tolerance_update]"

record autopilot_server =
  as_id :: string
  as_name :: string
  as_address :: string
  as_node_status :: string
  as_last_contact :: string
  as_last_term :: string
  as_healthy :: bool
  as_stable_since :: string
  as_status :: string
  as_meta :: "json option"

definition zero_autopilot_server :: autopilot_server where
  "zero_autopilot_server = \<lparr>as_id = [], as_name = [], as_address = [], as_node_status = [],
     as_last_contact = [], as_last_term = [], as_healthy = False,
     as_stable_since = [], as_status = [], as_meta = None\<rparr>"

definition dec_autopilot_server :: "autopilot_server decoder" where
  "dec_autopilot_server = dec_struct
     [field ''id'' dec_string as_id as_id_update,
      field ''name'' dec_string as_name as_name_update,
      field ''address'' dec_string as_address as_address_update,
      field ''node_status'' dec_string as_node_status as_node_status_update,
      field ''last_contact'' dec_string as_last_contact as_last_contact_update,
      field ''last_term'' dec_number as_last_term as_last_term_update,
      field ''healthy'' dec_bool as_healthy as_healthy_update,
      field ''stable_since'' dec_string as_stable_since as_stable_since_update,
      field ''status'' dec_string as_status as_status_update,
      field ''meta'' dec_raw as_meta as_meta_update]"

record upgrade_zone =
  uz_target_non_voters :: "string list"
  uz_other_voters :: "string list"
  uz_other_non_voters :: "string list"

definition zero_upgrade_zone :: upgrade_zone where
  "zero_upgrade_zone = \<lparr>uz_target_non_voters = [], uz_other_voters = [],
     uz_other_non_voters = []\<rparr>"

definition dec_upgrade_zone :: "upgrade_zone decoder" where
  "dec_upgrade_zone = dec_struct
     [field ''target_version_non_voters'' (dec_slice [] dec_string) uz_target_non_voters uz_target_non_voters_update,
      field ''other_version_voters'' (dec_slice [] dec_string) uz_other_voters uz_other_voters_update,
      field ''other_version_non_voters'' (dec_slice [] dec_string) uz_other_non_voters uz_other_non_voters_update]"

record upgrade_info =
  ui_other_non_voters :: "string list"
  ui_other_voters :: "string list"
  ui_zones :: "(string \<times> upgrade_zone option) list"
  ui_status :: string
  ui_target_version :: string
  ui_target_non_voters :: "string list"

definition zero_upgrade_info :: upgrade_info where
  "zero_upgrade_info = \<lparr>ui_other_non_voters = [], ui_other_voters = [], ui_zones = [], ui_status = [],
     ui_target_version = [], ui_target_non_voters = []\<rparr>"

definition dec_upgrade_info :: "upgrade_info decoder" where
  "dec_upgrade_info = dec_struct
     [field ''other_version_non_voters'' (dec_slice [] dec_string) ui_other_non_voters ui_other_non_voters_update,
      field ''other_version_voters'' (dec_slice [] dec_string) ui_other_voters ui_other_voters_update,
      field ''redundancy_zones'' (dec_map None (dec_ptr zero_upgrade_zone dec_upgrade_zone)) ui_zones ui_zones_update,
      field ''status'' dec_string ui_status ui_status_update,
      field ''target_version'' dec_string ui_target_version ui_target_version_update,
      field ''target_version_non_voters'' (dec_slice [] dec_string) ui_target_non_voters ui_target_non_voters_update]"

record autopilot_state =
  ap_healthy :: bool
  ap_failure_tolerance :: string
  ap_leader :: string
  ap_optimistic_tolerance :: string
  ap_zones :: "(string \<times> autopilot_zone option) list"
  ap_servers :: "(string \<times> autopilot_server option) list"
  ap_upgrade_info :: "upgrade_info option"
  ap_voters :: "string list"
  ap_non_voters :: "string list"

definition zero_autopilot_state :: autopilot_state where
  "zero_autopilot_state = \<lparr>ap_healthy = False, ap_failure_tolerance = [], ap_leader = [],
     ap_optimistic_tolerance = [], ap_zones = [], ap_servers = [],
     ap_upgrade_info = None, ap_voters = [], ap_non_voters = []\<rparr>"

definition dec_autopilot_state :: "autopilot_state decoder" where
  "dec_autopilot_state = dec_struct
     [field ''healthy'' dec_bool ap_healthy ap_healthy_update,
      field ''failure_tolerance'' dec_number ap_failure_tolerance ap_failure_tolerance_update,
      field ''leader'' dec_string ap_leader ap_leader_update,
      field ''optimistic_failure_tolerance'' dec_number ap_optimistic_tolerance ap_optimistic_tolerance_update,
      field ''redundancy_zones'' (dec_map None (dec_ptr zero_autopilot_zone dec_autopilot_zone)) ap_zones ap_zones_update,
      field ''servers'' (dec_map None (dec_ptr zero_autopilot_server dec_autopilot_server)) ap_servers ap_servers_update,
      field ''upgrade_info'' (dec_ptr zero_upgrade_info dec_upgrade_info) ap_upgrade_info ap_upgrade_info_update,
      field ''voters'' (dec_slice [] dec_string) ap_voters ap_voters_update,
      field ''non_voters'' (dec_slice [] dec_string) ap_non_voters ap_non_voters_update]"

record autopilot_state_response =
  asr_data :: "autopilot_state option"

definition new_autopilot_state_response :: autopilot_state_response where
  "new_autopilot_state_response =
     \<lparr>asr_data = Some (zero_autopilot_state\<lparr>ap_upgrade_info := Some zero_upgrade_info\<rparr>)\<rparr>"

definition dec_autopilot_state_response :: "autopilot_state_response decoder" where
  "dec_autopilot_state_response = dec_struct
     [field ''data'' (dec_ptr zero_autopilot_state dec_autopilot_state) asr_data asr_data_update]"

definition get_raft_autopilot_state ::
  "'w go_ctx \<Rightarrow> 'w transport \<Rightarrow> cli_request \<Rightarrow> 'w \<Rightarrow> (autopilot_state_response option \<times> error) \<times> 'w" where
  "get_raft_autopilot_state ctx tr req w =
     read_with ctx [need_bin req, need_addr (cli_addr req), need_token ''/v1/sys/storage/raft/autopilot/state'' req]
       (read_body tr (vault_token_cmd req '' read -format=json sys/storage/raft/autopilot/state'')
          ''unexpected write to STDERR: '' ''no JSON body was written to STDOUT'' dec_autopilot_state_response
          new_autopilot_state_response)
       (final_after
          ''get vault autopilot state: vault read sys/storage/raft/autopilot/state'') w"

definition autopilot_zone_string :: "autopilot_zone option \<Rightarrow> string" where
  "autopilot_zone_string r =
     (case r of
        None \<Rightarrow> []
      | Some z \<Rightarrow>
          listing ''Servers'' (az_servers z) @ listing ''Voters'' (az_voters z)
          @ line (az_failure_tolerance z))"

definition autopilot_server_string :: "(json option \<Rightarrow> string) \<Rightarrow> autopilot_server option \<Rightarrow> string" where
  "autopilot_server_string raw r =
     (case r of
        None \<Rightarrow> []
      | Some s \<Rightarrow>
          kv ''ID'' (as_id s)
          @ kv ''Name'' (as_name s)
          @ kv ''Address'' (as_address s)
          @ kv ''Node Status'' (as_node_status s)
          @ kv ''Last Contact'' (as_last_contact s)
          @ kv ''Last Term'' (as_last_term s)
          @ kv ''Healthy'' (show_bool (as_healthy s))
          @ kv ''Stable Since'' (as_stable_since s)
          @ kv ''Status'' (as_status s)
          @ kv ''Meta'' (raw (as_meta s)))"

definition upgrade_zone_string :: "upgrade_zone option \<Rightarrow> string" where
  "upgrade_zone_string r =
     (case r of
        None \<Rightarrow> []
      | Some z \<Rightarrow>
          listing ''Target Version Nonvoters'' (uz_target_non_voters z)
          @ listing ''Other Version Voters'' (uz_other_voters z)
          @ listing ''Other Version Nonvoters'' (uz_other_non_voters z))"

text \<open>The entries of a map under a heading: each name and, indented, its value.\<close>

definition map_listing :: "string \<Rightarrow> ('v \<Rightarrow> string) \<Rightarrow> (string \<times> 'v) list \<Rightarrow> string" where
  "map_listing heading f m =
     (if m = [] then []
      else line heading @ concat (map (\<lambda>(name, val). line (''  '' @ name) @ indent ''  '' (f val)) m))"

definition upgrade_info_string :: "upgrade_info \<Rightarrow> string" where
  "upgrade_info_string r =
     listing ''Other Version Nonvoters'' (ui_other_non_voters r)
     @ listing ''Other Version Voters'' (ui_other_voters r)
     @ map_listing ''Redundancy Zones:'' upgrade_zone_string (ui_zones r)
     @ kv ''Status'' (ui_status r)
     @ kv ''Target Version'' (ui_target_version r)
     @ listing ''Target Version Nonvoters'' (ui_target_non_voters r)"

definition autopilot_state_data_string :: "(json option \<Rightarrow> string) \<Rightarrow> autopilot_state \<Rightarrow> string" where
  "autopilot_state_data_string raw r =
     kv ''Healthy'' (show_bool (ap_healthy r))
     @ kv ''Failure Tolerance'' (ap_failure_tolerance r)
     @ kv ''Leader'' (ap_leader r)
     @ kv ''Optimistic Failure Tolerance'' (ap_optimistic_tolerance r)
     @ map_listing ''Redundancy Zones:'' autopilot_zone_string (ap_zones r)
     @ map_listing ''Servers:'' (autopilot_server_string raw) (ap_servers r)
     @ (case ap_upgrade_info r of
          None \<Rightarrow> []
        | Some u \<Rightarrow> if ui_status u \<noteq> []
            then line ''Upgrade Info:'' @ indent ''  '' (upgrade_info_string u) else [])
     @ listing ''Voters'' (ap_voters r)
     @ listing ''Nonvoters'' (ap_non_voters r)"

definition autopilot_state_string ::
  "(json option \<Rightarrow> string) \<Rightarrow> autopilot_state_response option \<Rightarrow> string" where
  "autopilot_state_string raw s =
     (case s of
        None \<Rightarrow> []
      | Some r \<Rightarrow> (case asr_data r of None \<Rightarrow> [] | Some d \<Rightarrow> autopilot_state_data_string raw d))"

subsection \<open>The readers keep their contract\<close>

interpretation replication_reader: reader get_replication_status
  unfolding get_replication_status_def [abs_def] by (rule reader_read_with) simp

interpretation host_info_reader: reader get_host_info
  unfolding get_host_info_def [abs_def] by (rule reader_read_with) simp

interpretation config_state_reader: reader get_config_state_sanitized
  unfolding get_config_state_sanitized_def [abs_def] by (rule reader_read_with) simp

interpretation raft_configuration_reader: reader get_raft_configuration
  unfolding get_raft_configuration_def [abs_def] by (rule reader_read_with) simp

interpretation autopilot_config_reader: reader get_raft_autopilot_configuration
  unfolding get_raft_autopilot_configuration_def [abs_def] by (rule reader_read_with) simp

interpretation autopilot_state_reader: reader get_raft_autopilot_state
  unfolding get_raft_autopilot_state_def [abs_def] by (rule reader_read_with) simp

end
