(* ===== verification/Systemd.thy ===== *)
theory Systemd
  imports RemoteFile "HOL-Library.Sublist"
begin

text \<open>
  The systemd client, \<open>internal/remoteflight/systemd\<close>: unit files and their textual form,
  unit properties, the systemctl command line, and the client's operations over a
  transport. What the client logs is left out. A Go map that is ranged over is an
  association list in the order of the visit.
\<close>

subsection \<open>Units (unit.go)\<close>

datatype unit_type =
    UnitTypeNotSet | UnitTypeService | UnitTypeSocket | UnitTypeDevice | UnitTypeMount
  | UnitTypeAutomount | UnitTypeSwap | UnitTypeTarget | UnitTypePath | UnitTypeTimer
  | UnitTypeSlice | UnitTypeScope
  | UnitTypeOther int  \<comment> \<open>any other integer\<close>

fun unit_type_string :: "unit_type \<Rightarrow> string" where
  "unit_type_string UnitTypeService = ''service''"
| "unit_type_string UnitTypeNotSet = ''service''"
| "unit_type_string UnitTypeSocket = ''socket''"
| "unit_type_string UnitTypeDevice = ''device''"
| "unit_type_string UnitTypeMount = ''mount''"
| "unit_type_string UnitTypeAutomount = ''automount''"
| "unit_type_string UnitTypeSwap = ''swap''"
| "unit_type_string UnitTypeTarget = ''target''"
| "unit_type_string UnitTypePath = ''path''"
| "unit_type_string UnitTypeTimer = ''timer''"
| "unit_type_string UnitTypeSlice = ''slice''"
| "unit_type_string UnitTypeScope = ''scope''"
| "unit_type_string (UnitTypeOther i) = ''service''"

type_synonym unit_file = "(string \<times> (string \<times> string) list) list"

definition ini_field :: "string \<times> string \<Rightarrow> string" where
  "ini_field kv = line (fst kv @ ''='' @ snd kv)"

definition ini_stanza :: "string \<times> (string \<times> string) list \<Rightarrow> string" where
  "ini_stanza st = (if snd st = [] then []
     else line (''['' @ fst st @ '']'') @ concat (map ini_field (snd st)) @ [nl])"

definition to_ini :: "unit_file \<Rightarrow> string \<times> error" where
  "to_ini u = (trim_space (concat (map ini_stanza u)), None)"

text \<open>The unit of a request is anything with a \<open>ToIni\<close>: what it gives, or nil.\<close>

record create_unit_file_request =
  cu_unit :: "(string \<times> error) option"
  cu_path :: string
  cu_chmod :: string
  cu_chown :: string

type_synonym create_unit_file_opt = "create_unit_file_request \<Rightarrow> create_unit_file_request"

definition new_create_unit_file_request ::
  "create_unit_file_opt list \<Rightarrow> create_unit_file_request" where
  "new_create_unit_file_request opts =
     apply_opts opts \<lparr>cu_unit = None, cu_path = [], cu_chmod = [], cu_chown = []\<rparr>"

definition with_unit_unit_path :: "string \<Rightarrow> create_unit_file_opt" where
  "with_unit_unit_path p u = u\<lparr>cu_path := p\<rparr>"

definition with_unit_file :: "(string \<times> error) option \<Rightarrow> create_unit_file_opt" where
  "with_unit_file i u = u\<lparr>cu_unit := i\<rparr>"

definition with_unit_chmod :: "string \<Rightarrow> create_unit_file_opt" where
  "with_unit_chmod s u = u\<lparr>cu_chmod := s\<rparr>"

definition with_unit_chown :: "string \<Rightarrow> create_unit_file_opt" where
  "with_unit_chown s u = u\<lparr>cu_chown := s\<rparr>"

subsection \<open>Unit properties (properties.go)\<close>

type_synonym unit_properties = "(string \<times> string) list"

definition new_unit_properties :: unit_properties where
  "new_unit_properties = []"

definition enabled_and_running_properties :: unit_properties where
  "enabled_and_running_properties =
     [(''LoadState'', ''loaded''), (''ActiveState'', ''active''), (''SubState'', ''running''),
      (''UnitFileState'', ''enabled'')]"

fun has_properties :: "unit_properties \<Rightarrow> unit_properties \<Rightarrow> bool" where
  "has_properties s [] = True"
| "has_properties s ((prop, val) # rest) =
     (case map_of s prop of
        None \<Rightarrow> False
      | Some sval \<Rightarrow> if val \<noteq> sval then False else has_properties s rest)"

fun find_names :: "unit_properties \<Rightarrow> string list \<Rightarrow> unit_properties \<Rightarrow> error
    \<Rightarrow> unit_properties \<times> error" where
  "find_names s [] props err = (props, err)"
| "find_names s (n # ns) props err =
     (case map_of s n of
        None \<Rightarrow> find_names s ns (map_set n [] props)
                 (join_errs [err, Some (ErrNew (''no property found: '' @ n))])
      | Some v \<Rightarrow> find_names s ns (map_set n v props) err)"

definition find_props :: "unit_properties \<Rightarrow> string list \<Rightarrow> unit_properties \<times> error" where
  "find_props s names = find_names s names new_unit_properties None"

definition find_properties :: "unit_properties \<Rightarrow> unit_properties \<Rightarrow> unit_properties \<times> error" where
  "find_properties s inp = find_props s (map fst inp)"

definition props_string :: "unit_properties \<Rightarrow> string" where
  "props_string s = concat (map (\<lambda>(name, value). line (name @ ''='' @ value)) s)"

subsection \<open>The systemctl command line (systemctl.go)\<close>

datatype sub_command =
    SubCommandNotSet | SubCommandDaemonReload | SubCommandEnable | SubCommandIsActive
  | SubCommandKill | SubCommandListUnits | SubCommandReload | SubCommandRestart
  | SubCommandShow | SubCommandStart | SubCommandStatus | SubCommandStop
  | SubCommandOther int  \<comment> \<open>any other integer\<close>

record systemctl_req =
  sc_user :: bool
  sc_name :: string
  sc_type :: unit_type
  sc_sub :: sub_command
  sc_pattern :: string
  sc_options :: string
  sc_env :: "string \<Rightarrow> string option"

type_synonym status_code = int

definition status_ok :: status_code where "status_ok = 0"
definition status_not_failed :: status_code where "status_not_failed = 1"
definition status_not_active :: status_code where "status_not_active = 3"
definition status_no_such_unit :: status_code where "status_no_such_unit = 4"
definition status_unknown :: status_code where "status_unknown = 9"

definition systemctl_status_string :: "status_code \<Rightarrow> string" where
  "systemctl_status_string s =
     (if s = status_ok then ''ok''
      else if s = status_not_failed then ''not-failed''
      else if s = status_not_active then ''not-active''
      else if s = status_no_such_unit then ''no-such-unit''
      else if s = status_unknown then ''unknown''
      else ''unknown'')"

record systemctl_res =
  sr_stdout :: string
  sr_stderr :: string
  sr_status :: status_code

type_synonym systemctl_opt = "systemctl_req \<Rightarrow> systemctl_req"

definition new_run_systemctl_command :: "systemctl_opt list \<Rightarrow> systemctl_req" where
  "new_run_systemctl_command opts = apply_opts opts
     \<lparr>sc_user = False, sc_name = [], sc_type = UnitTypeService, sc_sub = SubCommandNotSet,
      sc_pattern = [], sc_options = [], sc_env = Map.empty\<rparr>"

definition with_systemctl_user :: systemctl_opt where
  "with_systemctl_user c = c\<lparr>sc_user := True\<rparr>"

definition with_systemctl_unit_name :: "string \<Rightarrow> systemctl_opt" where
  "with_systemctl_unit_name n c = c\<lparr>sc_name := n\<rparr>"

definition with_systemctl_unit_type :: "unit_type \<Rightarrow> systemctl_opt" where
  "with_systemctl_unit_type t c = c\<lparr>sc_type := t\<rparr>"

definition with_systemctl_sub_command :: "sub_command \<Rightarrow> systemctl_opt" where
  "with_systemctl_sub_command s c = c\<lparr>sc_sub := s\<rparr>"

definition with_systemctl_pattern :: "string \<Rightarrow> systemctl_opt" where
  "with_systemctl_pattern p c = c\<lparr>sc_pattern := p\<rparr>"

definition with_systemctl_options :: "string \<Rightarrow> systemctl_opt" where
  "with_systemctl_options os c = c\<lparr>sc_options := os\<rparr>"

lemmas systemctl_opt_defs = with_systemctl_user_def with_systemctl_unit_name_def
  with_systemctl_unit_type_def with_systemctl_sub_command_def with_systemctl_pattern_def
  with_systemctl_options_def

definition unit_name :: "string \<Rightarrow> unit_type \<Rightarrow> string" where
  "unit_name name typ =
     (let suffix = ''.'' @ unit_type_string typ in
      if path_ext name \<noteq> suffix then name @ suffix else name)"

text \<open>The words of the sub command; \<open>Inl\<close> is the error for an unset or unknown one.\<close>

fun sub_command_words :: "sub_command \<Rightarrow> string \<Rightarrow> unit_type \<Rightarrow> goerr + string" where
  "sub_command_words SubCommandNotSet u t = Inl (ErrNew ''sub command is not set'')"
| "sub_command_words SubCommandDaemonReload u t = Inr ''daemon-reload''"
| "sub_command_words SubCommandIsActive u t = Inr (''is-active '' @ u)"
| "sub_command_words SubCommandEnable u t = Inr (''enable '' @ u)"
| "sub_command_words SubCommandKill u t = Inr (''kill '' @ u)"
| "sub_command_words SubCommandListUnits u t = Inr (''list-units -t '' @ unit_type_string t)"
| "sub_command_words SubCommandReload u t = Inr (''reload '' @ u)"
| "sub_command_words SubCommandRestart u t = Inr (''restart '' @ u)"
| "sub_command_words SubCommandShow u t = Inr (''show '' @ u)"
| "sub_command_words SubCommandStart u t = Inr (''start '' @ u)"
| "sub_command_words SubCommandStatus u t = Inr (''status'' @ (if u \<noteq> [] then '' '' @ u else []))"
| "sub_command_words SubCommandStop u t = Inr (''stop '' @ u)"
| "sub_command_words (SubCommandOther i) u t = Inl (ErrNew (''unknown command: '' @ show_int i))"

definition systemctl_string :: "systemctl_req \<Rightarrow> string \<times> error" where
  "systemctl_string c =
     (let start = ''sudo systemctl '' @ (if sc_user c then ''--user '' else [])
            @ (if sc_options c \<noteq> [] then sc_options c @ '' '' else []) in
      case sub_command_words (sc_sub c) (unit_name (sc_name c) (sc_type c)) (sc_type c) of
        Inl e \<Rightarrow> ([], Some e)
      | Inr ws \<Rightarrow> (start @ ws @ (if sc_pattern c \<noteq> [] then '' '' @ sc_pattern c else []), None))"

subsection \<open>Lists of services (service\_info.go)\<close>

record service_info =
  si_unit :: string
  si_load :: string
  si_active :: string
  si_sub :: string
  si_description :: string

text \<open>
  The regular expression \<open>^(\S+)\.service\s+(\S+)\s+(\S+)\s+(\S+)\s+(\S.*)$\<close> on a line: every
  \<open>\S+\<close> is followed by white space, so it takes the whole word, and the match is unique.
  RE2's \<open>\s\<close> has no vertical tab.
\<close>

definition re_space :: "char \<Rightarrow> bool" where
  "re_space c \<longleftrightarrow> c \<in> set [CHR '' '', CHR 0x09, CHR 0x0A, CHR 0x0C, CHR 0x0D]"

definition next_word :: "string \<Rightarrow> string \<times> string" where
  "next_word s = (takeWhile (\<lambda>c. \<not> re_space c) s, dropWhile re_space (dropWhile (\<lambda>c. \<not> re_space c) s))"

definition match_service_line :: "string \<Rightarrow> service_info option" where
  "match_service_line l =
     (let (word, r) = next_word l; (load, r) = next_word r; (act, r) = next_word r;
          (sub, descr) = next_word r; name = trim_suffix word ''.service'' in
      if has_suffix word ''.service'' \<and> name \<noteq> [] \<and> load \<noteq> [] \<and> act \<noteq> [] \<and> sub \<noteq> [] \<and> descr \<noteq> []
      then Some \<lparr>si_unit = name, si_load = load, si_active = act, si_sub = sub,
                 si_description = descr\<rparr>
      else None)"

text \<open>A line that does not match gives a nil slice of groups, and indexing it panics.\<close>

fun parse_service_lines :: "string list \<Rightarrow> service_info list go" where
  "parse_service_lines [] = Some []"
| "parse_service_lines (l # ls) =
     (if l = [] then parse_service_lines ls
      else do { i \<leftarrow> match_service_line l; is \<leftarrow> parse_service_lines ls; Some (i # is) })"

definition parse_service_infos :: "string \<Rightarrow> service_info list go" where
  "parse_service_infos services = parse_service_lines (split_on nl services)"

subsection \<open>The client (client.go, journal.go)\<close>

definition known_services :: "string list" where
  "known_services = [''boundary'', ''consul'', ''vault'']"

record journal_request =
  jr_unit :: string
  jr_host :: string

record journal_response =
  js_unit :: string
  js_host :: string
  js_logs :: string

definition journal_app_name :: "journal_response \<Rightarrow> string" where
  "journal_app_name s = js_unit s"

definition journal_log_file_name :: "journal_response \<Rightarrow> string" where
  "journal_log_file_name s = js_unit s @ ''_'' @ js_host s @ ''.log''"

definition journal_logs :: "journal_response \<Rightarrow> string" where
  "journal_logs s = js_logs s"

definition get_unit_journal ::
  "'w transport \<Rightarrow> journal_request \<Rightarrow> 'w \<Rightarrow> (journal_response option \<times> error) \<times> 'w" where
  "get_unit_journal tr req w =
     (case run_cmd tr (''journalctl -x -u '' @ jr_unit req) w of
        ((out, serr, Some e), w1) \<Rightarrow>
          ((None, Some (ErrWrap ''failed to get systemd logs, due to: '' e [])), w1)
      | ((out, serr, None), w1) \<Rightarrow>
          ((Some \<lparr>js_unit = jr_unit req, js_host = jr_host req, js_logs = out\<rparr>, None), w1))"

definition create_unit_file ::
  "'w go_ctx \<Rightarrow> 'w transport \<Rightarrow> create_unit_file_request \<Rightarrow> 'w \<Rightarrow> (error \<times> 'w) go" where
  "create_unit_file ctx tr req w = do {
     (unit, err) \<leftarrow> deref (cu_unit req);
     (case err of
        Some e \<Rightarrow> Some (Some (ErrWrap ''marshaling systemd unit: '' e []), w)
      | None \<Rightarrow>
          if cu_path req = [] then
            Some (Some (ErrNew ''you must provide a unit destination path''), w)
          else do {
            let opts = [with_copy_file_content (new_reader unit),
                   with_copy_file_destination (cu_path req)]
                 @ (if cu_chmod req \<noteq> [] then [with_copy_file_chmod (cu_chmod req)] else [])
                 @ (if cu_chown req \<noteq> [] then [with_copy_file_chown (cu_chown req)] else []);
            ((err, _), w1) \<leftarrow> copy_file ctx tr (Some (new_copy_file_request opts)) w;
            Some (err, w1)
          })
   }"

definition run_systemctl ::
  "'w transport \<Rightarrow> systemctl_req \<Rightarrow> 'w \<Rightarrow> (systemctl_res \<times> error) \<times> 'w" where
  "run_systemctl tr req w =
     (case systemctl_string req of
        (_, Some e) \<Rightarrow> ((\<lparr>sr_stdout = [], sr_stderr = [], sr_status = status_unknown\<rparr>, Some e), w)
      | (cmd, None) \<Rightarrow>
          (case tr_run tr (new_command cmd [with_env_vars (sc_env req)]) w of
             ((out, serr, None), w1) \<Rightarrow>
               ((\<lparr>sr_stdout = out, sr_stderr = serr, sr_status = status_ok\<rparr>, None), w1)
           | ((out, serr, Some e), w1) \<Rightarrow>
               ((\<lparr>sr_stdout = out, sr_stderr = serr,
                  sr_status = (case as_exec e of Some c \<Rightarrow> c | None \<Rightarrow> status_unknown)\<rparr>,
                 Some e), w1)))"

definition list_services_command :: systemctl_req where
  "list_services_command = new_run_systemctl_command
     [with_systemctl_sub_command SubCommandListUnits, with_systemctl_unit_type UnitTypeService,
      with_systemctl_options ''--full --all --plain --no-legend'']"

definition list_services ::
  "'w transport \<Rightarrow> 'w \<Rightarrow> ((service_info list \<times> error) \<times> 'w) go" where
  "list_services tr w =
     (case run_systemctl tr list_services_command w of
        ((res, Some e), w1) \<Rightarrow>
          Some (([], Some (wrap_error_with e [sr_stderr res, ''listing services''])), w1)
      | ((res, None), w1) \<Rightarrow> do {
          infos \<leftarrow> parse_service_infos (sr_stdout res);
          Some ((infos, None), w1)
        })"

definition unit_command :: "string \<Rightarrow> sub_command \<Rightarrow> systemctl_req" where
  "unit_command unit sub = new_run_systemctl_command
     [with_systemctl_unit_name unit, with_systemctl_sub_command sub]"

definition service_result :: "string \<Rightarrow> string \<Rightarrow> systemctl_res \<Rightarrow> error \<Rightarrow> error" where
  "service_result what unit res err =
     (case err of
        None \<Rightarrow> None
      | Some e \<Rightarrow> join_errs
          [Some (ErrNew (what @ '' '' @ unit @ '', stderr: '' @ sr_stderr res)), Some e])"

definition enable_service :: "'w transport \<Rightarrow> string \<Rightarrow> 'w \<Rightarrow> error \<times> 'w" where
  "enable_service tr unit w =
     (case run_systemctl tr (new_run_systemctl_command
        [with_systemctl_unit_name unit, with_systemctl_sub_command SubCommandEnable,
         with_systemctl_options ''--now'']) w of
        ((res, err), w1) \<Rightarrow> (service_result ''enabling'' unit res err, w1))"

definition start_service :: "'w transport \<Rightarrow> string \<Rightarrow> 'w \<Rightarrow> error \<times> 'w" where
  "start_service tr unit w =
     (case run_systemctl tr (unit_command unit SubCommandStart) w of
        ((res, err), w1) \<Rightarrow> (service_result ''starting'' unit res err, w1))"

definition stop_service :: "'w transport \<Rightarrow> string \<Rightarrow> 'w \<Rightarrow> error \<times> 'w" where
  "stop_service tr unit w =
     (case run_systemctl tr (unit_command unit SubCommandStop) w of
        ((res, err), w1) \<Rightarrow> (service_result ''stopping'' unit res err, w1))"

definition service_status :: "'w transport \<Rightarrow> string \<Rightarrow> 'w \<Rightarrow> status_code \<times> 'w" where
  "service_status tr unit w =
     (case run_systemctl tr (unit_command unit SubCommandShow) w of
        ((res, _), w1) \<Rightarrow> (sr_status res, w1))"

text \<open>
  The scanner's error is looked at only inside the loop, where it is nil: the loop ends when
  there is one.
\<close>

definition decode_show_line :: "string \<Rightarrow> unit_properties \<Rightarrow> unit_properties" where
  "decode_show_line t props =
     (if t = [] then props
      else (case split_n2 (CHR ''='') t of
              [k, v] \<Rightarrow> map_set k v props
            | _ \<Rightarrow> props))"

definition decode_unit_properties_from_show :: "string \<Rightarrow> unit_properties \<times> error" where
  "decode_unit_properties_from_show show =
     (fold decode_show_line (scan_lines show) new_unit_properties, None)"

definition show_properties ::
  "'w transport \<Rightarrow> string \<Rightarrow> 'w \<Rightarrow> (unit_properties \<times> error) \<times> 'w" where
  "show_properties tr unit w =
     (case run_systemctl tr (unit_command unit SubCommandShow) w of
        ((res, err), w1) \<Rightarrow>
          let err = (if sr_stdout res = []
                     then join_errs [err, Some (ErrNew ''no show result was written to STDOUT'')]
                     else err);
              (props, err) =
                (case err of
                   Some e \<Rightarrow> ([], Some e)
                 | None \<Rightarrow>
                     (case decode_unit_properties_from_show (sr_stdout res) of
                        (props, Some e1) \<Rightarrow>
                          (props, Some (ErrWrap [] e1 ('': properties: '' @ props_string props)))
                      | (props, None) \<Rightarrow> (props, None)))
          in case err of
               Some e \<Rightarrow> (([], Some (ErrWrap ''showing systemd properties: '' e [])), w1)
             | None \<Rightarrow> ((props, None), w1))"

text \<open>
  \<open>visit\<close> gives the entries of a map in the order in which this call's formatting ranges
  over them.
\<close>

definition restart_service ::
  "(unit_properties \<Rightarrow> unit_properties) \<Rightarrow> 'w transport \<Rightarrow> string \<Rightarrow> 'w \<Rightarrow> error \<times> 'w" where
  "restart_service visit tr unit w =
     (case show_properties tr unit w of
        ((props, err), w1) \<Rightarrow>
      (let failed = (\<lambda>e. Some (ErrWrap (''restarting '' @ unit @ '', systemd properties: ''
                       @ props_string (visit props) @ '', '') e [])) in
       case err of
         Some e \<Rightarrow> (failed e, w1)
       | None \<Rightarrow>
      (case (if has_properties props [(''LoadState'', ''loaded''), (''ActiveState'', ''active'')]
             then stop_service tr unit w1 else (None, w1)) of
         (Some e, w2) \<Rightarrow> (failed e, w2)
       | (None, w2) \<Rightarrow>
      (case (if \<not> has_properties props [(''UnitFileStatus'', ''enabled'')]
             then enable_service tr unit w2 else (None, w2)) of
         (Some e, w3) \<Rightarrow> (failed e, w3)
       | (None, w3) \<Rightarrow>
      (case start_service tr unit w3 of
         (Some e, w4) \<Rightarrow> (failed e, w4)
       | (None, w4) \<Rightarrow> (None, w4))))))"

subsection \<open>Lemmas on properties\<close>

lemma has_properties_iff:
  "has_properties s props \<longleftrightarrow> (\<forall>(k, v) \<in> set props. map_of s k = Some v)"
  by (induction s props rule: has_properties.induct) (auto split: option.splits)

lemma find_names_err:
  "snd (find_names s ns props err) = None \<longleftrightarrow> err = None \<and> set ns \<subseteq> dom (map_of s)"
  by (induction s ns props err rule: find_names.induct) (auto split: option.splits)

lemma find_names_map:
  "map_of (fst (find_names s ns props err)) =
     (\<lambda>k. if k \<in> set ns then Some (case map_of s k of Some v \<Rightarrow> v | None \<Rightarrow> []) else map_of props k)"
  by (induction s ns props err rule: find_names.induct)
    (auto simp: map_of_map_set fun_eq_iff split: option.splits)

lemma find_names_distinct:
  "distinct (map fst props) \<Longrightarrow> distinct (map fst (fst (find_names s ns props err)))"
  by (induction s ns props err rule: find_names.induct)
    (auto simp: distinct_map_set split: option.splits)

lemma decode_lines_pairs:
  assumes "\<And>k v. (k, v) \<in> set ps \<Longrightarrow> CHR ''='' \<notin> set k"
    and "distinct (map fst (m @ ps))"
  shows "fold decode_show_line (map (\<lambda>(k, v). k @ ''='' @ v) ps) m = m @ ps"
  using assms
proof (induction ps arbitrary: m)
  case Nil
  then show ?case by simp
next
  case (Cons p ps)
  obtain k v where p: "p = (k, v)" by (cases p)
  have k: "CHR ''='' \<notin> set k" using Cons.prems(1) p by auto
  have new: "k \<notin> fst ` set m" using Cons.prems(2) p by auto
  have "decode_show_line (k @ ''='' @ v) m = m @ [(k, v)]"
    using split_n2_pair [OF k, of v] by (simp add: decode_show_line_def map_set_new [OF new])
  moreover have "fold decode_show_line (map (\<lambda>(k, v). k @ ''='' @ v) ps) (m @ [(k, v)])
    = (m @ [(k, v)]) @ ps"
    using Cons.prems p by (intro Cons.IH) auto
  ultimately show ?case using p by simp
qed

text \<open>Entries that \<open>systemctl show\<close> can print one to a line.\<close>

definition printable_props :: "unit_properties \<Rightarrow> bool" where
  "printable_props ps \<longleftrightarrow> distinct (map fst ps) \<and>
     (\<forall>(k, v) \<in> set ps. CHR ''='' \<notin> set k \<and> nl \<notin> set (k @ v) \<and> cr \<notin> set (k @ v)
        \<and> length (k @ ''='' @ v) < 65536)"

lemma scan_props_string:
  assumes "printable_props ps"
  shows "scan_lines (props_string ps) = map (\<lambda>(k, v). k @ ''='' @ v) ps"
proof -
  have "props_string ps = concat (map line (map (\<lambda>(k, v). k @ ''='' @ v) ps))"
    by (simp add: props_string_def comp_def split_def)
  then show ?thesis
    using assms by (simp only:) (rule scan_lines_join, auto simp: printable_props_def)
qed

lemma decode_props_string:
  assumes "printable_props ps"
  shows "decode_unit_properties_from_show (props_string ps) = (ps, None)"
proof -
  have "fold decode_show_line (map (\<lambda>(k, v). k @ ''='' @ v) ps) [] = [] @ ps"
    using assms by (intro decode_lines_pairs) (auto simp: printable_props_def)
  then show ?thesis
    by (simp add: decode_unit_properties_from_show_def scan_props_string [OF assms]
        new_unit_properties_def)
qed

subsection \<open>Lemmas on systemctl command lines\<close>

lemma split_on_append_no_sep:
  "c \<notin> set t \<Longrightarrow> split_on c (s @ t) = butlast (split_on c s) @ [last (split_on c s) @ t]"
proof (induction s)
  case Nil
  then show ?case by (simp add: split_on_no_sep)
next
  case (Cons x s)
  obtain y ys where "split_on c s = y # ys"
    by (metis neq_Nil_conv split_on_not_Nil)
  then show ?case using Cons by (cases ys) auto
qed

lemma path_ext_append:
  assumes "slash \<notin> set t" "CHR ''.'' \<notin> set t"
  shows "path_ext (s @ CHR ''.'' # t) = CHR ''.'' # t"
proof -
  define e where "e = last (split_on slash s)"
  have 1: "last (split_on slash (s @ CHR ''.'' # t)) = e @ CHR ''.'' # t"
    unfolding e_def by (subst split_on_append_no_sep) (use assms in auto)
  have "split_on (CHR ''.'') (e @ CHR ''.'' # t) = butlast (split_on (CHR ''.'') e)
      @ [last (split_on (CHR ''.'') e), t]"
  proof (induction e)
    case Nil
    show ?case using assms by (simp add: split_on_no_sep)
  next
    case (Cons x e)
    obtain y ys where "split_on (CHR ''.'') e = y # ys"
      by (metis neq_Nil_conv split_on_not_Nil)
    then show ?case using Cons by (cases ys) auto
  qed
  then show ?thesis using 1 by (simp add: path_ext_def Let_def)
qed

lemma unit_type_string_no_dot:
  "slash \<notin> set (unit_type_string t) \<and> CHR ''.'' \<notin> set (unit_type_string t)"
  by (cases t) auto

lemma unit_name_ext: "path_ext (unit_name n t) = ''.'' @ unit_type_string t"
  using unit_type_string_no_dot [of t] by (auto simp: unit_name_def Let_def path_ext_append)

lemma unit_name_idem [simp]: "unit_name (unit_name n t) t = unit_name n t"
  using unit_name_ext [of n t] by (simp add: unit_name_def [of "unit_name n t"])

lemma systemctl_string_unit_command:
  assumes "sub_command_words sub (unit_name u UnitTypeService) UnitTypeService = Inr ws"
  shows "systemctl_string (unit_command u sub) = (''sudo systemctl '' @ ws, None)"
  using assms by (simp add: systemctl_string_def unit_command_def new_run_systemctl_command_def
      systemctl_opt_defs)

lemma run_systemctl_logged:
  assumes "systemctl_string req = (cmd, None)"
  shows "run_systemctl (logged tr) req (w, log) =
    (case run_systemctl tr req w of (r, w1) \<Rightarrow> (r, (w1, log @ [cmd])))"
  using assms by (auto simp: run_systemctl_def tr_run_logged new_command_def
      split: prod.splits option.splits)

definition show_cmd :: "string \<Rightarrow> string" where
  "show_cmd u = ''sudo systemctl show '' @ unit_name u UnitTypeService"
definition stop_cmd :: "string \<Rightarrow> string" where
  "stop_cmd u = ''sudo systemctl stop '' @ unit_name u UnitTypeService"
definition enable_cmd :: "string \<Rightarrow> string" where
  "enable_cmd u = ''sudo systemctl --now enable '' @ unit_name u UnitTypeService"
definition start_cmd :: "string \<Rightarrow> string" where
  "start_cmd u = ''sudo systemctl start '' @ unit_name u UnitTypeService"

lemma show_properties_logged:
  "show_properties (logged tr) u (w, log) =
    (case show_properties tr u w of (r, w1) \<Rightarrow> (r, (w1, log @ [show_cmd u])))"
proof -
  have "systemctl_string (unit_command u SubCommandShow) = (show_cmd u, None)"
    by (simp add: systemctl_string_unit_command show_cmd_def)
  from run_systemctl_logged [OF this, of tr w log] show ?thesis
    by (cases "run_systemctl tr (unit_command u SubCommandShow) w") (simp add: show_properties_def Let_def split: prod.splits option.splits)
qed

lemma stop_service_logged:
  "stop_service (logged tr) u (w, log) =
    (case stop_service tr u w of (r, w1) \<Rightarrow> (r, (w1, log @ [stop_cmd u])))"
proof -
  have "systemctl_string (unit_command u SubCommandStop) = (stop_cmd u, None)"
    by (simp add: systemctl_string_unit_command stop_cmd_def)
  from run_systemctl_logged [OF this, of tr w log] show ?thesis
    by (cases "run_systemctl tr (unit_command u SubCommandStop) w") (simp add: stop_service_def split: prod.splits)
qed

lemma start_service_logged:
  "start_service (logged tr) u (w, log) =
    (case start_service tr u w of (r, w1) \<Rightarrow> (r, (w1, log @ [start_cmd u])))"
proof -
  have "systemctl_string (unit_command u SubCommandStart) = (start_cmd u, None)"
    by (simp add: systemctl_string_unit_command start_cmd_def)
  from run_systemctl_logged [OF this, of tr w log] show ?thesis
    by (cases "run_systemctl tr (unit_command u SubCommandStart) w") (simp add: start_service_def split: prod.splits)
qed

lemma enable_service_logged:
  "enable_service (logged tr) u (w, log) =
    (case enable_service tr u w of (r, w1) \<Rightarrow> (r, (w1, log @ [enable_cmd u])))"
proof -
  have "systemctl_string (new_run_systemctl_command [with_systemctl_unit_name u,
      with_systemctl_sub_command SubCommandEnable, with_systemctl_options ''--now''])
    = (enable_cmd u, None)"
    by (simp add: systemctl_string_def new_run_systemctl_command_def systemctl_opt_defs enable_cmd_def)
  from run_systemctl_logged [OF this, of tr w log] show ?thesis
    by (cases "run_systemctl tr (new_run_systemctl_command [with_systemctl_unit_name u,
      with_systemctl_sub_command SubCommandEnable, with_systemctl_options ''--now'']) w")
      (simp add: enable_service_def split: prod.splits)
qed

subsection \<open>Lemmas on unit files\<close>

definition ini_lines :: "unit_file \<Rightarrow> string list" where
  "ini_lines u = concat (map (\<lambda>st. if snd st = [] then [] else
     (''['' @ fst st @ '']'') # map (\<lambda>(k, v). k @ ''='' @ v) (snd st) @ [[]]) u)"

text \<open>A reader of ini files: stanza headers, fields, and blank lines in between.\<close>

fun read_ini_lines :: "string list \<Rightarrow> (string \<times> string) list \<times> unit_file" where
  "read_ini_lines [] = ([], [])"
| "read_ini_lines (l # ls) =
     (case read_ini_lines ls of (flds, stanzas) \<Rightarrow>
        if l = [] then (flds, stanzas)
        else if hd l = CHR ''['' then ([], (butlast (tl l), flds) # stanzas)
        else (case split_n2 (CHR ''='') l of
                [k, v] \<Rightarrow> ((k, v) # flds, stanzas)
              | _ \<Rightarrow> (flds, stanzas)))"

definition read_ini :: "string \<Rightarrow> unit_file" where
  "read_ini s = snd (read_ini_lines (split_on nl s))"

definition printable_field :: "string \<times> string \<Rightarrow> bool" where
  "printable_field kv \<longleftrightarrow> (case kv of (k, v) \<Rightarrow> CHR ''='' \<notin> set k \<and> nl \<notin> set (k @ v)
     \<and> (k = [] \<or> hd k \<noteq> CHR ''['') \<and> (v = [] \<or> \<not> is_space (last v)))"

definition printable_unit :: "unit_file \<Rightarrow> bool" where
  "printable_unit u \<longleftrightarrow> (\<forall>(name, flds) \<in> set u. nl \<notin> set name \<and> (\<forall>kv \<in> set flds. printable_field kv))"

lemma to_ini_lines: "concat (map line (ini_lines u)) = concat (map ini_stanza u)"
  by (induction u) (auto simp: ini_lines_def ini_stanza_def ini_field_def [abs_def] line_def comp_def split_def)

lemma read_ini_lines_snoc_Nil: "read_ini_lines (ls @ [[]]) = read_ini_lines ls"
  by (induction ls) (auto split: prod.splits list.splits)

lemma read_fields:
  "(\<And>kv. kv \<in> set fs \<Longrightarrow> printable_field kv) \<Longrightarrow>
    read_ini_lines (map (\<lambda>(k, v). k @ ''='' @ v) fs @ ls)
      = (fs @ fst (read_ini_lines ls), snd (read_ini_lines ls))"
proof (induction fs)
  case Nil
  then show ?case by simp
next
  case (Cons p fs)
  obtain k v where p: "p = (k, v)" by (cases p)
  have pf: "CHR ''='' \<notin> set k" "k = [] \<or> hd k \<noteq> CHR ''[''"
    using Cons.prems [of p] p by (auto simp: printable_field_def)
  have "hd (k @ ''='' @ v) \<noteq> CHR ''[''" using pf(2) by (cases k) auto
  moreover have "split_n2 (CHR ''='') (k @ ''='' @ v) = [k, v]"
    using split_n2_pair [OF pf(1), of v] by simp
  ultimately show ?case using Cons p by simp
qed

lemma read_ini_lines_printable:
  "printable_unit u \<Longrightarrow> read_ini_lines (ini_lines u) = ([], filter (\<lambda>st. snd st \<noteq> []) u)"
proof (induction u)
  case Nil
  then show ?case by (simp add: ini_lines_def)
next
  case (Cons st u)
  have IH: "read_ini_lines (ini_lines u) = ([], filter (\<lambda>st. snd st \<noteq> []) u)"
    using Cons by (simp add: printable_unit_def)
  have pf: "\<And>kv. kv \<in> set (snd st) \<Longrightarrow> printable_field kv"
    using Cons.prems by (auto simp: printable_unit_def)
  show ?case
  proof (cases "snd st = []")
    case True
    then show ?thesis using IH by (simp add: ini_lines_def)
  next
    case False
    have "read_ini_lines (map (\<lambda>(k, v). k @ ''='' @ v) (snd st) @ [] # ini_lines u)
      = (snd st, filter (\<lambda>st. snd st \<noteq> []) u)"
      using read_fields [OF pf, where ls = "[] # ini_lines u"] IH by simp
    then show ?thesis using False by (simp add: ini_lines_def)
  qed
qed

lemma ini_lines_no_nl: "printable_unit u \<Longrightarrow> l \<in> set (ini_lines u) \<Longrightarrow> nl \<notin> set l"
  by (fastforce simp: ini_lines_def printable_unit_def printable_field_def split: if_splits)

lemma join_lines: "ls \<noteq> [] \<Longrightarrow> concat (map line ls) = join_with [nl] ls @ [nl]"
  by (induction "[nl]" ls rule: join_with.induct) (simp_all add: line_def)

lemma last_join_with:
  "ls \<noteq> [] \<Longrightarrow> last ls \<noteq> [] \<Longrightarrow> join_with sep ls \<noteq> [] \<and> last (join_with sep ls) = last (last ls)"
  by (induction sep ls rule: join_with.induct) auto

lemma trim_space_outer:
  assumes "s \<noteq> []" "\<not> is_space (hd s)" "\<not> is_space (last s)" "list_all is_space ws"
  shows "trim_space (s @ ws) = s"
proof -
  have 1: "dropWhile is_space (s @ ws) = s @ ws" using assms(1,2) by (cases s) auto
  have 2: "dropWhile is_space (rev ws @ rev s) = rev s"
    using assms by (subst dropWhile_append2) (auto simp: list_all_iff, cases s rule: rev_cases, auto)
  show ?thesis by (simp add: trim_space_def trim_if_def 1 2)
qed

lemma ini_lines_shape:
  assumes "printable_unit u" "ini_lines u \<noteq> []"
  shows "\<exists>ls. ini_lines u = ls @ [[]] \<and> ls \<noteq> [] \<and> last ls \<noteq> [] \<and> \<not> is_space (last (last ls))
    \<and> hd ls \<noteq> [] \<and> hd (hd ls) = CHR ''[''"
  using assms
proof (induction u)
  case Nil
  then show ?case by (simp add: ini_lines_def)
next
  case (Cons st u)
  let ?own = "(''['' @ fst st @ '']'') # map (\<lambda>(k, v). k @ ''='' @ v) (snd st)"
  have split: "ini_lines (st # u) = (if snd st = [] then [] else ?own @ [[]]) @ ini_lines u"
    by (simp add: ini_lines_def)
  have pu: "printable_unit u" using Cons.prems by (simp add: printable_unit_def)
  show ?case
  proof (cases "snd st = []")
    case True
    then show ?thesis using Cons.IH [OF pu] Cons.prems(2) split by simp
  next
    case False
    obtain k v fs where fs: "snd st = fs @ [(k, v)]" using False by (metis rev_exhaust surj_pair)
    have "printable_field (k, v)"
      using Cons.prems(1) fs by (cases st) (auto simp: printable_unit_def)
    then have own: "last ?own \<noteq> [] \<and> \<not> is_space (last (last ?own))"
      using fs by (auto simp: printable_field_def is_space_def)
    show ?thesis
    proof (cases "ini_lines u = []")
      case True
      then show ?thesis using own split False by (intro exI [of _ ?own]) auto
    next
      case nonempty: False
      obtain ls where "ini_lines u = ls @ [[]]" "ls \<noteq> []" "last ls \<noteq> []" "\<not> is_space (last (last ls))"
        using Cons.IH [OF pu nonempty] by blast
      then show ?thesis using split False by (intro exI [of _ "?own @ [[]] @ ls"]) auto
    qed
  qed
qed

lemma read_to_ini:
  assumes "printable_unit u"
  shows "read_ini (fst (to_ini u)) = filter (\<lambda>st. snd st \<noteq> []) u"
proof (cases "ini_lines u = []")
  case True
  then have e: "concat (map ini_stanza u) = []" using to_ini_lines [of u] by simp
  have "filter (\<lambda>st. snd st \<noteq> []) u = []"
    using read_ini_lines_printable [OF assms] True by simp
  then show ?thesis unfolding read_ini_def to_ini_def e by (simp add: trim_space_def trim_if_def)
next
  case False
  then obtain ls where ls: "ini_lines u = ls @ [[]]" "ls \<noteq> []" "last ls \<noteq> []"
    "\<not> is_space (last (last ls))" "hd ls \<noteq> []" "hd (hd ls) = CHR ''[''"
    using ini_lines_shape [OF assms] by blast
  have body: "concat (map ini_stanza u) = join_with [nl] ls @ [nl, nl]"
    using to_ini_lines [of u] join_lines [OF ls(2)] ls(1) by (simp add: line_def)
  have "hd (join_with [nl] ls) = CHR ''[''"
    using ls(2,5,6) by (cases ls; cases "tl ls") auto
  then have "trim_space (join_with [nl] ls @ [nl, nl]) = join_with [nl] ls"
    using last_join_with [OF ls(2,3), of "[nl]"] ls(4)
    by (intro trim_space_outer) (auto simp: is_space_def)
  moreover have "split_on nl (join_with [nl] ls) = ls"
    using ini_lines_no_nl [OF assms] ls(1,2) by (intro split_on_join) auto
  ultimately show ?thesis
    using read_ini_lines_printable [OF assms] ls(1)
    by (simp add: read_ini_def to_ini_def body read_ini_lines_snoc_Nil)
qed

subsection \<open>Lemmas on lists of services\<close>

definition word :: "string \<Rightarrow> bool" where
  "word s \<longleftrightarrow> s \<noteq> [] \<and> (\<forall>c \<in> set s. \<not> re_space c)"

definition blanks :: "nat \<Rightarrow> string" where
  "blanks n = replicate (Suc n) (CHR '' '')"

lemma next_word_word:
  assumes "\<forall>c \<in> set w. \<not> re_space c" "r = [] \<or> \<not> re_space (hd r)"
  shows "next_word (w @ blanks n @ r) = (w, r)"
proof -
  have b: "re_space (CHR '' '')" by (simp add: re_space_def)
  have 1: "takeWhile (\<lambda>c. \<not> re_space c) (w @ blanks n @ r) = w"
    using assms(1) b by (subst takeWhile_append2) (auto simp: blanks_def)
  have 2: "dropWhile (\<lambda>c. \<not> re_space c) (w @ blanks n @ r) = blanks n @ r"
    using assms(1) b by (subst dropWhile_append2) (auto simp: blanks_def)
  have r: "dropWhile re_space r = r" using assms(2) by (cases r) auto
  have 3: "dropWhile re_space (blanks n @ r) = r"
    by (induction n) (simp_all add: blanks_def b r)
  show ?thesis by (simp add: next_word_def 1 2 3)
qed

definition service_line :: "service_info \<Rightarrow> nat \<times> nat \<times> nat \<times> nat \<Rightarrow> string" where
  "service_line i pads = (case pads of (a, b, c, d) \<Rightarrow>
     (si_unit i @ ''.service'') @ blanks a @ si_load i @ blanks b @ si_active i @ blanks c
       @ si_sub i @ blanks d @ si_description i)"

definition listable :: "service_info \<Rightarrow> bool" where
  "listable i \<longleftrightarrow> word (si_unit i) \<and> word (si_load i) \<and> word (si_active i) \<and> word (si_sub i)
     \<and> si_description i \<noteq> [] \<and> \<not> re_space (hd (si_description i)) \<and> nl \<notin> set (si_description i)"

lemma trim_suffix_append [simp]: "has_suffix (s @ t) t" "trim_suffix (s @ t) t = s"
  by (simp_all add: trim_suffix_def has_suffix_def has_prefix_def)

lemma match_service_line_row:
  assumes "listable i"
  shows "match_service_line (service_line i pads) = Some i"
proof -
  obtain a b c d where pads: "pads = (a, b, c, d)" by (cases pads)
  note l = assms [unfolded listable_def word_def]
  have dot: "\<forall>c \<in> set ''.service''. \<not> re_space c" by (simp add: re_space_def)
  have hd_app: "\<And>x y. x \<noteq> [] \<Longrightarrow> hd (x @ y) = hd x" by simp
  have 1: "next_word (service_line i pads) = (si_unit i @ ''.service'',
    si_load i @ blanks b @ si_active i @ blanks c @ si_sub i @ blanks d @ si_description i)"
    unfolding service_line_def pads prod.case using l dot
    by (intro next_word_word) auto
  have 2: "next_word (si_load i @ blanks b @ si_active i @ blanks c @ si_sub i @ blanks d @ si_description i)
    = (si_load i, si_active i @ blanks c @ si_sub i @ blanks d @ si_description i)"
    using l by (intro next_word_word) auto
  have 3: "next_word (si_active i @ blanks c @ si_sub i @ blanks d @ si_description i)
    = (si_active i, si_sub i @ blanks d @ si_description i)"
    using l by (intro next_word_word) auto
  have 4: "next_word (si_sub i @ blanks d @ si_description i) = (si_sub i, si_description i)"
    using l by (intro next_word_word) auto
  show ?thesis using l by (simp add: match_service_line_def 1 2 3 4)
qed

lemma service_line_no_nl:
  assumes "listable i"
  shows "nl \<notin> set (service_line i pads)"
proof -
  have "re_space nl" by (simp add: re_space_def)
  then have "word s \<Longrightarrow> nl \<notin> set s" for s by (auto simp: word_def)
  then have "nl \<notin> set (si_unit i) \<and> nl \<notin> set (si_load i) \<and> nl \<notin> set (si_active i)
    \<and> nl \<notin> set (si_sub i) \<and> nl \<notin> set (si_description i)"
    using assms by (simp add: listable_def)
  then show ?thesis by (cases pads) (simp add: service_line_def blanks_def)
qed

lemma service_line_not_Nil: "service_line i pads \<noteq> []"
  by (cases pads) (simp add: service_line_def)

lemma parse_service_lines_rows:
  "list_all (\<lambda>(i, pads). listable i) rows \<Longrightarrow>
    parse_service_lines (map (\<lambda>(i, pads). service_line i pads) rows @ [[]]) = Some (map fst rows)"
  by (induction rows) (auto simp: match_service_line_row service_line_not_Nil)

subsection \<open>Properties\<close>

text \<open>
  Decoding the text of properties gives the properties back: every
  map whose entries fit on a line survives String and then decodeUnitPropertiesFromShow, in
  whatever order the entries are printed.
\<close>

theorem decode_show_roundtrip:
  assumes "printable_props ps"
  shows "decode_unit_properties_from_show (props_string ps) = (ps, None)"
  by (rule decode_props_string [OF assms])

theorem decode_show_roundtrip_witness:
  "decode_unit_properties_from_show (props_string enabled_and_running_properties)
    = (enabled_and_running_properties, None)"
  by (rule decode_show_roundtrip) (simp add: printable_props_def enabled_and_running_properties_def)

text \<open>
  Find succeeds exactly when every name is a property, and then what it found
  holds of the unit (HasProperties) and has each of the names and no other.
\<close>

theorem find_then_has:
  assumes "find_props s names = (found, err)"
  shows "(err = None \<longleftrightarrow> set names \<subseteq> dom (map_of s))
    \<and> dom (map_of found) = set names
    \<and> (err = None \<longrightarrow> has_properties s found)"
proof -
  note f = assms [unfolded find_props_def new_unit_properties_def]
  have dist: "distinct (map fst found)"
    using find_names_distinct [of "[]" s names None] f by simp
  have m: "map_of found = (\<lambda>k. if k \<in> set names
      then Some (case map_of s k of Some v \<Rightarrow> v | None \<Rightarrow> []) else None)"
    using find_names_map [of s names "[]" None] f by (simp add: fun_eq_iff)
  have e: "err = None \<longleftrightarrow> set names \<subseteq> dom (map_of s)"
    using find_names_err [of s names "[]" None] f by simp
  have "map_of s k = Some v" if "err = None" "(k, v) \<in> set found" for k v
    using that e m map_of_is_SomeI [OF dist, of k v]
    by (auto split: if_splits option.splits dest: subsetD)
  then show ?thesis
    using e m by (auto simp: has_properties_iff split: if_splits)
qed

theorem find_then_has_witness:
  "has_properties enabled_and_running_properties
    (fst (find_props enabled_and_running_properties [''SubState'', ''LoadState'']))"
  using find_then_has [of enabled_and_running_properties "[''SubState'', ''LoadState'']"
      "fst (find_props enabled_and_running_properties [''SubState'', ''LoadState''])"
      "snd (find_props enabled_and_running_properties [''SubState'', ''LoadState''])"]
  by (simp add: enabled_and_running_properties_def)

text \<open>
  The status of a systemctl command is 0 when the command ran without
  error, the exit code of the ExecError when the transport's error has one, and unknown (9)
  when it has none or when the request has no valid sub command, in which case nothing is run.
\<close>

theorem run_systemctl_status:
  assumes "run_systemctl tr req w = ((res, err), w')"
  shows "(case systemctl_string req of
      (_, Some e) \<Rightarrow> err = Some e \<and> sr_status res = status_unknown \<and> w' = w
    | (cmd, None) \<Rightarrow>
        (\<exists>out serr. tr_run tr (new_command cmd [with_env_vars (sc_env req)]) w = ((out, serr, err), w')
           \<and> sr_stdout res = out \<and> sr_stderr res = serr)
        \<and> sr_status res = (case err of None \<Rightarrow> status_ok
            | Some e \<Rightarrow> (case as_exec e of Some c \<Rightarrow> c | None \<Rightarrow> status_unknown)))"
  using assms by (auto simp: run_systemctl_def split: prod.splits option.splits)

definition exit_transport :: "int \<Rightarrow> nat transport" where
  "exit_transport c = mock_transport\<lparr>tr_run := (\<lambda>cmd w. (([], [], Some (ErrExec [] c)), w + 1))\<rparr>"

theorem run_systemctl_status_witness:
  "sr_status (fst (fst (run_systemctl (exit_transport 3) (unit_command ''vault'' SubCommandStop) 0))) = 3"
proof -
  have s: "systemctl_string (unit_command ''vault'' SubCommandStop)
    = (''sudo systemctl stop '' @ unit_name ''vault'' UnitTypeService, None)"
    by (simp add: systemctl_string_unit_command)
  obtain res err w' where r: "run_systemctl (exit_transport 3) (unit_command ''vault'' SubCommandStop) 0
    = ((res, err), w')" by (metis surj_pair)
  show ?thesis
    using run_systemctl_status [OF r] r by (auto simp: s exit_transport_def)
qed

text \<open>The commands of a restart that meets no error.\<close>

definition restart_plan :: "unit_properties \<Rightarrow> string \<Rightarrow> string list" where
  "restart_plan props u =
     [show_cmd u]
     @ (if map_of props ''LoadState'' = Some ''loaded'' \<and> map_of props ''ActiveState'' = Some ''active''
        then [stop_cmd u] else [])
     @ (if map_of props ''UnitFileStatus'' = Some ''enabled'' then [] else [enable_cmd u])
     @ [start_cmd u]"

text \<open>
  C12: RestartService reads the unit's properties first and stops if that
  fails. Otherwise the commands it runs are a prefix of: stop when the unit is loaded and
  active, enable unless the property UnitFileStatus says enabled, start; and all of them
  when it returns without error. (systemd reports UnitFileState and no UnitFileStatus, so the
  unit is enabled again even when it is enabled.)
\<close>

theorem restart_service_commands:
  assumes "show_properties tr u w = ((props, e), w1)"
    and "restart_service visit (logged tr) u (w, []) = (err, w', log)"
  shows "(e \<noteq> None \<longrightarrow> err \<noteq> None \<and> log = [show_cmd u] \<and> w' = w1)
    \<and> (e = None \<longrightarrow> prefix log (restart_plan props u) \<and> (err = None \<longrightarrow> log = restart_plan props u))"
proof (cases e)
  case (Some e1)
  then show ?thesis
    using assms by (auto simp: restart_service_def show_properties_logged Let_def)
next
  case None
  let ?active = "has_properties props [(''LoadState'', ''loaded''), (''ActiveState'', ''active'')]"
  let ?enabled = "has_properties props [(''UnitFileStatus'', ''enabled'')]"
  have plan: "restart_plan props u = [show_cmd u] @ (if ?active then [stop_cmd u] else [])
      @ (if ?enabled then [] else [enable_cmd u]) @ [start_cmd u]"
    unfolding restart_plan_def has_properties_iff by auto
  show ?thesis
    unfolding plan using None assms
    by (auto simp: restart_service_def show_properties_logged stop_service_logged
        enable_service_logged start_service_logged Let_def
        simp del: has_properties.simps split: prod.splits option.splits if_splits)
qed

definition vault_unit_host :: "nat transport" where
  "vault_unit_host = mock_transport\<lparr>tr_run := (\<lambda>cmd w.
     ((if cmd_text cmd = show_cmd ''vault'' then props_string enabled_and_running_properties else [],
       [], None), w + 1))\<rparr>"

theorem restart_service_commands_witness:
  "snd (snd (restart_service id (logged vault_unit_host) ''vault'' (0, []))) =
    [''sudo systemctl show vault.service'', ''sudo systemctl stop vault.service'',
     ''sudo systemctl --now enable vault.service'', ''sudo systemctl start vault.service'']"
proof -
  have s: "show_properties vault_unit_host ''vault'' 0 = ((enabled_and_running_properties, None), 1)"
  proof -
    have "printable_props enabled_and_running_properties"
      by (simp add: printable_props_def enabled_and_running_properties_def)
    moreover have "systemctl_string (unit_command ''vault'' SubCommandShow) = (show_cmd ''vault'', None)"
      by (simp add: systemctl_string_unit_command show_cmd_def)
    moreover have "props_string enabled_and_running_properties \<noteq> []"
      by (simp add: props_string_def enabled_and_running_properties_def line_def)
    ultimately show ?thesis
      by (simp add: show_properties_def run_systemctl_def vault_unit_host_def new_command_def
          with_env_vars_def decode_props_string Let_def)
  qed
  obtain err w' log where
    r: "restart_service id (logged vault_unit_host) ''vault'' (0, []) = (err, w', log)"
    by (metis surj_pair)
  have svc: "stop_service vault_unit_host u v = (None, v + 1)"
    "enable_service vault_unit_host u v = (None, v + 1)"
    "start_service vault_unit_host u v = (None, v + 1)" for u v
    by (simp_all add: stop_service_def enable_service_def start_service_def run_systemctl_def
        vault_unit_host_def service_result_def systemctl_string_def unit_command_def
        new_run_systemctl_command_def systemctl_opt_defs)
  have "fst (restart_service id (logged vault_unit_host) ''vault'' (0, [])) = None"
    by (simp add: restart_service_def show_properties_logged s stop_service_logged
        enable_service_logged start_service_logged svc Let_def)
  with restart_service_commands [OF s r] r have "log = restart_plan enabled_and_running_properties ''vault''"
    by simp
  also have "\<dots> = [''sudo systemctl show vault.service'', ''sudo systemctl stop vault.service'',
     ''sudo systemctl --now enable vault.service'', ''sudo systemctl start vault.service'']"
    by (simp add: restart_plan_def enabled_and_running_properties_def show_cmd_def stop_cmd_def
        enable_cmd_def start_cmd_def unit_name_def path_ext_def)
  finally show ?thesis using r by simp
qed

text \<open>
  The text of a unit, read as an ini file, is the unit without its empty
  stanzas: every stanza and field is there, in order and unchanged, when names hold no
  newline, keys no equals sign and values do not end in white space.
\<close>

theorem to_ini_roundtrip:
  assumes "printable_unit u"
  shows "snd (to_ini u) = None \<and> read_ini (fst (to_ini u)) = filter (\<lambda>st. snd st \<noteq> []) u"
  using read_to_ini [OF assms] by (simp add: to_ini_def)

theorem to_ini_roundtrip_witness:
  "read_ini (fst (to_ini [(''Unit'', [(''Description'', ''Vault'')]), (''Empty'', []),
      (''Service'', [(''Type'', ''notify''), (''User'', ''vault'')])]))
    = [(''Unit'', [(''Description'', ''Vault'')]),
       (''Service'', [(''Type'', ''notify''), (''User'', ''vault'')])]"
  by (subst to_ini_roundtrip [THEN conjunct2])
    (simp_all add: printable_unit_def printable_field_def is_space_def)

text \<open>
  ParseServiceInfos reads every row of a list-units table, whatever
  blanks separate its columns: the parsed services are the rows' in order.
\<close>

theorem parse_service_infos_rows:
  assumes "list_all (\<lambda>(i, pads). listable i) rows"
  shows "parse_service_infos (concat (map (\<lambda>(i, pads). line (service_line i pads)) rows))
    = Some (map fst rows)"
proof -
  let ?ls = "map (\<lambda>(i, pads). service_line i pads) rows"
  have "split_on nl (concat (map line ?ls)) = ?ls @ [[]]"
    using assms
    by (induction rows) (auto simp: line_def split_on_append_sep service_line_no_nl)
  moreover have "concat (map (\<lambda>(i, pads). line (service_line i pads)) rows) = concat (map line ?ls)"
    by (simp add: comp_def split_def)
  ultimately show ?thesis
    using parse_service_lines_rows [OF assms] by (simp add: parse_service_infos_def)
qed

definition cron_info :: service_info where
  "cron_info = \<lparr>si_unit = ''cron'', si_load = ''loaded'', si_active = ''active'', si_sub = ''running'',
     si_description = ''Regular background'' \<rparr>"

theorem parse_service_infos_rows_witness:
  "parse_service_infos (line (service_line cron_info (3, 0, 0, 1))) = Some [cron_info]"
  using parse_service_infos_rows [of "[(cron_info, (3, 0, 0, 1))]"]
  by (simp add: listable_def word_def re_space_def cron_info_def)

end
