(* ===== verification/VaultState.thy ===== *)
theory VaultState
  imports VaultApi Systemd
begin

text \<open>
  The state of a Vault node (\<open>internal/remoteflight/vault/state.go\<close>): what GetState reads, in
  which order and under which conditions, the questions one can ask of a state, and
  WaitForState, which reads the state again until every check holds of it.
\<close>

record vault_state =
  st_autopilot_config :: "autopilot_config_response option"
  st_autopilot_state :: "autopilot_state_response option"
  st_config :: "config_state_response option"
  st_replication :: "replication_response option"
  st_health :: "health_response option"
  st_ha_status :: "ha_status_response option"
  st_host_info :: "host_info_response option"
  st_perf_replication :: "replication_response option"
  st_pods :: "list_pods_response option"
  st_raft_config :: "raft_configuration_response option"
  st_seal_status :: "seal_status_response option"
  st_status :: "status_response option"
  st_unit_properties :: "unit_properties option"

definition new_state :: vault_state where
  "new_state = \<lparr>st_autopilot_config = None, st_autopilot_state = None, st_config = None,
     st_replication = None, st_health = None, st_ha_status = None, st_host_info = None,
     st_perf_replication = None, st_pods = None, st_raft_config = None, st_seal_status = None,
     st_status = None, st_unit_properties = None\<rparr>"

text \<open>A check takes the pointer to a state; it can panic on what the state does not have.\<close>

type_synonym check_stater = "vault_state option \<Rightarrow> error go"

subsection \<open>Requests\<close>

record 'w state_request =
  sq_cli :: cli_request
  sq_fc_path :: string
  sq_fc_use_home_dir :: bool
  sq_unit :: string
  sq_pods :: "'w list_pods_request"
  sq_pod_opts :: "('w list_pods_request \<Rightarrow> 'w list_pods_request) list"

type_synonym 'w state_opt = "'w state_request \<Rightarrow> 'w state_request"

definition new_state_request :: "duration \<Rightarrow> 'w state_opt list \<Rightarrow> 'w state_request" where
  "new_state_request ovf opts =
     (let c = apply_opts opts
        \<lparr>sq_cli = \<lparr>cli_addr = [], cli_token = [], cli_bin = []\<rparr>,
         sq_fc_path = default_flight_control_path, sq_fc_use_home_dir = False, sq_unit = ''vault'',
         sq_pods = new_list_pods_request ovf [with_list_pods_retry_opts [with_max_retries 0]],
         sq_pod_opts = []\<rparr>
      in c\<lparr>sq_pods := apply_opts (sq_pod_opts c) (sq_pods c)\<rparr>)"

definition with_state_bin_path :: "string \<Rightarrow> 'w state_opt" where
  "with_state_bin_path p u = u\<lparr>sq_cli := (sq_cli u)\<lparr>cli_bin := p\<rparr>\<rparr>"

definition with_state_addr :: "string \<Rightarrow> 'w state_opt" where
  "with_state_addr a u = u\<lparr>sq_cli := (sq_cli u)\<lparr>cli_addr := a\<rparr>\<rparr>"

definition with_state_token :: "string \<Rightarrow> 'w state_opt" where
  "with_state_token t u = u\<lparr>sq_cli := (sq_cli u)\<lparr>cli_token := t\<rparr>\<rparr>"

definition with_state_unit :: "string \<Rightarrow> 'w state_opt" where
  "with_state_unit n u = u\<lparr>sq_unit := n\<rparr>"

definition with_state_fc_path :: "string \<Rightarrow> 'w state_opt" where
  "with_state_fc_path p u = u\<lparr>sq_fc_path := p\<rparr>"

definition with_state_fc_use_home_dir :: "'w state_opt" where
  "with_state_fc_use_home_dir u = u\<lparr>sq_fc_use_home_dir := True\<rparr>"

definition with_state_pod_opts ::
  "('w list_pods_request \<Rightarrow> 'w list_pods_request) list \<Rightarrow> 'w state_opt" where
  "with_state_pod_opts os u = u\<lparr>sq_pod_opts := os\<rparr>"

subsection \<open>Questions to a state\<close>

definition err_state_unknown :: goerr where
  "err_state_unknown = ErrNew ''state is unknown''"

definition err_no_status :: goerr where
  "err_no_status = ErrNew (''state does not include '' @ quoted ''vault status'' @ '' response'')"

definition state_is_sealed :: "vault_state option \<Rightarrow> bool \<times> error" where
  "state_is_sealed s =
     (case s of
        None \<Rightarrow> (True, Some err_state_unknown)
      | Some st \<Rightarrow>
          if st_status st = None then (True, Some err_no_status)
          else if st_health st = None then
            (False, Some (ErrNew ''state has no /v1/sys/health data''))
          else if st_seal_status st = None then
            (False, Some (ErrNew ''state has no /v1/sys/seal-status data''))
          else
            (case status_is_sealed (st_status st) of
               (_, Some e) \<Rightarrow> (True, Some e)
             | (status_sealed, None) \<Rightarrow>
            (case seal_status_is_sealed (st_seal_status st) of
               (_, Some e) \<Rightarrow> (True, Some e)
             | (seal_status_sealed, None) \<Rightarrow>
            (case health_is_sealed (st_health st) of
               (_, Some e) \<Rightarrow> (True, Some e)
             | (health_sealed, None) \<Rightarrow>
                 if status_sealed \<noteq> health_sealed \<or> status_sealed \<noteq> seal_status_sealed then
                   (True, Some (ErrNew (''vault status sealed: '' @ show_bool status_sealed
                      @ '', /v1/sys/health sealed: '' @ show_bool health_sealed
                      @ '', /v1/sys/seal-status sealed: '' @ show_bool seal_status_sealed
                      @ '' do not agree'')))
                 else if status_sealed then (True, None)
                 else (False, None)))))"

definition state_is_initialized :: "vault_state option \<Rightarrow> bool \<times> error" where
  "state_is_initialized s =
     (case s of
        None \<Rightarrow> (False, Some err_state_unknown)
      | Some st \<Rightarrow>
          (case st_status st of
             None \<Rightarrow> (True, Some err_no_status)
           | Some v \<Rightarrow>
          (case st_health st of
             None \<Rightarrow> (False, Some (ErrNew ''state has no /v1/sys/health data''))
           | Some h \<Rightarrow>
               if vs_initialized v \<noteq> hs_initialized h then
                 (False, Some (ErrNew (''vault status initialized: '' @ show_bool (vs_initialized v)
                    @ '' and /v1/sys/health initialized: '' @ show_bool (hs_initialized h)
                    @ '' do not agree'')))
               else (vs_initialized v, None))))"

definition replicating :: "string \<Rightarrow> bool" where
  "replicating mode \<longleftrightarrow> mode \<noteq> ReplicationModeUnset \<and> mode \<noteq> ReplicationModeUnknown
     \<and> mode \<noteq> ReplicationModeDisabled"

definition state_replication_enabled :: "vault_state option \<Rightarrow> bool \<times> error" where
  "state_replication_enabled s =
     (case s of
        None \<Rightarrow> (False, Some err_state_unknown)
      | Some st \<Rightarrow>
          (case st_health st of
             None \<Rightarrow> (False, Some (ErrNew ''state has no /v1/sys/health data''))
           | Some h \<Rightarrow>
               if replicating (hs_dr_mode h) then (True, None)
               else if replicating (hs_perf_mode h) then (True, None)
               else (False, None)))"

definition state_ha_enabled :: "vault_state option \<Rightarrow> bool \<times> error" where
  "state_ha_enabled s =
     (case s of
        None \<Rightarrow> (False, Some err_state_unknown)
      | Some st \<Rightarrow>
          (case st_status st of
             None \<Rightarrow> (True, Some err_no_status)
           | Some v \<Rightarrow> (vs_ha_enabled v, None)))"

definition state_storage_type :: "vault_state option \<Rightarrow> string \<times> error" where
  "state_storage_type s =
     (case s of
        None \<Rightarrow> ([], Some err_state_unknown)
      | Some st \<Rightarrow>
          (case st_seal_status st of
             None \<Rightarrow> ([], Some (ErrNew ''state has no /v1/sys/seal-status response data''))
           | Some r \<Rightarrow>
          (case ss_data r of
             None \<Rightarrow> ([], Some (ErrNew ''state has no /v1/sys/seal-status data''))
           | Some d \<Rightarrow> (sd_storage_type d, None))))"

definition state_status_code :: "vault_state option \<Rightarrow> vault_code \<times> error" where
  "state_status_code s =
     (case s of
        None \<Rightarrow> (StatusUnknown, Some err_state_unknown)
      | Some st \<Rightarrow>
          (case st_status st of
             None \<Rightarrow> (StatusUnknown, Some err_no_status)
           | Some v \<Rightarrow> (vs_code v, None)))"

subsection \<open>Reading the state\<close>

text \<open>
  A step of GetState: it changes the state and the world and may end the function, with an
  error or without (\<open>Some None\<close>).
\<close>

type_synonym 'w state_step = "vault_state \<Rightarrow> 'w \<Rightarrow> vault_state \<times> error option \<times> 'w"

definition and_then :: "'w state_step \<Rightarrow> 'w state_step \<Rightarrow> 'w state_step" where
  "and_then f g st w =
     (case f st w of
        (st1, Some err, w1) \<Rightarrow> (st1, Some err, w1)
      | (st1, None, w1) \<Rightarrow> g st1 w1)"

text \<open>\<open>state.F, err = Get(...); if err != nil { return state, err }\<close>.\<close>

definition read_field ::
  "('w \<Rightarrow> ('r option \<times> error) \<times> 'w) \<Rightarrow> ('r option \<Rightarrow> vault_state \<Rightarrow> vault_state) \<Rightarrow> 'w state_step" where
  "read_field get upd st w =
     (case get w of ((res, err), w1) \<Rightarrow>
        (upd res st, (case err of None \<Rightarrow> None | Some e \<Rightarrow> Some (Some e)), w1))"

definition read_seal_status :: "'w go_ctx \<Rightarrow> 'w transport \<Rightarrow> string \<Rightarrow> cli_request \<Rightarrow> 'w state_step" where
  "read_seal_status ctx tr path cli = read_field
     (get_seal_status ctx tr (new_seal_status_request
        [with_seal_status_addr (cli_addr cli), with_seal_status_fc_path path]))
     (\<lambda>r st. st\<lparr>st_seal_status := r\<rparr>)"

definition read_health :: "'w go_ctx \<Rightarrow> 'w transport \<Rightarrow> string \<Rightarrow> cli_request \<Rightarrow> 'w state_step" where
  "read_health ctx tr path cli = read_field
     (get_health ctx tr (new_health_request
        [with_health_addr (cli_addr cli), with_health_fc_path path]))
     (\<lambda>r st. st\<lparr>st_health := r\<rparr>)"

definition stop_unless_usable :: "'w state_step" where
  "stop_unless_usable st w =
     (case state_is_initialized (Some st) of
        (_, Some e) \<Rightarrow> (st, Some (Some e), w)
      | (initialized, None) \<Rightarrow>
          if \<not> initialized then (st, Some None, w)
          else
            (case state_is_sealed (Some st) of
               (_, Some e) \<Rightarrow> (st, Some (Some e), w)
             | (sealed, None) \<Rightarrow> if sealed then (st, Some None, w) else (st, None, w)))"

text \<open>\<open>state.Health\<close> is dereferenced where it is known not to be nil.\<close>

definition health_one_of :: "vault_state \<Rightarrow> health_status list \<Rightarrow> bool" where
  "health_one_of st codes = (case st_health st of None \<Rightarrow> False | Some h \<Rightarrow> status_is_one_of h codes)"

definition read_replication :: "'w go_ctx \<Rightarrow> 'w transport \<Rightarrow> cli_request \<Rightarrow> 'w state_step" where
  "read_replication ctx tr cli st w =
     (case state_replication_enabled (Some st) of
        (_, Some e) \<Rightarrow> (st, Some (Some e), w)
      | (enabled, None) \<Rightarrow>
          if enabled \<and> health_one_of st [HealthActive, HealthDRSecondary] then
            read_field (get_replication_status ctx tr (new_replication_request
                [with_replication_bin_path (cli_bin cli), with_replication_addr (cli_addr cli)]))
              (\<lambda>r st. st\<lparr>st_replication := r\<rparr>) st w
          else (st, None, w))"

definition stop_without_token :: "cli_request \<Rightarrow> 'w state_step" where
  "stop_without_token cli st w = (st, if cli_token cli = [] then Some None else None, w)"

definition read_ha_status :: "'w go_ctx \<Rightarrow> 'w transport \<Rightarrow> cli_request \<Rightarrow> 'w state_step" where
  "read_ha_status ctx tr cli st w =
     (case state_ha_enabled (Some st) of
        (_, Some e) \<Rightarrow> (st, Some (Some e), w)
      | (enabled, None) \<Rightarrow>
          if enabled
          then read_field (get_ha_status ctx tr cli) (\<lambda>r st. st\<lparr>st_ha_status := r\<rparr>) st w
          else (st, None, w))"

definition read_raft :: "'w go_ctx \<Rightarrow> 'w transport \<Rightarrow> cli_request \<Rightarrow> 'w state_step" where
  "read_raft ctx tr cli st w =
     (case state_storage_type (Some st) of
        (_, Some e) \<Rightarrow> (st, Some (Some e), w)
      | (storage, None) \<Rightarrow>
          if storage = ''raft'' then
            and_then (read_field (get_raft_configuration ctx tr cli)
                (\<lambda>r st. st\<lparr>st_raft_config := r\<rparr>))
              (and_then (read_field (get_raft_autopilot_configuration ctx tr cli)
                  (\<lambda>r st. st\<lparr>st_autopilot_config := r\<rparr>))
                (read_field (get_raft_autopilot_state ctx tr cli)
                  (\<lambda>r st. st\<lparr>st_autopilot_state := r\<rparr>))) st w
          else (st, None, w))"

text \<open>What GetState reads once the flight control binary is installed at \<open>path\<close>.\<close>

definition read_state :: "'w go_ctx \<Rightarrow> 'w transport \<Rightarrow> string \<Rightarrow> cli_request \<Rightarrow> 'w state_step" where
  "read_state ctx tr path cli =
     and_then (read_seal_status ctx tr path cli)
    (and_then (read_health ctx tr path cli)
    (and_then stop_unless_usable
    (and_then (read_replication ctx tr cli)
    (and_then (stop_without_token cli)
    (and_then (read_field (get_config_state_sanitized ctx tr cli) (\<lambda>r st. st\<lparr>st_config := r\<rparr>))
    (and_then (read_field (get_host_info ctx tr cli) (\<lambda>r st. st\<lparr>st_host_info := r\<rparr>))
    (and_then (read_ha_status ctx tr cli)
       (read_raft ctx tr cli))))))))"

text \<open>What it reads of the process manager.\<close>

definition read_process ::
  "'w go_ctx \<Rightarrow> 'w transport \<Rightarrow> string \<Rightarrow> 'w state_request \<Rightarrow> 'w
    \<Rightarrow> ((vault_state \<times> error) \<times> 'w state_request \<times> 'w) go" where
  "read_process ctx tr pid_manager req w =
     (if pid_manager = ''systemd'' then
        (case show_properties tr (sq_unit req) w of
           ((props, Some e), w1) \<Rightarrow>
             Some ((new_state, Some (ErrWrap ''getting the systemd unit properties: '' e [])), req, w1)
         | ((props, None), w1) \<Rightarrow>
             Some ((new_state\<lparr>st_unit_properties := Some props\<rparr>, None), req, w1))
      else if pid_manager = ''kubernetes'' then
        (case tr_k8s tr of
           None \<Rightarrow> Some ((new_state, Some (ErrNew
             ''getting the kubernetes pods state: type mismatch between transport'')), req, w)
         | Some k \<Rightarrow> do {
             ((pods, err), pods_req, w1) \<leftarrow> list_pods ctx (k8s_pods k)
               ((sq_pods req)\<lparr>lpr_namespace := k8s_namespace k\<rparr>) w;
             Some ((new_state\<lparr>st_pods := Some pods\<rparr>,
               (case err of
                  Some e \<Rightarrow> Some (ErrWrap ''getting the kubernetes pod information: '' e [])
                | None \<Rightarrow> None)), req\<lparr>sq_pods := pods_req\<rparr>, w1)
           })
      else Some ((new_state, None), req, w))"

definition state_fc_request :: "duration \<Rightarrow> 'w state_request \<Rightarrow> 'w target_request \<Rightarrow> 'w install_fc_request" where
  "state_fc_request ovf req target = new_install_fc_request ovf
     (with_install_fc_target_request (Some target)
      # (if sq_fc_use_home_dir req then [with_install_fc_use_home_dir]
         else [with_install_fc_path (sq_fc_path req)]))"

text \<open>From \<open>GetStatus\<close> on.\<close>

definition read_node ::
  "embed_fs \<Rightarrow> 'w go_ctx \<Rightarrow> 'w transport \<Rightarrow> 'w target_request \<Rightarrow> 'w state_request \<Rightarrow> vault_state \<Rightarrow> 'w
    \<Rightarrow> ((vault_state \<times> error) \<times> 'w) go" where
  "read_node fs ctx tr target req st w =
     (case get_status ctx tr (sq_cli req) w of
        ((status, Some e), w1) \<Rightarrow> Some ((st\<lparr>st_status := status\<rparr>, Some e), w1)
      | ((status, None), w1) \<Rightarrow> do {
          let st = st\<lparr>st_status := status\<rparr>;
          ((fc, err), w2) \<leftarrow> install_flight_control fs ctx tr
            (state_fc_request (pow_overflow ctx) req target) w1;
          Some (case err of
              Some e \<Rightarrow> ((st, Some (ErrWrap
                ''getting vault state: failed to install enos-flight-control binary: '' e [])), w2)
            | None \<Rightarrow>
                (case read_state ctx tr (fcr_path fc) (sq_cli req) st w2 of
                   (st1, stop, w3) \<Rightarrow>
                     ((st1, (case stop of None \<Rightarrow> None | Some err \<Rightarrow> err)), w3)))
        })"

definition get_state ::
  "embed_fs \<Rightarrow> 'w go_ctx \<Rightarrow> 'w transport \<Rightarrow> 'w state_request \<Rightarrow> 'w
    \<Rightarrow> ((vault_state option \<times> error) \<times> 'w state_request \<times> 'w) go" where
  "get_state fs ctx tr req w =
     (case ctx_err ctx w of
        Some e \<Rightarrow> Some ((None, Some (ErrWrap ''getting vault state: '' e [])), req, w)
      | None \<Rightarrow> do {
          ((pid_manager, err), target, w1) \<leftarrow> target_process_manager ctx tr
            (new_target_request (pow_overflow ctx)
               [with_target_request_retry_opts [with_max_retries 0]]) w;
          (case err of
             Some e \<Rightarrow> Some ((Some new_state, Some (ErrWrap
               ''getting vault state: unable to determine target process manager: '' e [])), req, w1)
           | None \<Rightarrow> do {
               ((st, err), req1, w2) \<leftarrow> read_process ctx tr pid_manager req w1;
               (case err of
                  Some e \<Rightarrow> Some ((Some st, Some e), req1, w2)
                | None \<Rightarrow> do {
                    ((st1, err), w3) \<leftarrow> read_node fs ctx tr target req1 st w2;
                    Some ((Some st1, err), req1, w3)
                  })
             })
        })"

subsection \<open>Waiting for a state\<close>

fun run_checks :: "check_stater list \<Rightarrow> vault_state \<Rightarrow> error go" where
  "run_checks [] st = Some None"
| "run_checks (c # cs) st = do {
     err \<leftarrow> c (Some st);
     (case err of Some e \<Rightarrow> Some (Some e) | None \<Rightarrow> run_checks cs st)
   }"

text \<open>
  The closure \<open>checkState\<close>; its state is the request. Its value is nil only when the context
  was done at the outset; a nil state is a pointer in the interface.
\<close>

definition check_state_fn ::
  "embed_fs \<Rightarrow> 'w go_ctx \<Rightarrow> 'w transport \<Rightarrow> check_stater list \<Rightarrow> 'w \<times> 'w state_request
    \<Rightarrow> ((vault_state option option \<times> error) \<times> 'w \<times> 'w state_request) go" where
  "check_state_fn fs ctx tr checks s =
     (case s of (w, req) \<Rightarrow>
        (case ctx_err ctx w of
           Some e \<Rightarrow> Some ((None, Some e), w, req)
         | None \<Rightarrow> do {
             ((state, err), req1, w1) \<leftarrow> get_state fs ctx tr req w;
             (case err of
                Some e \<Rightarrow> Some ((Some state, Some e), w1, req1)
              | None \<Rightarrow>
                  (case state of
                     None \<Rightarrow> Some ((None, join_errs [None, Some (ErrNew ''no state data found'')]), w1, req1)
                   | Some st \<Rightarrow> do {
                       err \<leftarrow> run_checks checks st;
                       Some ((Some (Some st), err), w1, req1)
                     }))
           }))"

definition wait_for_state ::
  "embed_fs \<Rightarrow> 'w go_ctx \<Rightarrow> 'w transport \<Rightarrow> 'w state_request \<Rightarrow> check_stater list \<Rightarrow> 'w
    \<Rightarrow> ((vault_state option \<times> error) \<times> 'w state_request \<times> 'w) go" where
  "wait_for_state fs ctx tr req checks w = do {
     ((state, err), req1, w1) \<leftarrow>
       (case new_retrier [with_interval_func (interval_duration (5 * second)),
               with_retrier_func (check_state_fn fs ctx tr checks)] of
          (_, Some e) \<Rightarrow> Some ((None, Some e), req, w)
        | (r, None) \<Rightarrow> do {
            (out, _, w1, req1) \<leftarrow> retry retrier_ops (lift_ctx ctx) r (w, req);
            Some (out, req1, w1)
          });
     let err = (case err of
            Some e \<Rightarrow> Some (ErrWrap ''waiting for vault to enter desired state: '' e [])
          | None \<Rightarrow> None);
     Some (((case state of None \<Rightarrow> None | Some st \<Rightarrow> st), err), req1, w1)
   }"

subsection \<open>Printing\<close>

text \<open>\<open>printStateField\<close>; a typed nil is not the nil interface, its \<open>String\<close> is empty.\<close>

definition state_field :: "string \<Rightarrow> string \<Rightarrow> string" where
  "state_field fs fn =
     (if fs = [] then [] else line (fn @ '': '') @ line (indent ''  '' fs))"

definition pods_string :: "(pod_list \<Rightarrow> string) \<Rightarrow> list_pods_response option \<Rightarrow> string" where
  "pods_string pods_text r =
     (case r of
        None \<Rightarrow> []
      | Some l \<Rightarrow>
          (case lp_pods l of None \<Rightarrow> [] | Some ps \<Rightarrow> if ps = [] then [] else pods_text ps))"

text \<open>
  \<open>raw\<close> gives the text of a raw JSON message and \<open>pods_text\<close> that of a list of pods; \<open>visit\<close>
  orders the properties as they are printed.
\<close>

definition state_string ::
  "(json option \<Rightarrow> string) \<Rightarrow> (pod_list \<Rightarrow> string) \<Rightarrow> (unit_properties \<Rightarrow> unit_properties)
    \<Rightarrow> vault_state \<Rightarrow> string go" where
  "state_string raw pods_text visit s = do {
     config \<leftarrow> config_state_string (st_config s);
     Some (state_field (autopilot_config_string (st_autopilot_config s)) ''Autopilot Config''
       @ state_field (autopilot_state_string raw (st_autopilot_state s)) ''Autopilot State''
       @ state_field config ''Configuration''
       @ state_field (health_string (st_health s)) ''Health''
       @ state_field (ha_status_string (st_ha_status s)) ''HA Status''
       @ state_field (host_info_string (st_host_info s)) ''Host Info''
       @ state_field (replication_string (st_replication s)) ''Replication Status''
       @ state_field (seal_status_string (st_seal_status s)) ''Seal Status''
       @ state_field (status_string (st_status s)) ''Status''
       @ state_field (pods_string pods_text (st_pods s)) ''Kubernetes Pods''
       @ (case st_unit_properties s of
            None \<Rightarrow> []
          | Some ps \<Rightarrow>
              (let props = (case find_properties ps enabled_and_running_properties of
                      (_, Some e) \<Rightarrow> ps
                    | (found, None) \<Rightarrow> found)
               in state_field (props_string (visit props)) ''Systemd Unit Properties'')))
   }"

subsection \<open>What the questions mean\<close>

lemma status_is_sealed_ok_iff:
  "status_is_sealed (Some r) = (b, None) \<longleftrightarrow>
     vs_sealed r = b \<and> vs_code r = (if b then StatusSealed else StatusInitializedUnsealed)"
  by (auto simp: status_is_sealed_def vault_code_defs)

lemma health_is_sealed_ok_iff:
  "health_is_sealed (Some h) = (b, None) \<longleftrightarrow>
     hs_sealed h = b \<and> (hs_status h \<in> {HealthNotInitialized, HealthSealed}) = b"
  by (auto simp: health_is_sealed_def status_is_one_of_def health_response_status_def Let_def)

lemma state_is_sealed_ok_iff:
  "state_is_sealed (Some st) = (b, None) \<longleftrightarrow>
     (\<exists>v h r d. st_status st = Some v \<and> st_health st = Some h \<and> st_seal_status st = Some r
        \<and> ss_data r = Some d \<and> status_is_sealed (Some v) = (b, None)
        \<and> health_is_sealed (Some h) = (b, None) \<and> sd_sealed d = b)"
  by (cases b)
    (auto simp: state_is_sealed_def seal_status_is_sealed_def split: option.splits prod.splits if_splits)

lemma state_is_initialized_ok_iff:
  "state_is_initialized (Some st) = (b, None) \<longleftrightarrow>
     (\<exists>v h. st_status st = Some v \<and> st_health st = Some h \<and> vs_initialized v = b \<and> hs_initialized h = b)"
  by (auto simp: state_is_initialized_def split: option.splits)

text \<open>Initialized and unsealed, as all endpoints agree.\<close>

definition usable :: "vault_state \<Rightarrow> bool" where
  "usable st \<longleftrightarrow> state_is_initialized (Some st) = (True, None) \<and> state_is_sealed (Some st) = (False, None)"

definition core_read :: "vault_state \<Rightarrow> bool" where
  "core_read st \<longleftrightarrow> st_status st \<noteq> None \<and> st_seal_status st \<noteq> None \<and> st_health st \<noteq> None"

text \<open>What replication, HA and raft readings depend on.\<close>

definition replication_wanted :: "vault_state \<Rightarrow> bool" where
  "replication_wanted st \<longleftrightarrow> fst (state_replication_enabled (Some st))
     \<and> health_one_of st [HealthActive, HealthDRSecondary]"

definition ha_wanted :: "vault_state \<Rightarrow> bool" where
  "ha_wanted st \<longleftrightarrow> fst (state_ha_enabled (Some st))"

definition raft_wanted :: "vault_state \<Rightarrow> bool" where
  "raft_wanted st \<longleftrightarrow> fst (state_storage_type (Some st)) = ''raft''"

definition unprivileged :: "vault_state \<Rightarrow> bool" where
  "unprivileged st \<longleftrightarrow> st_config st = None \<and> st_host_info st = None \<and> st_ha_status st = None
     \<and> st_raft_config st = None \<and> st_autopilot_config st = None \<and> st_autopilot_state st = None"

text \<open>These depend on status, seal status and health only.\<close>

lemma state_questions_frame:
  assumes "st_status s = st_status t" "st_seal_status s = st_seal_status t" "st_health s = st_health t"
  shows "usable s = usable t" "core_read s = core_read t"
    "replication_wanted s = replication_wanted t" "ha_wanted s = ha_wanted t"
    "raft_wanted s = raft_wanted t"
proof -
  show "usable s = usable t"
    unfolding usable_def state_is_sealed_ok_iff state_is_initialized_ok_iff assms ..
  show "core_read s = core_read t" unfolding core_read_def assms ..
  show "replication_wanted s = replication_wanted t"
    by (cases "st_health t") (simp_all add: replication_wanted_def state_replication_enabled_def
        health_one_of_def assms)
  show "ha_wanted s = ha_wanted t"
    by (cases "st_status t") (simp_all add: ha_wanted_def state_ha_enabled_def assms)
  show "raft_wanted s = raft_wanted t"
    by (cases "st_seal_status t") (simp_all add: raft_wanted_def state_storage_type_def assms)
qed

text \<open>The same for the updates of the other readings.\<close>

lemmas state_frame [simp] =
  state_questions_frame [where s = "st\<lparr>st_replication := r\<rparr>" and t = st for st r, simplified]
  state_questions_frame [where s = "st\<lparr>st_config := r\<rparr>" and t = st for st r, simplified]
  state_questions_frame [where s = "st\<lparr>st_host_info := r\<rparr>" and t = st for st r, simplified]
  state_questions_frame [where s = "st\<lparr>st_ha_status := r\<rparr>" and t = st for st r, simplified]
  state_questions_frame [where s = "st\<lparr>st_raft_config := r\<rparr>" and t = st for st r, simplified]
  state_questions_frame [where s = "st\<lparr>st_autopilot_config := r\<rparr>" and t = st for st r, simplified]
  state_questions_frame [where s = "st\<lparr>st_autopilot_state := r\<rparr>" and t = st for st r, simplified]

subsection \<open>Steps\<close>

text \<open>
  \<open>step_spec P f Q R\<close>: from states with \<open>P\<close> the step goes on with \<open>Q\<close>, or ends the function
  without error with \<open>R\<close>.
\<close>

definition step_spec ::
  "(vault_state \<Rightarrow> bool) \<Rightarrow> 'w state_step \<Rightarrow> (vault_state \<Rightarrow> bool) \<Rightarrow> (vault_state \<Rightarrow> bool) \<Rightarrow> bool" where
  "step_spec P f Q R \<longleftrightarrow> (\<forall>st w st1 stop w1. P st \<longrightarrow> f st w = (st1, stop, w1) \<longrightarrow>
     (stop = None \<longrightarrow> Q st1) \<and> (stop = Some None \<longrightarrow> R st1))"

lemma step_spec_and_then:
  assumes "step_spec P f Q R" "step_spec Q g S R"
  shows "step_spec P (and_then f g) S R"
  unfolding step_spec_def
proof (intro allI impI)
  fix st w st2 stop w2
  assume P: "P st" and run: "and_then f g st w = (st2, stop, w2)"
  obtain st1 stop1 w1 where f: "f st w = (st1, stop1, w1)" by (metis surj_pair)
  have 1: "(stop1 = None \<longrightarrow> Q st1) \<and> (stop1 = Some None \<longrightarrow> R st1)"
    using assms(1) P f unfolding step_spec_def by blast
  show "(stop = None \<longrightarrow> S st2) \<and> (stop = Some None \<longrightarrow> R st2)"
  proof (cases stop1)
    case None
    then have "Q st1" "g st1 w1 = (st2, stop, w2)" using 1 run f by (simp_all add: and_then_def)
    then show ?thesis using assms(2) unfolding step_spec_def by blast
  next
    case (Some e)
    then show ?thesis using 1 run f by (auto simp: and_then_def)
  qed
qed

lemma step_spec_read_field:
  assumes "\<And>w res w1. get w = ((res, None), w1) \<Longrightarrow> res \<noteq> None"
    and "\<And>st r. P st \<Longrightarrow> Q (upd (Some r) st)"
  shows "step_spec P (read_field get upd) Q R"
  using assms by (fastforce simp: step_spec_def read_field_def split: prod.splits option.splits)

lemma state_replication_enabled_ok:
  "core_read st \<Longrightarrow> snd (state_replication_enabled (Some st)) = None"
  by (auto simp: core_read_def state_replication_enabled_def)

lemma state_ha_enabled_ok: "core_read st \<Longrightarrow> snd (state_ha_enabled (Some st)) = None"
  by (auto simp: core_read_def state_ha_enabled_def)

definition bare :: "vault_state \<Rightarrow> bool" where
  "bare st \<longleftrightarrow> st_status st \<noteq> None \<and> st_replication st = None \<and> unprivileged st"

definition replication_read :: "vault_state \<Rightarrow> bool" where
  "replication_read st \<longleftrightarrow> usable st \<and> core_read st \<and> (st_replication st \<noteq> None \<longleftrightarrow> replication_wanted st)"

text \<open>What a state holds when GetState has read it without error.\<close>

definition privileged_read :: "vault_state \<Rightarrow> bool" where
  "privileged_read st \<longleftrightarrow> st_config st \<noteq> None \<and> st_host_info st \<noteq> None
     \<and> (st_ha_status st \<noteq> None \<longleftrightarrow> ha_wanted st)
     \<and> (st_raft_config st \<noteq> None \<longleftrightarrow> raft_wanted st)
     \<and> (st_autopilot_config st \<noteq> None \<longleftrightarrow> raft_wanted st)
     \<and> (st_autopilot_state st \<noteq> None \<longleftrightarrow> raft_wanted st)"

definition well_read :: "cli_request \<Rightarrow> vault_state \<Rightarrow> bool" where
  "well_read cli st \<longleftrightarrow> core_read st \<and>
     (if usable st
      then (st_replication st \<noteq> None \<longleftrightarrow> replication_wanted st)
        \<and> (if cli_token cli = [] then unprivileged st else privileged_read st)
      else st_replication st = None \<and> unprivileged st)"

lemma stop_unless_usable_spec:
  "step_spec (\<lambda>st. bare st \<and> core_read st) stop_unless_usable
     (\<lambda>st. bare st \<and> core_read st \<and> usable st) (well_read cli)"
  by (auto simp: step_spec_def stop_unless_usable_def usable_def well_read_def bare_def
      split: prod.splits option.splits if_splits)

lemma read_replication_spec:
  "step_spec (\<lambda>st. bare st \<and> core_read st \<and> usable st) (read_replication ctx tr cli)
     (\<lambda>st. replication_read st \<and> unprivileged st) R"
proof -
  let ?get = "get_replication_status ctx tr (new_replication_request
    [with_replication_bin_path (cli_bin cli), with_replication_addr (cli_addr cli)])"
  have f: "step_spec (\<lambda>st. bare st \<and> core_read st \<and> usable st \<and> replication_wanted st)
     (read_field ?get (\<lambda>r st. st\<lparr>st_replication := r\<rparr>)) (\<lambda>st. replication_read st \<and> unprivileged st) R"
    by (rule step_spec_read_field)
      (auto dest: replication_reader.nil_iff simp: replication_read_def bare_def unprivileged_def)
  show ?thesis
    unfolding step_spec_def
  proof (intro allI impI)
    fix st w st1 stop w1
    assume P: "bare st \<and> core_read st \<and> usable st" and run: "read_replication ctx tr cli st w = (st1, stop, w1)"
    obtain b where b: "state_replication_enabled (Some st) = (b, None)"
      using state_replication_enabled_ok [of st] P by (metis prod.collapse)
    show "(stop = None \<longrightarrow> replication_read st1 \<and> unprivileged st1) \<and> (stop = Some None \<longrightarrow> R st1)"
    proof (cases "replication_wanted st")
      case True
      then have "read_field ?get (\<lambda>r st. st\<lparr>st_replication := r\<rparr>) st w = (st1, stop, w1)"
        using run b by (simp add: read_replication_def replication_wanted_def)
      then show ?thesis using f P True unfolding step_spec_def by blast
    next
      case False
      then have "st1 = st \<and> stop = None"
        using run b by (auto simp: read_replication_def replication_wanted_def split: if_splits)
      then show ?thesis using P False by (simp add: replication_read_def bare_def)
    qed
  qed
qed

lemma stop_without_token_spec:
  "step_spec (\<lambda>st. replication_read st \<and> unprivileged st) (stop_without_token cli)
     (\<lambda>st. replication_read st \<and> unprivileged st \<and> cli_token cli \<noteq> []) (well_read cli)"
  by (auto simp: step_spec_def stop_without_token_def well_read_def replication_read_def split: if_splits)

definition raft_unread :: "vault_state \<Rightarrow> bool" where
  "raft_unread st \<longleftrightarrow> st_raft_config st = None \<and> st_autopilot_config st = None
     \<and> st_autopilot_state st = None"

definition config_host_read :: "cli_request \<Rightarrow> vault_state \<Rightarrow> bool" where
  "config_host_read cli st \<longleftrightarrow> replication_read st \<and> cli_token cli \<noteq> [] \<and> st_config st \<noteq> None
     \<and> st_host_info st \<noteq> None \<and> raft_unread st"

lemma read_config_spec:
  "step_spec (\<lambda>st. replication_read st \<and> unprivileged st \<and> cli_token cli \<noteq> [])
     (read_field (get_config_state_sanitized ctx tr cli) (\<lambda>r st. st\<lparr>st_config := r\<rparr>))
     (\<lambda>st. replication_read st \<and> cli_token cli \<noteq> [] \<and> st_config st \<noteq> None \<and> st_host_info st = None
       \<and> st_ha_status st = None \<and> raft_unread st) R"
  by (rule step_spec_read_field)
    (auto dest: config_state_reader.nil_iff simp: replication_read_def unprivileged_def raft_unread_def)

lemma read_host_info_spec:
  "step_spec (\<lambda>st. replication_read st \<and> cli_token cli \<noteq> [] \<and> st_config st \<noteq> None
       \<and> st_host_info st = None \<and> st_ha_status st = None \<and> raft_unread st)
     (read_field (get_host_info ctx tr cli) (\<lambda>r st. st\<lparr>st_host_info := r\<rparr>))
     (\<lambda>st. config_host_read cli st \<and> st_ha_status st = None) R"
  by (rule step_spec_read_field)
    (auto dest: host_info_reader.nil_iff simp: replication_read_def config_host_read_def raft_unread_def)

lemma read_ha_status_spec:
  "step_spec (\<lambda>st. config_host_read cli st \<and> st_ha_status st = None) (read_ha_status ctx tr cli)
     (\<lambda>st. config_host_read cli st \<and> (st_ha_status st \<noteq> None \<longleftrightarrow> ha_wanted st)) R"
proof -
  have f: "step_spec (\<lambda>st. config_host_read cli st \<and> ha_wanted st)
     (read_field (get_ha_status ctx tr cli) (\<lambda>r st. st\<lparr>st_ha_status := r\<rparr>))
     (\<lambda>st. config_host_read cli st \<and> (st_ha_status st \<noteq> None \<longleftrightarrow> ha_wanted st)) R"
    by (rule step_spec_read_field)
      (auto dest: ha_status_reader.nil_iff simp: replication_read_def config_host_read_def raft_unread_def)
  show ?thesis
    unfolding step_spec_def
  proof (intro allI impI)
    fix st w st1 stop w1
    assume P: "config_host_read cli st \<and> st_ha_status st = None"
      and run: "read_ha_status ctx tr cli st w = (st1, stop, w1)"
    obtain b where b: "state_ha_enabled (Some st) = (b, None)"
      using state_ha_enabled_ok [of st] P
      by (metis config_host_read_def prod.collapse replication_read_def)
    show "(stop = None \<longrightarrow> config_host_read cli st1 \<and> (st_ha_status st1 \<noteq> None \<longleftrightarrow> ha_wanted st1))
      \<and> (stop = Some None \<longrightarrow> R st1)"
    proof (cases "ha_wanted st")
      case True
      then have "read_field (get_ha_status ctx tr cli) (\<lambda>r st. st\<lparr>st_ha_status := r\<rparr>) st w = (st1, stop, w1)"
        using run b by (simp add: read_ha_status_def ha_wanted_def)
      then show ?thesis using f P True unfolding step_spec_def by blast
    next
      case False
      then have "st1 = st \<and> stop = None"
        using run b by (auto simp: read_ha_status_def ha_wanted_def split: if_splits)
      then show ?thesis using P False by simp
    qed
  qed
qed

lemma read_raft_spec:
  "step_spec (\<lambda>st. config_host_read cli st \<and> (st_ha_status st \<noteq> None \<longleftrightarrow> ha_wanted st))
     (read_raft ctx tr cli) (well_read cli) (well_read cli)"
proof -
  let ?P = "\<lambda>st. config_host_read cli st \<and> (st_ha_status st \<noteq> None \<longleftrightarrow> ha_wanted st)"
  let ?P1 = "\<lambda>st. replication_read st \<and> cli_token cli \<noteq> [] \<and> st_config st \<noteq> None
    \<and> st_host_info st \<noteq> None \<and> (st_ha_status st \<noteq> None \<longleftrightarrow> ha_wanted st) \<and> raft_wanted st
    \<and> st_raft_config st \<noteq> None"
  let ?P2 = "\<lambda>st. ?P1 st \<and> st_autopilot_config st \<noteq> None"
  let ?config = "read_field (get_raft_configuration ctx tr cli) (\<lambda>r st. st\<lparr>st_raft_config := r\<rparr>)"
  let ?auto = "read_field (get_raft_autopilot_configuration ctx tr cli) (\<lambda>r st. st\<lparr>st_autopilot_config := r\<rparr>)"
  let ?state = "read_field (get_raft_autopilot_state ctx tr cli) (\<lambda>r st. st\<lparr>st_autopilot_state := r\<rparr>)"
  have 1: "step_spec (\<lambda>st. ?P st \<and> raft_wanted st) ?config ?P1 (well_read cli)"
    by (rule step_spec_read_field)
      (auto dest: raft_configuration_reader.nil_iff simp: replication_read_def config_host_read_def)
  have 2: "step_spec ?P1 ?auto ?P2 (well_read cli)"
    by (rule step_spec_read_field)
      (auto dest: autopilot_config_reader.nil_iff simp: replication_read_def)
  have 3: "step_spec ?P2 ?state (well_read cli) (well_read cli)"
    by (rule step_spec_read_field)
      (auto dest: autopilot_state_reader.nil_iff simp: replication_read_def well_read_def privileged_read_def)
  note chain = step_spec_and_then [OF 1 step_spec_and_then [OF 2 3]]
  show ?thesis
    unfolding step_spec_def
  proof (intro allI impI)
    fix st w st1 stop w1
    assume P: "?P st" and run: "read_raft ctx tr cli st w = (st1, stop, w1)"
    obtain t e where t: "state_storage_type (Some st) = (t, e)" by (metis surj_pair)
    show "(stop = None \<longrightarrow> well_read cli st1) \<and> (stop = Some None \<longrightarrow> well_read cli st1)"
    proof (cases e)
      case (Some x)
      then show ?thesis using run t by (auto simp: read_raft_def)
    next
      case None
      show ?thesis
      proof (cases "raft_wanted st")
        case True
        then have "and_then ?config (and_then ?auto ?state) st w = (st1, stop, w1)"
          using run t None by (simp add: read_raft_def raft_wanted_def)
        then show ?thesis using chain P True unfolding step_spec_def by blast
      next
        case False
        then have "st1 = st \<and> stop = None"
          using run t None by (auto simp: read_raft_def raft_wanted_def split: if_splits)
        then show ?thesis using P False
          by (simp add: well_read_def config_host_read_def replication_read_def raft_unread_def
              privileged_read_def)
      qed
    qed
  qed
qed

lemma read_state_spec:
  "step_spec bare (read_state ctx tr path cli) (well_read cli) (well_read cli)"
proof -
  have s: "step_spec bare (read_seal_status ctx tr path cli)
    (\<lambda>st. bare st \<and> st_seal_status st \<noteq> None) (well_read cli)"
    unfolding read_seal_status_def
    by (rule step_spec_read_field)
      (auto dest: seal_status_reader.nil_iff simp: bare_def unprivileged_def)
  have h: "step_spec (\<lambda>st. bare st \<and> st_seal_status st \<noteq> None) (read_health ctx tr path cli)
    (\<lambda>st. bare st \<and> core_read st) (well_read cli)"
    unfolding read_health_def
    by (rule step_spec_read_field)
      (auto dest: health_reader.nil_iff simp: bare_def unprivileged_def core_read_def)
  show ?thesis
    unfolding read_state_def
    by (intro step_spec_and_then [OF s] step_spec_and_then [OF h]
        step_spec_and_then [OF stop_unless_usable_spec] step_spec_and_then [OF read_replication_spec]
        step_spec_and_then [OF stop_without_token_spec] step_spec_and_then [OF read_config_spec]
        step_spec_and_then [OF read_host_info_spec] step_spec_and_then [OF read_ha_status_spec]
        read_raft_spec)
qed

text \<open>What the process manager adds leaves the rest of the state unread.\<close>

lemma new_state_bare: "st_replication new_state = None \<and> unprivileged new_state"
  by (simp add: new_state_def unprivileged_def)

lemma unprivileged_frame [simp]:
  "unprivileged (st\<lparr>st_unit_properties := x\<rparr>) = unprivileged st"
  "unprivileged (st\<lparr>st_pods := y\<rparr>) = unprivileged st"
  "unprivileged (st\<lparr>st_status := z\<rparr>) = unprivileged st"
  by (simp_all add: unprivileged_def)

lemma read_process_frame:
  assumes "read_process ctx tr pm req w = Some ((st, err), req1, w1)"
  shows "st_replication st = None \<and> unprivileged st \<and> sq_cli req1 = sq_cli req"
proof (cases "pm = ''systemd''")
  case True
  obtain props e w2 where "show_properties tr (sq_unit req) w = ((props, e), w2)"
    by (metis surj_pair)
  with True assms new_state_bare show ?thesis
    by (cases e) (auto simp: read_process_def)
next
  case nosys: False
  show ?thesis
  proof (cases "pm = ''kubernetes''")
    case False
    with nosys assms new_state_bare show ?thesis by (simp add: read_process_def)
  next
    case True
    show ?thesis
    proof (cases "tr_k8s tr")
      case None
      with nosys True assms new_state_bare show ?thesis by (simp add: read_process_def)
    next
      case (Some k)
      with nosys True assms new_state_bare show ?thesis
        by (auto simp: read_process_def bind_eq_Some_iff)
    qed
  qed
qed

lemmas read_process_bare = read_process_frame [THEN conjunct1] read_process_frame [THEN conjunct2, THEN conjunct1]
lemmas read_process_cli = read_process_frame [THEN conjunct2, THEN conjunct2]

lemma get_state_cli:
  "get_state fs ctx tr req w = Some (out, req1, w1) \<Longrightarrow> sq_cli req1 = sq_cli req"
  by (auto simp: get_state_def bind_eq_Some_iff dest: read_process_cli split: option.splits)

lemma get_state_live: "get_state fs ctx tr req w = Some ((st, None), req1, w1) \<Longrightarrow> ctx_err ctx w = None"
  by (auto simp: get_state_def split: option.splits)

lemma read_node_ok:
  assumes "read_node fs ctx tr target req st w = Some ((st1, None), w1)"
    and "st_replication st = None" "unprivileged st"
  shows "well_read (sq_cli req) st1"
proof -
  obtain status w2 where s: "get_status ctx tr (sq_cli req) w = ((status, None), w2)"
    using assms(1) by (auto simp: read_node_def split: prod.splits option.splits)
  obtain path w3 stop where r: "read_state ctx tr path (sq_cli req)
      (st\<lparr>st_status := status\<rparr>) w3 = (st1, stop, w1)" and stop: "stop = None \<or> stop = Some None"
  proof -
    from assms(1) s obtain e w3 and fc :: install_fc_response where "(case e of
        Some e \<Rightarrow> ((st\<lparr>st_status := status\<rparr>, Some (ErrWrap
          ''getting vault state: failed to install enos-flight-control binary: '' e [])), w3)
      | None \<Rightarrow>
          (case read_state ctx tr (fcr_path fc) (sq_cli req) (st\<lparr>st_status := status\<rparr>) w3 of
             (st1, stop, w3) \<Rightarrow> ((st1, (case stop of None \<Rightarrow> None | Some err \<Rightarrow> err)), w3)))
      = ((st1, None), w1)"
      by (auto simp: read_node_def bind_eq_Some_iff Let_def)
    then show ?thesis
      by (cases "read_state ctx tr (fcr_path fc) (sq_cli req) (st\<lparr>st_status := status\<rparr>) w3")
        (auto intro: that split: option.splits)
  qed
  have "status \<noteq> None" using status_reader.nil_iff [OF s] by simp
  then have "bare (st\<lparr>st_status := status\<rparr>)"
    using assms by (simp add: bare_def)
  then show ?thesis
    using read_state_spec [of ctx tr path "sq_cli req"] r stop
    unfolding step_spec_def by blast
qed

lemma get_state_ok:
  assumes "get_state fs ctx tr req w = Some ((sp, None), req1, w1)"
  shows "\<exists>st. sp = Some st \<and> well_read (sq_cli req) st"
proof -
  obtain pm w2 st w3 target st1 where p: "read_process ctx tr pm req w2 = Some ((st, None), req1, w3)"
    and n: "read_node fs ctx tr target req1 st w3 = Some ((st1, None), w1)" and "sp = Some st1"
    using assms by (auto simp: get_state_def bind_eq_Some_iff split: option.splits)
  then show ?thesis
    using read_node_ok [OF n] read_process_bare [OF p] read_process_cli [OF p] by simp
qed

subsection \<open>Waiting and returning\<close>

interpretation vault_wait: checked_source ctx "get_state fs ctx tr"
    "\<lambda>st. run_checks checks st = Some None" "check_state_fn fs ctx tr checks"
  for fs ctx tr checks
proof (unfold_locales, goal_cases)
  case (1 w req v w1 req1)
  then show ?case
    by (auto simp: check_state_fn_def bind_eq_Some_iff split: option.splits)
qed

lemma run_checks_ok_iff: "run_checks cs st = Some None \<longleftrightarrow> (\<forall>c \<in> set cs. c (Some st) = Some None)"
  by (induction cs) (auto simp: bind_eq_Some_iff split: option.splits)

lemma single_attempt_target_capped:
  "retrier_capped (tg_retrier (new_target_request ovf
     [with_target_request_retry_opts [with_max_retries 0]]))"
  by (simp add: new_target_request_def with_target_request_retry_opts_def retrier_opt_defs
      retrier_capped_def interval_exponential_def Let_def)

lemma read_process_returns:
  assumes "retrier_capped (lpr_retrier (sq_pods req))"
  shows "\<exists>out req1 w1. read_process ctx tr pm req w = Some (out, req1, w1)
    \<and> sq_fc_use_home_dir req1 = sq_fc_use_home_dir req"
proof (cases "pm = ''systemd''")
  case True
  obtain props e w2 where "show_properties tr (sq_unit req) w = ((props, e), w2)" by (metis surj_pair)
  with True show ?thesis by (cases e) (auto simp: read_process_def)
next
  case nosys: False
  show ?thesis
  proof (cases "pm = ''kubernetes''")
    case False
    with nosys show ?thesis by (simp add: read_process_def)
  next
    case True
    show ?thesis
    proof (cases "tr_k8s tr")
      case None
      with nosys True show ?thesis by (simp add: read_process_def)
    next
      case (Some k)
      have "retrier_capped (lpr_retrier ((sq_pods req)\<lparr>lpr_namespace := k8s_namespace k\<rparr>))"
        using assms by simp
      from list_pods_returns [OF this, of ctx "k8s_pods k" w] obtain pods err preq w1 where
        "list_pods ctx (k8s_pods k) ((sq_pods req)\<lparr>lpr_namespace := k8s_namespace k\<rparr>) w
          = Some ((pods, err), preq, w1)" by (metis surj_pair)
      with Some nosys True show ?thesis by (simp add: read_process_def)
    qed
  qed
qed

lemma read_node_returns:
  assumes "retrier_capped (tg_retrier target)" "\<not> sq_fc_use_home_dir req"
  shows "returns (read_node fs ctx tr target req st w)"
proof -
  have "fc_target (state_fc_request ovf req target) = Some target"
    "\<not> fc_use_home_dir (state_fc_request ovf req target)" for ovf
    using assms(2) by (simp_all add: state_fc_request_def new_install_fc_request_def
        with_install_fc_target_request_def with_install_fc_path_def)
  from install_flight_control_returns [OF this(1) assms(1) this(2)]
  have i: "returns (install_flight_control fs ctx tr (state_fc_request (pow_overflow ctx) req target) v)"
    for v .
  obtain status e w1 where s: "get_status ctx tr (sq_cli req) w = ((status, e), w1)"
    by (metis surj_pair)
  show ?thesis
  proof (cases e)
    case (Some x)
    then show ?thesis using s by (simp add: read_node_def)
  next
    case None
    obtain fc err w2 where "install_flight_control fs ctx tr
        (state_fc_request (pow_overflow ctx) req target) w1 = Some ((fc, err), w2)"
      using i [of w1] unfolding returns_iff by (metis surj_pair)
    with None s show ?thesis by (simp add: read_node_def Let_def)
  qed
qed

text \<open>
  Without the home directory the response has no path, and then there is no seal status.
\<close>

lemma read_state_no_path:
  "read_state ctx tr [] cli st w = (st1, stop, w1) \<Longrightarrow> \<exists>e. stop = Some (Some e)"
proof -
  assume run: "read_state ctx tr [] cli st w = (st1, stop, w1)"
  let ?req = "new_seal_status_request [with_seal_status_addr (cli_addr cli), with_seal_status_fc_path []]"
  have "ssr_fc_path ?req = []"
    by (simp add: new_seal_status_request_def with_seal_status_fc_path_def)
  then have "needs [need_fc (ssr_fc_path ?req), need_addr (ssr_addr ?req)] (ctx_err ctx w) \<noteq> None"
    by (simp add: needs_None_iff need_fc_def)
  then obtain e where "needs [need_fc (ssr_fc_path ?req), need_addr (ssr_addr ?req)] (ctx_err ctx w) = Some e"
    by blast
  moreover obtain f where "final_after ''get vault seal status: vault read sys/seal-status'' e = Some f"
    using final_after_not_None by blast
  ultimately have "get_seal_status ctx tr ?req w = ((None, Some f), w)"
    by (simp add: get_seal_status_def read_with_def)
  then have "read_seal_status ctx tr [] cli st w = (st\<lparr>st_seal_status := None\<rparr>, Some (Some f), w)"
    by (simp add: read_seal_status_def read_field_def)
  then show ?thesis using run by (auto simp: read_state_def and_then_def)
qed

lemma read_node_no_home:
  assumes "read_node fs ctx tr target req st w = Some ((st1, err), w1)" "\<not> sq_fc_use_home_dir req"
  shows "err \<noteq> None"
proof -
  obtain status e w2 where s: "get_status ctx tr (sq_cli req) w = ((status, e), w2)" by (metis surj_pair)
  have nohome: "\<not> fc_use_home_dir (state_fc_request (pow_overflow ctx) req target)"
    using assms(2) by (simp add: state_fc_request_def new_install_fc_request_def
        with_install_fc_target_request_def with_install_fc_path_def)
  show ?thesis
  proof (cases e)
    case (Some x)
    then show ?thesis using assms(1) s by (auto simp: read_node_def)
  next
    case None
    obtain fc ferr w3 where i: "install_flight_control fs ctx tr
        (state_fc_request (pow_overflow ctx) req target) w2 = Some ((fc, ferr), w3)"
      using assms(1) s None by (auto simp: read_node_def Let_def bind_eq_Some_iff)
    show ?thesis
    proof (cases ferr)
      case (Some x)
      then show ?thesis using assms(1) s \<open>e = None\<close> i by (auto simp: read_node_def Let_def)
    next
      case None
      have path: "fcr_path fc = []" by (rule install_flight_control_no_path [OF i [unfolded None] nohome])
      obtain st2 stop w4 where r: "read_state ctx tr [] (sq_cli req) (st\<lparr>st_status := status\<rparr>) w3
          = (st2, stop, w4)" by (metis surj_pair)
      show ?thesis
        using read_state_no_path [OF r] r assms(1) s \<open>e = None\<close> i None path
        by (auto simp: read_node_def Let_def)
    qed
  qed
qed

text \<open>
  A Nomad host with a Vault whose life is the world: new, then initialized, then unsealed.
\<close>

definition demo_fs :: embed_fs where
  "demo_fs = Some [(''enos-flight-control_linux_amd64'', Some ''ELF'')]"

definition demo_request :: "nat state_request" where
  "demo_request = new_state_request 0 [with_state_bin_path ''/vault'', with_state_addr ''http://v'',
     with_state_fc_use_home_dir]"

definition demo_health :: string where
  "demo_health = health_request_string
     (new_health_request [with_health_addr ''http://v'', with_health_fc_path ''/h/enos-flight-control''])"

definition demo_seal :: string where
  "demo_seal = seal_status_request_string (new_seal_status_request
     [with_seal_status_addr ''http://v'', with_seal_status_fc_path ''/h/enos-flight-control''])"

definition life_body :: "nat \<Rightarrow> string" where
  "life_body w = (if w = 0 then ''{\"sealed\":true}''
     else if w = 1 then ''{\"initialized\":true,\"sealed\":true}'' else ''{\"initialized\":true}'')"

definition life_seal_body :: "nat \<Rightarrow> string" where
  "life_seal_body w = (if w < 2 then ''{\"type\":\"shamir\",\"sealed\":true}'' else ''{\"type\":\"shamir\"}'')"

definition life_health :: "nat \<Rightarrow> health_status" where
  "life_health w = (if w = 0 then HealthNotInitialized else if w = 1 then HealthSealed else HealthActive)"

definition fresh_vault :: "nat transport" where
  "fresh_vault = mock_transport\<lparr>tr_type := ''nomad'', tr_run := (\<lambda>c w.
     let t = cmd_text c in
     if t = ''/vault operator init -format=json'' then ((''{\"root_token\":\"t\"}'', [], None), 1)
     else if t = ''/vault operator unseal k;'' then (([], [], None), 2)
     else ((if t = ''uname -s'' then (''Linux'', [], None)
       else if t = ''uname -m'' then (''x86_64'', [], None)
       else if t = ''echo $HOME'' then (''/h'', [], None)
       else if t = ''/vault status -format=json'' then
         (life_body w, [], if w < 2 then Some (ErrExec [] 2) else None)
       else if t = demo_seal then (life_seal_body w, [], None)
       else if t = demo_health then (life_body w, [], Some (ErrExec [] (life_health w)))
       else ([], [], None)), w))\<rparr>"

definition life_status :: "nat \<Rightarrow> status_response" where
  "life_status w = new_status_response\<lparr>vs_code := if w < 2 then 2 else 0,
     vs_initialized := (w > 0), vs_sealed := (w < 2)\<rparr>"

definition life_seal :: "nat \<Rightarrow> seal_status_response" where
  "life_seal w = \<lparr>ss_data = Some (zero_seal_data\<lparr>sd_type := ''shamir'', sd_sealed := (w < 2)\<rparr>)\<rparr>"

definition life_health_response :: "nat \<Rightarrow> health_response" where
  "life_health_response w = new_health_response\<lparr>hs_status := life_health w,
     hs_initialized := (w > 0), hs_sealed := (w < 2)\<rparr>"

definition fresh_state :: "nat \<Rightarrow> vault_state" where
  "fresh_state w = new_state\<lparr>st_status := Some (life_status w), st_seal_status := Some (life_seal w),
     st_health := Some (life_health_response w)\<rparr>"

lemma life_cases:
  fixes w :: nat
  obtains "w = 0" | "w = 1" | "\<not> w < 2"
  by linarith

lemma life_texts:
  "parse_json ''{\"sealed\":true}'' = Some (JObj [(''sealed'', JBool True)])"
  "parse_json ''{\"initialized\":true,\"sealed\":true}''
    = Some (JObj [(''initialized'', JBool True), (''sealed'', JBool True)])"
  "parse_json ''{\"initialized\":true}'' = Some (JObj [(''initialized'', JBool True)])"
  "parse_json ''{\"type\":\"shamir\",\"sealed\":true}''
    = Some (JObj [(''type'', JStr ''shamir''), (''sealed'', JBool True)])"
  "parse_json ''{\"type\":\"shamir\"}'' = Some (JObj [(''type'', JStr ''shamir'')])"
  by (simp_all add: json_text_defs)

lemma fresh_bodies:
  "unmarshal dec_status ''{\"sealed\":true}'' (new_status_response\<lparr>vs_code := 2\<rparr>)
    = (new_status_response\<lparr>vs_code := 2, vs_sealed := True\<rparr>, None)"
  "unmarshal dec_status ''{\"initialized\":true,\"sealed\":true}'' (new_status_response\<lparr>vs_code := 2\<rparr>)
    = (new_status_response\<lparr>vs_code := 2, vs_initialized := True, vs_sealed := True\<rparr>, None)"
  "unmarshal dec_status ''{\"initialized\":true}'' (new_status_response\<lparr>vs_code := 0\<rparr>)
    = (new_status_response\<lparr>vs_code := 0, vs_initialized := True\<rparr>, None)"
  "unmarshal dec_seal_status ''{\"type\":\"shamir\",\"sealed\":true}'' new_seal_status_response
    = (new_seal_status_response, None)"
  "unmarshal dec_seal_status ''{\"type\":\"shamir\"}'' new_seal_status_response
    = (new_seal_status_response, None)"
  "unmarshal dec_seal_data ''{\"type\":\"shamir\",\"sealed\":true}'' zero_seal_data
    = (zero_seal_data\<lparr>sd_type := ''shamir'', sd_sealed := True\<rparr>, None)"
  "unmarshal dec_seal_data ''{\"type\":\"shamir\"}'' zero_seal_data
    = (zero_seal_data\<lparr>sd_type := ''shamir''\<rparr>, None)"
  "unmarshal dec_health ''{\"sealed\":true}'' (new_health_response\<lparr>hs_status := 234\<rparr>)
    = (new_health_response\<lparr>hs_status := 234, hs_sealed := True\<rparr>, None)"
  "unmarshal dec_health ''{\"initialized\":true,\"sealed\":true}'' (new_health_response\<lparr>hs_status := 235\<rparr>)
    = (new_health_response\<lparr>hs_status := 235, hs_initialized := True, hs_sealed := True\<rparr>, None)"
  "unmarshal dec_health ''{\"initialized\":true}'' (new_health_response\<lparr>hs_status := 230\<rparr>)
    = (new_health_response\<lparr>hs_status := 230, hs_initialized := True\<rparr>, None)"
  by (simp_all add: unmarshal_def life_texts find_field_def field_def dec_status_def dec_seal_status_def
      dec_seal_data_def dec_health_def to_lower_def lower_char_def)

lemma life_bodies:
  "unmarshal dec_status (life_body w) (new_status_response\<lparr>vs_code := if w < 2 then 2 else 0\<rparr>)
    = (life_status w, None)"
  "unmarshal dec_seal_status (life_seal_body w) new_seal_status_response = (new_seal_status_response, None)"
  "unmarshal dec_seal_data (life_seal_body w) zero_seal_data
    = (zero_seal_data\<lparr>sd_type := ''shamir'', sd_sealed := (w < 2)\<rparr>, None)"
  "unmarshal dec_health (life_body w) (new_health_response\<lparr>hs_status := life_health w\<rparr>)
    = (life_health_response w, None)"
  "life_body w \<noteq> []" "life_seal_body w \<noteq> []"
proof -
  note defs = life_body_def life_seal_body_def life_health_def life_status_def life_health_response_def
    health_defs fresh_bodies
  show "unmarshal dec_status (life_body w) (new_status_response\<lparr>vs_code := if w < 2 then 2 else 0\<rparr>)
      = (life_status w, None)"
    by (cases w rule: life_cases) (simp_all add: defs, simp_all add: new_status_response_def)
  show "unmarshal dec_seal_data (life_seal_body w) zero_seal_data
      = (zero_seal_data\<lparr>sd_type := ''shamir'', sd_sealed := (w < 2)\<rparr>, None)"
    by (cases w rule: life_cases) (simp_all add: defs, simp_all add: zero_seal_data_def)
  show "unmarshal dec_health (life_body w) (new_health_response\<lparr>hs_status := life_health w\<rparr>)
      = (life_health_response w, None)"
    by (cases w rule: life_cases) (simp_all add: defs, simp_all add: new_health_response_def)
qed (simp_all add: life_body_def life_seal_body_def fresh_bodies)

lemma fresh_commands:
  "take 2 demo_seal = ''/h''" "take 2 demo_health = ''/h''" "demo_health \<noteq> demo_seal"
  "sq_cli demo_request = \<lparr>cli_addr = ''http://v'', cli_token = [], cli_bin = ''/vault''\<rparr>"
  "sq_fc_use_home_dir demo_request"
  "path_join [''/h'', ''enos-flight-control''] = ''/h/enos-flight-control''"
  "format_platform ''Linux'' = ''linux''"
  by code_simp+

lemma fresh_other:
  assumes "take 2 t \<noteq> ''/h''"
  shows "demo_seal \<noteq> t" "demo_health \<noteq> t"
  using assms fresh_commands(1,2) by metis+

lemma fresh_idle:
  assumes "take 3 t = ''tes'' \<or> take 3 t = ''ope''"
  shows "run_cmd fresh_vault t w = (([], [], None), w)"
proof -
  have "take 2 t \<noteq> ''/h''" using assms by (cases t rule: list.exhaust) (auto simp: numeral_eq_Suc)
  moreover have "t \<noteq> ''uname -s''" "t \<noteq> ''uname -m''" "t \<noteq> ''echo $HOME''"
    "t \<noteq> ''/vault status -format=json''" "t \<noteq> ''/vault operator init -format=json''"
    "t \<noteq> ''/vault operator unseal k;''"
    using assms by auto
  ultimately show ?thesis
    using fresh_other [of t] by (simp add: run_cmd_def fresh_vault_def new_command_def Let_def)
qed

lemma fresh_install:
  "install_flight_control demo_fs live_ctx fresh_vault (state_fc_request 0 demo_request req) w
    = Some ((\<lparr>fcr_path = ''/h/enos-flight-control''\<rparr>, None), w)"
proof (rule install_home_quiet [where sys = "''Linux''" and mach = "''x86_64''" and home = "''/h''"
      and binary = "''ELF''" and b = False and req = req])
  show "quiet fresh_vault"
  proof -
    have neq: "demo_seal \<noteq> t" "demo_health \<noteq> t" "t \<noteq> ''/vault status -format=json''"
      "t \<noteq> ''/vault operator init -format=json''" "t \<noteq> ''/vault operator unseal k;''"
      if "take 1 t \<noteq> [slash]" for t
    proof -
      have "take 2 t \<noteq> ''/h''" using that by (cases t) auto
      then show "demo_seal \<noteq> t" "demo_health \<noteq> t" by (rule fresh_other)+
    qed (use that in auto)
    then have "\<exists>out serr. tr_run fresh_vault c w = ((out, serr, None), w)"
      if "take 1 (cmd_text c) \<noteq> [slash]" for c w
      using neq [OF that] by (simp add: fresh_vault_def Let_def)
    then show ?thesis
      by (simp add: quiet_def) (simp add: fresh_vault_def mock_transport_def)
  qed
  show "fc_binary demo_fs (format_platform ''Linux'') (format_arch ''x86_64'') = (''ELF'', None)"
    by (simp add: fresh_commands format_arch_def demo_fs_def fc_binary_def supported_target_def
        supported_targets_def binary_prefix_def has_prefix_def match_target_def word_char_def
        read_target_file_def embed_read_file_def Let_def)
  have found: "run_cmd fresh_vault (''test -f '' @ x) w = (([], [], None), w)"
    "run_cmd fresh_vault (''openssl dgst -sha256 '' @ x) w = (([], [], None), w)" for x
    by (rule fresh_idle; simp)+
  show "fst (fc_installed fresh_vault ''/h/enos-flight-control'' ''ELF'' w) = False"
    unfolding fc_installed_def using found by (simp add: trim_digest_def)
qed (simp_all add: state_fc_request_def new_install_fc_request_def with_install_fc_target_request_def
    with_install_fc_use_home_dir_def fresh_commands run_cmd_def fresh_vault_def new_command_def Let_def)

lemma fresh_runs:
  "tr_run fresh_vault (new_command ''/vault status -format=json'' [with_env_var k v]) w
    = ((life_body w, [], if w < 2 then Some (ErrExec [] 2) else None), w)"
  "tr_run fresh_vault (new_command demo_seal []) w = ((life_seal_body w, [], None), w)"
  "tr_run fresh_vault (new_command demo_health []) w
    = ((life_body w, [], Some (ErrExec [] (life_health w))), w)"
proof -
  have neq: "demo_seal \<noteq> t" "demo_health \<noteq> t" if "take 2 t \<noteq> ''/h''" for t
    using fresh_other [OF that] by simp_all
  show "tr_run fresh_vault (new_command ''/vault status -format=json'' [with_env_var k v]) w
    = ((life_body w, [], if w < 2 then Some (ErrExec [] 2) else None), w)"
    by (simp add: fresh_vault_def new_command_def with_env_var_def Let_def)
  show "tr_run fresh_vault (new_command demo_seal []) w = ((life_seal_body w, [], None), w)"
    "tr_run fresh_vault (new_command demo_health []) w
      = ((life_body w, [], Some (ErrExec [] (life_health w))), w)"
    using fresh_commands(3) neq by (simp_all add: fresh_vault_def new_command_def Let_def)
qed

lemma fresh_status:
  "get_status live_ctx fresh_vault (sq_cli demo_request) w = ((Some (life_status w), None), w)"
proof -
  have cmd: "vault_cmd (sq_cli demo_request) '' status -format=json''
      = new_command ''/vault status -format=json'' [with_env_var ''VAULT_ADDR'' ''http://v'']"
    by (simp add: vault_cmd_def fresh_commands)
  have ok: "needs [need_bin (sq_cli demo_request), need_addr (cli_addr (sq_cli demo_request))]
      (ctx_err live_ctx w) = None"
    by (simp add: live_ctx_def needs_def need_def need_bin_def need_addr_def fresh_commands)
  show ?thesis
    using life_bodies(1) [of w] life_bodies(5) [of w]
    unfolding get_status_def read_with_def status_body_def cmd fresh_runs ok
    by (cases "w < 2") (simp_all add: vault_status_code_from_error_def vault_code_defs join_errs_def
        map_filter_simps)
qed

lemma fresh_seal:
  "get_seal_status live_ctx fresh_vault (new_seal_status_request
     [with_seal_status_addr ''http://v'', with_seal_status_fc_path ''/h/enos-flight-control'']) w
    = ((Some (life_seal w), None), w)"
  unfolding get_seal_status_def read_with_def seal_status_body_def demo_seal_def [symmetric] fresh_runs
  by (simp add: live_ctx_def needs_def need_def need_fc_def need_addr_def new_seal_status_request_def
      with_seal_status_addr_def with_seal_status_fc_path_def life_bodies Let_def life_seal_def)
    (simp add: new_seal_status_response_def unmarshal_ptr_def life_bodies zero_seal_data_def
      life_bodies [unfolded zero_seal_data_def] join_errs_def map_filter_simps)

lemma fresh_health:
  "get_health live_ctx fresh_vault (new_health_request
     [with_health_addr ''http://v'', with_health_fc_path ''/h/enos-flight-control'']) w
    = ((Some (life_health_response w), None), w)"
proof -
  have "health_status_from_error (ErrExec [] (life_health w)) = (life_health w, None)"
    by (cases w rule: life_cases)
      (simp_all add: life_health_def health_status_from_error_def health_defs)
  then show ?thesis
    unfolding get_health_def read_with_def health_body_def demo_health_def [symmetric] fresh_runs
    by (simp add: live_ctx_def needs_def need_def need_fc_def need_addr_def new_health_request_def
        with_health_addr_def with_health_fc_path_def life_bodies Let_def join_errs_def map_filter_simps)
qed

lemma fresh_questions:
  "state_is_initialized (Some (fresh_state w)) = (w > 0, None)"
  "state_is_sealed (Some (fresh_state w)) = (w < 2, None)"
  "state_replication_enabled (Some (fresh_state w)) = (False, None)"
proof -
  show "state_is_initialized (Some (fresh_state w)) = (w > 0, None)"
    by (simp add: state_is_initialized_ok_iff fresh_state_def new_state_def life_status_def
        life_health_response_def)
  show "state_is_sealed (Some (fresh_state w)) = (w < 2, None)"
    by (cases w rule: life_cases)
      (simp_all add: state_is_sealed_ok_iff status_is_sealed_ok_iff health_is_sealed_ok_iff fresh_state_def
        life_status_def life_seal_def life_health_response_def life_health_def health_defs vault_code_defs)
  show "state_replication_enabled (Some (fresh_state w)) = (False, None)"
    by (simp add: state_replication_enabled_def fresh_state_def life_health_response_def
        new_health_response_def replicating_def ReplicationModeUnset_def)
qed

lemma fresh_read_state:
  "read_state live_ctx fresh_vault ''/h/enos-flight-control'' (sq_cli demo_request)
     (new_state\<lparr>st_status := Some (life_status w)\<rparr>) w = (fresh_state w, Some None, w)"
proof -
  show ?thesis
    using fresh_questions [of w]
    by (simp add: read_state_def and_then_def read_seal_status_def read_health_def read_field_def
        fresh_commands fresh_seal fresh_health fresh_state_def [symmetric] stop_unless_usable_def read_replication_def
        stop_without_token_def)
qed

lemma fresh_get_state:
  "get_state demo_fs live_ctx fresh_vault demo_request w = Some ((Some (fresh_state w), None), demo_request, w)"
proof -
  have ty: "tr_type fresh_vault = ''nomad''" by (simp add: fresh_vault_def)
  have tpm: "target_process_manager live_ctx fresh_vault t w = Some ((''nomad'', None), t, w)" for t
    by (simp add: target_process_manager_def ty)
  have live: "ctx_err live_ctx w = None" "pow_overflow live_ctx = 0" by (simp_all add: live_ctx_def)
  have "read_process live_ctx fresh_vault ''nomad'' demo_request w
      = Some ((new_state, None), demo_request, w)"
    by (simp add: read_process_def)
  moreover have "read_node demo_fs live_ctx fresh_vault target demo_request new_state w
      = Some ((fresh_state w, None), w)" for target
    using fresh_read_state [of w]
    by (auto simp: read_node_def fresh_status fresh_install live)
  ultimately show ?thesis
    by (simp add: get_state_def live tpm)
qed

text \<open>A wait for what the state already satisfies ends with the first attempt.\<close>

lemma fresh_wait:
  assumes "run_checks checks (fresh_state w) = Some None"
  shows "wait_for_state demo_fs live_ctx fresh_vault demo_request checks w
    = Some ((Some (fresh_state w), None), demo_request, w)"
  using assms
  by (simp add: wait_for_state_def new_retrier_def retrier_opt_defs retry_def retry_loop.simps
      retrier_run_def lift_ctx_def live_ctx_def [THEN arg_cong [where f = ctx_err]]
      check_state_fn_def fresh_get_state)

lemma wait_for_state_ok:
  assumes "wait_for_state fs ctx tr req checks w = Some ((sp, None), req', w')"
  shows "\<exists>st req1 w1. sp = Some st \<and> ctx_err ctx w1 = None
    \<and> get_state fs ctx tr req1 w1 = Some ((Some st, None), req', w')
    \<and> (\<forall>c \<in> set checks. c (Some st) = Some None)"
proof -
  obtain r where r: "new_retrier [with_interval_func (interval_duration (5 * second)),
      with_retrier_func (check_state_fn fs ctx tr checks)] = (r, None)"
    "retry_func r = Some (check_state_fn fs ctx tr checks)"
    using new_retrier_with_func [of "[with_interval_func (interval_duration (5 * second))]"
        "check_state_fn fs ctx tr checks"]
    by (simp add: with_retrier_func_def)
  show ?thesis
  proof (cases "retry retrier_ops (lift_ctx ctx) r (w, req)")
    case None
    then show ?thesis using assms by (simp add: wait_for_state_def r(1))
  next
    case (Some out)
    obtain v e r' w2 req2 where out: "out = ((v, e), r', w2, req2)" by (metis surj_pair)
    have eqs: "sp = (case v of None \<Rightarrow> None | Some st \<Rightarrow> st)" "e = None" "req2 = req'" "w2 = w'"
      using assms Some out
      by (auto simp: wait_for_state_def r(1) Let_def split: option.splits)
    from vault_wait.waited [OF Some [unfolded out eqs(2-4)] r(2)] eqs(1) show ?thesis
      unfolding run_checks_ok_iff by fastforce
  qed
qed

subsection \<open>Properties\<close>

text \<open>
  IsSealed answers without error exactly when the state has all three
  readings and they agree: exit code and body of vault status, the code and body of
  sys/health, and sys/seal-status. Then the answer is theirs.
\<close>

theorem state_is_sealed_agreement:
  "state_is_sealed (Some st) = (b, None) \<longleftrightarrow>
     (\<exists>v h r d. st_status st = Some v \<and> st_health st = Some h \<and> st_seal_status st = Some r \<and> ss_data r = Some d
        \<and> vs_code v = (if b then StatusSealed else StatusInitializedUnsealed) \<and> vs_sealed v = b
        \<and> hs_sealed h = b \<and> (hs_status h \<in> {HealthNotInitialized, HealthSealed}) = b
        \<and> sd_sealed d = b)"
  unfolding state_is_sealed_ok_iff status_is_sealed_ok_iff health_is_sealed_ok_iff by blast

text \<open>
  C1: the state that GetState returns without error has status, seal status and
  health. Of a node that is not initialized and unsealed it holds nothing else of Vault's; of
  one that is, it has the replication status exactly when replication is on and the node is
  active, and what needs a token exactly when there is one: configuration and host
  information always, HA status and the raft readings as the node's mode asks for.
\<close>

theorem get_state_well_read:
  assumes "get_state fs ctx tr req w = Some ((sp, None), req', w')"
  shows "\<exists>st. sp = Some st \<and> core_read st
    \<and> (\<not> usable st \<longrightarrow> st_replication st = None \<and> unprivileged st)
    \<and> (usable st \<longrightarrow> (st_replication st \<noteq> None \<longleftrightarrow> replication_wanted st)
         \<and> (cli_token (sq_cli req) = [] \<longrightarrow> unprivileged st)
         \<and> (cli_token (sq_cli req) \<noteq> [] \<longrightarrow> privileged_read st))"
  using get_state_ok [OF assms] by (auto simp: well_read_def split: if_splits)

theorem get_state_well_read_witness:
  "st_replication (fresh_state 0) = None \<and> core_read (fresh_state 2)"
  using get_state_well_read [OF fresh_get_state [of 0]] get_state_well_read [OF fresh_get_state [of 2]]
  by (simp add: usable_def fresh_questions)

text \<open>
  C2: a request that does not install the flight control binary in the home
  directory, and lists pods with a maximum of retries (which NewStateRequest sets): GetState
  returns on every host and every answer, and never without error, because the response of
  the installation has no path then and the seal status cannot be read.
\<close>

theorem get_state_returns:
  assumes "\<not> sq_fc_use_home_dir req" "retrier_capped (lpr_retrier (sq_pods req))"
  shows "\<exists>sp e req' w'. get_state fs ctx tr req w = Some ((sp, Some e), req', w')"
proof (cases "ctx_err ctx w")
  case (Some e)
  then show ?thesis by (simp add: get_state_def)
next
  case None
  obtain pm err target w1 where t: "target_process_manager ctx tr (new_target_request (pow_overflow ctx)
       [with_target_request_retry_opts [with_max_retries 0]]) w = Some ((pm, err), target, w1)"
    "retrier_capped (tg_retrier target)"
    using target_process_manager_capped [OF single_attempt_target_capped [of "pow_overflow ctx"],
        of ctx tr w] by blast
  obtain st err2 req1 w2 where p: "read_process ctx tr pm req w1 = Some ((st, err2), req1, w2)"
    "\<not> sq_fc_use_home_dir req1"
    using read_process_returns [OF assms(2), of ctx tr pm w1] assms(1) by (metis surj_pair)
  obtain st1 e w3 where n: "read_node fs ctx tr target req1 st w2 = Some ((st1, e), w3)"
    using read_node_returns [OF t(2) p(2), of fs ctx tr st w2] unfolding returns_iff by (metis surj_pair)
  then obtain e1 where "e = Some e1" using read_node_no_home [OF n p(2)] by blast
  then show ?thesis
    using None t(1) p(1) n by (cases err; cases err2) (auto simp: get_state_def)
qed

theorem get_state_returns_witness:
  "\<exists>sp e req' w'. get_state demo_fs live_ctx mock_transport (new_state_request 0 []) 0 = Some ((sp, Some e), req', w')"
  by (rule get_state_returns)
    (simp_all add: new_state_request_def new_list_pods_request_def with_list_pods_retry_opts_def
      retrier_opt_defs retrier_capped_def interval_exponential_def Let_def)

text \<open>
  C3: when WaitForState returns without error, the state it returns is one that
  GetState read without error while the context was live, in the last attempt, and every
  check passes on it.
\<close>

theorem wait_for_state_checked:
  assumes "wait_for_state fs ctx tr req checks w = Some ((sp, None), req', w')"
  shows "\<exists>st req1 w1. sp = Some st \<and> ctx_err ctx w1 = None
    \<and> get_state fs ctx tr req1 w1 = Some ((Some st, None), req', w')
    \<and> (\<forall>c \<in> set checks. c (Some st) = Some None)"
  using assms by (rule wait_for_state_ok)

theorem wait_for_state_checked_witness:
  "\<exists>st. wait_for_state demo_fs live_ctx fresh_vault demo_request [\<lambda>s. Some None] 0 = Some ((Some st, None), demo_request, 0)
    \<and> (\<exists>req1 w1. get_state demo_fs live_ctx fresh_vault req1 w1 = Some ((Some st, None), demo_request, 0))"
proof -
  have w: "wait_for_state demo_fs live_ctx fresh_vault demo_request [\<lambda>s. Some None] 0
      = Some ((Some (fresh_state 0), None), demo_request, 0)"
    by (rule fresh_wait) simp
  show ?thesis using wait_for_state_checked [OF w] w by blast
qed

end
