(* ===== verification/VaultChecks.thy ===== *)
theory VaultChecks
  imports VaultState "HOL-Library.Multiset"
begin

text \<open>
  The checks of a Vault state (internal/remoteflight/vault/checks.go), which wait_for_state
  runs on every state it reads. A check is a function of the pointer to the state; it is nil
  without complaint, an error with one, and panics (\<open>None\<close>) where it follows a nil
  pointer. \<open>min\<close> is a Go uint and a length is below that type's bound, so both are naturals
  here.
\<close>

subsection \<open>Exit code and systemd unit\<close>

definition check_has_status_code :: "vault_code \<Rightarrow> check_stater" where
  "check_has_status_code code s = do {
     st \<leftarrow> deref s;
     r \<leftarrow> deref (st_status st);
     Some (if vs_code r \<noteq> code
       then Some (ErrNew (''checking vault status code, expected status '' @ vault_code_string code
              @ '', got '' @ vault_code_string (vs_code r)))
       else None)
   }"

text \<open>A nil map has no entries.\<close>

definition check_has_systemd_properties :: check_stater where
  "check_has_systemd_properties s = do {
     st \<leftarrow> deref s;
     Some (case find_properties (case st_unit_properties st of None \<Rightarrow> [] | Some ps \<Rightarrow> ps)
                  enabled_and_running_properties of
         (_, Some e) \<Rightarrow>
           Some (ErrText ''checking vault systemd state, expected vault systemd unit to be enabled and running, got '' e [])
       | (props, None) \<Rightarrow>
           if \<not> has_properties props enabled_and_running_properties
           then Some (ErrNew (''checking vault systemd state, expected vault system unit to be enabled and running, got ''
                  @ props_string props))
           else None)
   }"

subsection \<open>Pods and containers\<close>

text \<open>
  Five checks start with the same question: whether the state, its list of pods and the
  list's items are there. Without pods they have an error and do not panic, also on a nil state.
\<close>

definition pods_in :: "vault_state option \<Rightarrow> pod_list" where
  "pods_in s =
     (case s of
        None \<Rightarrow> []
      | Some st \<Rightarrow>
          (case st_pods st of
             None \<Rightarrow> []
           | Some r \<Rightarrow> (case lp_pods r of None \<Rightarrow> [] | Some pods \<Rightarrow> pods)))"

definition phase_error :: "string \<Rightarrow> string \<Rightarrow> pod \<Rightarrow> goerr" where
  "phase_error name phase p =
     ErrNew (''expected pod '' @ name @ '' to have phase '' @ phase @ '', got '' @ pod_phase p
       @ '', message: '' @ pod_message p @ '', reason: '' @ pod_reason p)"

fun phase_errors :: "string \<Rightarrow> pod_list \<Rightarrow> error \<Rightarrow> error" where
  "phase_errors phase [] err = err"
| "phase_errors phase (p # ps) err =
     phase_errors phase ps
       (if pod_phase p \<noteq> phase then join_errs [err, Some (phase_error (pod_name p) phase p)] else err)"

definition check_all_pods_have_phase :: "string \<Rightarrow> check_stater" where
  "check_all_pods_have_phase phase s =
     Some (if length (pods_in s) < 1
       then Some (ErrNew ''checking kubernetes for pod phases: no pods found in state'')
       else (case phase_errors phase (pods_in s) None of
           Some e \<Rightarrow> join_errs [Some (ErrNew (''checking all kubernetes pods have phase '' @ phase)), Some e]
         | None \<Rightarrow> None))"

definition pod_phase_text :: "string \<Rightarrow> string" where
  "pod_phase_text name = ''checking kubernetes for pod '' @ name @ '' phase: ''"

definition check_pod_has_phase :: "string \<Rightarrow> string \<Rightarrow> check_stater" where
  "check_pod_has_phase name phase s =
     Some (if length (pods_in s) < 1
       then Some (ErrNew (pod_phase_text name @ ''no pods found in state''))
       else (case find (\<lambda>p. pod_name p = name) (pods_in s) of
           Some p \<Rightarrow> if pod_phase p \<noteq> phase then Some (phase_error name phase p) else None
         | None \<Rightarrow> Some (ErrNew (pod_phase_text name @ ''no pods named '' @ name @ '' found in state''))))"

text \<open>
  The loop over the containers of a pod. The code joins the new error alone, so it replaces
  the ones before: the last container that is not ready is the one reported.
\<close>

fun unready :: "container_status list \<Rightarrow> error \<Rightarrow> error" where
  "unready [] err = err"
| "unready (c # cs) err =
     unready cs
       (if \<not> cs_ready c then join_errs [Some (ErrNew (''container '' @ cs_name c @ '' is not ready''))] else err)"

definition check_all_containers_ready :: check_stater where
  "check_all_containers_ready s =
     Some (if length (pods_in s) < 1
       then Some (ErrNew ''checking all containers in kubernetes states are Ready'')
       else (case fold (\<lambda>p. unready (pod_containers p)) (pods_in s) None of
           Some e \<Rightarrow> join_errs [Some (ErrNew ''checking all containers in kubernetes state are ready''), Some e]
         | None \<Rightarrow> None))"

definition check_all_pod_containers_ready :: "string \<Rightarrow> check_stater" where
  "check_all_pod_containers_ready name s =
     (let msg = ''checking all containers in kubernetes pod '' @ name in
      Some (if length (pods_in s) < 1 then Some (ErrNew (msg @ '' are Ready''))
        else (case find (\<lambda>p. pod_name p = name) (pods_in s) of
            None \<Rightarrow> Some (ErrNew (msg @ '' are in Ready state: pod not found in state''))
          | Some p \<Rightarrow>
              (case unready (pod_containers p) None of
                 Some e \<Rightarrow> join_errs [Some (ErrNew (msg @ '' are ready'')), Some e]
               | None \<Rightarrow> None))))"

text \<open>Every pod of the name is searched until the container is found.\<close>

definition check_pod_container_ready :: "string \<Rightarrow> string \<Rightarrow> check_stater" where
  "check_pod_container_ready pod_nm container s =
     (let msg = pod_nm @ '' container '' @ container @ '' for Ready state: '' in
      Some (if length (pods_in s) < 1
        then Some (ErrNew (''checking kubernetes for pod '' @ msg @ ''no pods found in state''))
        else (case find (\<lambda>c. cs_name c = container)
                 (concat (map pod_containers (filter (\<lambda>p. pod_name p = pod_nm) (pods_in s)))) of
            Some c \<Rightarrow>
              if \<not> cs_ready c then Some (ErrNew (''checking pod '' @ msg @ ''container is not Ready'')) else None
          | None \<Rightarrow> Some (ErrNew (''checking kubernetes for pod '' @ msg
                       @ ''no pod/container found in state'')))))"

subsection \<open>Initialized, sealed, unsealed\<close>

definition check_is_initialized :: check_stater where
  "check_is_initialized s =
     Some (case state_is_initialized s of
         (_, Some e) \<Rightarrow> Some (ErrText ''checking vault init state: '' e [])
       | (True, None) \<Rightarrow> None
       | (False, None) \<Rightarrow>
           Some (ErrNew ''checking vault init state, expected initialized, vault is not initialized''))"

definition check_is_unsealed :: check_stater where
  "check_is_unsealed s =
     Some (case state_is_sealed s of
         (_, Some e) \<Rightarrow> Some (ErrText ''checking vault seal state: '' e [])
       | (True, None) \<Rightarrow> Some (ErrNew ''checking vault seal state, expected unsealed, vault is sealed'')
       | (False, None) \<Rightarrow> None)"

definition check_is_sealed :: check_stater where
  "check_is_sealed s =
     Some (case state_is_sealed s of
         (_, Some e) \<Rightarrow> Some (ErrText ''checking vault seal state: '' e [])
       | (False, None) \<Rightarrow> Some (ErrNew ''checking vault seal state, expected sealed, vault is unsealed'')
       | (True, None) \<Rightarrow> None)"

definition check_seal_state_known :: check_stater where
  "check_seal_state_known s =
     Some (case state_is_sealed s of
         (_, Some e) \<Rightarrow> Some (ErrText ''checking vault seal state: '' e [])
       | (_, None) \<Rightarrow> None)"

text \<open>The data of a response in the state: nil when either pointer is.\<close>

definition seal_data_of :: "vault_state \<Rightarrow> seal_status_data option" where
  "seal_data_of st = Option.bind (st_seal_status st) ss_data"

definition check_has_seal_type :: "string \<Rightarrow> check_stater" where
  "check_has_seal_type stype s = do {
     st \<leftarrow> deref s;
     Some (case seal_data_of st of
         None \<Rightarrow> Some (ErrNew (''checking vault seal type, expected '' @ stype
                    @ '', no seal status data was found in state''))
       | Some d \<Rightarrow>
           if sd_type d = stype then None
           else Some (ErrNew (''checking vault seal type, expected type '' @ stype @ '', found '' @ sd_type d)))
   }"

definition check_has_storage_type :: "string \<Rightarrow> check_stater" where
  "check_has_storage_type stype s = do {
     st \<leftarrow> deref s;
     Some (case seal_data_of st of
         None \<Rightarrow> Some (ErrNew (''checking vault storage type, expected '' @ stype
                    @ '', no seal status storage data was found in state''))
       | Some d \<Rightarrow>
           if sd_storage_type d = stype then None
           else Some (ErrNew (''checking vault storage type, expected of '' @ stype
                  @ '', found '' @ sd_storage_type d)))
   }"

definition check_has_health_status_of :: "health_status list \<Rightarrow> check_stater" where
  "check_has_health_status_of statuses s =
     (if length statuses < 1
      then Some (Some (ErrNew ''checking vault health status: no desired statuses were given''))
      else do {
        st \<leftarrow> deref s;
        Some (case st_health st of
            None \<Rightarrow> Some (ErrNew ''checking vault health status: state has no /v1/sys/health data'')
          | Some h \<Rightarrow>
              if status_is_one_of h statuses then None
              else Some (ErrNew (''checking vault health status: expected one of /v1/sys/health statuses: [''
                     @ join_with '' '' (map health_status_string statuses)
                     @ ''], got /v1/sys/health status: '' @ health_status_string (health_response_status h))))
      })"

subsection \<open>Configuration\<close>

definition config_of :: "vault_state \<Rightarrow> config_state_data option" where
  "config_of st = Option.bind (st_config st) csr_data"

definition check_has_enable_ui :: check_stater where
  "check_has_enable_ui s = do {
     st \<leftarrow> deref s;
     Some (case config_of st of
         None \<Rightarrow> Some (ErrNew ''checking if vault UI is enabled: no configuration data was found in state'')
       | Some d \<Rightarrow>
           if cd_enable_ui d then None
           else Some (ErrNew ''checking vault UI is enabled: vault UI is disabled''))
   }"

text \<open>
  The search for a listener. A nil listener, on either side, panics; a nil configuration does
  so only when the types are equal. The message of the last error prints the listeners with
  the verb \<open>%#v\<close>, which is left out of it here.
\<close>

fun matching_listener :: "config_listener option \<Rightarrow> config_listener option list \<Rightarrow> bool go" where
  "matching_listener want [] = Some False"
| "matching_listener want (l # ls) = do {
     have \<leftarrow> deref l;
     wanted \<leftarrow> deref want;
     (if ln_type have \<noteq> ln_type wanted then matching_listener want ls
      else do {
        hc \<leftarrow> deref (ln_config have);
        wc \<leftarrow> deref (ln_config wanted);
        (if lc_address hc \<noteq> lc_address wc then matching_listener want ls
         else if lc_tls_disable hc \<noteq> lc_tls_disable wc then matching_listener want ls
         else Some True)
      })
   }"

definition check_has_matching_listener :: "config_listener option \<Rightarrow> check_stater" where
  "check_has_matching_listener want s = do {
     st \<leftarrow> deref s;
     (case config_of st of
        None \<Rightarrow> Some (Some (ErrNew
          ''checking if vault config has matching listener: no configuration data was found in state''))
      | Some d \<Rightarrow> do {
          found \<leftarrow> matching_listener want (cd_listeners d);
          Some (if found then None
            else Some (ErrNew
              ''checking if vault config has matching listener: no matching listener config was found in state''))
        })
   }"

subsection \<open>HA, raft and autopilot\<close>

definition ha_of :: "vault_state \<Rightarrow> ha_status_data option" where
  "ha_of st = Option.bind (st_ha_status st) ha_data"

definition raft_of :: "vault_state \<Rightarrow> raft_config option" where
  "raft_of st = do { r \<leftarrow> st_raft_config st; d \<leftarrow> rcr_data r; rcd_config d }"

definition autopilot_of :: "vault_state \<Rightarrow> autopilot_state option" where
  "autopilot_of st = Option.bind (st_autopilot_state st) asr_data"

text \<open>
  Searching and counting pointers: both panic at the first nil one they come to, which a
  search that has found its element before does not.
\<close>

fun any_ptr :: "('a \<Rightarrow> bool) \<Rightarrow> 'a option list \<Rightarrow> bool go" where
  "any_ptr p [] = Some False"
| "any_ptr p (x # xs) = do { a \<leftarrow> deref x; (if p a then Some True else any_ptr p xs) }"

fun count_ptr :: "('a \<Rightarrow> bool) \<Rightarrow> 'a option list \<Rightarrow> nat \<Rightarrow> nat go" where
  "count_ptr p [] n = Some n"
| "count_ptr p (x # xs) n = do { a \<leftarrow> deref x; count_ptr p xs (if p a then n + 1 else n) }"

definition check_has_ha_active_node :: check_stater where
  "check_has_ha_active_node s = do {
     st \<leftarrow> deref s;
     let none = ErrNew ''checking vault HA status for active node: no active nodes were found in state'';
     (case ha_of st of
        None \<Rightarrow> Some (Some none)
      | Some d \<Rightarrow> do {
          found \<leftarrow> any_ptr hn_active (had_nodes d);
          Some (if found then None else Some none)
        })
   }"

text \<open>
  The checks for a minimum of N: without data they have an error, but only when N is not 0.
  With 0 they go on, and follow the nil pointer.
\<close>

definition min_text :: "nat \<Rightarrow> string \<Rightarrow> string" where
  "min_text n what = ''checking if vault has minimum of '' @ show_nat n @ what"

definition check_has_min_ha_nodes :: "nat \<Rightarrow> check_stater" where
  "check_has_min_ha_nodes n s = do {
     st \<leftarrow> deref s;
     let msg = min_text n '' HA nodes: '';
     (if ha_of st = None \<and> n > 0 then Some (Some (ErrNew (msg @ ''no HA status was found in state'')))
      else do {
        d \<leftarrow> deref (ha_of st);
        let l = length (had_nodes d);
        Some (if l < n then Some (ErrNew (msg @ ''expected at least '' @ show_nat n @ '' HA nodes, got '' @ show_nat l))
          else None)
      })
   }"

definition check_has_min_raft_servers :: "nat \<Rightarrow> check_stater" where
  "check_has_min_raft_servers n s = do {
     st \<leftarrow> deref s;
     let msg = min_text n '' raft servers: '';
     (if raft_of st = None \<and> n > 0 then Some (Some (ErrNew (msg @ ''no raft config data was found in state'')))
      else do {
        c \<leftarrow> deref (raft_of st);
        let l = length (rc_servers c);
        Some (if l < n then Some (ErrNew (msg @ ''expected '' @ show_nat n @ '' raft servers, got '' @ show_nat l))
          else None)
      })
   }"

definition check_has_min_raft_voters :: "nat \<Rightarrow> check_stater" where
  "check_has_min_raft_voters n s = do {
     st \<leftarrow> deref s;
     let msg = min_text n '' raft voters: '';
     (if raft_of st = None \<and> n > 0 then Some (Some (ErrNew (msg @ ''no raft config data was found in state'')))
      else do {
        c \<leftarrow> deref (raft_of st);
        voters \<leftarrow> count_ptr rv_voter (rc_servers c) 0;
        Some (if voters \<ge> n then None
          else Some (ErrNew (msg @ ''expected '' @ show_nat n @ '' raft servers, got '' @ show_nat voters)))
      })
   }"

definition check_has_raft_leader :: check_stater where
  "check_has_raft_leader s = do {
     st \<leftarrow> deref s;
     let msg = ''checking if vault has a raft leader: '';
     (case raft_of st of
        None \<Rightarrow> Some (Some (ErrNew (msg @ ''no raft config data was found in state'')))
      | Some c \<Rightarrow> do {
          found \<leftarrow> any_ptr rv_leader (rc_servers c);
          Some (if found then None else Some (ErrNew (msg @ ''unable to find raft leader'')))
        })
   }"

definition check_has_min_autopilot_servers :: "nat \<Rightarrow> check_stater" where
  "check_has_min_autopilot_servers n s = do {
     st \<leftarrow> deref s;
     let msg = min_text n '' autopilot servers: '';
     (if autopilot_of st = None \<and> n > 0 then Some (Some (ErrNew (msg @ ''no autopilot data was found in state'')))
      else do {
        d \<leftarrow> deref (autopilot_of st);
        let l = length (ap_servers d);
        Some (if l < n then Some (ErrNew (msg @ ''expected '' @ show_nat n @ '' servers, got '' @ show_nat l))
          else None)
      })
   }"

definition check_has_min_autopilot_voters :: "nat \<Rightarrow> check_stater" where
  "check_has_min_autopilot_voters n s = do {
     st \<leftarrow> deref s;
     let msg = min_text n '' autopilot voters: '';
     (if autopilot_of st = None \<and> n > 0 then Some (Some (ErrNew (msg @ ''no autopilot data was found in state'')))
      else do {
        d \<leftarrow> deref (autopilot_of st);
        let l = length (ap_voters d);
        Some (if l < n then Some (ErrNew (msg @ ''expected '' @ show_nat n @ '' autopilot voters, got '' @ show_nat l))
          else None)
      })
   }"

definition check_has_min_autopilot_healthy_nodes :: "nat \<Rightarrow> check_stater" where
  "check_has_min_autopilot_healthy_nodes n s = do {
     st \<leftarrow> deref s;
     let msg = min_text n '' autopilot healthy nodes: '';
     (if autopilot_of st = None \<and> n > 0 then Some (Some (ErrNew (msg @ ''no autopilot data was found in state'')))
      else do {
        d \<leftarrow> deref (autopilot_of st);
        healthy \<leftarrow> count_ptr as_healthy (map snd (ap_servers d)) 0;
        Some (if healthy < n
          then Some (ErrNew (msg @ ''expected '' @ show_nat n @ '' autopilot voters, got '' @ show_nat healthy))
          else None)
      })
   }"

definition check_autopilot_is_healthy :: check_stater where
  "check_autopilot_is_healthy s = do {
     st \<leftarrow> deref s;
     let msg = ''checking if vault autopilot is healthy: '';
     Some (case autopilot_of st of
         None \<Rightarrow> Some (ErrNew (msg @ ''no autopilot data was found in state''))
       | Some d \<Rightarrow> if ap_healthy d then None else Some (ErrNew (msg @ ''autopilot is not healthy'')))
   }"

text \<open>The first server of status \<open>leader\<close> in the order of the map decides.\<close>

fun autopilot_leader :: "string \<Rightarrow> autopilot_server option list \<Rightarrow> error go" where
  "autopilot_leader leader [] =
     Some (Some (ErrNew ''checking if vault has an autopilot leader: unable to find autopilot leader''))"
| "autopilot_leader leader (x # xs) = do {
     v \<leftarrow> deref x;
     (if as_status v = ''leader'' then
        Some (if as_name v \<noteq> leader
          then Some (ErrNew (''checking if vault has an autopilot leader: mismatch on leader, servers data has ''
                 @ as_name v @ '', data has '' @ leader))
          else None)
      else autopilot_leader leader xs)
   }"

definition check_autopilot_has_leader :: check_stater where
  "check_autopilot_has_leader s = do {
     st \<leftarrow> deref s;
     (case autopilot_of st of
        None \<Rightarrow> Some (Some (ErrNew
          ''checking if vault has an autopilot leader: no autopilot data was found in state''))
      | Some d \<Rightarrow> autopilot_leader (ap_leader d) (map snd (ap_servers d)))
   }"

subsection \<open>When the checks pass\<close>

lemma join_one [simp]: "join_errs [Some e] = Some (ErrJoin [e])" "join_errs [None, Some e] = Some (ErrJoin [e])"
  "join_errs [Some e, Some e'] = Some (ErrJoin [e, e'])"
  by (simp_all add: join_errs_def map_filter_simps)

lemma phase_errors_None:
  "phase_errors phase pods err = None \<longleftrightarrow> err = None \<and> (\<forall>p \<in> set pods. pod_phase p = phase)"
  by (induction phase pods err rule: phase_errors.induct) auto

lemma unready_None: "unready cs err = None \<longleftrightarrow> err = None \<and> (\<forall>c \<in> set cs. cs_ready c)"
  by (induction cs err rule: unready.induct) auto

lemma unready_fold_None:
  "fold (\<lambda>p. unready (pod_containers p)) pods err = None
    \<longleftrightarrow> err = None \<and> (\<forall>p \<in> set pods. \<forall>c \<in> set (pod_containers p). cs_ready c)"
  by (induction pods arbitrary: err) (auto simp: unready_None)

lemma count_ptr_eq: "count_ptr p (map Some xs) n = Some (n + count_if p xs)"
  by (induction xs arbitrary: n) (simp_all add: deref_def)

lemma count_ptr_nil: "count_ptr p xs n = None \<longleftrightarrow> None \<in> set xs"
  by (induction xs arbitrary: n) (auto simp: deref_def bind_eq_None_conv)

lemma any_ptr_eq: "any_ptr p (map Some xs) = Some (\<exists>x \<in> set xs. p x)"
  by (induction xs) (auto simp: deref_def)

lemma no_nil_map: "None \<notin> set xs \<Longrightarrow> \<exists>ys. xs = map Some ys"
  by (induction xs) (auto intro: exI [of _ "[]"], metis list.simps(9) not_None_eq)

lemma count_ptr_le: "count_ptr p xs n = Some k \<Longrightarrow> k \<le> n + length xs"
  by (induction xs arbitrary: n) (fastforce simp: deref_def bind_eq_Some_iff split: if_splits)+


lemma pods_phase_iff:
  "check_all_pods_have_phase phase s = Some None
    \<longleftrightarrow> pods_in s \<noteq> [] \<and> (\<forall>p \<in> set (pods_in s). pod_phase p = phase)"
proof -
  have "phase_errors phase (pods_in s) None = None \<longleftrightarrow> (\<forall>p \<in> set (pods_in s). pod_phase p = phase)"
    by (simp add: phase_errors_None)
  then show ?thesis
    by (cases "phase_errors phase (pods_in s) None")
      (simp_all add: check_all_pods_have_phase_def less_Suc_eq)
qed

text \<open>Pods of a namespace have different names, so a search finds the pod of the name.\<close>

lemma find_named:
  assumes "distinct (map f xs)" "x \<in> set xs"
  shows "find (\<lambda>y. f y = f x) xs = Some x"
  using assms by (induction xs) auto

lemma containers_ready_iff:
  "check_all_containers_ready s = Some None
    \<longleftrightarrow> pods_in s \<noteq> [] \<and> (\<forall>p \<in> set (pods_in s). \<forall>c \<in> set (pod_containers p). cs_ready c)"
proof -
  have "fold (\<lambda>p. unready (pod_containers p)) (pods_in s) None = None
      \<longleftrightarrow> (\<forall>p \<in> set (pods_in s). \<forall>c \<in> set (pod_containers p). cs_ready c)"
    by (simp add: unready_fold_None)
  then show ?thesis
    by (cases "fold (\<lambda>p. unready (pod_containers p)) (pods_in s) None")
      (simp_all add: check_all_containers_ready_def less_Suc_eq)
qed

lemma pod_containers_ready_iff:
  assumes "distinct (map pod_name (pods_in s))" "p \<in> set (pods_in s)"
  shows "check_all_pod_containers_ready (pod_name p) s = Some None
    \<longleftrightarrow> (\<forall>c \<in> set (pod_containers p). cs_ready c)"
proof -
  have "pods_in s \<noteq> []" using assms(2) by auto
  moreover have "unready (pod_containers p) None = None \<longleftrightarrow> (\<forall>c \<in> set (pod_containers p). cs_ready c)"
    by (simp add: unready_None)
  ultimately show ?thesis
    using find_named [OF assms]
    by (cases "unready (pod_containers p) None")
      (simp_all add: check_all_pod_containers_ready_def less_Suc_eq)
qed

definition with_autopilot :: "vault_state \<Rightarrow> autopilot_state \<Rightarrow> vault_state" where
  "with_autopilot st d = st\<lparr>st_autopilot_state := Some \<lparr>asr_data = Some d\<rparr>\<rparr>"

lemma check_leader_with_autopilot [simp]:
  "check_autopilot_has_leader (Some (with_autopilot st d)) = autopilot_leader (ap_leader d) (map snd (ap_servers d))"
  by (simp add: check_autopilot_has_leader_def with_autopilot_def autopilot_of_def deref_def)

lemma autopilot_leader_found:
  "autopilot_leader leader xs = Some None \<Longrightarrow> \<exists>v. Some v \<in> set xs \<and> as_status v = ''leader''"
  by (induction leader xs rule: autopilot_leader.induct)
    (auto simp: deref_def bind_eq_Some_iff split: if_splits)

lemma autopilot_leader_agrees:
  assumes "None \<notin> set xs" "\<exists>v. Some v \<in> set xs \<and> as_status v = ''leader''"
    and "\<And>v. Some v \<in> set xs \<Longrightarrow> as_status v = ''leader'' \<Longrightarrow> as_name v = leader"
  shows "autopilot_leader leader xs = Some None"
  using assms
proof (induction xs)
  case Nil
  then show ?case by simp
next
  case (Cons x xs)
  then obtain v where "x = Some v" by (cases x) auto
  then show ?case using Cons by (auto simp: deref_def)
qed

subsection \<open>Properties\<close>

text \<open>
  The seal state is known exactly when one of the checks for a sealed and for
  an unsealed node passes and the other does not, and the one for unsealed passes exactly
  when vault status, its exit code, sys/health, its code and sys/seal-status all say so.
\<close>

theorem seal_checks_partition:
  "(check_seal_state_known s = Some None
      \<longleftrightarrow> (check_is_sealed s = Some None) \<noteq> (check_is_unsealed s = Some None))
   \<and> (check_is_unsealed s = Some None
      \<longleftrightarrow> (\<exists>st v h r d. s = Some st \<and> st_status st = Some v \<and> st_health st = Some h
            \<and> st_seal_status st = Some r \<and> ss_data r = Some d
            \<and> vs_code v = StatusInitializedUnsealed \<and> \<not> vs_sealed v
            \<and> hs_status h \<notin> {HealthNotInitialized, HealthSealed} \<and> \<not> hs_sealed h \<and> \<not> sd_sealed d))"
proof
  show "check_seal_state_known s = Some None
      \<longleftrightarrow> (check_is_sealed s = Some None) \<noteq> (check_is_unsealed s = Some None)"
    by (cases "state_is_sealed s"; cases "snd (state_is_sealed s)")
      (auto simp: check_seal_state_known_def check_is_sealed_def check_is_unsealed_def split: bool.splits)
  have "check_is_unsealed s = Some None \<longleftrightarrow> state_is_sealed s = (False, None)"
    by (cases "state_is_sealed s"; cases "snd (state_is_sealed s)")
      (auto simp: check_is_unsealed_def split: bool.splits)
  also have "\<dots> \<longleftrightarrow> (\<exists>st. s = Some st \<and> state_is_sealed (Some st) = (False, None))"
    by (cases s) (auto simp: state_is_sealed_def)
  finally show "check_is_unsealed s = Some None
      \<longleftrightarrow> (\<exists>st v h r d. s = Some st \<and> st_status st = Some v \<and> st_health st = Some h
            \<and> st_seal_status st = Some r \<and> ss_data r = Some d
            \<and> vs_code v = StatusInitializedUnsealed \<and> \<not> vs_sealed v
            \<and> hs_status h \<notin> {HealthNotInitialized, HealthSealed} \<and> \<not> hs_sealed h \<and> \<not> sd_sealed d)"
    by (simp add: state_is_sealed_ok_iff status_is_sealed_ok_iff health_is_sealed_ok_iff) blast
qed

text \<open>
  C10: the check for a minimum of raft voters passes exactly when the state has a raft
  configuration whose servers are all there and enough of them vote, and then the check for
  as many servers passes too. A minimum of none does not excuse a missing configuration:
  the check panics.
\<close>

theorem min_raft_voters_iff:
  "(check_has_min_raft_voters n (Some st) = Some None
      \<longleftrightarrow> (\<exists>c vs. raft_of st = Some c \<and> rc_servers c = map Some vs \<and> n \<le> length (filter rv_voter vs)))
   \<and> (check_has_min_raft_voters n (Some st) = Some None
      \<longrightarrow> check_has_min_raft_servers n (Some st) = Some None)
   \<and> (raft_of st = None \<longrightarrow> check_has_min_raft_voters 0 (Some st) = None)"
proof (cases "raft_of st")
  case None
  then show ?thesis
    by (simp add: check_has_min_raft_voters_def deref_def Let_def)
next
  case (Some c)
  show ?thesis
  proof (cases "None \<in> set (rc_servers c)")
    case True
    then have "count_ptr rv_voter (rc_servers c) 0 = None" by (simp add: count_ptr_nil)
    then show ?thesis
      using Some True by (auto simp: check_has_min_raft_voters_def deref_def Let_def)
  next
    case False
    then obtain vs where vs: "rc_servers c = map Some vs" using no_nil_map by blast
    then show ?thesis
      using Some order.trans [OF _ length_filter_le [of rv_voter vs], of n]
      by (auto simp: check_has_min_raft_voters_def check_has_min_raft_servers_def deref_def Let_def
          count_ptr_eq count_if_filter inj_map_eq_map not_less)
  qed
qed

definition three_servers :: vault_state where
  "three_servers = new_state\<lparr>st_raft_config := Some \<lparr>rcr_data = Some \<lparr>rcd_config = Some
     (zero_raft_config\<lparr>rc_servers := [Some (zero_raft_server\<lparr>rv_voter := True\<rparr>), Some zero_raft_server,
        Some (zero_raft_server\<lparr>rv_voter := True\<rparr>)]\<rparr>)\<rparr>\<rparr>\<rparr>"

theorem min_raft_voters_iff_witness:
  "check_has_min_raft_servers 2 (Some three_servers) = Some None
   \<and> check_has_min_raft_voters 0 (Some new_state) = None"
proof
  have "\<exists>c vs. raft_of three_servers = Some c \<and> rc_servers c = map Some vs \<and> 2 \<le> length (filter rv_voter vs)"
    by (simp add: three_servers_def raft_of_def)
      (rule exI [of _ "[zero_raft_server\<lparr>rv_voter := True\<rparr>, zero_raft_server,
        zero_raft_server\<lparr>rv_voter := True\<rparr>]"], simp)
  then show "check_has_min_raft_servers 2 (Some three_servers) = Some None"
    using min_raft_voters_iff [of 2 three_servers] by blast
  show "check_has_min_raft_voters 0 (Some new_state) = None"
    using min_raft_voters_iff [of 0 new_state] by (simp add: raft_of_def new_state_def)
qed

text \<open>
  When the pods of the state have different names, the check of all of them is the
  check of each: for the phase and for the readiness of the containers. All of them fail, and
  none panics, when there is no pod.
\<close>

theorem all_pods_checks:
  assumes "distinct (map pod_name (pods_in s))"
  shows "(check_all_pods_have_phase phase s = Some None
      \<longleftrightarrow> pods_in s \<noteq> [] \<and> (\<forall>p \<in> set (pods_in s). check_pod_has_phase (pod_name p) phase s = Some None))
   \<and> (check_all_containers_ready s = Some None
      \<longleftrightarrow> pods_in s \<noteq> [] \<and> (\<forall>p \<in> set (pods_in s). check_all_pod_containers_ready (pod_name p) s = Some None))"
proof
  have "check_pod_has_phase (pod_name p) phase s = Some None \<longleftrightarrow> pod_phase p = phase"
    if "p \<in> set (pods_in s)" for p
  proof -
    have "pods_in s \<noteq> []" using that by auto
    then show ?thesis
      using find_named [OF assms that] by (simp add: check_pod_has_phase_def less_Suc_eq)
  qed
  then show "check_all_pods_have_phase phase s = Some None
      \<longleftrightarrow> pods_in s \<noteq> [] \<and> (\<forall>p \<in> set (pods_in s). check_pod_has_phase (pod_name p) phase s = Some None)"
    by (simp add: pods_phase_iff)
  show "check_all_containers_ready s = Some None
      \<longleftrightarrow> pods_in s \<noteq> [] \<and> (\<forall>p \<in> set (pods_in s). check_all_pod_containers_ready (pod_name p) s = Some None)"
    by (simp add: containers_ready_iff pod_containers_ready_iff [OF assms])
qed

definition two_pods :: vault_state where
  "two_pods = new_state\<lparr>st_pods := Some \<lparr>lp_pods = Some
     [\<lparr>pod_name = ''a'', pod_phase = ''Running'', pod_message = [], pod_reason = [],
       pod_containers = [\<lparr>cs_name = ''x'', cs_ready = True\<rparr>]\<rparr>,
      \<lparr>pod_name = ''b'', pod_phase = ''Running'', pod_message = [], pod_reason = [],
       pod_containers = [\<lparr>cs_name = ''y'', cs_ready = True\<rparr>, \<lparr>cs_name = ''z'', cs_ready = False\<rparr>]\<rparr>]\<rparr>\<rparr>"

theorem all_pods_checks_witness:
  "check_all_pods_have_phase ''Running'' (Some two_pods) = Some None
   \<and> check_all_containers_ready (Some two_pods) \<noteq> Some None"
  using all_pods_checks [of "Some two_pods" "''Running''"]
  by (simp add: two_pods_def new_state_def pods_in_def check_pod_has_phase_def
      check_all_pod_containers_ready_def Let_def)

text \<open>
  The check for an autopilot leader takes the first server of status leader in
  the order in which the map is visited. It passes in every order exactly when some server
  has that status and every one that has it is the leader the state names. With two of
  different names the outcome depends on the order.
\<close>

theorem autopilot_leader_orders:
  assumes "\<And>k x. (k, x) \<in> set (ap_servers d) \<Longrightarrow> x \<noteq> None"
  shows "(\<forall>m. mset m = mset (ap_servers d) \<longrightarrow>
        check_autopilot_has_leader (Some (with_autopilot st (d\<lparr>ap_servers := m\<rparr>))) = Some None)
      \<longleftrightarrow> (\<exists>k v. (k, Some v) \<in> set (ap_servers d) \<and> as_status v = ''leader'')
        \<and> (\<forall>k v. (k, Some v) \<in> set (ap_servers d) \<and> as_status v = ''leader'' \<longrightarrow> as_name v = ap_leader d)"
    (is "?all \<longleftrightarrow> ?some \<and> ?agree")
proof
  assume all: ?all
  have "?some"
  proof -
    have "autopilot_leader (ap_leader d) (map snd (ap_servers d)) = Some None"
      using all [rule_format, of "ap_servers d"] by simp
    then obtain v where "Some v \<in> set (map snd (ap_servers d))" "as_status v = ''leader''"
      by (metis autopilot_leader_found)
    then show ?thesis by fastforce
  qed
  moreover have "as_name v = ap_leader d"
    if "(k, Some v) \<in> set (ap_servers d)" "as_status v = ''leader''" for k v
    using all [rule_format, of "(k, Some v) # remove1 (k, Some v) (ap_servers d)"] that
    by (simp add: deref_def split: if_splits)
  ultimately show "?some \<and> ?agree" by blast
next
  assume names: "?some \<and> ?agree"
  show ?all
  proof (intro allI impI)
    fix m
    assume "mset m = mset (ap_servers d)"
    then have same: "set m = set (ap_servers d)" by (rule mset_eq_setD)
    have "autopilot_leader (ap_leader d) (map snd m) = Some None"
    proof (rule autopilot_leader_agrees)
      show "None \<notin> set (map snd m)" using assms same by fastforce
      show "\<exists>v. Some v \<in> set (map snd m) \<and> as_status v = ''leader''"
        using names same by (metis (no_types, lifting) image_eqI list.set_map snd_conv)
      show "\<And>v. Some v \<in> set (map snd m) \<Longrightarrow> as_status v = ''leader'' \<Longrightarrow> as_name v = ap_leader d"
        using names same by auto
    qed
    then show "check_autopilot_has_leader (Some (with_autopilot st (d\<lparr>ap_servers := m\<rparr>))) = Some None"
      by simp
  qed
qed

definition two_leaders :: autopilot_state where
  "two_leaders = zero_autopilot_state\<lparr>ap_leader := ''n1'', ap_servers :=
     [(''n1'', Some (zero_autopilot_server\<lparr>as_name := ''n1'', as_status := ''leader''\<rparr>)),
      (''n2'', Some (zero_autopilot_server\<lparr>as_name := ''n2'', as_status := ''leader''\<rparr>))]\<rparr>"

theorem autopilot_leader_orders_witness:
  "check_autopilot_has_leader (Some (with_autopilot new_state two_leaders)) = Some None
   \<and> (\<exists>m. mset m = mset (ap_servers two_leaders)
        \<and> check_autopilot_has_leader (Some (with_autopilot new_state (two_leaders\<lparr>ap_servers := m\<rparr>))) \<noteq> Some None)"
proof
  show "check_autopilot_has_leader (Some (with_autopilot new_state two_leaders)) = Some None"
    by (simp add: two_leaders_def deref_def)
  have "x \<noteq> None" if "(k, x) \<in> set (ap_servers two_leaders)" for k x
    using that by (auto simp: two_leaders_def)
  moreover have "(''n2'', Some (zero_autopilot_server\<lparr>as_name := ''n2'', as_status := ''leader''\<rparr>))
      \<in> set (ap_servers two_leaders)" "ap_leader two_leaders = ''n1''"
    by (simp_all add: two_leaders_def)
  ultimately show "\<exists>m. mset m = mset (ap_servers two_leaders)
      \<and> check_autopilot_has_leader (Some (with_autopilot new_state (two_leaders\<lparr>ap_servers := m\<rparr>))) \<noteq> Some None"
    using autopilot_leader_orders [of two_leaders new_state] by fastforce
qed

end
