(* ===== verification/VaultInit.thy ===== *)
theory VaultInit
  imports VaultChecks
begin

text \<open>
  Changing a Vault: initialize it (init.go), unseal it (unseal.go), set its license
  (license.go) and ask for its version (version.go), all of internal/remoteflight/vault.
  Both changes wait for a state before and after; what they wait for is in the lists of checks.
\<close>

subsection \<open>What both wait for\<close>

definition pod_running :: string where
  "pod_running = ''Running''"

text \<open>The checks that the transport adds: the unit for ssh, the pod for kubernetes.\<close>

definition process_checks :: "'w transport \<Rightarrow> check_stater list" where
  "process_checks tr =
     (if tr_type tr = ''ssh'' then [check_has_systemd_properties]
      else if tr_type tr = ''kubernetes'' then
        (case tr_k8s tr of None \<Rightarrow> [] | Some k \<Rightarrow> [check_pod_has_phase (k8s_pod k) pod_running])
      else [])"

subsection \<open>Initialize (init.go)\<close>

record 'w init_request =
  iq_state :: "'w state_request"
  iq_state_opts :: "'w state_opt list"
  iq_key_shares :: int
  iq_key_threshold :: int
  iq_pgp_keys :: "string list"
  iq_recovery_shares :: int
  iq_recovery_threshold :: int
  iq_recovery_pgp_keys :: "string list"
  iq_root_token_pgp_key :: string
  iq_consul_auto :: bool
  iq_consul_service :: string
  iq_stored_shares :: int

record init_response =
  ir_unseal_keys_b64 :: "string list"
  ir_unseal_keys_hex :: "string list"
  ir_unseal_shares :: string
  ir_unseal_threshold :: string
  ir_recovery_keys_b64 :: "string list"
  ir_recovery_keys_hex :: "string list"
  ir_recovery_keys_shares :: string
  ir_recovery_keys_threshold :: string
  ir_root_token :: string
  ir_prior_state :: "vault_state option"
  ir_post_state :: "vault_state option"

definition zero_init_response :: init_response where
  "zero_init_response = \<lparr>ir_unseal_keys_b64 = [], ir_unseal_keys_hex = [], ir_unseal_shares = [],
     ir_unseal_threshold = [], ir_recovery_keys_b64 = [], ir_recovery_keys_hex = [],
     ir_recovery_keys_shares = [], ir_recovery_keys_threshold = [], ir_root_token = [],
     ir_prior_state = None, ir_post_state = None\<rparr>"

text \<open>
  The two states have no tag, so members called PriorState and PostState would be decoded
  onto them; vault operator init writes none, and the decoder leaves them out.
\<close>

definition dec_init_response :: "init_response decoder" where
  "dec_init_response = dec_struct
     [field ''unseal_keys_b64'' (dec_slice [] dec_string) ir_unseal_keys_b64 ir_unseal_keys_b64_update,
      field ''unseal_keys_hex'' (dec_slice [] dec_string) ir_unseal_keys_hex ir_unseal_keys_hex_update,
      field ''unseal_shares'' dec_number ir_unseal_shares ir_unseal_shares_update,
      field ''unseal_threshold'' dec_number ir_unseal_threshold ir_unseal_threshold_update,
      field ''recovery_keys_b64'' (dec_slice [] dec_string) ir_recovery_keys_b64 ir_recovery_keys_b64_update,
      field ''recovery_keys_hex'' (dec_slice [] dec_string) ir_recovery_keys_hex ir_recovery_keys_hex_update,
      field ''recovery_keys_shares'' dec_number ir_recovery_keys_shares ir_recovery_keys_shares_update,
      field ''recovery_keys_threshold'' dec_number ir_recovery_keys_threshold ir_recovery_keys_threshold_update,
      field ''root_token'' dec_string ir_root_token ir_root_token_update]"

type_synonym 'w init_opt = "'w init_request \<Rightarrow> 'w init_request"

definition new_init_request :: "duration \<Rightarrow> 'w init_opt list \<Rightarrow> 'w init_request" where
  "new_init_request ovf opts =
     (let c = apply_opts opts
        \<lparr>iq_state = new_state_request ovf [], iq_state_opts = [], iq_key_shares = -1,
         iq_key_threshold = -1, iq_pgp_keys = [], iq_recovery_shares = -1,
         iq_recovery_threshold = -1, iq_recovery_pgp_keys = [], iq_root_token_pgp_key = [],
         iq_consul_auto = False, iq_consul_service = [], iq_stored_shares = -1\<rparr>
      in c\<lparr>iq_state := apply_opts (iq_state_opts c) (iq_state c)\<rparr>)"

definition with_init_state_opts :: "'w state_opt list \<Rightarrow> 'w init_opt" where
  "with_init_state_opts os u = u\<lparr>iq_state_opts := os\<rparr>"

definition with_init_key_shares :: "int \<Rightarrow> 'w init_opt" where
  "with_init_key_shares n u = u\<lparr>iq_key_shares := n\<rparr>"

definition with_init_key_threshold :: "int \<Rightarrow> 'w init_opt" where
  "with_init_key_threshold n u = u\<lparr>iq_key_threshold := n\<rparr>"

definition with_init_pgp_keys :: "string list \<Rightarrow> 'w init_opt" where
  "with_init_pgp_keys ks u = u\<lparr>iq_pgp_keys := ks\<rparr>"

definition with_init_recovery_shares :: "int \<Rightarrow> 'w init_opt" where
  "with_init_recovery_shares n u = u\<lparr>iq_recovery_shares := n\<rparr>"

definition with_init_recovery_threshold :: "int \<Rightarrow> 'w init_opt" where
  "with_init_recovery_threshold n u = u\<lparr>iq_recovery_threshold := n\<rparr>"

definition with_init_recovery_pgp_keys :: "string list \<Rightarrow> 'w init_opt" where
  "with_init_recovery_pgp_keys ks u = u\<lparr>iq_recovery_pgp_keys := ks\<rparr>"

definition with_init_root_token_pgp_key :: "string \<Rightarrow> 'w init_opt" where
  "with_init_root_token_pgp_key k u = u\<lparr>iq_root_token_pgp_key := k\<rparr>"

definition with_init_consul_auto :: "bool \<Rightarrow> 'w init_opt" where
  "with_init_consul_auto b u = u\<lparr>iq_consul_auto := b\<rparr>"

definition with_init_consul_service :: "string \<Rightarrow> 'w init_opt" where
  "with_init_consul_service s u = u\<lparr>iq_consul_service := s\<rparr>"

definition with_init_stored_shares :: "int \<Rightarrow> 'w init_opt" where
  "with_init_stored_shares n u = u\<lparr>iq_stored_shares := n\<rparr>"

definition init_validate :: "'w init_request \<Rightarrow> error" where
  "init_validate r =
     (if cli_bin (sq_cli (iq_state r)) = [] then Some (ErrNew ''no binary path has been supplied'')
      else if cli_addr (sq_cli (iq_state r)) = [] then Some (ErrNew ''to vault address has been supplied'')
      else if iq_stored_shares r \<noteq> -1 \<and> iq_stored_shares r \<noteq> iq_key_shares r then
        Some (ErrNew ''the number of stored shares must be equal to key shares'')
      else None)"

text \<open>The flags of the command: a number is left out when it is -1, a text when it is empty.\<close>

definition int_flag :: "string \<Rightarrow> int \<Rightarrow> string" where
  "int_flag name n = (if n \<noteq> -1 then '' -'' @ name @ ''='' @ show_int n else [])"

definition text_flag :: "string \<Rightarrow> string \<Rightarrow> string" where
  "text_flag name v = (if v \<noteq> [] then '' -'' @ name @ ''='' @ quoted v else [])"

definition list_flag :: "string \<Rightarrow> string list \<Rightarrow> string" where
  "list_flag name vs = (if vs \<noteq> [] then '' -'' @ name @ ''='' @ quoted (join_with '','' vs) else [])"

definition init_request_string :: "'w init_request option \<Rightarrow> string" where
  "init_request_string rp =
     (case rp of
        None \<Rightarrow> []
      | Some r \<Rightarrow>
          cli_bin (sq_cli (iq_state r)) @ '' operator init -format=json''
          @ int_flag ''key-shares'' (iq_key_shares r)
          @ int_flag ''key-threshold'' (iq_key_threshold r)
          @ list_flag ''pgp-keys'' (iq_pgp_keys r)
          @ int_flag ''recovery-shares'' (iq_recovery_shares r)
          @ int_flag ''recovery-threshold'' (iq_recovery_threshold r)
          @ list_flag ''recovery-pgp-keys'' (iq_recovery_pgp_keys r)
          @ text_flag ''root-token-pgp-key'' (iq_root_token_pgp_key r)
          @ (if iq_consul_auto r then '' -consul-auto=true'' else [])
          @ text_flag ''consul-service'' (iq_consul_service r)
          @ int_flag ''stored-shares'' (iq_stored_shares r))"

definition init_prior_checks :: "'w transport \<Rightarrow> check_stater list" where
  "init_prior_checks tr = check_seal_state_known # process_checks tr"

definition init_post_checks :: "'w transport \<Rightarrow> check_stater list" where
  "init_post_checks tr = [check_seal_state_known, check_is_initialized] @ process_checks tr"

text \<open>
  Running the command and decoding what it prints onto the response. The code decodes onto
  a pointer to the response pointer, so \<open>null\<close> makes that nil.
\<close>

definition run_init ::
  "'w transport \<Rightarrow> 'w init_request \<Rightarrow> init_response \<Rightarrow> 'w \<Rightarrow> (init_response option \<times> error) \<times> 'w" where
  "run_init tr req res w =
     (case tr_run tr (new_command (init_request_string (Some req))
             [with_env_var ''VAULT_ADDR'' (cli_addr (sq_cli (iq_state req)))]) w of
        ((out, serr, err), w1) \<Rightarrow>
          let err = (if out = [] then join_errs [err, Some (ErrNew ''init command did not return data'')] else err);
              err = (if serr \<noteq> [] then join_errs [err, Some (ErrNew
                       (''init command had unexpected write to STDERR: '' @ serr))] else err)
          in (case err of
                Some e \<Rightarrow> ((Some res, Some e), w1)
              | None \<Rightarrow>
                  (case unmarshal (dec_ptr zero_init_response dec_init_response) out (Some res) of
                     (res1, Some e) \<Rightarrow> ((res1, Some (ErrWrap ''deserialize JSON body of init: '' e [])), w1)
                   | (res1, None) \<Rightarrow> ((res1, None), w1))))"

definition init_await ::
  "embed_fs \<Rightarrow> 'w go_ctx \<Rightarrow> 'w transport \<Rightarrow> 'w init_request \<Rightarrow> init_response option \<Rightarrow> 'w
    \<Rightarrow> ((init_response option \<times> error) \<times> 'w init_request \<times> 'w) go" where
  "init_await fs ctx tr req resp w = do {
     ((post, err), sq, w1) \<leftarrow> wait_for_state fs ctx tr (iq_state req) (init_post_checks tr) w;
     res \<leftarrow> deref resp;
     Some ((Some (res\<lparr>ir_post_state := post\<rparr>),
       (case err of
          Some e \<Rightarrow> Some (ErrWrap ''waiting for vault cluster to be ready to be initialized: '' e [])
        | None \<Rightarrow> None)), req\<lparr>iq_state := sq\<rparr>, w1)
   }"

definition vault_init ::
  "embed_fs \<Rightarrow> 'w go_ctx \<Rightarrow> 'w transport \<Rightarrow> 'w init_request \<Rightarrow> 'w
    \<Rightarrow> ((init_response option \<times> error) \<times> 'w init_request \<times> 'w) go" where
  "vault_init fs ctx tr req w =
     (if cli_bin (sq_cli (iq_state req)) = [] then
        Some ((None, Some (ErrNew ''you must supply a vault bin path'')), req, w)
      else if cli_addr (sq_cli (iq_state req)) = [] then
        Some ((None, Some (ErrNew ''you must supply a vault listen address'')), req, w)
      else do {
        ((prior, err), sq, w1) \<leftarrow> wait_for_state fs ctx tr (iq_state req) (init_prior_checks tr) w;
        let res = zero_init_response\<lparr>ir_prior_state := prior\<rparr>;
        let req = req\<lparr>iq_state := sq\<rparr>;
        (case err of
           Some e \<Rightarrow> Some ((Some res, Some (ErrWrap
             ''waiting for vault cluster to be ready to initialize: '' e [])), req, w1)
         | None \<Rightarrow>
             if state_is_initialized prior = (True, None) then init_await fs ctx tr req (Some res) w1
             else
               (case run_init tr req res w1 of
                  ((resp, Some e), w2) \<Rightarrow> do {
                    ((post, err1), sq2, w3) \<leftarrow> get_state fs ctx tr (iq_state req) w2;
                    res1 \<leftarrow> deref resp;
                    Some ((Some (res1\<lparr>ir_post_state := post\<rparr>), join_errs [Some e, err1]),
                      req\<lparr>iq_state := sq2\<rparr>, w3)
                  }
                | ((resp, None), w2) \<Rightarrow> init_await fs ctx tr req resp w2))
      })"

subsection \<open>Unseal (unseal.go)\<close>

definition SealTypeShamir :: string where "SealTypeShamir = ''shamir''"

text \<open>The seals that unseal by themselves.\<close>

definition auto_seal_types :: "string list" where
  "auto_seal_types = [''alicloudkms'', ''awskms'', ''azurekeyvault'', ''gcpkms'', ''ocikms'',
     ''pkcs11'', ''transit'']"

record 'w unseal_request =
  uq_state :: "'w state_request"
  uq_state_opts :: "'w state_opt list"
  uq_seal_type :: string
  uq_unseal_keys :: "string list"

record unseal_response =
  ur_prior_state :: "vault_state option"
  ur_post_state :: "vault_state option"

type_synonym 'w unseal_opt = "'w unseal_request \<Rightarrow> 'w unseal_request"

definition new_unseal_request :: "duration \<Rightarrow> 'w unseal_opt list \<Rightarrow> 'w unseal_request" where
  "new_unseal_request ovf opts =
     (let c = apply_opts opts
        \<lparr>uq_state = new_state_request ovf [], uq_state_opts = [], uq_seal_type = [], uq_unseal_keys = []\<rparr>
      in c\<lparr>uq_state := apply_opts (uq_state_opts c) (uq_state c)\<rparr>)"

definition with_unseal_state_opts :: "'w state_opt list \<Rightarrow> 'w unseal_opt" where
  "with_unseal_state_opts os u = u\<lparr>uq_state_opts := os\<rparr>"

definition with_unseal_seal_type :: "string \<Rightarrow> 'w unseal_opt" where
  "with_unseal_seal_type t u = u\<lparr>uq_seal_type := t\<rparr>"

definition with_unseal_keys :: "string list \<Rightarrow> 'w unseal_opt" where
  "with_unseal_keys ks u = u\<lparr>uq_unseal_keys := ks\<rparr>"

definition unseal_prior_checks :: "'w transport \<Rightarrow> check_stater list" where
  "unseal_prior_checks tr = [check_is_initialized, check_seal_state_known] @ process_checks tr"

definition unseal_post_checks :: "'w transport \<Rightarrow> string \<Rightarrow> check_stater list" where
  "unseal_post_checks tr stype =
     [check_is_initialized, check_is_unsealed]
     @ (if stype = SealTypeShamir then [check_has_seal_type stype] else [])
     @ process_checks tr"

definition unseal_command :: "'w unseal_request \<Rightarrow> string \<Rightarrow> command" where
  "unseal_command req key =
     new_command (cli_bin (sq_cli (uq_state req)) @ '' operator unseal '' @ key @ '';'')
       [with_env_var ''VAULT_ADDR'' (cli_addr (sq_cli (uq_state req)))]"

definition key_words :: "string \<Rightarrow> nat \<Rightarrow> string \<Rightarrow> string" where
  "key_words msg i key = msg @ '' with key: ('' @ show_nat i @ '') '' @ key"

text \<open>
  The loop over the keys, from the key of index \<open>i\<close> on. It stops when the context is done or
  a command fails; the errors are those to join with that of the state read next.
\<close>

fun apply_keys ::
  "'w go_ctx \<Rightarrow> 'w transport \<Rightarrow> 'w unseal_request \<Rightarrow> nat \<Rightarrow> string list \<Rightarrow> 'w \<Rightarrow> goerr list \<times> 'w" where
  "apply_keys ctx tr req i [] w = ([], w)"
| "apply_keys ctx tr req i (key # keys) w =
     (case ctx_err ctx w of
        Some e \<Rightarrow> ([e, ErrNew (key_words ''timed out when unsealing'' i key)], w)
      | None \<Rightarrow>
          (case tr_run tr (unseal_command req key) w of
             ((_, serr, Some e), w1) \<Rightarrow>
               ([e, ErrNew (key_words ''failed unsealing'' i key @ '', stderr: '' @ nl # serr)], w1)
           | ((_, _, None), w1) \<Rightarrow> apply_keys ctx tr req (i + 1) keys w1))"

definition unseal_await ::
  "embed_fs \<Rightarrow> 'w go_ctx \<Rightarrow> 'w transport \<Rightarrow> 'w unseal_request \<Rightarrow> unseal_response \<Rightarrow> 'w
    \<Rightarrow> ((unseal_response option \<times> error) \<times> 'w unseal_request \<times> 'w) go" where
  "unseal_await fs ctx tr req res w = do {
     ((post, err), sq, w1) \<leftarrow>
       wait_for_state fs ctx tr (uq_state req) (unseal_post_checks tr (uq_seal_type req)) w;
     Some ((Some (res\<lparr>ur_post_state := post\<rparr>),
       (case err of
          Some e \<Rightarrow> Some (ErrWrap ''waiting for vault cluster to be ready to be unsealed: '' e [])
        | None \<Rightarrow> None)), req\<lparr>uq_state := sq\<rparr>, w1)
   }"

definition vault_unseal ::
  "embed_fs \<Rightarrow> 'w go_ctx \<Rightarrow> 'w transport \<Rightarrow> 'w unseal_request \<Rightarrow> 'w
    \<Rightarrow> ((unseal_response option \<times> error) \<times> 'w unseal_request \<times> 'w) go" where
  "vault_unseal fs ctx tr req w =
     (case ctx_err ctx w of
        Some e \<Rightarrow> Some ((None, Some e), req, w)
      | None \<Rightarrow>
      if cli_bin (sq_cli (uq_state req)) = [] then
        Some ((None, Some (ErrNew ''you must supply a vault bin path'')), req, w)
      else if cli_addr (sq_cli (uq_state req)) = [] then
        Some ((None, Some (ErrNew ''you must supply a vault listen address'')), req, w)
      else do {
        ((prior, err), sq, w1) \<leftarrow> wait_for_state fs ctx tr (uq_state req) (unseal_prior_checks tr) w;
        let res = \<lparr>ur_prior_state = prior, ur_post_state = None\<rparr>;
        let req = req\<lparr>uq_state := sq\<rparr>;
        (case err of
           Some e \<Rightarrow> Some ((Some res, Some (ErrWrap
             ''waiting for vault cluster to be ready to unseal: '' e [])), req, w1)
         | None \<Rightarrow>
        (case state_is_sealed prior of
           (_, Some e) \<Rightarrow> Some ((Some res, Some (ErrWrap
             ''checking vault seal status before unseal: '' e [])), req, w1)
         | (sealed, None) \<Rightarrow>
             if sealed \<and> uq_seal_type req = SealTypeShamir then
               (case apply_keys ctx tr req 0 (uq_unseal_keys req) w1 of
                  ([], w2) \<Rightarrow> unseal_await fs ctx tr req res w2
                | (errs, w2) \<Rightarrow> do {
                    ((post, err1), sq2, w3) \<leftarrow> get_state fs ctx tr (uq_state req) w2;
                    Some ((Some (res\<lparr>ur_post_state := post\<rparr>), join_errs (map Some errs @ [err1])),
                      req\<lparr>uq_state := sq2\<rparr>, w3)
                  })
             else if sealed \<and> uq_seal_type req \<notin> set auto_seal_types then
               Some ((Some res, Some (ErrNew (''unspported seal type: '' @ uq_seal_type req))), req, w1)
             else unseal_await fs ctx tr req res w1))
      })"

subsection \<open>License and version (license.go, version.go)\<close>

record legacy_license_request =
  lq_cli :: cli_request
  lq_path :: string
  lq_content :: string

type_synonym legacy_license_opt = "legacy_license_request \<Rightarrow> legacy_license_request"

definition new_legacy_license_request :: "legacy_license_opt list \<Rightarrow> legacy_license_request" where
  "new_legacy_license_request opts = apply_opts opts
     \<lparr>lq_cli = \<lparr>cli_addr = [], cli_token = [], cli_bin = []\<rparr>, lq_path = [], lq_content = []\<rparr>"

definition with_license_bin_path :: "string \<Rightarrow> legacy_license_opt" where
  "with_license_bin_path p u = u\<lparr>lq_cli := (lq_cli u)\<lparr>cli_bin := p\<rparr>\<rparr>"

definition with_license_addr :: "string \<Rightarrow> legacy_license_opt" where
  "with_license_addr a u = u\<lparr>lq_cli := (lq_cli u)\<lparr>cli_addr := a\<rparr>\<rparr>"

definition with_license_path :: "string \<Rightarrow> legacy_license_opt" where
  "with_license_path p u = u\<lparr>lq_path := p\<rparr>"

definition with_license_content :: "string \<Rightarrow> legacy_license_opt" where
  "with_license_content c u = u\<lparr>lq_content := c\<rparr>"

definition with_license_token :: "string \<Rightarrow> legacy_license_opt" where
  "with_license_token t u = u\<lparr>lq_cli := (lq_cli u)\<lparr>cli_token := t\<rparr>\<rparr>"

text \<open>
  \<open>read_file\<close> opens and reads a file of the machine the provider runs on. The content is
  put into the request.
\<close>

definition set_legacy_license ::
  "(string \<Rightarrow> 'w \<Rightarrow> (string \<times> error) \<times> 'w) \<Rightarrow> 'w transport \<Rightarrow> legacy_license_request \<Rightarrow> 'w
    \<Rightarrow> error \<times> legacy_license_request \<times> 'w" where
  "set_legacy_license read_file tr req w =
     (if lq_path req = [] \<and> lq_content req = [] then
        (Some (ErrNew ''you must provide a license path or content''), req, w)
      else
        (case (if lq_path req \<noteq> [] then read_file (lq_path req) w else ((lq_content req, None), w)) of
           ((_, Some e), w1) \<Rightarrow> (Some e, req, w1)
         | ((content, None), w1) \<Rightarrow>
             let req = req\<lparr>lq_content := content\<rparr> in
             (case tr_run tr (new_command
                   (cli_bin (lq_cli req) @ '' write /sys/license text='' @ quoted (lq_content req))
                   [with_env_vars [''VAULT_ADDR'' \<mapsto> cli_addr (lq_cli req),
                      ''VAULT_TOKEN'' \<mapsto> cli_token (lq_cli req)]]) w1 of
                ((_, serr, Some e), w2) \<Rightarrow> (Some (wrap_error_with e [serr]), req, w2)
              | ((_, _, None), w2) \<Rightarrow> (None, req, w2))))"

text \<open>
  The version of a binary. Its parser is that of a library, a parameter of the model:
  \<open>parse\<close> is \<open>semver.Make\<close> and \<open>zero\<close> the zero version.
\<close>

definition parse_vault_version :: "(string \<Rightarrow> 'v \<times> error) \<Rightarrow> 'v \<Rightarrow> string \<Rightarrow> 'v \<times> error" where
  "parse_vault_version parse zero version =
     (case split_on (CHR '' '') version of
        _ # part # _ \<Rightarrow>
          (case parse (dropWhile (\<lambda>c. c = CHR ''v'') part) of
             (ver, Some e) \<Rightarrow> (ver, Some (ErrNew (''failed to parse version from vault version '' @ part)))
           | (ver, None) \<Rightarrow> (ver, None))
      | _ \<Rightarrow> (zero, Some (ErrNew (''failed to parse version from vault version '' @ version))))"

definition vault_version ::
  "(string \<Rightarrow> 'v \<times> error) \<Rightarrow> 'v \<Rightarrow> 'w transport \<Rightarrow> 'w state_request \<Rightarrow> 'w \<Rightarrow> ('v \<times> error) \<times> 'w" where
  "vault_version parse zero tr req w =
     (case run_cmd tr (''sudo '' @ cli_bin (sq_cli req) @ '' version'') w of
        ((out, serr, Some e), w1) \<Rightarrow> ((zero, Some (wrap_error_with e [out, serr])), w1)
      | ((out, _, None), w1) \<Rightarrow>
          (parse_vault_version parse zero (filter (\<lambda>c. c \<noteq> nl) out), w1))"

subsection \<open>What success means\<close>

text \<open>Commands that ran one after the other without error.\<close>

fun ran_all :: "'w transport \<Rightarrow> command list \<Rightarrow> 'w \<Rightarrow> 'w \<Rightarrow> bool" where
  "ran_all tr [] w w' \<longleftrightarrow> w' = w"
| "ran_all tr (c # cs) w w' \<longleftrightarrow>
     (case tr_run tr c w of ((_, _, err), w1) \<Rightarrow> err = None \<and> ran_all tr cs w1 w')"

lemma apply_keys_ran:
  "apply_keys ctx tr req i keys w = ([], w') \<Longrightarrow> ran_all tr (map (unseal_command req) keys) w w'"
  by (induction keys arbitrary: i w) (auto split: option.splits prod.splits)

lemma check_is_initialized_iff:
  "check_is_initialized s = Some None \<longleftrightarrow> state_is_initialized s = (True, None)"
  by (cases "state_is_initialized s"; cases "snd (state_is_initialized s)")
    (auto simp: check_is_initialized_def split: bool.splits)

lemma check_is_unsealed_iff:
  "check_is_unsealed s = Some None \<longleftrightarrow> state_is_sealed s = (False, None)"
  by (cases "state_is_sealed s"; cases "snd (state_is_sealed s)")
    (auto simp: check_is_unsealed_def split: bool.splits)

lemma check_seal_state_known_iff:
  "check_seal_state_known s = Some None \<longleftrightarrow> (\<exists>b. state_is_sealed s = (b, None))"
  by (cases "state_is_sealed s"; cases "snd (state_is_sealed s)")
    (auto simp: check_seal_state_known_def)

lemma check_has_seal_type_iff:
  "check_has_seal_type t (Some st) = Some None
    \<longleftrightarrow> (\<exists>r d. st_seal_status st = Some r \<and> ss_data r = Some d \<and> sd_type d = t)"
  by (auto simp: check_has_seal_type_def deref_def seal_data_of_def bind_eq_Some_iff split: option.splits)

lemma wait_passes:
  assumes "wait_for_state fs ctx tr req checks w = Some ((sp, None), req', w')"
  obtains st where "sp = Some st" "\<And>c. c \<in> set checks \<Longrightarrow> c (Some st) = Some None"
  using wait_for_state_ok [OF assms] by blast

lemma init_await_ok:
  assumes "init_await fs ctx tr req resp w = Some ((out, None), req', w')"
  obtains res post where "resp = Some res" "out = Some (res\<lparr>ir_post_state := Some post\<rparr>)"
    "state_is_initialized (Some post) = (True, None)" "\<exists>b. state_is_sealed (Some post) = (b, None)"
proof -
  obtain sp sq where w: "wait_for_state fs ctx tr (iq_state req) (init_post_checks tr) w = Some ((sp, None), sq, w')"
    and r: "resp \<noteq> None" "out = Some ((the resp)\<lparr>ir_post_state := sp\<rparr>)"
    using assms by (auto simp: init_await_def deref_def bind_eq_Some_iff split: option.splits)
  from wait_passes [OF w] obtain post where post: "sp = Some post"
    "\<And>c. c \<in> set (init_post_checks tr) \<Longrightarrow> c (Some post) = Some None" by metis
  have "check_is_initialized (Some post) = Some None" "check_seal_state_known (Some post) = Some None"
    using post(2) by (simp_all add: init_post_checks_def)
  then show thesis
    using r post(1) by (intro that) (auto simp: check_is_initialized_iff check_seal_state_known_iff)
qed

lemma unseal_await_ok:
  assumes "unseal_await fs ctx tr req res w = Some ((out, None), req', w')"
  obtains post where "out = Some (res\<lparr>ur_post_state := Some post\<rparr>)"
    "\<And>c. c \<in> set (unseal_post_checks tr (uq_seal_type req)) \<Longrightarrow> c (Some post) = Some None"
proof -
  obtain sp sq where w: "wait_for_state fs ctx tr (uq_state req) (unseal_post_checks tr (uq_seal_type req)) w
      = Some ((sp, None), sq, w')" and r: "out = Some (res\<lparr>ur_post_state := sp\<rparr>)"
    using assms by (auto simp: unseal_await_def bind_eq_Some_iff split: option.splits)
  from wait_passes [OF w] r show thesis by (metis that)
qed

lemma run_init_ok_iff:
  "run_init tr req res w = ((resp, None), w') \<longleftrightarrow>
     (\<exists>out. tr_run tr (new_command (init_request_string (Some req))
          [with_env_var ''VAULT_ADDR'' (cli_addr (sq_cli (iq_state req)))]) w = ((out, [], None), w')
        \<and> out \<noteq> [] \<and> unmarshal (dec_ptr zero_init_response dec_init_response) out (Some res) = (resp, None))"
  by (auto simp: run_init_def Let_def join_errs_def map_filter_simps
      split: prod.splits option.splits if_splits)

definition demo_opts :: "nat state_opt list" where
  "demo_opts = [with_state_bin_path ''/vault'', with_state_addr ''http://v'', with_state_fc_use_home_dir]"

definition demo_init :: "nat init_request" where
  "demo_init = new_init_request 0 [with_init_state_opts demo_opts]"

definition demo_unseal :: "nat unseal_request" where
  "demo_unseal = new_unseal_request 0
     [with_unseal_state_opts demo_opts, with_unseal_seal_type ''shamir'', with_unseal_keys [''k'']]"

lemma demo_states:
  "iq_state demo_init = demo_request" "demo_init\<lparr>iq_state := demo_request\<rparr> = demo_init"
  "uq_state demo_unseal = demo_request" "demo_unseal\<lparr>uq_state := demo_request\<rparr> = demo_unseal"
  "uq_seal_type demo_unseal = ''shamir''" "uq_unseal_keys demo_unseal = [''k'']"
  by (simp_all add: demo_init_def demo_unseal_def new_init_request_def new_unseal_request_def
      with_init_state_opts_def with_unseal_state_opts_def with_unseal_seal_type_def with_unseal_keys_def
      demo_opts_def demo_request_def new_state_request_def with_state_bin_path_def with_state_addr_def
      with_state_fc_use_home_dir_def Let_def)

lemma fresh_checks:
  "check_seal_state_known (Some (fresh_state w)) = Some None"
  "0 < w \<Longrightarrow> check_is_initialized (Some (fresh_state w)) = Some None"
  "\<not> w < 2 \<Longrightarrow> check_is_unsealed (Some (fresh_state w)) = Some None"
  "check_has_seal_type ''shamir'' (Some (fresh_state w)) = Some None"
  by (simp_all add: check_seal_state_known_iff check_is_initialized_iff check_is_unsealed_iff
      fresh_questions check_has_seal_type_iff) (simp add: fresh_state_def life_seal_def)

lemma fresh_process_checks: "process_checks fresh_vault = []"
  by (simp add: process_checks_def fresh_vault_def)

lemma fresh_init_await:
  assumes "0 < w"
  shows "init_await demo_fs live_ctx fresh_vault demo_init (Some res) w
    = Some ((Some (res\<lparr>ir_post_state := Some (fresh_state w)\<rparr>), None), demo_init, w)"
  using assms
  by (simp add: init_await_def init_post_checks_def fresh_process_checks demo_states fresh_wait fresh_checks
      deref_def)

lemma demo_init_text:
  "parse_json ''{\"root_token\":\"t\"}'' = Some (JObj [(''root_token'', JStr ''t'')])"
  "init_request_string (Some demo_init) = ''/vault operator init -format=json''"
  by (simp add: json_text_defs) code_simp

lemma fresh_run_init:
  "run_init fresh_vault demo_init res 0 = ((Some (res\<lparr>ir_root_token := ''t''\<rparr>), None), 1)"
  by (simp add: run_init_def demo_init_text fresh_vault_def new_command_def with_env_var_def Let_def
      unmarshal_def dec_ptr_def dec_init_response_def find_field_def field_def)

lemma fresh_init:
  "vault_init demo_fs live_ctx fresh_vault demo_init 0
    = Some ((Some (zero_init_response\<lparr>ir_prior_state := Some (fresh_state 0), ir_root_token := ''t'',
        ir_post_state := Some (fresh_state 1)\<rparr>), None), demo_init, 1)"
  using fresh_init_await [of 1]
  by (simp add: vault_init_def demo_states fresh_commands init_prior_checks_def fresh_process_checks
      fresh_wait fresh_checks fresh_questions fresh_run_init)

lemma fresh_unseal:
  "vault_unseal demo_fs live_ctx fresh_vault demo_unseal 1
    = Some ((Some \<lparr>ur_prior_state = Some (fresh_state 1), ur_post_state = Some (fresh_state 2)\<rparr>, None),
        demo_unseal, 2)"
proof -
  have "apply_keys live_ctx fresh_vault demo_unseal 0 [''k''] 1 = ([], 2)"
    by (simp add: live_ctx_def unseal_command_def demo_states fresh_commands fresh_vault_def new_command_def
        with_env_var_def Let_def)
  moreover have "unseal_await demo_fs live_ctx fresh_vault demo_unseal res 2
      = Some ((Some (res\<lparr>ur_post_state := Some (fresh_state 2)\<rparr>), None), demo_unseal, 2)" for res
    by (simp add: unseal_await_def unseal_post_checks_def SealTypeShamir_def fresh_process_checks demo_states
        fresh_wait fresh_checks)
  ultimately show ?thesis
    by (simp add: vault_unseal_def live_ctx_def [THEN arg_cong [where f = ctx_err]] demo_states
        fresh_commands unseal_prior_checks_def fresh_process_checks fresh_wait fresh_checks fresh_questions
        SealTypeShamir_def)
qed

subsection \<open>Properties\<close>

text \<open>
  When Init returns without error, it waited for a state before whose seal state is
  known and for one after that is initialized. If the one before was initialized already, no
  keys are returned and none were made: nothing ran between the two waits. Otherwise the init
  command ran once, right after the first wait, without error and with nothing on standard
  error, and the response is what it printed.
\<close>

theorem vault_init_ok:
  assumes "vault_init fs ctx tr req w = Some ((out, None), req', w')"
  shows "\<exists>prior post w1 sq res. wait_for_state fs ctx tr (iq_state req) (init_prior_checks tr) w
        = Some ((Some prior, None), sq, w1)
    \<and> (\<exists>b. state_is_sealed (Some prior) = (b, None))
    \<and> out = Some (res\<lparr>ir_post_state := Some post\<rparr>)
    \<and> state_is_initialized (Some post) = (True, None) \<and> (\<exists>b. state_is_sealed (Some post) = (b, None))
    \<and> (if state_is_initialized (Some prior) = (True, None)
       then res = zero_init_response\<lparr>ir_prior_state := Some prior\<rparr>
         \<and> init_await fs ctx tr (req\<lparr>iq_state := sq\<rparr>) (Some res) w1 = Some ((out, None), req', w')
       else \<exists>w2 printed. tr_run tr (new_command (init_request_string (Some (req\<lparr>iq_state := sq\<rparr>)))
              [with_env_var ''VAULT_ADDR'' (cli_addr (sq_cli sq))]) w1 = ((printed, [], None), w2)
         \<and> unmarshal (dec_ptr zero_init_response dec_init_response) printed
             (Some (zero_init_response\<lparr>ir_prior_state := Some prior\<rparr>)) = (Some res, None)
         \<and> init_await fs ctx tr (req\<lparr>iq_state := sq\<rparr>) (Some res) w2 = Some ((out, None), req', w'))"
proof -
  obtain sp err sq w1 where wait: "wait_for_state fs ctx tr (iq_state req) (init_prior_checks tr) w
      = Some ((sp, err), sq, w1)"
    using assms by (auto simp: vault_init_def bind_eq_Some_iff split: if_splits)
  have "err = None"
    using assms wait by (cases err) (auto simp: vault_init_def Let_def split: if_splits)
  note wait = wait [unfolded this]
  from wait_passes [OF wait] obtain prior where prior: "sp = Some prior"
    "\<And>c. c \<in> set (init_prior_checks tr) \<Longrightarrow> c (Some prior) = Some None" by metis
  have known: "\<exists>b. state_is_sealed (Some prior) = (b, None)"
    using prior(2) [of check_seal_state_known] by (simp add: init_prior_checks_def check_seal_state_known_iff)
  let ?res = "zero_init_response\<lparr>ir_prior_state := Some prior\<rparr>" and ?req = "req\<lparr>iq_state := sq\<rparr>"
  have rest: "(if state_is_initialized (Some prior) = (True, None)
      then init_await fs ctx tr ?req (Some ?res) w1 = Some ((out, None), req', w')
      else \<exists>resp w2. run_init tr ?req ?res w1 = ((resp, None), w2)
        \<and> init_await fs ctx tr ?req resp w2 = Some ((out, None), req', w'))"
    using assms wait prior(1)
    by (auto simp: vault_init_def Let_def bind_eq_Some_iff split: if_splits option.splits prod.splits)
  show ?thesis
  proof (cases "state_is_initialized (Some prior) = (True, None)")
    case True
    then have a: "init_await fs ctx tr ?req (Some ?res) w1 = Some ((out, None), req', w')" using rest by simp
    from init_await_ok [OF a] obtain res post where p: "Some ?res = Some res"
      "out = Some (res\<lparr>ir_post_state := Some post\<rparr>)"
      "state_is_initialized (Some post) = (True, None)" "\<exists>b. state_is_sealed (Some post) = (b, None)" by metis
    have "res = ?res" using p(1) by simp
    then show ?thesis
      using wait prior(1) known True a p(2-4)
      by (intro exI [of _ prior] exI [of _ post] exI [of _ w1] exI [of _ sq] exI [of _ ?res])
        (simp only: if_True simp_thms)
  next
    case False
    then obtain resp w2 where r: "run_init tr ?req ?res w1 = ((resp, None), w2)"
      "init_await fs ctx tr ?req resp w2 = Some ((out, None), req', w')" using rest by auto
    from init_await_ok [OF r(2)] obtain res post where
      "resp = Some res" "out = Some (res\<lparr>ir_post_state := Some post\<rparr>)"
      "state_is_initialized (Some post) = (True, None)" "\<exists>b. state_is_sealed (Some post) = (b, None)" by metis
    moreover from this r(1) obtain printed where
      "tr_run tr (new_command (init_request_string (Some ?req))
         [with_env_var ''VAULT_ADDR'' (cli_addr (sq_cli sq))]) w1 = ((printed, [], None), w2)"
      "unmarshal (dec_ptr zero_init_response dec_init_response) printed (Some ?res) = (Some res, None)"
      unfolding run_init_ok_iff by auto
    moreover have "init_await fs ctx tr ?req (Some res) w2 = Some ((out, None), req', w')"
      using r(2) calculation(1) by simp
    ultimately show ?thesis
      using wait prior(1) known False
      by (intro exI [of _ prior] exI [of _ post] exI [of _ w1] exI [of _ sq] exI [of _ res])
        (simp only: if_False simp_thms, blast)
  qed
qed

theorem vault_init_ok_witness:
  "\<exists>printed w2. tr_run fresh_vault (new_command ''/vault operator init -format=json''
     [with_env_var ''VAULT_ADDR'' ''http://v'']) 0 = ((printed, [], None), w2)"
proof -
  have w: "wait_for_state demo_fs live_ctx fresh_vault (iq_state demo_init) (init_prior_checks fresh_vault) 0
      = Some ((Some (fresh_state 0), None), demo_request, 0)"
    by (simp add: init_prior_checks_def fresh_process_checks demo_states fresh_wait fresh_checks)
  from vault_init_ok [OF fresh_init] obtain prior sq w1 where
    a: "wait_for_state demo_fs live_ctx fresh_vault (iq_state demo_init) (init_prior_checks fresh_vault) 0
      = Some ((Some prior, None), sq, w1)"
    and b: "state_is_initialized (Some prior) \<noteq> (True, None) \<Longrightarrow> \<exists>printed w2.
      tr_run fresh_vault (new_command (init_request_string (Some (demo_init\<lparr>iq_state := sq\<rparr>)))
        [with_env_var ''VAULT_ADDR'' (cli_addr (sq_cli sq))]) w1 = ((printed, [], None), w2)"
    by (elim exE conjE) (simp split: if_splits, metis)
  have "prior = fresh_state 0" "sq = demo_request" "w1 = 0" using a w by simp_all
  with b show ?thesis by (simp add: fresh_questions demo_states demo_init_text fresh_commands)
qed

text \<open>
  When Unseal returns without error, the state before was initialized and its seal
  state known, and the state after is initialized and unsealed, of the shamir type when the
  request says so. Between the two waits every key was applied, in order and without error,
  when the state before was sealed and the request says shamir; otherwise nothing ran, and a
  sealed state has a seal that unseals by itself.
\<close>

theorem vault_unseal_ok:
  assumes "vault_unseal fs ctx tr req w = Some ((out, None), req', w')"
  shows "\<exists>prior post w1 w2 sq sealed. wait_for_state fs ctx tr (uq_state req) (unseal_prior_checks tr) w
        = Some ((Some prior, None), sq, w1)
    \<and> state_is_initialized (Some prior) = (True, None) \<and> state_is_sealed (Some prior) = (sealed, None)
    \<and> (if sealed \<and> uq_seal_type req = SealTypeShamir
       then ran_all tr (map (unseal_command (req\<lparr>uq_state := sq\<rparr>)) (uq_unseal_keys req)) w1 w2
       else w2 = w1 \<and> (sealed \<longrightarrow> uq_seal_type req \<in> set auto_seal_types))
    \<and> unseal_await fs ctx tr (req\<lparr>uq_state := sq\<rparr>) \<lparr>ur_prior_state = Some prior, ur_post_state = None\<rparr> w2
        = Some ((out, None), req', w')
    \<and> out = Some \<lparr>ur_prior_state = Some prior, ur_post_state = Some post\<rparr>
    \<and> state_is_initialized (Some post) = (True, None) \<and> state_is_sealed (Some post) = (False, None)
    \<and> (uq_seal_type req = SealTypeShamir \<longrightarrow>
         (\<exists>r d. st_seal_status post = Some r \<and> ss_data r = Some d \<and> sd_type d = SealTypeShamir))"
proof -
  obtain sp err sq w1 where wait: "wait_for_state fs ctx tr (uq_state req) (unseal_prior_checks tr) w
      = Some ((sp, err), sq, w1)"
    using assms by (auto simp: vault_unseal_def bind_eq_Some_iff split: if_splits option.splits)
  have "err = None"
    using assms wait by (cases err) (auto simp: vault_unseal_def Let_def split: if_splits option.splits)
  note wait = wait [unfolded this]
  from wait_passes [OF wait] obtain prior where prior: "sp = Some prior"
    "\<And>c. c \<in> set (unseal_prior_checks tr) \<Longrightarrow> c (Some prior) = Some None" by metis
  have known: "state_is_initialized (Some prior) = (True, None)" "\<exists>b. state_is_sealed (Some prior) = (b, None)"
    using prior(2) [of check_seal_state_known] prior(2) [of check_is_initialized]
    by (simp_all add: unseal_prior_checks_def check_seal_state_known_iff check_is_initialized_iff)
  then obtain sealed where sealed: "state_is_sealed (Some prior) = (sealed, None)" by blast
  let ?res = "\<lparr>ur_prior_state = Some prior, ur_post_state = None\<rparr>" and ?req = "req\<lparr>uq_state := sq\<rparr>"
  have "\<exists>w2. (if sealed \<and> uq_seal_type req = SealTypeShamir
        then apply_keys ctx tr ?req 0 (uq_unseal_keys req) w1 = ([], w2)
        else w2 = w1 \<and> (sealed \<longrightarrow> uq_seal_type req \<in> set auto_seal_types))
      \<and> unseal_await fs ctx tr ?req ?res w2 = Some ((out, None), req', w')"
    using assms wait prior(1) sealed
    by (auto simp: vault_unseal_def Let_def bind_eq_Some_iff
        split: if_splits option.splits prod.splits list.splits)
  then obtain w2 where w2: "if sealed \<and> uq_seal_type req = SealTypeShamir
        then ran_all tr (map (unseal_command ?req) (uq_unseal_keys req)) w1 w2
        else w2 = w1 \<and> (sealed \<longrightarrow> uq_seal_type req \<in> set auto_seal_types)"
      "unseal_await fs ctx tr ?req ?res w2 = Some ((out, None), req', w')"
    using apply_keys_ran by (metis (full_types))
  from unseal_await_ok [OF w2(2)] obtain post where post: "out = Some (?res\<lparr>ur_post_state := Some post\<rparr>)"
    "\<And>c. c \<in> set (unseal_post_checks tr (uq_seal_type req)) \<Longrightarrow> c (Some post) = Some None"
    by (metis unseal_request.select_convs(3) unseal_request.surjective unseal_request.update_convs(1))
  have checks: "state_is_initialized (Some post) = (True, None)" "state_is_sealed (Some post) = (False, None)"
    using post(2) [of check_is_initialized] post(2) [of check_is_unsealed]
    by (simp_all add: unseal_post_checks_def check_is_initialized_iff check_is_unsealed_iff)
  have stype: "\<exists>r d. st_seal_status post = Some r \<and> ss_data r = Some d \<and> sd_type d = SealTypeShamir"
    if "uq_seal_type req = SealTypeShamir"
    using post(2) [of "check_has_seal_type SealTypeShamir"] that
    by (simp add: unseal_post_checks_def check_has_seal_type_iff)
  have "out = Some \<lparr>ur_prior_state = Some prior, ur_post_state = Some post\<rparr>" using post(1) by simp
  with wait prior(1) known(1) sealed w2 checks stype show ?thesis by blast
qed

theorem vault_unseal_ok_witness:
  "\<exists>w2. ran_all fresh_vault (map (unseal_command demo_unseal) [''k'']) 1 w2"
proof -
  have "wait_for_state demo_fs live_ctx fresh_vault (uq_state demo_unseal) (unseal_prior_checks fresh_vault) 1
      = Some ((Some (fresh_state 1), None), demo_request, 1)"
    by (simp add: unseal_prior_checks_def fresh_process_checks demo_states fresh_wait fresh_checks)
  then show ?thesis
    using vault_unseal_ok [OF fresh_unseal]
    by (auto simp: fresh_questions demo_states SealTypeShamir_def)
qed

end
