(* ===== verification/Consul.thy ===== *)
theory Consul
  imports VaultChecks
begin

text \<open>
  A Consul node (\<open>internal/remoteflight/consul\<close>): the four readers over the HTTP API, the state
  made of what they read, WaitForState with its checks, the validation of configuration and
  license, and the version. A response is decoded from the body the flight control binary
  downloads; the readers share their shape with those of Vault, but leave at once when the
  context is done.
\<close>

subsection \<open>What the readers share\<close>

record consul_request =
  cq_fc_path :: string
  cq_addr :: string

definition default_consul_addr :: string where
  "default_consul_addr = ''http://127.0.0.1:8500''"

definition need_consul_addr :: "string \<Rightarrow> string \<times> string" where
  "need_consul_addr addr = (''you must supply a consul listen address'', addr)"

definition consul_download :: "string \<Rightarrow> string \<Rightarrow> string \<Rightarrow> string" where
  "consul_download path addr endpoint =
     path @ '' download --url '' @ quoted (addr @ endpoint) @ '' --stdout''"

definition consul_read ::
  "'w go_ctx \<Rightarrow> (string \<times> string) list \<Rightarrow> ('w \<Rightarrow> ('s \<times> error) \<times> 'w) \<Rightarrow> string \<Rightarrow> 'w
    \<Rightarrow> ('s option \<times> error) \<times> 'w" where
  "consul_read ctx mvs body final w =
     (case ctx_err ctx w of
        Some e \<Rightarrow> ((None, Some e), w)
      | None \<Rightarrow> read_with ctx mvs body (final_after final) w)"

definition consul_body :: "'w transport \<Rightarrow> string \<Rightarrow> 's decoder \<Rightarrow> 's \<Rightarrow> 'w \<Rightarrow> ('s \<times> error) \<times> 'w" where
  "consul_body tr text d res w =
     read_body tr (new_command text []) ''unexpected write to STDERR: ''
       ''no JSON body was written to STDOUT'' d res w"

text \<open>A slice that may be nil: \<open>null\<close> makes it so, an empty array does not.\<close>

definition dec_nil_slice :: "'s \<Rightarrow> 's decoder \<Rightarrow> 's list option decoder" where
  "dec_nil_slice zero d j p =
     (case j of
        JNull \<Rightarrow> (None, None)
      | JArr js \<Rightarrow> (case dec_elems zero d js of (xs, e) \<Rightarrow> (Some xs, e))
      | _ \<Rightarrow> (p, Some err_json_type))"

subsection \<open>The agent's host (agent\_host.go)\<close>

record agent_host =
  ah_hostname :: string
  ah_id :: string

definition zero_agent_host :: agent_host where
  "zero_agent_host = \<lparr>ah_hostname = [], ah_id = []\<rparr>"

record agent_host_response =
  ahr_host :: "agent_host option"

definition new_agent_host_response :: agent_host_response where
  "new_agent_host_response = \<lparr>ahr_host = Some zero_agent_host\<rparr>"

definition dec_agent_host :: "agent_host_response decoder" where
  "dec_agent_host = dec_struct
     [field ''Host'' (dec_ptr zero_agent_host (dec_struct
        [field ''hostname'' dec_string ah_hostname ah_hostname_update,
         field ''hostId'' dec_string ah_id ah_id_update]))
        ahr_host ahr_host_update]"

definition new_agent_host_request :: "(consul_request \<Rightarrow> consul_request) list \<Rightarrow> consul_request" where
  "new_agent_host_request opts =
     apply_opts opts \<lparr>cq_fc_path = default_flight_control_path, cq_addr = default_consul_addr\<rparr>"

definition with_agent_host_fc_path :: "string \<Rightarrow> consul_request \<Rightarrow> consul_request" where
  "with_agent_host_fc_path p u = u\<lparr>cq_fc_path := p\<rparr>"

definition with_agent_host_addr :: "string \<Rightarrow> consul_request \<Rightarrow> consul_request" where
  "with_agent_host_addr a u = u\<lparr>cq_addr := a\<rparr>"

definition agent_host_request_string :: "consul_request \<Rightarrow> string" where
  "agent_host_request_string r = consul_download (cq_fc_path r) (cq_addr r) ''/v1/agent/host''"

definition get_agent_host ::
  "'w go_ctx \<Rightarrow> 'w transport \<Rightarrow> consul_request \<Rightarrow> 'w \<Rightarrow> (agent_host_response option \<times> error) \<times> 'w" where
  "get_agent_host ctx tr req w =
     consul_read ctx [need_fc (cq_fc_path req), need_consul_addr (cq_addr req)]
       (consul_body tr (agent_host_request_string req) dec_agent_host new_agent_host_response)
       ''read /v1/agent/host'' w"

definition agent_hostname :: "agent_host_response option \<Rightarrow> string" where
  "agent_hostname r =
     (case r of
        None \<Rightarrow> []
      | Some a \<Rightarrow> (case ahr_host a of None \<Rightarrow> [] | Some h \<Rightarrow> ah_hostname h))"

subsection \<open>The node's health (health\_node.go)\<close>

record node_health =
  nh_node :: string
  nh_status :: string
  nh_output :: string
  nh_notes :: string

definition zero_node_health :: node_health where
  "zero_node_health = \<lparr>nh_node = [], nh_status = [], nh_output = [], nh_notes = []\<rparr>"

definition dec_node_health :: "node_health decoder" where
  "dec_node_health = dec_struct
     [field ''Node'' dec_string nh_node nh_node_update,
      field ''Status'' dec_string nh_status nh_status_update,
      field ''Output'' dec_string nh_output nh_output_update,
      field ''Notes'' dec_string nh_notes nh_notes_update]"

definition node_health_healthy :: string where
  "node_health_healthy = ''passing''"

text \<open>\<open>Nodes []*NodeHealth\<close>: the slice and each of its pointers may be nil.\<close>

type_synonym node_list = "node_health option list option"

definition dec_nodes :: "node_list decoder" where
  "dec_nodes = dec_nil_slice None (dec_ptr zero_node_health dec_node_health)"

record health_node_response =
  hnr_nodes :: node_list

record health_node_request = consul_request +
  hnq_node_name :: string

definition new_health_node_request ::
  "(health_node_request \<Rightarrow> health_node_request) list \<Rightarrow> health_node_request" where
  "new_health_node_request opts = apply_opts opts
     \<lparr>cq_fc_path = default_flight_control_path, cq_addr = default_consul_addr, hnq_node_name = []\<rparr>"

definition with_health_node_fc_path :: "string \<Rightarrow> health_node_request \<Rightarrow> health_node_request" where
  "with_health_node_fc_path p u = u\<lparr>cq_fc_path := p\<rparr>"

definition with_health_node_addr :: "string \<Rightarrow> health_node_request \<Rightarrow> health_node_request" where
  "with_health_node_addr a u = u\<lparr>cq_addr := a\<rparr>"

definition with_health_node_name :: "string \<Rightarrow> health_node_request \<Rightarrow> health_node_request" where
  "with_health_node_name n u = u\<lparr>hnq_node_name := n\<rparr>"

definition health_node_request_string :: "health_node_request \<Rightarrow> string" where
  "health_node_request_string r =
     consul_download (cq_fc_path r) (cq_addr r) (''/v1/health/node/'' @ hnq_node_name r)"

text \<open>The body is decoded onto the slice and not onto the response.\<close>

definition nodes_body ::
  "'w transport \<Rightarrow> string \<Rightarrow> (node_list \<Rightarrow> 'r) \<Rightarrow> 'w \<Rightarrow> ('r \<times> error) \<times> 'w" where
  "nodes_body tr text mk w =
     (case consul_body tr text dec_nodes (Some []) w of ((ns, e), w1) \<Rightarrow> ((mk ns, e), w1))"

definition get_health_node ::
  "'w go_ctx \<Rightarrow> 'w transport \<Rightarrow> health_node_request \<Rightarrow> 'w
    \<Rightarrow> (health_node_response option \<times> error) \<times> 'w" where
  "get_health_node ctx tr req w =
     consul_read ctx [need_fc (cq_fc_path req), need_consul_addr (cq_addr req),
         (''you must supply a node name'', hnq_node_name req)]
       (nodes_body tr (health_node_request_string req) (\<lambda>ns. \<lparr>hnr_nodes = ns\<rparr>))
       ''read /v1/health/node'' w"

text \<open>The method follows its receiver: on a nil element it panics.\<close>

definition node_health_string :: "node_health option \<Rightarrow> string go" where
  "node_health_string n = do {
     h \<leftarrow> deref n;
     Some (kv_opt ''Node'' (nh_node h) @ kv_opt ''Status'' (nh_status h)
       @ kv_opt ''Output'' (nh_output h) @ kv_opt ''Notes'' (nh_notes h))
   }"

definition health_node_string :: "health_node_response option \<Rightarrow> string go" where
  "health_node_string r =
     (case Option.bind r hnr_nodes of
        None \<Rightarrow> Some []
      | Some [] \<Rightarrow> Some []
      | Some (n # _) \<Rightarrow> node_health_string n)"

subsection \<open>The healthy nodes (health\_state\_passing.go)\<close>

record health_passing_response =
  hpr_nodes :: node_list

text \<open>There is no default address here.\<close>

definition new_health_passing_request ::
  "(consul_request \<Rightarrow> consul_request) list \<Rightarrow> consul_request" where
  "new_health_passing_request opts =
     apply_opts opts \<lparr>cq_fc_path = default_flight_control_path, cq_addr = []\<rparr>"

definition with_health_passing_fc_path :: "string \<Rightarrow> consul_request \<Rightarrow> consul_request" where
  "with_health_passing_fc_path p u = u\<lparr>cq_fc_path := p\<rparr>"

definition with_health_passing_addr :: "string \<Rightarrow> consul_request \<Rightarrow> consul_request" where
  "with_health_passing_addr a u = u\<lparr>cq_addr := a\<rparr>"

definition health_passing_request_string :: "consul_request \<Rightarrow> string" where
  "health_passing_request_string r =
     consul_download (cq_fc_path r) (cq_addr r) ''/v1/health/state/passing''"

definition get_health_passing ::
  "'w go_ctx \<Rightarrow> 'w transport \<Rightarrow> consul_request \<Rightarrow> 'w \<Rightarrow> (health_passing_response option \<times> error) \<times> 'w" where
  "get_health_passing ctx tr req w =
     consul_read ctx [need_fc (cq_fc_path req), need_consul_addr (cq_addr req)]
       (nodes_body tr (health_passing_request_string req) (\<lambda>ns. \<lparr>hpr_nodes = ns\<rparr>))
       ''read /v1/health/state/passing'' w"

text \<open>The strings of the elements of a slice, one after the other.\<close>

fun go_concat :: "('a \<Rightarrow> string go) \<Rightarrow> 'a list \<Rightarrow> string go" where
  "go_concat f [] = Some []"
| "go_concat f (x # xs) = do { s \<leftarrow> f x; r \<leftarrow> go_concat f xs; Some (s @ r) }"

definition health_passing_string :: "health_passing_response option \<Rightarrow> string go" where
  "health_passing_string r =
     (case Option.bind r hpr_nodes of
        None \<Rightarrow> Some []
      | Some [] \<Rightarrow> Some []
      | Some ns \<Rightarrow> do {
          body \<leftarrow> go_concat (\<lambda>n. map_option (indent ''  '') (node_health_string n)) ns;
          Some (''Healthy Nodes'' @ body)
        })"

subsection \<open>Raft (raft\_configuration.go)\<close>

record consul_server =
  csv_id :: string
  csv_node :: string
  csv_address :: string
  csv_leader :: bool
  csv_protocol_version :: string
  csv_voter :: bool

definition zero_consul_server :: consul_server where
  "zero_consul_server = \<lparr>csv_id = [], csv_node = [], csv_address = [], csv_leader = False,
     csv_protocol_version = [], csv_voter = False\<rparr>"

definition dec_consul_server :: "consul_server decoder" where
  "dec_consul_server = dec_struct
     [field ''ID'' dec_string csv_id csv_id_update,
      field ''Node'' dec_string csv_node csv_node_update,
      field ''Address'' dec_string csv_address csv_address_update,
      field ''Leader'' dec_bool csv_leader csv_leader_update,
      field ''ProtocolVersion'' dec_number csv_protocol_version csv_protocol_version_update,
      field ''Voter'' dec_bool csv_voter csv_voter_update]"

record consul_raft_response =
  crr_servers :: "consul_server option list option"

definition new_consul_raft_response :: consul_raft_response where
  "new_consul_raft_response = \<lparr>crr_servers = Some []\<rparr>"

definition dec_consul_raft :: "consul_raft_response decoder" where
  "dec_consul_raft = dec_struct
     [field ''Servers'' (dec_nil_slice None (dec_ptr zero_consul_server dec_consul_server))
        crr_servers crr_servers_update]"

definition new_consul_raft_request :: "(consul_request \<Rightarrow> consul_request) list \<Rightarrow> consul_request" where
  "new_consul_raft_request opts =
     apply_opts opts \<lparr>cq_fc_path = default_flight_control_path, cq_addr = default_consul_addr\<rparr>"

definition with_consul_raft_fc_path :: "string \<Rightarrow> consul_request \<Rightarrow> consul_request" where
  "with_consul_raft_fc_path p u = u\<lparr>cq_fc_path := p\<rparr>"

definition with_consul_raft_addr :: "string \<Rightarrow> consul_request \<Rightarrow> consul_request" where
  "with_consul_raft_addr a u = u\<lparr>cq_addr := a\<rparr>"

definition consul_raft_request_string :: "consul_request \<Rightarrow> string" where
  "consul_raft_request_string r =
     consul_download (cq_fc_path r) (cq_addr r) ''/v1/operator/raft/configuration''"

definition get_consul_raft ::
  "'w go_ctx \<Rightarrow> 'w transport \<Rightarrow> consul_request \<Rightarrow> 'w \<Rightarrow> (consul_raft_response option \<times> error) \<times> 'w" where
  "get_consul_raft ctx tr req w =
     consul_read ctx [need_fc (cq_fc_path req), need_consul_addr (cq_addr req)]
       (consul_body tr (consul_raft_request_string req) dec_consul_raft new_consul_raft_response)
       ''read /v1/operator/raft/configuruation'' w"

definition consul_server_string :: "consul_server option \<Rightarrow> string" where
  "consul_server_string s =
     (case s of
        None \<Rightarrow> []
      | Some v \<Rightarrow>
          kv ''Node'' (csv_node v) @ kv ''ID'' (csv_id v) @ kv ''Address'' (csv_address v)
          @ kv ''Leader'' (show_bool (csv_leader v))
          @ kv ''ProtocolVersion'' (csv_protocol_version v)
          @ kv ''Voter'' (show_bool (csv_voter v)))"

definition consul_raft_string :: "consul_raft_response option \<Rightarrow> string" where
  "consul_raft_string r =
     (case Option.bind r crr_servers of
        None \<Rightarrow> []
      | Some [] \<Rightarrow> []
      | Some ss \<Rightarrow> line ''Servers'' @ concat (map (\<lambda>s. indent ''  '' (consul_server_string s)) ss))"

subsection \<open>State (state.go)\<close>

record consul_state =
  cs_agent_host :: "agent_host_response option"
  cs_health_node :: "health_node_response option"
  cs_health_passing :: "health_passing_response option"
  cs_raft :: "consul_raft_response option"
  cs_unit_properties :: unit_properties

definition new_consul_state :: consul_state where
  "new_consul_state = \<lparr>cs_agent_host = None, cs_health_node = None, cs_health_passing = None,
     cs_raft = None, cs_unit_properties = []\<rparr>"

record consul_state_request =
  csq_fc_path :: string
  csq_fc_use_home_dir :: bool
  csq_unit :: string
  csq_addr :: string

type_synonym consul_state_opt = "consul_state_request \<Rightarrow> consul_state_request"

definition new_consul_state_request :: "consul_state_opt list \<Rightarrow> consul_state_request" where
  "new_consul_state_request opts = apply_opts opts
     \<lparr>csq_fc_path = default_flight_control_path, csq_fc_use_home_dir = False,
      csq_unit = ''consul'', csq_addr = default_consul_addr\<rparr>"

definition with_consul_state_fc_path :: "string \<Rightarrow> consul_state_opt" where
  "with_consul_state_fc_path p u = u\<lparr>csq_fc_path := p\<rparr>"

definition with_consul_state_fc_use_home_dir :: consul_state_opt where
  "with_consul_state_fc_use_home_dir u = u\<lparr>csq_fc_use_home_dir := True\<rparr>"

definition with_consul_state_unit :: "string \<Rightarrow> consul_state_opt" where
  "with_consul_state_unit n u = u\<lparr>csq_unit := n\<rparr>"

definition with_consul_state_addr :: "string \<Rightarrow> consul_state_opt" where
  "with_consul_state_addr a u = u\<lparr>csq_addr := a\<rparr>"

text \<open>The installation is asked for with a target request without retries of its own.\<close>

definition consul_fc_request :: "duration \<Rightarrow> consul_state_request \<Rightarrow> 'w install_fc_request" where
  "consul_fc_request ovf req = new_install_fc_request ovf
     (with_install_fc_target_request (Some (new_target_request ovf
          [with_target_request_retry_opts [with_max_retries 0]]))
      # (if csq_fc_use_home_dir req then [with_install_fc_use_home_dir]
         else [with_install_fc_path (csq_fc_path req)]))"

text \<open>The readings in turn; the first error ends them, with the state read so far.\<close>

definition consul_read_raft ::
  "'w go_ctx \<Rightarrow> 'w transport \<Rightarrow> string \<Rightarrow> consul_state_request \<Rightarrow> consul_state \<Rightarrow> 'w
    \<Rightarrow> (consul_state \<times> error) \<times> 'w" where
  "consul_read_raft ctx tr path req st w =
     (case get_consul_raft ctx tr (new_consul_raft_request
          [with_consul_raft_fc_path path, with_consul_raft_addr (csq_addr req)]) w of
        ((r, err), w1) \<Rightarrow> ((st\<lparr>cs_raft := r\<rparr>, err), w1))"

definition consul_read_passing ::
  "'w go_ctx \<Rightarrow> 'w transport \<Rightarrow> string \<Rightarrow> consul_state_request \<Rightarrow> consul_state \<Rightarrow> 'w
    \<Rightarrow> (consul_state \<times> error) \<times> 'w" where
  "consul_read_passing ctx tr path req st w =
     (case get_health_passing ctx tr (new_health_passing_request
          [with_health_passing_fc_path path, with_health_passing_addr (csq_addr req)]) w of
        ((r, Some e), w1) \<Rightarrow> ((st\<lparr>cs_health_passing := r\<rparr>, Some e), w1)
      | ((r, None), w1) \<Rightarrow> consul_read_raft ctx tr path req (st\<lparr>cs_health_passing := r\<rparr>) w1)"

definition consul_read_node ::
  "'w go_ctx \<Rightarrow> 'w transport \<Rightarrow> string \<Rightarrow> consul_state_request \<Rightarrow> consul_state \<Rightarrow> 'w
    \<Rightarrow> (consul_state \<times> error) \<times> 'w" where
  "consul_read_node ctx tr path req st w =
     (case get_health_node ctx tr (new_health_node_request
          [with_health_node_fc_path path, with_health_node_addr (csq_addr req),
           with_health_node_name (agent_hostname (cs_agent_host st))]) w of
        ((r, Some e), w1) \<Rightarrow> ((st\<lparr>cs_health_node := r\<rparr>, Some e), w1)
      | ((r, None), w1) \<Rightarrow> consul_read_passing ctx tr path req (st\<lparr>cs_health_node := r\<rparr>) w1)"

definition consul_read_api ::
  "'w go_ctx \<Rightarrow> 'w transport \<Rightarrow> string \<Rightarrow> consul_state_request \<Rightarrow> consul_state \<Rightarrow> 'w
    \<Rightarrow> (consul_state \<times> error) \<times> 'w" where
  "consul_read_api ctx tr path req st w =
     (case get_agent_host ctx tr (new_agent_host_request
          [with_agent_host_addr (csq_addr req), with_agent_host_fc_path path]) w of
        ((r, Some e), w1) \<Rightarrow> ((st\<lparr>cs_agent_host := r\<rparr>, Some e), w1)
      | ((r, None), w1) \<Rightarrow> consul_read_node ctx tr path req (st\<lparr>cs_agent_host := r\<rparr>) w1)"

definition consul_get_state ::
  "embed_fs \<Rightarrow> 'w go_ctx \<Rightarrow> 'w transport \<Rightarrow> consul_state_request \<Rightarrow> 'w
    \<Rightarrow> ((consul_state option \<times> error) \<times> 'w) go" where
  "consul_get_state fs ctx tr req w =
     (case ctx_err ctx w of
        Some e \<Rightarrow> Some ((None, Some e), w)
      | None \<Rightarrow> do {
          ((fc, err), w1) \<leftarrow>
            install_flight_control fs ctx tr (consul_fc_request (pow_overflow ctx) req) w;
          Some (case err of
              Some e \<Rightarrow> ((None, Some (ErrWrap
                ''installing enos-flight-control binary to get consul state: '' e [])), w1)
            | None \<Rightarrow>
                (case show_properties tr (csq_unit req) w1 of
                   ((props, Some e), w2) \<Rightarrow>
                     ((Some (new_consul_state\<lparr>cs_unit_properties := props\<rparr>),
                       Some (ErrWrap ''getting the systemd unit properties: '' e [])), w2)
                 | ((props, None), w2) \<Rightarrow>
                     (case consul_read_api ctx tr (fcr_path fc) req
                         (new_consul_state\<lparr>cs_unit_properties := props\<rparr>) w2 of
                        ((st, err), w3) \<Rightarrow> ((Some st, err), w3))))
        })"

type_synonym consul_check = "consul_state \<Rightarrow> error go"

fun consul_run_checks :: "consul_check list \<Rightarrow> consul_state \<Rightarrow> error go" where
  "consul_run_checks [] st = Some None"
| "consul_run_checks (c # cs) st = do {
     err \<leftarrow> c st;
     (case err of Some e \<Rightarrow> Some (Some e) | None \<Rightarrow> consul_run_checks cs st)
   }"

text \<open>The closure \<open>checkState\<close>; a nil pointer in the interface is \<open>Some None\<close>.\<close>

definition consul_check_state ::
  "embed_fs \<Rightarrow> 'w go_ctx \<Rightarrow> 'w transport \<Rightarrow> consul_state_request \<Rightarrow> consul_check list \<Rightarrow> 'w
    \<Rightarrow> ((consul_state option option \<times> error) \<times> 'w) go" where
  "consul_check_state fs ctx tr req checks w =
     (case ctx_err ctx w of
        Some e \<Rightarrow> Some ((None, Some e), w)
      | None \<Rightarrow> do {
          ((state, err), w1) \<leftarrow> consul_get_state fs ctx tr req w;
          (case err of
             Some e \<Rightarrow> Some ((Some state, Some e), w1)
           | None \<Rightarrow>
               if checks = [] then Some ((Some state, None), w1)
               else
                 (case state of
                    None \<Rightarrow> Some ((None, join_errs [None, Some (ErrNew ''no state data found'')]), w1)
                  | Some st \<Rightarrow> do {
                      err \<leftarrow> consul_run_checks checks st;
                      Some ((Some (Some st), err), w1)
                    }))
        })"

definition consul_wait_for_state ::
  "embed_fs \<Rightarrow> 'w go_ctx \<Rightarrow> 'w transport \<Rightarrow> consul_state_request \<Rightarrow> consul_check list \<Rightarrow> 'w
    \<Rightarrow> ((consul_state option \<times> error) \<times> 'w) go" where
  "consul_wait_for_state fs ctx tr req checks w = do {
     ((state, err), w1) \<leftarrow>
       (case new_retrier [with_interval_func (interval_duration (5 * second)),
               with_retrier_func (consul_check_state fs ctx tr req checks)] of
          (_, Some e) \<Rightarrow> Some ((None, Some e), w)
        | (r, None) \<Rightarrow> do {
            (out, _, w1) \<leftarrow> retry retrier_ops ctx r w;
            Some (out, w1)
          });
     let err = (case err of
            Some e \<Rightarrow> Some (ErrWrap ''waiting for consul to enter desired state: '' e [])
          | None \<Rightarrow> None);
     Some (((case state of None \<Rightarrow> None | Some st \<Rightarrow> st), err), w1)
   }"

text \<open>\<open>visit\<close> orders the properties as they are printed.\<close>

definition consul_state_string ::
  "(unit_properties \<Rightarrow> unit_properties) \<Rightarrow> consul_state \<Rightarrow> string go" where
  "consul_state_string visit s = do {
     node \<leftarrow> health_node_string (cs_health_node s);
     passing \<leftarrow> health_passing_string (cs_health_passing s);
     Some (line (''Agent Hostname: '' @ agent_hostname (cs_agent_host s))
       @ state_field node ''Node Health''
       @ state_field passing ''Healthy Nodes''
       @ state_field (consul_raft_string (cs_raft s)) ''Raft Configuration''
       @ (let props = (case find_properties (cs_unit_properties s) enabled_and_running_properties of
                  (_, Some e) \<Rightarrow> cs_unit_properties s
                | (found, None) \<Rightarrow> found)
          in state_field (props_string (visit props)) ''Systemd Unit Properties''))
   }"

subsection \<open>Checks (checks.go)\<close>

definition consul_has_systemd_properties :: consul_check where
  "consul_has_systemd_properties s =
     Some (case find_properties (cs_unit_properties s) enabled_and_running_properties of
         (_, Some e) \<Rightarrow>
           Some (ErrText ''expected consul systemd unit to be enabled and running, got: '' e [])
       | (props, None) \<Rightarrow>
           if \<not> has_properties props enabled_and_running_properties
           then Some (ErrNew (''expected consul system unit to be enabled and running, got: ''
                  @ props_string props))
           else None)"

definition consul_node_is_healthy :: consul_check where
  "consul_node_is_healthy s =
     (case Option.bind (cs_health_node s) hnr_nodes of
        None \<Rightarrow> Some (Some (ErrNew ''node health was not found in state''))
      | Some nodes \<Rightarrow>
          if length nodes \<noteq> 1 then
            Some (Some (ErrNew (''expected one node health node, got: '' @ show_nat (length nodes))))
          else do {
            p \<leftarrow> go_index nodes 0;
            n \<leftarrow> deref p;
            if nh_status n \<noteq> node_health_healthy then do {
              text \<leftarrow> node_health_string p;
              Some (Some (ErrNew (''expected node health status to be: '' @ node_health_healthy
                @ '', got: '' @ text)))
            } else Some None
          })"

definition consul_has_leader :: consul_check where
  "consul_has_leader s =
     (case Option.bind (cs_raft s) crr_servers of
        None \<Rightarrow> Some (Some (ErrNew ''no raft servers were found in state''))
      | Some servers \<Rightarrow> do {
          found \<leftarrow> any_ptr csv_leader servers;
          Some (if found then None
            else Some (ErrNew (''no raft servers are leader, got response: ''
                   @ consul_raft_string (cs_raft s))))
        })"

definition consul_has_min_healthy :: "nat \<Rightarrow> consul_check" where
  "consul_has_min_healthy n s =
     (case Option.bind (cs_health_passing s) hpr_nodes of
        None \<Rightarrow> Some (Some (ErrNew ''node health was not found in state''))
      | Some nodes \<Rightarrow> do {
          healthy \<leftarrow> count_ptr (\<lambda>h. nh_status h = node_health_healthy) nodes 0;
          if healthy \<ge> n then Some None
          else do {
            text \<leftarrow> health_passing_string (cs_health_passing s);
            Some (Some (ErrNew (''expected minimum of '' @ show_nat n @ '' healthy nodes, got ''
              @ show_nat healthy @ '', response: '' @ text)))
          }
        })"

definition consul_has_min_voters :: "nat \<Rightarrow> consul_check" where
  "consul_has_min_voters n s =
     (case Option.bind (cs_raft s) crr_servers of
        None \<Rightarrow> Some (Some (ErrNew ''no raft servers were found in state''))
      | Some servers \<Rightarrow> do {
          voters \<leftarrow> count_ptr csv_voter servers 0;
          Some (if voters \<ge> n then None
            else Some (ErrNew (''expected minimum of '' @ show_nat n @ '' raft voters, got ''
                   @ show_nat voters @ '', response: '' @ consul_raft_string (cs_raft s))))
        })"

subsection \<open>Validation (validate.go) and version (version.go)\<close>

record validate_file_request =
  vfr_bin :: string
  vfr_file :: string
  vfr_user :: string

definition new_validate_file_request ::
  "(validate_file_request \<Rightarrow> validate_file_request) list \<Rightarrow> validate_file_request" where
  "new_validate_file_request opts =
     apply_opts opts \<lparr>vfr_bin = [], vfr_file = [], vfr_user = ''consul''\<rparr>"

definition with_validate_bin_path :: "string \<Rightarrow> validate_file_request \<Rightarrow> validate_file_request" where
  "with_validate_bin_path p u = u\<lparr>vfr_bin := p\<rparr>"

definition with_validate_file_path :: "string \<Rightarrow> validate_file_request \<Rightarrow> validate_file_request" where
  "with_validate_file_path p u = u\<lparr>vfr_file := p\<rparr>"

definition with_validate_username :: "string \<Rightarrow> validate_file_request \<Rightarrow> validate_file_request" where
  "with_validate_username n u = u\<lparr>vfr_user := n\<rparr>"

text \<open>Run a command for its exit code only.\<close>

definition run_or_wrap :: "'w transport \<Rightarrow> string \<Rightarrow> 'w \<Rightarrow> error \<times> 'w" where
  "run_or_wrap tr text w =
     (case run_cmd tr text w of
        ((_, serr, Some e), w1) \<Rightarrow> (Some (wrap_error_with e [serr]), w1)
      | ((_, _, None), w1) \<Rightarrow> (None, w1))"

definition validate_consul_config :: "'w transport \<Rightarrow> validate_file_request \<Rightarrow> 'w \<Rightarrow> error \<times> 'w" where
  "validate_consul_config tr req w = run_or_wrap tr
     (''sudo -u '' @ vfr_user req @ '' '' @ vfr_bin req @ '' validate '' @ vfr_file req) w"

definition validate_consul_license :: "'w transport \<Rightarrow> validate_file_request \<Rightarrow> 'w \<Rightarrow> error \<times> 'w" where
  "validate_consul_license tr req w =
     (if vfr_file req = [] then (Some (ErrNew ''you must provide a license file path ''), w)
      else run_or_wrap tr (vfr_bin req @ '' license inspect '' @ vfr_file req) w)"

text \<open>\<open>parse\<close> is \<open>semver.Make\<close> and \<open>zero\<close> the zero version.\<close>

definition parse_consul_version :: "(string \<Rightarrow> 'v \<times> error) \<Rightarrow> 'v \<Rightarrow> string \<Rightarrow> 'v \<times> error" where
  "parse_consul_version parse zero version =
     (case split_on (CHR '' '') version of
        _ # part # _ \<Rightarrow>
          (case parse (dropWhile (\<lambda>c. c = CHR ''v'') part) of
             (ver, Some e) \<Rightarrow> (ver, Some (ErrNew (''failed to parse version from consul version '' @ part)))
           | (ver, None) \<Rightarrow> (ver, None))
      | _ \<Rightarrow> (zero, Some (ErrNew (''failed to parse version from consul version '' @ version))))"

definition consul_version ::
  "(string \<Rightarrow> 'v \<times> error) \<Rightarrow> 'v \<Rightarrow> 'w transport \<Rightarrow> string \<Rightarrow> 'w \<Rightarrow> ('v \<times> error) \<times> 'w" where
  "consul_version parse zero tr bin w =
     (case run_cmd tr (''sudo '' @ bin @ '' version'') w of
        ((out, serr, Some e), w1) \<Rightarrow> ((zero, Some (wrap_error_with e [out, serr])), w1)
      | ((out, _, None), w1) \<Rightarrow> (parse_consul_version parse zero out, w1))"

subsection \<open>What success means\<close>

lemma consul_read_ok_iff:
  "consul_read ctx mvs body final w = ((Some res, None), w1) \<longleftrightarrow>
     ctx_err ctx w = None \<and> (\<forall>(msg, val) \<in> set mvs. val \<noteq> []) \<and> body w = ((res, None), w1)"
  by (cases "ctx_err ctx w") (simp_all add: consul_read_def read_with_ok_iff)

lemma reader_consul_read:
  "reader (\<lambda>ctx tr req. consul_read ctx (mvs req) (body tr req) final)"
proof (unfold_locales, goal_cases)
  case (1 ctx tr req w res err w1)
  then show ?case
  proof (cases "ctx_err ctx w")
    case None
    with 1 have "read_with ctx (mvs req) (body tr req) (final_after final) w = ((res, err), w1)"
      by (simp add: consul_read_def)
    then show ?thesis by (rule read_with_nil_iff) simp
  next
    case (Some e)
    with 1 have "res = None" "err = Some e" by (simp_all add: consul_read_def)
    then show ?thesis by simp
  qed
next
  case (2 ctx w tr req)
  then show ?case by (auto simp: consul_read_def)
qed

interpretation agent_host_reader: reader get_agent_host
  unfolding get_agent_host_def [abs_def] by (rule reader_consul_read)

interpretation health_node_reader: reader get_health_node
  unfolding get_health_node_def [abs_def] by (rule reader_consul_read)

interpretation health_passing_reader: reader get_health_passing
  unfolding get_health_passing_def [abs_def] by (rule reader_consul_read)

interpretation consul_raft_reader: reader get_consul_raft
  unfolding get_consul_raft_def [abs_def] by (rule reader_consul_read)

text \<open>The requests GetState makes.\<close>

definition consul_api :: "string \<Rightarrow> consul_state_request \<Rightarrow> consul_request" where
  "consul_api path req = \<lparr>cq_fc_path = path, cq_addr = csq_addr req\<rparr>"

definition consul_node_api :: "string \<Rightarrow> consul_state_request \<Rightarrow> string \<Rightarrow> health_node_request" where
  "consul_node_api path req name = \<lparr>cq_fc_path = path, cq_addr = csq_addr req, hnq_node_name = name\<rparr>"

lemma consul_requests:
  "new_agent_host_request [with_agent_host_addr (csq_addr req), with_agent_host_fc_path path]
    = consul_api path req"
  "new_health_node_request [with_health_node_fc_path path, with_health_node_addr (csq_addr req),
     with_health_node_name name] = consul_node_api path req name"
  "new_health_passing_request [with_health_passing_fc_path path, with_health_passing_addr (csq_addr req)]
    = consul_api path req"
  "new_consul_raft_request [with_consul_raft_fc_path path, with_consul_raft_addr (csq_addr req)]
    = consul_api path req"
  by (simp_all add: consul_api_def consul_node_api_def new_agent_host_request_def
      new_health_node_request_def new_health_passing_request_def new_consul_raft_request_def
      with_agent_host_addr_def with_agent_host_fc_path_def with_health_node_fc_path_def
      with_health_node_addr_def with_health_node_name_def with_health_passing_fc_path_def
      with_health_passing_addr_def with_consul_raft_fc_path_def with_consul_raft_addr_def)

lemma consul_read_api_ok:
  assumes "consul_read_api ctx tr path req st w = ((st1, None), w')"
  shows "\<exists>a w3 n w4 p w5 r. get_agent_host ctx tr (consul_api path req) w = ((a, None), w3)
    \<and> get_health_node ctx tr (consul_node_api path req (agent_hostname a)) w3 = ((n, None), w4)
    \<and> get_health_passing ctx tr (consul_api path req) w4 = ((p, None), w5)
    \<and> get_consul_raft ctx tr (consul_api path req) w5 = ((r, None), w')
    \<and> st1 = st\<lparr>cs_agent_host := a, cs_health_node := n, cs_health_passing := p, cs_raft := r\<rparr>"
proof -
  from assms obtain a w3 where a: "get_agent_host ctx tr (consul_api path req) w = ((a, None), w3)"
    and 1: "consul_read_node ctx tr path req (st\<lparr>cs_agent_host := a\<rparr>) w3 = ((st1, None), w')"
    by (auto simp: consul_read_api_def consul_requests split: prod.splits option.splits)
  from 1 obtain n w4 where n: "get_health_node ctx tr (consul_node_api path req (agent_hostname a)) w3
      = ((n, None), w4)"
    and 2: "consul_read_passing ctx tr path req (st\<lparr>cs_agent_host := a, cs_health_node := n\<rparr>) w4
      = ((st1, None), w')"
    by (auto simp: consul_read_node_def consul_requests split: prod.splits option.splits)
  from 2 obtain p w5 where p: "get_health_passing ctx tr (consul_api path req) w4 = ((p, None), w5)"
    and 3: "consul_read_raft ctx tr path req
      (st\<lparr>cs_agent_host := a, cs_health_node := n, cs_health_passing := p\<rparr>) w5 = ((st1, None), w')"
    by (auto simp: consul_read_passing_def consul_requests split: prod.splits option.splits)
  from 3 obtain r where "get_consul_raft ctx tr (consul_api path req) w5 = ((r, None), w')"
    "st1 = st\<lparr>cs_agent_host := a, cs_health_node := n, cs_health_passing := p, cs_raft := r\<rparr>"
    by (auto simp: consul_read_raft_def consul_requests split: prod.splits)
  with a n p show ?thesis by blast
qed

lemma get_agent_host_ok:
  "get_agent_host ctx tr (consul_api path req) w = ((a, None), w') \<Longrightarrow> path \<noteq> [] \<and> (\<exists>r. a = Some r)"
  using agent_host_reader.nil_iff [of ctx tr "consul_api path req" w a None w']
  by (cases a) (auto simp: get_agent_host_def consul_read_ok_iff need_fc_def consul_api_def)

lemma get_health_node_ok:
  "get_health_node ctx tr (consul_node_api path req name) w = ((a, None), w')
    \<Longrightarrow> name \<noteq> [] \<and> (\<exists>r. a = Some r)"
  using health_node_reader.nil_iff [of ctx tr "consul_node_api path req name" w a None w']
  by (cases a) (auto simp: get_health_node_def consul_read_ok_iff consul_node_api_def)

lemma consul_get_state_ok:
  assumes "consul_get_state fs ctx tr req w = Some ((sp, None), w')"
  shows "\<exists>path w1 props w2 a w3 n w4 p w5 r.
    install_flight_control fs ctx tr (consul_fc_request (pow_overflow ctx) req) w
      = Some ((\<lparr>fcr_path = path\<rparr>, None), w1)
    \<and> show_properties tr (csq_unit req) w1 = ((props, None), w2)
    \<and> get_agent_host ctx tr (consul_api path req) w2 = ((Some a, None), w3)
    \<and> get_health_node ctx tr (consul_node_api path req (agent_hostname (Some a))) w3 = ((Some n, None), w4)
    \<and> get_health_passing ctx tr (consul_api path req) w4 = ((Some p, None), w5)
    \<and> get_consul_raft ctx tr (consul_api path req) w5 = ((Some r, None), w')
    \<and> path \<noteq> [] \<and> agent_hostname (Some a) \<noteq> []
    \<and> sp = Some \<lparr>cs_agent_host = Some a, cs_health_node = Some n, cs_health_passing = Some p,
        cs_raft = Some r, cs_unit_properties = props\<rparr>"
proof -
  obtain fc w1 where i: "install_flight_control fs ctx tr (consul_fc_request (pow_overflow ctx) req) w
      = Some ((fc, None), w1)"
    using assms by (auto simp: consul_get_state_def bind_eq_Some_iff split: option.splits prod.splits)
  obtain props w2 st where s: "show_properties tr (csq_unit req) w1 = ((props, None), w2)"
    and api: "consul_read_api ctx tr (fcr_path fc) req
      (new_consul_state\<lparr>cs_unit_properties := props\<rparr>) w2 = ((st, None), w')" and sp: "sp = Some st"
    using assms i by (auto simp: consul_get_state_def split: option.splits prod.splits)
  obtain path where path: "fc = \<lparr>fcr_path = path\<rparr>" by (cases fc) simp
  from consul_read_api_ok [OF api] obtain a w3 n w4 p w5 r where r:
    "get_agent_host ctx tr (consul_api path req) w2 = ((a, None), w3)"
    "get_health_node ctx tr (consul_node_api path req (agent_hostname a)) w3 = ((n, None), w4)"
    "get_health_passing ctx tr (consul_api path req) w4 = ((p, None), w5)"
    "get_consul_raft ctx tr (consul_api path req) w5 = ((r, None), w')"
    "st = new_consul_state\<lparr>cs_unit_properties := props, cs_agent_host := a, cs_health_node := n,
       cs_health_passing := p, cs_raft := r\<rparr>"
    by (auto simp: path)
  from get_agent_host_ok [OF r(1)] get_health_node_ok [OF r(2)]
  obtain a' n' where "a = Some a'" "n = Some n'" "path \<noteq> []" "agent_hostname a \<noteq> []" by blast
  moreover obtain p' r' where "p = Some p'" "r = Some r'"
    using health_passing_reader.nil_iff [OF r(3)] consul_raft_reader.nil_iff [OF r(4)] by blast
  ultimately show ?thesis
    using i s r sp path by (simp add: new_consul_state_def)
qed

lemma consul_run_checks_ok_iff:
  "consul_run_checks cs st = Some None \<longleftrightarrow> (\<forall>c \<in> set cs. c st = Some None)"
  by (induction cs) (auto simp: bind_eq_Some_iff split: option.splits)

lemma consul_check_state_ok:
  assumes "consul_check_state fs ctx tr req checks w = Some ((v, None), w')"
  shows "\<exists>st. v = Some (Some st) \<and> consul_get_state fs ctx tr req w = Some ((Some st, None), w')
    \<and> (\<forall>c \<in> set checks. c st = Some None)"
proof -
  obtain sp w1 where g: "consul_get_state fs ctx tr req w = Some ((sp, None), w1)"
    using assms by (auto simp: consul_check_state_def bind_eq_Some_iff split: option.splits)
  obtain st where "sp = Some st"
    using consul_get_state_ok [OF g] by (elim exE conjE) (rule that)
  have live: "ctx_err ctx w = None"
    using assms by (cases "ctx_err ctx w") (simp_all add: consul_check_state_def)
  have "v = Some (Some st) \<and> w1 = w' \<and> consul_run_checks checks st = Some None"
  proof (cases "checks = []")
    case True
    with assms g live \<open>sp = Some st\<close> show ?thesis by (simp add: consul_check_state_def)
  next
    case False
    with assms g live \<open>sp = Some st\<close> show ?thesis
      by (cases "consul_run_checks checks st") (simp_all add: consul_check_state_def)
  qed
  with g \<open>sp = Some st\<close> show ?thesis unfolding consul_run_checks_ok_iff by simp
qed

lemma consul_wait_ok:
  assumes "consul_wait_for_state fs ctx tr req checks w = Some ((sp, None), w')"
  shows "\<exists>st w1. sp = Some st \<and> ctx_err ctx w1 = None
    \<and> consul_get_state fs ctx tr req w1 = Some ((Some st, None), w')
    \<and> (\<forall>c \<in> set checks. c st = Some None)"
proof -
  let ?fn = "consul_check_state fs ctx tr req checks"
  obtain r where r: "new_retrier [with_interval_func (interval_duration (5 * second)),
      with_retrier_func ?fn] = (r, None)" "retry_func r = Some ?fn"
    using new_retrier_with_func [of "[with_interval_func (interval_duration (5 * second))]" ?fn]
    by (simp add: with_retrier_func_def)
  obtain v r' where run: "retry retrier_ops ctx r w = Some ((v, None), r', w')"
    and sp: "sp = (case v of None \<Rightarrow> None | Some st \<Rightarrow> st)"
  proof (cases "retry retrier_ops ctx r w")
    case None
    then show ?thesis using assms by (simp add: consul_wait_for_state_def r(1))
  next
    case (Some out)
    obtain v e r' w2 where out: "out = ((v, e), r', w2)" by (metis surj_pair)
    show ?thesis
      using assms Some by (cases e) (auto intro!: that simp: consul_wait_for_state_def r(1) out Let_def)
  qed
  obtain w1 where "ctx_err ctx w1 = None" "?fn w1 = Some ((v, None), w')"
    using retrier_ok_last [OF run r(2)] by blast
  with consul_check_state_ok [of fs ctx tr req checks w1 v w'] sp show ?thesis by auto
qed

lemma any_ptr_True: "any_ptr p xs = Some True \<Longrightarrow> \<exists>v. Some v \<in> set xs \<and> p v"
  by (induction xs) (auto simp: deref_def bind_eq_Some_iff split: if_splits)

text \<open>A counting loop counts when it meets no nil pointer.\<close>

lemma count_ptr_Some_iff:
  "count_ptr p xs n = Some m \<longleftrightarrow>
     None \<notin> set xs \<and> m = n + length (filter (\<lambda>x. p (the x)) xs)"
proof (induction xs arbitrary: n)
  case Nil
  show ?case by auto
next
  case (Cons x xs)
  then show ?case by (cases x) (auto simp: deref_def)
qed

lemma consul_node_is_healthy_iff:
  "consul_node_is_healthy st = Some None \<longleftrightarrow>
     (\<exists>r n. cs_health_node st = Some r \<and> hnr_nodes r = Some [Some n] \<and> nh_status n = ''passing'')"
proof (cases "Option.bind (cs_health_node st) hnr_nodes")
  case None
  then show ?thesis by (auto simp: consul_node_is_healthy_def)
next
  case (Some ns)
  consider "length ns \<noteq> 1" | x where "ns = [x]" by (cases ns rule: list.exhaust; cases "tl ns") auto
  then show ?thesis
  proof cases
    case 1
    with Some show ?thesis by (auto simp: consul_node_is_healthy_def bind_eq_Some_iff)
  next
    case (2 x)
    with Some show ?thesis
      by (cases x) (auto simp: consul_node_is_healthy_def bind_eq_Some_iff go_index_def deref_def
          node_health_healthy_def node_health_string_def split: if_splits)
  qed
qed

lemma consul_has_leader_iff:
  "consul_has_leader st = Some None \<longleftrightarrow>
     (\<exists>r ss. cs_raft st = Some r \<and> crr_servers r = Some ss \<and> any_ptr csv_leader ss = Some True)"
  by (cases "Option.bind (cs_raft st) crr_servers")
    (auto simp: consul_has_leader_def bind_eq_Some_iff split: if_splits)

lemma consul_has_min_healthy_iff:
  "consul_has_min_healthy n st = Some None \<longleftrightarrow>
     (\<exists>r ns. cs_health_passing st = Some r \<and> hpr_nodes r = Some ns \<and> None \<notin> set ns
        \<and> n \<le> length (filter (\<lambda>x. nh_status (the x) = ''passing'') ns))"
  by (cases "Option.bind (cs_health_passing st) hpr_nodes")
    (auto simp: consul_has_min_healthy_def bind_eq_Some_iff count_ptr_Some_iff
      node_health_healthy_def split: if_splits)

lemma consul_has_min_voters_iff:
  "consul_has_min_voters n st = Some None \<longleftrightarrow>
     (\<exists>r ss. cs_raft st = Some r \<and> crr_servers r = Some ss \<and> None \<notin> set ss
        \<and> n \<le> length (filter (\<lambda>x. csv_voter (the x)) ss))"
  by (cases "Option.bind (cs_raft st) crr_servers")
    (auto simp: consul_has_min_voters_def bind_eq_Some_iff count_ptr_Some_iff split: if_splits)

subsection \<open>A host with a Consul leader\<close>

definition consul_demo_request :: consul_state_request where
  "consul_demo_request = new_consul_state_request [with_consul_state_fc_use_home_dir]"

definition demo_fc :: string where
  "demo_fc = ''/h/enos-flight-control''"

definition consul_urls :: "(string \<times> string) list" where
  "consul_urls =
     [(agent_host_request_string (consul_api demo_fc consul_demo_request),
        ''{\"Host\":{\"hostname\":\"c\"}}''),
      (health_node_request_string (consul_node_api demo_fc consul_demo_request ''c''),
        ''[{\"Status\":\"passing\"}]''),
      (health_passing_request_string (consul_api demo_fc consul_demo_request),
        ''[{\"Status\":\"passing\"}]''),
      (consul_raft_request_string (consul_api demo_fc consul_demo_request),
        ''{\"Servers\":[{\"Leader\":true,\"Voter\":true}]}'')]"

definition consul_answer :: "string \<Rightarrow> string" where
  "consul_answer t =
     (case map_of (consul_urls @
          [(''uname -s'', ''Linux''), (''uname -m'', ''x86_64''), (''echo $HOME'', ''/h''),
           (''getent passwd consul'', ''consul:x:1:2::/opt/consul/data:/bin/false''),
           (show_cmd ''consul'', props_string enabled_and_running_properties)]) t of
        Some out \<Rightarrow> out | None \<Rightarrow> [])"

definition consul_host :: "nat transport" where
  "consul_host = mock_transport\<lparr>tr_type := ''ssh'',
     tr_run := (\<lambda>c w. ((consul_answer (cmd_text c), [], None), w))\<rparr>"

definition consul_demo_nodes :: node_list where
  "consul_demo_nodes = Some [Some (zero_node_health\<lparr>nh_status := ''passing''\<rparr>)]"

definition consul_demo_state :: consul_state where
  "consul_demo_state =
     \<lparr>cs_agent_host = Some \<lparr>ahr_host = Some (zero_agent_host\<lparr>ah_hostname := ''c''\<rparr>)\<rparr>,
      cs_health_node = Some \<lparr>hnr_nodes = consul_demo_nodes\<rparr>,
      cs_health_passing = Some \<lparr>hpr_nodes = consul_demo_nodes\<rparr>,
      cs_raft = Some \<lparr>crr_servers = Some
        [Some (zero_consul_server\<lparr>csv_leader := True, csv_voter := True\<rparr>)]\<rparr>,
      cs_unit_properties = enabled_and_running_properties\<rparr>"

lemma consul_texts:
  "parse_json ''{\"Host\":{\"hostname\":\"c\"}}'' = Some (JObj [(''Host'', JObj [(''hostname'', JStr ''c'')])])"
  "parse_json ''[{\"Status\":\"passing\"}]'' = Some (JArr [JObj [(''Status'', JStr ''passing'')]])"
  "parse_json ''{\"Servers\":[{\"Leader\":true,\"Voter\":true}]}'' = Some (JObj [(''Servers'',
     JArr [JObj [(''Leader'', JBool True), (''Voter'', JBool True)]])])"
  by (simp_all add: json_text_defs)

lemma consul_bodies:
  "unmarshal dec_agent_host ''{\"Host\":{\"hostname\":\"c\"}}'' new_agent_host_response
    = (the (cs_agent_host consul_demo_state), None)"
  "unmarshal dec_nodes ''[{\"Status\":\"passing\"}]'' (Some []) = (consul_demo_nodes, None)"
  "unmarshal dec_consul_raft ''{\"Servers\":[{\"Leader\":true,\"Voter\":true}]}'' new_consul_raft_response
    = (the (cs_raft consul_demo_state), None)"
  by (simp_all add: unmarshal_def consul_texts find_field_def field_def dec_agent_host_def dec_nodes_def
      dec_nil_slice_def dec_consul_raft_def dec_ptr_def dec_node_health_def dec_consul_server_def
      new_agent_host_response_def new_consul_raft_response_def consul_demo_state_def consul_demo_nodes_def
      to_lower_def lower_char_def)

lemma consul_answers:
  "consul_answer (agent_host_request_string (consul_api demo_fc consul_demo_request))
    = ''{\"Host\":{\"hostname\":\"c\"}}''"
  "consul_answer (health_node_request_string (consul_node_api demo_fc consul_demo_request ''c''))
    = ''[{\"Status\":\"passing\"}]''"
  "consul_answer (health_passing_request_string (consul_api demo_fc consul_demo_request))
    = ''[{\"Status\":\"passing\"}]''"
  "consul_answer (consul_raft_request_string (consul_api demo_fc consul_demo_request))
    = ''{\"Servers\":[{\"Leader\":true,\"Voter\":true}]}''"
  "consul_answer (show_cmd ''consul'') = props_string enabled_and_running_properties"
  "consul_answer ''uname -s'' = ''Linux''" "consul_answer ''uname -m'' = ''x86_64''"
  "consul_answer ''echo $HOME'' = ''/h''"
  "consul_answer ''getent passwd consul'' = ''consul:x:1:2::/opt/consul/data:/bin/false''"
  by code_simp+

lemma consul_live: "ctx_err live_ctx w = None" "pow_overflow live_ctx = 0"
  by (simp_all add: live_ctx_def)

lemma run_consul_host: "tr_run consul_host c w = ((consul_answer (cmd_text c), [], None), w)"
  by (simp add: consul_host_def)

lemma cmd_text_plain: "cmd_text (new_command t []) = t"
  by (simp add: new_command_def)

lemma consul_demo_api:
  "cq_fc_path (consul_api demo_fc consul_demo_request) \<noteq> []"
  "cq_addr (consul_api demo_fc consul_demo_request) \<noteq> []"
  "cq_fc_path (consul_node_api demo_fc consul_demo_request ''c'') \<noteq> []"
  "cq_addr (consul_node_api demo_fc consul_demo_request ''c'') \<noteq> []"
  "hnq_node_name (consul_node_api demo_fc consul_demo_request ''c'') \<noteq> []"
  by (simp_all add: consul_api_def consul_node_api_def demo_fc_def consul_demo_request_def
      new_consul_state_request_def with_consul_state_fc_use_home_dir_def default_consul_addr_def)

lemma quiet_consul_host: "quiet consul_host"
  by (simp add: quiet_def run_consul_host) (simp add: consul_host_def mock_transport_def)

lemma consul_host_install:
  "install_flight_control demo_fs live_ctx consul_host (consul_fc_request 0 consul_demo_request) w
    = Some ((\<lparr>fcr_path = demo_fc\<rparr>, None), w)"
proof (rule install_home_quiet [where sys = "''Linux''" and mach = "''x86_64''" and home = "''/h''"
      and binary = "''ELF''" and b = "fst (fc_installed consul_host demo_fc ''ELF'' w)"])
  show "quiet consul_host" by (rule quiet_consul_host)
  show "fc_binary demo_fs (format_platform ''Linux'') (format_arch ''x86_64'') = (''ELF'', None)"
    by (simp add: fresh_commands format_arch_def demo_fs_def fc_binary_def supported_target_def
        supported_targets_def binary_prefix_def has_prefix_def match_target_def word_char_def
        read_target_file_def embed_read_file_def Let_def)
qed (simp_all add: consul_fc_request_def new_install_fc_request_def with_install_fc_target_request_def
    with_install_fc_use_home_dir_def fresh_commands run_cmd_def run_consul_host consul_answers demo_fc_def
    cmd_text_plain consul_demo_request_def new_consul_state_request_def with_consul_state_fc_use_home_dir_def)

lemma consul_host_props:
  "show_properties consul_host ''consul'' w = ((enabled_and_running_properties, None), w)"
proof -
  have "printable_props enabled_and_running_properties"
    by (simp add: printable_props_def enabled_and_running_properties_def)
  moreover have "systemctl_string (unit_command ''consul'' SubCommandShow) = (show_cmd ''consul'', None)"
    by (simp add: systemctl_string_unit_command show_cmd_def)
  moreover have "props_string enabled_and_running_properties \<noteq> []"
    by (simp add: props_string_def enabled_and_running_properties_def line_def)
  ultimately show ?thesis
    by (simp add: show_properties_def run_systemctl_def run_consul_host consul_answers
        new_command_def with_env_vars_def decode_props_string Let_def)
qed

lemma consul_host_reads:
  "get_agent_host live_ctx consul_host (consul_api demo_fc consul_demo_request) w
    = ((cs_agent_host consul_demo_state, None), w)"
  "get_health_node live_ctx consul_host (consul_node_api demo_fc consul_demo_request ''c'') w
    = ((cs_health_node consul_demo_state, None), w)"
  "get_health_passing live_ctx consul_host (consul_api demo_fc consul_demo_request) w
    = ((cs_health_passing consul_demo_state, None), w)"
  "get_consul_raft live_ctx consul_host (consul_api demo_fc consul_demo_request) w
    = ((cs_raft consul_demo_state, None), w)"
  using consul_demo_api
  by (simp_all add: get_agent_host_def get_health_node_def get_health_passing_def get_consul_raft_def
      consul_read_def read_with_def consul_live needs_def need_def need_fc_def need_consul_addr_def
      consul_body_def nodes_body_def read_body_def run_consul_host cmd_text_plain consul_answers
      consul_bodies join_errs_def map_filter_simps)
    (simp_all add: consul_demo_state_def)

lemma consul_host_state:
  "consul_get_state demo_fs live_ctx consul_host consul_demo_request w
    = Some ((Some consul_demo_state, None), w)"
proof -
  have unit: "csq_unit consul_demo_request = ''consul''"
    by (simp add: consul_demo_request_def new_consul_state_request_def with_consul_state_fc_use_home_dir_def)
  have name: "agent_hostname (cs_agent_host consul_demo_state) = ''c''"
    by (simp add: agent_hostname_def consul_demo_state_def)
  show ?thesis
    by (simp add: consul_get_state_def consul_live consul_host_install unit consul_host_props
        consul_read_api_def consul_read_node_def consul_read_passing_def consul_read_raft_def
        consul_requests consul_host_reads name)
      (simp add: new_consul_state_def consul_demo_state_def)
qed

lemma consul_host_waits:
  assumes "\<And>c. c \<in> set checks \<Longrightarrow> c consul_demo_state = Some None"
  shows "consul_wait_for_state demo_fs live_ctx consul_host consul_demo_request checks w
    = Some ((Some consul_demo_state, None), w)"
proof -
  have "consul_run_checks checks consul_demo_state = Some None"
    using assms by (simp add: consul_run_checks_ok_iff)
  then show ?thesis
    by (simp add: consul_wait_for_state_def new_retrier_def retrier_opt_defs retry_def retry_loop.simps
        retrier_run_def consul_live consul_check_state_def consul_host_state)
qed

subsection \<open>Properties\<close>

text \<open>
  A state that GetState returns without error holds what one pass over the node
  read, in this order: the unit's properties, the agent's host, the health of the node of the
  name the agent's host gave (never an empty one), the healthy nodes and the raft
  configuration, each without error and with a response. The flight control binary was
  installed first, and in the home directory: GetState never succeeds otherwise.
\<close>

theorem consul_get_state_reads:
  assumes "consul_get_state fs ctx tr req w = Some ((sp, None), w')"
  shows "csq_fc_use_home_dir req \<and> (\<exists>path w1 props w2 a w3 n w4 p w5 r.
    install_flight_control fs ctx tr (consul_fc_request (pow_overflow ctx) req) w
      = Some ((\<lparr>fcr_path = path\<rparr>, None), w1)
    \<and> show_properties tr (csq_unit req) w1 = ((props, None), w2)
    \<and> get_agent_host ctx tr (consul_api path req) w2 = ((Some a, None), w3)
    \<and> get_health_node ctx tr (consul_node_api path req (agent_hostname (Some a))) w3 = ((Some n, None), w4)
    \<and> get_health_passing ctx tr (consul_api path req) w4 = ((Some p, None), w5)
    \<and> get_consul_raft ctx tr (consul_api path req) w5 = ((Some r, None), w')
    \<and> path \<noteq> [] \<and> agent_hostname (Some a) \<noteq> []
    \<and> sp = Some \<lparr>cs_agent_host = Some a, cs_health_node = Some n, cs_health_passing = Some p,
        cs_raft = Some r, cs_unit_properties = props\<rparr>)"
proof (rule conjI)
  show "csq_fc_use_home_dir req"
  proof (rule ccontr)
    assume no: "\<not> csq_fc_use_home_dir req"
    obtain path w1 where i: "install_flight_control fs ctx tr (consul_fc_request (pow_overflow ctx) req) w
        = Some ((\<lparr>fcr_path = path\<rparr>, None), w1)" and "path \<noteq> []"
      using consul_get_state_ok [OF assms] by (elim exE conjE) (rule that)
    have "\<not> fc_use_home_dir (consul_fc_request (pow_overflow ctx) req :: 'a install_fc_request)"
      using no by (simp add: consul_fc_request_def new_install_fc_request_def
          with_install_fc_target_request_def with_install_fc_path_def)
    from install_flight_control_no_path [OF i this] \<open>path \<noteq> []\<close> show False by simp
  qed
qed (rule consul_get_state_ok [OF assms])

theorem consul_get_state_reads_witness:
  "csq_fc_use_home_dir consul_demo_request \<and>
   (\<exists>path w1. install_flight_control demo_fs live_ctx consul_host
      (consul_fc_request (pow_overflow live_ctx) consul_demo_request) 0 = Some ((\<lparr>fcr_path = path\<rparr>, None), w1))"
  using consul_get_state_reads [OF consul_host_state [of 0]]
  by (elim conjE exE) (intro conjI exI)

text \<open>
  C13: when WaitForState is asked for a healthy node, a leader, n healthy nodes and m
  voters and returns without error, then the state it returns was read in one pass in the
  last attempt, and in it the node has exactly one health entry and it is passing, a raft
  server is the leader, at least n of the healthy nodes are passing and at least m of the
  raft servers vote, with no missing entry among them.
\<close>

theorem consul_cluster_ready:
  assumes "consul_wait_for_state fs ctx tr req checks w = Some ((sp, None), w')"
    and "{consul_node_is_healthy, consul_has_leader, consul_has_min_healthy n, consul_has_min_voters m}
      \<subseteq> set checks"
  shows "\<exists>st w1 node passing raft h ns ss l. sp = Some st
    \<and> consul_get_state fs ctx tr req w1 = Some ((Some st, None), w') \<and> ctx_err ctx w1 = None
    \<and> cs_health_node st = Some node \<and> hnr_nodes node = Some [Some h] \<and> nh_status h = ''passing''
    \<and> cs_health_passing st = Some passing \<and> hpr_nodes passing = Some (map Some ns)
    \<and> n \<le> length (filter (\<lambda>x. nh_status x = ''passing'') ns)
    \<and> cs_raft st = Some raft \<and> crr_servers raft = Some (map Some ss)
    \<and> l \<in> set ss \<and> csv_leader l \<and> m \<le> length (filter csv_voter ss)"
proof -
  obtain st w1 where st: "sp = Some st" "ctx_err ctx w1 = None"
    "consul_get_state fs ctx tr req w1 = Some ((Some st, None), w')"
    and checks: "\<And>c. c \<in> set checks \<Longrightarrow> c st = Some None"
    using consul_wait_ok [OF assms(1)] by blast
  have ok: "consul_node_is_healthy st = Some None" "consul_has_leader st = Some None"
    "consul_has_min_healthy n st = Some None" "consul_has_min_voters m st = Some None"
    using assms(2) checks by auto
  obtain node h where node: "cs_health_node st = Some node" "hnr_nodes node = Some [Some h]"
    "nh_status h = ''passing''"
    using ok(1) unfolding consul_node_is_healthy_iff by blast
  obtain passing ns0 where passing: "cs_health_passing st = Some passing" "hpr_nodes passing = Some ns0"
    "None \<notin> set ns0" "n \<le> length (filter (\<lambda>x. nh_status (the x) = ''passing'') ns0)"
    using ok(3) unfolding consul_has_min_healthy_iff by blast
  obtain raft ss0 where raft: "cs_raft st = Some raft" "crr_servers raft = Some ss0"
    "None \<notin> set ss0" "m \<le> length (filter (\<lambda>x. csv_voter (the x)) ss0)"
    using ok(4) unfolding consul_has_min_voters_iff by blast
  obtain l where l: "Some l \<in> set ss0" "csv_leader l"
    using ok(2) raft(1,2) any_ptr_True [of csv_leader ss0] unfolding consul_has_leader_iff by auto
  have "ns0 = map Some (map the ns0)" "ss0 = map Some (map the ss0)"
    using passing(3) raft(3) by (simp_all add: map_idI comp_def) (metis map_idI option.exhaust_sel)+
  then obtain ns ss where "ns0 = map Some ns" "ss0 = map Some ss" by blast
  with st node passing raft l show ?thesis
    by (intro exI [of _ st] exI [of _ w1] exI [of _ node] exI [of _ passing] exI [of _ raft]
        exI [of _ h] exI [of _ ns] exI [of _ ss] exI [of _ l])
      (auto simp: filter_map comp_def)
qed

theorem consul_cluster_ready_witness:
  "\<exists>st. consul_wait_for_state demo_fs live_ctx consul_host consul_demo_request
     [consul_node_is_healthy, consul_has_leader, consul_has_min_healthy 1, consul_has_min_voters 1] 0
       = Some ((Some st, None), 0)
   \<and> (\<exists>raft. cs_raft st = Some raft)"
proof -
  have ok: "c consul_demo_state = Some None" if "c \<in> set [consul_node_is_healthy, consul_has_leader,
      consul_has_min_healthy 1, consul_has_min_voters 1]" for c
    using that by (auto simp: consul_demo_state_def consul_demo_nodes_def consul_node_is_healthy_iff
        consul_has_leader_iff consul_has_min_healthy_iff consul_has_min_voters_iff deref_def)
  have w: "consul_wait_for_state demo_fs live_ctx consul_host
      consul_demo_request [consul_node_is_healthy, consul_has_leader, consul_has_min_healthy 1,
      consul_has_min_voters 1] 0 = Some ((Some consul_demo_state, None), 0)"
    by (rule consul_host_waits) (rule ok)
  from consul_cluster_ready [OF w, of 1 1] obtain raft where "cs_raft consul_demo_state = Some raft"
    by auto
  with w show ?thesis by blast
qed

end
