(* ===== verification/User.thy ===== *)
theory User
  imports Target
begin

text \<open>
  System users (\<open>internal/remoteflight/user.go\<close>): reading an entry of the user database, the
  three ways of finding a user, creating one and bringing one to a specification. The fields
  of a user are pointers to strings and the code compares the pointers, so they have an
  address here. Addresses are given out in order; \<open>brk\<close> is the first one not in use.
\<close>

subsection \<open>Users and pointers\<close>

datatype 'a ptr = Ptr (addr: nat) (pointee: 'a)

text \<open>\<open>p == q\<close> on pointers.\<close>

definition ptr_eq :: "'a ptr option \<Rightarrow> 'a ptr option \<Rightarrow> bool" where
  "ptr_eq p q \<longleftrightarrow> map_option addr p = map_option addr q"

record user =
  us_name :: "string ptr option"
  us_home_dir :: "string ptr option"
  us_shell :: "string ptr option"
  us_gid :: "string ptr option"
  us_uid :: "string ptr option"

type_synonym user_opt = "user \<Rightarrow> user"

definition no_user :: user where
  "no_user = \<lparr>us_name = None, us_home_dir = None, us_shell = None, us_gid = None, us_uid = None\<rparr>"

definition new_user :: "user_opt list \<Rightarrow> user" where
  "new_user opts = apply_opts opts no_user"

text \<open>An option keeps the address of its own parameter.\<close>

definition with_user_name :: "string ptr \<Rightarrow> user_opt" where
  "with_user_name p u = u\<lparr>us_name := Some p\<rparr>"

definition with_user_home_dir :: "string ptr \<Rightarrow> user_opt" where
  "with_user_home_dir p u = u\<lparr>us_home_dir := Some p\<rparr>"

definition with_user_shell :: "string ptr \<Rightarrow> user_opt" where
  "with_user_shell p u = u\<lparr>us_shell := Some p\<rparr>"

definition with_user_gid :: "string ptr \<Rightarrow> user_opt" where
  "with_user_gid p u = u\<lparr>us_gid := Some p\<rparr>"

definition with_user_uid :: "string ptr \<Rightarrow> user_opt" where
  "with_user_uid p u = u\<lparr>us_uid := Some p\<rparr>"

definition same_field :: "string ptr option \<Rightarrow> string ptr option \<Rightarrow> bool" where
  "same_field other u \<longleftrightarrow> other = None \<or> ptr_eq other u"

definition has_same_set_properties :: "user option \<Rightarrow> user option \<Rightarrow> bool" where
  "has_same_set_properties u other =
     (case other of
        None \<Rightarrow> True
      | Some o' \<Rightarrow>
          (case u of
             None \<Rightarrow> False
           | Some v \<Rightarrow>
               same_field (us_name o') (us_name v) \<and> same_field (us_home_dir o') (us_home_dir v)
               \<and> same_field (us_shell o') (us_shell v) \<and> same_field (us_gid o') (us_gid v)
               \<and> same_field (us_uid o') (us_uid v)))"

subsection \<open>Finding a user\<close>

text \<open>The pointers are those to the elements of the slice of parts, which is new.\<close>

definition decode_passwd_line :: "string \<Rightarrow> nat \<Rightarrow> (user option \<times> error) \<times> nat" where
  "decode_passwd_line text brk =
     (if text = [] then ((None, Some (ErrNew ''cannot decode blank /etc/passwd line'')), brk)
      else
        (let parts = split_on (CHR '':'') text;
             part = (\<lambda>i. Some (Ptr (brk + i) (parts ! i))) in
         if length parts < 7 then
           ((None, Some (ErrNew (''malformed /etc/passwd entry: expected 7 fields, got ''
              @ show_nat (length parts)))), brk)
         else
           ((Some \<lparr>us_name = part 0, us_home_dir = part 5, us_shell = part 6, us_gid = part 3,
               us_uid = part 2\<rparr>, None), brk + length parts)))"

type_synonym 'w user_result = "((user option \<times> error) \<times> nat) \<times> 'w"

definition find_user_get_ent :: "'w transport \<Rightarrow> string \<Rightarrow> nat \<Rightarrow> 'w \<Rightarrow> 'w user_result" where
  "find_user_get_ent tr name brk w =
     (case run_cmd tr (''getent passwd '' @ name) w of
        ((text, serr, Some e), w1) \<Rightarrow>
          (((None, Some (ErrWrap (''finding user '' @ name @ '', getent passwd '' @ name @ '': '') e
             ('': '' @ serr))), brk), w1)
      | ((text, serr, None), w1) \<Rightarrow> (decode_passwd_line text brk, w1))"

text \<open>The command is the path itself and not a command that reads it.\<close>

definition find_user_passwd :: "'w transport \<Rightarrow> string \<Rightarrow> nat \<Rightarrow> 'w \<Rightarrow> 'w user_result" where
  "find_user_passwd tr name brk w =
     (case run_cmd tr ''/etc/passwd'' w of
        ((passwd, serr, Some e), w1) \<Rightarrow>
          (((None, Some (ErrWrap (''finding user '' @ name
             @ '', attempting to read contents of /etc/passwd: '') e ('': '' @ serr))), brk), w1)
      | ((passwd, serr, None), w1) \<Rightarrow>
          (case List.find (\<lambda>l. has_prefix l name) (scan_lines passwd) of
             Some l \<Rightarrow> (decode_passwd_line l brk, w1)
           | None \<Rightarrow>
               (((None, (case scan_err passwd of
                   Some e \<Rightarrow> Some (ErrWrap ''reading /etc/password: '' e [])
                 | None \<Rightarrow> Some (ErrNew (''could not find user '' @ name)))), brk), w1)))"

text \<open>The new pointers are to the parameter and to the two answers.\<close>

definition find_user_id :: "'w transport \<Rightarrow> string \<Rightarrow> nat \<Rightarrow> 'w \<Rightarrow> 'w user_result" where
  "find_user_id tr name brk w =
     (let user = no_user\<lparr>us_name := Some (Ptr brk name)\<rparr> in
      case run_cmd tr (''id -u '' @ name) w of
        ((uid, serr, Some e), w1) \<Rightarrow>
          (((Some user, Some (wrap_error_with e [''attempting to get '' @ name @ '' uid'', serr])),
            brk + 1), w1)
      | ((uid, serr, None), w1) \<Rightarrow>
          (let user = user\<lparr>us_uid := Some (Ptr (brk + 1) uid)\<rparr> in
           case run_cmd tr (''id -g '' @ name) w1 of
             ((gid, serr, Some e), w2) \<Rightarrow>
               (((Some user, Some (wrap_error_with e [''attempting to get '' @ name @ '' gid'', serr])),
                 brk + 2), w2)
           | ((gid, serr, None), w2) \<Rightarrow>
               (((Some (user\<lparr>us_gid := Some (Ptr (brk + 2) gid)\<rparr>), None), brk + 3), w2)))"

definition find_user :: "'w transport \<Rightarrow> string \<Rightarrow> nat \<Rightarrow> 'w \<Rightarrow> 'w user_result" where
  "find_user tr name brk w =
     (case find_user_get_ent tr name brk w of
        (((user, None), brk), w1) \<Rightarrow> (((user, None), brk), w1)
      | (((_, Some e0), brk), w1) \<Rightarrow>
     (case find_user_passwd tr name brk w1 of
        (((user, None), brk), w2) \<Rightarrow> (((user, None), brk), w2)
      | (((_, Some e1), brk), w2) \<Rightarrow>
     (case find_user_id tr name brk w2 of
        (((user, None), brk), w3) \<Rightarrow> (((user, None), brk), w3)
      | (((_, Some e2), brk), w3) \<Rightarrow>
          (((None, join_errs [join_errs [Some e0, Some e1], Some e2]), brk), w3))))"

subsection \<open>Creating and updating a user\<close>

definition flag_opt :: "string \<Rightarrow> string ptr option \<Rightarrow> string" where
  "flag_opt flag p = (case p of None \<Rightarrow> [] | Some v \<Rightarrow> flag @ pointee v)"

definition useradd_command :: "user \<Rightarrow> string ptr \<Rightarrow> string" where
  "useradd_command u name =
     ''sudo useradd -m --system'' @ flag_opt '' --home '' (us_home_dir u)
     @ flag_opt '' --shell '' (us_shell u) @ flag_opt '' --uid '' (us_uid u)
     @ (case us_gid u of None \<Rightarrow> '' -U'' | Some g \<Rightarrow> '' --gid '' @ pointee g)
     @ '' '' @ pointee name"

definition create_user :: "'w transport \<Rightarrow> user option \<Rightarrow> nat \<Rightarrow> 'w \<Rightarrow> 'w user_result" where
  "create_user tr user brk w =
     (case Option.bind user us_name of
        None \<Rightarrow> (((None, Some (ErrNew ''invalid user: you must supply a username'')), brk), w)
      | Some name \<Rightarrow>
          (case run_cmd tr (useradd_command (the user) name) w of
             ((out, serr, Some e), w1) \<Rightarrow> (((None, Some (wrap_error_with e [serr, out])), brk), w1)
           | ((_, _, None), w1) \<Rightarrow> find_user tr (pointee name) brk w1))"

text \<open>One of the four updates: \<open>usermod\<close> with a flag when the field is set and not the same pointer.\<close>

definition usermod_command :: "string \<Rightarrow> string ptr \<Rightarrow> string ptr \<Rightarrow> string" where
  "usermod_command flag val name =
     ''sudo usermod '' @ flag @ '' '' @ pointee val @ '' '' @ pointee name"

definition usermod ::
  "'w transport \<Rightarrow> string \<Rightarrow> string ptr \<Rightarrow> string ptr option \<Rightarrow> string ptr option \<Rightarrow> 'w \<Rightarrow> error \<times> 'w" where
  "usermod tr flag name want have w =
     (case want of
        None \<Rightarrow> (None, w)
      | Some val \<Rightarrow>
          if ptr_eq want have then (None, w)
          else
            (case run_cmd tr (usermod_command flag val name) w of
               ((out, serr, Some e), w1) \<Rightarrow> (Some (wrap_error_with e [serr, out]), w1)
             | ((_, _, None), w1) \<Rightarrow> (None, w1)))"

fun usermods ::
  "'w transport \<Rightarrow> string ptr \<Rightarrow> (string \<times> string ptr option \<times> string ptr option) list \<Rightarrow> 'w \<Rightarrow> error \<times> 'w" where
  "usermods tr name [] w = (None, w)"
| "usermods tr name ((flag, want, have) # fs) w =
     (case usermod tr flag name want have w of
        (Some e, w1) \<Rightarrow> (Some e, w1)
      | (None, w1) \<Rightarrow> usermods tr name fs w1)"

definition create_or_update_user :: "'w transport \<Rightarrow> user option \<Rightarrow> nat \<Rightarrow> 'w \<Rightarrow> 'w user_result" where
  "create_or_update_user tr want brk w =
     (case Option.bind want us_name of
        None \<Rightarrow> (((None, Some (ErrNew ''update user: invalid update specification'')), brk), w)
      | Some name \<Rightarrow>
          (case find_user tr (pointee name) brk w of
             (((_, Some _), brk), w1) \<Rightarrow> create_user tr want brk w1
           | (((have, None), brk), w1) \<Rightarrow>
               if has_same_set_properties want have then (((have, None), brk), w1)
               else
                 (let u = the want; h = the have in
                  case usermods tr name
                    [(''-d'', us_home_dir u, us_home_dir h), (''-s'', us_shell u, us_shell h),
                     (''-u'', us_uid u, us_uid h), (''-g'', us_gid u, us_gid h)] w1 of
                    (Some e, w2) \<Rightarrow> (((None, Some e), brk), w2)
                  | (None, w2) \<Rightarrow> find_user tr (pointee name) brk w2)))"

subsection \<open>Lemmas\<close>

lemma run_cmd_logged:
  "run_cmd (logged tr) c (w, log) = (case run_cmd tr c w of (r, w1) \<Rightarrow> (r, (w1, log @ [c])))"
  by (simp add: run_cmd_def tr_run_logged new_command_def)

text \<open>What finding a user runs, and that the pointers of a user found are new.\<close>

definition find_commands :: "string \<Rightarrow> string set" where
  "find_commands name =
     {''getent passwd '' @ name, ''/etc/passwd'', ''id -u '' @ name, ''id -g '' @ name}"

definition fresh_ptrs :: "nat \<Rightarrow> user \<Rightarrow> bool" where
  "fresh_ptrs n u \<longleftrightarrow>
     (\<forall>p \<in> {us_name u, us_home_dir u, us_shell u, us_gid u, us_uid u}. \<forall>v. p = Some v \<longrightarrow> n \<le> addr v)"

definition old_ptrs :: "nat \<Rightarrow> user \<Rightarrow> bool" where
  "old_ptrs n u \<longleftrightarrow>
     (\<forall>p \<in> {us_name u, us_home_dir u, us_shell u, us_gid u, us_uid u}. \<forall>v. p = Some v \<longrightarrow> addr v < n)"

lemma decode_passwd_line_ok:
  "decode_passwd_line t brk = ((u, None), brk') \<Longrightarrow> \<exists>v. u = Some v \<and> fresh_ptrs brk v \<and> us_name v \<noteq> None"
  by (auto simp: decode_passwd_line_def Let_def fresh_ptrs_def split: if_splits)

lemma decode_passwd_line_brk: "decode_passwd_line t brk = (r, brk') \<Longrightarrow> brk \<le> brk'"
  by (auto simp: decode_passwd_line_def Let_def split: if_splits)

lemma fresh_ptrs_mono: "fresh_ptrs n u \<Longrightarrow> m \<le> n \<Longrightarrow> fresh_ptrs m u"
  by (fastforce simp: fresh_ptrs_def)

lemma find_user_get_ent_ok:
  "find_user_get_ent tr name brk w = (((u, e), brk'), w') \<Longrightarrow>
     brk \<le> brk' \<and> (e = None \<longrightarrow> (\<exists>v. u = Some v \<and> fresh_ptrs brk v \<and> us_name v \<noteq> None))"
  by (auto simp: find_user_get_ent_def dest: decode_passwd_line_ok decode_passwd_line_brk
      split: prod.splits option.splits)

lemma find_user_passwd_ok:
  "find_user_passwd tr name brk w = (((u, e), brk'), w') \<Longrightarrow>
     brk \<le> brk' \<and> (e = None \<longrightarrow> (\<exists>v. u = Some v \<and> fresh_ptrs brk v \<and> us_name v \<noteq> None))"
  by (auto simp: find_user_passwd_def dest: decode_passwd_line_ok decode_passwd_line_brk
      split: prod.splits option.splits)

lemma find_user_id_ok:
  "find_user_id tr name brk w = (((u, e), brk'), w') \<Longrightarrow>
     brk \<le> brk' \<and> (e = None \<longrightarrow> (\<exists>v. u = Some v \<and> fresh_ptrs brk v \<and> us_name v \<noteq> None))"
  by (auto simp: find_user_id_def Let_def fresh_ptrs_def no_user_def split: prod.splits option.splits)

lemma find_user_ok:
  assumes "find_user tr name brk w = (((u, None), brk'), w')"
  shows "\<exists>v. u = Some v \<and> fresh_ptrs brk v \<and> us_name v \<noteq> None"
proof -
  obtain u0 e0 b0 w0 where 0: "find_user_get_ent tr name brk w = (((u0, e0), b0), w0)"
    by (metis surj_pair)
  obtain u1 e1 b1 w1 where 1: "find_user_passwd tr name b0 w0 = (((u1, e1), b1), w1)"
    by (metis surj_pair)
  obtain u2 e2 b2 w2 where 2: "find_user_id tr name b1 w1 = (((u2, e2), b2), w2)"
    by (metis surj_pair)
  note ok = find_user_get_ent_ok [OF 0] find_user_passwd_ok [OF 1] find_user_id_ok [OF 2]
  have "brk \<le> b0" "brk \<le> b1" using ok by auto
  then show ?thesis
    using assms ok fresh_ptrs_mono [of b0 _ brk] fresh_ptrs_mono [of b1 _ brk]
    by (cases e0; cases e1; cases e2) (auto simp: find_user_def 0 1 2)
qed

text \<open>A lookup adds some of the lookup commands to the log.\<close>

lemma find_user_logged:
  "\<exists>r w1 xs. find_user (logged tr) name brk (w, log) = (r, (w1, log @ xs)) \<and> set xs \<subseteq> find_commands name"
proof -
  have g: "\<exists>w1. snd (find_user_get_ent (logged tr) name b (v, l))
      = (w1, l @ [''getent passwd '' @ name])" for b v l
    by (auto simp: find_user_get_ent_def run_cmd_logged split: prod.splits option.splits)
  have p: "\<exists>w1. snd (find_user_passwd (logged tr) name b (v, l)) = (w1, l @ [''/etc/passwd''])" for b v l
    by (auto simp: find_user_passwd_def run_cmd_logged split: prod.splits option.splits)
  have i: "\<exists>r w1 xs. find_user_id (logged tr) name b (v, l) = (r, (w1, l @ xs))
      \<and> set xs \<subseteq> {''id -u '' @ name, ''id -g '' @ name}" for b v l
    by (auto simp: find_user_id_def run_cmd_logged Let_def split: prod.splits option.splits)
  obtain u0 e0 b0 w0 l0 where 0: "find_user_get_ent (logged tr) name brk (w, log) = (((u0, e0), b0), (w0, l0))"
    and l0: "l0 = log @ [''getent passwd '' @ name]"
    using g [of brk w log] by (metis surj_pair snd_conv)
  obtain u1 e1 b1 w1 l1 where 1: "find_user_passwd (logged tr) name b0 (w0, l0) = (((u1, e1), b1), (w1, l1))"
    and l1: "l1 = l0 @ [''/etc/passwd'']"
    using p [of b0 w0 l0] by (metis surj_pair snd_conv)
  obtain u2 e2 b2 w2 l2 xs where 2: "find_user_id (logged tr) name b1 (w1, l1) = (((u2, e2), b2), (w2, l2))"
    and l2: "l2 = l1 @ xs" "set xs \<subseteq> {''id -u '' @ name, ''id -g '' @ name}"
    using i [of b1 w1 l1] by (metis surj_pair)
  have "snd (find_user (logged tr) name brk (w, log)) \<in> {(w0, l0), (w1, l1), (w2, l2)}"
    by (cases e0; cases e1; cases e2) (simp_all add: find_user_def 0 1 2)
  then obtain v l where l: "snd (find_user (logged tr) name brk (w, log)) = (v, l)" "l \<in> {l0, l1, l2}"
    by blast
  moreover have "\<exists>ys. l = log @ ys \<and> set ys \<subseteq> find_commands name"
    using l(2) l0 l1 l2 by (auto simp: find_commands_def)
  ultimately show ?thesis by (metis surj_pair snd_conv)
qed

lemma usermod_logged:
  assumes "usermod (logged tr) flag name want have' (w, log) = (None, (w', log'))"
    and "\<And>p. want = Some p \<Longrightarrow> \<not> ptr_eq want have'"
  shows "log' = log @ (case want of None \<Rightarrow> [] | Some p \<Rightarrow> [usermod_command flag p name])"
  using assms by (auto simp: usermod_def run_cmd_logged split: option.splits prod.splits if_splits)

lemma usermods_logged:
  assumes "usermods (logged tr) name fs (w, log) = (None, (w', log'))"
    and "\<And>flag want have' p. (flag, want, have') \<in> set fs \<Longrightarrow> want = Some p \<Longrightarrow> \<not> ptr_eq want have'"
  shows "log' = log @ concat (map (\<lambda>(flag, want, have').
    case want of None \<Rightarrow> [] | Some p \<Rightarrow> [usermod_command flag p name]) fs)"
  using assms
proof (induction fs arbitrary: w log)
  case Nil
  then show ?case by simp
next
  case (Cons f fs)
  obtain flag want have' where f: "f = (flag, want, have')" by (cases f)
  from Cons.prems(1) obtain w1 log1 where 1: "usermod (logged tr) flag name want have' (w, log) = (None, (w1, log1))"
    and 2: "usermods (logged tr) name fs (w1, log1) = (None, (w', log'))"
    by (auto simp: f split: prod.splits option.splits)
  have "log1 = log @ (case want of None \<Rightarrow> [] | Some p \<Rightarrow> [usermod_command flag p name])"
    by (rule usermod_logged [OF 1]) (rule Cons.prems(2) [of flag want have'], simp_all add: f)
  moreover have "log' = log1 @ concat (map (\<lambda>(flag, want, have').
      case want of None \<Rightarrow> [] | Some p \<Rightarrow> [usermod_command flag p name]) fs)"
    using Cons.IH [OF 2] Cons.prems(2) by (meson list.set_intros(2))
  ultimately show ?case by (simp add: f)
qed

text \<open>The updates a specification asks for, in the order in which they are made.\<close>

definition update_commands :: "user \<Rightarrow> string ptr \<Rightarrow> string list" where
  "update_commands u name = concat (map (\<lambda>(flag, want).
     case want of None \<Rightarrow> [] | Some p \<Rightarrow> [usermod_command flag p name])
     [(''-d'', us_home_dir u), (''-s'', us_shell u), (''-u'', us_uid u), (''-g'', us_gid u)])"

lemma ptr_eq_old_new:
  assumes "old_ptrs n u" "fresh_ptrs n v"
    and "p \<in> {us_name u, us_home_dir u, us_shell u, us_gid u, us_uid u}"
    and "q \<in> {us_name v, us_home_dir v, us_shell v, us_gid v, us_uid v}"
  shows "p \<noteq> None \<Longrightarrow> \<not> ptr_eq p q" "q \<noteq> None \<Longrightarrow> \<not> ptr_eq q p"
proof -
  have "addr a < n" if "p = Some a" for a using assms(1,3) that unfolding old_ptrs_def by blast
  moreover have "n \<le> addr b" if "q = Some b" for b using assms(2,4) that unfolding fresh_ptrs_def by blast
  ultimately have "addr a \<noteq> addr b" if "p = Some a" "q = Some b" for a b using that by force
  then show "p \<noteq> None \<Longrightarrow> \<not> ptr_eq p q" "q \<noteq> None \<Longrightarrow> \<not> ptr_eq q p"
    by (cases p; cases q; force simp: ptr_eq_def)+
qed

lemma found_never_same:
  assumes "old_ptrs n u" "fresh_ptrs n v" "us_name v \<noteq> None"
  shows "\<not> has_same_set_properties (Some u) (Some v)"
  using ptr_eq_old_new(2) [OF assms(1,2), of "us_name u" "us_name v"] assms(3)
  by (simp add: has_same_set_properties_def same_field_def)

subsection \<open>Properties\<close>

text \<open>An entry of the user database, as it is written.\<close>

definition passwd_line :: "string list \<Rightarrow> string" where
  "passwd_line parts = join_with [CHR '':''] parts"

text \<open>
  Decoding an entry of seven or more fields gives a user with the first as the
  name, the third and fourth as the ids, the sixth as the home directory and the seventh as
  the shell, each behind a new pointer of its own; no entry of fewer fields is decoded.
\<close>

theorem decode_passwd_line_roundtrip:
  assumes "\<And>f. f \<in> set fs \<Longrightarrow> CHR '':'' \<notin> set f" "passwd_line fs \<noteq> []"
  shows "if 7 \<le> length fs
    then \<exists>u brk'. decode_passwd_line (passwd_line fs) brk = ((Some u, None), brk') \<and> brk < brk'
      \<and> map (map_option pointee) [us_name u, us_uid u, us_gid u, us_home_dir u, us_shell u]
        = map Some [fs ! 0, fs ! 2, fs ! 3, fs ! 5, fs ! 6]
      \<and> distinct (map (map_option addr) [us_name u, us_uid u, us_gid u, us_home_dir u, us_shell u])
      \<and> fresh_ptrs brk u
    else \<exists>e. decode_passwd_line (passwd_line fs) brk = ((None, Some e), brk)"
proof -
  have "fs \<noteq> []" using assms(2) by (auto simp: passwd_line_def)
  then have split: "split_on (CHR '':'') (passwd_line fs) = fs"
    unfolding passwd_line_def by (rule split_on_join) (rule assms(1))
  show ?thesis
    using assms(2) by (auto simp: decode_passwd_line_def split Let_def fresh_ptrs_def)
qed

theorem decode_passwd_line_roundtrip_witness:
  "(\<exists>u brk'. decode_passwd_line ''v:x:1:2::/h:/bin/sh'' 5 = ((Some u, None), brk') \<and> (5::nat) < brk'
      \<and> map_option pointee (us_home_dir u) = Some ''/h'')
    \<and> (\<exists>e. decode_passwd_line ''v:x'' 5 = ((None, Some e), 5))"
proof (rule conjI)
  have no_colon: "CHR '':'' \<notin> set f"
    if "f \<in> set [''v'', ''x'', ''1'', ''2'', [], ''/h'', ''/bin/sh'']" for f
    using that by auto
  show "\<exists>u brk'. decode_passwd_line ''v:x:1:2::/h:/bin/sh'' 5 = ((Some u, None), brk') \<and> (5::nat) < brk'
    \<and> map_option pointee (us_home_dir u) = Some ''/h''"
    using decode_passwd_line_roundtrip [of "[''v'', ''x'', ''1'', ''2'', [], ''/h'', ''/bin/sh'']" 5,
        OF no_colon]
    by (simp add: passwd_line_def) blast
  show "\<exists>e. decode_passwd_line ''v:x'' 5 = ((None, Some e), 5)"
  proof -
    have "CHR '':'' \<notin> set f" if "f \<in> set [''v'', ''x'']" for f using that by auto
    from decode_passwd_line_roundtrip [of "[''v'', ''x'']" 5, OF this] show ?thesis
      by (simp add: passwd_line_def)
  qed
qed

text \<open>
  C14: a user that is found is never taken to have the properties asked for, because
  the pointers are compared and those of the user found are new. So when CreateOrUpdateUser
  returns without error and its first lookup found a user, it has run usermod for every field
  that is set, in the order of home directory, shell, user and group, whatever the user had
  before; the rest of what it ran are lookups, and it returns what the last one found.
\<close>

theorem update_runs_every_usermod:
  assumes "create_or_update_user (logged tr) (Some u) brk (w, []) = (((res, None), brk'), (w', log))"
    and "us_name u = Some name" "old_ptrs brk u"
    and "find_user (logged tr) (pointee name) brk (w, []) = (((Some v, None), brk1), (w1, xs))"
  shows "\<exists>ys w2. log = xs @ update_commands u name @ ys
    \<and> set xs \<subseteq> find_commands (pointee name) \<and> set ys \<subseteq> find_commands (pointee name)
    \<and> find_user (logged tr) (pointee name) brk1 (w2, xs @ update_commands u name)
      = (((res, None), brk'), (w', log))"
proof -
  have v: "fresh_ptrs brk v" "us_name v \<noteq> None"
    using find_user_ok [OF assms(4)] by simp_all
  have xs: "set xs \<subseteq> find_commands (pointee name)"
    using find_user_logged [of tr "pointee name" brk w "[]"] assms(4) by auto
  let ?fs = "[(''-d'', us_home_dir u, us_home_dir v), (''-s'', us_shell u, us_shell v),
    (''-u'', us_uid u, us_uid v), (''-g'', us_gid u, us_gid v)]"
  have step: "(case usermods (logged tr) name ?fs (w1, xs) of
      (Some e, w2) \<Rightarrow> (((None, Some e), brk1), w2)
    | (None, w2) \<Rightarrow> find_user (logged tr) (pointee name) brk1 w2) = (((res, None), brk'), (w', log))"
    using assms(1) found_never_same [OF assms(3) v]
    by (simp add: create_or_update_user_def assms(2,4) Let_def)
  then obtain w2 log2 where m: "usermods (logged tr) name ?fs (w1, xs) = (None, (w2, log2))"
    and f: "find_user (logged tr) (pointee name) brk1 (w2, log2) = (((res, None), brk'), (w', log))"
    by (auto split: prod.splits option.splits)
  have "log2 = xs @ concat (map (\<lambda>(flag, want, have').
      case want of None \<Rightarrow> [] | Some p \<Rightarrow> [usermod_command flag p name]) ?fs)"
  proof (rule usermods_logged [OF m])
    fix flag want have' p
    assume p: "(flag, want, have') \<in> set ?fs" "want = Some p"
    then have "want \<in> {us_name u, us_home_dir u, us_shell u, us_gid u, us_uid u}"
      "have' \<in> {us_name v, us_home_dir v, us_shell v, us_gid v, us_uid v}" by auto
    from ptr_eq_old_new(1) [OF assms(3) v(1) this] p(2) show "\<not> ptr_eq want have'" by simp
  qed
  then have log2: "log2 = xs @ update_commands u name" by (simp add: update_commands_def)
  obtain ys where "log = log2 @ ys" "set ys \<subseteq> find_commands (pointee name)"
    using find_user_logged [of tr "pointee name" brk1 w2 log2] f by auto
  with xs f log2 show ?thesis by auto
qed

text \<open>A host that gives the same entry to every question, and a user with its home directory.\<close>

definition entry_host :: "nat transport" where
  "entry_host = mock_transport\<lparr>tr_run := (\<lambda>c w. ((''v:x:1:2::/h:/bin/sh'', [], None), w))\<rparr>"

definition entry_user :: user where
  "entry_user = new_user [with_user_name (Ptr 0 ''v''), with_user_home_dir (Ptr 1 ''/h'')]"

lemma entry_run:
  "run_cmd (logged entry_host) c (w, log) = ((''v:x:1:2::/h:/bin/sh'', [], None), (w, log @ [c]))"
  by (simp add: run_cmd_logged) (simp add: run_cmd_def entry_host_def)

lemma entry_found:
  "find_user (logged entry_host) ''v'' brk (w, log) =
    (((Some \<lparr>us_name = Some (Ptr brk ''v''), us_home_dir = Some (Ptr (brk + 5) ''/h''),
        us_shell = Some (Ptr (brk + 6) ''/bin/sh''), us_gid = Some (Ptr (brk + 3) ''2''),
        us_uid = Some (Ptr (brk + 2) ''1'')\<rparr>, None), brk + 7), (w, log @ [''getent passwd v'']))"
  by (simp add: find_user_def find_user_get_ent_def entry_run decode_passwd_line_def Let_def)

theorem update_runs_every_usermod_witness:
  "\<exists>r. create_or_update_user (logged entry_host) (Some entry_user) 2 (0, []) =
    (r, (0, [''getent passwd v'', ''sudo usermod -d /h v'', ''getent passwd v'']))"
proof -
  have u: "us_name entry_user = Some (Ptr 0 ''v'')" "old_ptrs 2 entry_user"
    "us_home_dir entry_user = Some (Ptr 1 ''/h'')" "us_shell entry_user = None"
    "us_gid entry_user = None" "us_uid entry_user = None"
    by (simp_all add: entry_user_def new_user_def no_user_def with_user_name_def with_user_home_dir_def
        old_ptrs_def)
  obtain res brk' w' log where run: "create_or_update_user (logged entry_host) (Some entry_user) 2 (0, [])
      = (((res, None), brk'), (w', log))"
    by (simp add: create_or_update_user_def u entry_found Let_def usermod_def entry_run
        has_same_set_properties_def same_field_def ptr_eq_def)
  have f: "find_user (logged entry_host) (pointee (Ptr 0 ''v'')) 2 (0, []) = (((Some (the (fst (fst
      (fst (find_user (logged entry_host) ''v'' 2 (0, [])))))), None), 9), (0, [''getent passwd v'']))"
    by (simp add: entry_found)
  from update_runs_every_usermod [OF run u(1,2) f]
  obtain ys w2 where "find_user (logged entry_host) ''v'' 9 (w2, [''getent passwd v'']
      @ update_commands entry_user (Ptr 0 ''v'')) = (((res, None), brk'), (w', log))"
    by auto
  then have "log = [''getent passwd v'', ''sudo usermod -d /h v'', ''getent passwd v'']"
    by (simp add: entry_found update_commands_def u usermod_command_def)
  moreover have "w' = 0"
    using run by (simp add: create_or_update_user_def u entry_found Let_def usermod_def entry_run
        has_same_set_properties_def same_field_def ptr_eq_def)
  ultimately show ?thesis using run by blast
qed

end
