(* ===== verification/Package.thy ===== *)
theory Package
  imports FlightControl
begin

text \<open>
  What runs on a host beyond copying files: \<open>internal/ui\<close> (the buffered output), and of
  \<open>internal/remoteflight\<close> \<open>script.go\<close>, \<open>download.go\<close>, \<open>unzip.go\<close> and \<open>package.go\<close>. The
  getters and installers of packages are the package variables, one constructor each; their
  function fields are the functions \<open>package_get\<close> and \<open>package_put\<close>.
\<close>

subsection \<open>Buffered output (ui.go)\<close>

text \<open>Writing to a buffer in memory does not fail.\<close>

record buffered =
  bf_stdout :: string
  bf_stderr :: string
  bf_combined :: string

definition new_buffered :: buffered where
  "new_buffered = \<lparr>bf_stdout = [], bf_stderr = [], bf_combined = []\<rparr>"

definition write_stdout :: "string \<Rightarrow> buffered \<Rightarrow> buffered" where
  "write_stdout s b = b\<lparr>bf_stdout := bf_stdout b @ s, bf_combined := bf_combined b @ s\<rparr>"

definition write_stderr :: "string \<Rightarrow> buffered \<Rightarrow> buffered" where
  "write_stderr s b = b\<lparr>bf_stderr := bf_stderr b @ s, bf_combined := bf_combined b @ s\<rparr>"

definition ui_write :: "string \<Rightarrow> string \<Rightarrow> buffered \<Rightarrow> buffered" where
  "ui_write out serr b =
     (let b = (if out \<noteq> [] then write_stdout out b else b) in
      if serr \<noteq> [] then write_stderr serr b else b)"

definition ui_append :: "string \<Rightarrow> string \<Rightarrow> buffered \<Rightarrow> buffered" where
  "ui_append out serr b =
     (let b = (if out \<noteq> []
               then write_stdout out (if bf_stdout b \<noteq> [] then write_stdout [nl] b else b) else b) in
      if serr \<noteq> []
      then write_stderr serr (if bf_stderr b \<noteq> [] then write_stderr [nl] b else b) else b)"

subsection \<open>Scripts (script.go)\<close>

record 'w run_script_request =
  sc_env :: "string \<Rightarrow> string option"
  sc_no_cleanup :: bool
  sc_sudo :: bool
  sc_copy :: "'w copy_file_request"

type_synonym 'w run_script_opt = "'w run_script_request \<Rightarrow> 'w run_script_request"

text \<open>The destination has a random identifier; the copy request is made here without defaults.\<close>

definition new_run_script_request ::
  "'w go_ctx \<Rightarrow> 'w run_script_opt list \<Rightarrow> 'w \<Rightarrow> 'w run_script_request \<times> 'w" where
  "new_run_script_request ctx opts w =
     (case random_id ctx w of (rid, w1) \<Rightarrow>
        (apply_opts opts
           \<lparr>sc_env = Map.empty, sc_no_cleanup = False, sc_sudo = False,
            sc_copy = \<lparr>cf_content = new_reader [], cf_tmp_dir = ''/tmp'', cf_chmod = [], cf_chown = [],
              cf_destination = ''/tmp/remoteflight_run_script_'' @ rid,
              cf_retry_opts = default_retry_opts\<rparr>\<rparr>, w1))"

definition with_run_script_env :: "(string \<Rightarrow> string option) \<Rightarrow> 'w run_script_opt" where
  "with_run_script_env env r = r\<lparr>sc_env := sc_env r ++ env\<rparr>"

definition with_run_script_no_cleanup :: "'w run_script_opt" where
  "with_run_script_no_cleanup r = r\<lparr>sc_no_cleanup := True\<rparr>"

definition with_run_script_use_sudo :: "'w run_script_opt" where
  "with_run_script_use_sudo r = r\<lparr>sc_sudo := True\<rparr>"

definition with_run_script_content :: "copyable \<Rightarrow> 'w run_script_opt" where
  "with_run_script_content c r = r\<lparr>sc_copy := (sc_copy r)\<lparr>cf_content := c\<rparr>\<rparr>"

definition with_run_script_tmp_dir :: "string \<Rightarrow> 'w run_script_opt" where
  "with_run_script_tmp_dir d r = r\<lparr>sc_copy := (sc_copy r)\<lparr>cf_tmp_dir := d\<rparr>\<rparr>"

definition with_run_script_chmod :: "string \<Rightarrow> 'w run_script_opt" where
  "with_run_script_chmod m r = r\<lparr>sc_copy := (sc_copy r)\<lparr>cf_chmod := m\<rparr>\<rparr>"

definition with_run_script_chown :: "string \<Rightarrow> 'w run_script_opt" where
  "with_run_script_chown m r = r\<lparr>sc_copy := (sc_copy r)\<lparr>cf_chown := m\<rparr>\<rparr>"

definition with_run_script_destination :: "string \<Rightarrow> 'w run_script_opt" where
  "with_run_script_destination d r = r\<lparr>sc_copy := (sc_copy r)\<lparr>cf_destination := d\<rparr>\<rparr>"

record run_script_response =
  sr_out :: string
  sr_err :: string

definition script_output :: "buffered \<Rightarrow> run_script_response" where
  "script_output b = \<lparr>sr_out = bf_stdout b, sr_err = bf_stderr b\<rparr>"

definition script_cleanup ::
  "'w transport \<Rightarrow> 'w run_script_request \<Rightarrow> buffered \<Rightarrow> 'w \<Rightarrow> (run_script_response \<times> error) \<times> 'w" where
  "script_cleanup tr req ui w =
     (case tr_run tr (new_command (''rm -f '' @ cf_destination (sc_copy req)) [with_env_vars (sc_env req)]) w of
        ((out, serr, err), w1) \<Rightarrow>
          ((script_output (ui_append out serr ui),
            (case join_errs [join_errs [None, err], None] of
               Some e \<Rightarrow> Some (ErrWrap ''cleaning up script file: '' e [])
             | None \<Rightarrow> None)), w1))"

definition script_command :: "'w run_script_request \<Rightarrow> string" where
  "script_command req =
     (if sc_sudo req then ''sudo '' else []) @ cf_destination (sc_copy req)"

text \<open>
  A script that fails stays on the host. The content of the request's copy is read, so the
  request is given back with its reader moved on.
\<close>

definition script_copied :: "'w run_script_request \<Rightarrow> copyable option \<Rightarrow> 'w run_script_request" where
  "script_copied req cp =
     (case cp of None \<Rightarrow> req | Some c \<Rightarrow> req\<lparr>sc_copy := (sc_copy req)\<lparr>cf_content := c\<rparr>\<rparr>)"

definition run_script ::
  "'w go_ctx \<Rightarrow> 'w transport \<Rightarrow> 'w run_script_request \<Rightarrow> 'w
    \<Rightarrow> ((run_script_response \<times> error) \<times> 'w run_script_request \<times> 'w) go" where
  "run_script ctx tr req w = do {
     ((err, cp), w1) \<leftarrow> copy_file ctx tr (Some (sc_copy req)) w;
     let req1 = script_copied req cp;
     Some (case err of
         Some e \<Rightarrow> ((\<lparr>sr_out = [], sr_err = []\<rparr>, Some e), req1, w1)
       | None \<Rightarrow>
           (case tr_run tr (new_command (script_command req1) [with_env_vars (sc_env req1)]) w1 of
              ((out, serr, err), w2) \<Rightarrow>
                (let ui = ui_append out serr new_buffered in
                 case join_errs [join_errs [None, err], None] of
                   Some e \<Rightarrow>
                     ((script_output ui, Some (ErrWrap ''executing script: '' e ('': '' @ serr))), req1, w2)
                 | None \<Rightarrow>
                     if sc_no_cleanup req1 then ((script_output ui, None), req1, w2)
                     else (case script_cleanup tr req1 ui w2 of (out, w3) \<Rightarrow> (out, req1, w3)))))
   }"

subsection \<open>Downloads (download.go)\<close>

record 'w download_request =
  dl_fc_path :: string
  dl_url :: string
  dl_method :: string
  dl_destination :: string
  dl_mode :: string
  dl_sha256 :: string
  dl_timeout :: string
  dl_auth_user :: string
  dl_auth_password :: string
  dl_auth_token :: string
  dl_sudo :: bool
  dl_replace :: bool
  dl_retry_opts :: "('w, unit) retrier_opt list"

type_synonym 'w download_opt = "'w download_request \<Rightarrow> 'w download_request"

definition new_download_request :: "'w download_opt list \<Rightarrow> 'w download_request" where
  "new_download_request opts = apply_opts opts
     \<lparr>dl_fc_path = default_flight_control_path, dl_url = [], dl_method = ''GET'', dl_destination = [],
      dl_mode = ''0755'', dl_sha256 = [], dl_timeout = ''5m'', dl_auth_user = [], dl_auth_password = [],
      dl_auth_token = [], dl_sudo = False, dl_replace = False, dl_retry_opts = default_retry_opts\<rparr>"

definition with_download_fc_path :: "string \<Rightarrow> 'w download_opt" where
  "with_download_fc_path p r = r\<lparr>dl_fc_path := p\<rparr>"

definition with_download_url :: "string \<Rightarrow> 'w download_opt" where
  "with_download_url u r = r\<lparr>dl_url := u\<rparr>"

definition with_download_method :: "string \<Rightarrow> 'w download_opt" where
  "with_download_method m r = r\<lparr>dl_method := m\<rparr>"

definition with_download_destination :: "string \<Rightarrow> 'w download_opt" where
  "with_download_destination d r = r\<lparr>dl_destination := d\<rparr>"

definition with_download_mode :: "string \<Rightarrow> 'w download_opt" where
  "with_download_mode m r = r\<lparr>dl_mode := m\<rparr>"

definition with_download_auth_user :: "string \<Rightarrow> 'w download_opt" where
  "with_download_auth_user u r = r\<lparr>dl_auth_user := u\<rparr>"

definition with_download_auth_password :: "string \<Rightarrow> 'w download_opt" where
  "with_download_auth_password p r = r\<lparr>dl_auth_password := p\<rparr>"

definition with_download_auth_token :: "string \<Rightarrow> 'w download_opt" where
  "with_download_auth_token t r = r\<lparr>dl_auth_token := t\<rparr>"

definition with_download_sha256 :: "string \<Rightarrow> 'w download_opt" where
  "with_download_sha256 s r = r\<lparr>dl_sha256 := s\<rparr>"

definition with_download_use_sudo :: "bool \<Rightarrow> 'w download_opt" where
  "with_download_use_sudo b r = r\<lparr>dl_sudo := b\<rparr>"

definition with_download_replace :: "bool \<Rightarrow> 'w download_opt" where
  "with_download_replace b r = r\<lparr>dl_replace := b\<rparr>"

definition with_download_retry_options :: "('w, unit) retrier_opt list \<Rightarrow> 'w download_opt" where
  "with_download_retry_options os r = r\<lparr>dl_retry_opts := os\<rparr>"

text \<open>The HTTP method of the request is not passed on.\<close>

definition download_command :: "'w download_request \<Rightarrow> string" where
  "download_command dr =
     (if dl_sudo dr then ''sudo '' else [])
     @ dl_fc_path dr @ '' download --url '' @ quoted (dl_url dr) @ '' --destination ''
     @ quoted (dl_destination dr) @ '' --mode '' @ quoted (dl_mode dr) @ '' --timeout ''
     @ quoted (dl_timeout dr) @ '' --replace='' @ show_bool (dl_replace dr)
     @ (if dl_sha256 dr \<noteq> [] then '' --sha256 '' @ quoted (dl_sha256 dr) else [])
     @ (if dl_auth_user dr \<noteq> [] \<and> dl_auth_password dr \<noteq> []
        then '' --auth-user '' @ quoted (dl_auth_user dr) @ '' --auth-password ''
          @ quoted (dl_auth_password dr) else [])
     @ (if dl_auth_token dr \<noteq> [] then '' --auth-token '' @ quoted (dl_auth_token dr) else [])"

definition download_fn :: "'w transport \<Rightarrow> string \<Rightarrow> 'w \<Rightarrow> ((unit option \<times> error) \<times> 'w) go" where
  "download_fn tr cmd w =
     (case run_cmd tr cmd w of
        ((out, serr, Some e), w1) \<Rightarrow> Some ((None, Some (wrap_error_with e [out, serr])), w1)
      | ((_, _, None), w1) \<Rightarrow> Some ((None, None), w1))"

definition download :: "'w go_ctx \<Rightarrow> 'w transport \<Rightarrow> 'w download_request \<Rightarrow> 'w \<Rightarrow> (error \<times> 'w) go" where
  "download ctx tr dr w =
     (case ctx_err ctx w of
        Some e \<Rightarrow> Some (Some e, w)
      | None \<Rightarrow>
          (case new_retrier (dl_retry_opts dr @ [with_retrier_func (download_fn tr (download_command dr))]) of
             (_, Some e) \<Rightarrow> Some (Some e, w)
           | (r, None) \<Rightarrow> do {
               ((_, err), _, w1) \<leftarrow> retry retrier_ops ctx r w;
               Some (err, w1)
             }))"

subsection \<open>Unzipping (unzip.go)\<close>

record unzip_request =
  uz_fc_path :: string
  uz_source :: string
  uz_destination :: string
  uz_file_mode :: string
  uz_dir_mode :: string
  uz_sudo :: bool
  uz_create_dir :: bool
  uz_replace :: bool

type_synonym unzip_opt = "unzip_request \<Rightarrow> unzip_request"

definition new_unzip_request :: "unzip_opt list \<Rightarrow> unzip_request" where
  "new_unzip_request opts = apply_opts opts
     \<lparr>uz_fc_path = default_flight_control_path, uz_source = [], uz_destination = [],
      uz_file_mode = ''0755'', uz_dir_mode = ''0755'', uz_sudo = False, uz_create_dir = True,
      uz_replace = False\<rparr>"

definition with_unzip_fc_path :: "string \<Rightarrow> unzip_opt" where
  "with_unzip_fc_path p r = r\<lparr>uz_fc_path := p\<rparr>"

definition with_unzip_source :: "string \<Rightarrow> unzip_opt" where
  "with_unzip_source p r = r\<lparr>uz_source := p\<rparr>"

definition with_unzip_destination :: "string \<Rightarrow> unzip_opt" where
  "with_unzip_destination d r = r\<lparr>uz_destination := d\<rparr>"

definition with_unzip_file_mode :: "string \<Rightarrow> unzip_opt" where
  "with_unzip_file_mode m r = r\<lparr>uz_file_mode := m\<rparr>"

definition with_unzip_dir_mode :: "string \<Rightarrow> unzip_opt" where
  "with_unzip_dir_mode m r = r\<lparr>uz_dir_mode := m\<rparr>"

definition with_unzip_create_dir :: "bool \<Rightarrow> unzip_opt" where
  "with_unzip_create_dir b r = r\<lparr>uz_create_dir := b\<rparr>"

definition with_unzip_use_sudo :: "bool \<Rightarrow> unzip_opt" where
  "with_unzip_use_sudo b r = r\<lparr>uz_sudo := b\<rparr>"

definition with_unzip_replace :: "bool \<Rightarrow> unzip_opt" where
  "with_unzip_replace b r = r\<lparr>uz_replace := b\<rparr>"

definition unzip_command :: "unzip_request \<Rightarrow> string" where
  "unzip_command ur =
     (if uz_sudo ur then ''sudo '' else [])
     @ uz_fc_path ur @ '' unzip --source '' @ quoted (uz_source ur) @ '' --destination ''
     @ quoted (uz_destination ur) @ '' --mode '' @ quoted (uz_file_mode ur)
     @ '' --destination-mode '' @ quoted (uz_dir_mode ur) @ '' --create-destination=''
     @ show_bool (uz_create_dir ur) @ '' --replace='' @ show_bool (uz_replace ur)"

definition unzip :: "'w go_ctx \<Rightarrow> 'w transport \<Rightarrow> unzip_request \<Rightarrow> 'w \<Rightarrow> error \<times> 'w" where
  "unzip ctx tr ur w =
     (case ctx_err ctx w of
        Some e \<Rightarrow> (Some e, w)
      | None \<Rightarrow>
          (case run_cmd tr (unzip_command ur) w of
             ((out, serr, Some e), w1) \<Rightarrow> (Some (wrap_error_with e [out, serr]), w1)
           | ((_, _, None), w1) \<Rightarrow> (None, w1)))"

subsection \<open>Packages (package.go)\<close>

datatype package_getter =
    PackageInstallGetterCopy | PackageInstallGetterReleases
  | PackageInstallGetterArtifactory | PackageInstallGetterRepository

datatype package_installer =
    PackageInstallInstallerZip | PackageInstallInstallerDEB | PackageInstallInstallerRPM
  | PackageInstallInstallerYum | PackageInstallInstallerApt

fun getter_type :: "package_getter \<Rightarrow> string" where
  "getter_type PackageInstallGetterCopy = ''copy''"
| "getter_type PackageInstallGetterReleases = ''releases''"
| "getter_type PackageInstallGetterArtifactory = ''artifactory''"
| "getter_type PackageInstallGetterRepository = ''repository''"

fun installer_type :: "package_installer \<Rightarrow> string" where
  "installer_type PackageInstallInstallerZip = ''zip''"
| "installer_type PackageInstallInstallerDEB = ''deb''"
| "installer_type PackageInstallInstallerRPM = ''rpm''"
| "installer_type PackageInstallInstallerYum = ''yum''"
| "installer_type PackageInstallInstallerApt = ''apt''"

definition file_getters :: "package_getter list" where
  "file_getters = [PackageInstallGetterCopy, PackageInstallGetterReleases, PackageInstallGetterArtifactory]"

fun compatible_getters :: "package_installer \<Rightarrow> package_getter list" where
  "compatible_getters PackageInstallInstallerZip = file_getters"
| "compatible_getters PackageInstallInstallerDEB = file_getters"
| "compatible_getters PackageInstallInstallerRPM = file_getters"
| "compatible_getters PackageInstallInstallerYum = [PackageInstallGetterRepository]"
| "compatible_getters PackageInstallInstallerApt = [PackageInstallGetterRepository]"

definition compatible :: "package_installer \<Rightarrow> package_getter \<Rightarrow> bool" where
  "compatible m get \<longleftrightarrow> list_ex (\<lambda>cs. getter_type get = getter_type cs) (compatible_getters m)"

definition err_getter_unknown :: goerr where
  "err_getter_unknown = ErrSentinel ''package install get is unknown''"

definition err_installer_unknown :: goerr where
  "err_installer_unknown = ErrSentinel ''package install method is unknown''"

record 'w package_request =
  pi_installer :: "package_installer option"
  pi_getter :: "package_getter option"
  pi_fc_path :: string
  pi_unzip_opts :: "unzip_opt list"
  pi_download_opts :: "'w download_opt list"
  pi_copy_path :: string
  pi_temp_artifact :: string
  pi_temp_dir :: string
  pi_destination :: string

type_synonym 'w package_opt = "'w package_request \<Rightarrow> 'w package_request"

definition new_package_request :: "'w package_opt list \<Rightarrow> 'w package_request" where
  "new_package_request opts = apply_opts opts
     \<lparr>pi_installer = None, pi_getter = None, pi_fc_path = default_flight_control_path,
      pi_unzip_opts = [], pi_download_opts = [], pi_copy_path = [], pi_temp_artifact = [],
      pi_temp_dir = ''/tmp'', pi_destination = []\<rparr>"

definition with_package_installer :: "package_installer option \<Rightarrow> 'w package_opt" where
  "with_package_installer m r = r\<lparr>pi_installer := m\<rparr>"

definition with_package_getter :: "package_getter option \<Rightarrow> 'w package_opt" where
  "with_package_getter g r = r\<lparr>pi_getter := g\<rparr>"

definition with_package_unzip_opts :: "unzip_opt list \<Rightarrow> 'w package_opt" where
  "with_package_unzip_opts os r = r\<lparr>pi_unzip_opts := os\<rparr>"

definition with_package_download_opts :: "'w download_opt list \<Rightarrow> 'w package_opt" where
  "with_package_download_opts os r = r\<lparr>pi_download_opts := os\<rparr>"

definition with_package_copy_path :: "string \<Rightarrow> 'w package_opt" where
  "with_package_copy_path p r = r\<lparr>pi_copy_path := p\<rparr>"

definition with_package_destination :: "string \<Rightarrow> 'w package_opt" where
  "with_package_destination p r = r\<lparr>pi_destination := p\<rparr>"

definition with_package_temp_dir :: "string \<Rightarrow> 'w package_opt" where
  "with_package_temp_dir d r = r\<lparr>pi_temp_dir := d\<rparr>"

definition installer_for_file :: "string \<Rightarrow> package_installer option" where
  "installer_for_file name =
     (let ext = path_ext (path_base name) in
      if ext = ''.zip'' then Some PackageInstallInstallerZip
      else if ext = ''.deb'' then Some PackageInstallInstallerDEB
      else if ext = ''.rpm'' then Some PackageInstallInstallerRPM
      else None)"

text \<open>
  \<open>open_file\<close> is \<open>os.Open\<close> on the machine of the provider and \<open>url_path\<close> the path that
  \<open>url.Parse\<close> finds in a URL.
\<close>

definition package_get_copy ::
  "(string \<Rightarrow> 'w \<Rightarrow> copyable \<times> error) \<Rightarrow> 'w go_ctx \<Rightarrow> 'w transport \<Rightarrow> 'w package_request \<Rightarrow> 'w
    \<Rightarrow> ((string \<times> error) \<times> 'w package_request \<times> 'w) go" where
  "package_get_copy open_file ctx tr req w =
     (if pi_copy_path req = [] then
        Some (([], Some (ErrNew ''you must supply a path to the get artifact you wish you copy'')), req, w)
      else
        (case open_file (pi_copy_path req) w of
           (_, Some e) \<Rightarrow>
             Some (([], Some (ErrWrap ''opening artifact to copy to remote host: '' e [])), req, w)
         | (src, None) \<Rightarrow>
             (case random_id ctx w of (rid, w1) \<Rightarrow>
                let req = req\<lparr>pi_temp_artifact := path_join [pi_temp_dir req,
                      ''enos_install_get.'' @ rid @ ''.'' @ path_base (pi_copy_path req)]\<rparr>
                in do {
                  ((err, _), w2) \<leftarrow> copy_file ctx tr (Some (new_copy_file_request
                    [with_copy_file_content src, with_copy_file_destination (pi_temp_artifact req)])) w1;
                  Some (case err of
                      Some e \<Rightarrow> (([], Some (ErrWrap ''copying artifact to remote host: '' e [])), req, w2)
                    | None \<Rightarrow> ((path_base (pi_copy_path req), None), req, w2))
                })))"

text \<open>The installation of the flight control binary that packages ask for; it is retried without end.\<close>

definition package_fc_request :: "duration \<Rightarrow> 'w install_fc_request" where
  "package_fc_request ovf = new_install_fc_request ovf
     [with_install_fc_use_home_dir,
      with_install_fc_target_request (Some (new_target_request ovf
        [with_target_request_retry_opts [with_interval_func (interval_exponential ovf (2 * second))]]))]"

definition package_get_download ::
  "(string \<Rightarrow> string \<times> error) \<Rightarrow> embed_fs \<Rightarrow> 'w go_ctx \<Rightarrow> 'w transport \<Rightarrow> 'w package_request \<Rightarrow> 'w
    \<Rightarrow> ((string \<times> error) \<times> 'w package_request \<times> 'w) go" where
  "package_get_download url_path fs ctx tr req w = do {
     ((fc, err), w1) \<leftarrow> install_flight_control fs ctx tr (package_fc_request (pow_overflow ctx)) w;
     (case err of
        Some e \<Rightarrow>
          Some (([], Some (ErrWrap ''installing flight-control binary to download package: '' e [])), req, w1)
      | None \<Rightarrow>
          (case random_id ctx w1 of (rid, w2) \<Rightarrow>
             let req = req\<lparr>pi_temp_artifact := path_join [pi_temp_dir req, ''enos_install_download.'' @ rid]\<rparr>;
                 dr = new_download_request ([with_download_fc_path (fcr_path fc),
                   with_download_destination (pi_temp_artifact req), with_download_replace True]
                   @ pi_download_opts req)
             in do {
               (err, w3) \<leftarrow> download ctx tr dr w2;
               Some (case err of
                   Some e \<Rightarrow> (([], Some (ErrWrap ''downloading artifact to the remote host: '' e [])), req, w3)
                 | None \<Rightarrow>
                     (case url_path (dl_url dr) of
                        (_, Some e) \<Rightarrow> (([], Some (ErrWrap ''parsing artifact URL: '' e [])), req, w3)
                      | (p, None) \<Rightarrow> ((path_base p, None), req, w3)))
             }))
   }"

text \<open>What the getters and installers need of the outside.\<close>

record 'w package_env =
  pe_open :: "string \<Rightarrow> 'w \<Rightarrow> copyable \<times> error"
  pe_url_path :: "string \<Rightarrow> string \<times> error"
  pe_embed :: embed_fs

fun package_get ::
  "package_getter \<Rightarrow> 'w package_env \<Rightarrow> 'w go_ctx \<Rightarrow> 'w transport \<Rightarrow> 'w package_request \<Rightarrow> 'w
    \<Rightarrow> ((string \<times> error) \<times> 'w package_request \<times> 'w) go" where
  "package_get PackageInstallGetterCopy env ctx tr req w = package_get_copy (pe_open env) ctx tr req w"
| "package_get PackageInstallGetterReleases env ctx tr req w =
     package_get_download (pe_url_path env) (pe_embed env) ctx tr req w"
| "package_get PackageInstallGetterArtifactory env ctx tr req w =
     package_get_download (pe_url_path env) (pe_embed env) ctx tr req w"
| "package_get PackageInstallGetterRepository env ctx tr req w = Some (([], None), req, w)"

definition remove_artifact :: "'w go_ctx \<Rightarrow> 'w transport \<Rightarrow> 'w package_request \<Rightarrow> 'w \<Rightarrow> (error \<times> 'w) go" where
  "remove_artifact ctx tr req w =
     delete_file ctx tr (Some (new_delete_file_request [with_delete_file_path (pi_temp_artifact req)])) w"

definition package_unzip :: "string \<Rightarrow> 'w package_request \<Rightarrow> unzip_request" where
  "package_unzip path req = new_unzip_request ([with_unzip_fc_path path,
     with_unzip_source (pi_temp_artifact req), with_unzip_destination (pi_destination req),
     with_unzip_use_sudo True, with_unzip_replace True] @ pi_unzip_opts req)"

definition zip_install ::
  "embed_fs \<Rightarrow> 'w go_ctx \<Rightarrow> 'w transport \<Rightarrow> 'w package_request \<Rightarrow> 'w \<Rightarrow> (error \<times> 'w) go" where
  "zip_install fs ctx tr req w = do {
     ((fc, err), w1) \<leftarrow> install_flight_control fs ctx tr (package_fc_request (pow_overflow ctx)) w;
     (case err of
        Some e \<Rightarrow> Some (Some (ErrWrap ''installing flight-control binary to unzip bundle: '' e []), w1)
      | None \<Rightarrow>
          (case unzip ctx tr (package_unzip (fcr_path fc) req) w1 of
             (Some e, w2) \<Rightarrow> Some (Some e, w2)
           | (None, w2) \<Rightarrow> remove_artifact ctx tr req w2))
   }"

text \<open>Install a package file with a command of the system.\<close>

definition file_install ::
  "string \<Rightarrow> string \<Rightarrow> 'w go_ctx \<Rightarrow> 'w transport \<Rightarrow> 'w package_request \<Rightarrow> 'w \<Rightarrow> (error \<times> 'w) go" where
  "file_install words what ctx tr req w =
     (case run_cmd tr (words @ pi_temp_artifact req) w of
        ((out, serr, Some e), w1) \<Rightarrow> Some (Some (wrap_error_with e [out, serr, what]), w1)
      | ((_, _, None), w1) \<Rightarrow> remove_artifact ctx tr req w1)"

definition deb_install :: "'w go_ctx \<Rightarrow> 'w transport \<Rightarrow> 'w package_request \<Rightarrow> 'w \<Rightarrow> (error \<times> 'w) go" where
  "deb_install = file_install ''sudo dpkg --force-confold --install '' ''installing debian package''"

definition rpm_install :: "'w go_ctx \<Rightarrow> 'w transport \<Rightarrow> 'w package_request \<Rightarrow> 'w \<Rightarrow> (error \<times> 'w) go" where
  "rpm_install = file_install ''sudo rpm -U --force '' ''installing rpm package''"

fun package_put ::
  "package_installer \<Rightarrow> 'w package_env \<Rightarrow> 'w go_ctx \<Rightarrow> 'w transport \<Rightarrow> 'w package_request \<Rightarrow> 'w
    \<Rightarrow> (error \<times> 'w) go" where
  "package_put PackageInstallInstallerZip env ctx tr req w = zip_install (pe_embed env) ctx tr req w"
| "package_put PackageInstallInstallerDEB env ctx tr req w = deb_install ctx tr req w"
| "package_put PackageInstallInstallerRPM env ctx tr req w = rpm_install ctx tr req w"
| "package_put PackageInstallInstallerYum env ctx tr req w = Some (Some err_installer_unknown, w)"
| "package_put PackageInstallInstallerApt env ctx tr req w = Some (Some err_installer_unknown, w)"

record package_response =
  pr_name :: string
  pr_getter :: string
  pr_installer :: string

definition package_install ::
  "'w package_env \<Rightarrow> 'w go_ctx \<Rightarrow> 'w transport \<Rightarrow> 'w package_request \<Rightarrow> 'w
    \<Rightarrow> ((package_response option \<times> error) \<times> 'w package_request \<times> 'w) go" where
  "package_install env ctx tr req w =
     (case pi_getter req of
        None \<Rightarrow> Some ((None, Some err_getter_unknown), req, w)
      | Some g \<Rightarrow>
     (case pi_installer req of
        None \<Rightarrow> Some ((None, Some err_installer_unknown), req, w)
      | Some m \<Rightarrow>
          if \<not> compatible m g then
            Some ((None, Some (ErrNew (''package installer '' @ installer_type m
              @ '' is not compatible with package getter '' @ getter_type g))), req, w)
          else do {
            ((name, err), req1, w1) \<leftarrow> package_get g env ctx tr req w;
            (case err of
               Some e \<Rightarrow> Some ((None, Some e), req1, w1)
             | None \<Rightarrow> do {
                 (err, w2) \<leftarrow> package_put m env ctx tr req1 w1;
                 Some (case err of
                     Some e \<Rightarrow> ((None, Some e), req1, w2)
                   | None \<Rightarrow> ((Some \<lparr>pr_name = name, pr_getter = getter_type g,
                       pr_installer = installer_type m\<rparr>, None), req1, w2))
               })
          }))"

subsection \<open>Properties\<close>

lemma compatible_iff:
  "compatible m g \<longleftrightarrow> (m \<in> {PackageInstallInstallerYum, PackageInstallInstallerApt}
     \<longleftrightarrow> g = PackageInstallGetterRepository)"
  by (cases m; cases g) (simp_all add: compatible_def file_getters_def)

lemma zip_install_ok_iff:
  "zip_install fs ctx tr req w = Some (None, w') \<longleftrightarrow>
     (\<exists>fc w1 w2. install_flight_control fs ctx tr (package_fc_request (pow_overflow ctx)) w
          = Some ((fc, None), w1)
        \<and> unzip ctx tr (package_unzip (fcr_path fc) req) w1 = (None, w2)
        \<and> remove_artifact ctx tr req w2 = Some (None, w'))"
proof (cases "install_flight_control fs ctx tr (package_fc_request (pow_overflow ctx)) w")
  case None
  then show ?thesis by (simp add: zip_install_def)
next
  case (Some out)
  obtain fc err w1 where out: "out = ((fc, err), w1)" by (metis surj_pair)
  obtain e w2 where u: "unzip ctx tr (package_unzip (fcr_path fc) req) w1 = (e, w2)" by (metis surj_pair)
  show ?thesis
    using Some out u by (cases err; cases e) (simp_all add: zip_install_def)
qed

lemma file_install_ok_iff:
  "file_install words what ctx tr req w = Some (None, w') \<longleftrightarrow>
     (\<exists>out serr w1. run_cmd tr (words @ pi_temp_artifact req) w = ((out, serr, None), w1)
        \<and> remove_artifact ctx tr req w1 = Some (None, w'))"
proof -
  obtain out serr e w1 where r: "run_cmd tr (words @ pi_temp_artifact req) w = ((out, serr, e), w1)"
    by (metis surj_pair)
  then show ?thesis by (cases e) (simp_all add: file_install_def)
qed

text \<open>How an installer that works gets the artifact onto the host, up to its removal.\<close>

definition artifact_installed ::
  "package_installer \<Rightarrow> embed_fs \<Rightarrow> 'w go_ctx \<Rightarrow> 'w transport \<Rightarrow> 'w package_request \<Rightarrow> 'w \<Rightarrow> 'w \<Rightarrow> bool" where
  "artifact_installed m fs ctx tr req w w' \<longleftrightarrow>
     (case m of
        PackageInstallInstallerZip \<Rightarrow>
          (\<exists>fc w1. install_flight_control fs ctx tr (package_fc_request (pow_overflow ctx)) w
               = Some ((fc, None), w1)
             \<and> unzip ctx tr (package_unzip (fcr_path fc) req) w1 = (None, w'))
      | PackageInstallInstallerDEB \<Rightarrow> (\<exists>out serr. run_cmd tr
          (''sudo dpkg --force-confold --install '' @ pi_temp_artifact req) w = ((out, serr, None), w'))
      | PackageInstallInstallerRPM \<Rightarrow> (\<exists>out serr. run_cmd tr
          (''sudo rpm -U --force '' @ pi_temp_artifact req) w = ((out, serr, None), w'))
      | _ \<Rightarrow> False)"

lemma package_put_ok_iff:
  "package_put m env ctx tr req w = Some (None, w') \<longleftrightarrow>
     (\<exists>w1. artifact_installed m (pe_embed env) ctx tr req w w1
        \<and> remove_artifact ctx tr req w1 = Some (None, w'))"
  by (cases m) (auto simp: zip_install_ok_iff deb_install_def rpm_install_def file_install_ok_iff
      artifact_installed_def)

text \<open>
  C15: when PackageInstall returns without error, the getter is one that fetches a file and
  the installer one that installs files: a package of a repository is never installed, because
  its installers always fail. The artifact was fetched without error, then installed from where
  the getter put it, by unzip, dpkg or rpm, and last removed from there; the response names what
  the getter found.
\<close>

theorem package_install_ok:
  assumes "package_install env ctx tr req w = Some ((res, None), req', w')"
  shows "\<exists>g m name w1 w2. pi_getter req = Some g \<and> g \<in> set file_getters \<and> pi_installer req = Some m
    \<and> m \<in> {PackageInstallInstallerZip, PackageInstallInstallerDEB, PackageInstallInstallerRPM}
    \<and> package_get g env ctx tr req w = Some ((name, None), req', w1)
    \<and> artifact_installed m (pe_embed env) ctx tr req' w1 w2
    \<and> remove_artifact ctx tr req' w2 = Some (None, w')
    \<and> res = Some \<lparr>pr_name = name, pr_getter = getter_type g, pr_installer = installer_type m\<rparr>"
proof -
  obtain g m where gm: "pi_getter req = Some g" "pi_installer req = Some m" "compatible m g"
    using assms by (auto simp: package_install_def split: option.splits if_splits)
  obtain name w1 where get: "package_get g env ctx tr req w = Some ((name, None), req', w1)"
    and put: "package_put m env ctx tr req' w1 = Some (None, w')"
    and res: "res = Some \<lparr>pr_name = name, pr_getter = getter_type g, pr_installer = installer_type m\<rparr>"
    using assms gm
    by (auto simp: package_install_def bind_eq_Some_iff split: option.splits prod.splits)
  obtain w2 where w2: "artifact_installed m (pe_embed env) ctx tr req' w1 w2"
    "remove_artifact ctx tr req' w2 = Some (None, w')"
    using put unfolding package_put_ok_iff by blast
  then have m: "m \<in> {PackageInstallInstallerZip, PackageInstallInstallerDEB, PackageInstallInstallerRPM}"
    by (cases m) (simp_all add: artifact_installed_def)
  then have "g \<in> set file_getters" using gm(3) by (cases g) (auto simp: compatible_iff file_getters_def)
  with gm m get w2 res show ?thesis by blast
qed

text \<open>A local Debian package on a quiet host.\<close>

definition deb_request :: "nat package_request" where
  "deb_request = new_package_request [with_package_installer (Some PackageInstallInstallerDEB),
     with_package_getter (Some PackageInstallGetterCopy), with_package_copy_path ''/a/v.deb'']"

definition local_env :: "nat package_env" where
  "local_env = \<lparr>pe_open = (\<lambda>p w. (new_reader ''deb'', None)), pe_url_path = (\<lambda>u. (u, None)), pe_embed = None\<rparr>"

lemma quiet_delete_file:
  assumes "quiet tr"
  shows "delete_file live_ctx tr (Some (new_delete_file_request [with_delete_file_path p])) w = Some (None, w)"
proof -
  obtain out serr where "run_cmd tr (''rm -r '' @ p @ '' || sudo rm -r '' @ p) w = ((out, serr, None), w)"
    using quiet_run [OF assms, of "''rm -r '' @ p @ '' || sudo rm -r '' @ p" w] by auto
  then show ?thesis
    by (simp add: delete_file_def new_delete_file_request_def with_delete_file_path_def live_ctx_def
        new_retrier_with_func retry_def retry_loop.simps retrier_run_def with_retrier_func_def rm_file_def)
qed

lemma deb_request_fields:
  "pi_getter deb_request = Some PackageInstallGetterCopy"
  "pi_installer deb_request = Some PackageInstallInstallerDEB"
  "pi_copy_path deb_request = ''/a/v.deb''" "pi_temp_dir deb_request = ''/tmp''"
  "path_base ''/a/v.deb'' = ''v.deb''"
  "path_join [''/tmp'', ''enos_install_get.1.v.deb''] = ''/tmp/enos_install_get.1.v.deb''"
  by (simp_all add: deb_request_def new_package_request_def with_package_installer_def
      with_package_getter_def with_package_copy_path_def) (code_simp+)

lemma deb_request_installed:
  "\<exists>res req'. package_install local_env live_ctx mock_transport deb_request 0 = Some ((res, None), req', 0)
    \<and> pi_temp_artifact req' = ''/tmp/enos_install_get.1.v.deb''"
proof -
  have "quiet (mock_transport :: nat transport)" by (rule quiet_mock)
  note q = quiet_copy_file [OF this] quiet_delete_file [OF this]
  have rid: "random_id live_ctx w = (''1'', w)" for w by (simp add: live_ctx_def)
  have copy: "copy_file live_ctx mock_transport (Some (new_copy_file_request
      [with_copy_file_content c, with_copy_file_destination ''/tmp/enos_install_get.1.v.deb''])) w
      = Some ((None, Some c), w)" for c and w :: nat
    using q(1) [of "new_copy_file_request [with_copy_file_content c,
        with_copy_file_destination ''/tmp/enos_install_get.1.v.deb'']" w]
    by (simp add: new_copy_file_request_def copy_file_opt_defs)
  have run: "run_cmd mock_transport t w = (([], [], None), w)" for t and w :: nat
    by (simp add: run_cmd_def mock_transport_def)
  show ?thesis
    by (simp add: package_install_def deb_request_fields compatible_iff package_get_copy_def
        local_env_def rid copy Let_def deb_install_def file_install_def run remove_artifact_def q(2))
qed

theorem package_install_ok_witness:
  "\<exists>req' w1 w2. pi_temp_artifact req' = ''/tmp/enos_install_get.1.v.deb''
    \<and> artifact_installed PackageInstallInstallerDEB None live_ctx mock_transport req' w1 (w2 :: nat)"
proof -
  obtain res req' where run: "package_install local_env live_ctx mock_transport deb_request 0
      = Some ((res, None), req', 0)" "pi_temp_artifact req' = ''/tmp/enos_install_get.1.v.deb''"
    using deb_request_installed by blast
  from package_install_ok [OF run(1)] obtain m w1 w2 where "pi_installer deb_request = Some m"
    "artifact_installed m (pe_embed local_env) live_ctx mock_transport req' w1 w2" by blast
  with run(2) show ?thesis by (auto simp: deb_request_fields local_env_def)
qed

end
