(* ===== verification/Server.thy ===== *)
theory Server
  imports GoErrors
begin

text \<open>
  The provider server (\<open>internal/server\<close>, \<open>internal/diags\<close>): routers of resources and data
  sources, and how the calls that plan and apply a change come back to Terraform: decoding of
  the states, the resource's own work, failure handlers and encoding of the result.

  Values, types and dynamic values are Terraform's and are type parameters \<open>'v\<close>, \<open>'t\<close> and
  \<open>'d\<close>; the record \<open>wire\<close> holds the library functions that the routers use on them. A resource
  is the record of its methods, with the world as what they can change.
\<close>

subsection \<open>Diagnostics (diags)\<close>

datatype severity = SeverityInvalid | SeverityError | SeverityWarning

record 'p diagnostic =
  dg_severity :: severity
  dg_summary :: string
  dg_detail :: string
  dg_attribute :: "'p option"

definition is_error :: "'p diagnostic \<Rightarrow> bool" where
  "is_error d \<longleftrightarrow> dg_severity d = SeverityError"

definition get_error_diagnostic :: "'p diagnostic list \<Rightarrow> 'p diagnostic option" where
  "get_error_diagnostic ds = List.find is_error ds"

definition has_errors :: "'p diagnostic list \<Rightarrow> bool" where
  "has_errors ds \<longleftrightarrow> get_error_diagnostic ds \<noteq> None"

text \<open>
  \<open>text\<close> is the text of an error, and \<open>attr\<close> what \<open>errors.As\<close> finds as an error of an
  attribute path: the path and the text of the error inside.
\<close>

record 'p error_view =
  ev_text :: "goerr \<Rightarrow> string"
  ev_attr :: "goerr \<Rightarrow> ('p \<times> string) option"

definition diagnostic_of :: "'p error_view \<Rightarrow> severity \<Rightarrow> string \<Rightarrow> goerr \<Rightarrow> 'p diagnostic" where
  "diagnostic_of ev sev summary err =
     (case ev_attr ev err of
        Some (path, inner) \<Rightarrow>
          \<lparr>dg_severity = sev, dg_summary = summary, dg_detail = inner, dg_attribute = Some path\<rparr>
      | None \<Rightarrow>
          \<lparr>dg_severity = sev, dg_summary = summary, dg_detail = ev_text ev err, dg_attribute = None\<rparr>)"

definition err_to_diagnostic :: "'p error_view \<Rightarrow> string \<Rightarrow> goerr \<Rightarrow> 'p diagnostic" where
  "err_to_diagnostic ev = diagnostic_of ev SeverityError"

definition err_to_diagnostic_warn :: "'p error_view \<Rightarrow> string \<Rightarrow> goerr \<Rightarrow> 'p diagnostic" where
  "err_to_diagnostic_warn ev = diagnostic_of ev SeverityWarning"

text \<open>
  A failure handler changes the diagnostic it is given, which is the first error of the list
  and stays in it.
\<close>

fun update_first_error :: "('p diagnostic \<Rightarrow> 'p diagnostic) \<Rightarrow> 'p diagnostic list \<Rightarrow> 'p diagnostic list" where
  "update_first_error f [] = []"
| "update_first_error f (d # ds) = (if is_error d then f d # ds else d # update_first_error f ds)"

subsection \<open>States and the wire (state.go)\<close>

record ('v, 't, 'd) wire =
  wr_unmarshal :: "'d \<Rightarrow> 't \<Rightarrow> 'v \<times> error"
  wr_dynamic :: "'t \<Rightarrow> 'v \<Rightarrow> 'd \<times> error"
  wr_null :: "'t \<Rightarrow> 'v"
  wr_is_null :: "'v \<Rightarrow> bool"

record ('w, 'v, 't, 'p) state =
  st_type :: 't
  st_value :: 'v
  st_handle_failure :: "'p diagnostic \<Rightarrow> 'v \<Rightarrow> 'w \<Rightarrow> 'p diagnostic \<times> 'w"

definition marshal_state ::
  "('v, 't, 'd) wire \<Rightarrow> ('w, 'v, 't, 'p) state \<Rightarrow> 'd \<times> error" where
  "marshal_state wr s =
     (case wr_dynamic wr (st_type s) (st_value s) of
        (dyn, Some e) \<Rightarrow> (dyn, Some (ErrWrap ''failed to marshal the state, due to: '' e []))
      | (dyn, None) \<Rightarrow> (dyn, None))"

definition marshal_delete ::
  "('v, 't, 'd) wire \<Rightarrow> ('w, 'v, 't, 'p) state \<Rightarrow> 'd \<times> error" where
  "marshal_delete wr s =
     (case wr_dynamic wr (st_type s) (wr_null wr (st_type s)) of
        (dyn, Some e) \<Rightarrow> (dyn, Some (ErrWrap ''failed to marshal the state, due to: '' e []))
      | (dyn, None) \<Rightarrow> (dyn, None))"

subsection \<open>Planning (plan.go)\<close>

text \<open>A request as it comes over the wire, of a plan (proposed state) or of an apply (planned state).\<close>

record 'd wire_request =
  wq_type_name :: string
  wq_prior :: 'd
  wq_next :: 'd
  wq_config :: 'd
  wq_private :: string
  wq_meta :: 'd

text \<open>The adapter request; the zero request has the zero values, which are null.\<close>

record ('v, 'd) change_request =
  cr_type_name :: string
  cr_prior :: 'v
  cr_next :: 'v
  cr_config :: "'d option"
  cr_private :: string
  cr_meta :: "'d option"

definition from_proto ::
  "('v, 't, 'd) wire \<Rightarrow> string \<Rightarrow> 't \<Rightarrow> 'd wire_request \<Rightarrow> (goerr, ('v, 'd) change_request) sum" where
  "from_proto wr what ty req =
     (case wr_unmarshal wr (wq_prior req) ty of
        (_, Some e) \<Rightarrow> Inl (ErrWrap ''failed to unmarshal prior state, due to: '' e [])
      | (prior, None) \<Rightarrow>
     (case wr_unmarshal wr (wq_next req) ty of
        (_, Some e) \<Rightarrow> Inl (ErrWrap (''failed to unmarshal '' @ what @ '' state, due to: '') e [])
      | (next_state, None) \<Rightarrow>
          Inr \<lparr>cr_type_name = wq_type_name req, cr_prior = prior, cr_next = next_state,
            cr_config = Some (wq_config req), cr_private = wq_private req, cr_meta = Some (wq_meta req)\<rparr>))"

text \<open>The adapter response; the state is an interface and nil until the resource sets it.\<close>

record ('w, 'v, 't, 'p) change_response =
  cp_state :: "('w, 'v, 't, 'p) state option"
  cp_requires_replace :: "'p list"
  cp_private :: string
  cp_diagnostics :: "'p diagnostic list"
  cp_unsafe :: bool

definition empty_response :: "('w, 'v, 't, 'p) change_response" where
  "empty_response = \<lparr>cp_state = None, cp_requires_replace = [], cp_private = [],
     cp_diagnostics = [], cp_unsafe = False\<rparr>"

record ('d, 'p) wire_response =
  wp_state :: "'d option"
  wp_requires_replace :: "'p list"
  wp_private :: string
  wp_diagnostics :: "'p diagnostic list"
  wp_unsafe :: bool

text \<open>
  \<open>ToTFProto6Response\<close>: the state is encoded only when there is no error. Encoding follows the
  state, which may be nil.
\<close>

definition to_proto ::
  "'p error_view \<Rightarrow> (('w, 'v, 't, 'p) state \<Rightarrow> 'd \<times> error) \<Rightarrow> ('w, 'v, 't, 'p) change_response
    \<Rightarrow> ('d, 'p) wire_response go" where
  "to_proto ev encode p =
     (let resp = \<lparr>wp_state = None, wp_requires_replace = cp_requires_replace p,
            wp_private = cp_private p, wp_diagnostics = cp_diagnostics p, wp_unsafe = cp_unsafe p\<rparr> in
      if has_errors (cp_diagnostics p) then Some resp
      else do {
        s \<leftarrow> deref (cp_state p);
        Some (case encode s of
            (_, Some e) \<Rightarrow> resp\<lparr>wp_diagnostics := wp_diagnostics resp
              @ [err_to_diagnostic ev ''Serialization Error'' e]\<rparr>
          | (dyn, None) \<Rightarrow> resp\<lparr>wp_state := Some dyn\<rparr>)
      })"

text \<open>
  With an error among the diagnostics the state is told of it, through the interface that
  holds it: a nil state panics.
\<close>

definition handle_failure ::
  "'v \<Rightarrow> ('w, 'v, 't, 'p) change_response \<Rightarrow> 'w \<Rightarrow> (('w, 'v, 't, 'p) change_response \<times> 'w) go" where
  "handle_failure cfg res w =
     (case get_error_diagnostic (cp_diagnostics res) of
        None \<Rightarrow> Some (res, w)
      | Some d \<Rightarrow> do {
          s \<leftarrow> deref (cp_state res);
          Some (case st_handle_failure s d cfg w of (d', w1) \<Rightarrow>
            (res\<lparr>cp_diagnostics := update_first_error (\<lambda>_. d') (cp_diagnostics res)\<rparr>, w1))
        })"

subsection \<open>Resources and their router (router.go)\<close>

datatype resource_call = ValidateResourceConfig | UpgradeResourceState | ReadResource | ImportResourceState

text \<open>
  The methods of a resource. Four calls only pass their messages on; \<open>'q\<close> and \<open>'r\<close> are those
  messages, and \<open>rs_call\<close> what the resource makes of a response that has no diagnostics yet.
\<close>

record ('w, 'v, 't, 'd, 'p, 's, 'q, 'r) resource =
  rs_name :: string
  rs_schema :: 's
  rs_value_type :: 't
  rs_set_config :: "'v \<Rightarrow> 'w \<Rightarrow> error \<times> 'w"
  rs_call :: "resource_call \<Rightarrow> 'q \<Rightarrow> 'r \<Rightarrow> 'w \<Rightarrow> ('r \<times> 'w) go"
  rs_plan :: "('v, 'd) change_request \<Rightarrow> ('w, 'v, 't, 'p) change_response \<Rightarrow> 'w
     \<Rightarrow> (('w, 'v, 't, 'p) change_response \<times> 'w) go"
  rs_apply :: "('v, 'd) change_request \<Rightarrow> ('w, 'v, 't, 'p) change_response \<Rightarrow> 'w
     \<Rightarrow> (('w, 'v, 't, 'p) change_response \<times> 'w) go"

type_synonym ('w, 'v, 't, 'd, 'p, 's, 'q, 'r) router = "(string \<times> ('w, 'v, 't, 'd, 'p, 's, 'q, 'r) resource) list"

definition register_resource ::
  "('w, 'v, 't, 'd, 'p, 's, 'q, 'r) resource \<Rightarrow> ('w, 'v, 't, 'd, 'p, 's, 'q, 'r) router
    \<Rightarrow> ('w, 'v, 't, 'd, 'p, 's, 'q, 'r) router" where
  "register_resource r router = map_set (rs_name r) r router"

definition new_router ::
  "(('w, 'v, 't, 'd, 'p, 's, 'q, 'r) router \<Rightarrow> ('w, 'v, 't, 'd, 'p, 's, 'q, 'r) router) list
    \<Rightarrow> ('w, 'v, 't, 'd, 'p, 's, 'q, 'r) router" where
  "new_router opts = apply_opts opts []"

definition err_unsupported_resource :: "string \<Rightarrow> goerr" where
  "err_unsupported_resource name = ErrSentinel (''unsupported resource: '' @ name)"

definition err_set_provider_config :: "goerr \<Rightarrow> goerr" where
  "err_set_provider_config e = ErrWrap ''setting provider config on resource: '' e []"

text \<open>How every call starts: find the resource and give it the configuration of the provider.\<close>

definition with_resource ::
  "('w, 'v, 't, 'd, 'p, 's, 'q, 'r) router \<Rightarrow> string \<Rightarrow> 'v
    \<Rightarrow> (('w, 'v, 't, 'd, 'p, 's, 'q, 'r) resource \<Rightarrow> 'w \<Rightarrow> ('a \<times> 'w) go) \<Rightarrow> 'w
    \<Rightarrow> (('a option \<times> error) \<times> 'w) go" where
  "with_resource router name cfg body w =
     (case map_of router name of
        None \<Rightarrow> Some ((None, Some (err_unsupported_resource name)), w)
      | Some r \<Rightarrow>
          (case rs_set_config r cfg w of
             (Some e, w1) \<Rightarrow> Some ((None, Some (err_set_provider_config e)), w1)
           | (None, w1) \<Rightarrow> do { (res, w2) \<leftarrow> body r w1; Some ((Some res, None), w2) }))"

definition route_call ::
  "('w, 'v, 't, 'd, 'p, 's, 'q, 'r) router \<Rightarrow> resource_call \<Rightarrow> string \<Rightarrow> 'q \<Rightarrow> 'r \<Rightarrow> 'v \<Rightarrow> 'w
    \<Rightarrow> (('r option \<times> error) \<times> 'w) go" where
  "route_call router call name req res cfg =
     with_resource router name cfg (\<lambda>r. rs_call r call req res)"

definition router_schemas :: "('w, 'v, 't, 'd, 'p, 's, 'q, 'r) router \<Rightarrow> (string \<times> 's) list" where
  "router_schemas router = map (\<lambda>(name, r). (name, rs_schema r)) router"

definition plan_resource_change ::
  "('v, 't, 'd) wire \<Rightarrow> 'p error_view \<Rightarrow> ('w, 'v, 't, 'd, 'p, 's, 'q, 'r) router \<Rightarrow> 'd wire_request
    \<Rightarrow> 'v \<Rightarrow> 'w \<Rightarrow> ((('d, 'p) wire_response option \<times> error) \<times> 'w) go" where
  "plan_resource_change wr ev router req cfg =
     with_resource router (wq_type_name req) cfg (\<lambda>r w. do {
       (res, w1) \<leftarrow> (case from_proto wr ''proposed'' (rs_value_type r) req of
           Inl e \<Rightarrow> Some (empty_response\<lparr>cp_diagnostics := [err_to_diagnostic ev ''Serialization Error'' e]\<rparr>, w)
         | Inr request \<Rightarrow> rs_plan r request empty_response w);
       (res, w2) \<leftarrow> handle_failure cfg res w1;
       resp \<leftarrow> to_proto ev (marshal_state wr) res;
       Some (resp, w2)
     })"

subsection \<open>Applying (apply.go)\<close>

definition is_delete :: "('v, 't, 'd) wire \<Rightarrow> ('v, 'd) change_request \<Rightarrow> bool" where
  "is_delete wr a \<longleftrightarrow> \<not> wr_is_null wr (cr_prior a) \<and> wr_is_null wr (cr_next a)"

definition is_create :: "('v, 't, 'd) wire \<Rightarrow> ('v, 'd) change_request \<Rightarrow> bool" where
  "is_create wr a \<longleftrightarrow> wr_is_null wr (cr_prior a) \<and> \<not> wr_is_null wr (cr_next a)"

definition is_update :: "('v, 't, 'd) wire \<Rightarrow> ('v, 'd) change_request \<Rightarrow> bool" where
  "is_update wr a \<longleftrightarrow> \<not> is_delete wr a \<and> \<not> is_create wr a"

definition marshal_apply ::
  "('v, 't, 'd) wire \<Rightarrow> bool \<Rightarrow> ('w, 'v, 't, 'p) state \<Rightarrow> 'd \<times> error" where
  "marshal_apply wr delete s = (if delete then marshal_delete wr s else marshal_state wr s)"

text \<open>A request that was not decoded is the zero request and no delete.\<close>

definition apply_resource_change ::
  "('v, 't, 'd) wire \<Rightarrow> 'p error_view \<Rightarrow> ('w, 'v, 't, 'd, 'p, 's, 'q, 'r) router \<Rightarrow> 'd wire_request
    \<Rightarrow> 'v \<Rightarrow> 'w \<Rightarrow> ((('d, 'p) wire_response option \<times> error) \<times> 'w) go" where
  "apply_resource_change wr ev router req cfg =
     with_resource router (wq_type_name req) cfg (\<lambda>r w. do {
       (res, delete, w1) \<leftarrow> (case from_proto wr ''planned'' (rs_value_type r) req of
           Inl e \<Rightarrow> Some (empty_response\<lparr>cp_diagnostics := [err_to_diagnostic ev ''Serialization Error'' e]\<rparr>,
             False, w)
         | Inr request \<Rightarrow> do {
             (res, w1) \<leftarrow> rs_apply r request empty_response w;
             Some (res, is_delete wr request, w1)
           });
       (res, w2) \<leftarrow> handle_failure cfg res w1;
       resp \<leftarrow> to_proto ev (marshal_apply wr delete) res;
       Some (resp, w2)
     })"

subsection \<open>Data sources (datarouter) and the server (server.go)\<close>

datatype data_call = ValidateDataResourceConfig | ReadDataSource

record ('w, 'v, 's, 'q, 'r) data_source =
  ds_name :: string
  ds_schema :: 's
  ds_set_config :: "'v \<Rightarrow> 'w \<Rightarrow> error \<times> 'w"
  ds_call :: "data_call \<Rightarrow> 'q \<Rightarrow> 'r \<Rightarrow> 'w \<Rightarrow> ('r \<times> 'w) go"

type_synonym ('w, 'v, 's, 'q, 'r) data_router = "(string \<times> ('w, 'v, 's, 'q, 'r) data_source) list"

definition register_data_source ::
  "('w, 'v, 's, 'q, 'r) data_source \<Rightarrow> ('w, 'v, 's, 'q, 'r) data_router \<Rightarrow> ('w, 'v, 's, 'q, 'r) data_router" where
  "register_data_source d router = map_set (ds_name d) d router"

definition new_data_router ::
  "(('w, 'v, 's, 'q, 'r) data_router \<Rightarrow> ('w, 'v, 's, 'q, 'r) data_router) list
    \<Rightarrow> ('w, 'v, 's, 'q, 'r) data_router" where
  "new_data_router opts = apply_opts opts []"

definition err_unsupported_data_source :: "string \<Rightarrow> goerr" where
  "err_unsupported_data_source name = ErrSentinel (''unsupported data source: '' @ name)"

definition route_data_call ::
  "('w, 'v, 's, 'q, 'r) data_router \<Rightarrow> data_call \<Rightarrow> string \<Rightarrow> 'q \<Rightarrow> 'r \<Rightarrow> 'v \<Rightarrow> 'w
    \<Rightarrow> (('r option \<times> error) \<times> 'w) go" where
  "route_data_call router call name req res meta w =
     (case map_of router name of
        None \<Rightarrow> Some ((None, Some (err_unsupported_data_source name)), w)
      | Some d \<Rightarrow>
          (case ds_set_config d meta w of
             (Some e, w1) \<Rightarrow>
               Some ((None, Some (ErrWrap ''setting provider config on data source: '' e [])), w1)
           | (None, w1) \<Rightarrow> do { (res, w2) \<leftarrow> ds_call d call req res w1; Some ((Some res, None), w2) }))"

definition data_router_schemas :: "('w, 'v, 's, 'q, 'r) data_router \<Rightarrow> (string \<times> 's) list" where
  "data_router_schemas router = map (\<lambda>(name, d). (name, ds_schema d)) router"

datatype provider_call = ValidateProviderConfig | ConfigureProvider | StopProvider

record ('w, 'v, 's, 'pq, 'pr) provider =
  pv_schema :: 's
  pv_meta_schema :: 's
  pv_call :: "provider_call \<Rightarrow> 'pq \<Rightarrow> 'w \<Rightarrow> (('pr \<times> error) \<times> 'w) go"
  pv_config :: "'w \<Rightarrow> 'v"

record ('w, 'v, 't, 'd, 'p, 's, 'q, 'r, 'pq, 'pr) server =
  sv_provider :: "('w, 'v, 's, 'pq, 'pr) provider option"
  sv_resources :: "('w, 'v, 't, 'd, 'p, 's, 'q, 'r) router"
  sv_data :: "('w, 'v, 's, 'q, 'r) data_router"

type_synonym ('w, 'v, 't, 'd, 'p, 's, 'q, 'r, 'pq, 'pr) server_opt =
  "('w, 'v, 't, 'd, 'p, 's, 'q, 'r, 'pq, 'pr) server \<Rightarrow> ('w, 'v, 't, 'd, 'p, 's, 'q, 'r, 'pq, 'pr) server"

definition new_server ::
  "('w, 'v, 't, 'd, 'p, 's, 'q, 'r, 'pq, 'pr) server_opt list
    \<Rightarrow> ('w, 'v, 't, 'd, 'p, 's, 'q, 'r, 'pq, 'pr) server" where
  "new_server opts = apply_opts opts \<lparr>sv_provider = None, sv_resources = [], sv_data = []\<rparr>"

definition register_provider ::
  "('w, 'v, 's, 'pq, 'pr) provider \<Rightarrow> ('w, 'v, 't, 'd, 'p, 's, 'q, 'r, 'pq, 'pr) server_opt" where
  "register_provider p s = s\<lparr>sv_provider := Some p\<rparr>"

definition register_data_router ::
  "('w, 'v, 's, 'q, 'r) data_router \<Rightarrow> ('w, 'v, 't, 'd, 'p, 's, 'q, 'r, 'pq, 'pr) server_opt" where
  "register_data_router d s = s\<lparr>sv_data := d\<rparr>"

definition register_resource_router ::
  "('w, 'v, 't, 'd, 'p, 's, 'q, 'r) router \<Rightarrow> ('w, 'v, 't, 'd, 'p, 's, 'q, 'r, 'pq, 'pr) server_opt" where
  "register_resource_router r s = s\<lparr>sv_resources := r\<rparr>"

text \<open>The calls of the service; each asks the provider for its configuration first.\<close>

definition get_provider_schema ::
  "('w, 'v, 't, 'd, 'p, 's, 'q, 'r, 'pq, 'pr) server
    \<Rightarrow> ('s \<times> 's \<times> (string \<times> 's) list \<times> (string \<times> 's) list) go" where
  "get_provider_schema s = do {
     p \<leftarrow> deref (sv_provider s);
     Some (pv_schema p, pv_meta_schema p, router_schemas (sv_resources s), data_router_schemas (sv_data s))
   }"

definition server_provider_call ::
  "('w, 'v, 't, 'd, 'p, 's, 'q, 'r, 'pq, 'pr) server \<Rightarrow> provider_call \<Rightarrow> 'pq \<Rightarrow> 'w
    \<Rightarrow> (('pr \<times> error) \<times> 'w) go" where
  "server_provider_call s call req w = do { p \<leftarrow> deref (sv_provider s); pv_call p call req w }"

definition server_resource_call ::
  "('w, 'v, 't, 'd, 'p, 's, 'q, 'r, 'pq, 'pr) server \<Rightarrow> resource_call \<Rightarrow> string \<Rightarrow> 'q \<Rightarrow> 'r \<Rightarrow> 'w
    \<Rightarrow> (('r option \<times> error) \<times> 'w) go" where
  "server_resource_call s call name req res w = do {
     p \<leftarrow> deref (sv_provider s);
     route_call (sv_resources s) call name req res (pv_config p w) w
   }"

definition server_data_call ::
  "('w, 'v, 't, 'd, 'p, 's, 'q, 'r, 'pq, 'pr) server \<Rightarrow> data_call \<Rightarrow> string \<Rightarrow> 'q \<Rightarrow> 'r \<Rightarrow> 'w
    \<Rightarrow> (('r option \<times> error) \<times> 'w) go" where
  "server_data_call s call name req res w = do {
     p \<leftarrow> deref (sv_provider s);
     route_data_call (sv_data s) call name req res (pv_config p w) w
   }"

definition server_plan ::
  "('v, 't, 'd) wire \<Rightarrow> 'p error_view \<Rightarrow> ('w, 'v, 't, 'd, 'p, 's, 'q, 'r, 'pq, 'pr) server
    \<Rightarrow> 'd wire_request \<Rightarrow> 'w \<Rightarrow> ((('d, 'p) wire_response option \<times> error) \<times> 'w) go" where
  "server_plan wr ev s req w = do {
     p \<leftarrow> deref (sv_provider s);
     plan_resource_change wr ev (sv_resources s) req (pv_config p w) w
   }"

definition server_apply ::
  "('v, 't, 'd) wire \<Rightarrow> 'p error_view \<Rightarrow> ('w, 'v, 't, 'd, 'p, 's, 'q, 'r, 'pq, 'pr) server
    \<Rightarrow> 'd wire_request \<Rightarrow> 'w \<Rightarrow> ((('d, 'p) wire_response option \<times> error) \<times> 'w) go" where
  "server_apply wr ev s req w = do {
     p \<leftarrow> deref (sv_provider s);
     apply_resource_change wr ev (sv_resources s) req (pv_config p w) w
   }"

text \<open>Calls that are not supported answer with an error (todo\_tfprotov6.go).\<close>

definition unsupported_call :: "string \<Rightarrow> string \<Rightarrow> 'p diagnostic list" where
  "unsupported_call summary detail =
     [\<lparr>dg_severity = SeverityError, dg_summary = summary, dg_detail = detail, dg_attribute = None\<rparr>]"

definition move_resource_state :: "'p diagnostic list" where
  "move_resource_state = unsupported_call ''Move Resource State Not Supported''
     ''This provider does not support moving resource state between types''"

definition upgrade_resource_identity :: "'p diagnostic list" where
  "upgrade_resource_identity = unsupported_call ''Upgrade Resource Identity Not Supported''
     ''This provider does not support resource identity upgrades''"

definition generate_resource_config :: "'p diagnostic list" where
  "generate_resource_config = unsupported_call ''Generate Resource Config Not Supported''
     ''This provider does not support generating resource configurations''"

datatype ephemeral_call = ValidateEphemeralConfig | OpenEphemeral | RenewEphemeral | CloseEphemeral

definition ephemeral_resource_call :: "ephemeral_call \<Rightarrow> 'p diagnostic list" where
  "ephemeral_resource_call call = unsupported_call ''Ephemeral Resources Not Supported''
     ''This provider does not support ephemeral resources''"

definition call_function :: string where
  "call_function = ''provider functions are not supported''"

definition get_functions :: "(string \<times> 'a) list" where
  "get_functions = []"

definition get_resource_identity_schemas :: "(string \<times> 'a) list" where
  "get_resource_identity_schemas = []"

definition get_metadata :: error where
  "get_metadata = Some (ErrNew ''not implemented'')"

subsection \<open>Lemmas\<close>

lemma find_update_first_error:
  "get_error_diagnostic ds = Some d \<Longrightarrow> is_error d' \<Longrightarrow>
     get_error_diagnostic (update_first_error (\<lambda>_. d') ds) = Some d'"
  by (induction ds) (auto simp: get_error_diagnostic_def split: if_splits)

lemma get_error_diagnostic_error: "get_error_diagnostic ds = Some d \<Longrightarrow> is_error d"
  by (auto simp: get_error_diagnostic_def find_Some_iff)

lemma err_to_diagnostic_error: "is_error (err_to_diagnostic ev summary e)"
  by (simp add: is_error_def err_to_diagnostic_def diagnostic_of_def split: option.splits)

lemma has_errors_single: "has_errors [d] = is_error d"
  by (simp add: has_errors_def get_error_diagnostic_def)

text \<open>The router keeps the resource registered last under a name.\<close>

lemma new_router_lookup:
  "map_of (new_router (map register_resource rs)) name = List.find (\<lambda>r. rs_name r = name) (rev rs)"
proof (induction rs rule: rev_induct)
  case Nil
  show ?case by (simp add: new_router_def)
next
  case (snoc r rs)
  then show ?case by (auto simp: new_router_def register_resource_def map_of_map_set)
qed

text \<open>What becomes of a change once the resource is found and configured.\<close>

lemma with_resource_ok:
  assumes "with_resource router name cfg body w = Some ((Some res, None), w')"
  shows "\<exists>r w1. map_of router name = Some r \<and> rs_set_config r cfg w = (None, w1)
    \<and> body r w1 = Some (res, w')"
  using assms by (auto simp: with_resource_def bind_eq_Some_iff split: option.splits prod.splits)

lemma not_decoded_panics:
  "handle_failure cfg (empty_response\<lparr>cp_diagnostics := [err_to_diagnostic ev summary e]\<rparr>) w = None"
  using err_to_diagnostic_error [of ev summary e]
  by (simp add: handle_failure_def get_error_diagnostic_def empty_response_def deref_def)

definition response_outcome ::
  "'p error_view \<Rightarrow> (('w, 'v, 't, 'p) state \<Rightarrow> 'd \<times> error) \<Rightarrow> 'v \<Rightarrow> ('w, 'v, 't, 'p) change_response
    \<Rightarrow> 'w \<Rightarrow> ('d, 'p) wire_response \<Rightarrow> 'w \<Rightarrow> bool" where
  "response_outcome ev encode cfg res w resp w' \<longleftrightarrow>
     (\<exists>s. cp_state res = Some s \<and>
       (case get_error_diagnostic (cp_diagnostics res) of
          Some d \<Rightarrow> \<exists>d'. st_handle_failure s d cfg w = (d', w') \<and> wp_state resp = None
            \<and> wp_diagnostics resp = update_first_error (\<lambda>_. d') (cp_diagnostics res)
        | None \<Rightarrow> w' = w \<and>
            (case encode s of
               (dyn, None) \<Rightarrow> wp_state resp = Some dyn \<and> wp_diagnostics resp = cp_diagnostics res
             | (_, Some e) \<Rightarrow> wp_state resp = None \<and> wp_diagnostics resp
                 = cp_diagnostics res @ [err_to_diagnostic ev ''Serialization Error'' e])))"

lemma handle_then_encode:
  assumes "do { (res1, w2) \<leftarrow> handle_failure cfg res w; resp \<leftarrow> to_proto ev encode res1; Some (resp, w2) }
      = Some (resp, w')"
    and "\<And>s d c w. cp_state res = Some s \<Longrightarrow> dg_severity (fst (st_handle_failure s d c w)) = dg_severity d"
  shows "response_outcome ev encode cfg res w resp w'"
proof (cases "get_error_diagnostic (cp_diagnostics res)")
  case None
  then have p: "to_proto ev encode res = Some resp" "w' = w" "\<not> has_errors (cp_diagnostics res)"
    using assms(1) by (auto simp: handle_failure_def bind_eq_Some_iff has_errors_def)
  then obtain s where s: "cp_state res = Some s" by (auto simp: to_proto_def Let_def bind_eq_Some_iff deref_def)
  obtain dyn e where "encode s = (dyn, e)" by (metis surj_pair)
  then show ?thesis
    using None p s by (cases e) (auto simp: to_proto_def Let_def response_outcome_def deref_def)
next
  case (Some d)
  from assms(1) Some obtain s where s: "cp_state res = Some s"
    by (auto simp: handle_failure_def bind_eq_Some_iff deref_def)
  obtain d' w2 where d': "st_handle_failure s d cfg w = (d', w2)" by (metis surj_pair)
  have "is_error d'"
    using assms(2) [OF s, of d cfg w] get_error_diagnostic_error [OF Some] d' by (simp add: is_error_def)
  then have "has_errors (update_first_error (\<lambda>_. d') (cp_diagnostics res))"
    using find_update_first_error [OF Some] by (simp add: has_errors_def)
  then show ?thesis
    using assms(1) Some s d' by (auto simp: handle_failure_def to_proto_def deref_def response_outcome_def Let_def)
qed

subsection \<open>Properties\<close>

text \<open>
  C16: when the states of resources keep the severity of the diagnostic they are
  told of, an apply that answers with a response and no error has found the resource, given it
  the configuration, decoded the request, and taken the resource's response, whose state is
  set. If that response has an error, the state was told of the first one, the response has
  no state and the diagnostics differ from the resource's in that one only. Otherwise the
  state is encoded, as null when the request deletes, or there is one more diagnostic.
\<close>

theorem apply_resource_change_outcome:
  assumes "apply_resource_change wr ev router req cfg w = Some ((Some resp, None), w')"
    and "\<And>r request res w w1 s d c v. r \<in> snd ` set router \<Longrightarrow> rs_apply r request empty_response w = Some (res, w1)
      \<Longrightarrow> cp_state res = Some s \<Longrightarrow> dg_severity (fst (st_handle_failure s d c v)) = dg_severity d"
  shows "\<exists>r w1 request res w2. map_of router (wq_type_name req) = Some r
    \<and> rs_set_config r cfg w = (None, w1)
    \<and> from_proto wr ''planned'' (rs_value_type r) req = Inr request
    \<and> rs_apply r request empty_response w1 = Some (res, w2)
    \<and> response_outcome ev (marshal_apply wr (is_delete wr request)) cfg res w2 resp w'"
proof -
  from with_resource_ok [OF assms(1) [unfolded apply_resource_change_def]]
  obtain r w1 where r: "map_of router (wq_type_name req) = Some r" "rs_set_config r cfg w = (None, w1)"
    and body: "do {
       (res, delete, w1) \<leftarrow> (case from_proto wr ''planned'' (rs_value_type r) req of
           Inl e \<Rightarrow> Some (empty_response\<lparr>cp_diagnostics := [err_to_diagnostic ev ''Serialization Error'' e]\<rparr>,
             False, w1)
         | Inr request \<Rightarrow> do {
             (res, w1) \<leftarrow> rs_apply r request empty_response w1;
             Some (res, is_delete wr request, w1)
           });
       (res, w2) \<leftarrow> handle_failure cfg res w1;
       resp \<leftarrow> to_proto ev (marshal_apply wr delete) res;
       Some (resp, w2)
     } = Some (resp, w')" by blast
  show ?thesis
  proof (cases "from_proto wr ''planned'' (rs_value_type r) req")
    case (Inl e)
    then show ?thesis using body by (simp add: not_decoded_panics)
  next
    case (Inr request)
    then obtain res w2 where a: "rs_apply r request empty_response w1 = Some (res, w2)"
      and rest: "do { (res1, w3) \<leftarrow> handle_failure cfg res w2;
        resp \<leftarrow> to_proto ev (marshal_apply wr (is_delete wr request)) res1; Some (resp, w3) } = Some (resp, w')"
      using body by (auto simp: bind_eq_Some_iff)
    have "r \<in> snd ` set router" using map_of_SomeD [OF r(1)] by force
    from assms(2) [OF this a] have "response_outcome ev (marshal_apply wr (is_delete wr request)) cfg res w2 resp w'"
      by (rule handle_then_encode [OF rest])
    with r Inr a show ?thesis by blast
  qed
qed

text \<open>
  C17: a plan or an apply whose states cannot be decoded makes the router panic: it adds
  the error to the diagnostics and then tells the state of it, which no resource has set.
\<close>

theorem undecodable_change_panics:
  assumes "map_of router (wq_type_name req) = Some r" "rs_set_config r cfg w = (None, w1)"
    and "snd (wr_unmarshal wr (wq_prior req) (rs_value_type r)) \<noteq> None
      \<or> snd (wr_unmarshal wr (wq_next req) (rs_value_type r)) \<noteq> None"
  shows "apply_resource_change wr ev router req cfg w = None
    \<and> plan_resource_change wr ev router req cfg w = None"
proof -
  have "\<exists>e. from_proto wr what (rs_value_type r) req = Inl e" for what
    using assms(3) by (auto simp: from_proto_def split: prod.splits option.splits)
  then obtain e1 e2 where "from_proto wr ''planned'' (rs_value_type r) req = Inl e1"
    "from_proto wr ''proposed'' (rs_value_type r) req = Inl e2" by blast
  then show ?thesis
    using assms(1,2)
    by (simp add: apply_resource_change_def plan_resource_change_def with_resource_def not_decoded_panics)
qed

text \<open>
  A wire on which values are their own encoding and the text ! is no value, and a resource that
  makes the planned value its new state.
\<close>

definition text_wire :: "(string option, unit, string option) wire" where
  "text_wire = \<lparr>wr_unmarshal = (\<lambda>d t. if d = Some ''!'' then (None, Some (ErrNew ''bad'')) else (d, None)),
     wr_dynamic = (\<lambda>t v. (v, None)), wr_null = (\<lambda>t. None), wr_is_null = (\<lambda>v. v = None)\<rparr>"

definition text_view :: "nat error_view" where
  "text_view = \<lparr>ev_text = (\<lambda>e. ''error''), ev_attr = (\<lambda>e. None)\<rparr>"

definition text_state :: "string option \<Rightarrow> (nat, string option, unit, nat) state" where
  "text_state v = \<lparr>st_type = (), st_value = v, st_handle_failure = (\<lambda>d c w. (d, w))\<rparr>"

definition text_resource ::
  "(nat, string option, unit, string option, nat, unit, unit, unit) resource" where
  "text_resource = \<lparr>rs_name = ''enos_file'', rs_schema = (), rs_value_type = (),
     rs_set_config = (\<lambda>v w. (None, w)), rs_call = (\<lambda>c q r w. Some (r, w)),
     rs_plan = (\<lambda>q r w. Some (r\<lparr>cp_state := Some (text_state (cr_next q))\<rparr>, w)),
     rs_apply = (\<lambda>q r w. Some (r\<lparr>cp_state := Some (text_state (cr_next q))\<rparr>, w + 1))\<rparr>"

definition text_router :: "(nat, string option, unit, string option, nat, unit, unit, unit) router" where
  "text_router = new_router [register_resource text_resource]"

definition text_request :: "string option \<Rightarrow> string option \<Rightarrow> string option wire_request" where
  "text_request prior planned = \<lparr>wq_type_name = ''enos_file'', wq_prior = prior, wq_next = planned,
     wq_config = None, wq_private = [], wq_meta = None\<rparr>"

lemma text_router_entry: "text_router = [(''enos_file'', text_resource)]"
  by (simp add: text_router_def new_router_def register_resource_def text_resource_def)

theorem apply_resource_change_outcome_witness:
  "\<exists>resp. apply_resource_change text_wire text_view text_router (text_request (Some ''a'') (Some ''b'')) None 0
     = Some ((Some resp, None), 1)
   \<and> (\<exists>res. response_outcome text_view (marshal_apply text_wire False) None res (1::nat) resp 1)"
proof -
  obtain resp where run: "apply_resource_change text_wire text_view text_router
      (text_request (Some ''a'') (Some ''b'')) None 0 = Some ((Some resp, None), 1)"
    by (simp add: apply_resource_change_def with_resource_def text_router_entry text_request_def
        text_resource_def from_proto_def text_wire_def empty_response_def handle_failure_def
        get_error_diagnostic_def to_proto_def has_errors_def deref_def marshal_apply_def is_delete_def
        marshal_state_def text_state_def Let_def)
  have "\<exists>r w1 request res w2. map_of text_router (wq_type_name (text_request (Some ''a'') (Some ''b''))) = Some r
    \<and> rs_set_config r None (0::nat) = (None, w1)
    \<and> from_proto text_wire ''planned'' (rs_value_type r) (text_request (Some ''a'') (Some ''b'')) = Inr request
    \<and> rs_apply r request empty_response w1 = Some (res, w2)
    \<and> response_outcome text_view (marshal_apply text_wire (is_delete text_wire request)) None res w2 resp 1"
    by (rule apply_resource_change_outcome [OF run])
      (auto simp: text_router_entry text_resource_def text_state_def empty_response_def)
  then obtain r w1 request res w2 where o:
    "map_of text_router (wq_type_name (text_request (Some ''a'') (Some ''b''))) = Some r"
    "rs_set_config r None (0::nat) = (None, w1)"
    "from_proto text_wire ''planned'' (rs_value_type r) (text_request (Some ''a'') (Some ''b'')) = Inr request"
    "rs_apply r request empty_response w1 = Some (res, w2)"
    "response_outcome text_view (marshal_apply text_wire (is_delete text_wire request)) None res w2 resp 1"
    by (elim exE conjE) (rule that)
  have r: "r = text_resource" using o(1) by (simp add: text_router_entry text_request_def)
  have q: "\<not> is_delete text_wire request"
    using o(3) by (auto simp: from_proto_def text_wire_def text_request_def is_delete_def r text_resource_def)
  have "w2 = 1" using o(2,4) by (auto simp: r text_resource_def)
  with q o(5) have "response_outcome text_view (marshal_apply text_wire False) None res (1::nat) resp 1" by simp
  with run show ?thesis by blast
qed

theorem undecodable_change_panics_witness:
  "apply_resource_change text_wire text_view text_router (text_request (Some ''!'') None) None 0 = None"
  using undecodable_change_panics [of text_router "text_request (Some ''!'') None" text_resource None 0 0 text_wire text_view]
  by (simp add: text_router_entry text_request_def text_resource_def text_wire_def)

end
