(* ===== verification/TfTypes.thy ===== *)
theory TfTypes
  imports GoStrings Server "HOL-Library.List_Lexorder" "HOL-Library.Char_ord"
begin

text \<open>
  The attribute types of the plugin (\<open>internal/plugin/tftypes.go\<close>): Go values that can be
  unknown or null, and how they become values of Terraform and are read from them.

  The types and values of Terraform belong to the library tftypes and are type parameters
  \<open>'t\<close> and \<open>'v\<close>; the record \<open>tf_lib\<close> holds what the code calls, and \<open>tf_laws\<close> what the
  documentation promises of it. An object type refers to its map of attribute types and does
  not hold a copy, so maps of attribute types live in a heap: \<open>TFType\<close> of an object writes
  into its map, and the elements of a list of objects share one.
\<close>

subsection \<open>The library and its types\<close>

record 't heap =
  hp_next :: nat
  hp_maps :: "nat \<Rightarrow> (string \<times> 't) list"

definition new_map :: "'t heap \<Rightarrow> nat \<times> 't heap" where
  "new_map h = (hp_next h, h\<lparr>hp_next := Suc (hp_next h), hp_maps := (hp_maps h)(hp_next h := [])\<rparr>)"

definition set_attr_type :: "nat \<Rightarrow> string \<Rightarrow> 't \<Rightarrow> 't heap \<Rightarrow> 't heap" where
  "set_attr_type a k t h = h\<lparr>hp_maps := (hp_maps h)(a := map_set k t (hp_maps h a))\<rparr>"

text \<open>The nil map has address 0.\<close>

definition nil_map :: nat where
  "nil_map = 0"

text \<open>What \<open>NewValue\<close> can be given.\<close>

datatype 'v payload =
    UnknownValue
  | NilValue
  | BoolValue bool
  | NumValue "64 word"
  | StringValue string
  | ListValue "'v list"
  | MapValue "(string \<times> 'v) list"

record ('t, 'v) tf_lib =
  ty_bool :: 't
  ty_number :: 't
  ty_string :: 't
  ty_dynamic :: 't
  ty_list :: "'t \<Rightarrow> 't"
  ty_map :: "'t option \<Rightarrow> 't"
  ty_object :: "nat \<Rightarrow> string list \<Rightarrow> 't"
  ty_is :: "'t heap \<Rightarrow> 't \<Rightarrow> 't \<Rightarrow> bool"
  ty_equal :: "'t heap \<Rightarrow> 't \<Rightarrow> 't \<Rightarrow> bool"
  ty_is_object :: "'t \<Rightarrow> bool"
  ty_list_elem :: "'t \<Rightarrow> 't option"
  ty_show :: "'t heap \<Rightarrow> 't \<Rightarrow> string"
  val_make :: "'t \<Rightarrow> 'v payload \<Rightarrow> 'v"
  val_fits :: "'t heap \<Rightarrow> 't \<Rightarrow> 'v payload \<Rightarrow> bool"
  val_type :: "'v \<Rightarrow> 't"
  val_equal :: "'t heap \<Rightarrow> 'v \<Rightarrow> 'v \<Rightarrow> bool"
  val_known :: "'v \<Rightarrow> bool"
  val_null :: "'v \<Rightarrow> bool"
  val_fully_known :: "'v \<Rightarrow> bool"
  val_as_bool :: "'v \<Rightarrow> bool \<Rightarrow> bool \<times> error"
  val_as_num :: "'v \<Rightarrow> 64 word \<Rightarrow> 64 word \<times> error"
  val_as_string :: "'v \<Rightarrow> string \<Rightarrow> string \<times> error"
  val_as_list :: "'v \<Rightarrow> 'v list \<Rightarrow> 'v list \<times> error"
  val_as_map :: "'v \<Rightarrow> (string \<times> 'v) list \<Rightarrow> (string \<times> 'v) list \<times> error"
  val_msgpack :: "'v \<Rightarrow> string \<times> error"
  val_zero :: 'v

text \<open>\<open>NewValue\<close> panics with a payload that does not fit; every type has null and unknown values.\<close>

definition new_value :: "('t, 'v) tf_lib \<Rightarrow> 't heap \<Rightarrow> 't \<Rightarrow> 'v payload \<Rightarrow> 'v go" where
  "new_value L h t p =
     (if p = UnknownValue \<or> p = NilValue \<or> val_fits L h t p then Some (val_make L t p) else None)"

definition unknown_value :: "('t, 'v) tf_lib \<Rightarrow> 't \<Rightarrow> 'v" where
  "unknown_value L t = val_make L t UnknownValue"

definition null_value :: "('t, 'v) tf_lib \<Rightarrow> 't \<Rightarrow> 'v" where
  "null_value L t = val_make L t NilValue"

definition null_dst_val :: "('t, 'v) tf_lib \<Rightarrow> 'v" where
  "null_dst_val L = null_value L (ty_dynamic L)"

definition unknown_dst_val :: "('t, 'v) tf_lib \<Rightarrow> 'v" where
  "unknown_dst_val L = unknown_value L (ty_dynamic L)"

subsection \<open>Values that can be unknown or null\<close>

datatype 'a tfv = Tfv (is_unknown: bool) (is_null: bool) (raw_val: 'a)

type_synonym tf_bool = "bool tfv"
type_synonym tf_num = "64 word tfv"
type_synonym tf_string = "string tfv"
type_synonym tf_string_slice = "tf_string list tfv"
type_synonym tf_string_map = "(string \<times> tf_string) list tfv"

definition new_tf :: "'a \<Rightarrow> 'a tfv" where
  "new_tf zero = Tfv False True zero"

definition tf_get :: "'a tfv \<Rightarrow> 'a \<times> bool" where
  "tf_get b = (raw_val b, \<not> (is_unknown b \<or> is_null b))"

definition tf_set :: "'a \<Rightarrow> 'a tfv \<Rightarrow> 'a tfv" where
  "tf_set x b = Tfv False False x"

definition set_unknown :: "'a tfv \<Rightarrow> 'a tfv" where
  "set_unknown b = Tfv True (is_null b) (raw_val b)"

definition set_null :: "'a tfv \<Rightarrow> 'a tfv" where
  "set_null b = Tfv (is_unknown b) True (raw_val b)"

definition tf_eq :: "'a tfv \<Rightarrow> 'a tfv option \<Rightarrow> bool" where
  "tf_eq b other = (case other of None \<Rightarrow> False | Some b' \<Rightarrow> b = b')"

definition tf_show :: "('a \<Rightarrow> string) \<Rightarrow> 'a tfv \<Rightarrow> string" where
  "tf_show f b = (if is_unknown b then ''unknown'' else if is_null b then ''null'' else f (raw_val b))"

text \<open>
  The bodies of \<open>TFValue\<close> and \<open>FromTFValue\<close> that all these types share: \<open>enc\<close> is the value
  that is neither unknown nor null, \<open>dec\<close> what the value says when it is neither.
\<close>

definition tf_value :: "('t, 'v) tf_lib \<Rightarrow> 't heap \<Rightarrow> 't \<Rightarrow> ('a \<Rightarrow> 'v go) \<Rightarrow> 'a tfv \<Rightarrow> 'v go" where
  "tf_value L h t enc b =
     (if is_unknown b then new_value L h t UnknownValue
      else if is_null b then new_value L h t NilValue
      else enc (raw_val b))"

definition from_tf_value ::
  "('t, 'v) tf_lib \<Rightarrow> 't heap \<Rightarrow> 't \<Rightarrow> ('v \<Rightarrow> 'a \<times> error) \<Rightarrow> 'a tfv \<Rightarrow> 'v \<Rightarrow> 'a tfv \<times> error" where
  "from_tf_value L h t dec b v =
     (if val_equal L h v (unknown_dst_val L) \<or> val_equal L h v (unknown_value L t) then (set_unknown b, None)
      else if val_equal L h v (null_dst_val L) \<or> val_equal L h v (null_value L t) then (set_null b, None)
      else (case dec v of (x, None) \<Rightarrow> (tf_set x b, None) | (_, Some e) \<Rightarrow> (b, Some e)))"

subsection \<open>Booleans, numbers and strings\<close>

definition bool_value :: "('t, 'v) tf_lib \<Rightarrow> 't heap \<Rightarrow> tf_bool \<Rightarrow> 'v go" where
  "bool_value L h = tf_value L h (ty_bool L) (\<lambda>x. new_value L h (ty_bool L) (BoolValue x))"

definition bool_from_value ::
  "('t, 'v) tf_lib \<Rightarrow> 't heap \<Rightarrow> tf_bool \<Rightarrow> 'v \<Rightarrow> tf_bool \<times> error" where
  "bool_from_value L h = from_tf_value L h (ty_bool L) (\<lambda>v. val_as_bool L v False)"

definition num_value :: "('t, 'v) tf_lib \<Rightarrow> 't heap \<Rightarrow> tf_num \<Rightarrow> 'v go" where
  "num_value L h = tf_value L h (ty_number L) (\<lambda>x. new_value L h (ty_number L) (NumValue x))"

text \<open>Terraform's number is read as a float and cut to 64 bits; both steps are the library's.\<close>

definition num_from_value ::
  "('t, 'v) tf_lib \<Rightarrow> 't heap \<Rightarrow> tf_num \<Rightarrow> 'v \<Rightarrow> tf_num \<times> error" where
  "num_from_value L h = from_tf_value L h (ty_number L) (\<lambda>v. val_as_num L v 0)"

definition string_value :: "('t, 'v) tf_lib \<Rightarrow> 't heap \<Rightarrow> tf_string \<Rightarrow> 'v go" where
  "string_value L h = tf_value L h (ty_string L) (\<lambda>x. new_value L h (ty_string L) (StringValue x))"

definition string_from_value ::
  "('t, 'v) tf_lib \<Rightarrow> 't heap \<Rightarrow> tf_string \<Rightarrow> 'v \<Rightarrow> tf_string \<times> error" where
  "string_from_value L h = from_tf_value L h (ty_string L) (\<lambda>v. val_as_string L v [])"

definition bool_show :: "tf_bool \<Rightarrow> string" where
  "bool_show = tf_show show_bool"

definition num_show :: "tf_num \<Rightarrow> string" where
  "num_show = tf_show (\<lambda>n. show_int (sint n))"

definition string_show :: "tf_string \<Rightarrow> string" where
  "string_show = tf_show (\<lambda>s. s)"

definition strings_set_or_unknown :: "tf_string list \<Rightarrow> bool" where
  "strings_set_or_unknown args = list_ex (\<lambda>b. is_unknown b \<or> snd (tf_get b)) args"

subsection \<open>Slices of strings\<close>

fun strings_values :: "('t, 'v) tf_lib \<Rightarrow> 't heap \<Rightarrow> tf_string list \<Rightarrow> 'v list go" where
  "strings_values L h [] = Some []"
| "strings_values L h (s # ss) = do { v \<leftarrow> string_value L h s; vs \<leftarrow> strings_values L h ss; Some (v # vs) }"

definition string_slice_type :: "('t, 'v) tf_lib \<Rightarrow> 't" where
  "string_slice_type L = ty_list L (ty_string L)"

text \<open>An empty slice is the null value.\<close>

definition string_slice_value :: "('t, 'v) tf_lib \<Rightarrow> 't heap \<Rightarrow> tf_string_slice \<Rightarrow> 'v go" where
  "string_slice_value L h = tf_value L h (string_slice_type L) (\<lambda>ss.
     if ss = [] then new_value L h (string_slice_type L) NilValue
     else do { vs \<leftarrow> strings_values L h ss; new_value L h (string_slice_type L) (ListValue vs) })"

fun strings_from_values :: "('t, 'v) tf_lib \<Rightarrow> 't heap \<Rightarrow> 'v list \<Rightarrow> tf_string list \<times> error" where
  "strings_from_values L h [] = ([], None)"
| "strings_from_values L h (v # vs) =
     (case string_from_value L h (new_tf []) v of
        (_, Some e) \<Rightarrow> ([], Some e)
      | (s, None) \<Rightarrow>
          (case strings_from_values L h vs of (ss, None) \<Rightarrow> (s # ss, None) | (_, Some e) \<Rightarrow> ([], Some e)))"

definition string_slice_from_value ::
  "('t, 'v) tf_lib \<Rightarrow> 't heap \<Rightarrow> tf_string_slice \<Rightarrow> 'v \<Rightarrow> tf_string_slice \<times> error" where
  "string_slice_from_value L h = from_tf_value L h (string_slice_type L) (\<lambda>v.
     case val_as_list L v [] of
       (vs, None) \<Rightarrow> strings_from_values L h vs
     | (_, Some e) \<Rightarrow> ([], Some e))"

text \<open>\<open>GetStrings\<close> gives the strings before the first one that is unknown or null.\<close>

fun known_strings :: "tf_string list \<Rightarrow> string list \<times> bool" where
  "known_strings [] = ([], True)"
| "known_strings (s # ss) =
     (if snd (tf_get s) then (case known_strings ss of (xs, ok) \<Rightarrow> (fst (tf_get s) # xs, ok)) else ([], False))"

definition string_slice_get_strings :: "tf_string_slice \<Rightarrow> string list \<times> bool" where
  "string_slice_get_strings b = (if snd (tf_get b) then known_strings (fst (tf_get b)) else ([], False))"

definition string_slice_string_value :: "tf_string_slice \<Rightarrow> string list" where
  "string_slice_string_value b = fst (string_slice_get_strings b)"

definition string_slice_set_strings :: "string list \<Rightarrow> tf_string_slice \<Rightarrow> tf_string_slice" where
  "string_slice_set_strings strs b = tf_set (map (\<lambda>s. tf_set s (new_tf [])) strs) b"

definition string_slice_fully_known :: "tf_string_slice \<Rightarrow> bool" where
  "string_slice_fully_known b =
     (snd (tf_get b) \<and> list_all (\<lambda>s. snd (tf_get s)) (fst (tf_get b)))"

definition string_slice_show :: "tf_string_slice \<Rightarrow> string" where
  "string_slice_show = tf_show (\<lambda>ss. ''['' @ join_with '' '' (map string_show ss) @ '']'')"

subsection \<open>Maps of strings\<close>

fun map_values :: "('t, 'v) tf_lib \<Rightarrow> 't heap \<Rightarrow> (string \<times> tf_string) list \<Rightarrow> (string \<times> 'v) list go" where
  "map_values L h [] = Some []"
| "map_values L h ((k, s) # kss) =
     do { v \<leftarrow> string_value L h s; kvs \<leftarrow> map_values L h kss; Some ((k, v) # kvs) }"

definition string_map_type :: "('t, 'v) tf_lib \<Rightarrow> 't" where
  "string_map_type L = ty_map L (Some (ty_string L))"

definition string_map_value :: "('t, 'v) tf_lib \<Rightarrow> 't heap \<Rightarrow> tf_string_map \<Rightarrow> 'v go" where
  "string_map_value L h = tf_value L h (string_map_type L) (\<lambda>m.
     if m = [] then new_value L h (string_map_type L) NilValue
     else do { kvs \<leftarrow> map_values L h m; new_value L h (string_map_type L) (MapValue kvs) })"

fun map_from_values ::
  "('t, 'v) tf_lib \<Rightarrow> 't heap \<Rightarrow> (string \<times> 'v) list \<Rightarrow> (string \<times> tf_string) list \<times> error" where
  "map_from_values L h [] = ([], None)"
| "map_from_values L h ((k, v) # kvs) =
     (case string_from_value L h (new_tf []) v of
        (_, Some e) \<Rightarrow> ([], Some e)
      | (s, None) \<Rightarrow>
          (case map_from_values L h kvs of (kss, None) \<Rightarrow> ((k, s) # kss, None) | (_, Some e) \<Rightarrow> ([], Some e)))"

definition string_map_from_value ::
  "('t, 'v) tf_lib \<Rightarrow> 't heap \<Rightarrow> tf_string_map \<Rightarrow> 'v \<Rightarrow> tf_string_map \<times> error" where
  "string_map_from_value L h = from_tf_value L h (string_map_type L) (\<lambda>v.
     case val_as_map L v [] of
       (kvs, None) \<Rightarrow> map_from_values L h kvs
     | (_, Some e) \<Rightarrow> ([], Some e))"

text \<open>With a string that is unknown or null \<open>GetStrings\<close> gives what the range met before it.\<close>

fun known_map_strings :: "(string \<times> tf_string) list \<Rightarrow> (string \<times> string) list \<times> bool" where
  "known_map_strings [] = ([], True)"
| "known_map_strings ((k, s) # kss) =
     (if snd (tf_get s)
      then (case known_map_strings kss of (kxs, ok) \<Rightarrow> ((k, fst (tf_get s)) # kxs, ok))
      else ([], False))"

definition string_map_get_strings :: "tf_string_map \<Rightarrow> (string \<times> string) list \<times> bool" where
  "string_map_get_strings b = (if snd (tf_get b) then known_map_strings (fst (tf_get b)) else ([], False))"

definition string_map_string_value :: "tf_string_map \<Rightarrow> (string \<times> string) list" where
  "string_map_string_value b = fst (string_map_get_strings b)"

definition string_map_set_strings :: "(string \<times> string) list \<Rightarrow> tf_string_map \<Rightarrow> tf_string_map" where
  "string_map_set_strings strs b = tf_set (map (\<lambda>(k, s). (k, tf_set s (new_tf []))) strs) b"

definition string_map_fully_known :: "tf_string_map \<Rightarrow> bool" where
  "string_map_fully_known b =
     (snd (tf_get b) \<and> list_all (\<lambda>(k, s). snd (tf_get s)) (fst (tf_get b)))"

text \<open>Go prints maps in the order of the keys.\<close>

definition string_map_show :: "tf_string_map \<Rightarrow> string" where
  "string_map_show = tf_show (\<lambda>m. ''map['' @ join_with '' ''
     (map (\<lambda>(k, s). k @ '':'' @ string_show s) (sort_key fst m)) @ '']'')"

subsection \<open>Objects and lists of objects\<close>

text \<open>
  A value of an object is a pointer to one of the types of this file, a value of Terraform,
  or any other Go value, which the code does not support; the types implement \<open>TFType\<close>.
\<close>

datatype 'v tf_any =
    TfBool tf_bool
  | TfNum tf_num
  | TfString tf_string
  | TfStringSlice tf_string_slice
  | TfStringMap tf_string_map
  | TfObject "'v tf_object"
  | TfObjectSlice "'v tf_object_slice"
  | TfRaw 'v
  | TfGo string
and 'v tf_object =
    TfObj (ob_unknown: bool) (ob_null: bool) (ob_types: nat) (ob_val: "(string \<times> 'v tf_any) list")
      (ob_optional: "string list")
and 'v tf_object_slice =
    TfObjs (os_unknown: bool) (os_null: bool) (os_types: nat) (os_val: "'v tf_object list")
      (os_optional: "string list")

definition new_tf_object :: "'t heap \<Rightarrow> 'v tf_object \<times> 't heap" where
  "new_tf_object h = (case new_map h of (a, h1) \<Rightarrow> (TfObj False True a [] [], h1))"

definition new_tf_object_slice :: "'t heap \<Rightarrow> 'v tf_object_slice \<times> 't heap" where
  "new_tf_object_slice h = (case new_map h of (a, h1) \<Rightarrow> (TfObjs False True a [] [], h1))"

definition object_get :: "'v tf_object \<Rightarrow> (string \<times> 'v tf_any) list \<times> bool" where
  "object_get b = (ob_val b, \<not> (ob_unknown b \<or> ob_null b))"

definition object_set :: "(string \<times> 'v tf_any) list \<Rightarrow> 'v tf_object \<Rightarrow> 'v tf_object" where
  "object_set obj b = TfObj False False (ob_types b) obj (ob_optional b)"

definition object_set_unknown :: "'v tf_object \<Rightarrow> 'v tf_object" where
  "object_set_unknown b = TfObj True (ob_null b) (ob_types b) (ob_val b) (ob_optional b)"

definition object_set_null :: "'v tf_object \<Rightarrow> 'v tf_object" where
  "object_set_null b = TfObj (ob_unknown b) True (ob_types b) (ob_val b) (ob_optional b)"

definition object_slice_get :: "'v tf_object_slice \<Rightarrow> 'v tf_object list \<times> bool" where
  "object_slice_get b = (os_val b, \<not> (os_unknown b \<or> os_null b))"

definition object_slice_set :: "'v tf_object list \<Rightarrow> 'v tf_object_slice \<Rightarrow> 'v tf_object_slice" where
  "object_slice_set objs b = TfObjs False False (os_types b) objs (os_optional b)"

definition object_slice_set_objects ::
  "(string \<times> 'v tf_any) list list \<Rightarrow> 'v tf_object_slice \<Rightarrow> 'v tf_object_slice" where
  "object_slice_set_objects objs b =
     object_slice_set (map (\<lambda>obj. TfObj False False (os_types b) obj (os_optional b)) objs) b"

definition object_slice_type :: "('t, 'v) tf_lib \<Rightarrow> 'v tf_object_slice \<Rightarrow> 't" where
  "object_slice_type L b = ty_list L (ty_object L (os_types b) (os_optional b))"

text \<open>\<open>TFType\<close> of an object writes the types of its values into its map.\<close>

fun any_type :: "('t, 'v) tf_lib \<Rightarrow> 'v tf_any \<Rightarrow> 't heap \<Rightarrow> ('t \<times> 't heap) go"
and object_type :: "('t, 'v) tf_lib \<Rightarrow> 'v tf_object \<Rightarrow> 't heap \<Rightarrow> ('t \<times> 't heap) go"
and set_attr_types ::
  "('t, 'v) tf_lib \<Rightarrow> nat \<Rightarrow> (string \<times> 'v tf_any) list \<Rightarrow> 't heap \<Rightarrow> 't heap go" where
  "any_type L (TfBool b) h = Some (ty_bool L, h)"
| "any_type L (TfNum b) h = Some (ty_number L, h)"
| "any_type L (TfString b) h = Some (ty_string L, h)"
| "any_type L (TfStringSlice b) h = Some (string_slice_type L, h)"
| "any_type L (TfStringMap b) h = Some (string_map_type L, h)"
| "any_type L (TfObject b) h = object_type L b h"
| "any_type L (TfObjectSlice b) h = Some (object_slice_type L b, h)"
| "any_type L (TfRaw v) h = Some (val_type L v, h)"
| "any_type L (TfGo x) h = None"
| "object_type L (TfObj u n a m opt) h = do { h1 \<leftarrow> set_attr_types L a m h; Some (ty_object L a opt, h1) }"
| "set_attr_types L a [] h = Some h"
| "set_attr_types L a ((k, x) # m) h = do {
     (t, h1) \<leftarrow> any_type L x h;
     set_attr_types L a m (set_attr_type a k t h1)
   }"

text \<open>
  \<open>TFValue\<close>: the values of an object are made before it is asked whether it is unknown or null,
  and its type after them. The type of a list of objects is read after its elements have
  written theirs into the map they share.
\<close>

fun any_value :: "('t, 'v) tf_lib \<Rightarrow> 'v tf_any \<Rightarrow> 't heap \<Rightarrow> ('v \<times> 't heap) go"
and object_value :: "('t, 'v) tf_lib \<Rightarrow> 'v tf_object \<Rightarrow> 't heap \<Rightarrow> ('v \<times> 't heap) go"
and object_slice_value :: "('t, 'v) tf_lib \<Rightarrow> 'v tf_object_slice \<Rightarrow> 't heap \<Rightarrow> ('v \<times> 't heap) go"
and attr_values ::
  "('t, 'v) tf_lib \<Rightarrow> (string \<times> 'v tf_any) list \<Rightarrow> 't heap \<Rightarrow> ((string \<times> 'v) list \<times> 't heap) go"
and object_values :: "('t, 'v) tf_lib \<Rightarrow> 'v tf_object list \<Rightarrow> 't heap \<Rightarrow> ('v list \<times> 't heap) go" where
  "any_value L (TfBool b) h = do { v \<leftarrow> bool_value L h b; Some (v, h) }"
| "any_value L (TfNum b) h = do { v \<leftarrow> num_value L h b; Some (v, h) }"
| "any_value L (TfString b) h = do { v \<leftarrow> string_value L h b; Some (v, h) }"
| "any_value L (TfStringSlice b) h = do { v \<leftarrow> string_slice_value L h b; Some (v, h) }"
| "any_value L (TfStringMap b) h = do { v \<leftarrow> string_map_value L h b; Some (v, h) }"
| "any_value L (TfObject b) h = object_value L b h"
| "any_value L (TfObjectSlice b) h = object_slice_value L b h"
| "any_value L (TfRaw v) h = Some (v, h)"
| "any_value L (TfGo x) h = None"
| "object_value L (TfObj u n a m opt) h = do {
     (vals, h1) \<leftarrow> attr_values L m h;
     (t, h2) \<leftarrow> object_type L (TfObj u n a m opt) h1;
     v \<leftarrow> new_value L h2 t (if u then UnknownValue else if n \<or> m = [] then NilValue else MapValue vals);
     Some (v, h2)
   }"
| "object_slice_value L (TfObjs u n a objs opt) h =
     (let t = object_slice_type L (TfObjs u n a objs opt) in
      if u then do { v \<leftarrow> new_value L h t UnknownValue; Some (v, h) }
      else if n \<or> objs = [] then do { v \<leftarrow> new_value L h t NilValue; Some (v, h) }
      else do {
        (vs, h1) \<leftarrow> object_values L objs h;
        v \<leftarrow> new_value L h1 t (ListValue vs);
        Some (v, h1)
      })"
| "attr_values L [] h = Some ([], h)"
| "attr_values L ((k, x) # m) h = do {
     (v, h1) \<leftarrow> any_value L x h;
     (kvs, h2) \<leftarrow> attr_values L m h1;
     Some ((k, v) # kvs, h2)
   }"
| "object_values L [] h = Some ([], h)"
| "object_values L (b # bs) h = do {
     (v, h1) \<leftarrow> object_value L b h;
     (vs, h2) \<leftarrow> object_values L bs h1;
     Some (v # vs, h2)
   }"

text \<open>\<open>FullyKnown\<close> of an object, which may be nil; a Go value that is not supported is passed over.\<close>

fun attrs_fully_known ::
  "('t, 'v) tf_lib \<Rightarrow> (string \<times> 'v tf_any) list \<Rightarrow> 't heap \<Rightarrow> (bool \<times> 't heap) go" where
  "attrs_fully_known L [] h = Some (True, h)"
| "attrs_fully_known L ((k, TfGo x) # m) h = attrs_fully_known L m h"
| "attrs_fully_known L ((k, x) # m) h = do {
     (v, h1) \<leftarrow> any_value L x h;
     if val_fully_known L v then attrs_fully_known L m h1 else Some (False, h1)
   }"

definition object_fully_known ::
  "('t, 'v) tf_lib \<Rightarrow> 'v tf_object option \<Rightarrow> 't heap \<Rightarrow> (bool \<times> 't heap) go" where
  "object_fully_known L p h =
     (case p of
        None \<Rightarrow> Some (False, h)
      | Some b \<Rightarrow> if ob_unknown b then Some (False, h) else attrs_fully_known L (ob_val b) h)"

definition object_slice_fully_known :: "'v tf_object_slice \<Rightarrow> bool" where
  "object_slice_fully_known b =
     (snd (object_slice_get b) \<and> list_all (\<lambda>obj. snd (object_get obj)) (fst (object_slice_get b)))"

text \<open>Objects as maps of native Go values.\<close>

datatype 'v native =
    NatString string
  | NatNum "64 word"
  | NatBool bool
  | NatStrings "string list"
  | NatStringMap "(string \<times> string) list"
  | NatObject "(string \<times> 'v native) list"
  | NatObjects "(string \<times> 'v native) list list"
  | NatOther "'v tf_any"

fun any_native :: "'v tf_any \<Rightarrow> 'v native \<times> bool"
and get_object :: "'v tf_object \<Rightarrow> (string \<times> 'v native) list \<times> bool"
and get_objects :: "'v tf_object_slice \<Rightarrow> (string \<times> 'v native) list list \<times> bool"
and attr_natives :: "(string \<times> 'v tf_any) list \<Rightarrow> (string \<times> 'v native) list \<times> bool"
and object_natives :: "'v tf_object list \<Rightarrow> (string \<times> 'v native) list list \<times> bool" where
  "any_native (TfString b) = (case tf_get b of (s, ok) \<Rightarrow> (NatString s, ok))"
| "any_native (TfNum b) = (case tf_get b of (n, ok) \<Rightarrow> (NatNum n, ok))"
| "any_native (TfBool b) = (case tf_get b of (x, ok) \<Rightarrow> (NatBool x, ok))"
| "any_native (TfStringSlice b) = (case string_slice_get_strings b of (ss, ok) \<Rightarrow> (NatStrings ss, ok))"
| "any_native (TfStringMap b) = (case string_map_get_strings b of (m, ok) \<Rightarrow> (NatStringMap m, ok))"
| "any_native (TfObject b) = (case get_object b of (m, ok) \<Rightarrow> (NatObject m, ok))"
| "any_native (TfObjectSlice b) = (case get_objects b of (ms, ok) \<Rightarrow> (NatObjects ms, ok))"
| "any_native (TfRaw v) = (NatOther (TfRaw v), True)"
| "any_native (TfGo x) = (NatOther (TfGo x), True)"
| "get_object (TfObj u n a m opt) = (if u \<or> n then ([], False) else attr_natives m)"
| "get_objects (TfObjs u n a objs opt) = (if u \<or> n then ([], False) else object_natives objs)"
| "attr_natives [] = ([], True)"
| "attr_natives ((k, x) # m) =
     (case any_native x of
        (y, True) \<Rightarrow> (case attr_natives m of (kys, True) \<Rightarrow> ((k, y) # kys, True) | (_, False) \<Rightarrow> ([], False))
      | (_, False) \<Rightarrow> ([], False))"
| "object_natives [] = ([], True)"
| "object_natives (b # bs) =
     (case get_object b of
        (m, True) \<Rightarrow> (case object_natives bs of (ms, ok) \<Rightarrow> (m # ms, ok))
      | (_, False) \<Rightarrow> ([], False))"

definition objects_value :: "'v tf_object_slice \<Rightarrow> (string \<times> 'v native) list list" where
  "objects_value b = fst (get_objects b)"

subsection \<open>Reading objects\<close>

text \<open>
  \<open>FromTFValue\<close> of an object: unknown, null, or a map whose entries \<open>rec\<close> reads.
\<close>

definition object_from_with ::
  "('t, 'v) tf_lib \<Rightarrow> ((string \<times> 'v) list \<Rightarrow> 't heap \<Rightarrow> (((string \<times> 'v tf_any) list \<times> error) \<times> 't heap) go)
    \<Rightarrow> 'v tf_object \<Rightarrow> 'v \<Rightarrow> 't heap \<Rightarrow> (('v tf_object \<times> error) \<times> 't heap) go" where
  "object_from_with L rec b v h =
     (if val_equal L h v (unknown_dst_val L) \<or> val_equal L h v (unknown_value L (ty_object L nil_map []))
         \<or> \<not> val_known L v then Some ((object_set_unknown b, None), h)
      else if val_equal L h v (null_dst_val L) then Some ((object_set_null b, None), h)
      else (case val_as_map L v [] of
          (_, Some e) \<Rightarrow> Some ((b, Some e), h)
        | (kvs, None) \<Rightarrow> do {
            (r, h1) \<leftarrow> rec kvs h;
            Some (case r of (m, None) \<Rightarrow> ((object_set m b, None), h1) | (_, Some e) \<Rightarrow> ((b, Some e), h1))
          }))"

lemma object_from_with_mono [partial_function_mono]:
  assumes "\<And>kvs h. mono_option (\<lambda>f. F f kvs h)"
  shows "mono_option (\<lambda>f. object_from_with L (F f) b v h)"
proof (cases "val_as_map L v []")
  case (Pair kvs e)
  then show ?thesis
    unfolding object_from_with_def by (cases e) (auto intro!: partial_function_mono assms)
qed

text \<open>The entries of an object that are no objects; \<open>None\<close> for the default case of the switch.\<close>

definition flat_from_value :: "('t, 'v) tf_lib \<Rightarrow> 't heap \<Rightarrow> 'v \<Rightarrow> ('v tf_any \<times> error) option" where
  "flat_from_value L h v =
     (let t = val_type L v in
      if ty_is L h t (ty_bool L) then Some (apfst TfBool (bool_from_value L h (new_tf False) v))
      else if ty_is L h t (ty_string L) then Some (apfst TfString (string_from_value L h (new_tf []) v))
      else if ty_is L h t (ty_number L) then Some (apfst TfNum (num_from_value L h (new_tf 0) v))
      else if ty_is L h t (ty_list L (ty_string L))
        then Some (apfst TfStringSlice (string_slice_from_value L h (new_tf []) v))
      else if ty_is L h t (ty_map L (Some (ty_string L)))
        then Some (apfst TfStringMap (string_map_from_value L h (new_tf []) v))
      else if ty_is L h t (ty_dynamic L) \<and> \<not> val_known L v then Some (TfRaw v, None)
      else None)"

definition is_object_or_list :: "('t, 'v) tf_lib \<Rightarrow> 't \<Rightarrow> bool" where
  "is_object_or_list L t \<longleftrightarrow> ty_is_object L t
     \<or> (case ty_list_elem L t of Some elem \<Rightarrow> ty_is_object L elem | None \<Rightarrow> False)"

definition err_not_implemented :: "string \<Rightarrow> goerr" where
  "err_not_implemented t = ErrNew (''marshaling of type '' @ t @ '' has not been implemented'')"

text \<open>
  The loop over the entries; it returns nothing but the error when there is one. An entry that
  is an object, or a list of objects, is read as an object.
\<close>

partial_function (option) attrs_from_values ::
  "('t, 'v) tf_lib \<Rightarrow> (string \<times> 'v) list \<Rightarrow> 't heap
    \<Rightarrow> (((string \<times> 'v tf_any) list \<times> error) \<times> 't heap) go" where
  "attrs_from_values L kvs h =
     (case kvs of
        [] \<Rightarrow> Some (([], None), h)
      | (k, v) # kvs' \<Rightarrow> do {
          ((x, e), h1) \<leftarrow> (case flat_from_value L h v of
              Some r \<Rightarrow> Some (r, h)
            | None \<Rightarrow>
                if is_object_or_list L (val_type L v) then do {
                  (b, h0) \<leftarrow> Some (new_tf_object h);
                  (r, h2) \<leftarrow> object_from_with L (\<lambda>kvs h. attrs_from_values L kvs h) b v h0;
                  Some (apfst TfObject r, h2)
                }
                else Some ((TfRaw v, Some (err_not_implemented (ty_show L h (val_type L v)))), h));
          (case e of
             Some e' \<Rightarrow> Some (([], Some e'), h1)
           | None \<Rightarrow> do {
               ((m, e2), h2) \<leftarrow> attrs_from_values L kvs' h1;
               Some (case e2 of None \<Rightarrow> (((k, x) # m, None), h2) | Some e' \<Rightarrow> (([], Some e'), h2))
             })
        })"

definition object_from_value ::
  "('t, 'v) tf_lib \<Rightarrow> 'v tf_object \<Rightarrow> 'v \<Rightarrow> 't heap \<Rightarrow> (('v tf_object \<times> error) \<times> 't heap) go" where
  "object_from_value L = object_from_with L (attrs_from_values L)"

text \<open>The elements of a list of objects are new objects with the types and options of the list.\<close>

fun objects_from_values ::
  "('t, 'v) tf_lib \<Rightarrow> nat \<Rightarrow> string list \<Rightarrow> 'v list \<Rightarrow> 't heap
    \<Rightarrow> (('v tf_object list \<times> error) \<times> 't heap) go" where
  "objects_from_values L a opt [] h = Some (([], None), h)"
| "objects_from_values L a opt (v # vs) h = do {
     ((b, e), h1) \<leftarrow> object_from_value L (TfObj False True a [] opt) v (snd (new_tf_object h :: 'v tf_object \<times> _));
     (case e of
        Some e' \<Rightarrow> Some (([], Some e'), h1)
      | None \<Rightarrow> do {
          ((bs, e2), h2) \<leftarrow> objects_from_values L a opt vs h1;
          Some (case e2 of None \<Rightarrow> ((b # bs, None), h2) | Some e' \<Rightarrow> (([], Some e'), h2))
        })
   }"

definition object_slice_from_value ::
  "('t, 'v) tf_lib \<Rightarrow> 'v tf_object_slice \<Rightarrow> 'v \<Rightarrow> 't heap \<Rightarrow> (('v tf_object_slice \<times> error) \<times> 't heap) go" where
  "object_slice_from_value L b v h =
     (let t = object_slice_type L b in
      if val_equal L h v (unknown_dst_val L) \<or> val_equal L h v (unknown_value L t)
      then Some ((TfObjs True (os_null b) (os_types b) (os_val b) (os_optional b), None), h)
      else if val_equal L h v (null_dst_val L) \<or> val_equal L h v (null_value L t)
      then Some ((TfObjs (os_unknown b) True (os_types b) (os_val b) (os_optional b), None), h)
      else (case val_as_list L v [] of
          (_, Some e) \<Rightarrow> Some ((b, Some e), h)
        | (vs, None) \<Rightarrow> do {
            ((bs, e), h1) \<leftarrow> objects_from_values L (os_types b) (os_optional b) vs h;
            Some (case e of None \<Rightarrow> ((object_slice_set bs b, None), h1) | Some e' \<Rightarrow> ((b, Some e'), h1))
          }))"

text \<open>\<open>FromTFValue\<close> of a \<open>TFType\<close>.\<close>

fun any_from_value ::
  "('t, 'v) tf_lib \<Rightarrow> 'v tf_any \<Rightarrow> 'v \<Rightarrow> 't heap \<Rightarrow> (('v tf_any \<times> error) \<times> 't heap) go" where
  "any_from_value L (TfBool b) v h = Some (apfst TfBool (bool_from_value L h b v), h)"
| "any_from_value L (TfNum b) v h = Some (apfst TfNum (num_from_value L h b v), h)"
| "any_from_value L (TfString b) v h = Some (apfst TfString (string_from_value L h b v), h)"
| "any_from_value L (TfStringSlice b) v h = Some (apfst TfStringSlice (string_slice_from_value L h b v), h)"
| "any_from_value L (TfStringMap b) v h = Some (apfst TfStringMap (string_map_from_value L h b v), h)"
| "any_from_value L (TfObject b) v h = do { (r, h1) \<leftarrow> object_from_value L b v h; Some (apfst TfObject r, h1) }"
| "any_from_value L (TfObjectSlice b) v h =
     do { (r, h1) \<leftarrow> object_slice_from_value L b v h; Some (apfst TfObjectSlice r, h1) }"
| "any_from_value L (TfRaw x) v h = None"
| "any_from_value L (TfGo x) v h = None"

text \<open>
  \<open>mapAttributesTo\<close>: each property is a \<open>TFType\<close> or a pointer to a Go value, which is not
  touched by values that are unknown or null. The loop ends with the first error and leaves
  what it did before.
\<close>

datatype ('v, 'g) attr_prop = PropTF "'v tf_any" | PropGo 'g

fun map_attributes ::
  "('t, 'v) tf_lib \<Rightarrow> ('v \<Rightarrow> 'g \<Rightarrow> 'g \<times> error) \<Rightarrow> (string \<times> 'v) list \<Rightarrow> (string \<times> ('v, 'g) attr_prop) list
    \<Rightarrow> 't heap \<Rightarrow> (((string \<times> ('v, 'g) attr_prop) list \<times> error) \<times> 't heap) go" where
  "map_attributes L as_go vals [] h = Some (([], None), h)"
| "map_attributes L as_go vals ((k, p) # props) h = do {
     ((p', e), h1) \<leftarrow> (case map_of vals k of
         None \<Rightarrow> Some ((p, None), h)
       | Some v \<Rightarrow> (case p of
             PropTF x \<Rightarrow> do { (r, h1) \<leftarrow> any_from_value L x v h; Some (apfst PropTF r, h1) }
           | PropGo g \<Rightarrow> Some (if \<not> val_known L v \<or> val_null L v then (p, None)
               else apfst PropGo (as_go v g), h)));
     (case e of
        Some e' \<Rightarrow> Some (((k, p') # props, Some e'), h1)
      | None \<Rightarrow> do {
          ((props', e2), h2) \<leftarrow> map_attributes L as_go vals props h1;
          Some (((k, p') # props', e2), h2)
        })
   }"

definition map_attributes_to ::
  "('t, 'v) tf_lib \<Rightarrow> ('v \<Rightarrow> 'g \<Rightarrow> 'g \<times> error) \<Rightarrow> 'v \<Rightarrow> (string \<times> ('v, 'g) attr_prop) list
    \<Rightarrow> 't heap \<Rightarrow> (((string \<times> ('v, 'g) attr_prop) list \<times> (string \<times> 'v) list \<times> error) \<times> 't heap) go" where
  "map_attributes_to L as_go val props h =
     (case val_as_map L val [] of
        (vals, Some e) \<Rightarrow> Some ((props, vals, Some e), h)
      | (vals, None) \<Rightarrow> do {
          ((props', e), h1) \<leftarrow> map_attributes L as_go vals props h;
          Some ((props', vals, e), h1)
        })"

subsection \<open>Dynamic blocks\<close>

definition attr_types_of :: "('t, 'v) tf_lib \<Rightarrow> (string \<times> 'v) list \<Rightarrow> (string \<times> 't) list" where
  "attr_types_of L vals = map (\<lambda>(k, v). (k, val_type L v)) vals"

definition terraform5_type ::
  "('t, 'v) tf_lib \<Rightarrow> (string \<times> 'v) list \<Rightarrow> 't heap \<Rightarrow> 't \<times> 't heap" where
  "terraform5_type L vals h =
     (case new_map h of (a, h1) \<Rightarrow>
        (ty_object L a [], h1\<lparr>hp_maps := (hp_maps h1)(a := attr_types_of L vals)\<rparr>))"

definition terraform5_value ::
  "('t, 'v) tf_lib \<Rightarrow> (string \<times> 'v) list \<Rightarrow> 't heap \<Rightarrow> ('v \<times> 't heap) go" where
  "terraform5_value L vals h =
     (case terraform5_type L vals h of (t, h1) \<Rightarrow> do { v \<leftarrow> new_value L h1 t (MapValue vals); Some (v, h1) })"

text \<open>
  The expression \<open>\d*?\["(\w*)",.*]\<close> in the bytes of a value: the word of the first place
  where \<open>["word",\<close> is followed by a bracket on the same line. Digits before it are part of
  the match but not of the word.
\<close>

definition is_word_char :: "char \<Rightarrow> bool" where
  "is_word_char c \<longleftrightarrow> c \<in> set ''0123456789ABCDEFGHIJKLMNOPQRSTUVWXYZabcdefghijklmnopqrstuvwxyz_''"

definition implied_type_at :: "string \<Rightarrow> string option" where
  "implied_type_at s =
     (case s of
        CHR 0x5B # CHR 0x22 # s1 \<Rightarrow>
          (case dropWhile is_word_char s1 of
             CHR 0x22 # CHR 0x2C # s2 \<Rightarrow>
               if CHR 0x5D \<in> set (takeWhile (\<lambda>c. c \<noteq> CHR 0x0A) s2) then Some (takeWhile is_word_char s1) else None
           | _ \<Rightarrow> None)
      | _ \<Rightarrow> None)"

fun implied_type :: "string \<Rightarrow> string option" where
  "implied_type [] = None"
| "implied_type (c # s) = (case implied_type_at (c # s) of Some x \<Rightarrow> Some x | None \<Rightarrow> implied_type s)"

text \<open>
  The type of a dynamic value is only found in its bytes on the wire. A map takes the type of
  the first value that the range over the values meets, and none without values.
\<close>

definition encode_dynamic ::
  "('t, 'v) tf_lib \<Rightarrow> 'v \<Rightarrow> (string \<times> 'v) list \<Rightarrow> 't heap \<Rightarrow> (('v option \<times> error) \<times> 't heap) go" where
  "encode_dynamic L plan vals h =
     (case val_msgpack L plan of
        (_, Some e) \<Rightarrow>
          Some ((None, Some (ErrWrap ''unable to marshal the vault config block to the wire format: '' e [])), h)
      | (bytes, None) \<Rightarrow>
     (case implied_type bytes of
        None \<Rightarrow> Some ((None, Some (ErrNew (''unable to determine type, got matches: []+, in bytes: '' @ bytes))), h)
      | Some ty \<Rightarrow>
          if ty = ''map'' then do {
            v \<leftarrow> new_value L h
              (ty_map L (case vals of [] \<Rightarrow> None | (_, v) # _ \<Rightarrow> Some (val_type L v))) (MapValue vals);
            Some ((Some v, None), h)
          }
          else if ty = ''object'' then do {
            (v, h1) \<leftarrow> terraform5_value L vals h;
            Some ((Some v, None), h1)
          }
          else Some ((None, Some (ErrNew (ty @ '' is not a support dynamic type for the vault config block''))), h)))"

text \<open>The value a block was read from is kept; \<open>None\<close> is the zero value, which has no type.\<close>

record 'v dynamic_block =
  dy_object :: "'v tf_object option"
  dy_original :: "'v option"

definition new_dynamic_block :: "'t heap \<Rightarrow> 'v dynamic_block \<times> 't heap" where
  "new_dynamic_block h = (case new_tf_object h of (b, h1) \<Rightarrow> (\<lparr>dy_object = Some b, dy_original = None\<rparr>, h1))"

definition dynamic_from_value ::
  "('t, 'v) tf_lib \<Rightarrow> 'v dynamic_block \<Rightarrow> 'v \<Rightarrow> 't heap \<Rightarrow> (('v dynamic_block \<times> error) \<times> 't heap) go" where
  "dynamic_from_value L d v h =
     (if \<not> val_known L v then do {
        b \<leftarrow> deref (dy_object d);
        Some ((d\<lparr>dy_object := Some (object_set_unknown b)\<rparr>, None), h)
      }
      else if val_null L v then Some ((d, None), h)
      else do {
        b \<leftarrow> deref (dy_object d);
        ((b', e), h1) \<leftarrow> object_from_value L b v h;
        Some ((d\<lparr>dy_original := Some v, dy_object := Some b'\<rparr>, e), h1)
      })"

text \<open>The block may be nil, and so may its object.\<close>

definition err_dynamic_block :: "goerr \<Rightarrow> error" where
  "err_dynamic_block e = Some (ErrWrap ''marshaling dynamic block to terraform value: '' e [])"

definition dynamic_value ::
  "('t, 'v) tf_lib \<Rightarrow> 'v dynamic_block option \<Rightarrow> 't heap \<Rightarrow> (('v \<times> error) \<times> 't heap) go" where
  "dynamic_value L p h =
     (let null = null_dst_val L; failed = unknown_value L (ty_object L nil_map []) in
      case p of
        None \<Rightarrow> Some ((null, None), h)
      | Some d \<Rightarrow>
     (case dy_object d of
        None \<Rightarrow> Some ((null, None), h)
      | Some b \<Rightarrow>
     (case dy_original d of
        None \<Rightarrow> Some ((if ob_unknown b then unknown_dst_val L else null, None), h)
      | Some original \<Rightarrow> do {
          (v, h1) \<leftarrow> object_value L b h;
          (case val_as_map L v [] of
             (_, Some e) \<Rightarrow> Some ((failed, err_dynamic_block e), h1)
           | (vals, None) \<Rightarrow> do {
               ((r, e), h2) \<leftarrow> encode_dynamic L original vals h1;
               Some (case (r, e) of
                   (Some x, None) \<Rightarrow> ((x, None), h2)
                 | (_, Some e') \<Rightarrow> ((failed, err_dynamic_block e'), h2)
                 | (None, None) \<Rightarrow> ((failed, None), h2))
             })
        })))"

subsection \<open>Laws of the library\<close>

text \<open>
  What the documentation of the library promises: a value has the type it was made with, values
  are equal only when both are unknown, null or neither, and whether a value is the null or
  unknown one of a type without objects does not depend on the maps of attribute types;
  \<open>NewValue\<close> takes the payload of a primitive type, and of a collection or an object when the
  elements have its element types, and anything for an attribute of the dynamic type; \<open>As\<close> gives the payload back, and no entries of a null map; and the types that are objects
  and lists of them.
\<close>

definition value_laws :: "('t, 'v) tf_lib \<Rightarrow> bool" where
  "value_laws L \<longleftrightarrow>
     (\<forall>t p. val_type L (val_make L t p) = t)
   \<and> (\<forall>t p. val_known L (val_make L t p) \<longleftrightarrow> p \<noteq> UnknownValue)
   \<and> (\<forall>t p. val_null L (val_make L t p) \<longleftrightarrow> p = NilValue)
   \<and> (\<forall>h v. val_equal L h v v)
   \<and> (\<forall>h v w. val_equal L h v w \<longrightarrow> val_known L v = val_known L w \<and> val_null L v = val_null L w)
   \<and> (\<forall>h h' v t. t \<in> {ty_string L, ty_dynamic L} \<longrightarrow>
       val_equal L h v (unknown_value L t) = val_equal L h' v (unknown_value L t)
       \<and> val_equal L h v (null_value L t) = val_equal L h' v (null_value L t))"

definition make_laws :: "('t, 'v) tf_lib \<Rightarrow> bool" where
  "make_laws L \<longleftrightarrow>
     (\<forall>h b. val_fits L h (ty_bool L) (BoolValue b))
   \<and> (\<forall>h n. val_fits L h (ty_number L) (NumValue n))
   \<and> (\<forall>h s. val_fits L h (ty_string L) (StringValue s))
   \<and> (\<forall>h t vs. (\<forall>v \<in> set vs. val_type L v = t) \<longrightarrow> val_fits L h (ty_list L t) (ListValue vs))
   \<and> (\<forall>h t kvs. (\<forall>v \<in> snd ` set kvs. val_type L v = t) \<longrightarrow> val_fits L h (ty_map L (Some t)) (MapValue kvs))
   \<and> (\<forall>h a kvs. list_all2 (\<lambda>(n, t) (m, v). n = m \<and> (t = ty_dynamic L \<or> t = val_type L v)) (hp_maps h a) kvs
       \<longrightarrow> val_fits L h (ty_object L a []) (MapValue kvs))"

definition as_laws :: "('t, 'v) tf_lib \<Rightarrow> bool" where
  "as_laws L \<longleftrightarrow>
     (\<forall>b x. val_as_bool L (val_make L (ty_bool L) (BoolValue b)) x = (b, None))
   \<and> (\<forall>n x. val_as_num L (val_make L (ty_number L) (NumValue n)) x = (n, None))
   \<and> (\<forall>s x. val_as_string L (val_make L (ty_string L) (StringValue s)) x = (s, None))
   \<and> (\<forall>t vs x. val_as_list L (val_make L (ty_list L t) (ListValue vs)) x = (vs, None))
   \<and> (\<forall>t kvs x. val_as_map L (val_make L (ty_map L t) (MapValue kvs)) x = (kvs, None))
   \<and> (\<forall>a opt kvs x. val_as_map L (val_make L (ty_object L a opt) (MapValue kvs)) x = (kvs, None))
   \<and> (\<forall>t x. val_as_map L (val_make L t NilValue) x = ([], None))
   \<and> (\<forall>t vs x. snd (val_as_map L (val_make L (ty_list L t) (ListValue vs)) x) \<noteq> None)"

definition type_laws :: "('t, 'v) tf_lib \<Rightarrow> bool" where
  "type_laws L \<longleftrightarrow>
     (\<forall>a opt. ty_is_object L (ty_object L a opt))
   \<and> (\<forall>t. ty_list_elem L (ty_list L t) = Some t)
   \<and> (\<forall>h a opt t. t \<in> {ty_bool L, ty_string L, ty_number L, ty_list L (ty_string L),
       ty_map L (Some (ty_string L)), ty_dynamic L} \<longrightarrow> \<not> ty_is L h (ty_list L (ty_object L a opt)) t)"

definition tf_laws :: "('t, 'v) tf_lib \<Rightarrow> bool" where
  "tf_laws L \<longleftrightarrow> value_laws L \<and> make_laws L \<and> as_laws L \<and> type_laws L"

lemma value_laws_simps:
  assumes "tf_laws L"
  shows "val_type L (val_make L t p) = t"
    "val_known L (val_make L t p) \<longleftrightarrow> p \<noteq> UnknownValue"
    "val_null L (val_make L t p) \<longleftrightarrow> p = NilValue"
    "val_equal L h v v"
  using assms unfolding tf_laws_def value_laws_def by simp_all

lemma equal_anywhere:
  assumes "tf_laws L"
  shows "t \<in> {ty_string L, ty_dynamic L} \<Longrightarrow>
      val_equal L h v (unknown_value L t) = val_equal L h' v (unknown_value L t)"
    "t \<in> {ty_string L, ty_dynamic L} \<Longrightarrow>
      val_equal L h v (null_value L t) = val_equal L h' v (null_value L t)"
  using assms unfolding tf_laws_def value_laws_def by blast+

lemma equal_values:
  assumes "tf_laws L" "val_equal L h (val_make L t p) (val_make L t' p')"
  shows "(p = UnknownValue \<longleftrightarrow> p' = UnknownValue) \<and> (p = NilValue \<longleftrightarrow> p' = NilValue)"
proof -
  have "val_known L (val_make L t p) = val_known L (val_make L t' p')
    \<and> val_null L (val_make L t p) = val_null L (val_make L t' p')"
    using assms unfolding tf_laws_def value_laws_def by blast
  then show ?thesis using assms(1) by (simp add: value_laws_simps)
qed

lemma make_laws_simps:
  assumes "tf_laws L"
  shows "val_fits L h (ty_bool L) (BoolValue b)" "val_fits L h (ty_number L) (NumValue n)"
    "val_fits L h (ty_string L) (StringValue s)"
    "(\<And>v. v \<in> set vs \<Longrightarrow> val_type L v = t) \<Longrightarrow> val_fits L h (ty_list L t) (ListValue vs)"
    "(\<And>v. v \<in> snd ` set kvs \<Longrightarrow> val_type L v = t) \<Longrightarrow> val_fits L h (ty_map L (Some t)) (MapValue kvs)"
    "list_all2 (\<lambda>(n, t) (m, v). n = m \<and> (t = ty_dynamic L \<or> t = val_type L v)) (hp_maps h a) kvs
      \<Longrightarrow> val_fits L h (ty_object L a []) (MapValue kvs)"
    "hp_maps h a = attr_types_of L kvs
      \<Longrightarrow> val_fits L h (ty_object L a []) (MapValue kvs)"
proof -
  show 6: "val_fits L h (ty_object L a []) (MapValue kvs)"
    if "list_all2 (\<lambda>(n, t) (m, v). n = m \<and> (t = ty_dynamic L \<or> t = val_type L v)) (hp_maps h a) kvs"
    using assms that unfolding tf_laws_def make_laws_def by blast
  show "val_fits L h (ty_object L a []) (MapValue kvs)" if "hp_maps h a = attr_types_of L kvs"
    using that by (intro 6) (auto simp: attr_types_of_def list_all2_conv_all_nth split: prod.splits)
qed (use assms in \<open>simp_all add: tf_laws_def make_laws_def\<close>)

lemma as_laws_simps:
  assumes "tf_laws L"
  shows "val_as_bool L (val_make L (ty_bool L) (BoolValue b)) x1 = (b, None)"
    "val_as_num L (val_make L (ty_number L) (NumValue n)) x2 = (n, None)"
    "val_as_string L (val_make L (ty_string L) (StringValue s)) x3 = (s, None)"
    "val_as_list L (val_make L (ty_list L t) (ListValue vs)) x4 = (vs, None)"
    "val_as_map L (val_make L (ty_map L t') (MapValue kvs)) x5 = (kvs, None)"
    "val_as_map L (val_make L (ty_object L a opt) (MapValue kvs)) x5 = (kvs, None)"
    "snd (val_as_map L (val_make L (ty_list L t) (ListValue vs)) x5) \<noteq> None"
    "val_as_map L (val_make L t NilValue) x5 = ([], None)"
  using assms by (simp_all add: tf_laws_def as_laws_def)

lemma new_value_type: "tf_laws L \<Longrightarrow> new_value L h t p = Some v \<Longrightarrow> val_type L v = t"
  by (auto simp: new_value_def value_laws_simps split: if_splits)

text \<open>\<open>FromTFValue\<close> reads what \<open>TFValue\<close> made.\<close>

lemma from_made_value:
  assumes "tf_laws L"
  shows "from_tf_value L h t dec b (val_make L t p) =
    (if p = UnknownValue then (set_unknown b, None)
     else if p = NilValue then (set_null b, None)
     else (case dec (val_make L t p) of (x, None) \<Rightarrow> (tf_set x b, None) | (_, Some e) \<Rightarrow> (b, Some e)))"
proof -
  have u: "val_equal L h (val_make L t p) (val_make L t' UnknownValue) \<Longrightarrow> p = UnknownValue"
    and n: "val_equal L h (val_make L t p) (val_make L t' NilValue) \<Longrightarrow> p = NilValue" for t'
    using equal_values [OF assms] by blast+
  have "val_equal L h (val_make L t p) (val_make L t p)" using assms by (simp add: value_laws_simps)
  then show ?thesis
    using u n by (auto simp: from_tf_value_def unknown_dst_val_def null_dst_val_def unknown_value_def null_value_def)
qed


lemma tf_value_type:
  assumes "tf_laws L" "tf_value L h t enc b = Some v" "\<And>x v. enc x = Some v \<Longrightarrow> val_type L v = t"
  shows "val_type L v = t"
  using assms by (auto simp: tf_value_def split: if_splits dest: new_value_type)

lemma flat_value_types:
  assumes "tf_laws L"
  shows "bool_value L h b1 = Some v \<Longrightarrow> val_type L v = ty_bool L"
    "num_value L h b2 = Some v \<Longrightarrow> val_type L v = ty_number L"
    "string_value L h b3 = Some v \<Longrightarrow> val_type L v = ty_string L"
    "string_slice_value L h b4 = Some v \<Longrightarrow> val_type L v = string_slice_type L"
    "string_map_value L h b5 = Some v \<Longrightarrow> val_type L v = string_map_type L"
  unfolding bool_value_def num_value_def string_value_def string_slice_value_def string_map_value_def
  by (erule tf_value_type [OF assms],
      auto dest: new_value_type [OF assms] simp: bind_eq_Some_iff split: if_splits)+

text \<open>The type of an object does not depend on the heap, and whether it is made neither.\<close>

lemma types_made_anywhere:
  "any_type L x h = Some (t, h1) \<Longrightarrow> \<exists>h1'. any_type L x h' = Some (t, h1')"
  "object_type L b h = Some (t, h1) \<Longrightarrow> \<exists>h1'. object_type L b h' = Some (t, h1')"
  "set_attr_types L a m h = Some h1 \<Longrightarrow> \<exists>h1'. set_attr_types L a m h' = Some h1'"
proof (induction L x h and L b h and L a m h arbitrary: t h1 h' and t h1 h' and h1 h'
    rule: any_type_object_type_set_attr_types.induct)
  case (10 L u n a m opt h)
  then show ?case by (fastforce simp: bind_eq_Some_iff)
next
  case (12 L a k x m h)
  from 12(3) obtain t h2 where 1: "any_type L x h = Some (t, h2)"
    and 2: "set_attr_types L a m (set_attr_type a k t h2) = Some h1"
    by (auto simp: bind_eq_Some_iff)
  from 12(1) [OF 1, of h'] obtain h3 where 3: "any_type L x h' = Some (t, h3)" by blast
  from 12(2) [OF 1 refl 2] obtain h4 where "set_attr_types L a m (set_attr_type a k t h3) = Some h4" by blast
  with 3 show ?case by simp
qed simp_all

subsection \<open>Types recorded in the heap\<close>

text \<open>
  What is checked of an object type is in the heap: the type that the map of attribute types
  has for each name. An object conforms to its type when its map holds a type of each attribute
  to which the attribute conforms in turn; with \<open>els\<close>, so do the elements of a list that is
  neither unknown nor null.
\<close>

definition type_at :: "'t heap \<Rightarrow> nat \<times> string \<Rightarrow> 't option" where
  "type_at h c = map_of (hp_maps h (fst c)) (snd c)"

fun typed_as :: "bool \<Rightarrow> ('t, 'v) tf_lib \<Rightarrow> 't heap \<Rightarrow> 't \<Rightarrow> 'v tf_any \<Rightarrow> bool"
and object_typed :: "bool \<Rightarrow> ('t, 'v) tf_lib \<Rightarrow> 't heap \<Rightarrow> 'v tf_object \<Rightarrow> bool"
and attrs_typed :: "bool \<Rightarrow> ('t, 'v) tf_lib \<Rightarrow> 't heap \<Rightarrow> nat \<Rightarrow> (string \<times> 'v tf_any) list \<Rightarrow> bool"
and objects_typed :: "bool \<Rightarrow> ('t, 'v) tf_lib \<Rightarrow> 't heap \<Rightarrow> 'v tf_object list \<Rightarrow> bool" where
  "typed_as els L h t (TfBool b) \<longleftrightarrow> t = ty_bool L"
| "typed_as els L h t (TfNum b) \<longleftrightarrow> t = ty_number L"
| "typed_as els L h t (TfString b) \<longleftrightarrow> t = ty_string L"
| "typed_as els L h t (TfStringSlice b) \<longleftrightarrow> t = ty_list L (ty_string L)"
| "typed_as els L h t (TfStringMap b) \<longleftrightarrow> t = ty_map L (Some (ty_string L))"
| "typed_as els L h t (TfObject b) \<longleftrightarrow> t = ty_object L (ob_types b) (ob_optional b) \<and> object_typed els L h b"
| "typed_as els L h t (TfObjectSlice (TfObjs u n a objs opt)) \<longleftrightarrow>
     t = ty_list L (ty_object L a opt) \<and> (els \<and> \<not> u \<and> \<not> n \<longrightarrow> objects_typed els L h objs)"
| "typed_as els L h t (TfRaw v) \<longleftrightarrow> t = val_type L v"
| "typed_as els L h t (TfGo x) \<longleftrightarrow> False"
| "object_typed els L h (TfObj u n a m opt) \<longleftrightarrow> attrs_typed els L h a m"
| "attrs_typed els L h a [] \<longleftrightarrow> True"
| "attrs_typed els L h a ((k, x) # m) \<longleftrightarrow>
     (case type_at h (a, k) of None \<Rightarrow> False | Some t \<Rightarrow> typed_as els L h t x) \<and> attrs_typed els L h a m"
| "objects_typed els L h [] \<longleftrightarrow> True"
| "objects_typed els L h (b # bs) \<longleftrightarrow> object_typed els L h b \<and> objects_typed els L h bs"

text \<open>
  The types that \<open>TFType\<close> and \<open>TFValue\<close> record, with the map and the name of each. They agree when
  no name of a map is given two types, as for objects with maps of their own, and for elements
  of one list whose attributes have the same types.
\<close>

fun own_type :: "('t, 'v) tf_lib \<Rightarrow> 'v tf_any \<Rightarrow> 't" where
  "own_type L (TfBool b) = ty_bool L"
| "own_type L (TfNum b) = ty_number L"
| "own_type L (TfString b) = ty_string L"
| "own_type L (TfStringSlice b) = string_slice_type L"
| "own_type L (TfStringMap b) = string_map_type L"
| "own_type L (TfObject b) = ty_object L (ob_types b) (ob_optional b)"
| "own_type L (TfObjectSlice b) = object_slice_type L b"
| "own_type L (TfRaw v) = val_type L v"
| "own_type L (TfGo x) = ty_dynamic L"

fun type_writes :: "('t, 'v) tf_lib \<Rightarrow> 'v tf_any \<Rightarrow> ((nat \<times> string) \<times> 't) list"
and object_writes :: "('t, 'v) tf_lib \<Rightarrow> 'v tf_object \<Rightarrow> ((nat \<times> string) \<times> 't) list"
and attr_writes :: "('t, 'v) tf_lib \<Rightarrow> nat \<Rightarrow> (string \<times> 'v tf_any) list \<Rightarrow> ((nat \<times> string) \<times> 't) list" where
  "type_writes L (TfObject b) = object_writes L b"
| "type_writes L (TfBool b) = []"
| "type_writes L (TfNum b) = []"
| "type_writes L (TfString b) = []"
| "type_writes L (TfStringSlice b) = []"
| "type_writes L (TfStringMap b) = []"
| "type_writes L (TfObjectSlice b) = []"
| "type_writes L (TfRaw b) = []"
| "type_writes L (TfGo b) = []"
| "object_writes L (TfObj u n a m opt) = attr_writes L a m"
| "attr_writes L a [] = []"
| "attr_writes L a ((k, x) # m) = type_writes L x @ ((a, k), own_type L x) # attr_writes L a m"

fun value_writes :: "('t, 'v) tf_lib \<Rightarrow> 'v tf_any \<Rightarrow> ((nat \<times> string) \<times> 't) list"
and object_value_writes :: "('t, 'v) tf_lib \<Rightarrow> 'v tf_object \<Rightarrow> ((nat \<times> string) \<times> 't) list"
and attr_value_writes :: "('t, 'v) tf_lib \<Rightarrow> (string \<times> 'v tf_any) list \<Rightarrow> ((nat \<times> string) \<times> 't) list"
and objects_value_writes :: "('t, 'v) tf_lib \<Rightarrow> 'v tf_object list \<Rightarrow> ((nat \<times> string) \<times> 't) list" where
  "value_writes L (TfObject b) = object_value_writes L b"
| "value_writes L (TfObjectSlice (TfObjs u n a objs opt)) = (if u \<or> n then [] else objects_value_writes L objs)"
| "value_writes L (TfBool b) = []"
| "value_writes L (TfNum b) = []"
| "value_writes L (TfString b) = []"
| "value_writes L (TfStringSlice b) = []"
| "value_writes L (TfStringMap b) = []"
| "value_writes L (TfRaw b) = []"
| "value_writes L (TfGo b) = []"
| "object_value_writes L (TfObj u n a m opt) = attr_value_writes L m @ attr_writes L a m"
| "attr_value_writes L [] = []"
| "attr_value_writes L ((k, x) # m) = value_writes L x @ attr_value_writes L m"
| "objects_value_writes L [] = []"
| "objects_value_writes L (b # bs) = object_value_writes L b @ objects_value_writes L bs"

definition agreeing :: "((nat \<times> string) \<times> 't) list \<Rightarrow> bool" where
  "agreeing ws \<longleftrightarrow> list_all (\<lambda>(c, t). list_all (\<lambda>(d, t'). c = d \<longrightarrow> t = t') ws) ws"

fun record_types :: "((nat \<times> string) \<times> 't) list \<Rightarrow> 't heap \<Rightarrow> 't heap" where
  "record_types [] h = h"
| "record_types ((c, t) # ws) h = record_types ws (set_attr_type (fst c) (snd c) t h)"

lemma record_types_append: "record_types (ws @ ws') h = record_types ws' (record_types ws h)"
  by (induction ws h rule: record_types.induct) simp_all

lemma type_at_set: "type_at (set_attr_type a k t h) c = (if c = (a, k) then Some t else type_at h c)"
  by (cases c) (simp add: type_at_def set_attr_type_def map_of_map_set)

lemma type_at_other: "c \<notin> fst ` set ws \<Longrightarrow> type_at (record_types ws h) c = type_at h c"
  by (induction ws h rule: record_types.induct) (auto simp: type_at_set)

lemma agreeingD: "agreeing ws \<Longrightarrow> (c, t) \<in> set ws \<Longrightarrow> (c, t') \<in> set ws \<Longrightarrow> t = t'"
  by (force simp: agreeing_def list_all_iff)

lemma agreeing_subset: "agreeing ws \<Longrightarrow> set ws' \<subseteq> set ws \<Longrightarrow> agreeing ws'"
  unfolding agreeing_def list_all_iff by blast

lemma type_at_recorded: "agreeing ws \<Longrightarrow> (c, t) \<in> set ws \<Longrightarrow> type_at (record_types ws h) c = Some t"
proof (induction ws h rule: record_types.induct)
  case (2 d t' ws h)
  have rest: "agreeing ws" using agreeing_subset [OF 2(2)] by auto
  show ?case
  proof (cases "c \<in> fst ` set ws")
    case True
    then obtain t1 where t1: "(c, t1) \<in> set ws" by auto
    with agreeingD [OF 2(2), of c t t1] 2(3) have "t1 = t" by auto
    with 2(1) [OF rest] t1 show ?thesis by simp
  next
    case False
    with 2(3) have "d = c" "t' = t" by force+
    with False show ?thesis by (simp add: type_at_other type_at_set)
  qed
qed simp

text \<open>What \<open>TFType\<close> and \<open>TFValue\<close> do to the heap.\<close>

lemma types_recorded:
  "any_type L x h = Some (t, h1) \<Longrightarrow> t = own_type L x \<and> h1 = record_types (type_writes L x) h"
  "object_type L b h = Some (t, h1) \<Longrightarrow>
     t = ty_object L (ob_types b) (ob_optional b) \<and> h1 = record_types (object_writes L b) h"
  "set_attr_types L a m h = Some h1 \<Longrightarrow> h1 = record_types (attr_writes L a m) h"
proof (induction L x h and L b h and L a m h arbitrary: t h1 and t h1 and h1
    rule: any_type_object_type_set_attr_types.induct)
  case (10 L u n a m opt h)
  then show ?case by (auto simp: bind_eq_Some_iff)
next
  case (12 L a k x m h)
  from 12(3) obtain t h2 where 1: "any_type L x h = Some (t, h2)"
    and 2: "set_attr_types L a m (set_attr_type a k t h2) = Some h1"
    by (auto simp: bind_eq_Some_iff)
  from 12(1) [OF 1] 12(2) [OF 1 refl 2] show ?case by (simp add: record_types_append)
qed simp_all

lemma values_recorded:
  "any_value L x h = Some (v, h1) \<Longrightarrow> h1 = record_types (value_writes L x) h"
  "object_value L b h = Some (v, h1) \<Longrightarrow> h1 = record_types (object_value_writes L b) h"
  "object_slice_value L s h = Some (v, h1) \<Longrightarrow> h1 = record_types (value_writes L (TfObjectSlice s)) h"
  "attr_values L m h = Some (kvs, h1) \<Longrightarrow> h1 = record_types (attr_value_writes L m) h"
  "object_values L bs h = Some (vs, h1) \<Longrightarrow> h1 = record_types (objects_value_writes L bs) h"
proof (induction L x h and L b h and L s h and L m h and L bs h
    arbitrary: v h1 and v h1 and v h1 and kvs h1 and vs h1
    rule: any_value_object_value_object_slice_value_attr_values_object_values.induct)
  case (10 L u n a m opt h)
  from 10(2) obtain vals h2 t where 1: "attr_values L m h = Some (vals, h2)"
    and 2: "object_type L (TfObj u n a m opt) h2 = Some (t, h1)"
    by (auto simp: bind_eq_Some_iff simp del: object_type.simps)
  from 10(1) [OF 1] types_recorded(2) [OF 2] show ?case by (simp add: record_types_append)
next
  case (11 L u n a objs opt h)
  then show ?case by (fastforce simp: bind_eq_Some_iff Let_def split: if_splits)
qed (fastforce simp: bind_eq_Some_iff record_types_append)+

text \<open>When all of it is in the heap, values conform to their types.\<close>

definition recorded_at :: "'t heap \<Rightarrow> ((nat \<times> string) \<times> 't) list \<Rightarrow> bool" where
  "recorded_at h ws \<longleftrightarrow> (\<forall>(c, t) \<in> set ws. type_at h c = Some t)"

lemma recorded_at_simps [simp]:
  "recorded_at h []"
  "recorded_at h ((c, t) # ws) \<longleftrightarrow> type_at h c = Some t \<and> recorded_at h ws"
  "recorded_at h (ws @ ws') \<longleftrightarrow> recorded_at h ws \<and> recorded_at h ws'"
  by (auto simp: recorded_at_def)

lemma recorded_types_typed:
  "any_type L x h' = Some r \<Longrightarrow> recorded_at h (type_writes L x) \<Longrightarrow> typed_as False L h (own_type L x) x"
  "object_type L b h' = Some r \<Longrightarrow> recorded_at h (object_writes L b) \<Longrightarrow> object_typed False L h b"
  "set_attr_types L a m h' = Some h1 \<Longrightarrow> recorded_at h (attr_writes L a m) \<Longrightarrow> attrs_typed False L h a m"
proof (induction L x h' and L b h' and L a m h' arbitrary: r and r and h1
    rule: any_type_object_type_set_attr_types.induct)
  case (7 L b h)
  then show ?case by (cases b) (simp add: object_slice_type_def)
qed (auto simp: bind_eq_Some_iff string_slice_type_def string_map_type_def)

lemma recorded_values_typed:
  "any_value L x h' = Some r \<Longrightarrow> recorded_at h (value_writes L x) \<Longrightarrow> typed_as True L h (own_type L x) x"
  "object_value L b h' = Some r \<Longrightarrow> recorded_at h (object_value_writes L b) \<Longrightarrow> object_typed True L h b"
  "object_slice_value L s h' = Some r \<Longrightarrow> recorded_at h (value_writes L (TfObjectSlice s))
    \<Longrightarrow> typed_as True L h (object_slice_type L s) (TfObjectSlice s)"
  "attr_values L m h' = Some r' \<Longrightarrow> recorded_at h (attr_value_writes L m)
    \<Longrightarrow> (\<forall>a. recorded_at h (attr_writes L a m) \<longrightarrow> attrs_typed True L h a m)"
  "object_values L bs h' = Some r'' \<Longrightarrow> recorded_at h (objects_value_writes L bs) \<Longrightarrow> objects_typed True L h bs"
proof (induction L x h' and L b h' and L s h' and L m h' and L bs h'
    arbitrary: r and r and r and r' and r''
    rule: any_value_object_value_object_slice_value_attr_values_object_values.induct)
  case (11 L u n a objs opt h)
  then show ?case
    by (cases objs) (force simp: bind_eq_Some_iff Let_def object_slice_type_def split: if_splits)+
qed (auto simp: bind_eq_Some_iff string_slice_type_def string_map_type_def)

lemma type_writes_made:
  "set (type_writes L x) \<subseteq> set (value_writes L x)"
proof (cases x)
  case (TfObject b)
  then show ?thesis by (cases b) auto
qed simp_all

lemma recorded_at_agreeing: "agreeing ws \<Longrightarrow> recorded_at (record_types ws h) ws"
  by (auto simp: recorded_at_def type_at_recorded)

lemma value_type_agrees:
  assumes "tf_laws L" "any_value L x h = Some (v, h1)"
  shows "\<exists>h2. any_type L x h' = Some (val_type L v, h2)"
proof (cases x)
  case (TfObject b)
  obtain u n a m opt where b: "b = TfObj u n a m opt" by (cases b)
  from assms(2) obtain vals h2 t h3 p where "object_type L b h2 = Some (t, h3)" "new_value L h3 t p = Some v"
    by (auto simp: TfObject b bind_eq_Some_iff simp del: object_type.simps)
  with types_made_anywhere(2) [of L b h2 t h3 h'] new_value_type [OF assms(1)] TfObject show ?thesis by auto
next
  case (TfObjectSlice b)
  obtain u n a objs opt where b: "b = TfObjs u n a objs opt" by (cases b)
  from assms(2) obtain h2 p where "new_value L h2 (object_slice_type L b) p = Some v"
    by (auto simp: TfObjectSlice b bind_eq_Some_iff Let_def split: if_splits)
  with new_value_type [OF assms(1)] TfObjectSlice show ?thesis by auto
qed (use assms in \<open>auto simp: bind_eq_Some_iff dest: flat_value_types\<close>)

text \<open>
  And what a value holds conforms: for a known object the values of its attributes under their
  names, each of the type that the map of attribute types has for the name, and for a known list of
  objects its elements.
\<close>

lemma value_own_type:
  assumes "tf_laws L" "any_value L x h = Some (v, h1)"
  shows "val_type L v = own_type L x"
proof -
  obtain h2 where "any_type L x h = Some (val_type L v, h2)" using value_type_agrees [OF assms] by blast
  from types_recorded(1) [OF this] show ?thesis by simp
qed

fun value_conforms :: "('t, 'v) tf_lib \<Rightarrow> 't heap \<Rightarrow> 'v tf_any \<Rightarrow> 'v \<Rightarrow> bool"
and object_conforms :: "('t, 'v) tf_lib \<Rightarrow> 't heap \<Rightarrow> 'v tf_object \<Rightarrow> 'v \<Rightarrow> bool"
and attrs_conform :: "('t, 'v) tf_lib \<Rightarrow> 't heap \<Rightarrow> nat \<Rightarrow> (string \<times> 'v tf_any) list \<Rightarrow> (string \<times> 'v) list \<Rightarrow> bool"
and objects_conform :: "('t, 'v) tf_lib \<Rightarrow> 't heap \<Rightarrow> 'v tf_object list \<Rightarrow> 'v list \<Rightarrow> bool" where
  "value_conforms L h (TfObject b) v \<longleftrightarrow> object_conforms L h b v"
| "value_conforms L h (TfObjectSlice (TfObjs u n a objs opt)) v \<longleftrightarrow>
     (\<not> u \<and> \<not> n \<and> objs \<noteq> [] \<longrightarrow>
       (case val_as_list L v [] of (vs, None) \<Rightarrow> objects_conform L h objs vs | (_, Some e) \<Rightarrow> False))"
| "value_conforms L h (TfRaw w) v \<longleftrightarrow> v = w"
| "value_conforms L h x v \<longleftrightarrow> True"
| "object_conforms L h (TfObj u n a m opt) v \<longleftrightarrow>
     (\<not> u \<and> \<not> n \<and> m \<noteq> [] \<longrightarrow>
       (case val_as_map L v [] of (kvs, None) \<Rightarrow> attrs_conform L h a m kvs | (_, Some e) \<Rightarrow> False))"
| "attrs_conform L h a [] kvs \<longleftrightarrow> kvs = []"
| "attrs_conform L h a ((k, x) # m) kvs \<longleftrightarrow>
     (case kvs of
        [] \<Rightarrow> False
      | (k', v) # kvs' \<Rightarrow> k' = k \<and> type_at h (a, k) = Some (val_type L v) \<and> value_conforms L h x v
          \<and> attrs_conform L h a m kvs')"
| "objects_conform L h [] vs \<longleftrightarrow> vs = []"
| "objects_conform L h (b # bs) vs \<longleftrightarrow>
     (case vs of [] \<Rightarrow> False | v # vs' \<Rightarrow> object_conforms L h b v \<and> objects_conform L h bs vs')"

lemma recorded_values_conform:
  "tf_laws L \<Longrightarrow> any_value L x h' = Some (v, h1) \<Longrightarrow> recorded_at h (value_writes L x) \<Longrightarrow> value_conforms L h x v"
  "tf_laws L \<Longrightarrow> object_value L b h' = Some (v, h1) \<Longrightarrow> recorded_at h (object_value_writes L b)
    \<Longrightarrow> object_conforms L h b v"
  "tf_laws L \<Longrightarrow> object_slice_value L s h' = Some (v, h1) \<Longrightarrow> recorded_at h (value_writes L (TfObjectSlice s))
    \<Longrightarrow> value_conforms L h (TfObjectSlice s) v"
  "tf_laws L \<Longrightarrow> attr_values L m h' = Some (kvs, h1) \<Longrightarrow> recorded_at h (attr_value_writes L m)
    \<Longrightarrow> (\<forall>a. recorded_at h (attr_writes L a m) \<longrightarrow> attrs_conform L h a m kvs)"
  "tf_laws L \<Longrightarrow> object_values L bs h' = Some (vs, h1) \<Longrightarrow> recorded_at h (objects_value_writes L bs)
    \<Longrightarrow> objects_conform L h bs vs"
proof (induction L x h' and L b h' and L s h' and L m h' and L bs h'
    arbitrary: v h1 and v h1 and v h1 and kvs h1 and vs h1
    rule: any_value_object_value_object_slice_value_attr_values_object_values.induct)
  case (10 L u n a m opt h')
  from 10(3) obtain vals h2 t where 1: "attr_values L m h' = Some (vals, h2)"
    and 2: "object_type L (TfObj u n a m opt) h2 = Some (t, h1)"
    and 3: "new_value L h1 t (if u then UnknownValue else if n \<or> m = [] then NilValue else MapValue vals) = Some v"
    by (auto simp: bind_eq_Some_iff simp del: object_type.simps)
  have t: "t = ty_object L a opt" using types_recorded(2) [OF 2] by simp
  have "attrs_conform L h a m vals" using 10(1) [OF 10(2) 1] 10(4) by simp
  with 3 show ?case
    by (auto simp: t new_value_def as_laws_simps [OF 10(2)] split: if_splits)
next
  case (11 L u n a objs opt h')
  show ?case
  proof (cases "u \<or> n \<or> objs = []")
    case False
    with 11(3) obtain vs h2 where vs: "object_values L objs h' = Some (vs, h2)"
      and v: "new_value L h2 (object_slice_type L (TfObjs u n a objs opt)) (ListValue vs) = Some v"
      by (auto simp: bind_eq_Some_iff Let_def)
    from 11(1) [OF refl _ _ 11(2) vs] False 11(4) have "objects_conform L h objs vs" by simp
    with v show ?thesis
      by (auto simp: new_value_def object_slice_type_def as_laws_simps [OF 11(2)] split: if_splits)
  qed auto
next
  case (13 L k x m h')
  then show ?case by (fastforce simp: bind_eq_Some_iff value_own_type)
next
  case (15 L b bs h')
  then show ?case by (fastforce simp: bind_eq_Some_iff)
qed (auto simp: bind_eq_Some_iff)

subsection \<open>Reading what was made\<close>

text \<open>
  What is seen of a value: unknown, null or what it holds. A slice or a map without elements
  is seen as null.
\<close>

datatype 'a seen = SeenUnknown | SeenNull | Seen 'a

definition seen :: "('a \<Rightarrow> bool) \<Rightarrow> ('a \<Rightarrow> 'b) \<Rightarrow> 'a tfv \<Rightarrow> 'b seen" where
  "seen is_empty f b =
     (if is_unknown b then SeenUnknown else if is_null b \<or> is_empty (raw_val b) then SeenNull else Seen (f (raw_val b)))"

abbreviation seen_val :: "'a tfv \<Rightarrow> 'a seen" where
  "seen_val \<equiv> seen (\<lambda>_. False) (\<lambda>x. x)"

datatype flat_seen =
    SeenBool "bool seen"
  | SeenNum "64 word seen"
  | SeenString "string seen"
  | SeenStrings "string seen list seen"
  | SeenMap "(string \<times> string seen) list seen"

fun flat_view :: "'v tf_any \<Rightarrow> flat_seen option" where
  "flat_view (TfBool b) = Some (SeenBool (seen_val b))"
| "flat_view (TfNum b) = Some (SeenNum (seen_val b))"
| "flat_view (TfString b) = Some (SeenString (seen_val b))"
| "flat_view (TfStringSlice b) = Some (SeenStrings (seen (\<lambda>ss. ss = []) (map seen_val) b))"
| "flat_view (TfStringMap b) = Some (SeenMap (seen (\<lambda>m. m = []) (map (apsnd seen_val)) b))"
| "flat_view _ = None"

text \<open>The same with an empty slice or map told apart from null, and the views that are null or unknown.\<close>

fun exact_view :: "'v tf_any \<Rightarrow> flat_seen option" where
  "exact_view (TfBool b) = Some (SeenBool (seen_val b))"
| "exact_view (TfNum b) = Some (SeenNum (seen_val b))"
| "exact_view (TfString b) = Some (SeenString (seen_val b))"
| "exact_view (TfStringSlice b) = Some (SeenStrings (seen (\<lambda>_. False) (map seen_val) b))"
| "exact_view (TfStringMap b) = Some (SeenMap (seen (\<lambda>_. False) (map (apsnd seen_val)) b))"
| "exact_view _ = None"

fun seen_null :: "flat_seen \<Rightarrow> bool" where
  "seen_null (SeenBool s) \<longleftrightarrow> s = SeenNull"
| "seen_null (SeenNum s) \<longleftrightarrow> s = SeenNull"
| "seen_null (SeenString s) \<longleftrightarrow> s = SeenNull"
| "seen_null (SeenStrings s) \<longleftrightarrow> s = SeenNull"
| "seen_null (SeenMap s) \<longleftrightarrow> s = SeenNull"

fun seen_unknown :: "flat_seen \<Rightarrow> bool" where
  "seen_unknown (SeenBool s) \<longleftrightarrow> s = SeenUnknown"
| "seen_unknown (SeenNum s) \<longleftrightarrow> s = SeenUnknown"
| "seen_unknown (SeenString s) \<longleftrightarrow> s = SeenUnknown"
| "seen_unknown (SeenStrings s) \<longleftrightarrow> s = SeenUnknown"
| "seen_unknown (SeenMap s) \<longleftrightarrow> s = SeenUnknown"

text \<open>The exact view of what is read is the view of what was written.\<close>

lemma exact_flat: "exact_view y = Some s \<Longrightarrow> flat_view x = Some s \<Longrightarrow> flat_view y = Some s"
  by (cases x; cases y) (auto simp: seen_def split: if_splits)

fun fresh_like :: "'v tf_any \<Rightarrow> 'v tf_any" where
  "fresh_like (TfBool b) = TfBool (new_tf False)"
| "fresh_like (TfNum b) = TfNum (new_tf 0)"
| "fresh_like (TfString b) = TfString (new_tf [])"
| "fresh_like (TfStringSlice b) = TfStringSlice (new_tf [])"
| "fresh_like (TfStringMap b) = TfStringMap (new_tf [])"
| "fresh_like x = x"

lemma seen_same:
  assumes "tf_laws L"
    and "\<not> is_unknown b \<Longrightarrow> \<not> is_null b \<Longrightarrow> \<exists>p. enc (raw_val b) = Some (val_make L t p) \<and> p \<noteq> UnknownValue
      \<and> (p = NilValue \<longleftrightarrow> is_empty (raw_val b))
      \<and> (p \<noteq> NilValue \<longrightarrow> (\<exists>x. dec (val_make L t p) = (x, None) \<and> \<not> is_empty x \<and> f x = f (raw_val b)))"
  shows "\<exists>v b'. tf_value L h t enc b = Some v \<and> from_tf_value L h' t dec (new_tf zero) v = (b', None)
    \<and> seen (\<lambda>_. False) f b' = seen is_empty f b
    \<and> (val_null L v \<longleftrightarrow> seen is_empty f b = SeenNull) \<and> (val_known L v \<longleftrightarrow> seen is_empty f b \<noteq> SeenUnknown)"
proof (cases "is_unknown b \<or> is_null b")
  case True
  then show ?thesis
    by (auto simp: tf_value_def new_value_def from_made_value [OF assms(1)] seen_def set_unknown_def
        set_null_def new_tf_def value_laws_simps [OF assms(1)])
next
  case False
  then obtain p where p: "enc (raw_val b) = Some (val_make L t p)" "p \<noteq> UnknownValue"
    "p = NilValue \<longleftrightarrow> is_empty (raw_val b)"
    "p \<noteq> NilValue \<longrightarrow> (\<exists>x. dec (val_make L t p) = (x, None) \<and> \<not> is_empty x \<and> f x = f (raw_val b))"
    using assms(2) by blast
  show ?thesis
  proof (cases "p = NilValue")
    case True
    with p False show ?thesis
      by (auto simp: tf_value_def from_made_value [OF assms(1)] seen_def set_null_def new_tf_def value_laws_simps [OF assms(1)])
  next
    case nil: False
    with p obtain x where "dec (val_make L t p) = (x, None)" "\<not> is_empty x" "f x = f (raw_val b)" by blast
    with p nil False show ?thesis
      by (intro exI [of _ "val_make L t p"] exI [of _ "Tfv False False x"])
        (simp add: tf_value_def from_made_value [OF assms(1)] seen_def tf_set_def value_laws_simps [OF assms(1)])
  qed
qed

lemma string_same:
  assumes "tf_laws L"
  shows "\<exists>v b'. string_value L h b = Some v \<and> string_from_value L h' (new_tf []) v = (b', None)
    \<and> seen_val b' = seen_val b \<and> (val_null L v \<longleftrightarrow> seen_val b = SeenNull)
    \<and> (val_known L v \<longleftrightarrow> seen_val b \<noteq> SeenUnknown)"
  unfolding string_value_def string_from_value_def
  by (rule seen_same [OF assms], rule exI [of _ "StringValue (raw_val b)"])
    (simp add: new_value_def make_laws_simps [OF assms] as_laws_simps [OF assms])

lemma bool_same:
  assumes "tf_laws L"
  shows "\<exists>v b'. bool_value L h b = Some v \<and> bool_from_value L h' (new_tf False) v = (b', None)
    \<and> seen_val b' = seen_val b \<and> (val_null L v \<longleftrightarrow> seen_val b = SeenNull)
    \<and> (val_known L v \<longleftrightarrow> seen_val b \<noteq> SeenUnknown)"
  unfolding bool_value_def bool_from_value_def
  by (rule seen_same [OF assms], rule exI [of _ "BoolValue (raw_val b)"])
    (simp add: new_value_def make_laws_simps [OF assms] as_laws_simps [OF assms])

lemma num_same:
  assumes "tf_laws L"
  shows "\<exists>v b'. num_value L h b = Some v \<and> num_from_value L h' (new_tf 0) v = (b', None)
    \<and> seen_val b' = seen_val b \<and> (val_null L v \<longleftrightarrow> seen_val b = SeenNull)
    \<and> (val_known L v \<longleftrightarrow> seen_val b \<noteq> SeenUnknown)"
  unfolding num_value_def num_from_value_def
  by (rule seen_same [OF assms], rule exI [of _ "NumValue (raw_val b)"])
    (simp add: new_value_def make_laws_simps [OF assms] as_laws_simps [OF assms])

lemma strings_same:
  assumes "tf_laws L"
  shows "\<exists>vs ss'. strings_values L h ss = Some vs \<and> strings_from_values L h' vs = (ss', None)
    \<and> map seen_val ss' = map seen_val ss \<and> length ss' = length ss \<and> (\<forall>v \<in> set vs. val_type L v = ty_string L)"
proof (induction ss)
  case (Cons s ss)
  from string_same [OF assms] obtain v s' where "string_value L h s = Some v"
    "string_from_value L h' (new_tf []) v = (s', None)" "seen_val s' = seen_val s" by blast
  with Cons flat_value_types(3) [OF assms] show ?case by (fastforce simp: bind_eq_Some_iff)
qed simp

lemma map_same:
  assumes "tf_laws L"
  shows "\<exists>kvs m'. map_values L h m = Some kvs \<and> map_from_values L h' kvs = (m', None)
    \<and> map (apsnd seen_val) m' = map (apsnd seen_val) m \<and> length m' = length m
    \<and> (\<forall>v \<in> snd ` set kvs. val_type L v = ty_string L)"
proof (induction m)
  case (Cons ks m)
  obtain k s where ks: "ks = (k, s)" by force
  from string_same [OF assms] obtain v s' where "string_value L h s = Some v"
    "string_from_value L h' (new_tf []) v = (s', None)" "seen_val s' = seen_val s" by blast
  with Cons flat_value_types(3) [OF assms] ks show ?case by (fastforce simp: bind_eq_Some_iff)
qed simp

lemma string_slice_same:
  assumes "tf_laws L"
  shows "\<exists>v b'. string_slice_value L h b = Some v \<and> string_slice_from_value L h' (new_tf []) v = (b', None)
    \<and> seen (\<lambda>_. False) (map seen_val) b' = seen (\<lambda>ss. ss = []) (map seen_val) b
    \<and> (val_null L v \<longleftrightarrow> seen (\<lambda>ss. ss = []) (map seen_val) b = SeenNull)
    \<and> (val_known L v \<longleftrightarrow> seen (\<lambda>ss. ss = []) (map seen_val) b \<noteq> SeenUnknown)"
  unfolding string_slice_value_def string_slice_from_value_def
proof (rule seen_same [OF assms])
  obtain vs ss' where ss: "strings_values L h (raw_val b) = Some vs" "strings_from_values L h' vs = (ss', None)"
    "map seen_val ss' = map seen_val (raw_val b)" "length ss' = length (raw_val b)"
    "\<forall>v \<in> set vs. val_type L v = ty_string L"
    using strings_same [OF assms] by blast
  then have "val_fits L h (string_slice_type L) (ListValue vs)"
    by (simp add: string_slice_type_def make_laws_simps(4) [OF assms])
  with ss show "\<exists>p. (if raw_val b = [] then new_value L h (string_slice_type L) NilValue
        else do { vs \<leftarrow> strings_values L h (raw_val b); new_value L h (string_slice_type L) (ListValue vs) })
      = Some (val_make L (string_slice_type L) p) \<and> p \<noteq> UnknownValue \<and> (p = NilValue \<longleftrightarrow> raw_val b = [])
    \<and> (p \<noteq> NilValue \<longrightarrow> (\<exists>x. (case val_as_list L (val_make L (string_slice_type L) p) [] of
        (vs, None) \<Rightarrow> strings_from_values L h' vs | (_, Some e) \<Rightarrow> ([], Some e)) = (x, None)
      \<and> x \<noteq> [] \<and> map seen_val x = map seen_val (raw_val b)))"
    by (intro exI [of _ "if raw_val b = [] then NilValue else ListValue vs"])
      (auto simp: new_value_def string_slice_type_def as_laws_simps [OF assms])
qed

lemma string_map_same:
  assumes "tf_laws L"
  shows "\<exists>v b'. string_map_value L h b = Some v \<and> string_map_from_value L h' (new_tf []) v = (b', None)
    \<and> seen (\<lambda>_. False) (map (apsnd seen_val)) b' = seen (\<lambda>m. m = []) (map (apsnd seen_val)) b
    \<and> (val_null L v \<longleftrightarrow> seen (\<lambda>m. m = []) (map (apsnd seen_val)) b = SeenNull)
    \<and> (val_known L v \<longleftrightarrow> seen (\<lambda>m. m = []) (map (apsnd seen_val)) b \<noteq> SeenUnknown)"
  unfolding string_map_value_def string_map_from_value_def
proof (rule seen_same [OF assms])
  obtain kvs m' where m: "map_values L h (raw_val b) = Some kvs" "map_from_values L h' kvs = (m', None)"
    "map (apsnd seen_val) m' = map (apsnd seen_val) (raw_val b)" "length m' = length (raw_val b)"
    "\<forall>v \<in> snd ` set kvs. val_type L v = ty_string L"
    using map_same [OF assms] by blast
  then have "val_fits L h (string_map_type L) (MapValue kvs)"
    unfolding string_map_type_def by (intro make_laws_simps(5) [OF assms]) blast
  with m show "\<exists>p. (if raw_val b = [] then new_value L h (string_map_type L) NilValue
        else do { kvs \<leftarrow> map_values L h (raw_val b); new_value L h (string_map_type L) (MapValue kvs) })
      = Some (val_make L (string_map_type L) p) \<and> p \<noteq> UnknownValue \<and> (p = NilValue \<longleftrightarrow> raw_val b = [])
    \<and> (p \<noteq> NilValue \<longrightarrow> (\<exists>x. (case val_as_map L (val_make L (string_map_type L) p) [] of
        (kvs, None) \<Rightarrow> map_from_values L h' kvs | (_, Some e) \<Rightarrow> ([], Some e)) = (x, None)
      \<and> x \<noteq> [] \<and> map (apsnd seen_val) x = map (apsnd seen_val) (raw_val b)))"
    by (intro exI [of _ "if raw_val b = [] then NilValue else MapValue kvs"])
      (auto simp: new_value_def string_map_type_def as_laws_simps [OF assms])
qed

lemma flat_exact:
  assumes "tf_laws L" "flat_view x = Some s"
  shows "\<exists>v y. any_value L x h = Some (v, h) \<and> any_from_value L (fresh_like x) v h' = Some ((y, None), h')
    \<and> exact_view y = Some s \<and> (val_null L v \<longleftrightarrow> seen_null s) \<and> (val_known L v \<longleftrightarrow> \<not> seen_unknown s)"
proof (cases x)
  case (TfBool b)
  with bool_same [OF assms(1), of h b h'] assms(2) show ?thesis by auto
next
  case (TfNum b)
  with num_same [OF assms(1), of h b h'] assms(2) show ?thesis by auto
next
  case (TfString b)
  with string_same [OF assms(1), of h b h'] assms(2) show ?thesis by auto
next
  case (TfStringSlice b)
  with string_slice_same [OF assms(1), of h b h'] assms(2) show ?thesis by auto
next
  case (TfStringMap b)
  with string_map_same [OF assms(1), of h b h'] assms(2) show ?thesis by auto
qed (use assms(2) in simp_all)

lemma flat_same:
  assumes "tf_laws L" "flat_view x = Some s"
  shows "\<exists>v y. any_value L x h = Some (v, h) \<and> any_from_value L (fresh_like x) v h' = Some ((y, None), h')
    \<and> flat_view y = Some s"
  using flat_exact [OF assms, of h h'] exact_flat assms(2) by blast

text \<open>A list of objects inside an object is read as an object, which it is not.\<close>

lemma flat_then_object_list:
  assumes "tf_laws L" "\<And>k' v'. (k', v') \<in> set pre \<Longrightarrow> flat_from_value L h v' \<noteq> None"
  shows "\<exists>e h'. attrs_from_values L (pre @ (k, val_make L (ty_list L (ty_object L a opt)) (ListValue vs)) # post) h
    = Some (([], Some e), h')"
  using assms(2)
proof (induction pre)
  case Nil
  let ?v = "val_make L (ty_list L (ty_object L a opt)) (ListValue vs)"
  have T: "\<not> ty_is L h (ty_list L (ty_object L a opt)) t" if "t \<in> {ty_bool L, ty_string L, ty_number L,
      ty_list L (ty_string L), ty_map L (Some (ty_string L)), ty_dynamic L}" for t
    using assms(1) that unfolding tf_laws_def type_laws_def by blast
  then have flat: "flat_from_value L h ?v = None"
    by (simp add: flat_from_value_def Let_def value_laws_simps [OF assms(1)])
  have list: "is_object_or_list L (ty_list L (ty_object L a opt))"
    using assms(1) by (simp add: is_object_or_list_def tf_laws_def type_laws_def)
  obtain m e where e: "val_as_map L ?v [] = (m, Some e)"
    using as_laws_simps(7) [OF assms(1), of "ty_object L a opt" vs "[]"] by (metis prod.collapse option.exhaust)
  have ne: "\<not> val_equal L h' ?v (val_make L t UnknownValue)" "\<not> val_equal L h' ?v (val_make L t NilValue)" for h' t
    using equal_values [OF assms(1)] by blast+
  obtain b h0 where b: "(new_tf_object h :: 'b tf_object \<times> _) = (b, h0)" by force
  have "attrs_from_values L ((k, ?v) # post) h = Some (([], Some e), h0)"
    by (subst attrs_from_values.simps)
      (simp add: flat list value_laws_simps [OF assms(1)] b object_from_with_def ne unknown_dst_val_def
        null_dst_val_def unknown_value_def null_value_def e)
  then show ?case by auto
next
  case (Cons kv pre)
  obtain k' v' where kv: "kv = (k', v')" by force
  obtain x e where x: "flat_from_value L h v' = Some (x, e)"
    using Cons.prems [of k' v'] kv by (metis list.set_intros(1) not_None_eq surj_pair)
  from Cons.IH Cons.prems obtain e' h' where "attrs_from_values L
      (pre @ (k, val_make L (ty_list L (ty_object L a opt)) (ListValue vs)) # post) h = Some (([], Some e'), h')"
    by (metis list.set_intros(2))
  with x kv show ?case by (subst attrs_from_values.simps) (cases e; simp)
qed

lemma from_null_keeps_unknown:
  assumes "tf_laws L" "is_unknown b"
  shows "\<exists>b'. from_tf_value L h t dec b (null_value L t) = (b', None) \<and> is_unknown b'"
  using assms(2) by (simp add: null_value_def from_made_value [OF assms(1)] set_null_def)

subsection \<open>Properties\<close>

text \<open>
  C18: a value that TFValue makes has the type that TFType gives from any heap, and that type
  describes what was written at every depth: for each attribute of an object the map of attribute
  types holds, after TFValue and after TFType, a type to which the attribute conforms, nested objects
  included, and after TFValue so it is for the elements of the lists of objects. The value of
  a known object holds a value of each attribute, of the type that the map has for its name, at
  every depth. TFValue changes no other name of any map. No name of a map may be given two types.
\<close>

theorem value_has_its_type:
  assumes "tf_laws L" "any_value L x h = Some (v, h1)" "agreeing (value_writes L x)"
  shows "typed_as True L h1 (val_type L v) x \<and> value_conforms L h1 x v
    \<and> (\<forall>h'. \<exists>h2. any_type L x h' = Some (val_type L v, h2) \<and> typed_as False L h2 (val_type L v) x)
    \<and> (\<forall>c. c \<notin> fst ` set (value_writes L x) \<longrightarrow> type_at h1 c = type_at h c)"
proof (intro conjI allI impI)
  have h1: "h1 = record_types (value_writes L x) h" by (rule values_recorded(1) [OF assms(2)])
  have t: "val_type L v = own_type L x" by (rule value_own_type [OF assms(1,2)])
  have made: "recorded_at h1 (value_writes L x)" unfolding h1 by (rule recorded_at_agreeing [OF assms(3)])
  show "typed_as True L h1 (val_type L v) x"
    unfolding t by (rule recorded_values_typed(1) [OF assms(2) made])
  show "value_conforms L h1 x v"
    by (rule recorded_values_conform(1) [OF assms(1,2) made])
  show "type_at h1 c = type_at h c" if "c \<notin> fst ` set (value_writes L x)" for c
    using that by (simp add: h1 type_at_other)
  show "\<exists>h2. any_type L x h' = Some (val_type L v, h2) \<and> typed_as False L h2 (val_type L v) x" for h'
  proof -
    obtain h2 where h2: "any_type L x h' = Some (val_type L v, h2)" using value_type_agrees [OF assms(1,2)] by blast
    have "recorded_at h2 (type_writes L x)"
      using types_recorded(1) [OF h2] agreeing_subset [OF assms(3) type_writes_made] by (simp add: recorded_at_agreeing)
    with h2 show ?thesis using recorded_types_typed(1) [OF h2] t by auto
  qed
qed

text \<open>
  C19: TFValue of a boolean, number, string, slice or map of strings returns a value, and a new one
  that is read from it shows the same: unknown, null or what it holds, and so do the strings
  inside. The value is null just when what was written is null or a slice or map without
  elements, which then is null, and not empty, when it is read back; and it is unknown just when
  what was written is.
\<close>

theorem flat_roundtrip:
  assumes "tf_laws L" "flat_view x = Some s"
  shows "\<exists>v y. any_value L x h = Some (v, h) \<and> any_from_value L (fresh_like x) v h' = Some ((y, None), h')
    \<and> flat_view y = Some s \<and> exact_view y = Some s
    \<and> (val_null L v \<longleftrightarrow> seen_null s) \<and> (val_known L v \<longleftrightarrow> \<not> seen_unknown s)"
  using flat_exact [OF assms, of h h'] exact_flat assms(2) by blast

text \<open>
  FromTFValue of an object whose value has a list of objects as an attribute, after
  attributes that are not objects, returns an error and leaves the object as it was: the list is
  read as an object.
\<close>

theorem object_list_not_read:
  assumes "tf_laws L" "\<forall>kv \<in> set pre. flat_from_value L h (snd kv) \<noteq> None"
  shows "\<exists>e h'. object_from_value L b (val_make L (ty_object L a' opt') (MapValue
      (pre @ (k, val_make L (ty_list L (ty_object L a opt)) (ListValue vs)) # post))) h = Some ((b, Some e), h')"
proof -
  let ?kvs = "pre @ (k, val_make L (ty_list L (ty_object L a opt)) (ListValue vs)) # post"
  let ?v = "val_make L (ty_object L a' opt') (MapValue ?kvs)"
  have ne: "\<not> val_equal L h' ?v (val_make L t UnknownValue)" "\<not> val_equal L h' ?v (val_make L t NilValue)" for h' t
    using equal_values [OF assms(1)] by blast+
  have "flat_from_value L h v' \<noteq> None" if "(k', v') \<in> set pre" for k' v'
    using assms(2) that by force
  then obtain e h' where "attrs_from_values L ?kvs h = Some (([], Some e), h')"
    using flat_then_object_list [OF assms(1), of pre h k a opt vs post] by blast
  then show ?thesis
    by (simp add: object_from_value_def object_from_with_def ne unknown_dst_val_def null_dst_val_def
        unknown_value_def null_value_def as_laws_simps [OF assms(1)] value_laws_simps [OF assms(1)])
qed

text \<open>A library as an instance: types and values are their own descriptions.\<close>

datatype demo_type =
    TyBool | TyNumber | TyString | TyDynamic | TyList demo_type | TyMap "demo_type option"
  | TyObject nat "string list"

datatype demo_value = DemoValue demo_type "demo_value payload"

fun demo_type_of :: "demo_value \<Rightarrow> demo_type" where
  "demo_type_of (DemoValue t p) = t"

fun demo_payload :: "demo_value \<Rightarrow> demo_value payload" where
  "demo_payload (DemoValue t p) = p"

fun demo_fits :: "demo_type heap \<Rightarrow> demo_type \<Rightarrow> demo_value payload \<Rightarrow> bool" where
  "demo_fits h TyBool (BoolValue b) = True"
| "demo_fits h TyNumber (NumValue n) = True"
| "demo_fits h TyString (StringValue s) = True"
| "demo_fits h TyDynamic p = True"
| "demo_fits h (TyList t) (ListValue vs) = list_all (\<lambda>v. demo_type_of v = t) vs"
| "demo_fits h (TyMap (Some t)) (MapValue kvs) = list_all (\<lambda>(k, v). demo_type_of v = t) kvs"
| "demo_fits h (TyObject a opt) (MapValue kvs) =
     list_all (\<lambda>(k, v). (k, demo_type_of v) \<in> set (hp_maps h a) \<or> (k, TyDynamic) \<in> set (hp_maps h a)) kvs"
| "demo_fits h t p = False"

fun demo_fully_known :: "demo_value \<Rightarrow> bool" where
  "demo_fully_known (DemoValue t UnknownValue) = False"
| "demo_fully_known (DemoValue t (ListValue vs)) = list_all demo_fully_known vs"
| "demo_fully_known (DemoValue t p) = True"

definition err_not_a :: "string \<Rightarrow> error" where
  "err_not_a what = Some (ErrNew (''not a '' @ what))"

definition demo_lib :: "(demo_type, demo_value) tf_lib" where
  "demo_lib = \<lparr>ty_bool = TyBool, ty_number = TyNumber, ty_string = TyString, ty_dynamic = TyDynamic,
     ty_list = TyList, ty_map = TyMap, ty_object = TyObject, ty_is = (\<lambda>h t t'. t = t'),
     ty_equal = (\<lambda>h t t'. t = t'),
     ty_is_object = (\<lambda>t. case t of TyObject a opt \<Rightarrow> True | _ \<Rightarrow> False),
     ty_list_elem = (\<lambda>t. case t of TyList elem \<Rightarrow> Some elem | _ \<Rightarrow> None),
     ty_show = (\<lambda>h t. ''type''), val_make = DemoValue, val_fits = demo_fits, val_type = demo_type_of,
     val_equal = (\<lambda>h v w. v = w), val_known = (\<lambda>v. demo_payload v \<noteq> UnknownValue),
     val_null = (\<lambda>v. demo_payload v = NilValue), val_fully_known = demo_fully_known,
     val_as_bool = (\<lambda>v x. case demo_payload v of BoolValue b \<Rightarrow> (b, None) | _ \<Rightarrow> (x, err_not_a ''bool'')),
     val_as_num = (\<lambda>v x. case demo_payload v of NumValue n \<Rightarrow> (n, None) | _ \<Rightarrow> (x, err_not_a ''number'')),
     val_as_string = (\<lambda>v x. case demo_payload v of StringValue s \<Rightarrow> (s, None) | _ \<Rightarrow> (x, err_not_a ''string'')),
     val_as_list = (\<lambda>v x. case demo_payload v of ListValue vs \<Rightarrow> (vs, None) | _ \<Rightarrow> (x, err_not_a ''list'')),
     val_as_map = (\<lambda>v x. case demo_payload v of MapValue kvs \<Rightarrow> (kvs, None) | NilValue \<Rightarrow> ([], None)
       | _ \<Rightarrow> (x, err_not_a ''map'')),
     val_msgpack = (\<lambda>v. ([], None)), val_zero = DemoValue TyDynamic NilValue\<rparr>"

lemma demo_laws: "tf_laws demo_lib"
proof -
  have "value_laws demo_lib" by (auto simp: value_laws_def demo_lib_def)
  moreover have "make_laws demo_lib"
  proof -
    have "demo_fits h (TyObject a []) (MapValue kvs)"
      if "list_all2 (\<lambda>(n, t) (m, v). n = m \<and> (t = TyDynamic \<or> t = demo_type_of v)) (hp_maps h a) kvs" for h a kvs
    proof -
      have "\<exists>(n, t) \<in> set (hp_maps h a). n = m \<and> (t = TyDynamic \<or> t = demo_type_of v)"
        if "(m, v) \<in> set kvs" for m v
        using \<open>list_all2 _ _ kvs\<close> that unfolding list_all2_conv_all_nth by (fastforce simp: in_set_conv_nth)
      then show ?thesis by (fastforce simp: list_all_iff)
    qed
    then show ?thesis by (force simp: make_laws_def demo_lib_def list_all_iff)
  qed
  moreover have "as_laws demo_lib" by (auto simp: as_laws_def demo_lib_def err_not_a_def)
  moreover have "type_laws demo_lib" by (auto simp: type_laws_def demo_lib_def)
  ultimately show ?thesis by (simp add: tf_laws_def)
qed

definition demo_heap :: "demo_type heap" where
  "demo_heap = \<lparr>hp_next = 4, hp_maps = (\<lambda>a. [])\<rparr>"

definition demo_attrs :: "(string \<times> demo_value tf_any) list" where
  "demo_attrs = [(''a'', TfBool (Tfv False False True)), (''b'', TfString (Tfv True False [])),
     (''c'', TfObject (TfObj False False 2 [(''d'', TfNum (Tfv False False 3))] [])),
     (''e'', TfObjectSlice (TfObjs False False 3
       [TfObj False False 3 [(''f'', TfBool (Tfv False True False))] [],
        TfObj False False 3 [(''f'', TfBool (Tfv False False True))] []] []))]"

definition demo_object :: "demo_value tf_any" where
  "demo_object = TfObject (TfObj False False 1 demo_attrs [])"

text \<open>The types an object with a nested object and a list of objects has in the heap in the end.\<close>

theorem value_has_its_type_witness:
  "\<exists>v h1. any_value demo_lib demo_object demo_heap = Some (v, h1) \<and> val_type demo_lib v = TyObject 1 []
     \<and> (\<exists>h2. any_type demo_lib demo_object demo_heap = Some (TyObject 1 [], h2))
     \<and> type_at h1 (1, ''a'') = Some TyBool \<and> type_at h1 (1, ''b'') = Some TyString
     \<and> type_at h1 (1, ''c'') = Some (TyObject 2 []) \<and> type_at h1 (2, ''d'') = Some TyNumber
     \<and> type_at h1 (1, ''e'') = Some (TyList (TyObject 3 [])) \<and> type_at h1 (3, ''f'') = Some TyBool
     \<and> type_at h1 (2, ''a'') = None"
proof -
  have agree: "agreeing (value_writes demo_lib demo_object)"
    by (simp add: agreeing_def demo_object_def demo_attrs_def)
  obtain v h1 where v: "any_value demo_lib demo_object demo_heap = Some (v, h1)"
    by (simp add: demo_object_def demo_attrs_def demo_lib_def bool_value_def num_value_def string_value_def
        tf_value_def new_value_def object_slice_type_def set_attr_type_def demo_heap_def)
  have tys: "ty_bool demo_lib = TyBool" "ty_number demo_lib = TyNumber" "ty_string demo_lib = TyString"
    "ty_list demo_lib = TyList" "ty_object demo_lib = TyObject" by (simp_all add: demo_lib_def)
  note here = value_has_its_type [OF demo_laws v agree]
  have t: "typed_as True demo_lib h1 (val_type demo_lib v) demo_object" using here by blast
  then have t1: "val_type demo_lib v = TyObject 1 []" by (simp add: demo_object_def tys)
  have t2: "\<exists>h2. any_type demo_lib demo_object demo_heap = Some (TyObject 1 [], h2)" using here t1 by auto
  have "type_at h1 (2, ''a'') = type_at demo_heap (2, ''a'')"
    using here by (simp add: demo_object_def demo_attrs_def)
  moreover from t have "type_at h1 (1, ''a'') = Some TyBool \<and> type_at h1 (1, ''b'') = Some TyString
     \<and> type_at h1 (1, ''c'') = Some (TyObject 2 []) \<and> type_at h1 (2, ''d'') = Some TyNumber
     \<and> type_at h1 (1, ''e'') = Some (TyList (TyObject 3 [])) \<and> type_at h1 (3, ''f'') = Some TyBool"
    by (simp add: demo_object_def demo_attrs_def tys split: option.splits)
  ultimately show ?thesis using v t1 t2 by (auto simp: type_at_def demo_heap_def)
qed

definition demo_slice :: "demo_value tf_any" where
  "demo_slice = TfStringSlice (Tfv False False [Tfv False False ''a'', Tfv False True []])"

text \<open>A slice that holds two strings, and one that is known, not null and empty.\<close>

theorem flat_roundtrip_witness:
  "(\<exists>v y. any_value demo_lib demo_slice demo_heap = Some (v, demo_heap)
     \<and> any_from_value demo_lib (TfStringSlice (new_tf [])) v demo_heap = Some ((y, None), demo_heap)
     \<and> exact_view y = Some (SeenStrings (Seen [Seen ''a'', SeenNull])) \<and> \<not> val_null demo_lib v)
   \<and> (\<exists>v y. any_value demo_lib (TfStringSlice (Tfv False False [])) demo_heap = Some (v, demo_heap)
     \<and> any_from_value demo_lib (TfStringSlice (new_tf [])) v demo_heap = Some ((y, None), demo_heap)
     \<and> exact_view y = Some (SeenStrings SeenNull) \<and> val_null demo_lib v)"
proof (rule conjI)
  have "flat_view demo_slice = Some (SeenStrings (Seen [Seen ''a'', SeenNull]))"
    by (simp add: demo_slice_def seen_def)
  from flat_roundtrip [OF demo_laws this, of demo_heap demo_heap]
  show "\<exists>v y. any_value demo_lib demo_slice demo_heap = Some (v, demo_heap)
     \<and> any_from_value demo_lib (TfStringSlice (new_tf [])) v demo_heap = Some ((y, None), demo_heap)
     \<and> exact_view y = Some (SeenStrings (Seen [Seen ''a'', SeenNull])) \<and> \<not> val_null demo_lib v"
    by (auto simp: demo_slice_def)
  have "flat_view (TfStringSlice (Tfv False False []) :: demo_value tf_any) = Some (SeenStrings SeenNull)"
    by (simp add: seen_def)
  from flat_roundtrip [OF demo_laws this, of demo_heap demo_heap]
  show "\<exists>v y. any_value demo_lib (TfStringSlice (Tfv False False [])) demo_heap = Some (v, demo_heap)
     \<and> any_from_value demo_lib (TfStringSlice (new_tf [])) v demo_heap = Some ((y, None), demo_heap)
     \<and> exact_view y = Some (SeenStrings SeenNull) \<and> val_null demo_lib v"
    by auto
qed

theorem object_list_not_read_witness:
  "\<exists>b e h'. object_from_value demo_lib (b :: demo_value tf_object) (DemoValue (TyObject 0 []) (MapValue
      ([(''a'', DemoValue TyString (StringValue ''x''))]
        @ (''nodes'', DemoValue (TyList (TyObject 1 [])) (ListValue [])) # []))) demo_heap = Some ((b, Some e), h')"
proof -
  have make: "val_make demo_lib = DemoValue" "ty_list demo_lib = TyList" "ty_object demo_lib = TyObject"
    by (simp_all add: demo_lib_def)
  have "\<forall>kv \<in> set [(''a'', DemoValue TyString (StringValue ''x''))]. flat_from_value demo_lib demo_heap (snd kv) \<noteq> None"
    by (simp add: flat_from_value_def demo_lib_def)
  from object_list_not_read [OF demo_laws this, where k = "''nodes''" and a = 1 and opt = "[]" and vs = "[]"
      and post = "[]" and a' = 0 and opt' = "[]" and b = "fst (new_tf_object demo_heap)"]
  show ?thesis unfolding make by blast
qed

end
