(* ===== verification/EmbeddedTransport.thy ===== *)
theory EmbeddedTransport
  imports TfTypes Retry
begin

text \<open>
  The transport block of resources and of the provider (\<open>internal/plugin/errors.go\<close>,
  \<open>embedded_transport*.go\<close> and \<open>provider.go\<close>): the configuration of one transport, the block
  that holds them, the defaults a resource takes from the provider, and the provider's own
  configuration.

  The three transports have the same methods over different attributes; here they are one record
  whose attributes go by their names. Locks are left out: every call runs alone.
\<close>

subsection \<open>Errors of attributes (errors.go)\<close>

text \<open>
  Paths of attributes are the library's; \<open>pt_with\<close> gives the path it returns and what it leaves
  in its receiver.
\<close>

record 'p path_lib =
  pt_empty :: 'p
  pt_with :: "string \<Rightarrow> 'p \<Rightarrow> 'p \<times> 'p"
  pt_steps :: "string list \<Rightarrow> 'p"
  pt_error :: "'p \<Rightarrow> goerr \<Rightarrow> goerr"

text \<open>The path that \<open>WithAttributeName\<close> returns is not used.\<close>

definition build_attribute_path :: "'p path_lib \<Rightarrow> string list \<Rightarrow> 'p" where
  "build_attribute_path P names = fold (\<lambda>n p. snd (pt_with P n p)) names (pt_empty P)"

definition attribute_path_error :: "'p path_lib \<Rightarrow> goerr \<Rightarrow> string list \<Rightarrow> goerr" where
  "attribute_path_error P e names = pt_error P (build_attribute_path P names) e"

definition validation_error :: "'p path_lib \<Rightarrow> string \<Rightarrow> string list \<Rightarrow> goerr" where
  "validation_error P msg names = attribute_path_error P (ErrNew (''validation error, '' @ msg)) names"

definition ctx_to_diagnostic :: "'p error_view \<Rightarrow> goerr \<Rightarrow> 'p diagnostic" where
  "ctx_to_diagnostic ev e = \<lparr>dg_severity = SeverityError, dg_summary = ''Error'',
     dg_detail = ''context canceled: '' @ ev_text ev e, dg_attribute = None\<rparr>"

subsection \<open>One transport\<close>

datatype transport_type = UNKNOWN | SSH | K8S | NOMAD

definition transport_type_from :: "string \<Rightarrow> transport_type" where
  "transport_type_from s =
     (if s = ''ssh'' then SSH else if s = ''kubernetes'' then K8S else if s = ''nomad'' then NOMAD
      else UNKNOWN)"

fun type_name :: "transport_type \<Rightarrow> string" where
  "type_name UNKNOWN = ''unknown''"
| "type_name SSH = ''ssh''"
| "type_name K8S = ''kubernetes''"
| "type_name NOMAD = ''nomad''"

definition transport_types :: "transport_type list" where
  "transport_types = [SSH, K8S, NOMAD]"

definition is_known_transport_type :: "transport_type \<Rightarrow> bool" where
  "is_known_transport_type t \<longleftrightarrow> (case t of SSH \<Rightarrow> True | K8S \<Rightarrow> True | NOMAD \<Rightarrow> True | UNKNOWN \<Rightarrow> False)"

definition ssh_attributes :: "string list" where
  "ssh_attributes = [''user'', ''host'', ''private_key'', ''private_key_path'', ''passphrase'', ''passphrase_path'']"

definition k8s_attributes :: "string list" where
  "k8s_attributes = [''kubeconfig_base64'', ''context_name'', ''namespace'', ''pod'', ''container'']"

definition nomad_attributes :: "string list" where
  "nomad_attributes = [''host'', ''secret_id'', ''allocation_id'', ''task_name'']"

fun attribute_names :: "transport_type \<Rightarrow> string list" where
  "attribute_names UNKNOWN = []"
| "attribute_names SSH = ssh_attributes"
| "attribute_names K8S = k8s_attributes"
| "attribute_names NOMAD = nomad_attributes"

text \<open>\<open>ts_values\<close> are the raw values of the attributes that the configuration has.\<close>

record 'v transport_state =
  ts_type :: transport_type
  ts_attrs :: "(string \<times> tf_string) list"
  ts_values :: "(string \<times> 'v) list"

definition new_transport :: "transport_type \<Rightarrow> 'v transport_state" where
  "new_transport t = \<lparr>ts_type = t, ts_attrs = map (\<lambda>n. (n, new_tf [])) (attribute_names t), ts_values = []\<rparr>"

definition create_transport :: "transport_type \<Rightarrow> (goerr, 'v transport_state) sum" where
  "create_transport t =
     (if is_known_transport_type t then Inr (new_transport t)
      else Inl (ErrNew ''cannot create a UNKNOWN transport''))"

definition attr :: "'v transport_state \<Rightarrow> string \<Rightarrow> tf_string" where
  "attr tr n = the (map_of (ts_attrs tr) n)"

definition transport_tf_type :: "('t, 'v) tf_lib \<Rightarrow> 'v transport_state \<Rightarrow> 't heap \<Rightarrow> 't \<times> 't heap" where
  "transport_tf_type L tr h = terraform5_type L (ts_values tr) h"

text \<open>Without raw values the configuration is unknown.\<close>

definition transport_tf_value ::
  "('t, 'v) tf_lib \<Rightarrow> 'v transport_state \<Rightarrow> 't heap \<Rightarrow> ('v \<times> 't heap) go" where
  "transport_tf_value L tr h =
     (if ts_values tr = [] then
        (case new_map h of (a, h1) \<Rightarrow>
           Some (unknown_value L (ty_object L a []), h1\<lparr>hp_maps := (hp_maps h1)
             (a := map (\<lambda>n. (n, ty_string L)) (attribute_names (ts_type tr)))\<rparr>))
      else terraform5_value L (ts_values tr) h)"

text \<open>
  \<open>applyDefaults\<close>: a default that has a value is read into an attribute that has none.
\<close>

fun apply_defaults ::
  "('t, 'v) tf_lib \<Rightarrow> 't heap \<Rightarrow> (string \<times> tf_string) list \<Rightarrow> (string \<times> tf_string) list
    \<Rightarrow> ((string \<times> tf_string) list \<times> error) go" where
  "apply_defaults L h [] attrs = Some (attrs, None)"
| "apply_defaults L h ((n, d) # ds) attrs =
     (case map_of attrs n of
        None \<Rightarrow> Some (attrs, Some (ErrNew (''failed to apply default to attribute: ['' @ n @ ''], since it is missing'')))
      | Some a \<Rightarrow> do {
          av \<leftarrow> string_value L h a;
          dv \<leftarrow> string_value L h d;
          (if \<not> (\<not> val_null L av \<and> val_known L av) \<and> (val_known L dv \<and> \<not> val_null L dv) then
             (case string_from_value L h a dv of
                (a', Some e) \<Rightarrow>
                  Some (map_set n a' attrs, Some (ErrNew (''failed to apply default to attribute: '' @ n)))
              | (a', None) \<Rightarrow> apply_defaults L h ds (map_set n a' attrs))
           else apply_defaults L h ds attrs)
        })"

definition transport_apply_defaults ::
  "('t, 'v) tf_lib \<Rightarrow> 't heap \<Rightarrow> 'v transport_state \<Rightarrow> (string \<times> tf_string) list
    \<Rightarrow> ('v transport_state \<times> error) go" where
  "transport_apply_defaults L h tr defaults = do {
     (attrs, e) \<leftarrow> apply_defaults L h defaults (ts_attrs tr);
     Some (tr\<lparr>ts_attrs := attrs\<rparr>, e)
   }"

fun any_not_null :: "('t, 'v) tf_lib \<Rightarrow> 't heap \<Rightarrow> (string \<times> tf_string) list \<Rightarrow> bool go" where
  "any_not_null L h [] = Some False"
| "any_not_null L h ((n, a) # attrs) = do {
     v \<leftarrow> string_value L h a;
     (if \<not> val_null L v then Some True else any_not_null L h attrs)
   }"

definition is_transport_configured :: "('t, 'v) tf_lib \<Rightarrow> 't heap \<Rightarrow> 'v transport_state \<Rightarrow> bool go" where
  "is_transport_configured L h tr = any_not_null L h (ts_attrs tr)"

definition verify_configuration ::
  "'p path_lib \<Rightarrow> string list \<Rightarrow> (string \<times> 'v) list \<Rightarrow> string \<Rightarrow> error" where
  "verify_configuration P known values type =
     (if values = [] then Some (ErrNew (type @ '' transport configuration cannot be empty''))
      else (case List.find (\<lambda>(n, v). n \<notin> set known) values of
          Some (n, _) \<Rightarrow> Some (attribute_path_error P
            (ErrNew (''unsupported argument, an argument named \"'' @ n @ ''\" is not expected here''))
            [''transport'', type, n])
        | None \<Rightarrow> None))"

fun type_label :: "transport_type \<Rightarrow> string" where
  "type_label UNKNOWN = []"
| "type_label SSH = ''SSH''"
| "type_label K8S = ''Kubernetes''"
| "type_label NOMAD = ''Nomad''"

text \<open>The attributes as the properties that \<open>mapAttributesTo\<close> takes, and back.\<close>

definition string_props :: "(string \<times> tf_string) list \<Rightarrow> (string \<times> ('v, unit) attr_prop) list" where
  "string_props attrs = map (\<lambda>(n, s). (n, PropTF (TfString s))) attrs"

fun prop_string :: "('v, unit) attr_prop \<Rightarrow> tf_string" where
  "prop_string (PropTF (TfString s)) = s"
| "prop_string _ = new_tf []"

definition prop_strings :: "(string \<times> ('v, unit) attr_prop) list \<Rightarrow> (string \<times> tf_string) list" where
  "prop_strings props = map (\<lambda>(n, p). (n, prop_string p)) props"

definition transport_from_value ::
  "('t, 'v) tf_lib \<Rightarrow> 'p path_lib \<Rightarrow> 'v transport_state \<Rightarrow> 'v \<Rightarrow> 't heap
    \<Rightarrow> (('v transport_state \<times> error) \<times> 't heap) go" where
  "transport_from_value L P tr val h = do {
     ((props, vals, e), h1) \<leftarrow> map_attributes_to L (\<lambda>v u. (u, None)) val (string_props (ts_attrs tr)) h;
     let tr1 = tr\<lparr>ts_attrs := prop_strings props, ts_values := vals\<rparr>;
     Some ((tr1, case e of
         Some e' \<Rightarrow> Some (attribute_path_error P (ErrWrap (''failed to convert terraform value to '' @ [CHR 0x27]
           @ type_label (ts_type tr) @ CHR 0x27 # '' transport config, due to: '') e' [])
           [''transport'', type_name (ts_type tr)])
       | None \<Rightarrow> verify_configuration P (attribute_names (ts_type tr)) vals (type_name (ts_type tr))), h1)
   }"

text \<open>
  \<open>Validate\<close>: the attributes of the last two transports are in a map, and the range over it may
  meet another one that is missing first.
\<close>

definition required_attributes :: "transport_type \<Rightarrow> string list" where
  "required_attributes t = (case t of
     K8S \<Rightarrow> [''kubeconfig_base64'', ''context_name'', ''pod'']
   | NOMAD \<Rightarrow> [''host'', ''allocation_id'', ''task_name'']
   | _ \<Rightarrow> [])"

definition has_value :: "'v transport_state \<Rightarrow> string \<Rightarrow> bool" where
  "has_value tr n \<longleftrightarrow> snd (tf_get (attr tr n))"

definition transport_validate :: "'p path_lib \<Rightarrow> 'v transport_state \<Rightarrow> error" where
  "transport_validate P tr =
     (if ts_type tr = SSH then
        (if \<not> has_value tr ''user'' then Some (validation_error P ''you must provide the transport SSH user''
           [''transport'', ''ssh'', ''user''])
         else if \<not> has_value tr ''host'' then Some (validation_error P ''you must provide the transport SSH host''
           [''transport'', ''ssh'', ''host''])
         else if \<not> has_value tr ''private_key'' \<and> \<not> has_value tr ''private_key_path''
         then Some (validation_error P ''you must provide either the private_key or private_key_path''
           [''transport'', ''ssh'', ''private_key''])
         else None)
      else (case List.find (\<lambda>n. \<not> has_value tr n) (required_attributes (ts_type tr)) of
          Some n \<Rightarrow> Some (validation_error P (''missing value for required attribute: '' @ n)
            [''transport'', type_name (ts_type tr), n])
        | None \<Rightarrow> None))"

text \<open>
  What the builders hand to the constructors of the transports, which are parameters: the user
  and the host of ssh as they are, and otherwise the attributes that have a value. Only the
  builder for kubernetes validates.
\<close>

definition client_opts :: "'v transport_state \<Rightarrow> (string \<times> string) list" where
  "client_opts tr =
     (let given = (\<lambda>ns. map (\<lambda>n. (n, raw_val (attr tr n))) (filter (has_value tr) ns)) in
      if ts_type tr = SSH then [(''user'', raw_val (attr tr ''user'')), (''host'', raw_val (attr tr ''host''))]
        @ given [''private_key'', ''private_key_path'', ''passphrase'', ''passphrase_path'']
      else given (attribute_names (ts_type tr)))"

type_synonym ('w, 'c) dialer = "transport_type \<Rightarrow> (string \<times> string) list \<Rightarrow> 'w \<Rightarrow> ('c option \<times> error) \<times> 'w"

definition transport_client ::
  "'p path_lib \<Rightarrow> ('w, 'c) dialer \<Rightarrow> 'v transport_state \<Rightarrow> 'w \<Rightarrow> ('c option \<times> error) \<times> 'w" where
  "transport_client P dial tr w =
     (case (if ts_type tr = K8S then transport_validate P tr else None) of
        Some e \<Rightarrow> ((None, Some e), w)
      | None \<Rightarrow> dial (ts_type tr) (client_opts tr) w)"

definition attributes_for_replace :: "'v transport_state \<Rightarrow> string list" where
  "attributes_for_replace tr =
     filter (\<lambda>n. map_of (ts_values tr) n \<noteq> None)
       (case ts_type tr of
          SSH \<Rightarrow> [''host'']
        | K8S \<Rightarrow> [''kubeconfig_base64'', ''context_name'']
        | NOMAD \<Rightarrow> [''host'', ''secret_id'']
        | UNKNOWN \<Rightarrow> [])"

text \<open>\<open>debug\<close>: one attribute of each transport is kept secret.\<close>

fun redacted_attribute :: "transport_type \<Rightarrow> string" where
  "redacted_attribute UNKNOWN = []"
| "redacted_attribute SSH = ''passphrase''"
| "redacted_attribute K8S = ''kubeconfig_base64''"
| "redacted_attribute NOMAD = ''secret_id''"

definition pad_left :: "nat \<Rightarrow> string \<Rightarrow> string" where
  "pad_left n s = replicate (n - length s) (CHR '' '') @ s"

fun debug_lines ::
  "('t, 'v) tf_lib \<Rightarrow> 't heap \<Rightarrow> 'v transport_state \<Rightarrow> nat \<Rightarrow> string list \<Rightarrow> string list go" where
  "debug_lines L h tr width [] = Some []"
| "debug_lines L h tr width (n # ns) = do {
     val \<leftarrow> (case map_of (ts_attrs tr) n of
         None \<Rightarrow> Some ''null''
       | Some a \<Rightarrow> do {
           v \<leftarrow> string_value L h a;
           Some (if val_null L v then ''null''
             else if n = redacted_attribute (ts_type tr) then ''[redacted]'' else string_show a)
         });
     rest \<leftarrow> debug_lines L h tr width ns;
     Some ((pad_left width n @ '' : '' @ val) # rest)
   }"

definition transport_debug :: "('t, 'v) tf_lib \<Rightarrow> 't heap \<Rightarrow> 'v transport_state \<Rightarrow> string go" where
  "transport_debug L h tr = do {
     ls \<leftarrow> debug_lines L h tr (fold (\<lambda>(n, a). max (length n)) (ts_attrs tr) 0) (attribute_names (ts_type tr));
     Some (type_label (ts_type tr) @ '' Transport Config:'' @ nl # join_with [nl] ls)
   }"

subsection \<open>The block\<close>

record 'v embedded =
  em_transports :: "(transport_type \<times> 'v transport_state) list"
  em_resolved :: "'v transport_state option"

definition new_embedded :: "'v embedded" where
  "new_embedded = \<lparr>em_transports = [], em_resolved = None\<rparr>"

definition type_list :: "transport_type list \<Rightarrow> string" where
  "type_list ts = ''['' @ join_with '' '' (map type_name ts) @ '']''"

definition err_many_transports :: "transport_type list \<Rightarrow> goerr" where
  "err_many_transports ts = ErrNew (''invalid transport configuration, only one transport can be configured, ''
     @ type_list ts @ '' were configured'')"

text \<open>The transport of the block, when there is one and no other.\<close>

definition get_configured_transport :: "'v embedded \<Rightarrow> 'v transport_state option \<times> error" where
  "get_configured_transport em =
     (case em_transports em of
        [] \<Rightarrow> (None, Some (ErrNew (''invalid transport configuration, no transport configured, one of ''
          @ type_list transport_types @ '' must be configured'')))
      | [(t, tr)] \<Rightarrow> (Some tr, None)
      | trs \<Rightarrow> (None, Some (err_many_transports (map fst trs))))"

definition embedded_transport_of :: "transport_type \<Rightarrow> 'v embedded \<Rightarrow> 'v transport_state option" where
  "embedded_transport_of t em =
     (case map_of (em_transports em) t of
        Some tr \<Rightarrow> if ts_type tr = t then Some tr else None
      | None \<Rightarrow> None)"

fun set_transport_state :: "'v transport_state list \<Rightarrow> 'v embedded \<Rightarrow> 'v embedded \<times> error" where
  "set_transport_state [] em = (em, None)"
| "set_transport_state (tr # trs) em =
     (if ts_type tr = UNKNOWN
      then (em, Some (ErrNew ''failed to set transport state for unknown transport type: ''))
      else set_transport_state trs (em\<lparr>em_transports := map_set (ts_type tr) tr (em_transports em)\<rparr>))"

fun transports_from_values ::
  "('t, 'v) tf_lib \<Rightarrow> 'p path_lib \<Rightarrow> 'v embedded \<Rightarrow> (string \<times> 'v) list \<Rightarrow> 't heap
    \<Rightarrow> (('v embedded \<times> error) \<times> 't heap) go" where
  "transports_from_values L P em [] h = Some ((em, None), h)"
| "transports_from_values L P em ((k, v) # kvs) h =
     (let t = transport_type_from k in
      case create_transport t of
        Inl e \<Rightarrow> Some ((em, Some (ErrNew (''failed to unmarshall unknown transport config: '' @ k))), h)
      | Inr tr \<Rightarrow> do {
          ((tr1, e), h1) \<leftarrow> (if val_known L v then transport_from_value L P tr v h else Some ((tr, None), h));
          (case e of
             Some e' \<Rightarrow> Some ((em, Some e'), h1)
           | None \<Rightarrow> transports_from_values L P
               (em\<lparr>em_transports := map_set t tr1 (em_transports em)\<rparr>) kvs h1)
        })"

definition embedded_from_value ::
  "('t, 'v) tf_lib \<Rightarrow> 'p path_lib \<Rightarrow> 'v embedded \<Rightarrow> 'v \<Rightarrow> 't heap
    \<Rightarrow> (('v embedded \<times> error) \<times> 't heap) go" where
  "embedded_from_value L P em val h =
     (case val_as_map L val [] of
        (_, Some e) \<Rightarrow> Some ((em, Some e), h)
      | (vals, None) \<Rightarrow> transports_from_values L P em vals h)"

fun transport_tf_values ::
  "('t, 'v) tf_lib \<Rightarrow> (transport_type \<times> 'v transport_state) list \<Rightarrow> 't heap
    \<Rightarrow> ((string \<times> 'v) list \<times> 't heap) go" where
  "transport_tf_values L [] h = Some ([], h)"
| "transport_tf_values L ((t, tr) # trs) h = do {
     (v, h1) \<leftarrow> transport_tf_value L tr h;
     (kvs, h2) \<leftarrow> transport_tf_values L trs h1;
     Some ((type_name t, v) # kvs, h2)
   }"

definition embedded_value :: "('t, 'v) tf_lib \<Rightarrow> 'v embedded \<Rightarrow> 't heap \<Rightarrow> ('v \<times> 't heap) go" where
  "embedded_value L em h =
     (if em_transports em = [] then Some (null_dst_val L, h)
      else do {
        (kvs, h1) \<leftarrow> transport_tf_values L (em_transports em) h;
        terraform5_value L kvs h1
      })"

text \<open>The code also hands the copy the maker of clients, which is no part of a block here.\<close>

definition embedded_copy ::
  "('t, 'v) tf_lib \<Rightarrow> 'p path_lib \<Rightarrow> 'v embedded \<Rightarrow> 't heap
    \<Rightarrow> (('v embedded option \<times> error) \<times> 't heap) go" where
  "embedded_copy L P em h = do {
     (v, h1) \<leftarrow> embedded_value L em h;
     ((copy, e), h2) \<leftarrow> embedded_from_value L P new_embedded v h1;
     Some (case e of None \<Rightarrow> ((Some copy, None), h2) | Some e' \<Rightarrow> ((None, Some e'), h2))
   }"

definition embedded_copy_values :: "'v embedded \<Rightarrow> (transport_type \<times> (string \<times> 'v) list) list" where
  "embedded_copy_values em = map (\<lambda>(t, tr). (t, ts_values tr)) (em_transports em)"

definition embedded_attributes :: "'v embedded \<Rightarrow> (transport_type \<times> (string \<times> tf_string) list) list" where
  "embedded_attributes em = map (\<lambda>(t, tr). (t, ts_attrs tr)) (em_transports em)"

definition embedded_validate ::
  "'p path_lib \<Rightarrow> 'w go_ctx \<Rightarrow> 'v embedded \<Rightarrow> 'w \<Rightarrow> error" where
  "embedded_validate P ctx em w =
     (case ctx_err ctx w of
        Some e \<Rightarrow> Some e
      | None \<Rightarrow>
          (case get_configured_transport em of
             (Some tr, None) \<Rightarrow> transport_validate P tr
           | (_, e) \<Rightarrow> e))"

definition embedded_client ::
  "'p path_lib \<Rightarrow> 'w go_ctx \<Rightarrow> ('w, 'c) dialer \<Rightarrow> 'v embedded \<Rightarrow> 'w \<Rightarrow> ('c option \<times> error) \<times> 'w" where
  "embedded_client P ctx dial em w =
     (case ctx_err ctx w of
        Some e \<Rightarrow> ((None, Some e), w)
      | None \<Rightarrow>
          (case get_configured_transport em of
             (Some tr, None) \<Rightarrow> transport_client P dial tr w
           | (_, e) \<Rightarrow> ((None, e), w)))"

text \<open>
  \<open>ApplyDefaults\<close>: one transport takes the defaults of its kind, a block without transports takes
  all of the provider's. The transport it returns is the one in the block.
\<close>

definition embedded_apply_defaults ::
  "('t, 'v) tf_lib \<Rightarrow> 't heap \<Rightarrow> 'v embedded \<Rightarrow> 'v embedded
    \<Rightarrow> ('v embedded \<times> 'v transport_state option \<times> error) go" where
  "embedded_apply_defaults L h em defaults =
     (case em_transports em of
        [(t, tr)] \<Rightarrow>
          (case map_of (em_transports defaults) (ts_type tr) of
             None \<Rightarrow> Some (em, Some tr, None)
           | Some d \<Rightarrow> do {
               (tr1, e) \<leftarrow> transport_apply_defaults L h tr (ts_attrs d);
               Some (em\<lparr>em_transports := [(t, tr1)]\<rparr>, Some tr1, e)
             })
      | [] \<Rightarrow>
          (case get_configured_transport defaults of
             (Some d, None) \<Rightarrow>
               (case create_transport (ts_type d) of
                  Inl e \<Rightarrow> Some (em, None, Some e)
                | Inr tr \<Rightarrow> do {
                    (tr1, e) \<leftarrow> transport_apply_defaults L h tr (ts_attrs d);
                    Some (case e of
                        Some e' \<Rightarrow> (em, None, Some e')
                      | None \<Rightarrow>
                          (case set_transport_state [tr1] em of
                             (em1, Some e') \<Rightarrow> (em1, None, Some e')
                           | (em1, None) \<Rightarrow> (em1, Some tr1, None)))
                  })
           | (_, e) \<Rightarrow> Some (em, None, e))
      | trs \<Rightarrow> Some (em, None, Some (err_many_transports (map fst trs))))"

definition set_resolved_transport :: "'v transport_state option \<Rightarrow> 'v embedded \<Rightarrow> 'v embedded" where
  "set_resolved_transport tr em = em\<lparr>em_resolved := tr\<rparr>"

fun debug_all :: "('t, 'v) tf_lib \<Rightarrow> 't heap \<Rightarrow> (transport_type \<times> 'v transport_state) list \<Rightarrow> string list go" where
  "debug_all L h [] = Some []"
| "debug_all L h ((t, tr) # trs) = do {
     s \<leftarrow> transport_debug L h tr;
     ss \<leftarrow> debug_all L h trs;
     Some ((s @ [nl]) # ss)
   }"

definition embedded_debug :: "('t, 'v) tf_lib \<Rightarrow> 't heap \<Rightarrow> 'v embedded \<Rightarrow> string go" where
  "embedded_debug L h em =
     (case em_resolved em of
        Some tr \<Rightarrow> do { s \<leftarrow> transport_debug L h tr; Some (s @ [nl]) }
      | None \<Rightarrow> do { ss \<leftarrow> debug_all L h (em_transports em); Some (join_with [nl, nl] ss) })"

text \<open>
  The attributes that make a resource be replaced. A map without the attribute gives a nil
  interface, on which \<open>TFValue\<close> panics.
\<close>

fun replace_paths ::
  "('t, 'v) tf_lib \<Rightarrow> 'p path_lib \<Rightarrow> 't heap \<Rightarrow> 'v transport_state \<Rightarrow> 'v transport_state \<Rightarrow> string
    \<Rightarrow> string list \<Rightarrow> 'p list \<Rightarrow> 'p list go" where
  "replace_paths L P h prior proposed name [] attrs = Some attrs"
| "replace_paths L P h prior proposed name (n # ns) attrs = do {
     a \<leftarrow> deref (map_of (ts_attrs proposed) n);
     proposed_value \<leftarrow> string_value L h a;
     b \<leftarrow> deref (map_of (ts_attrs prior) n);
     current_value \<leftarrow> string_value L h b;
     replace_paths L P h prior proposed name ns
       (if \<not> val_equal L h proposed_value current_value
        then attrs @ [pt_steps P [''transport'', name, n]] else attrs)
   }"

definition add_attributes_for_replace ::
  "('t, 'v) tf_lib \<Rightarrow> 'p path_lib \<Rightarrow> 't heap \<Rightarrow> 'v transport_state \<Rightarrow> 'v transport_state \<Rightarrow> string
    \<Rightarrow> 'p list \<Rightarrow> 'p list go" where
  "add_attributes_for_replace L P h prior proposed name attrs =
     replace_paths L P h prior proposed name (attributes_for_replace prior) attrs"

text \<open>The result of \<open>addAttributesForReplace\<close> is not used. A transport that is not proposed is nil.\<close>

fun replaced_paths ::
  "('t, 'v) tf_lib \<Rightarrow> 'p path_lib \<Rightarrow> 't heap \<Rightarrow> (transport_type \<times> 'v transport_state) list
    \<Rightarrow> 'v embedded \<Rightarrow> 'p list \<Rightarrow> 'p list go" where
  "replaced_paths L P h [] proposed attrs = Some attrs"
| "replaced_paths L P h ((t, tr) # trs) proposed attrs = do {
     prior_configured \<leftarrow> is_transport_configured L h tr;
     both \<leftarrow> (if prior_configured then do {
         p \<leftarrow> deref (map_of (em_transports proposed) t);
         is_transport_configured L h p
       } else Some False);
     _ \<leftarrow> (if both then do {
         p \<leftarrow> deref (map_of (em_transports proposed) t);
         add_attributes_for_replace L P h tr p (type_name t) attrs
       } else Some []);
     replaced_paths L P h trs proposed attrs
   }"

definition transport_replaced_attribute_paths ::
  "('t, 'v) tf_lib \<Rightarrow> 'p path_lib \<Rightarrow> 't heap \<Rightarrow> 'v embedded \<Rightarrow> 'v embedded \<Rightarrow> 'p list go" where
  "transport_replaced_attribute_paths L P h em proposed = replaced_paths L P h (em_transports em) proposed []"

definition check_k8s_not_configured :: "'v embedded \<Rightarrow> string \<Rightarrow> error" where
  "check_k8s_not_configured em name =
     (case map_of (em_transports em) K8S of
        Some tr \<Rightarrow> Some (ErrNew (''invalid configuration, the '' @ CHR 0x27 # name @ CHR 0x27
          # '' resource does not support the '' @ CHR 0x27 # ''kubernetes'' @ CHR 0x27 # '' transport''))
      | None \<Rightarrow> None)"

subsection \<open>Lemmas: values of strings\<close>

lemma string_value_made:
  assumes "tf_laws L"
  shows "string_value L h s = Some (val_make L (ty_string L)
    (if is_unknown s then UnknownValue else if is_null s then NilValue else StringValue (raw_val s)))"
  by (simp add: string_value_def tf_value_def new_value_def make_laws_simps [OF assms])

lemma string_from_made:
  assumes "tf_laws L"
  shows "string_from_value L h b (val_make L (ty_string L) (StringValue x)) = (tf_set x b, None)"
  by (simp add: string_from_value_def from_made_value [OF assms] as_laws_simps [OF assms])

lemma string_from_anywhere:
  "tf_laws L \<Longrightarrow> string_from_value L h b v = string_from_value L h' b v"
  using equal_anywhere [of L "ty_string L" h v h'] equal_anywhere [of L "ty_dynamic L" h v h']
  by (simp add: string_from_value_def from_tf_value_def unknown_dst_val_def null_dst_val_def)

subsection \<open>Lemmas: defaults\<close>

text \<open>What an attribute is after the default: its own value, or the default's when it has none.\<close>

definition merge_default :: "tf_string \<Rightarrow> tf_string option \<Rightarrow> tf_string" where
  "merge_default a d =
     (if snd (tf_get a) then a
      else (case d of Some d' \<Rightarrow> if snd (tf_get d') then Tfv False False (raw_val d') else a | None \<Rightarrow> a))"

lemma map_set_same_keys: "k \<in> fst ` set m \<Longrightarrow> map fst (map_set k v m) = map fst m"
  by (induction k v m rule: map_set.induct) auto

lemma apply_defaults_merges:
  assumes "tf_laws L" "distinct (map fst ds)" "fst ` set ds \<subseteq> fst ` set attrs"
  shows "\<exists>attrs'. apply_defaults L h ds attrs = Some (attrs', None) \<and> map fst attrs' = map fst attrs
    \<and> (\<forall>n a. map_of attrs n = Some a \<longrightarrow> map_of attrs' n = Some (merge_default a (map_of ds n)))"
  using assms(2,3)
proof (induction ds arbitrary: attrs)
  case Nil
  then show ?case by (simp add: merge_default_def)
next
  case (Cons nd ds)
  obtain n d where nd: "nd = (n, d)" by force
  with Cons.prems obtain a where a: "map_of attrs n = Some a"
    by (metis fst_conv image_subset_iff list.set_intros(1) map_of_eq_None_iff not_None_eq)
  define attrs1 where "attrs1 = (if \<not> snd (tf_get a) \<and> snd (tf_get d)
    then map_set n (Tfv False False (raw_val d)) attrs else attrs)"
  have step: "apply_defaults L h ((n, d) # ds) attrs = apply_defaults L h ds attrs1"
    using assms(1)
    by (auto simp: a string_value_made [OF assms(1)] value_laws_simps [OF assms(1)] attrs1_def tf_get_def
        string_from_made [OF assms(1)] tf_set_def)
  have "n \<in> fst ` set attrs" using Cons.prems nd by auto
  then have keys: "map fst attrs1 = map fst attrs"
    by (simp add: attrs1_def map_set_same_keys)
  then have "fst ` set attrs1 = fst ` set attrs" by (metis set_map)
  with Cons.IH [of attrs1] Cons.prems nd obtain attrs' where
    run: "apply_defaults L h ds attrs1 = Some (attrs', None)" "map fst attrs' = map fst attrs1"
    and vals: "\<And>n a. map_of attrs1 n = Some a \<Longrightarrow> map_of attrs' n = Some (merge_default a (map_of ds n))"
    by auto
  have "map_of ds n = None" using Cons.prems nd by (auto simp: map_of_eq_None_iff)
  have "map_of attrs' m = Some (merge_default b (map_of ((n, d) # ds) m))" if "map_of attrs m = Some b" for m b
  proof (cases "m = n")
    case True
    with that a have "b = a" by simp
    have "map_of attrs1 n = Some (merge_default a (Some d))"
      by (simp add: attrs1_def merge_default_def a map_of_map_set)
    from vals [OF this] \<open>map_of ds n = None\<close> show ?thesis
      using True \<open>b = a\<close> by (simp add: merge_default_def)
  next
    case False
    then have "map_of attrs1 m = Some b" using that by (simp add: attrs1_def map_of_map_set)
    from vals [OF this] False show ?thesis by simp
  qed
  with step run keys nd show ?case by auto
qed

text \<open>A transport as \<open>createTransport\<close> makes it and its methods keep it.\<close>

definition well_formed :: "'v transport_state \<Rightarrow> bool" where
  "well_formed tr \<longleftrightarrow> ts_type tr \<noteq> UNKNOWN \<and> map fst (ts_attrs tr) = attribute_names (ts_type tr)"

lemma distinct_attribute_names: "distinct (attribute_names t)"
  by (cases t) (simp_all add: ssh_attributes_def k8s_attributes_def nomad_attributes_def)

lemma new_transport_well_formed: "t \<noteq> UNKNOWN \<Longrightarrow> well_formed (new_transport t)"
  by (simp add: well_formed_def new_transport_def comp_def)

lemma well_formed_attr:
  "well_formed tr \<Longrightarrow> n \<in> set (attribute_names (ts_type tr)) \<Longrightarrow> map_of (ts_attrs tr) n = Some (attr tr n)"
  using map_of_eq_None_iff [of "ts_attrs tr" n] unfolding well_formed_def attr_def
  by (cases "map_of (ts_attrs tr) n") (simp_all flip: set_map)

lemma transport_apply_defaults_merges:
  assumes "tf_laws L" "well_formed tr" "well_formed d" "ts_type d = ts_type tr"
  shows "\<exists>tr'. transport_apply_defaults L h tr (ts_attrs d) = Some (tr', None) \<and> well_formed tr'
    \<and> ts_type tr' = ts_type tr \<and> ts_values tr' = ts_values tr
    \<and> (\<forall>n \<in> set (attribute_names (ts_type tr)). attr tr' n = merge_default (attr tr n) (Some (attr d n)))"
proof -
  have names: "map fst (ts_attrs d) = map fst (ts_attrs tr)"
    using assms(2-4) by (simp add: well_formed_def)
  have "distinct (map fst (ts_attrs d))"
    using assms(3) by (simp add: well_formed_def distinct_attribute_names)
  moreover have "fst ` set (ts_attrs d) \<subseteq> fst ` set (ts_attrs tr)"
    using arg_cong [OF names, of set] by simp
  ultimately have ok: "distinct (map fst (ts_attrs d))" "fst ` set (ts_attrs d) \<subseteq> fst ` set (ts_attrs tr)" by blast+
  from apply_defaults_merges [OF assms(1) ok, of h] obtain attrs' where
    run: "apply_defaults L h (ts_attrs d) (ts_attrs tr) = Some (attrs', None)" "map fst attrs' = map fst (ts_attrs tr)"
    and vals: "\<forall>n a. map_of (ts_attrs tr) n = Some a \<longrightarrow>
      map_of attrs' n = Some (merge_default a (map_of (ts_attrs d) n))"
    by (elim exE conjE) (rule that)
  let ?tr = "tr\<lparr>ts_attrs := attrs'\<rparr>"
  have "attr ?tr n = merge_default (attr tr n) (Some (attr d n))" if n: "n \<in> set (attribute_names (ts_type tr))" for n
  proof -
    have "attr ?tr n = the (map_of attrs' n)" by (simp add: attr_def)
    also have "map_of attrs' n = Some (merge_default (attr tr n) (map_of (ts_attrs d) n))"
      by (rule vals [rule_format, OF well_formed_attr [OF assms(2) n]])
    also have "map_of (ts_attrs d) n = Some (attr d n)"
      using well_formed_attr [OF assms(3), of n] assms(4) n by simp
    finally show ?thesis by simp
  qed
  with run assms(2) show ?thesis
    by (intro exI [of _ ?tr]) (simp add: transport_apply_defaults_def well_formed_def)
qed

subsection \<open>Lemmas: what is read again\<close>

text \<open>What \<open>mapAttributesTo\<close> does to the attributes of a transport.\<close>

fun read_strings ::
  "('t, 'v) tf_lib \<Rightarrow> (string \<times> 'v) list \<Rightarrow> (string \<times> tf_string) list \<Rightarrow> (string \<times> tf_string) list \<times> error" where
  "read_strings L vals [] = ([], None)"
| "read_strings L vals ((n, s) # attrs) =
     (case (case map_of vals n of
              None \<Rightarrow> (s, None)
            | Some v \<Rightarrow> string_from_value L \<lparr>hp_next = 1, hp_maps = \<lambda>_. []\<rparr> s v) of
        (s', Some e) \<Rightarrow> ((n, s') # attrs, Some e)
      | (s', None) \<Rightarrow> apfst ((#) (n, s')) (read_strings L vals attrs))"

lemma map_attributes_strings:
  assumes "tf_laws L"
  shows "map_attributes L f vals (string_props attrs) h
    = Some ((string_props (fst (read_strings L vals attrs)), snd (read_strings L vals attrs)), h)"
proof (induction attrs)
  case Nil
  show ?case by (simp add: string_props_def)
next
  case (Cons ns attrs)
  obtain n s where ns: "ns = (n, s)" by force
  let ?h = "\<lparr>hp_next = 1, hp_maps = \<lambda>_. []\<rparr>"
  show ?case
  proof (cases "map_of vals n")
    case None
    with Cons ns show ?thesis by (simp add: string_props_def apfst_def split: prod.splits)
  next
    case (Some v)
    obtain s' e where r: "string_from_value L ?h s v = (s', e)" by (metis surj_pair)
    then have "string_from_value L h s v = (s', e)"
      using string_from_anywhere [OF assms, of h s v ?h] by simp
    with Some r Cons ns show ?thesis
      by (cases e) (simp_all add: string_props_def split: prod.splits)
  qed
qed

lemma prop_strings_string_props [simp]: "prop_strings (string_props attrs) = attrs"
  by (induction attrs) (auto simp: prop_strings_def string_props_def)

text \<open>Reading depends on the entries of the value only.\<close>

lemma transport_from_value_entries:
  assumes "tf_laws L" "transport_from_value L P tr v h = Some ((tr1, None), h1)"
  shows "h1 = h \<and> ts_type tr1 = ts_type tr \<and> ts_values tr1 \<noteq> []
    \<and> map fst (ts_attrs tr1) = map fst (ts_attrs tr)
    \<and> (\<forall>v' h'. val_as_map L v' [] = (ts_values tr1, None)
        \<longrightarrow> transport_from_value L P tr v' h' = Some ((tr1, None), h'))"
proof -
  obtain vals e where v: "val_as_map L v [] = (vals, e)" by (metis surj_pair)
  have keys: "map fst (fst (read_strings L vals attrs)) = map fst attrs" for attrs
    by (induction L vals attrs rule: read_strings.induct) (auto split: prod.splits option.splits)
  show ?thesis
  proof (cases e)
    case (Some e')
    with v assms(2) show ?thesis
      by (simp add: transport_from_value_def map_attributes_to_def Let_def)
  next
    case None
    with v assms(2) keys show ?thesis
      by (auto simp: transport_from_value_def map_attributes_to_def Let_def map_attributes_strings [OF assms(1)]
          verify_configuration_def split: option.splits)
  qed
qed

lemma transport_type_from_name: "t \<noteq> UNKNOWN \<Longrightarrow> transport_type_from (type_name t) = t"
  by (cases t) (simp_all add: transport_type_from_def)

lemma create_transport_known: "t \<noteq> UNKNOWN \<Longrightarrow> create_transport t = Inr (new_transport t)"
  by (cases t) (simp_all add: create_transport_def is_known_transport_type_def)

lemma create_transport_InrD: "create_transport t = Inr tr \<Longrightarrow> t \<noteq> UNKNOWN \<and> tr = new_transport t"
  by (cases t) (auto simp: create_transport_def is_known_transport_type_def split: if_splits)

lemma terraform5_value_made:
  assumes "tf_laws L"
  shows "\<exists>a h'. terraform5_value L vals h = Some (val_make L (ty_object L a []) (MapValue vals), h')"
proof -
  obtain a h1 where a: "new_map h = (a, h1)" by force
  have "val_fits L (h1\<lparr>hp_maps := (hp_maps h1)(a := attr_types_of L vals)\<rparr>) (ty_object L a []) (MapValue vals)"
    by (rule make_laws_simps(7) [OF assms]) simp
  then show ?thesis
    by (intro exI [of _ a] exI [of _ "h1\<lparr>hp_maps := (hp_maps h1)(a := attr_types_of L vals)\<rparr>"])
      (simp add: terraform5_value_def terraform5_type_def a new_value_def)
qed

text \<open>
  A transport that was read, or that is unknown and new: its value is read as the same again.
\<close>

definition faithful :: "('t, 'v) tf_lib \<Rightarrow> 'p path_lib \<Rightarrow> transport_type \<Rightarrow> 'v transport_state \<Rightarrow> bool" where
  "faithful L P t tr \<longleftrightarrow> t \<noteq> UNKNOWN
     \<and> (tr = new_transport t
        \<or> ts_values tr \<noteq> []
          \<and> (\<forall>v h. val_as_map L v [] = (ts_values tr, None)
              \<longrightarrow> transport_from_value L P (new_transport t) v h = Some ((tr, None), h)))"

lemma faithful_value:
  assumes "tf_laws L" "faithful L P t tr"
  shows "\<exists>v h1. transport_tf_value L tr h = Some (v, h1)
    \<and> (\<forall>h2. (if val_known L v then transport_from_value L P (new_transport t) v h2
        else Some ((new_transport t, None), h2)) = Some ((tr, None), h2))"
proof (cases "ts_values tr = []")
  case True
  with assms(2) have "tr = new_transport t" by (auto simp: faithful_def)
  with True show ?thesis
    by (simp add: transport_tf_value_def new_map_def unknown_value_def value_laws_simps [OF assms(1)])
next
  case False
  have "ts_values (new_transport t) = []" by (simp add: new_transport_def)
  with False assms(2) have again: "\<And>v h. val_as_map L v [] = (ts_values tr, None)
      \<Longrightarrow> transport_from_value L P (new_transport t) v h = Some ((tr, None), h)"
    by (auto simp: faithful_def)
  from terraform5_value_made [OF assms(1), of "ts_values tr" h] obtain h' a where
    "terraform5_value L (ts_values tr) h = Some (val_make L (ty_object L a []) (MapValue (ts_values tr)), h')"
    by blast
  with False again [OF as_laws_simps(6) [OF assms(1)]] show ?thesis
    by (simp add: transport_tf_value_def value_laws_simps [OF assms(1)])
qed

text \<open>Blocks whose transports are all so, one of each kind.\<close>

definition faithful_block :: "('t, 'v) tf_lib \<Rightarrow> 'p path_lib \<Rightarrow> (transport_type \<times> 'v transport_state) list \<Rightarrow> bool" where
  "faithful_block L P trs \<longleftrightarrow> distinct (map fst trs) \<and> (\<forall>(t, tr) \<in> set trs. faithful L P t tr)"

lemma faithful_block_values:
  assumes "tf_laws L" "faithful_block L P trs" "fst ` set trs \<inter> fst ` set (em_transports em) = {}"
  shows "\<exists>kvs h1. transport_tf_values L trs h = Some (kvs, h1) \<and> map fst kvs = map (type_name o fst) trs
    \<and> (\<forall>h2. transports_from_values L P em kvs h2
        = Some ((em\<lparr>em_transports := em_transports em @ trs\<rparr>, None), h2))"
  using assms(2,3)
proof (induction trs arbitrary: em h)
  case Nil
  then show ?case by simp
next
  case (Cons ttr trs)
  obtain t tr where t: "ttr = (t, tr)" by force
  with Cons.prems have f: "faithful L P t tr" "t \<noteq> UNKNOWN" "faithful_block L P trs"
    by (auto simp: faithful_block_def faithful_def)
  from faithful_value [OF assms(1) f(1), of h] obtain v h1 where v: "transport_tf_value L tr h = Some (v, h1)"
    and again: "\<And>h2. (if val_known L v then transport_from_value L P (new_transport t) v h2
      else Some ((new_transport t, None), h2)) = Some ((tr, None), h2)"
    by blast
  let ?em = "em\<lparr>em_transports := em_transports em @ [(t, tr)]\<rparr>"
  have "t \<notin> fst ` set (em_transports em)" "fst ` set trs \<inter> fst ` set (em_transports ?em) = {}"
    using Cons.prems t by (auto simp: faithful_block_def image_iff)
  with Cons.IH [OF f(3), of ?em h1] obtain kvs h2 where
    "transport_tf_values L trs h1 = Some (kvs, h2)" "map fst kvs = map (type_name o fst) trs"
    "\<And>h3. transports_from_values L P ?em kvs h3 = Some ((em\<lparr>em_transports := em_transports em @ (t, tr) # trs\<rparr>, None), h3)"
    and new: "map_set t tr (em_transports em) = em_transports em @ [(t, tr)]"
    by (auto simp: map_set_new)
  with v again f(2) t show ?case
    by (simp add: transport_type_from_name create_transport_known Let_def)
qed

lemma distinct_type_names: "distinct ts \<Longrightarrow> distinct (map type_name ts)"
proof -
  have "t = t'" if "type_name t = type_name t'" for t t'
    using that by (cases t; cases t') simp_all
  then show "distinct ts \<Longrightarrow> distinct (map type_name ts)" by (auto simp: distinct_map inj_on_def)
qed

lemma set_map_set: "set (map_set k v m) \<subseteq> insert (k, v) (set m)"
  by (induction k v m rule: map_set.induct) auto

lemma faithful_block_map_set:
  "faithful_block L P trs \<Longrightarrow> faithful L P t tr \<Longrightarrow> faithful_block L P (map_set t tr trs)"
  using set_map_set [of t tr trs] by (auto simp: faithful_block_def distinct_map_set)

lemma read_transport_faithful:
  assumes "tf_laws L" "t \<noteq> UNKNOWN"
    "(if val_known L v then transport_from_value L P (new_transport t) v h
      else Some ((new_transport t, None), h)) = Some ((tr, None), h1)"
  shows "faithful L P t tr"
proof (cases "val_known L v")
  case True
  with assms(3) have "transport_from_value L P (new_transport t) v h = Some ((tr, None), h1)" by simp
  from transport_from_value_entries [OF assms(1) this] assms(2) show ?thesis by (simp add: faithful_def)
next
  case False
  with assms show ?thesis by (simp add: faithful_def)
qed

lemma transports_from_values_faithful:
  fixes em :: "'v embedded"
  assumes "tf_laws L" "faithful_block L P (em_transports em)"
    "transports_from_values L P em kvs h = Some ((em', None), h')"
  shows "faithful_block L P (em_transports em') \<and> em_resolved em' = em_resolved em"
  using assms(2,3)
proof (induction kvs arbitrary: em h)
  case Nil
  then show ?case by simp
next
  case (Cons kv kvs)
  obtain k v where kv: "kv = (k, v)" by force
  let ?t = "transport_type_from k"
  have "\<exists>tr :: 'v transport_state. create_transport ?t = Inr tr"
  proof (cases "create_transport ?t :: (goerr, 'v transport_state) sum")
    case (Inl e)
    with Cons.prems(2) kv show ?thesis by (simp add: Let_def)
  qed simp
  then obtain tr :: "'v transport_state" where c: "create_transport ?t = Inr tr" by blast
  with create_transport_InrD have t: "?t \<noteq> UNKNOWN" "tr = new_transport ?t" by blast+
  from Cons.prems(2) c t(2) kv obtain tr1 h1 where
    r: "(if val_known L v then transport_from_value L P (new_transport ?t) v h
        else Some ((new_transport ?t, None), h)) = Some ((tr1, None), h1)"
    and rest: "transports_from_values L P (em\<lparr>em_transports := map_set ?t tr1 (em_transports em)\<rparr>) kvs h1
      = Some ((em', None), h')"
    by (auto simp: Let_def bind_eq_Some_iff split: option.splits if_splits)
  from Cons.IH [OF _ rest] faithful_block_map_set [OF Cons.prems(1) read_transport_faithful [OF assms(1) t(1) r]]
  show ?case by simp
qed

lemma is_configured_iff:
  assumes "tf_laws L"
  shows "is_transport_configured L h tr = Some (list_ex (\<lambda>(n, a). is_unknown a \<or> \<not> is_null a) (ts_attrs tr))"
proof -
  have "any_not_null L h attrs = Some (list_ex (\<lambda>(n, a). is_unknown a \<or> \<not> is_null a) attrs)" for attrs
    by (induction attrs) (auto simp: string_value_made [OF assms] value_laws_simps [OF assms])
  then show ?thesis by (simp add: is_transport_configured_def)
qed

lemma replace_paths_returns:
  assumes "tf_laws L" "\<forall>n \<in> set ns. map_of (ts_attrs prior) n \<noteq> None \<and> map_of (ts_attrs proposed) n \<noteq> None"
  shows "\<exists>ps. replace_paths L P h prior proposed name ns attrs = Some ps"
  using assms(2)
  by (induction ns arbitrary: attrs) (auto simp: deref_def string_value_made [OF assms(1)])

lemma attributes_for_replace_names:
  "set (attributes_for_replace tr) \<subseteq> set (attribute_names (ts_type tr))"
  by (cases "ts_type tr")
    (auto simp: attributes_for_replace_def ssh_attributes_def k8s_attributes_def nomad_attributes_def)

definition block_well_formed :: "(transport_type \<times> 'v transport_state) list \<Rightarrow> bool" where
  "block_well_formed trs \<longleftrightarrow> (\<forall>(t, tr) \<in> set trs. well_formed tr \<and> ts_type tr = t)"

lemma add_attributes_returns:
  assumes "tf_laws L" "well_formed tr" "well_formed p" "ts_type p = ts_type tr"
  shows "\<exists>ps. add_attributes_for_replace L P h tr p name attrs = Some ps"
  unfolding add_attributes_for_replace_def
  using attributes_for_replace_names [of tr] well_formed_attr [OF assms(2)] well_formed_attr [OF assms(3)] assms(4)
  by (intro replace_paths_returns [OF assms(1)]) fastforce

lemma read_block_faithful:
  assumes "tf_laws L" "embedded_from_value L P new_embedded val h = Some ((em, None), h1)"
  shows "faithful_block L P (em_transports em) \<and> em_resolved em = None"
proof -
  obtain vals where "transports_from_values L P new_embedded vals h = Some ((em, None), h1)"
    using assms(2) by (auto simp: embedded_from_value_def split: prod.splits option.splits)
  then have "faithful_block L P (em_transports em) \<and> em_resolved em = em_resolved (new_embedded :: 'b embedded)"
    by (intro transports_from_values_faithful [OF assms(1)]) (simp_all add: faithful_block_def new_embedded_def)
  then show ?thesis by (simp add: new_embedded_def)
qed

lemma new_block: "new_embedded\<lparr>em_transports := em_transports em\<rparr> = em\<lparr>em_resolved := None\<rparr>"
  by (simp add: new_embedded_def)

lemma faithful_copy:
  assumes "tf_laws L" "faithful_block L P (em_transports em)"
  shows "\<exists>h3. embedded_copy L P em h2 = Some ((Some (em\<lparr>em_resolved := None\<rparr>), None), h3)"
proof (cases "em_transports em = []")
  case True
  with new_block [of em] show ?thesis
    by (simp add: embedded_copy_def embedded_value_def embedded_from_value_def null_dst_val_def null_value_def
        as_laws_simps [OF assms(1)] new_embedded_def)
next
  case False
  from faithful_block_values [OF assms(1) assms(2), of new_embedded h2] obtain kvs h3 where
    kvs: "transport_tf_values L (em_transports em) h2 = Some (kvs, h3)"
    and again: "\<And>h. transports_from_values L P new_embedded kvs h
      = Some ((new_embedded\<lparr>em_transports := em_transports em\<rparr>, None), h)"
    by (auto simp: new_embedded_def)
  from terraform5_value_made [OF assms(1), of kvs h3] obtain a h4 where
    "terraform5_value L kvs h3 = Some (val_make L (ty_object L a []) (MapValue kvs), h4)" by blast
  with False kvs again new_block [of em] show ?thesis
    by (simp add: embedded_copy_def embedded_value_def embedded_from_value_def as_laws_simps [OF assms(1)])
qed

lemma replaced_paths_outcome:
  assumes "tf_laws L" "block_well_formed (em_transports em)" "block_well_formed (em_transports proposed)"
  shows "transport_replaced_attribute_paths L P h em proposed
    = (if list_ex (\<lambda>(t, tr). is_transport_configured L h tr = Some True
          \<and> map_of (em_transports proposed) t = None) (em_transports em)
       then None else Some [])"
proof -
  have "replaced_paths L P h trs proposed attrs
      = (if list_ex (\<lambda>(t, tr). is_transport_configured L h tr = Some True
            \<and> map_of (em_transports proposed) t = None) trs
         then None else Some attrs)" if "block_well_formed trs" for trs attrs
    using that
  proof (induction trs)
    case Nil
    then show ?case by simp
  next
    case (Cons ttr trs)
    obtain t tr where ttr: "ttr = (t, tr)" by force
    with Cons.prems have wf: "well_formed tr" "ts_type tr = t" "block_well_formed trs"
      by (auto simp: block_well_formed_def)
    show ?case
    proof (cases "map_of (em_transports proposed) t")
      case None
      with Cons.IH [OF wf(3)] ttr show ?thesis
        by (auto simp: is_configured_iff [OF assms(1)] deref_def)
    next
      case (Some p)
      then have "well_formed p" "ts_type p = ts_type tr"
        using assms(3) wf(2) map_of_SomeD [OF Some] by (auto simp: block_well_formed_def)
      from add_attributes_returns [OF assms(1) wf(1) this] obtain ps where
        "add_attributes_for_replace L P h tr p (type_name t) attrs = Some ps" by blast
      with Cons.IH [OF wf(3)] ttr Some show ?thesis
        by (auto simp: is_configured_iff [OF assms(1)] deref_def)
    qed
  qed
  with assms(2) show ?thesis by (simp add: transport_replaced_attribute_paths_def)
qed

text \<open>Blocks that were read are well formed, and stay so when they take defaults.\<close>

lemma faithful_well_formed:
  assumes "tf_laws L" "faithful L P t tr"
  shows "well_formed tr \<and> ts_type tr = t"
proof (cases "tr = new_transport t")
  case True
  with assms(2) show ?thesis by (simp add: faithful_def new_transport_well_formed) (simp add: new_transport_def)
next
  case False
  let ?v = "val_make L (ty_object L 0 []) (MapValue (ts_values tr))"
  have "val_as_map L ?v [] = (ts_values tr, None)" by (simp add: as_laws_simps [OF assms(1)])
  with False assms(2) have "transport_from_value L P (new_transport t) ?v undefined = Some ((tr, None), undefined)"
    by (simp add: faithful_def)
  from transport_from_value_entries [OF assms(1) this] assms(2) show ?thesis
    by (simp add: well_formed_def faithful_def new_transport_def comp_def)
qed

lemma faithful_block_well_formed:
  assumes "tf_laws L" "faithful_block L P trs"
  shows "block_well_formed trs"
  unfolding block_well_formed_def
proof clarify
  fix t tr
  assume "(t, tr) \<in> set trs"
  with assms(2) have "faithful L P t tr" by (auto simp: faithful_block_def)
  from faithful_well_formed [OF assms(1) this] show "well_formed tr \<and> ts_type tr = t" .
qed

lemma block_well_formed_lookup:
  "block_well_formed trs \<Longrightarrow> map_of trs t = Some tr \<Longrightarrow> well_formed tr \<and> ts_type tr = t"
  by (auto simp: block_well_formed_def dest: map_of_SomeD)

text \<open>One transport takes its defaults without an error.\<close>

lemma apply_defaults_one:
  assumes "tf_laws L" "block_well_formed (em_transports d)" "em_transports em = [(t, tr)]" "well_formed tr"
    "ts_type tr = t"
  shows "\<exists>tr'. embedded_apply_defaults L h em d = Some (em\<lparr>em_transports := [(t, tr')]\<rparr>, Some tr', None)
    \<and> well_formed tr' \<and> ts_type tr' = t"
proof (cases "map_of (em_transports d) t")
  case None
  with assms(3-5) show ?thesis by (auto simp: embedded_apply_defaults_def)
next
  case (Some b)
  from block_well_formed_lookup [OF assms(2) Some] have b: "well_formed b" "ts_type b = ts_type tr"
    using assms(5) by simp_all
  from transport_apply_defaults_merges [OF assms(1,4) b, of h] Some assms(3,5) show ?thesis
    by (auto simp: embedded_apply_defaults_def)
qed

text \<open>The transport that is given back is the one of the block.\<close>

lemma apply_defaults_configured:
  assumes "embedded_apply_defaults L h em d = Some (em', tr, None)"
  shows "get_configured_transport em' = (tr, None) \<and> em_resolved em' = em_resolved em"
proof -
  consider (none) "em_transports em = []" | (one) t r where "em_transports em = [(t, r)]"
    | (many) a b trs where "em_transports em = a # b # trs" by (metis list.exhaust surj_pair)
  then show ?thesis
  proof cases
    case none
    with assms show ?thesis
      by (auto simp: embedded_apply_defaults_def get_configured_transport_def bind_eq_Some_iff
          split: list.splits prod.splits sum.splits option.splits if_splits)
  next
    case one
    with assms show ?thesis
      by (auto simp: embedded_apply_defaults_def get_configured_transport_def bind_eq_Some_iff split: option.splits)
  next
    case many
    with assms show ?thesis by (cases a) (simp add: embedded_apply_defaults_def)
  qed
qed

subsection \<open>Properties\<close>

text \<open>
  C20: the copy of a block that was read from a value is the block: the transports in their
  order, with the attributes and the raw values.
\<close>

theorem copy_identical:
  assumes "tf_laws L" "embedded_from_value L P new_embedded val h = Some ((em, None), h1)"
  shows "\<exists>h3. embedded_copy L P em h2 = Some ((Some em, None), h3)"
proof -
  have "em\<lparr>em_resolved := None\<rparr> = em" using read_block_faithful [OF assms] by simp
  with faithful_copy [OF assms(1), of P em h2] read_block_faithful [OF assms] show ?thesis by simp
qed

text \<open>
  A transport takes the provider's value of an attribute when it has none itself
  and the provider has one, and keeps its attribute otherwise; its raw values stay. The transport
  is the only one of the block, or, in a block without one, a new one of the provider's kind.
\<close>

theorem defaults_precedence:
  assumes "tf_laws L" "well_formed tr" "well_formed d" "ts_type d = ts_type tr"
    and "em_transports em = [(ts_type tr, tr)] \<and> map_of (em_transports defaults) (ts_type tr) = Some d
      \<or> em_transports em = [] \<and> tr = new_transport (ts_type d) \<and> em_transports defaults = [(ts_type d, d)]"
  shows "\<exists>tr'. embedded_apply_defaults L h em defaults
      = Some (em\<lparr>em_transports := [(ts_type tr, tr')]\<rparr>, Some tr', None)
    \<and> ts_values tr' = ts_values tr
    \<and> (\<forall>n \<in> set (attribute_names (ts_type tr)). attr tr' n = merge_default (attr tr n) (Some (attr d n)))"
proof -
  from transport_apply_defaults_merges [OF assms(1-4), of h] obtain tr' where
    "transport_apply_defaults L h tr (ts_attrs d) = Some (tr', None)" "ts_type tr' = ts_type tr"
    "ts_values tr' = ts_values tr" "well_formed tr'"
    "\<forall>n \<in> set (attribute_names (ts_type tr)). attr tr' n = merge_default (attr tr n) (Some (attr d n))" by blast
  moreover have "ts_type tr \<noteq> UNKNOWN" using assms(2) by (simp add: well_formed_def)
  ultimately show ?thesis
    using assms(4,5)
    by (auto simp: embedded_apply_defaults_def get_configured_transport_def create_transport_known)
qed

text \<open>
  C21: the attributes that are to make a resource be replaced are never found: the answer
  is always none, or the call panics, when a transport that is configured is not proposed.
\<close>

theorem replaced_paths_never:
  assumes "tf_laws L" "block_well_formed (em_transports em)" "block_well_formed (em_transports proposed)"
  shows "transport_replaced_attribute_paths L P h em proposed
    = (if list_ex (\<lambda>(t, tr). is_transport_configured L h tr = Some True
          \<and> map_of (em_transports proposed) t = None) (em_transports em)
       then None else Some [])"
  by (rule replaced_paths_outcome [OF assms])


definition demo_paths :: "string list path_lib" where
  "demo_paths = \<lparr>pt_empty = [], pt_with = (\<lambda>n p. (p @ [n], p)), pt_steps = (\<lambda>ns. ns), pt_error = (\<lambda>p e. e)\<rparr>"

definition demo_block :: demo_value where
  "demo_block = DemoValue (TyObject 0 []) (MapValue [(''ssh'', DemoValue (TyObject 0 [])
     (MapValue [(''host'', DemoValue TyString (StringValue ''10.0.4.34''))]))])"

theorem copy_identical_witness:
  "\<exists>em h1 h3. embedded_from_value demo_lib demo_paths new_embedded demo_block demo_heap = Some ((em, None), h1)
     \<and> embedded_copy demo_lib demo_paths em demo_heap = Some ((Some em, None), h3)"
proof -
  obtain em h1 where "embedded_from_value demo_lib demo_paths new_embedded demo_block demo_heap
      = Some ((em, None), h1)"
    by (simp add: embedded_from_value_def demo_block_def demo_lib_def transport_type_from_def create_transport_def
        is_known_transport_type_def new_transport_def ssh_attributes_def transport_from_value_def
        map_attributes_to_def string_props_def string_from_value_def from_tf_value_def unknown_dst_val_def
        null_dst_val_def unknown_value_def null_value_def verify_configuration_def)
  with copy_identical [OF demo_laws this, of demo_heap] show ?thesis by blast
qed

definition demo_ssh :: "(string \<times> string) list \<Rightarrow> demo_value transport_state" where
  "demo_ssh given = \<lparr>ts_type = SSH, ts_attrs = map (\<lambda>n. (n, case map_of given n of
     Some x \<Rightarrow> Tfv False False x | None \<Rightarrow> new_tf [])) ssh_attributes, ts_values = []\<rparr>"

lemma demo_ssh_well_formed: "well_formed (demo_ssh given)" "ts_type (demo_ssh given) = SSH"
  by (simp_all add: well_formed_def demo_ssh_def comp_def)

theorem defaults_precedence_witness:
  "\<exists>tr. embedded_apply_defaults demo_lib demo_heap
      \<lparr>em_transports = [(SSH, demo_ssh [(''host'', ''10.0.4.34'')])], em_resolved = None\<rparr>
      \<lparr>em_transports = [(SSH, demo_ssh [(''host'', ''10.0.4.10''), (''user'', ''ubuntu'')])], em_resolved = None\<rparr>
      = Some (\<lparr>em_transports = [(SSH, tr)], em_resolved = None\<rparr>, Some tr, None)
    \<and> attr tr ''host'' = Tfv False False ''10.0.4.34'' \<and> attr tr ''user'' = Tfv False False ''ubuntu''"
proof -
  let ?em = "\<lparr>em_transports = [(SSH, demo_ssh [(''host'', ''10.0.4.34'')])], em_resolved = None\<rparr>"
  let ?d = "\<lparr>em_transports = [(SSH, demo_ssh [(''host'', ''10.0.4.10''), (''user'', ''ubuntu'')])], em_resolved = None\<rparr>"
  have "\<exists>tr. embedded_apply_defaults demo_lib demo_heap ?em ?d
      = Some (?em\<lparr>em_transports := [(ts_type (demo_ssh [(''host'', ''10.0.4.34'')]), tr)]\<rparr>, Some tr, None)
    \<and> ts_values tr = ts_values (demo_ssh [(''host'', ''10.0.4.34'')])
    \<and> (\<forall>n \<in> set (attribute_names (ts_type (demo_ssh [(''host'', ''10.0.4.34'')]))). attr tr n
      = merge_default (attr (demo_ssh [(''host'', ''10.0.4.34'')]) n)
          (Some (attr (demo_ssh [(''host'', ''10.0.4.10''), (''user'', ''ubuntu'')]) n)))"
    by (rule defaults_precedence [OF demo_laws]) (simp_all add: demo_ssh_well_formed)
  then obtain tr where tr: "embedded_apply_defaults demo_lib demo_heap ?em ?d
      = Some (\<lparr>em_transports = [(SSH, tr)], em_resolved = None\<rparr>, Some tr, None)"
    "\<forall>n \<in> set ssh_attributes. attr tr n = merge_default (attr (demo_ssh [(''host'', ''10.0.4.34'')]) n)
      (Some (attr (demo_ssh [(''host'', ''10.0.4.10''), (''user'', ''ubuntu'')]) n))"
    by (auto simp: demo_ssh_well_formed)
  from tr(2) have "attr tr ''host'' = Tfv False False ''10.0.4.34''" "attr tr ''user'' = Tfv False False ''ubuntu''"
    by (simp_all add: ssh_attributes_def attr_def demo_ssh_def merge_default_def tf_get_def new_tf_def)
  with tr(1) show ?thesis by blast
qed

theorem replaced_paths_never_witness:
  "transport_replaced_attribute_paths demo_lib demo_paths demo_heap
      \<lparr>em_transports = [(SSH, demo_ssh [(''host'', ''10.0.4.34'')])], em_resolved = None\<rparr>
      \<lparr>em_transports = [(SSH, demo_ssh [(''host'', ''10.0.4.10'')])], em_resolved = None\<rparr> = Some []"
  using replaced_paths_never [OF demo_laws, of
      "\<lparr>em_transports = [(SSH, demo_ssh [(''host'', ''10.0.4.34'')])], em_resolved = None\<rparr>"
      "\<lparr>em_transports = [(SSH, demo_ssh [(''host'', ''10.0.4.10'')])], em_resolved = None\<rparr>" demo_paths demo_heap]
  by (simp add: block_well_formed_def demo_ssh_well_formed)

end
