(* ===== verification/IpResolver.thy ===== *)
theory IpResolver
  imports GoStrings Retry
begin

text \<open>
  The public addresses of the machine that runs the provider
  (\<open>internal/plugin/ip_resolver.go\<close>): resolvers that ask name servers or a web page, and the
  set of addresses that their answers fill. Several resolvers run at once; they are the steps of a
  relation, together with the goroutine that collects their errors.

  Asking a name server or a page and \<open>net.ParseIP\<close> are parameters.
\<close>

subsection \<open>Addresses\<close>

text \<open>An address is its bytes; a nil address has none.\<close>

type_synonym ip = "8 word list"

definition v4_in_v6 :: ip where
  "v4_in_v6 = replicate 10 0 @ [255, 255]"

definition ip_to4 :: "ip \<Rightarrow> ip option" where
  "ip_to4 a = (if length a = 4 then Some a
     else if length a = 16 \<and> take 12 a = v4_in_v6 then Some (drop 12 a) else None)"

definition ip_to16 :: "ip \<Rightarrow> ip option" where
  "ip_to16 a = (if length a = 4 then Some (v4_in_v6 @ a) else if length a = 16 then Some a else None)"

fun show_hex :: "nat \<Rightarrow> string" where
  "show_hex n = (let d = ''0123456789abcdef'' ! (n mod 16) in
     if n < 16 then [d] else show_hex (n div 16) @ [d])"

fun ip_groups :: "ip \<Rightarrow> nat list" where
  "ip_groups (a # b # bs) = (256 * unat a + unat b) # ip_groups bs"
| "ip_groups _ = []"

text \<open>The first longest run of two or more zero groups, from where to where.\<close>

definition zero_run :: "nat list \<Rightarrow> nat \<times> nat" where
  "zero_run gs = fold (\<lambda>i (s, e).
     let l = length (takeWhile (\<lambda>g. g = 0) (drop i gs)) in
     if l \<ge> 2 \<and> l > e - s then (i, i + l) else (s, e)) [0..<length gs] (0, 0)"

definition ip6_string :: "ip \<Rightarrow> string" where
  "ip6_string a =
     (let gs = ip_groups a; hex = (\<lambda>xs. join_with '':'' (map show_hex xs)) in
      case zero_run gs of (s, e) \<Rightarrow>
        if s = e then hex gs else hex (take s gs) @ ''::'' @ hex (drop e gs))"

definition ip_string :: "ip \<Rightarrow> string" where
  "ip_string a =
     (if a = [] then ''<nil>''
      else (case ip_to4 a of
          Some b \<Rightarrow> join_with ''.'' (map (\<lambda>x. show_nat (unat x)) b)
        | None \<Rightarrow>
            if length a = 16 then ip6_string a
            else ''?'' @ concat (map (\<lambda>x. [''0123456789abcdef'' ! (unat x div 16),
              ''0123456789abcdef'' ! (unat x mod 16)]) a)))"

subsection \<open>Resolvers\<close>

datatype dns_qtype = TypeA | TypeAAAA | TypeTXT | OtherType nat
datatype dns_qclass = ClassINET | ClassCHAOS

fun qtype_string :: "dns_qtype \<Rightarrow> string" where
  "qtype_string TypeAAAA = ''AAAA''"
| "qtype_string TypeA = ''A''"
| "qtype_string TypeTXT = ''TXT''"
| "qtype_string (OtherType n) = []"

fun qclass_string :: "dns_qclass \<Rightarrow> string" where
  "qclass_string ClassCHAOS = ''CHAOSNET''"
| "qclass_string ClassINET = ''Inet''"

text \<open>A record of an answer has a type in its header and the Go type that holds its data.\<close>

datatype dns_data = DataA ip | DataAAAA ip | DataTXT "string list" | DataOther string

record dns_answer =
  an_type :: dns_qtype
  an_data :: dns_data

fun data_type :: "dns_data \<Rightarrow> string" where
  "data_type (DataA a) = ''*dns.A''"
| "data_type (DataAAAA a) = ''*dns.AAAA''"
| "data_type (DataTXT ts) = ''*dns.TXT''"
| "data_type (DataOther t) = t"

record 'w net_env =
  ne_exchange :: "string \<Rightarrow> string \<Rightarrow> dns_qclass \<Rightarrow> dns_qtype \<Rightarrow> 'w \<Rightarrow> (dns_answer list \<times> error) \<times> 'w"
  ne_get :: "string \<Rightarrow> 'w \<Rightarrow> (string \<times> error) \<times> 'w"
  ne_parse_ip :: "string \<Rightarrow> ip"

type_synonym 'w ip_resolver = "'w go_ctx \<Rightarrow> 'w \<Rightarrow> (ip list \<times> error) \<times> 'w"

fun answer_ips :: "(string \<Rightarrow> ip) \<Rightarrow> string \<Rightarrow> dns_answer list \<Rightarrow> ip list \<Rightarrow> ip list \<times> error" where
  "answer_ips parse base [] ips = (ips, None)"
| "answer_ips parse base (a # as) ips =
     (case an_type a of
        TypeA \<Rightarrow>
          (case an_data a of
             DataA x \<Rightarrow> answer_ips parse base as (ips @ [x])
           | d \<Rightarrow> (ips, Some (ErrNew (base @ '': unable to convert answer to correct type. Expected A got '' @ data_type d))))
      | TypeAAAA \<Rightarrow>
          (case an_data a of
             DataAAAA x \<Rightarrow> answer_ips parse base as (ips @ [x])
           | d \<Rightarrow> (ips, Some (ErrNew (base @ '': unable to convert answer to correct type. Expected AAAA got '' @ data_type d))))
      | TypeTXT \<Rightarrow>
          (case an_data a of
             DataTXT ts \<Rightarrow>
               if ts = [] then (ips, Some (ErrNew (base @ '': no ips found in txt record'')))
               else answer_ips parse base as (ips @ map parse ts)
           | d \<Rightarrow> (ips, Some (ErrNew (base @ '': unable to convert answer to correct type. Expected A got '' @ data_type d))))
      | OtherType n \<Rightarrow>
          (ips, Some (ErrNew (base @ '': unsupported answer type. got '' @ data_type (an_data a)))))"

definition with_dns_resolver ::
  "'w net_env \<Rightarrow> string \<Rightarrow> string \<Rightarrow> dns_qclass \<Rightarrow> dns_qtype \<Rightarrow> 'w ip_resolver" where
  "with_dns_resolver env nameserver host qclass qtype ctx w =
     (case ctx_err ctx w of
        Some e \<Rightarrow> (([], Some e), w)
      | None \<Rightarrow>
          let base = host @ ''@'' @ nameserver @ '' ('' @ qtype_string qtype @ ''/'' @ qclass_string qclass @ '')'' in
          (case ne_exchange env nameserver host qclass qtype w of
             ((_, Some e), w1) \<Rightarrow> (([], Some (ErrText (base @ '': '') e [])), w1)
           | ((answers, None), w1) \<Rightarrow>
               if answers = [] then (([], Some (ErrNew (base @ '': no records found''))), w1)
               else (answer_ips (ne_parse_ip env) base answers [], w1)))"

text \<open>\<open>ne_get\<close> is the body of a page, or the error of making, sending or reading the request.\<close>

definition with_https_body_resolver :: "'w net_env \<Rightarrow> string \<Rightarrow> 'w ip_resolver" where
  "with_https_body_resolver env host ctx w =
     (case ctx_err ctx w of
        Some e \<Rightarrow> (([], Some e), w)
      | None \<Rightarrow>
          (case ne_get env host w of
             ((_, Some e), w1) \<Rightarrow> (([], Some (ErrText (''host('' @ host @ ''): '') e [])), w1)
           | ((body, None), w1) \<Rightarrow> (([ne_parse_ip env (trim_space body)], None), w1)))"

definition default_resolvers :: "'w net_env \<Rightarrow> 'w ip_resolver list" where
  "default_resolvers env =
     [with_dns_resolver env ''resolver1.opendns.com:53'' ''myip.opendns.com.'' ClassINET TypeA,
      with_dns_resolver env ''resolver1.opendns.com:53'' ''myip.opendns.com.'' ClassINET TypeAAAA,
      with_dns_resolver env ''ns1.google.com:53'' ''o-o.myaddr.l.google.com.'' ClassINET TypeTXT,
      with_dns_resolver env ''one.one.one.one:53'' ''whoami.cloudflare.'' ClassCHAOS TypeTXT,
      with_https_body_resolver env ''https://checkip.amazonaws.com'']"

subsection \<open>The set of addresses\<close>

record ip_set =
  v4_ips :: "(string \<times> ip) list"
  v6_ips :: "(string \<times> ip) list"

definition new_public_ip_resolver :: ip_set where
  "new_public_ip_resolver = \<lparr>v4_ips = [], v6_ips = []\<rparr>"

definition add_ip :: "ip \<Rightarrow> ip_set \<Rightarrow> ip_set" where
  "add_ip a r =
     (if a = [] \<or> ip_to16 a = None then r
      else (case ip_to4 a of
          Some b \<Rightarrow> r\<lparr>v4_ips := map_set (ip_string b) b (v4_ips r)\<rparr>
        | None \<Rightarrow> r\<lparr>v6_ips := map_set (ip_string a) a (v6_ips r)\<rparr>))"

definition add_ips :: "ip list \<Rightarrow> ip_set \<Rightarrow> ip_set" where
  "add_ips ips r = fold add_ip ips r"

definition set_v4 :: "ip_set \<Rightarrow> ip list" where
  "set_v4 r = map snd (v4_ips r)"

definition set_v6 :: "ip_set \<Rightarrow> ip list" where
  "set_v6 r = map snd (v6_ips r)"

definition set_ips :: "ip_set \<Rightarrow> ip list" where
  "set_ips r = set_v4 r @ set_v6 r"

definition v4_strings :: "ip_set \<Rightarrow> string list" where
  "v4_strings r = map ip_string (set_v4 r)"

definition v6_strings :: "ip_set \<Rightarrow> string list" where
  "v6_strings r = map ip_string (set_v6 r)"

definition ips_strings :: "ip_set \<Rightarrow> string list" where
  "ips_strings r = v4_strings r @ v6_strings r"

subsection \<open>Resolving with several resolvers\<close>

text \<open>
  The goroutine that collects errors is before its select, waiting in it, or holds an error it
  has received and not joined yet.
\<close>

datatype collector = Looping | Waiting | Holding goerr

text \<open>\<open>rv_todo\<close> are the outcomes of the resolvers that have not finished.\<close>

record resolve_state =
  rv_set :: ip_set
  rv_todo :: "(ip list \<times> error) list"
  rv_collector :: collector
  rv_err :: error

definition resolve_start :: "ip_set \<Rightarrow> (ip list \<times> error) list \<Rightarrow> resolve_state" where
  "resolve_start r outs = \<lparr>rv_set = r, rv_todo = outs, rv_collector = Looping, rv_err = None\<rparr>"

text \<open>
  A resolver that fails sends its error when the collector waits for one, and drops it otherwise;
  one that succeeds adds its addresses under the lock.
\<close>

inductive resolve_step :: "resolve_state \<Rightarrow> resolve_state \<Rightarrow> bool" where
  succeed: "rv_todo s = xs @ (ips, None) # ys \<Longrightarrow>
     resolve_step s (s\<lparr>rv_set := add_ips ips (rv_set s), rv_todo := xs @ ys\<rparr>)"
| send: "rv_todo s = xs @ (ips, Some e) # ys \<Longrightarrow> rv_collector s = Waiting \<Longrightarrow>
     resolve_step s (s\<lparr>rv_todo := xs @ ys, rv_collector := Holding e\<rparr>)"
| drop: "rv_todo s = xs @ (ips, Some e) # ys \<Longrightarrow> rv_collector s \<noteq> Waiting \<Longrightarrow>
     resolve_step s (s\<lparr>rv_todo := xs @ ys\<rparr>)"
| wait: "rv_collector s = Looping \<Longrightarrow> resolve_step s (s\<lparr>rv_collector := Waiting\<rparr>)"
| join: "rv_collector s = Holding e \<Longrightarrow>
     resolve_step s (s\<lparr>rv_collector := Looping, rv_err := join_errs [rv_err s, Some e]\<rparr>)"

inductive_cases resolve_stepE: "resolve_step s s'"

text \<open>What \<open>resolve\<close> returns after the last resolver has finished; the collector may hold an error.\<close>

definition resolve_result :: "resolve_state \<Rightarrow> error \<times> ip_set" where
  "resolve_result s = ((if set_ips (rv_set s) = [] then rv_err s else None), rv_set s)"

inductive resolve_many :: "ip_set \<Rightarrow> (ip list \<times> error) list \<Rightarrow> error \<times> ip_set \<Rightarrow> bool" where
  "resolve_step\<^sup>*\<^sup>* (resolve_start r outs) s \<Longrightarrow> rv_todo s = [] \<Longrightarrow> resolve_many r outs (resolve_result s)"

text \<open>
  With one resolver the addresses are added when there is an error; with none there is nothing to
  ask.
\<close>

definition resolve_single :: "'w ip_resolver \<Rightarrow> 'w go_ctx \<Rightarrow> ip_set \<Rightarrow> 'w \<Rightarrow> (error \<times> ip_set) \<times> 'w" where
  "resolve_single resolver ctx r w =
     (case resolver ctx w of
        ((ips, Some e), w1) \<Rightarrow> ((Some e, add_ips ips r), w1)
      | ((ips, None), w1) \<Rightarrow> ((None, r), w1))"

text \<open>
  \<open>resolve\<close>: several resolvers have a context of their own, \<open>ip_ctx\<close>, that is done a second
  later. They run one after the other in the world here, and their outcomes meet in the set in
  any order.
\<close>

fun run_resolvers :: "'w ip_resolver list \<Rightarrow> 'w go_ctx \<Rightarrow> 'w \<Rightarrow> (ip list \<times> error) list \<times> 'w" where
  "run_resolvers [] ctx w = ([], w)"
| "run_resolvers (f # fs) ctx w =
     (case f ctx w of (out, w1) \<Rightarrow> (case run_resolvers fs ctx w1 of (outs, w2) \<Rightarrow> (out # outs, w2)))"

definition resolve ::
  "'w ip_resolver list \<Rightarrow> 'w go_ctx \<Rightarrow> 'w go_ctx \<Rightarrow> ip_set \<Rightarrow> 'w \<Rightarrow> (error \<times> ip_set) \<times> 'w \<Rightarrow> bool" where
  "resolve resolvers ctx ip_ctx r w out =
     (case ctx_err ctx w of
        Some e \<Rightarrow> out = ((Some e, r), w)
      | None \<Rightarrow>
          (case resolvers of
             [] \<Rightarrow> out = ((Some (ErrNew ''no resolvers have been provided''), r), w)
           | [f] \<Rightarrow> out = resolve_single f ctx r w
           | fs \<Rightarrow> (case run_resolvers fs ip_ctx w of (outs, w1) \<Rightarrow> snd out = w1 \<and> resolve_many r outs (fst out))))"

subsection \<open>Lemmas\<close>

definition v4_keys :: "ip_set \<Rightarrow> string set" where
  "v4_keys r = fst ` set (v4_ips r)"

definition v6_keys :: "ip_set \<Rightarrow> string set" where
  "v6_keys r = fst ` set (v6_ips r)"

text \<open>The addresses that resolvers found, as the texts they are kept under.\<close>

definition found_v4 :: "(ip list \<times> error) list \<Rightarrow> string set" where
  "found_v4 outs = {ip_string b |ips a b. (ips, None) \<in> set outs \<and> a \<in> set ips \<and> ip_to4 a = Some b}"

definition found_v6 :: "(ip list \<times> error) list \<Rightarrow> string set" where
  "found_v6 outs = {ip_string a |ips a. (ips, None) \<in> set outs \<and> a \<in> set ips \<and> length a = 16 \<and> ip_to4 a = None}"

lemma found_append:
  "found_v4 (xs @ ys) = found_v4 xs \<union> found_v4 ys" "found_v6 (xs @ ys) = found_v6 xs \<union> found_v6 ys"
  by (auto simp: found_v4_def found_v6_def)

lemma found_Cons:
  "found_v4 ((ips, None) # ys) = {ip_string b |a b. a \<in> set ips \<and> ip_to4 a = Some b} \<union> found_v4 ys"
  "found_v6 ((ips, None) # ys) = {ip_string a |a. a \<in> set ips \<and> length a = 16 \<and> ip_to4 a = None} \<union> found_v6 ys"
  "found_v4 ((ips, Some e) # ys) = found_v4 ys" "found_v6 ((ips, Some e) # ys) = found_v6 ys"
  by (auto simp: found_v4_def found_v6_def)

lemma add_ip_keys:
  "v4_keys (add_ip a r) = v4_keys r \<union> {ip_string b |b. ip_to4 a = Some b}"
  "v6_keys (add_ip a r) = v6_keys r \<union> (if length a = 16 \<and> ip_to4 a = None then {ip_string a} else {})"
  by (auto simp: v4_keys_def v6_keys_def add_ip_def map_set_keys ip_to16_def ip_to4_def split: if_splits)

lemma add_ips_keys:
  "v4_keys (add_ips ips r) = v4_keys r \<union> {ip_string b |a b. a \<in> set ips \<and> ip_to4 a = Some b}"
  "v6_keys (add_ips ips r) = v6_keys r \<union> {ip_string a |a. a \<in> set ips \<and> length a = 16 \<and> ip_to4 a = None}"
  unfolding add_ips_def
  by (induction ips arbitrary: r) (auto simp: add_ip_keys split: if_splits)

lemma set_ips_Nil_iff: "set_ips r = [] \<longleftrightarrow> v4_keys r = {} \<and> v6_keys r = {}"
  by (auto simp: set_ips_def set_v4_def set_v6_def v4_keys_def v6_keys_def)

text \<open>Whatever the order, what is in the set and what is still to come stay the same together.\<close>

definition expected_v4 :: "resolve_state \<Rightarrow> string set" where
  "expected_v4 s = v4_keys (rv_set s) \<union> found_v4 (rv_todo s)"

definition expected_v6 :: "resolve_state \<Rightarrow> string set" where
  "expected_v6 s = v6_keys (rv_set s) \<union> found_v6 (rv_todo s)"

lemma resolve_step_expected:
  "resolve_step s s' \<Longrightarrow> expected_v4 s' = expected_v4 s \<and> expected_v6 s' = expected_v6 s"
  by (induction rule: resolve_step.induct)
    (auto simp: expected_v4_def expected_v6_def add_ips_keys found_append found_Cons)

text \<open>The errors that are collected, held or still to come are errors of the resolvers.\<close>

fun error_leaves :: "goerr \<Rightarrow> goerr set" where
  "error_leaves (ErrJoin es) = (\<Union>e \<in> set es. error_leaves e)"
| "error_leaves e = {e}"

definition resolver_errors :: "(ip list \<times> error) list \<Rightarrow> goerr set" where
  "resolver_errors outs = (\<Union>(ips, e) \<in> set outs. case e of Some e' \<Rightarrow> error_leaves e' | None \<Rightarrow> {})"

definition state_errors :: "resolve_state \<Rightarrow> goerr set" where
  "state_errors s = (case rv_err s of Some e \<Rightarrow> error_leaves e | None \<Rightarrow> {})
     \<union> (case rv_collector s of Holding e \<Rightarrow> error_leaves e | _ \<Rightarrow> {}) \<union> resolver_errors (rv_todo s)"

lemma resolve_step_errors: "resolve_step s s' \<Longrightarrow> state_errors s' \<subseteq> state_errors s"
  by (induction rule: resolve_step.induct)
    (auto simp: state_errors_def resolver_errors_def join_errs_def map_filter_simps split: option.splits collector.splits)

lemma resolve_reach:
  assumes "resolve_step\<^sup>*\<^sup>* s s'"
  shows "expected_v4 s' = expected_v4 s \<and> expected_v6 s' = expected_v6 s \<and> state_errors s' \<subseteq> state_errors s"
  using assms by (induction rule: rtranclp_induct) (use resolve_step_expected resolve_step_errors in blast)+

text \<open>Every error can be dropped: the collector need not have come to its select.\<close>

lemma all_dropped:
  assumes "list_all (\<lambda>(ips, e). e \<noteq> None) outs"
  shows "resolve_step\<^sup>*\<^sup>* (resolve_start r outs) (resolve_start r [])"
  using assms
proof (induction outs)
  case (Cons out outs)
  then obtain ips e where out: "out = (ips, Some e)" by auto
  have "resolve_step (resolve_start r (out # outs)) (resolve_start r outs)"
    using resolve_step.drop [of "resolve_start r (out # outs)" "[]" ips e outs]
    by (simp add: resolve_start_def out)
  with Cons show ?case by (auto intro: converse_rtranclp_into_rtranclp)
qed simp

subsection \<open>Properties\<close>

text \<open>
  C22: several resolvers fill the set, in every interleaving, with the addresses of those that
  succeed, besides what it had; there is an error only when the set is empty, and it is made of
  errors of the resolvers.
\<close>

theorem resolve_many_outcome:
  assumes "resolve_many r outs (err, r')"
  shows "v4_keys r' = v4_keys r \<union> found_v4 outs \<and> v6_keys r' = v6_keys r \<union> found_v6 outs
    \<and> (err \<noteq> None \<longrightarrow> set_ips r' = [])
    \<and> (case err of Some e \<Rightarrow> error_leaves e | None \<Rightarrow> {}) \<subseteq> resolver_errors outs"
proof -
  obtain s where s: "resolve_step\<^sup>*\<^sup>* (resolve_start r outs) s" "rv_todo s = []"
    and res: "(err, r') = resolve_result s"
    using assms by (auto elim: resolve_many.cases)
  from resolve_reach [OF s(1)] s(2) res show ?thesis
    by (auto simp: expected_v4_def expected_v6_def state_errors_def resolve_start_def resolve_result_def
        found_v4_def found_v6_def resolver_errors_def split: if_splits)
qed

text \<open>
  When all of several resolvers fail and the set is empty, the call can return no
  error and no address, because an error is dropped when the collector is not waiting for it.
\<close>

theorem failures_can_be_silent:
  assumes "length resolvers \<ge> 2" "ctx_err ctx w = None" "set_ips r = []"
    and "run_resolvers resolvers ip_ctx w = (outs, w1)" "list_all (\<lambda>(ips, e). e \<noteq> None) outs"
  shows "resolve resolvers ctx ip_ctx r w ((None, r), w1)"
proof -
  have "resolve_many r outs (resolve_result (resolve_start r []))"
    by (rule resolve_many.intros [OF all_dropped [OF assms(5)]]) (simp add: resolve_start_def)
  moreover have "resolve_result (resolve_start r []) = (None, r)"
    by (simp add: resolve_result_def resolve_start_def)
  moreover obtain f g fs where "resolvers = f # g # fs"
    using assms(1) by (cases resolvers; cases "tl resolvers") auto
  ultimately show ?thesis using assms(2,4) by (simp add: resolve_def)
qed

text \<open>
  A single resolver that succeeds leaves the set as it was; only what comes with an
  error is added.
\<close>

theorem single_resolver_adds_on_error:
  assumes "ctx_err ctx w = None" "resolver ctx w = ((ips, e), w1)"
  shows "resolve [resolver] ctx ip_ctx r w out
    \<longleftrightarrow> out = ((e, if e = None then r else add_ips ips r), w1)"
  using assms by (cases e) (simp_all add: resolve_def resolve_single_def)

definition demo_ctx :: "unit go_ctx" where
  "demo_ctx = \<lparr>ctx_err = (\<lambda>w. None), time_sleep = (\<lambda>d w. w), random_id = (\<lambda>w. ([], w)), pow_overflow = 0\<rparr>"

definition failing :: "unit ip_resolver" where
  "failing ctx w = (([], Some (ErrNew ''no records found'')), w)"

definition answering :: "unit ip_resolver" where
  "answering ctx w = (([[10, 0, 4, 34]], None), w)"

theorem resolve_many_outcome_witness:
  "resolve_many new_public_ip_resolver [([], Some (ErrNew ''a'')), ([[10, 0, 4, 34]], None)]
      (None, \<lparr>v4_ips = [(''10.0.4.34'', [10, 0, 4, 34])], v6_ips = []\<rparr>)
    \<and> ''10.0.4.34'' \<in> found_v4 [([], Some (ErrNew ''a'')), ([[10, 0, 4, 34]], None)]"
proof -
  let ?outs = "[([], Some (ErrNew ''a'')), ([[10, 0, 4, 34]], None)] :: (ip list \<times> error) list"
  let ?r = "\<lparr>v4_ips = [(''10.0.4.34'', [10, 0, 4, 34])], v6_ips = []\<rparr>"
  have set: "add_ips [[10, 0, 4, 34]] new_public_ip_resolver = ?r"
    by code_simp
  have "resolve_step (resolve_start new_public_ip_resolver ?outs)
      (resolve_start new_public_ip_resolver [([[10, 0, 4, 34]], None)])"
    using resolve_step.drop [of "resolve_start new_public_ip_resolver ?outs" "[]"]
    by (simp add: resolve_start_def)
  moreover have "resolve_step (resolve_start new_public_ip_resolver [([[10, 0, 4, 34]], None)]) (resolve_start ?r [])"
    using resolve_step.succeed [of "resolve_start new_public_ip_resolver [([[10, 0, 4, 34]], None)]" "[]"]
    by (simp add: resolve_start_def set)
  ultimately have "resolve_step\<^sup>*\<^sup>* (resolve_start new_public_ip_resolver ?outs) (resolve_start ?r [])" by simp
  from resolve_many.intros [OF this] have run: "resolve_many new_public_ip_resolver ?outs (None, ?r)"
    by (simp add: resolve_start_def resolve_result_def set_ips_def set_v4_def)
  from resolve_many_outcome [OF this]
  have "v4_keys ?r = v4_keys new_public_ip_resolver \<union> found_v4 ?outs" by blast
  moreover have "''10.0.4.34'' \<in> v4_keys ?r" "v4_keys new_public_ip_resolver = {}"
    by (simp_all add: v4_keys_def new_public_ip_resolver_def)
  ultimately have "''10.0.4.34'' \<in> found_v4 ?outs" by blast
  with run show ?thesis by simp
qed

theorem failures_can_be_silent_witness:
  "resolve [failing, failing] demo_ctx demo_ctx new_public_ip_resolver () ((None, new_public_ip_resolver), ())"
  by (rule failures_can_be_silent [where outs = "[([], Some (ErrNew ''no records found'')), ([], Some (ErrNew ''no records found''))]"])
    (simp_all add: failing_def demo_ctx_def new_public_ip_resolver_def set_ips_def set_v4_def set_v6_def)

theorem single_resolver_adds_on_error_witness:
  "resolve [answering] demo_ctx demo_ctx new_public_ip_resolver () ((None, new_public_ip_resolver), ())"
  using single_resolver_adds_on_error [of demo_ctx "()" answering "[[10, 0, 4, 34]]" None "()" demo_ctx new_public_ip_resolver]
  by (simp add: answering_def demo_ctx_def)

end
