(* ===== verification/PluginUtil.thy ===== *)
theory PluginUtil
  imports EmbeddedTransport Transport
begin

text \<open>
  What the resources of the plugin share (\<open>internal/plugin/provider.go\<close>, \<open>interfaces.go\<close>,
  \<open>transport_resource_util.go\<close> and the start of \<open>tftypes.go\<close>): states on the wire, the
  configuration of the provider, and the calls that read the states of a request and build the
  transport of the resource.

  A state is an interface: its methods are the record \<open>state_ops\<close>, and what they change is the
  type parameter \<open>'s\<close>. Diagnostics are only added, so a call returns those it adds.
\<close>

subsection \<open>States on the wire (tftypes.go, interfaces.go)\<close>

record ('w, 's, 't, 'v) state_ops =
  so_type :: "'s \<Rightarrow> 't heap \<Rightarrow> 't \<times> 't heap"
  so_value :: "'s \<Rightarrow> 't heap \<Rightarrow> ('v \<times> 't heap) go"
  so_from :: "'v \<Rightarrow> 's \<Rightarrow> 't heap \<Rightarrow> (('s \<times> error) \<times> 't heap) go"
  so_validate :: "'w go_ctx \<Rightarrow> 's \<Rightarrow> 'w \<Rightarrow> error"
  so_embedded :: "'s \<Rightarrow> 'v embedded"
  so_set_embedded :: "'v embedded \<Rightarrow> 's \<Rightarrow> 's"

definition err_unmarshal :: "string \<Rightarrow> goerr \<Rightarrow> error" where
  "err_unmarshal what e = Some (ErrWrap (''failed to unmarshal Terraform value, '' @ what
     @ ''this may indicate an error in the provider, cause: '') e [])"

text \<open>\<open>Value.As\<close> on a state calls its \<open>FromTerraform5Value\<close>.\<close>

definition unmarshal_state ::
  "('v, 't, 'd) wire \<Rightarrow> ('w, 's, 't, 'v) state_ops \<Rightarrow> 'd \<Rightarrow> 's \<Rightarrow> 't heap
    \<Rightarrow> (('s \<times> error) \<times> 't heap) go" where
  "unmarshal_state wr so dyn s h =
     (case so_type so s h of (t, h1) \<Rightarrow>
      case wr_unmarshal wr dyn t of
        (_, Some e) \<Rightarrow> Some ((s, err_unmarshal [] e), h1)
      | (v, None) \<Rightarrow> do {
          ((s1, e), h2) \<leftarrow> so_from so v s h1;
          Some ((s1, case e of
              Some e' \<Rightarrow> err_unmarshal ''configuration does not match its schema, '' e'
            | None \<Rightarrow> None), h2)
        })"

definition marshal_of ::
  "('v, 't, 'd) wire \<Rightarrow> ('w, 's, 't, 'v) state_ops \<Rightarrow> 's \<Rightarrow> 't heap \<Rightarrow> (('d \<times> error) \<times> 't heap) go" where
  "marshal_of wr so s h =
     (case so_type so s h of (t, h1) \<Rightarrow> do {
        (v, h2) \<leftarrow> so_value so s h1;
        Some (marshal_state wr \<lparr>st_type = t, st_value = v,
          st_handle_failure = (\<lambda>(d :: unit diagnostic) c (w :: unit). (d, w))\<rparr>, h2)
      })"

definition upgrade_state ::
  "('v, 't, 'd) wire \<Rightarrow> ('w, 's, 't, 'v) state_ops \<Rightarrow> 'v \<Rightarrow> 's \<Rightarrow> 't heap
    \<Rightarrow> ((('d \<times> error) \<times> 's) \<times> 't heap) go" where
  "upgrade_state wr so new_values s h =
     (case so_type so s h of (t, h1) \<Rightarrow>
      case wr_dynamic wr t new_values of
        (dyn, Some e) \<Rightarrow> Some (((dyn, Some (ErrWrap
          ''failed to upgrade state, unable to map version 1 to the current state, due to: '' e [])), s), h1)
      | (dyn, None) \<Rightarrow> do {
          ((s1, e), h2) \<leftarrow> unmarshal_state wr so dyn s h1;
          (case e of
             Some e' \<Rightarrow> Some (((dyn, Some (ErrWrap
               ''failed to upgrade state, unable to apply upgraded values to state, due to: '' e' [])), s1), h2)
           | None \<Rightarrow> do {
               (r, h3) \<leftarrow> marshal_of wr so s1 h2;
               Some ((r, s1), h3)
             })
        })"

subsection \<open>The configuration of the provider (provider.go)\<close>

record 'v provider_config =
  pc_transport :: "'v embedded"
  pc_debug_dir :: tf_string

definition new_provider_config :: "'v provider_config" where
  "new_provider_config = \<lparr>pc_transport = new_embedded, pc_debug_dir = new_tf []\<rparr>"

text \<open>A computed attribute without a value is unknown in the plan.\<close>

definition unknown_unless_set :: "'a tfv \<Rightarrow> 'a tfv" where
  "unknown_unless_set a = (if snd (tf_get a) then a else Tfv True (is_null a) (raw_val a))"

text \<open>The type of an object with the given attribute types.\<close>

definition object_of :: "('t, 'v) tf_lib \<Rightarrow> string list \<Rightarrow> (string \<times> 't) list \<Rightarrow> 't heap \<Rightarrow> 't \<times> 't heap" where
  "object_of L opt ts h =
     (case new_map h of (a, h1) \<Rightarrow> (ty_object L a opt, h1\<lparr>hp_maps := (hp_maps h1)(a := ts)\<rparr>))"

text \<open>Looking up what a map of values does not have gives the zero value.\<close>

definition lookup_value :: "('t, 'v) tf_lib \<Rightarrow> (string \<times> 'v) list \<Rightarrow> string \<Rightarrow> 'v" where
  "lookup_value L vals k = (case map_of vals k of Some v \<Rightarrow> v | None \<Rightarrow> val_zero L)"

text \<open>An unknown transport ends the reading, before the directory is read.\<close>

definition config_from_value ::
  "('t, 'v) tf_lib \<Rightarrow> 'p path_lib \<Rightarrow> 'v \<Rightarrow> 'v provider_config \<Rightarrow> 't heap
    \<Rightarrow> (('v provider_config \<times> error) \<times> 't heap) go" where
  "config_from_value L P val c h =
     (case val_as_map L val [] of
        (_, Some e) \<Rightarrow> Some ((c, Some (ErrWrap ''failed to unmarshal provider configuration, due to: '' e [])), h)
      | (vals, None) \<Rightarrow>
          if \<not> val_known L (lookup_value L vals ''transport'') then Some ((c, None), h)
          else do {
            ((em, e), h1) \<leftarrow> embedded_from_value L P (pc_transport c) (lookup_value L vals ''transport'') h;
            let c1 = c\<lparr>pc_transport := em\<rparr>;
            (case e of
               Some e' \<Rightarrow> Some ((c1, Some (ErrWrap ''failed to unmarshal transport configuration, due to: '' e' [])), h1)
             | None \<Rightarrow>
                 if \<not> val_known L (lookup_value L vals ''debug_data_root_dir'') then Some ((c1, None), h1)
                 else (case string_from_value L h1 (pc_debug_dir c1) (lookup_value L vals ''debug_data_root_dir'') of
                     (dir, Some e') \<Rightarrow> Some ((c1\<lparr>pc_debug_dir := dir\<rparr>,
                       Some (ErrWrap ''failed to unmarshal [debug_data_root_dir], due to: '' e' [])), h1)
                   | (dir, None) \<Rightarrow> Some ((c1\<lparr>pc_debug_dir := dir\<rparr>, None), h1)))
          })"

definition config_type :: "('t, 'v) tf_lib \<Rightarrow> 'v provider_config \<Rightarrow> 't heap \<Rightarrow> 't \<times> 't heap" where
  "config_type L c h =
     (case new_map h of (a, h1) \<Rightarrow>
        (ty_object L a [], h1\<lparr>hp_maps := (hp_maps h1)
          (a := [(''transport'', ty_dynamic L), (''debug_data_root_dir'', ty_string L)])\<rparr>))"

definition config_value :: "('t, 'v) tf_lib \<Rightarrow> 'v provider_config \<Rightarrow> 't heap \<Rightarrow> ('v \<times> 't heap) go" where
  "config_value L c h =
     (case config_type L c h of (t, h1) \<Rightarrow> do {
        (tv, h2) \<leftarrow> embedded_value L (pc_transport c) h1;
        dv \<leftarrow> string_value L h2 (pc_debug_dir c);
        v \<leftarrow> new_value L h2 t (MapValue [(''transport'', tv), (''debug_data_root_dir'', dv)]);
        Some (v, h2)
      })"

text \<open>The copy's directory is set to the string there is, also when there is none.\<close>

definition config_copy ::
  "('t, 'v) tf_lib \<Rightarrow> 'p path_lib \<Rightarrow> 'v provider_config \<Rightarrow> 't heap
    \<Rightarrow> (('v embedded option \<times> tf_string \<times> error) \<times> 't heap) go" where
  "config_copy L P c h = do {
     ((em, e), h1) \<leftarrow> embedded_copy L P (pc_transport c) h;
     Some ((em, tf_set (raw_val (pc_debug_dir c)) (new_tf []), e), h1)
   }"

text \<open>
  The configuration that \<open>GetProviderConfig\<close> hands out is such a copy; its transport is nil only
  with an error.
\<close>

definition get_provider_config ::
  "('t, 'v) tf_lib \<Rightarrow> 'p path_lib \<Rightarrow> 'v provider_config \<Rightarrow> 't heap
    \<Rightarrow> ((goerr, 'v provider_config) sum \<times> 't heap) go" where
  "get_provider_config L P c h = do {
     ((em, dir, e), h1) \<leftarrow> config_copy L P c h;
     (case e of
        Some e' \<Rightarrow> Some (Inl e', h1)
      | None \<Rightarrow> do { em' \<leftarrow> deref em; Some (Inr \<lparr>pc_transport = em', pc_debug_dir = dir\<rparr>, h1) })
   }"

text \<open>The file system and the environment of the provider's process.\<close>

datatype stat_result = StatDir | StatFile | StatNotExist goerr | StatError goerr

record 'w os_env =
  os_stat :: "string \<Rightarrow> 'w \<Rightarrow> stat_result"
  os_mkdir_all :: "string \<Rightarrow> 'w \<Rightarrow> error \<times> 'w"
  os_lookup_env :: "string \<Rightarrow> 'w \<Rightarrow> string option"

definition config_ops :: "('t, 'v) tf_lib \<Rightarrow> 'p path_lib \<Rightarrow> ('w, 'v provider_config, 't, 'v) state_ops" where
  "config_ops L P = \<lparr>so_type = config_type L, so_value = config_value L, so_from = config_from_value L P,
     so_validate = (\<lambda>ctx c w. None), so_embedded = pc_transport,
     so_set_embedded = (\<lambda>em c. c\<lparr>pc_transport := em\<rparr>)\<rparr>"

definition provider_validate ::
  "('t, 'v) tf_lib \<Rightarrow> 'p path_lib \<Rightarrow> ('v, 't, 'd) wire \<Rightarrow> 'p error_view \<Rightarrow> 'w os_env \<Rightarrow> 'w go_ctx
    \<Rightarrow> 'd \<Rightarrow> 't heap \<Rightarrow> 'w \<Rightarrow> (('p diagnostic list \<times> error) \<times> 't heap) go" where
  "provider_validate L P wr ev os ctx req h w =
     (case ctx_err ctx w of
        Some e \<Rightarrow> Some (([ctx_to_diagnostic ev e], Some e), h)
      | None \<Rightarrow> do {
          ((c, e), h1) \<leftarrow> unmarshal_state wr (config_ops L P :: ('w, _, _, _) state_ops) req new_provider_config h;
          Some (case e of
              Some e' \<Rightarrow> (([err_to_diagnostic ev ''Serialization Error'' e'], Some e'), h1)
            | None \<Rightarrow>
                ((if snd (tf_get (pc_debug_dir c)) then
                    (case os_stat os (fst (tf_get (pc_debug_dir c))) w of
                       StatNotExist e' \<Rightarrow> []
                     | StatError e' \<Rightarrow> [err_to_diagnostic ev ''Validation Error'' e']
                     | StatFile \<Rightarrow> [err_to_diagnostic ev ''Validation Error''
                         (validation_error P ''configured diagnostics dir is not a directory'' [''debug_data_root_dir''])]
                     | StatDir \<Rightarrow> [])
                  else [], None), h1))
        })"

text \<open>
  A directory that is not there is made; when that fails it is still the error of the first look
  that is reported.
\<close>

definition provider_configure ::
  "('t, 'v) tf_lib \<Rightarrow> 'p path_lib \<Rightarrow> ('v, 't, 'd) wire \<Rightarrow> 'p error_view \<Rightarrow> 'w os_env \<Rightarrow> 'w go_ctx
    \<Rightarrow> 'd \<Rightarrow> 'v provider_config \<Rightarrow> 't heap \<Rightarrow> 'w
    \<Rightarrow> (('p diagnostic list \<times> error) \<times> 'v provider_config \<times> 't heap \<times> 'w) go" where
  "provider_configure L P wr ev os ctx req c h w =
     (case ctx_err ctx w of
        Some e \<Rightarrow> Some (([ctx_to_diagnostic ev e], Some e), c, h, w)
      | None \<Rightarrow> do {
          ((c1, e), h1) \<leftarrow> unmarshal_state wr (config_ops L P :: ('w, _, _, _) state_ops) req c h;
          Some (case e of
              Some e' \<Rightarrow> (([err_to_diagnostic ev ''Serialization Error'' e'], Some e'), c1, h1, w)
            | None \<Rightarrow>
                let c2 = (case os_lookup_env os ''ENOS_DEBUG_DATA_ROOT_DIR'' w of
                       Some dir \<Rightarrow> c1\<lparr>pc_debug_dir := tf_set dir (pc_debug_dir c1)\<rparr>
                     | None \<Rightarrow> c1);
                    dir = fst (tf_get (pc_debug_dir c2));
                    failed = (\<lambda>e'. [err_to_diagnostic ev ''Provider Config Error'' e'])
                in if snd (tf_get (pc_debug_dir c2)) then
                     (case os_stat os dir w of
                        StatNotExist e' \<Rightarrow>
                          (case os_mkdir_all os dir w of
                             (None, w1) \<Rightarrow> (([], None), c2, h1, w1)
                           | (Some _, w1) \<Rightarrow> ((failed e', None), c2, h1, w1))
                      | StatError e' \<Rightarrow> ((failed e', None), c2, h1, w)
                      | _ \<Rightarrow> (([], None), c2, h1, w))
                   else (([], None), c2, h1, w))
        })"

subsection \<open>Calls of a resource (transport_resource_util.go)\<close>

text \<open>
  Reading a value can panic. Where the code recovers, the panic becomes a diagnostic; \<open>show\<close> is
  what it prints of the state, and what the reading allocated is not looked at again.
\<close>

definition recovered :: "'p error_view \<Rightarrow> string \<Rightarrow> 'p diagnostic list" where
  "recovered ev text = [err_to_diagnostic ev ''Serialization Error'' (ErrNew text)]"

definition validate_resource_config ::
  "('v, 't, 'd) wire \<Rightarrow> ('w, 's, 't, 'v) state_ops \<Rightarrow> 'p error_view \<Rightarrow> ('s \<Rightarrow> string) \<Rightarrow> 'w go_ctx
    \<Rightarrow> 'd \<Rightarrow> 's \<Rightarrow> 't heap \<Rightarrow> 'w \<Rightarrow> 'p diagnostic list" where
  "validate_resource_config wr so ev show ctx cfg s h w =
     (case ctx_err ctx w of
        Some e \<Rightarrow> [ctx_to_diagnostic ev e]
      | None \<Rightarrow>
          (case unmarshal_state wr so cfg s h of
             None \<Rightarrow> recovered ev (show s)
           | Some ((_, Some e), _) \<Rightarrow> [err_to_diagnostic ev ''Serialization Error'' e]
           | Some ((_, None), _) \<Rightarrow> []))"

text \<open>
  The raw state of an earlier version is decoded by the library, here \<open>raw\<close>. Only version 1 is
  known, and nothing recovers.
\<close>

definition upgrade_resource_state ::
  "('v, 't, 'd) wire \<Rightarrow> ('w, 's, 't, 'v) state_ops \<Rightarrow> 'p error_view \<Rightarrow> 'w go_ctx \<Rightarrow> ('t \<Rightarrow> 'v \<times> error)
    \<Rightarrow> int \<Rightarrow> 's \<Rightarrow> 't heap \<Rightarrow> 'w \<Rightarrow> ('d option \<times> 'p diagnostic list) go" where
  "upgrade_resource_state wr so ev ctx raw version s h w =
     (case ctx_err ctx w of
        Some e \<Rightarrow> Some (None, [ctx_to_diagnostic ev e])
      | None \<Rightarrow>
          if version \<noteq> 1 then Some (None, [err_to_diagnostic ev ''Upgrade State Error''
            (ErrNew ''the provider doesn't know how to upgrade from the current state version'')])
          else (case so_type so s h of (t, h1) \<Rightarrow>
            case raw t of
              (_, Some e) \<Rightarrow> Some (None, [\<lparr>dg_severity = SeverityError, dg_summary = ''upgrade error'',
                dg_detail = ''unable to map version 1 to the current state, due to: '' @ ev_text ev e,
                dg_attribute = None\<rparr>])
            | (v, None) \<Rightarrow> do {
                (((dyn, e), s1), h2) \<leftarrow> upgrade_state wr so v s h1;
                Some (Some dyn, (case e of
                    Some e' \<Rightarrow> [err_to_diagnostic ev ''Upgrade State Error'' e']
                  | None \<Rightarrow> []))
              }))"

definition read_resource ::
  "('v, 't, 'd) wire \<Rightarrow> ('w, 's, 't, 'v) state_ops \<Rightarrow> 'p error_view \<Rightarrow> ('s \<Rightarrow> string) \<Rightarrow> 'w go_ctx
    \<Rightarrow> 'd \<Rightarrow> 's \<Rightarrow> 't heap \<Rightarrow> 'w \<Rightarrow> 'd option \<times> 'p diagnostic list" where
  "read_resource wr so ev show ctx current s h w =
     (case ctx_err ctx w of
        Some e \<Rightarrow> (None, [ctx_to_diagnostic ev e])
      | None \<Rightarrow>
          (case unmarshal_state wr so current s h of
             None \<Rightarrow> (None, recovered ev (show s))
           | Some ((_, Some e), _) \<Rightarrow> (None, [err_to_diagnostic ev ''Serialization Error'' e])
           | Some ((s1, None), h1) \<Rightarrow>
               (case marshal_of wr so s1 h1 of
                  None \<Rightarrow> (None, recovered ev (show s1))
                | Some ((dyn, Some e), _) \<Rightarrow> (Some dyn, [err_to_diagnostic ev ''Serialization Error'' e])
                | Some ((dyn, None), _) \<Rightarrow> (Some dyn, []))))"

text \<open>An imported resource is the state as it is, whatever its id; nothing is looked up.\<close>

definition import_resource_state ::
  "('v, 't, 'd) wire \<Rightarrow> ('w, 's, 't, 'v) state_ops \<Rightarrow> 'p error_view \<Rightarrow> 'w go_ctx \<Rightarrow> string
    \<Rightarrow> 's \<Rightarrow> 't heap \<Rightarrow> 'w \<Rightarrow> ((string \<times> 'd) list \<times> 'p diagnostic list) go" where
  "import_resource_state wr so ev ctx name s h w =
     (case ctx_err ctx w of
        Some e \<Rightarrow> Some ([], [ctx_to_diagnostic ev e])
      | None \<Rightarrow> do {
          ((dyn, e), h1) \<leftarrow> marshal_of wr so s h;
          Some (case e of
              Some e' \<Rightarrow> ([], [err_to_diagnostic ev ''Serialization Error'' e'])
            | None \<Rightarrow> ([(name, dyn)], []))
        })"

text \<open>
  The transport of a resource: a copy of the block of its state, completed by the provider's.
  The three calls below differ in the texts of their diagnostics.
\<close>

datatype merge_failure = CopyFailed goerr | DefaultsFailed goerr

definition merge_transport ::
  "('t, 'v) tf_lib \<Rightarrow> 'p path_lib \<Rightarrow> 'v embedded \<Rightarrow> 'v embedded \<Rightarrow> 't heap
    \<Rightarrow> ((merge_failure, 'v embedded \<times> 'v transport_state option) sum \<times> 't heap) go" where
  "merge_transport L P em defaults h = do {
     ((copied, e), h1) \<leftarrow> embedded_copy L P em h;
     (case e of
        Some e' \<Rightarrow> Some (Inl (CopyFailed e'), h1)
      | None \<Rightarrow> do {
          et \<leftarrow> deref copied;
          (et1, tr, e') \<leftarrow> embedded_apply_defaults L h1 et defaults;
          Some (case e' of Some x \<Rightarrow> Inl (DefaultsFailed x) | None \<Rightarrow> Inr (et1, tr), h1)
        })
   }"

definition set_resolved :: "('w, 's, 't, 'v) state_ops \<Rightarrow> 'v transport_state option \<Rightarrow> 's \<Rightarrow> 's" where
  "set_resolved so tr s = so_set_embedded so (set_resolved_transport tr (so_embedded so s)) s"

definition err_apply_defaults :: "goerr \<Rightarrow> goerr" where
  "err_apply_defaults e = ErrWrap ''failed to apply transport defaults, due to: '' e []"

definition no_provider_config :: "'p error_view \<Rightarrow> string \<Rightarrow> goerr \<Rightarrow> 'p diagnostic list" where
  "no_provider_config ev summary e = [\<lparr>dg_severity = SeverityError, dg_summary = summary,
     dg_detail = ''Failed to get provider config, due to: '' @ ev_text ev e, dg_attribute = None\<rparr>]"

text \<open>What is left of a state after a panic is not looked at; the model gives back what was there before.\<close>

definition read_build_transport ::
  "('t, 'v) tf_lib \<Rightarrow> 'p path_lib \<Rightarrow> ('v, 't, 'd) wire \<Rightarrow> ('w, 's, 't, 'v) state_ops \<Rightarrow> 'p error_view
    \<Rightarrow> ('s \<Rightarrow> string) \<Rightarrow> 'w go_ctx \<Rightarrow> 'v provider_config \<Rightarrow> 'd \<Rightarrow> 's \<Rightarrow> 't heap \<Rightarrow> 'w
    \<Rightarrow> ('v embedded option \<times> 'p diagnostic list) \<times> 's \<times> 't heap" where
  "read_build_transport L P wr so ev show ctx c current s h w =
     (case ctx_err ctx w of
        Some e \<Rightarrow> ((None, [ctx_to_diagnostic ev e]), s, h)
      | None \<Rightarrow>
     (case get_provider_config L P c h of
        None \<Rightarrow> ((None, recovered ev (show s)), s, h)
      | Some (Inl e, h1) \<Rightarrow> ((None, no_provider_config ev ''Read Error'' e), s, h1)
      | Some (Inr pc, h1) \<Rightarrow>
     (case unmarshal_state wr so current s h1 of
        None \<Rightarrow> ((None, recovered ev (show s)), s, h1)
      | Some ((s1, Some e), h2) \<Rightarrow> ((None, [err_to_diagnostic ev ''Serialization Error'' e]), s1, h2)
      | Some ((s1, None), h2) \<Rightarrow>
     (case merge_transport L P (so_embedded so s1) (pc_transport pc) h2 of
        None \<Rightarrow> ((None, recovered ev (show s1)), s1, h2)
      | Some (Inl (CopyFailed e), h3) \<Rightarrow> ((None, [err_to_diagnostic ev ''Read Error''
          (ErrText ''failed to copy embedded transport, due to: '' e [])]), s1, h3)
      | Some (Inl (DefaultsFailed e), h3) \<Rightarrow>
          ((None, [err_to_diagnostic ev ''Transport Error'' (err_apply_defaults e)]), s1, h3)
      | Some (Inr (et, tr), h3) \<Rightarrow> ((Some et, []), set_resolved so tr s1, h3)))))"

record ('s, 'v, 'p) built =
  bt_transport :: "'v embedded option"
  bt_diagnostics :: "'p diagnostic list"
  bt_replace :: "'p list"
  bt_prior :: 's
  bt_next :: 's

definition not_built :: "'p diagnostic list \<Rightarrow> 's \<Rightarrow> 's \<Rightarrow> ('s, 'v, 'p) built" where
  "not_built ds prior nxt =
     \<lparr>bt_transport = None, bt_diagnostics = ds, bt_replace = [], bt_prior = prior, bt_next = nxt\<rparr>"

text \<open>Planning and applying read the values without recovering.\<close>

definition plan_build_transport ::
  "('t, 'v) tf_lib \<Rightarrow> 'p path_lib \<Rightarrow> ('w, 's, 't, 'v) state_ops \<Rightarrow> 'p error_view \<Rightarrow> 'w go_ctx
    \<Rightarrow> 'v provider_config \<Rightarrow> ('v, 'd) change_request \<Rightarrow> 's \<Rightarrow> 's \<Rightarrow> 't heap \<Rightarrow> 'w
    \<Rightarrow> (('s, 'v, 'p) built \<times> 't heap) go" where
  "plan_build_transport L P so ev ctx c req prior proposed h w =
     (case ctx_err ctx w of
        Some e \<Rightarrow> Some (not_built [ctx_to_diagnostic ev e] prior proposed, h)
      | None \<Rightarrow> do {
     (cfg, h1) \<leftarrow> get_provider_config L P c h;
     (case cfg of
        Inl e \<Rightarrow> Some (not_built (no_provider_config ev ''Plan Error'' e) prior proposed, h1)
      | Inr pc \<Rightarrow> do {
     ((prior1, e), h2) \<leftarrow> so_from so (cr_prior req) prior h1;
     (case e of
        Some e' \<Rightarrow> Some (not_built [err_to_diagnostic ev ''Serialization Error'' e'] prior1 proposed, h2)
      | None \<Rightarrow> do {
     ((proposed1, e), h3) \<leftarrow> so_from so (cr_next req) proposed h2;
     (case e of
        Some e' \<Rightarrow> Some (not_built [err_to_diagnostic ev ''Serialization Error'' e'] prior1 proposed1, h3)
      | None \<Rightarrow> do {
     (m, h4) \<leftarrow> merge_transport L P (so_embedded so proposed1) (pc_transport pc) h3;
     (case m of
        Inl (CopyFailed e') \<Rightarrow> Some (not_built [err_to_diagnostic ev ''Transport Error''
          (ErrWrap ''failed to get proposed transport config, due to: '' e' [])] prior1 proposed1, h4)
      | Inl (DefaultsFailed e') \<Rightarrow>
          Some (not_built [err_to_diagnostic ev ''Transport Error'' e'] prior1 proposed1, h4)
      | Inr (et, tr) \<Rightarrow> do {
          paths \<leftarrow> transport_replaced_attribute_paths L P h4 (so_embedded so prior1) et;
          Some (\<lparr>bt_transport = Some et, bt_diagnostics = [], bt_replace = paths,
            bt_prior = prior1, bt_next = set_resolved so tr proposed1\<rparr>, h4)
        }) }) }) }) })"

definition apply_unmarshal_state ::
  "('w, 's, 't, 'v) state_ops \<Rightarrow> 'p error_view \<Rightarrow> 'w go_ctx \<Rightarrow> ('v, 'd) change_request
    \<Rightarrow> 's \<Rightarrow> 's \<Rightarrow> 't heap \<Rightarrow> 'w \<Rightarrow> (('p diagnostic list \<times> 's \<times> 's) \<times> 't heap) go" where
  "apply_unmarshal_state so ev ctx req prior planned h w =
     (case ctx_err ctx w of
        Some e \<Rightarrow> Some (([ctx_to_diagnostic ev e], prior, planned), h)
      | None \<Rightarrow> do {
          ((planned1, e), h1) \<leftarrow> so_from so (cr_next req) planned h;
          (case e of
             Some e' \<Rightarrow> Some (([err_to_diagnostic ev ''Serialization Error''
               (ErrText ''failed unmarshal planned state, due to: '' e' [])], prior, planned1), h1)
           | None \<Rightarrow> do {
               ((prior1, e), h2) \<leftarrow> so_from so (cr_prior req) prior h1;
               Some (((case e of
                   Some e' \<Rightarrow> [err_to_diagnostic ev ''Serialization Error''
                     (ErrText ''failed unmarshal prior state, due to: '' e' [])]
                 | None \<Rightarrow> []), prior1, planned1), h2)
             })
        })"

text \<open>The configuration is copied twice: by \<open>GetProviderConfig\<close> and by the call.\<close>

definition apply_build_transport ::
  "('t, 'v) tf_lib \<Rightarrow> 'p path_lib \<Rightarrow> ('w, 's, 't, 'v) state_ops \<Rightarrow> 'p error_view \<Rightarrow> 'w go_ctx
    \<Rightarrow> 'v provider_config \<Rightarrow> 's \<Rightarrow> 't heap \<Rightarrow> 'w
    \<Rightarrow> (('v embedded option \<times> 'p diagnostic list) \<times> 's \<times> 't heap) go" where
  "apply_build_transport L P so ev ctx c planned h w = do {
     (cfg, h1) \<leftarrow> get_provider_config L P c h;
     (case cfg of
        Inl e \<Rightarrow> Some ((None, [err_to_diagnostic ev ''Apply Error''
          (ErrText ''failed to get provider config, due to: '' e [])]), planned, h1)
      | Inr pc0 \<Rightarrow> do {
     (cfg, h2) \<leftarrow> get_provider_config L P pc0 h1;
     (case cfg of
        Inl e \<Rightarrow> Some ((None, [err_to_diagnostic ev ''Apply Error''
          (ErrText ''failed to copy provider config, due to: '' e [])]), planned, h2)
      | Inr pc \<Rightarrow>
     (case ctx_err ctx w of
        Some e \<Rightarrow> Some ((None, [ctx_to_diagnostic ev e]), planned, h2)
      | None \<Rightarrow> do {
     (m, h3) \<leftarrow> merge_transport L P (so_embedded so planned) (pc_transport pc) h2;
     (case m of
        Inl (CopyFailed e) \<Rightarrow> Some ((None, [err_to_diagnostic ev ''Apply Error''
          (ErrText ''failed to copy embedded transport, due to: '' e [])]), planned, h3)
      | Inl (DefaultsFailed e) \<Rightarrow>
          Some ((None, [err_to_diagnostic ev ''Transport Error'' (err_apply_defaults e)]), planned, h3)
      | Inr (et, tr) \<Rightarrow>
          let planned1 = set_resolved so tr planned in
          (case embedded_validate P ctx et w of
             Some e \<Rightarrow> Some ((None, [err_to_diagnostic ev ''Validation Error'' e]), planned1, h3)
           | None \<Rightarrow>
          (case so_validate so ctx planned1 w of
             Some e \<Rightarrow> Some ((None, [err_to_diagnostic ev ''Validation Error'' e]), planned1, h3)
           | None \<Rightarrow> Some ((Some et, []), planned1, h3)))) })) }) }"

subsection \<open>Lemmas\<close>

definition unresolved :: "'v embedded \<Rightarrow> 'v embedded" where
  "unresolved em = em\<lparr>em_resolved := None\<rparr>"

lemma unresolved_transports [simp]: "em_transports (unresolved em) = em_transports em"
  by (simp add: unresolved_def)

text \<open>The copy of a configuration that was read has its transports and its directory.\<close>

lemma get_provider_config_copies:
  assumes "tf_laws L" "faithful_block L P (em_transports (pc_transport c))"
  shows "\<exists>h1. get_provider_config L P c h
    = Some (Inr \<lparr>pc_transport = unresolved (pc_transport c),
        pc_debug_dir = tf_set (raw_val (pc_debug_dir c)) (new_tf [])\<rparr>, h1)"
  using faithful_copy [OF assms, of h]
  by (auto simp: get_provider_config_def config_copy_def unresolved_def deref_def)

text \<open>The transport of a state is the copy of its block with the provider's defaults.\<close>

lemma merge_transport_faithful:
  assumes "tf_laws L" "faithful_block L P (em_transports em)"
  shows "\<exists>h1. merge_transport L P em d h = (case embedded_apply_defaults L h1 (unresolved em) d of
      None \<Rightarrow> None
    | Some (et, tr, None) \<Rightarrow> Some (Inr (et, tr), h1)
    | Some (et, tr, Some e) \<Rightarrow> Some (Inl (DefaultsFailed e), h1))"
proof -
  from faithful_copy [OF assms, of h] obtain h1 where
    "embedded_copy L P em h = Some ((Some (unresolved em), None), h1)" by (auto simp: unresolved_def)
  then show ?thesis
    by (intro exI [of _ h1]) (auto simp: merge_transport_def deref_def split: option.splits)
qed

lemma merge_transport_one:
  assumes "tf_laws L" "faithful_block L P [(t, tr)]" "em_transports em = [(t, tr)]" "block_well_formed (em_transports d)"
  shows "\<exists>h1 tr'. merge_transport L P em d h
      = Some (Inr ((unresolved em)\<lparr>em_transports := [(t, tr')]\<rparr>, Some tr'), h1)
    \<and> well_formed tr' \<and> ts_type tr' = t"
proof -
  have b: "faithful_block L P (em_transports em)" using assms(2,3) by simp
  from merge_transport_faithful [OF assms(1) b, of d h] obtain h1 where
    m: "merge_transport L P em d h = (case embedded_apply_defaults L h1 (unresolved em) d of
      None \<Rightarrow> None
    | Some (et, tr, None) \<Rightarrow> Some (Inr (et, tr), h1)
    | Some (et, tr, Some e) \<Rightarrow> Some (Inl (DefaultsFailed e), h1))" by blast
  have "well_formed tr" "ts_type tr = t"
    using faithful_block_well_formed [OF assms(1,2)] by (simp_all add: block_well_formed_def)
  with apply_defaults_one [OF assms(1,4), of "unresolved em" t tr h1] assms(3) m show ?thesis
    by auto
qed

text \<open>What a transport for an apply has been through.\<close>

lemma apply_build_transport_checked:
  assumes "tf_laws L" "faithful_block L P (em_transports (pc_transport c))"
    "faithful_block L P (em_transports (so_embedded so planned))"
    "apply_build_transport L P so ev ctx c planned h w = Some ((et, ds), planned1, h1)"
  shows "case et of
      None \<Rightarrow> (\<exists>d. ds = [d] \<and> is_error d)
    | Some em \<Rightarrow> ds = [] \<and> embedded_validate P ctx em w = None \<and> so_validate so ctx planned1 w = None
        \<and> (\<exists>tr h2. planned1 = set_resolved so tr planned \<and> get_configured_transport em = (tr, None)
          \<and> embedded_apply_defaults L h2 (unresolved (so_embedded so planned)) (unresolved (pc_transport c))
            = Some (em, tr, None))"
proof -
  from get_provider_config_copies [OF assms(1,2), of h] obtain pc0 h2 where
    pc0: "get_provider_config L P c h = Some (Inr pc0, h2)" "pc_transport pc0 = unresolved (pc_transport c)"
    by force
  have "faithful_block L P (em_transports (pc_transport pc0))" using assms(2) pc0(2) by simp
  from get_provider_config_copies [OF assms(1) this, of h2] obtain pc h3 where
    pc: "get_provider_config L P pc0 h2 = Some (Inr pc, h3)" "pc_transport pc = unresolved (pc_transport c)"
    using pc0(2) by (force simp: unresolved_def)
  from merge_transport_faithful [OF assms(1,3), of "unresolved (pc_transport c)" h3] obtain h4 where
    m: "merge_transport L P (so_embedded so planned) (unresolved (pc_transport c)) h3
      = (case embedded_apply_defaults L h4 (unresolved (so_embedded so planned)) (unresolved (pc_transport c)) of
          None \<Rightarrow> None
        | Some (et, tr, None) \<Rightarrow> Some (Inr (et, tr), h4)
        | Some (et, tr, Some e) \<Rightarrow> Some (Inl (DefaultsFailed e), h4))" by blast
  note run = assms(4) [unfolded apply_build_transport_def, simplified pc0 pc m bind.bind_lunit prod.case sum.case]
  show ?thesis
  proof (cases "ctx_err ctx w")
    case (Some e)
    with run show ?thesis
      by (auto simp: ctx_to_diagnostic_def err_to_diagnostic_def diagnostic_of_def is_error_def split: option.splits)
  next
    case None
    with run obtain em tr e where
      d: "embedded_apply_defaults L h4 (unresolved (so_embedded so planned)) (unresolved (pc_transport c))
        = Some (em, tr, e)"
      by (auto split: option.splits)
    show ?thesis
    proof (cases e)
      case (Some e')
      with run d None show ?thesis
        by (auto simp: err_to_diagnostic_def diagnostic_of_def is_error_def split: option.splits)
    next
      case e: None
      from apply_defaults_configured [OF d [unfolded e]] have "get_configured_transport em = (tr, None)" by simp
      with run d e None show ?thesis
        by (auto simp: err_to_diagnostic_def diagnostic_of_def is_error_def Let_def split: option.splits)
    qed
  qed
qed

text \<open>
  A plan whose states were read, and whose proposed transport replaces one of another kind.
\<close>

lemma plan_kind_change:
  assumes "tf_laws L" "faithful_block L P (em_transports (pc_transport c))" "ctx_err ctx w = None"
    and "\<And>h. \<exists>h1. so_from so (cr_prior req) prior h = Some ((prior1, None), h1)"
    and "\<And>h. \<exists>h1. so_from so (cr_next req) proposed h = Some ((proposed1, None), h1)"
    and "faithful_block L P (em_transports (so_embedded so prior1))"
    and "(t1, tr1) \<in> set (em_transports (so_embedded so prior1))" "\<And>h. is_transport_configured L h tr1 = Some True"
    and "em_transports (so_embedded so proposed1) = [(t2, tr2)]" "faithful_block L P [(t2, tr2)]" "t1 \<noteq> t2"
  shows "plan_build_transport L P so ev ctx c req prior proposed h w = None"
proof -
  from get_provider_config_copies [OF assms(1,2), of h] obtain pc h1 where
    pc: "get_provider_config L P c h = Some (Inr pc, h1)" "pc_transport pc = unresolved (pc_transport c)"
    by force
  from assms(4) obtain h2 where r1: "so_from so (cr_prior req) prior h1 = Some ((prior1, None), h2)" by blast
  from assms(5) obtain h3 where r2: "so_from so (cr_next req) proposed h2 = Some ((proposed1, None), h3)" by blast
  have "block_well_formed (em_transports (unresolved (pc_transport c)))"
    using faithful_block_well_formed [OF assms(1,2)] by simp
  from merge_transport_one [OF assms(1,10,9) this, of h3] obtain h4 tr' where
    m: "merge_transport L P (so_embedded so proposed1) (unresolved (pc_transport c)) h3
      = Some (Inr ((unresolved (so_embedded so proposed1))\<lparr>em_transports := [(t2, tr')]\<rparr>, Some tr'), h4)"
      "well_formed tr'" "ts_type tr' = t2" by blast
  let ?et = "(unresolved (so_embedded so proposed1))\<lparr>em_transports := [(t2, tr')]\<rparr>"
  have wf: "block_well_formed (em_transports ?et)" using m by (simp add: block_well_formed_def)
  have "list_ex (\<lambda>(t, tr). is_transport_configured L h4 tr = Some True
      \<and> map_of (em_transports ?et) t = None) (em_transports (so_embedded so prior1))"
    using assms(7,8,11) by (intro list_ex_iff [THEN iffD2] bexI [OF _ assms(7)]) simp
  then have "transport_replaced_attribute_paths L P h4 (so_embedded so prior1) ?et = None"
    by (simp only: replaced_paths_outcome [OF assms(1) faithful_block_well_formed [OF assms(1,6)] wf] if_True)
  with pc r1 r2 m assms(3) show ?thesis by (simp add: plan_build_transport_def)
qed

lemma has_errors_simps [simp]: "\<not> has_errors []" "is_error d \<Longrightarrow> has_errors (d # ds)"
  by (simp_all add: has_errors_def get_error_diagnostic_def)

lemma has_errors_append [simp]: "has_errors (xs @ ys) \<longleftrightarrow> has_errors xs \<or> has_errors ys"
  by (auto simp: has_errors_def get_error_diagnostic_def find_None_iff)

lemma err_to_diagnostic_is_error [simp]: "is_error (err_to_diagnostic ev summary e)"
  by (auto simp: err_to_diagnostic_def diagnostic_of_def is_error_def split: option.splits)

text \<open>What is left of a state that was to be applied, and what a call without a transport says.\<close>

lemma apply_build_outcome:
  assumes "apply_build_transport L P so ev ctx c planned h w = Some ((et, ds), s, h1)"
  shows "(s = planned \<or> (\<exists>tr. s = set_resolved so tr planned))
    \<and> (case et of
        None \<Rightarrow> \<exists>d. ds = [d] \<and> is_error d
      | Some em \<Rightarrow> ds = [] \<and> embedded_validate P ctx em w = None \<and> so_validate so ctx s w = None)"
  using assms
  by (auto simp: apply_build_transport_def Let_def ctx_to_diagnostic_def err_to_diagnostic_def
      diagnostic_of_def is_error_def elim!: bind_eq_SomeE
      split: option.split_asm sum.split_asm merge_failure.split_asm prod.split_asm) blast+

lemma faithful_new_block [simp]: "faithful_block L P (em_transports new_embedded)"
  by (simp add: faithful_block_def new_embedded_def)

lemma config_read_faithful:
  assumes "tf_laws L" "config_from_value L P v new_provider_config h = Some ((c, None), h1)"
  shows "faithful_block L P (em_transports (pc_transport c))"
  using assms(2)
  by (auto simp: config_from_value_def new_provider_config_def Let_def elim!: bind_eq_SomeE
      dest!: read_block_faithful [OF assms(1)] split: option.split_asm prod.split_asm if_split_asm)

subsection \<open>The contract of a resource's state\<close>

text \<open>
  What the calls rely on: the block that is set is the block of the state, and reading a value
  into a state without transports leaves transports that were read.
\<close>

locale resource_state =
  fixes L :: "('t, 'v) tf_lib" and P :: "'p path_lib" and so :: "('w, 's, 't, 'v) state_ops"
  assumes set_block: "so_embedded so (so_set_embedded so em s) = em"
    and reads_block: "tf_laws L \<Longrightarrow> so_embedded so s = new_embedded \<Longrightarrow> so_from so v s h = Some ((s1, None), h1)
      \<Longrightarrow> faithful_block L P (em_transports (so_embedded so s1))"
begin

lemma kind_change_panics:
  assumes "tf_laws L" "config_from_value L P pv new_provider_config ph = Some ((c, None), ph1)" "ctx_err ctx w = None"
    and new: "so_embedded so prior0 = new_embedded" "so_embedded so proposed0 = new_embedded"
    and prior: "\<And>h. \<exists>h1. so_from so (cr_prior req) prior0 h = Some ((prior, None), h1)"
    and proposed: "\<And>h. \<exists>h1. so_from so (cr_next req) proposed0 h = Some ((proposed, None), h1)"
    and tr1: "(t1, tr1) \<in> set (em_transports (so_embedded so prior))"
      "\<exists>(n, a) \<in> set (ts_attrs tr1). is_unknown a \<or> \<not> is_null a"
    and tr2: "em_transports (so_embedded so proposed) = [(t2, tr2)]" "t1 \<noteq> t2"
  shows "plan_build_transport L P so ev ctx c req prior0 proposed0 h w = None"
proof -
  have "faithful_block L P (em_transports (so_embedded so prior))"
    using prior reads_block [OF assms(1) new(1)] by blast
  moreover have "faithful_block L P [(t2, tr2)]"
    using proposed reads_block [OF assms(1) new(2)] tr2(1) by metis
  moreover have "is_transport_configured L h tr1 = Some True" for h
    using tr1(2) by (auto simp: is_configured_iff [OF assms(1)] list_ex_iff)
  ultimately show ?thesis
    by (intro plan_kind_change [OF assms(1) config_read_faithful [OF assms(1,2)] assms(3) prior proposed _ tr1(1) _ tr2(1) _ tr2(2)])
qed

text \<open>The transport of an apply is the planned one with the defaults of the provider, and was checked.\<close>

lemma apply_checked:
  assumes "tf_laws L" "config_from_value L P pv new_provider_config ph = Some ((c, None), ph1)"
    and "so_embedded so prior0 = new_embedded" "so_embedded so planned0 = new_embedded"
    and "apply_unmarshal_state so ev ctx req prior0 planned0 h0 w = Some (([], prior, planned), h)"
    and "apply_build_transport L P so ev ctx c planned h w = Some ((Some em, ds), s, h1)"
  shows "ds = [] \<and> embedded_validate P ctx em w = None \<and> so_validate so ctx s w = None
    \<and> (\<exists>tr h2. get_configured_transport em = (tr, None)
      \<and> embedded_apply_defaults L h2 (unresolved (so_embedded so planned)) (unresolved (pc_transport c)) = Some (em, tr, None))"
proof -
  from assms(5) have "faithful_block L P (em_transports (so_embedded so planned))"
    by (auto simp: apply_unmarshal_state_def elim!: bind_eq_SomeE dest: reads_block [OF assms(1,4)]
        split: option.split_asm prod.split_asm)
  from apply_build_transport_checked [OF assms(1) config_read_faithful [OF assms(1,2)] this assms(6)] show ?thesis
    by auto
qed

end

subsection \<open>The calls of the instances\<close>

definition demo_value_of :: "(string \<times> string) list \<Rightarrow> (string \<times> demo_value) list \<Rightarrow> demo_value" where
  "demo_value_of strings others = DemoValue (TyObject 0 [])
     (MapValue (map (\<lambda>(k, x). (k, DemoValue TyString (StringValue x))) strings @ others))"

lemmas demo_reading = embedded_from_value_def demo_value_of_def demo_lib_def transport_type_from_def
  create_transport_def is_known_transport_type_def new_transport_def ssh_attributes_def k8s_attributes_def
  transport_from_value_def map_attributes_to_def string_props_def string_from_value_def from_tf_value_def
  unknown_dst_val_def null_dst_val_def unknown_value_def null_value_def verify_configuration_def
  lookup_value_def prop_strings_def new_embedded_def new_tf_def tf_set_def set_null_def set_unknown_def

definition demo_pod :: demo_value where
  "demo_pod = demo_value_of [] [(''kubernetes'', demo_value_of
     [(''kubeconfig_base64'', ''a2''), (''context_name'', ''c''), (''pod'', ''p'')] [])]"

definition demo_host :: demo_value where
  "demo_host = demo_value_of [] [(''ssh'', demo_value_of [(''host'', ''10.0.4.34'')] [])]"

definition demo_change :: "demo_value \<Rightarrow> demo_value \<Rightarrow> (demo_value, demo_value) change_request" where
  "demo_change prior nxt = \<lparr>cr_type_name = ''enos_file'', cr_prior = prior, cr_next = nxt, cr_config = None,
     cr_private = [], cr_meta = None\<rparr>"

definition demo_view :: "string list error_view" where
  "demo_view = \<lparr>ev_text = (\<lambda>e. ''failed''), ev_attr = (\<lambda>e. None)\<rparr>"

definition demo_wire :: "(demo_value, demo_type, demo_value) wire" where
  "demo_wire = \<lparr>wr_unmarshal = (\<lambda>d t. (d, None)), wr_dynamic = (\<lambda>t v. (v, None)),
     wr_null = (\<lambda>t. DemoValue t NilValue), wr_is_null = (\<lambda>v. demo_payload v = NilValue)\<rparr>"

definition demo_dialer :: "(nat, nat transport) dialer" where
  "demo_dialer = (\<lambda>t opts w. ((Some mock_transport, None), w))"

lemmas demo_building = apply_build_transport_def get_provider_config_def config_copy_def embedded_copy_def
  embedded_value_def merge_transport_def embedded_apply_defaults_def deref_def new_provider_config_def
  set_resolved_transport_def embedded_validate_def get_configured_transport_def transport_validate_def
  embedded_client_def transport_client_def transport_tf_value_def terraform5_value_def terraform5_type_def
  new_value_def attr_types_of_def required_attributes_def has_value_def attr_def tf_get_def

lemma live: "ctx_err live_ctx w = None" by (simp add: live_ctx_def)

end
