(* ===== verification/FileResource.thy ===== *)
theory FileResource
  imports PluginUtil RemoteFile Sha256
begin

text \<open>
  The resource enos_file (\<open>internal/plugin/resource_file.go\<close>): its state, how the state is read
  and made a value, and what a plan and an apply do. The files of the provider's machine are the
  record \<open>local_files\<close>: opening a path, and whether reading what was opened fails.
\<close>

record 'w local_files =
  lf_open :: "string \<Rightarrow> 'w \<Rightarrow> copyable \<times> error"
  lf_read :: "copyable \<Rightarrow> 'w \<Rightarrow> error"

record 'v file_state =
  fs_id :: tf_string
  fs_src :: tf_string
  fs_dst :: tf_string
  fs_content :: tf_string
  fs_sum :: tf_string
  fs_tmp_dir :: tf_string
  fs_chmod :: tf_string
  fs_chown :: tf_string
  fs_transport :: "'v embedded"

definition new_file_state :: "'v file_state" where
  "new_file_state = \<lparr>fs_id = new_tf [], fs_src = new_tf [], fs_dst = new_tf [], fs_content = new_tf [],
     fs_sum = new_tf [], fs_tmp_dir = new_tf [], fs_chmod = new_tf [], fs_chown = new_tf [],
     fs_transport = new_embedded\<rparr>"

subsection \<open>The state and its value\<close>

text \<open>The attributes by their names in the schema.\<close>

definition file_strings :: "'v file_state \<Rightarrow> (string \<times> tf_string) list" where
  "file_strings s = [(''id'', fs_id s), (''source'', fs_src s), (''destination'', fs_dst s),
     (''content'', fs_content s), (''sum'', fs_sum s), (''tmp_dir'', fs_tmp_dir s),
     (''chmod'', fs_chmod s), (''chown'', fs_chown s)]"

fun set_file_strings :: "tf_string list \<Rightarrow> 'v file_state \<Rightarrow> 'v file_state" where
  "set_file_strings [i, src, dst, content, sm, tmp, md, ow] s =
     s\<lparr>fs_id := i, fs_src := src, fs_dst := dst, fs_content := content, fs_sum := sm,
       fs_tmp_dir := tmp, fs_chmod := md, fs_chown := ow\<rparr>"
| "set_file_strings _ s = s"

definition file_from_value ::
  "('t, 'v) tf_lib \<Rightarrow> 'p path_lib \<Rightarrow> 'v \<Rightarrow> 'v file_state \<Rightarrow> 't heap
    \<Rightarrow> (('v file_state \<times> error) \<times> 't heap) go" where
  "file_from_value L P v s h = do {
     ((props, vals, e), h1) \<leftarrow> map_attributes_to L (\<lambda>v u. (u, None)) v (string_props (file_strings s)) h;
     let s1 = set_file_strings (map snd (prop_strings props)) s;
     (case e of
        Some e' \<Rightarrow> Some ((s1, Some e'), h1)
      | None \<Rightarrow>
          if val_known L (lookup_value L vals ''transport'') then do {
            ((em, e), h2) \<leftarrow> embedded_from_value L P (fs_transport s1) (lookup_value L vals ''transport'') h1;
            Some ((s1\<lparr>fs_transport := em\<rparr>, e), h2)
          } else Some ((s1, None), h1))
   }"

definition file_type :: "('t, 'v) tf_lib \<Rightarrow> 'v file_state \<Rightarrow> 't heap \<Rightarrow> 't \<times> 't heap" where
  "file_type L s h =
     (case new_map h of (a, h1) \<Rightarrow>
        (ty_object L a [], h1\<lparr>hp_maps := (hp_maps h1)
          (a := map (\<lambda>(n, x). (n, ty_string L)) (file_strings s) @ [(''transport'', ty_dynamic L)])\<rparr>))"

definition file_value :: "('t, 'v) tf_lib \<Rightarrow> 'v file_state \<Rightarrow> 't heap \<Rightarrow> ('v \<times> 't heap) go" where
  "file_value L s h =
     (case file_type L s h of (t, h1) \<Rightarrow> do {
        kvs \<leftarrow> map_values L h1 (file_strings s);
        (tv, h2) \<leftarrow> embedded_value L (fs_transport s) h1;
        v \<leftarrow> new_value L h2 t (MapValue (kvs @ [(''transport'', tv)]));
        Some (v, h2)
      })"

definition file_validate :: "'p path_lib \<Rightarrow> 'w local_files \<Rightarrow> 'w go_ctx \<Rightarrow> 'v file_state \<Rightarrow> 'w \<Rightarrow> error" where
  "file_validate P lf ctx s w =
     (case ctx_err ctx w of
        Some e \<Rightarrow> Some e
      | None \<Rightarrow>
          let ok_src = snd (tf_get (fs_src s)); ok_cnt = snd (tf_get (fs_content s)) in
          if \<not> ok_src \<and> \<not> ok_cnt then
            Some (validation_error P ''you must provide either the source location or file content'' [])
          else if ok_src \<and> ok_cnt then
            Some (validation_error P ''you must provide only of the source location or file content'' [])
          else if ok_src \<and> snd (lf_open lf (raw_val (fs_src s)) w) \<noteq> None then
            Some (validation_error P ''unable to open source file'' [''source''])
          else if ok_cnt \<and> raw_val (fs_content s) = [] then
            Some (validation_error P ''you must provide content'' [''content''])
          else None)"

definition file_ops ::
  "('t, 'v) tf_lib \<Rightarrow> 'p path_lib \<Rightarrow> 'w local_files \<Rightarrow> ('w, 'v file_state, 't, 'v) state_ops" where
  "file_ops L P lf = \<lparr>so_type = file_type L, so_value = file_value L, so_from = file_from_value L P,
     so_validate = file_validate P lf, so_embedded = fs_transport,
     so_set_embedded = (\<lambda>em s. s\<lparr>fs_transport := em\<rparr>)\<rparr>"

text \<open>
  The content of a source or the content itself; a source that is given wins. The message of a
  source that does not open is passed on as a step of the path.
\<close>

datatype source_type = FromSource | FromContent

fun source_name :: "source_type \<Rightarrow> string" where
  "source_name FromSource = ''source''"
| "source_name FromContent = ''content''"

definition open_source_or_content ::
  "'p path_lib \<Rightarrow> 'w local_files \<Rightarrow> 'v file_state \<Rightarrow> 'w \<Rightarrow> (goerr, copyable \<times> source_type) sum" where
  "open_source_or_content P lf s w =
     (if snd (tf_get (fs_src s)) then
        (case lf_open lf (raw_val (fs_src s)) w of
           (_, Some e) \<Rightarrow> Inl (attribute_path_error P e [''unable to open source file: [source]'', ''source''])
         | (cp, None) \<Rightarrow> Inr (cp, FromSource))
      else if snd (tf_get (fs_content s)) then Inr (new_reader (raw_val (fs_content s)), FromContent)
      else Inl (ErrNew ''invalid configuration, you must provide a either a source file or content''))"

definition has_unknown_attributes :: "'v file_state \<Rightarrow> bool" where
  "has_unknown_attributes s \<longleftrightarrow> is_unknown (fs_src s) \<or> is_unknown (fs_content s)"

text \<open>\<open>tfile.SHA256\<close>: the digest of what can still be read; content in memory is always read.\<close>

definition file_sha256 :: "'w local_files \<Rightarrow> copyable \<Rightarrow> source_type \<Rightarrow> 'w \<Rightarrow> (goerr, string) sum" where
  "file_sha256 lf cp ty w =
     (case (if ty = FromSource then lf_read lf cp w else None) of
        Some e \<Rightarrow> Inl e
      | None \<Rightarrow> Inr (sha256_hex (cp_rest cp)))"

subsection \<open>Planning and applying\<close>

definition file_plan ::
  "('t, 'v) tf_lib \<Rightarrow> 'p path_lib \<Rightarrow> 'w local_files \<Rightarrow> 'p error_view \<Rightarrow> 'w go_ctx
    \<Rightarrow> 'v provider_config \<Rightarrow> ('v, 'd) change_request \<Rightarrow> 't heap \<Rightarrow> 'w
    \<Rightarrow> (('v file_state \<times> 'p diagnostic list \<times> 'p list) \<times> 't heap) go" where
  "file_plan L P lf ev ctx c req h w = do {
     (b, h1) \<leftarrow> plan_build_transport L P (file_ops L P lf) ev ctx c req new_file_state new_file_state h w;
     if has_errors (bt_diagnostics b) then Some ((bt_next b, bt_diagnostics b, bt_replace b), h1)
     else (let s = (bt_next b)\<lparr>fs_sum := unknown_unless_set (fs_sum (bt_next b)),
             fs_id := unknown_unless_set (fs_id (bt_next b))\<rparr> in
       if has_unknown_attributes s then Some ((s, bt_diagnostics b, bt_replace b), h1)
       else (case open_source_or_content P lf s w of
           Inl e \<Rightarrow> Some ((s, bt_diagnostics b @ [err_to_diagnostic ev ''Invalid Configuration'' e],
             bt_replace b), h1)
         | Inr (src, ty) \<Rightarrow>
             (case file_sha256 lf src ty w of
                Inl e \<Rightarrow> Some ((s, bt_diagnostics b @ [err_to_diagnostic ev ''Invalid Configuration''
                  (ErrWrap (''unable to obtain file SHA256 sum for '' @ source_name ty @ '', due to: '') e [])],
                  bt_replace b), h1)
              | Inr sm \<Rightarrow> Some ((s\<lparr>fs_sum := tf_set sm (fs_sum s)\<rparr>, bt_diagnostics b, bt_replace b), h1))))
   }"

text \<open>The request for the copy: the owner is given to the option of the mode.\<close>

definition when_set :: "tf_string \<Rightarrow> (string \<Rightarrow> 'w copy_file_opt) \<Rightarrow> 'w copy_file_opt list" where
  "when_set a opt = (if snd (tf_get a) then [opt (raw_val a)] else [])"

definition file_copy_request :: "'v file_state \<Rightarrow> copyable \<Rightarrow> 'w copy_file_request" where
  "file_copy_request s src = new_copy_file_request
     ([with_copy_file_content src, with_copy_file_destination (raw_val (fs_dst s))]
      @ when_set (fs_tmp_dir s) with_copy_file_tmp_dir
      @ when_set (fs_chmod s) with_copy_file_chmod
      @ when_set (fs_chown s) with_copy_file_chmod)"

definition file_apply ::
  "('t, 'v) tf_lib \<Rightarrow> 'p path_lib \<Rightarrow> ('v, 't, 'd) wire \<Rightarrow> 'w local_files \<Rightarrow> 'p error_view \<Rightarrow> 'w go_ctx
    \<Rightarrow> ('w, 'w transport) dialer \<Rightarrow> 'v provider_config \<Rightarrow> ('v, 'd) change_request \<Rightarrow> 't heap \<Rightarrow> 'w
    \<Rightarrow> (('v file_state \<times> 'p diagnostic list) \<times> 't heap \<times> 'w) go" where
  "file_apply L P wr lf ev ctx dial c req h w = do {
     ((ds, prior, planned), h1) \<leftarrow> apply_unmarshal_state (file_ops L P lf) ev ctx req new_file_state new_file_state h w;
     if has_errors ds then Some ((planned, ds), h1, w)
     else if is_delete wr req then Some ((planned, ds), h1, w)
     else do {
       ((et, ds), s, h2) \<leftarrow> apply_build_transport L P (file_ops L P lf) ev ctx c
         (planned\<lparr>fs_id := tf_set ''static'' (fs_id planned)\<rparr>) h1 w;
       if has_errors ds then Some ((s, ds), h2, w)
       else (case open_source_or_content P lf s w of
           Inl e \<Rightarrow> Some ((s, ds @ [err_to_diagnostic ev ''Invalid Configuration'' e]), h2, w)
         | Inr (src, _) \<Rightarrow>
             if snd (tf_get (fs_id prior)) \<and> tf_eq (fs_sum prior) (Some (fs_sum s)) then Some ((s, ds), h2, w)
             else do {
               em \<leftarrow> deref et;
               (case embedded_client P ctx dial em w of
                  ((_, Some e), w1) \<Rightarrow> Some ((s, ds @ [err_to_diagnostic ev ''Invalid Configuration'' e]), h2, w1)
                | ((client, None), w1) \<Rightarrow> do {
                    tr \<leftarrow> deref client;
                    ((err, _), w2) \<leftarrow> copy_file ctx tr (Some (file_copy_request s src)) w1;
                    Some ((s, ds @ (case err of Some e \<Rightarrow> [err_to_diagnostic ev ''Copy Error'' e] | None \<Rightarrow> [])),
                      h2, w2)
                  })
             })
     }
   }"

subsection \<open>Lemmas\<close>

lemma file_ops_simps [simp]:
  "so_from (file_ops L P lf) = file_from_value L P" "so_validate (file_ops L P lf) = file_validate P lf"
  "so_embedded (file_ops L P lf) = fs_transport"
  "set_resolved (file_ops L P lf) tr s = s\<lparr>fs_transport := set_resolved_transport tr (fs_transport s)\<rparr>"
  by (simp_all add: file_ops_def set_resolved_def)

text \<open>What an apply does after both states were read and unless it deletes.\<close>

lemma file_apply_cases:
  fixes s :: "'v file_state"
  assumes "apply_unmarshal_state (file_ops L P lf) ev ctx req new_file_state new_file_state h w
      = Some (([], prior, planned), h1)"
    and "\<not> is_delete wr req" "file_apply L P wr lf ev ctx dial c req h w = Some ((s, ds), h2, w')"
  shows "\<exists>tr. s = planned\<lparr>fs_id := tf_set ''static'' (fs_id planned)\<rparr>
      \<or> s = planned\<lparr>fs_id := tf_set ''static'' (fs_id planned),
          fs_transport := set_resolved_transport tr (fs_transport planned)\<rparr>"
    and "snd (tf_get (fs_id prior)) \<Longrightarrow> fs_sum prior = fs_sum planned \<Longrightarrow> w' = w"
    and "ds = [] \<Longrightarrow> file_validate P lf ctx s w = None \<and> (\<exists>(em :: 'v embedded) src ty. embedded_validate P ctx em w = None
      \<and> open_source_or_content P lf s w = Inr (src, ty)
      \<and> (snd (tf_get (fs_id prior)) \<and> fs_sum prior = fs_sum planned
         \<or> (\<exists>tr w1 cp. embedded_client P ctx dial em w = ((Some tr, None), w1)
             \<and> copy_file ctx tr (Some (file_copy_request s src)) w1 = Some ((None, cp), w'))))"
proof -
  let ?p = "planned\<lparr>fs_id := tf_set ''static'' (fs_id planned)\<rparr>"
  from assms obtain et ds1 s1 h3 where
    b: "apply_build_transport L P (file_ops L P lf) ev ctx c ?p h1 w = Some ((et, ds1), s1, h3)"
    by (auto simp: file_apply_def bind_eq_Some_iff)
  note out = apply_build_outcome [OF b]
  from assms b have s: "s = s1"
    by (auto simp: file_apply_def elim!: bind_eq_SomeE split: if_split_asm sum.split_asm prod.split_asm option.split_asm)
  have sum1: "fs_sum s1 = fs_sum planned" using out by auto
  show "\<exists>tr. s = ?p \<or> s = planned\<lparr>fs_id := tf_set ''static'' (fs_id planned),
          fs_transport := set_resolved_transport tr (fs_transport planned)\<rparr>"
    using out s by auto
  show "w' = w" if "snd (tf_get (fs_id prior))" "fs_sum prior = fs_sum planned"
    using assms b sum1 that
    by (auto simp: file_apply_def tf_eq_def elim!: bind_eq_SomeE
        split: if_split_asm sum.split_asm prod.split_asm option.split_asm)
  show "file_validate P lf ctx s w = None \<and> (\<exists>(em :: 'v embedded) src ty. embedded_validate P ctx em w = None
      \<and> open_source_or_content P lf s w = Inr (src, ty)
      \<and> (snd (tf_get (fs_id prior)) \<and> fs_sum prior = fs_sum planned
         \<or> (\<exists>tr w1 cp. embedded_client P ctx dial em w = ((Some tr, None), w1)
             \<and> copy_file ctx tr (Some (file_copy_request s src)) w1 = Some ((None, cp), w'))))" if "ds = []"
  proof (cases et)
    case None
    with out obtain d where "ds1 = [d]" "is_error d" by auto
    with assms b that show ?thesis by (simp add: file_apply_def)
  next
    case (Some em)
    with out have o: "ds1 = []" "embedded_validate P ctx em w = None" "file_validate P lf ctx s1 w = None" by auto
    from assms b that o Some sum1 s show ?thesis
      by (auto simp: file_apply_def tf_eq_def deref_def elim!: bind_eq_SomeE
          split: if_split_asm sum.split_asm prod.split_asm option.split_asm)
  qed
qed

text \<open>The request of the copy never names an owner, and its mode is the owner when there is one.\<close>

definition file_mode :: "'v file_state \<Rightarrow> string" where
  "file_mode s = (if snd (tf_get (fs_chown s)) then raw_val (fs_chown s)
     else if snd (tf_get (fs_chmod s)) then raw_val (fs_chmod s) else [])"

definition file_tmp :: "'v file_state \<Rightarrow> string \<Rightarrow> string" where
  "file_tmp s rid = path_join [if snd (tf_get (fs_tmp_dir s)) then raw_val (fs_tmp_dir s) else ''/tmp'',
     path_base (raw_val (fs_dst s)) @ ''-'' @ rid]"

lemma file_copy_request_fields [simp]:
  "cf_chown (file_copy_request s src) = []" "cf_chmod (file_copy_request s src) = file_mode s"
  "cf_destination (file_copy_request s src) = raw_val (fs_dst s)" "cf_content (file_copy_request s src) = src"
  "tmp_path (file_copy_request s src) rid = file_tmp s rid"
  by (simp_all add: tmp_path_def file_tmp_def file_copy_request_def new_copy_file_request_def when_set_def copy_file_opt_defs file_mode_def)

text \<open>The states that are read have blocks that were read.\<close>

lemma set_file_strings_transport [simp]: "fs_transport (set_file_strings xs s) = fs_transport s"
  by (induction xs s rule: set_file_strings.induct) simp_all

lemma file_read_faithful:
  assumes "tf_laws L" "fs_transport s0 = new_embedded" "file_from_value L P v s0 h = Some ((s, None), h1)"
  shows "faithful_block L P (em_transports (fs_transport s))"
  using assms(3)
  by (auto simp: file_from_value_def assms(2) Let_def elim!: bind_eq_SomeE
      dest!: read_block_faithful [OF assms(1)] split: option.split_asm prod.split_asm if_split_asm)

interpretation file_states: resource_state L P "file_ops L P lf"
  by unfold_locales (auto simp: file_ops_def intro: file_read_faithful)

text \<open>The plan of the sum.\<close>

lemma file_plan_cases:
  fixes s :: "'v file_state"
  assumes "file_plan L P lf ev ctx c req h w = Some ((s, [], ps), h1)"
  shows "\<exists>b. plan_build_transport L P (file_ops L P lf) ev ctx c req new_file_state new_file_state h w = Some (b, h1)
    \<and> fs_src s = fs_src (bt_next b) \<and> fs_content s = fs_content (bt_next b)
    \<and> (if has_unknown_attributes s then fs_sum s = unknown_unless_set (fs_sum (bt_next b))
       else \<exists>src ty. open_source_or_content P lf s w = Inr (src, ty)
         \<and> fs_sum s = Tfv False False (sha256_hex (cp_rest src)))"
proof -
  have irrelevant: "open_source_or_content P lf (s\<lparr>fs_sum := x, fs_id := y\<rparr>) w = open_source_or_content P lf s w"
    "open_source_or_content P lf (s\<lparr>fs_id := y, fs_sum := x\<rparr>) w = open_source_or_content P lf s w"
    "has_unknown_attributes (s\<lparr>fs_sum := x, fs_id := y\<rparr>) = has_unknown_attributes s"
    "has_unknown_attributes (s\<lparr>fs_id := y, fs_sum := x\<rparr>) = has_unknown_attributes s"
    for s :: "'v file_state" and x y
    by (simp_all add: open_source_or_content_def has_unknown_attributes_def)
  from assms show ?thesis
    by (auto simp: file_plan_def Let_def irrelevant tf_set_def file_sha256_def elim!: bind_eq_SomeE
        split: if_split_asm sum.split_asm prod.split_asm option.split_asm)
qed

subsection \<open>Properties\<close>

text \<open>
  C23: an apply without a diagnostic that does not delete either finds
  the sum of a file that was made before unchanged and does nothing on the host, or opened the
  source, connected, and one attempt copied it, set the mode, made the directory and moved the
  file. The owner is never set; an owner that is given is used as the mode, in place of one.
\<close>

theorem file_apply_copies:
  fixes s :: "'v file_state"
  assumes "apply_unmarshal_state (file_ops L P lf) ev ctx req new_file_state new_file_state h w
      = Some (([], prior, planned), h1)"
    and "\<not> is_delete wr req" "file_apply L P wr lf ev ctx dial c req h w = Some ((s, []), h2, w')"
  shows "file_validate P lf ctx s w = None
    \<and> (if snd (tf_get (fs_id prior)) \<and> fs_sum prior = fs_sum planned then w' = w
       else \<exists>(em :: 'v embedded) src ty tr w1 tmp cp0 cp1 w2 w3 w4 w5.
         embedded_validate P ctx em w = None \<and> open_source_or_content P lf s w = Inr (src, ty)
         \<and> embedded_client P ctx dial em w = ((Some tr, None), w1)
         \<and> tmp = file_tmp s (fst (random_id ctx w1))
         \<and> tr_copy tr cp0 tmp w2 = (None, cp1, w3)
         \<and> (if file_mode s \<noteq> [] then ran_ok tr (''chmod '' @ file_mode s @ '' '' @ tmp)
              (''sudo chmod '' @ file_mode s @ '' '' @ tmp) w3 w4 else w4 = w3)
         \<and> ran_ok tr (''mkdir -p '' @ quoted (path_dir (raw_val (fs_dst s))))
              (''sudo mkdir -p '' @ quoted (path_dir (raw_val (fs_dst s)))) w4 w5
         \<and> ran_ok tr (''mv '' @ tmp @ '' '' @ raw_val (fs_dst s))
              (''sudo mv '' @ tmp @ '' '' @ raw_val (fs_dst s)) w5 w')"
proof (cases "snd (tf_get (fs_id prior)) \<and> fs_sum prior = fs_sum planned")
  case True
  with file_apply_cases(2,3) [OF assms] show ?thesis by simp
next
  case False
  with file_apply_cases(3) [OF assms] obtain em :: "'v embedded" and src ty tr w1 cp where
    v: "file_validate P lf ctx s w = None" "embedded_validate P ctx em w = None"
    and o: "open_source_or_content P lf s w = Inr (src, ty)"
    and c: "embedded_client P ctx dial em w = ((Some tr, None), w1)"
    and copy: "copy_file ctx tr (Some (file_copy_request s src)) w1 = Some ((None, cp), w')"
    by auto
  from copy_file_ok_cases [OF copy] obtain rid w0 cp0 cp1 w2 where "random_id ctx w1 = (rid, w0)"
    "file_operations tr (file_copy_request s src) (file_tmp s rid) (w2, cp0) = Some ((None, None), w', cp1)"
    by auto
  with v o c False show ?thesis
    by (fastforce simp: file_operations_ok_iff chmod_stage_def chown_stage_def mkdir_stage_def mv_stage_def
        try_then_sudo_ok_iff Let_def)
qed

text \<open>
  C24: what is planned decides whether a file that was made before
  is copied again. With a content that is known nothing is copied when its digest is the sum there
  is; with one that is not known yet the proposed sum stands, which Terraform takes from the prior
  state, and nothing is copied whatever the content becomes.
\<close>

theorem file_upload_decision:
  assumes "file_plan L P lf ev ctx0 c0 req0 h0 w0 = Some ((s0, [], ps), h01)"
    and "plan_build_transport L P (file_ops L P lf) ev ctx0 c0 req0 new_file_state new_file_state h0 w0 = Some (b, h01)"
    and "apply_unmarshal_state (file_ops L P lf) ev ctx req new_file_state new_file_state h w
      = Some (([], prior, planned), h1)"
    and "fs_sum planned = fs_sum s0" "\<not> is_delete wr req" "snd (tf_get (fs_id prior))"
    and "file_apply L P wr lf ev ctx dial c req h w = Some ((s, ds), h2, w')"
  shows "fs_sum s = fs_sum s0
    \<and> (if has_unknown_attributes s0
       then snd (tf_get (fs_sum prior)) \<and> fs_sum (bt_next b) = fs_sum prior \<longrightarrow> w' = w
       else \<exists>src ty. open_source_or_content P lf s0 w0 = Inr (src, ty)
         \<and> fs_sum s0 = Tfv False False (sha256_hex (cp_rest src))
         \<and> (fs_sum prior = Tfv False False (sha256_hex (cp_rest src)) \<longrightarrow> w' = w))"
proof -
  note done_by = file_apply_cases [OF assms(3,5,7)]
  have "fs_sum s = fs_sum planned" using done_by(1) by auto
  moreover have "fs_sum prior = fs_sum s0 \<Longrightarrow> w' = w" using done_by(2) assms(4,6) by simp
  ultimately show ?thesis
    using file_plan_cases [OF assms(1)] assms(2,4) by (auto simp: unknown_unless_set_def)
qed

text \<open>
  Planning a file whose transport was of one kind and is
  proposed to be of another panics, for every provider configuration that was read.
\<close>

theorem file_kind_change_panics:
  assumes "tf_laws L" "config_from_value L P pv new_provider_config ph = Some ((c, None), ph1)" "ctx_err ctx w = None"
    and "\<And>h. \<exists>h1. file_from_value L P (cr_prior req) new_file_state h = Some ((prior, None), h1)"
    and "\<And>h. \<exists>h1. file_from_value L P (cr_next req) new_file_state h = Some ((proposed, None), h1)"
    and "(t1, tr1) \<in> set (em_transports (fs_transport prior))" "\<exists>(n, a) \<in> set (ts_attrs tr1). is_unknown a \<or> \<not> is_null a"
    and "em_transports (fs_transport proposed) = [(t2, tr2)]" "t1 \<noteq> t2"
  shows "file_plan L P lf ev ctx c req h w = None"
proof -
  have "plan_build_transport L P (file_ops L P lf) ev ctx c req new_file_state new_file_state h w = None"
    by (rule file_states.kind_change_panics [OF assms(1-3)])
      (use assms in \<open>simp_all add: file_ops_def new_file_state_def\<close>)
  then show ?thesis by (simp add: file_plan_def)
qed

subsection \<open>Witnesses\<close>

lemmas demo_file_reading = demo_reading file_from_value_def file_strings_def new_file_state_def

definition demo_file :: "(string \<times> string) list \<Rightarrow> demo_value \<Rightarrow> demo_value" where
  "demo_file strings tr = demo_value_of ([(''destination'', ''/etc/motd''), (''content'', ''hi'')] @ strings)
     [(''transport'', tr)]"

definition demo_files :: "nat local_files" where
  "demo_files = \<lparr>lf_open = (\<lambda>path w. (new_reader ''hi'', None)), lf_read = (\<lambda>cp w. None)\<rparr>"

theorem file_kind_change_panics_witness:
  "file_plan demo_lib demo_paths demo_files demo_view live_ctx new_provider_config
     (demo_change (demo_file [] demo_host) (demo_file [] demo_pod)) demo_heap 0 = None"
proof -
  have c: "config_from_value demo_lib demo_paths (demo_value_of [] [(''transport'', DemoValue TyDynamic UnknownValue)])
      new_provider_config demo_heap = Some ((new_provider_config, None), demo_heap)"
    by (simp add: config_from_value_def demo_file_reading)
  obtain prior tr1 where prior: "\<And>h. \<exists>h1. file_from_value demo_lib demo_paths (demo_file [] demo_host) new_file_state h
      = Some ((prior, None), h1)" "(SSH, tr1) \<in> set (em_transports (fs_transport prior))"
      "\<exists>(n, a) \<in> set (ts_attrs tr1). is_unknown a \<or> \<not> is_null a"
    by (simp add: demo_file_def demo_host_def demo_file_reading)
  obtain proposed tr2 where "\<And>h. \<exists>h1. file_from_value demo_lib demo_paths (demo_file [] demo_pod) new_file_state h
      = Some ((proposed, None), h1)" "em_transports (fs_transport proposed) = [(K8S, tr2)]"
    by (simp add: demo_file_def demo_pod_def demo_file_reading)
  with prior show ?thesis
    by (intro file_kind_change_panics [OF demo_laws c, where prior = prior and proposed = proposed])
      (auto simp: demo_change_def live_ctx_def)
qed

definition null_file :: demo_value where "null_file = DemoValue TyDynamic NilValue"

lemma demo_apply_file: "\<exists>s h2. file_apply demo_lib demo_paths demo_wire demo_files demo_view live_ctx demo_dialer new_provider_config
     (demo_change null_file (demo_file [(''chown'', ''root'')] demo_pod)) demo_heap 0 = Some ((s, []), h2, 0)
   \<and> fs_dst s = Tfv False False ''/etc/motd'' \<and> fs_chown s = Tfv False False ''root'' \<and> fs_tmp_dir s = new_tf []"
  by (simp add: file_apply_def apply_unmarshal_state_def demo_change_def live null_file_def demo_file_reading
      demo_file_def demo_pod_def is_delete_def demo_wire_def)
    (simp add: demo_building demo_heap_def demo_file_reading new_map_def transport_type_from_def live, simp add: Let_def
      file_validate_def live demo_files_def tf_get_def open_source_or_content_def demo_building client_opts_def
      demo_dialer_def quiet_copy_file [OF quiet_mock])

lemma demo_client_is_mock:
  "embedded_client demo_paths live_ctx demo_dialer em w = ((Some tr, None), w1) \<Longrightarrow> tr = mock_transport"
  by (auto simp: embedded_client_def live demo_dialer_def transport_client_def split: option.split_asm prod.split_asm)

lemma demo_apply_read:
  "\<exists>prior planned h1. apply_unmarshal_state (file_ops demo_lib demo_paths demo_files) demo_view live_ctx
     (demo_change null_file (demo_file [(''chown'', ''root'')] demo_pod)) new_file_state new_file_state demo_heap 0
     = Some (([], prior, planned), h1) \<and> \<not> snd (tf_get (fs_id prior))"
  by (simp add: apply_unmarshal_state_def demo_change_def live null_file_def demo_file_reading demo_file_def demo_pod_def
      tf_get_def)

theorem file_apply_copies_witness:
  "\<exists>w1 w2. ran_ok mock_transport ''chmod root /tmp/motd-1'' ''sudo chmod root /tmp/motd-1'' w1 (w2 :: nat)"
proof -
  let ?req = "demo_change null_file (demo_file [(''chown'', ''root'')] demo_pod)"
  obtain prior planned h1 where r: "apply_unmarshal_state (file_ops demo_lib demo_paths demo_files) demo_view live_ctx
      ?req new_file_state new_file_state demo_heap 0 = Some (([], prior, planned), h1)" "\<not> snd (tf_get (fs_id prior))"
    using demo_apply_read by blast
  obtain s h2 where s: "file_apply demo_lib demo_paths demo_wire demo_files demo_view live_ctx demo_dialer
      new_provider_config ?req demo_heap 0 = Some ((s, []), h2, 0)" "fs_dst s = Tfv False False ''/etc/motd''"
      "fs_chown s = Tfv False False ''root''" "fs_tmp_dir s = new_tf []"
    using demo_apply_file by blast
  have "\<not> is_delete demo_wire ?req" by (simp add: is_delete_def demo_wire_def demo_change_def null_file_def)
  from file_apply_copies [OF r(1) this s(1)] r(2) obtain em :: "demo_value embedded" and tr w1 tmp w3 w4 where
    c: "embedded_client demo_paths live_ctx demo_dialer em 0 = ((Some tr, None), w1)"
    and tmp: "tmp = file_tmp s (fst (random_id live_ctx w1))"
    and ran: "if file_mode s \<noteq> [] then ran_ok tr (''chmod '' @ file_mode s @ '' '' @ tmp)
        (''sudo chmod '' @ file_mode s @ '' '' @ tmp) w3 w4 else w4 = w3"
    by auto
  have "path_join [''/tmp'', path_base ''/etc/motd'' @ ''-'' @ ''1''] = ''/tmp/motd-1''" by code_simp
  with tmp s(2,4) have "tmp = ''/tmp/motd-1''" by (simp add: file_tmp_def tf_get_def new_tf_def live_ctx_def)
  with ran s(3) demo_client_is_mock [OF c] show ?thesis
    by (auto simp: file_mode_def tf_get_def)
qed

text \<open>A file whose content is not known when its change is planned.\<close>

definition made_file :: "demo_value \<Rightarrow> demo_value" where
  "made_file content = demo_value_of [(''destination'', ''/etc/motd''), (''id'', ''static''), (''sum'', ''1'')]
     [(''content'', content), (''transport'', demo_pod)]"

definition content_unknown :: demo_value where
  "content_unknown = made_file (DemoValue TyString UnknownValue)"

definition content_now :: "string \<Rightarrow> demo_value" where
  "content_now x = made_file (DemoValue TyString (StringValue x))"

lemma demo_plan_built:
  "\<exists>b h1. plan_build_transport demo_lib demo_paths (file_ops demo_lib demo_paths demo_files) demo_view live_ctx
      new_provider_config (demo_change (content_now ''old'') content_unknown) new_file_state new_file_state demo_heap 0
      = Some (b, h1) \<and> bt_diagnostics b = [] \<and> is_unknown (fs_content (bt_next b))
      \<and> fs_sum (bt_next b) = Tfv False False ''1''"
  by (simp add: plan_build_transport_def demo_change_def live content_unknown_def content_now_def made_file_def
      demo_file_reading demo_pod_def)
    (simp add: demo_building demo_heap_def demo_file_reading new_map_def transport_type_from_def live
      transport_replaced_attribute_paths_def is_transport_configured_def string_value_def tf_value_def
      add_attributes_for_replace_def attributes_for_replace_def)

lemma demo_update_read:
  "\<exists>prior planned h1. apply_unmarshal_state (file_ops demo_lib demo_paths demo_files) demo_view live_ctx
     (demo_change (content_now ''old'') (content_now ''new'')) new_file_state new_file_state demo_heap 0
     = Some (([], prior, planned), h1) \<and> snd (tf_get (fs_id prior)) \<and> fs_sum prior = Tfv False False ''1''
     \<and> fs_sum planned = Tfv False False ''1''"
  by (simp add: apply_unmarshal_state_def demo_change_def live content_now_def made_file_def demo_file_reading demo_pod_def
      tf_get_def)

lemma demo_update_applied:
  "\<exists>s h2 w'. file_apply demo_lib demo_paths demo_wire demo_files demo_view live_ctx demo_dialer new_provider_config
     (demo_change (content_now ''old'') (content_now ''new'')) demo_heap 0 = Some ((s, []), h2, w')"
  by (simp add: file_apply_def apply_unmarshal_state_def demo_change_def live content_now_def made_file_def
      demo_file_reading demo_pod_def is_delete_def demo_wire_def)
    (simp add: demo_building demo_heap_def demo_file_reading new_map_def transport_type_from_def live, simp add: Let_def
      file_validate_def live demo_files_def tf_get_def open_source_or_content_def demo_building tf_eq_def)

theorem file_upload_decision_witness:
  "\<exists>s h2. file_apply demo_lib demo_paths demo_wire demo_files demo_view live_ctx demo_dialer new_provider_config
     (demo_change (content_now ''old'') (content_now ''new'')) demo_heap 0 = Some ((s, []), h2, 0)
     \<and> fs_sum s = Tfv False False ''1''"
proof -
  let ?plan = "demo_change (content_now ''old'') content_unknown"
  let ?req = "demo_change (content_now ''old'') (content_now ''new'')"
  obtain b h01 where b: "plan_build_transport demo_lib demo_paths (file_ops demo_lib demo_paths demo_files) demo_view
      live_ctx new_provider_config ?plan new_file_state new_file_state demo_heap 0 = Some (b, h01)"
      "bt_diagnostics b = []" "is_unknown (fs_content (bt_next b))" "fs_sum (bt_next b) = Tfv False False ''1''"
    using demo_plan_built by blast
  then obtain s0 where p: "file_plan demo_lib demo_paths demo_files demo_view live_ctx new_provider_config ?plan
      demo_heap 0 = Some ((s0, [], bt_replace b), h01)" "has_unknown_attributes s0" "fs_sum s0 = Tfv False False ''1''"
    by (simp add: file_plan_def has_unknown_attributes_def unknown_unless_set_def tf_get_def)
  obtain prior planned h1 where r: "apply_unmarshal_state (file_ops demo_lib demo_paths demo_files) demo_view live_ctx
      ?req new_file_state new_file_state demo_heap 0 = Some (([], prior, planned), h1)" "snd (tf_get (fs_id prior))"
      "fs_sum prior = Tfv False False ''1''" "fs_sum planned = Tfv False False ''1''"
    using demo_update_read by blast
  obtain s h2 w' where s: "file_apply demo_lib demo_paths demo_wire demo_files demo_view live_ctx demo_dialer
      new_provider_config ?req demo_heap 0 = Some ((s, []), h2, w')"
    using demo_update_applied by blast
  have "\<not> is_delete demo_wire ?req"
    by (simp add: is_delete_def demo_wire_def demo_change_def content_now_def made_file_def demo_value_of_def)
  from file_upload_decision [OF p(1) b(1) r(1) _ this r(2) s] b(4) p(2,3) r(3,4) s show ?thesis
    by (auto simp: tf_get_def)
qed

end
