(* ===== verification/Hcl.thy ===== *)
theory Hcl
  imports TfTypes RemoteFile
begin

text \<open>
  The builder of HCL documents and the copy of one to a host
  (\<open>internal/remoteflight/hcl/builder.go\<close> and \<open>request.go\<close>). The libraries that make a value of
  a Go value and write the document are the record \<open>hcl_lib\<close>; \<open>'b\<close> is a body of a document.
\<close>

datatype 'v hcl_entry =
    HclAttribute string "'v native"
  | HclBlock string "string list" "'v hcl_entry list"

type_synonym 'v hcl_builder = "'v hcl_entry list"

text \<open>
  The range over a map of attributes may give them in any order; the model takes the order of the
  list. The builder of a block that was appended is the last argument of its entry.
\<close>

definition hcl_attributes :: "(string \<times> 'v native) list \<Rightarrow> 'v hcl_builder" where
  "hcl_attributes attrs = map (\<lambda>(k, v). HclAttribute k v) attrs"

record ('v, 'c, 'b) hcl_lib =
  hl_value :: "'v native \<Rightarrow> (goerr, 'c) sum"
  hl_show :: "'v native \<Rightarrow> string"
  hl_empty :: 'b
  hl_set :: "string \<Rightarrow> 'c \<Rightarrow> 'b \<Rightarrow> 'b"
  hl_block :: "string \<Rightarrow> string list \<Rightarrow> 'b \<Rightarrow> 'b \<Rightarrow> 'b"
  hl_text :: "'b \<Rightarrow> string"

text \<open>A block is in its parent before its entries are added, and stays there when one fails.\<close>

fun append_to :: "('v, 'c, 'b) hcl_lib \<Rightarrow> 'v hcl_entry \<Rightarrow> 'b \<Rightarrow> 'b \<times> error"
and append_all :: "('v, 'c, 'b) hcl_lib \<Rightarrow> 'v hcl_entry list \<Rightarrow> 'b \<Rightarrow> 'b \<times> error" where
  "append_to H (HclAttribute k v) b =
     (case hl_value H v of
        Inl e \<Rightarrow> (b, Some (ErrWrap (''failed to append attribute, key='' @ k @ '', value='' @ hl_show H v
          @ '', due to: '') e []))
      | Inr c \<Rightarrow> (hl_set H k c b, None))"
| "append_to H (HclBlock name labels entries) b =
     (case append_all H entries (hl_empty H) of (nested, e) \<Rightarrow> (hl_block H name labels nested b, e))"
| "append_all H [] b = (b, None)"
| "append_all H (x # xs) b =
     (case append_to H x b of (b1, Some e) \<Rightarrow> (b1, Some e) | (b1, None) \<Rightarrow> append_all H xs b1)"

definition build_hcl :: "('v, 'c, 'b) hcl_lib \<Rightarrow> 'v hcl_builder \<Rightarrow> string \<times> error" where
  "build_hcl H entries =
     (case append_all H entries (hl_empty H) of (b, Some e) \<Rightarrow> ([], Some e) | (b, None) \<Rightarrow> (hl_text H b, None))"

record 'v hcl_request =
  hr_config :: "'v hcl_builder option"
  hr_path :: string
  hr_chmod :: string
  hr_chown :: string

type_synonym 'v hcl_opt = "'v hcl_request \<Rightarrow> 'v hcl_request"

definition new_hcl_request :: "'v hcl_opt list \<Rightarrow> 'v hcl_request" where
  "new_hcl_request opts = apply_opts opts \<lparr>hr_config = None, hr_path = [], hr_chmod = [], hr_chown = []\<rparr>"

definition with_hcl_path :: "string \<Rightarrow> 'v hcl_opt" where
  "with_hcl_path p r = r\<lparr>hr_path := p\<rparr>"

definition with_hcl_file :: "'v hcl_builder \<Rightarrow> 'v hcl_opt" where
  "with_hcl_file b r = r\<lparr>hr_config := Some b\<rparr>"

definition with_hcl_chmod :: "string \<Rightarrow> 'v hcl_opt" where
  "with_hcl_chmod m r = r\<lparr>hr_chmod := m\<rparr>"

definition with_hcl_chown :: "string \<Rightarrow> 'v hcl_opt" where
  "with_hcl_chown m r = r\<lparr>hr_chown := m\<rparr>"

lemmas hcl_opt_defs = with_hcl_path_def with_hcl_file_def with_hcl_chmod_def with_hcl_chown_def

definition hcl_copy_request :: "'v hcl_request \<Rightarrow> string \<Rightarrow> 'w copy_file_request" where
  "hcl_copy_request req text = new_copy_file_request
     ([with_copy_file_content (new_reader text), with_copy_file_destination (hr_path req)]
      @ (if hr_chmod req \<noteq> [] then [with_copy_file_chmod (hr_chmod req)] else [])
      @ (if hr_chown req \<noteq> [] then [with_copy_file_chown (hr_chown req)] else []))"

text \<open>A nil builder is followed before anything is looked at.\<close>

definition create_hcl_config_file ::
  "('v, 'c, 'b) hcl_lib \<Rightarrow> 'w go_ctx \<Rightarrow> 'w transport \<Rightarrow> 'v hcl_request \<Rightarrow> 'w \<Rightarrow> (error \<times> 'w) go" where
  "create_hcl_config_file H ctx tr req w = do {
     b \<leftarrow> deref (hr_config req);
     (case build_hcl H b of
        (_, Some e) \<Rightarrow> Some (Some e, w)
      | (text, None) \<Rightarrow>
          if hr_path req = [] then Some (Some (ErrNew ''you must provide a config file destination path''), w)
          else do {
            ((err, _), w1) \<leftarrow> copy_file ctx tr (Some (hcl_copy_request req text)) w;
            Some (err, w1)
          })
   }"

lemma hcl_copy_request_fields [simp]:
  "cf_chmod (hcl_copy_request req text) = hr_chmod req" "cf_chown (hcl_copy_request req text) = hr_chown req"
  "cf_destination (hcl_copy_request req text) = hr_path req"
  "cf_content (hcl_copy_request req text) = new_reader text"
  by (simp_all add: hcl_copy_request_def new_copy_file_request_def copy_file_opt_defs)

end
