(* ===== verification/VaultConfig.thy ===== *)
theory VaultConfig
  imports PluginUtil Hcl
begin

text \<open>
  The configuration of a Vault server as attributes of a resource: \<open>internal/plugin\<close>
  \<open>vault_config_block.go\<close> (a seal), \<open>vault_config_storage.go\<close>, \<open>vault_config_listener.go\<close>,
  \<open>vault_config_seals.go\<close> and \<open>vaultConfig\<close> of \<open>resource_vault_start.go\<close>. The parts are
  pointers that the constructors set and that are never nil. The attributes of a value are read in
  the order of the list; Go ranges over a map.
\<close>

subsection \<open>A block (vault_config_block.go)\<close>

text \<open>\<open>cb_raw\<close> is none for the zero value, which has no type.\<close>

record 'v config_block =
  cb_paths :: "string list"
  cb_type :: tf_string
  cb_attrs :: "'v tf_object"
  cb_values :: "(string \<times> 'v) list"
  cb_raw :: "'v option"
  cb_unknown :: bool
  cb_null :: bool

definition new_config_block :: "string list \<Rightarrow> 't heap \<Rightarrow> 'v config_block \<times> 't heap" where
  "new_config_block paths h = (case new_tf_object h of (b, h1) \<Rightarrow>
     (\<lparr>cb_paths = paths, cb_type = new_tf [], cb_attrs = b, cb_values = [], cb_raw = None,
       cb_unknown = False, cb_null = True\<rparr>, h1))"

record 'v block_setting =
  bs_type :: string
  bs_attrs :: "(string \<times> 'v tf_any) list"
  bs_paths :: "string list"

definition config_block_set ::
  "'v block_setting option \<Rightarrow> 'v config_block \<Rightarrow> 'v config_block" where
  "config_block_set x s =
     (case x of
        None \<Rightarrow> s
      | Some b \<Rightarrow> s\<lparr>cb_unknown := False, cb_null := False, cb_paths := bs_paths b,
          cb_type := tf_set (bs_type b) (cb_type s), cb_attrs := object_set (bs_attrs b) (cb_attrs s)\<rparr>)"

fun config_block_entries ::
  "('t, 'v) tf_lib \<Rightarrow> (string \<times> 'v) list \<Rightarrow> 'v config_block \<Rightarrow> 't heap
    \<Rightarrow> (('v config_block \<times> error) \<times> 't heap) go" where
  "config_block_entries L [] s h = Some ((s, None), h)"
| "config_block_entries L ((k, v) # kvs) s h =
     (if k = ''type'' then
        (case string_from_value L h (cb_type s) v of
           (t, Some e) \<Rightarrow> Some ((s\<lparr>cb_type := t\<rparr>, Some e), h)
         | (t, None) \<Rightarrow> config_block_entries L kvs (s\<lparr>cb_type := t\<rparr>) h)
      else if k = ''attributes'' then
        (if \<not> val_known L v then
           config_block_entries L kvs (s\<lparr>cb_attrs := object_set_unknown (cb_attrs s)\<rparr>) h
         else if val_null L v then config_block_entries L kvs s h
         else (case val_as_map L v (cb_values s) of
             (m, Some e) \<Rightarrow> Some ((s\<lparr>cb_raw := Some v, cb_values := m\<rparr>, Some e), h)
           | (m, None) \<Rightarrow> do {
               ((b, e), h1) \<leftarrow> object_from_value L (cb_attrs s) v h;
               let s1 = s\<lparr>cb_raw := Some v, cb_values := m, cb_attrs := b\<rparr>;
               (case e of Some e' \<Rightarrow> Some ((s1, Some e'), h1) | None \<Rightarrow> config_block_entries L kvs s1 h1)
             }))
      else Some ((s, Some (ErrNew (''unsupported attribute in vault config block: '' @ k))), h))"

definition config_block_from_value ::
  "('t, 'v) tf_lib \<Rightarrow> 'v \<Rightarrow> 'v config_block \<Rightarrow> 't heap \<Rightarrow> (('v config_block \<times> error) \<times> 't heap) go" where
  "config_block_from_value L v s h =
     (if val_null L v then Some ((s\<lparr>cb_null := True, cb_unknown := False\<rparr>, None), h)
      else if \<not> val_known L v then Some ((s\<lparr>cb_unknown := True\<rparr>, None), h)
      else (let s1 = s\<lparr>cb_null := False, cb_unknown := False\<rparr> in
        case val_as_map L v [] of
          (_, Some e) \<Rightarrow> Some ((s1, Some e), h)
        | (vals, None) \<Rightarrow> config_block_entries L vals s1 h))"

definition config_block_type :: "('t, 'v) tf_lib \<Rightarrow> 't heap \<Rightarrow> 't \<times> 't heap" where
  "config_block_type L h =
     (case new_map h of (a, h1) \<Rightarrow> (ty_object L a [],
        h1\<lparr>hp_maps := (hp_maps h1)(a := [(''type'', ty_string L), (''attributes'', ty_dynamic L)])\<rparr>))"

definition config_block_value :: "('t, 'v) tf_lib \<Rightarrow> 'v config_block \<Rightarrow> 't heap \<Rightarrow> ('v \<times> 't heap) go" where
  "config_block_value L s h =
     (if cb_unknown s \<or> cb_null s then
        (case config_block_type L h of (t, h1) \<Rightarrow> do {
           v \<leftarrow> new_value L h1 t (if cb_unknown s then UnknownValue else NilValue);
           Some (v, h1)
         })
      else do {
        (attrs, h1) \<leftarrow> (case cb_raw s of
            None \<Rightarrow> Some (if ob_unknown (cb_attrs s) then unknown_dst_val L else null_dst_val L, h)
          | Some raw \<Rightarrow> do {
              ((r, e), h1) \<leftarrow> encode_dynamic L raw (cb_values s) h;
              Some (case (r, e) of (Some x, None) \<Rightarrow> x | _ \<Rightarrow> null_dst_val L, h1)
            });
        t \<leftarrow> string_value L h1 (cb_type s);
        terraform5_value L [(''type'', t), (''attributes'', attrs)] h1
      })"

subsection \<open>Storage and listener (vault_config_storage.go, vault_config_listener.go)\<close>

text \<open>
  Both are a type and dynamic blocks by name. \<open>st_unknown_key\<close> is the error for an attribute
  of another name. The \<open>Set\<close> of neither makes the stanza not null.
\<close>

record 'v stanza =
  sz_type :: tf_string
  sz_blocks :: "(string \<times> 'v dynamic_block) list"
  sz_values :: "(string \<times> 'v) list"
  sz_raw :: "'v option"
  sz_unknown :: bool
  sz_null :: bool

fun new_dynamic_blocks ::
  "string list \<Rightarrow> 't heap \<Rightarrow> (string \<times> 'v dynamic_block) list \<times> 't heap" where
  "new_dynamic_blocks [] h = ([], h)"
| "new_dynamic_blocks (n # ns) h =
     (case new_dynamic_block h of (d, h1) \<Rightarrow>
        (case new_dynamic_blocks ns h1 of (ds, h2) \<Rightarrow> ((n, d) # ds, h2)))"

definition new_stanza :: "string list \<Rightarrow> 't heap \<Rightarrow> 'v stanza \<times> 't heap" where
  "new_stanza names h = (case new_dynamic_blocks names h of (ds, h1) \<Rightarrow>
     (\<lparr>sz_type = new_tf [], sz_blocks = ds, sz_values = [], sz_raw = None, sz_unknown = False, sz_null = True\<rparr>, h1))"

definition storage_blocks :: "string list" where
  "storage_blocks = [''attributes'', ''retry_join'']"

definition listener_blocks :: "string list" where
  "listener_blocks = [''attributes'', ''telemetry'', ''profiling'', ''inflight_requests_logging'',
     ''custom_response_headers'']"

definition set_block_object :: "(string \<times> 'v tf_any) list \<Rightarrow> 'v dynamic_block \<Rightarrow> 'v dynamic_block" where
  "set_block_object obj d = d\<lparr>dy_object := map_option (object_set obj) (dy_object d)\<rparr>"

definition stanza_set ::
  "string \<Rightarrow> (string \<times> (string \<times> 'v tf_any) list) list \<Rightarrow> 'v stanza \<Rightarrow> 'v stanza" where
  "stanza_set typ objs s = s\<lparr>sz_unknown := False, sz_type := tf_set typ (sz_type s),
     sz_blocks := map (\<lambda>(n, d). (n, case map_of objs n of Some obj \<Rightarrow> set_block_object obj d | None \<Rightarrow> d))
       (sz_blocks s)\<rparr>"

fun stanza_entries ::
  "('t, 'v) tf_lib \<Rightarrow> (string \<Rightarrow> goerr) \<Rightarrow> (string \<times> 'v) list \<Rightarrow> 'v stanza \<Rightarrow> 't heap
    \<Rightarrow> (('v stanza \<times> error) \<times> 't heap) go" where
  "stanza_entries L unknown_key [] s h = Some ((s, None), h)"
| "stanza_entries L unknown_key ((k, v) # kvs) s h =
     (if k = ''type'' then
        (case string_from_value L h (sz_type s) v of
           (t, Some e) \<Rightarrow> Some ((s\<lparr>sz_type := t\<rparr>, Some e), h)
         | (t, None) \<Rightarrow> stanza_entries L unknown_key kvs (s\<lparr>sz_type := t\<rparr>) h)
      else (case map_of (sz_blocks s) k of
          None \<Rightarrow> Some ((s, Some (unknown_key k)), h)
        | Some d \<Rightarrow> do {
            ((d1, e), h1) \<leftarrow> dynamic_from_value L d v h;
            let s1 = s\<lparr>sz_blocks := map_set k d1 (sz_blocks s)\<rparr>;
            (case e of Some e' \<Rightarrow> Some ((s1, Some e'), h1) | None \<Rightarrow> stanza_entries L unknown_key kvs s1 h1)
          }))"

definition stanza_from_value ::
  "('t, 'v) tf_lib \<Rightarrow> (string \<Rightarrow> goerr) \<Rightarrow> 'v \<Rightarrow> 'v stanza \<Rightarrow> 't heap \<Rightarrow> (('v stanza \<times> error) \<times> 't heap) go" where
  "stanza_from_value L unknown_key v s h =
     (if val_null L v then Some ((s\<lparr>sz_null := True, sz_unknown := False\<rparr>, None), h)
      else if \<not> val_known L v then Some ((s\<lparr>sz_unknown := True\<rparr>, None), h)
      else (case val_as_map L v [] of (vals, e) \<Rightarrow>
        let s1 = s\<lparr>sz_null := False, sz_unknown := False, sz_raw := Some v, sz_values := vals\<rparr> in
        case e of
          Some e' \<Rightarrow> Some ((s1, Some e'), h)
        | None \<Rightarrow> stanza_entries L unknown_key vals s1 h))"

definition storage_unknown_key :: "'p path_lib \<Rightarrow> string \<Rightarrow> goerr" where
  "storage_unknown_key P k = attribute_path_error P (ErrNew (''unknown configuration '' @ CHR 0x27 # k @ CHR 0x27
     # '', known values are '' @ CHR 0x27 # ''type'' @ CHR 0x27 # '', '' @ CHR 0x27 # ''attributes'' @ CHR 0x27
     # '', or '' @ CHR 0x27 # ''retry_join'' @ [CHR 0x27])) [''config'', ''storage'']"

definition listener_unknown_key :: "'p path_lib \<Rightarrow> string \<Rightarrow> goerr" where
  "listener_unknown_key P k = attribute_path_error P (ErrNew (''unknown configuration '' @ CHR 0x27 # k
     @ [CHR 0x27])) [''config'', ''listener'']"

text \<open>
  The value of a map of values: a map when the value that was read is one, an object otherwise.
  The element type of the map is that of any value. The zero value has no type, and asking its type
  for what it is panics.
\<close>

definition values_as :: "('t, 'v) tf_lib \<Rightarrow> 'v option \<Rightarrow> (string \<times> 'v) list \<Rightarrow> 't heap \<Rightarrow> ('v \<times> 't heap) go" where
  "values_as L raw vals h =
     (case vals of
        [] \<Rightarrow> Some (null_dst_val L, h)
      | (_, v) # _ \<Rightarrow> do {
          r \<leftarrow> deref raw;
          if ty_is L h (val_type L r) (ty_map L None) then do {
            m \<leftarrow> new_value L h (ty_map L (Some (val_type L v))) (MapValue vals);
            Some (m, h)
          }
          else terraform5_value L vals h
        })"

text \<open>A block that cannot be encoded panics.\<close>

fun stanza_values ::
  "('t, 'v) tf_lib \<Rightarrow> 'v stanza \<Rightarrow> string list \<Rightarrow> 't heap \<Rightarrow> ((string \<times> 'v) list \<times> 't heap) go" where
  "stanza_values L s [] h = Some ([], h)"
| "stanza_values L s (n # ns) h = do {
     (v, h1) \<leftarrow> (if n = ''type'' then do { v \<leftarrow> string_value L h (sz_type s); Some (v, h) }
       else do {
         ((v, e), h1) \<leftarrow> (case map_of (sz_blocks s) n of
             None \<Rightarrow> Some ((val_zero L, None), h)
           | Some d \<Rightarrow> dynamic_value L (Some d) h);
         (case e of Some _ \<Rightarrow> None | None \<Rightarrow> Some (v, h1))
       });
     (kvs, h2) \<leftarrow> stanza_values L s ns h1;
     Some ((n, v) # kvs, h2)
   }"

definition stanza_value :: "('t, 'v) tf_lib \<Rightarrow> 'v stanza \<Rightarrow> 't heap \<Rightarrow> ('v \<times> 't heap) go" where
  "stanza_value L s h =
     (if sz_null s then Some (null_dst_val L, h)
      else if sz_unknown s then Some (unknown_dst_val L, h)
      else do {
        (vals, h1) \<leftarrow> stanza_values L s (map fst (sz_values s)) h;
        values_as L (sz_raw s) vals h1
      })"

subsection \<open>Seals for high availability (vault_config_seals.go)\<close>

record 'v seals_config =
  se_primary :: "'v config_block"
  se_secondary :: "'v config_block"
  se_tertiary :: "'v config_block"
  se_values :: "(string \<times> 'v) list"
  se_raw :: "'v option"
  se_unknown :: bool
  se_null :: bool

definition new_seals_config :: "'t heap \<Rightarrow> 'v seals_config \<times> 't heap" where
  "new_seals_config h =
     (case new_config_block [''config'', ''seals'', ''primary''] h of (p, h1) \<Rightarrow>
     (case new_config_block [''config'', ''seals'', ''secondary''] h1 of (s, h2) \<Rightarrow>
     (case new_config_block [''config'', ''seals'', ''tertiary''] h2 of (t, h3) \<Rightarrow>
       (\<lparr>se_primary = p, se_secondary = s, se_tertiary = t, se_values = [], se_raw = None,
         se_unknown = False, se_null = True\<rparr>, h3))))"

definition seal_names :: "string list" where
  "seal_names = [''primary'', ''secondary'', ''tertiary'']"

text \<open>
  With several seals in a map all need the type of the one before; the first that differs is named.
\<close>

fun differing_seal :: "('t, 'v) tf_lib \<Rightarrow> 't heap \<Rightarrow> 't option \<Rightarrow> (string \<times> 'v) list \<Rightarrow> string option" where
  "differing_seal L h prev [] = None"
| "differing_seal L h None ((k, v) # kvs) = differing_seal L h (Some (val_type L v)) kvs"
| "differing_seal L h (Some t) ((k, v) # kvs) =
     (if \<not> ty_equal L h (val_type L v) t then Some k else differing_seal L h (Some (val_type L v)) kvs)"

text \<open>One of the seals of the value; the path of the error is given, and is wrong for the last one.\<close>

definition read_seal ::
  "('t, 'v) tf_lib \<Rightarrow> 'p path_lib \<Rightarrow> (string \<times> 'v) list \<Rightarrow> string \<Rightarrow> string \<Rightarrow> 'v config_block \<Rightarrow> 't heap
    \<Rightarrow> (('v config_block \<times> error) \<times> 't heap) go" where
  "read_seal L P vals name path s h =
     (case map_of vals name of
        None \<Rightarrow> Some ((s, None), h)
      | Some v \<Rightarrow> do {
          ((s1, e), h1) \<leftarrow> config_block_from_value L v s h;
          Some ((s1, case e of
              Some e' \<Rightarrow> Some (attribute_path_error P e' [''config'', ''seals'', path])
            | None \<Rightarrow> None), h1)
        })"

definition err_unknown_seal :: "'p path_lib \<Rightarrow> string \<Rightarrow> goerr" where
  "err_unknown_seal P k = attribute_path_error P (ErrNew (''unknown configuration '' @ CHR 0x27 # k @ CHR 0x27
     # '', expected '' @ CHR 0x27 # ''primary'' @ CHR 0x27 # '', '' @ CHR 0x27 # ''secondary'' @ CHR 0x27
     # '', or '' @ CHR 0x27 # ''tertiary'' @ [CHR 0x27])) [''config'', ''seals'', ''primary'']"

definition err_seal_types :: "'p path_lib \<Rightarrow> string \<Rightarrow> goerr" where
  "err_seal_types P k = attribute_path_error P (ErrNew
     (''unable to configure more than one seal type as a map value. Try unquoting '' @ CHR 0x27 # k @ CHR 0x27
       # '', and all other seals, to set them as an object attributes'')) [''config'', ''seals'', k]"

definition seals_from_value ::
  "('t, 'v) tf_lib \<Rightarrow> 'p path_lib \<Rightarrow> 'v \<Rightarrow> 'v seals_config \<Rightarrow> 't heap
    \<Rightarrow> (('v seals_config \<times> error) \<times> 't heap) go" where
  "seals_from_value L P v s h =
     (if val_null L v then Some ((s\<lparr>se_null := True, se_unknown := False\<rparr>, None), h)
      else if \<not> val_known L v then Some ((s\<lparr>se_unknown := True\<rparr>, None), h)
      else (case val_as_map L v [] of (vals, e) \<Rightarrow>
        let s1 = s\<lparr>se_null := False, se_unknown := False, se_raw := Some v, se_values := vals\<rparr> in
        case e of
          Some e' \<Rightarrow> Some ((s1, Some (attribute_path_error P
            (ErrWrap ''unable to decode object value: '' e' []) [''config'', ''seals''])), h)
        | None \<Rightarrow>
            (case find (\<lambda>k. k \<notin> set seal_names) (map fst vals) of
               Some k \<Rightarrow> Some ((s1, Some (err_unknown_seal P k)), h)
             | None \<Rightarrow>
                 (case (if ty_is L h (val_type L v) (ty_map L None) \<and> length vals > 1
                        then differing_seal L h None vals else None) of
                    Some k \<Rightarrow> Some ((s1, Some (err_seal_types P k)), h)
                  | None \<Rightarrow> do {
                      ((p, e), h1) \<leftarrow> read_seal L P vals ''primary'' ''primary'' (se_primary s1) h;
                      let s2 = s1\<lparr>se_primary := p\<rparr>;
                      if e \<noteq> None then Some ((s2, e), h1) else do {
                        ((q, e), h2) \<leftarrow> read_seal L P vals ''secondary'' ''secondary'' (se_secondary s2) h1;
                        let s3 = s2\<lparr>se_secondary := q\<rparr>;
                        if e \<noteq> None then Some ((s3, e), h2) else do {
                          ((r, e), h3) \<leftarrow> read_seal L P vals ''tertiary'' ''secondary'' (se_tertiary s3) h2;
                          Some ((s3\<lparr>se_tertiary := r\<rparr>, e), h3)
                        }
                      }
                    }))))"

text \<open>The tertiary seal gets its own type and the value of the secondary one.\<close>

fun seal_attributes ::
  "('t, 'v) tf_lib \<Rightarrow> 'v seals_config \<Rightarrow> string list \<Rightarrow> 't heap
    \<Rightarrow> (((string \<times> 't) list \<times> (string \<times> 'v) list) \<times> 't heap) go" where
  "seal_attributes L s [] h = Some (([], []), h)"
| "seal_attributes L s (n # ns) h =
     (if n \<in> set seal_names then do {
        (t, h1) \<leftarrow> Some (config_block_type L h);
        (v, h2) \<leftarrow> config_block_value L
          (if n = ''primary'' then se_primary s else se_secondary s) h1;
        ((ts, vs), h3) \<leftarrow> seal_attributes L s ns h2;
        Some (((n, t) # ts, (n, v) # vs), h3)
      }
      else seal_attributes L s ns h)"

definition seals_value :: "('t, 'v) tf_lib \<Rightarrow> 'v seals_config \<Rightarrow> 't heap \<Rightarrow> ('v \<times> 't heap) go" where
  "seals_value L s h =
     (if se_null s then Some (null_dst_val L, h)
      else if se_unknown s then Some (unknown_dst_val L, h)
      else do {
        ((ts, vs), h1) \<leftarrow> seal_attributes L s (map fst (se_values s)) h;
        (case vs of
           [] \<Rightarrow> Some (null_dst_val L, h1)
         | (_, v) # _ \<Rightarrow> do {
             raw \<leftarrow> deref (se_raw s);
             if ty_is L h1 (val_type L raw) (ty_map L None) then do {
               m \<leftarrow> new_value L h1 (ty_map L (Some (val_type L v))) (MapValue vs);
               Some (m, h1)
             }
             else (case new_map h1 of (a, h2) \<Rightarrow> do {
               let h3 = h2\<lparr>hp_maps := (hp_maps h2)(a := ts)\<rparr>;
               r \<leftarrow> new_value L h3 (ty_object L a []) (MapValue vs);
               Some (r, h3)
             })
           })
      })"

definition seals_set ::
  "string \<Rightarrow> 'v block_setting option \<Rightarrow> 'v seals_config \<Rightarrow> 'v seals_config \<times> error" where
  "seals_set name b s =
     (let s1 = s\<lparr>se_unknown := False, se_null := False\<rparr> in
      if name = ''primary'' then (s1\<lparr>se_primary := config_block_set b (se_primary s1)\<rparr>, None)
      else if name = ''secondary'' then (s1\<lparr>se_secondary := config_block_set b (se_secondary s1)\<rparr>, None)
      else if name = ''tertiary'' then (s1\<lparr>se_tertiary := config_block_set b (se_tertiary s1)\<rparr>, None)
      else (s1, Some (ErrNew (''unsupport seals name '' @ CHR 0x27 # name @ CHR 0x27 # '', must be one of ''
        @ CHR 0x27 # ''primary'' @ CHR 0x27 # '', '' @ CHR 0x27 # ''secondary'' @ CHR 0x27 # '', ''
        @ CHR 0x27 # ''tertiary'' @ [CHR 0x27]))))"

fun seals_set_all ::
  "(string \<times> 'v block_setting option) list \<Rightarrow> 'v seals_config \<Rightarrow> 'v seals_config \<times> error" where
  "seals_set_all [] s = (s, None)"
| "seals_set_all ((name, b) # sets) s =
     (case seals_set name b s of (s1, Some e) \<Rightarrow> (s1, Some e) | (s1, None) \<Rightarrow> seals_set_all sets s1)"

text \<open>The seals by name, none when there are none; and whether there are several.\<close>

definition seals_list :: "'v seals_config \<Rightarrow> (string \<times> 'v config_block) list" where
  "seals_list s = (if se_unknown s \<or> se_null s then []
     else [(''primary'', se_primary s), (''secondary'', se_secondary s), (''tertiary'', se_tertiary s)])"

definition needs_multiseal :: "'v seals_config \<Rightarrow> bool" where
  "needs_multiseal s \<longleftrightarrow>
     2 \<le> count_if (\<lambda>b. \<not> cb_null b) [se_primary s, se_secondary s, se_tertiary s]"

subsection \<open>The configuration (vaultConfig of resource_vault_start.go)\<close>

record 'v vault_config =
  vc_cluster_name :: tf_string
  vc_api_addr :: tf_string
  vc_cluster_addr :: tf_string
  vc_listener :: "'v stanza"
  vc_log_level :: tf_string
  vc_storage :: "'v stanza"
  vc_seal :: "'v config_block"
  vc_seals :: "'v seals_config"
  vc_telemetry :: "'v dynamic_block"
  vc_ui :: tf_bool

definition new_vault_config :: "'t heap \<Rightarrow> 'v vault_config \<times> 't heap" where
  "new_vault_config h =
     (case new_stanza listener_blocks h of (listener, h1) \<Rightarrow>
     (case new_config_block [''config'', ''seal''] h1 of (seal, h2) \<Rightarrow>
     (case new_seals_config h2 of (seals, h3) \<Rightarrow>
     (case new_stanza storage_blocks h3 of (storage, h4) \<Rightarrow>
     (case new_dynamic_block h4 of (telemetry, h5) \<Rightarrow>
       (\<lparr>vc_cluster_name = new_tf [], vc_api_addr = new_tf [], vc_cluster_addr = new_tf [],
         vc_listener = listener, vc_log_level = new_tf [], vc_storage = storage, vc_seal = seal,
         vc_seals = seals, vc_telemetry = telemetry, vc_ui = new_tf False\<rparr>, h5))))))"

definition vault_config_strings :: "'v vault_config \<Rightarrow> (string \<times> tf_string) list" where
  "vault_config_strings c = [(''api_addr'', vc_api_addr c), (''cluster_addr'', vc_cluster_addr c),
     (''cluster_name'', vc_cluster_name c), (''log_level'', vc_log_level c)]"

definition vault_config_props :: "'v vault_config \<Rightarrow> (string \<times> ('v, unit) attr_prop) list" where
  "vault_config_props c = string_props (vault_config_strings c) @ [(''ui'', PropTF (TfBool (vc_ui c)))]"

fun prop_bool :: "('v, unit) attr_prop \<Rightarrow> tf_bool" where
  "prop_bool (PropTF (TfBool b)) = b"
| "prop_bool _ = new_tf False"

fun set_vault_config_props :: "('v, unit) attr_prop list \<Rightarrow> 'v vault_config \<Rightarrow> 'v vault_config" where
  "set_vault_config_props [api, addr, name, level, ui] c =
     c\<lparr>vc_api_addr := prop_string api, vc_cluster_addr := prop_string addr, vc_cluster_name := prop_string name,
       vc_log_level := prop_string level, vc_ui := prop_bool ui\<rparr>"
| "set_vault_config_props _ c = c"

text \<open>One part of the configuration after the other, while there is no error.\<close>

definition read_part ::
  "(string \<times> 'v) list \<Rightarrow> string \<Rightarrow> ('v \<Rightarrow> 'c \<Rightarrow> 't heap \<Rightarrow> (('c \<times> error) \<times> 't heap) go)
    \<Rightarrow> ('c \<times> error) \<times> 't heap \<Rightarrow> (('c \<times> error) \<times> 't heap) go" where
  "read_part vals name rd r =
     (case r of
        ((c, Some e), h) \<Rightarrow> Some r
      | ((c, None), h) \<Rightarrow> (case map_of vals name of None \<Rightarrow> Some r | Some v \<Rightarrow> rd v c h))"

definition vault_config_from_value ::
  "('t, 'v) tf_lib \<Rightarrow> 'p path_lib \<Rightarrow> 'v \<Rightarrow> 'v vault_config \<Rightarrow> 't heap
    \<Rightarrow> (('v vault_config \<times> error) \<times> 't heap) go" where
  "vault_config_from_value L P val c h = do {
     ((props, vals, e), h1) \<leftarrow> map_attributes_to L (\<lambda>v u. (u, None)) val (vault_config_props c) h;
     r \<leftarrow> read_part vals ''listener'' (\<lambda>v c h. do {
         ((x, e), h1) \<leftarrow> stanza_from_value L (listener_unknown_key P) v (vc_listener c) h;
         Some ((c\<lparr>vc_listener := x\<rparr>, e), h1) }) ((set_vault_config_props (map snd props) c, e), h1);
     r \<leftarrow> read_part vals ''seal'' (\<lambda>v c h. do {
         ((x, e), h1) \<leftarrow> config_block_from_value L v (vc_seal c) h;
         Some ((c\<lparr>vc_seal := x\<rparr>, e), h1) }) r;
     r \<leftarrow> read_part vals ''seals'' (\<lambda>v c h. do {
         ((x, e), h1) \<leftarrow> seals_from_value L P v (vc_seals c) h;
         Some ((c\<lparr>vc_seals := x\<rparr>, e), h1) }) r;
     r \<leftarrow> read_part vals ''storage'' (\<lambda>v c h. do {
         ((x, e), h1) \<leftarrow> stanza_from_value L (storage_unknown_key P) v (vc_storage c) h;
         Some ((c\<lparr>vc_storage := x\<rparr>, e), h1) }) r;
     read_part vals ''telemetry'' (\<lambda>v c h. do {
         ((x, e), h1) \<leftarrow> dynamic_from_value L (vc_telemetry c) v h;
         Some ((c\<lparr>vc_telemetry := x\<rparr>, e), h1) }) r
   }"

text \<open>The types of the attributes, and the optional ones; the value is of the type without them.\<close>

definition vault_config_attrs ::
  "('t, 'v) tf_lib \<Rightarrow> 't heap \<Rightarrow> (string \<times> 't) list \<times> 't heap" where
  "vault_config_attrs L h =
     (case config_block_type L h of (seal, h1) \<Rightarrow>
        ([(''api_addr'', ty_string L), (''cluster_addr'', ty_string L), (''cluster_name'', ty_string L),
          (''listener'', ty_dynamic L), (''log_level'', ty_string L), (''storage'', ty_dynamic L),
          (''seal'', seal), (''seals'', ty_dynamic L), (''telemetry'', ty_dynamic L), (''ui'', ty_bool L)], h1))"

definition vault_config_optional :: "string list" where
  "vault_config_optional = [''seal'', ''seals'', ''storage'', ''telemetry'']"

definition vault_config_type :: "('t, 'v) tf_lib \<Rightarrow> 't heap \<Rightarrow> 't \<times> 't heap" where
  "vault_config_type L h =
     (case vault_config_attrs L h of (ts, h1) \<Rightarrow> object_of L vault_config_optional ts h1)"

definition vault_config_value :: "('t, 'v) tf_lib \<Rightarrow> 'v vault_config \<Rightarrow> 't heap \<Rightarrow> ('v \<times> 't heap) go" where
  "vault_config_value L c h =
     (case vault_config_attrs L h of (ts, h0) \<Rightarrow>
     (case object_of L [] ts h0 of (t, h1) \<Rightarrow> do {
        ((telemetry, e), h2) \<leftarrow> dynamic_value L (Some (vc_telemetry c)) h1;
        (case e of Some _ \<Rightarrow> None | None \<Rightarrow> do {
          name \<leftarrow> string_value L h2 (vc_cluster_name c);
          api \<leftarrow> string_value L h2 (vc_api_addr c);
          addr \<leftarrow> string_value L h2 (vc_cluster_addr c);
          (listener, h3) \<leftarrow> stanza_value L (vc_listener c) h2;
          level \<leftarrow> string_value L h3 (vc_log_level c);
          (seal, h4) \<leftarrow> config_block_value L (vc_seal c) h3;
          (seals, h5) \<leftarrow> seals_value L (vc_seals c) h4;
          (storage, h6) \<leftarrow> stanza_value L (vc_storage c) h5;
          ui \<leftarrow> bool_value L h6 (vc_ui c);
          v \<leftarrow> new_value L h6 t (MapValue [(''cluster_name'', name), (''api_addr'', api), (''cluster_addr'', addr),
            (''listener'', listener), (''log_level'', level), (''seal'', seal), (''seals'', seals),
            (''storage'', storage), (''telemetry'', telemetry), (''ui'', ui)]);
          Some (v, h6)
        })
      }))"

subsection \<open>Properties\<close>

lemma values_of_map:
  assumes "tf_laws L"
  shows "val_as_map L (val_make L (ty_map L t) (MapValue kvs)) x = (kvs, None)"
    "val_as_map L (val_make L (ty_object L a opt) (MapValue kvs)) x = (kvs, None)"
  by (simp_all add: as_laws_simps [OF assms])

lemma new_value_made: "new_value L h t p = Some v \<Longrightarrow> v = val_make L t p"
  by (auto simp: new_value_def split: if_splits)

lemma seals_value_tertiary: "seals_value L (s\<lparr>se_tertiary := b\<rparr>) h = seals_value L s h"
proof -
  have "seal_attributes L (s\<lparr>se_tertiary := b\<rparr>) ns h = seal_attributes L s ns h" for ns h
    by (induction ns arbitrary: h) simp_all
  then show ?thesis by (simp add: seals_value_def cong del: list.case_cong_weak)
qed

text \<open>
  The value of three seals holds the secondary seal twice. It
  does not depend on the tertiary seal, which is lost.
\<close>

theorem tertiary_seal_lost:
  assumes "tf_laws L" "seals_value L s h = Some (v, h')" "\<not> se_null s" "\<not> se_unknown s"
    and "map fst (se_values s) = [''primary'', ''secondary'', ''tertiary'']"
  shows "seals_value L (s\<lparr>se_tertiary := b\<rparr>) h = Some (v, h')
    \<and> (\<exists>p q r h1 h2 h3 h4 h5 h6. val_as_map L v [] = ([(''primary'', p), (''secondary'', q), (''tertiary'', r)], None)
      \<and> config_block_value L (se_primary s) h1 = Some (p, h2) \<and> config_block_value L (se_secondary s) h3 = Some (q, h4)
      \<and> config_block_value L (se_secondary s) h5 = Some (r, h6))"
proof -
  from assms(2-5) obtain p q r h1 h2 h3 h4 h5 h6 where
    parts: "config_block_value L (se_primary s) h1 = Some (p, h2)" "config_block_value L (se_secondary s) h3 = Some (q, h4)"
      "config_block_value L (se_secondary s) h5 = Some (r, h6)"
    and v: "val_as_map L v [] = ([(''primary'', p), (''secondary'', q), (''tertiary'', r)], None)"
    by (auto simp: seals_value_def seal_names_def Let_def values_of_map [OF assms(1)] elim!: bind_eq_SomeE
        dest!: new_value_made split: if_split_asm prod.split_asm)
  with parts v assms(2) show ?thesis by (simp add: seals_value_tertiary) blast
qed

text \<open>The library of the instances, with values that fit every type.\<close>

definition lenient_lib :: "(demo_type, demo_value) tf_lib" where
  "lenient_lib = demo_lib\<lparr>val_fits := \<lambda>h t p. True\<rparr>"

lemma lenient_laws: "tf_laws lenient_lib"
  using demo_laws by (simp add: tf_laws_def value_laws_def make_laws_def as_laws_def type_laws_def lenient_lib_def
    unknown_value_def null_value_def)

definition demo_seals :: "demo_value seals_config" where
  "demo_seals = (let b = fst (new_config_block [] demo_heap);
       seal = (\<lambda>typ. config_block_set (Some \<lparr>bs_type = typ, bs_attrs = [], bs_paths = []\<rparr>) b)
     in \<lparr>se_primary = seal ''awskms'', se_secondary = seal ''transit'', se_tertiary = seal ''pkcs11'',
       se_values = [(''primary'', val_zero demo_lib), (''secondary'', val_zero demo_lib), (''tertiary'', val_zero demo_lib)],
       se_raw = Some (val_zero demo_lib), se_unknown = False, se_null = False\<rparr>)"

theorem tertiary_seal_lost_witness:
  "\<exists>v h' p q r. seals_value lenient_lib demo_seals demo_heap = Some (v, h')
     \<and> seals_value lenient_lib (demo_seals\<lparr>se_tertiary := se_primary demo_seals\<rparr>) demo_heap = Some (v, h')
     \<and> val_as_map lenient_lib v [] = ([(''primary'', p), (''secondary'', q), (''tertiary'', r)], None)"
proof -
  have parts: "\<not> se_null demo_seals" "\<not> se_unknown demo_seals"
    "map fst (se_values demo_seals) = [''primary'', ''secondary'', ''tertiary'']"
    by (simp_all add: demo_seals_def Let_def)
  obtain v h' where "seals_value lenient_lib demo_seals demo_heap = Some (v, h')"
    by (simp add: demo_seals_def Let_def seals_value_def seal_names_def config_block_type_def config_block_value_def
        config_block_set_def new_config_block_def new_tf_object_def new_map_def string_value_def tf_value_def
        new_value_def lenient_lib_def terraform5_value_def terraform5_type_def object_set_def tf_set_def deref_def demo_lib_def)
  with tertiary_seal_lost [OF lenient_laws this parts, of "se_primary demo_seals"] show ?thesis by blast
qed

end
