(* ===== verification/ResourceState.thy ===== *)
theory ResourceState
  imports PluginUtil
begin

text \<open>
  What the resources of the plugin have in common beyond the calls of PluginUtil: states that
  are a row of attributes and a transport, planning with a last change of the computed
  attributes, and applying an operation over the client of the transport. The calls are the same
  in every resource_*.go file but for the state, the change and the operation.
\<close>

subsection \<open>States of attributes and a transport\<close>

record ('s, 'v) state_attrs =
  sa_attrs :: "'s \<Rightarrow> (string \<times> 'v tf_any) list"
  sa_set :: "'v tf_any list \<Rightarrow> 's \<Rightarrow> 's"
  sa_transport :: "'s \<Rightarrow> 'v embedded"
  sa_set_transport :: "'v embedded \<Rightarrow> 's \<Rightarrow> 's"

text \<open>The attributes of these states are no objects.\<close>

fun flat_type :: "('t, 'v) tf_lib \<Rightarrow> 'v tf_any \<Rightarrow> 't" where
  "flat_type L (TfBool b) = ty_bool L"
| "flat_type L (TfNum b) = ty_number L"
| "flat_type L (TfString b) = ty_string L"
| "flat_type L (TfStringSlice b) = string_slice_type L"
| "flat_type L (TfStringMap b) = string_map_type L"
| "flat_type L x = ty_dynamic L"

fun prop_attr :: "('v, unit) attr_prop \<Rightarrow> 'v tf_any" where
  "prop_attr (PropTF x) = x"
| "prop_attr (PropGo g) = TfGo []"

text \<open>The attribute behind a property of a known type.\<close>

fun any_bool :: "'v tf_any \<Rightarrow> tf_bool" where
  "any_bool (TfBool b) = b"
| "any_bool _ = new_tf False"

fun any_num :: "'v tf_any \<Rightarrow> tf_num" where
  "any_num (TfNum b) = b"
| "any_num _ = new_tf 0"

fun any_string :: "'v tf_any \<Rightarrow> tf_string" where
  "any_string (TfString b) = b"
| "any_string _ = new_tf []"

fun any_strings :: "'v tf_any \<Rightarrow> tf_string_slice" where
  "any_strings (TfStringSlice b) = b"
| "any_strings _ = new_tf []"

fun any_string_map :: "'v tf_any \<Rightarrow> tf_string_map" where
  "any_string_map (TfStringMap b) = b"
| "any_string_map _ = new_tf []"

definition attrs_from ::
  "('t, 'v) tf_lib \<Rightarrow> 'p path_lib \<Rightarrow> ('s, 'v) state_attrs \<Rightarrow> 'v \<Rightarrow> 's \<Rightarrow> 't heap
    \<Rightarrow> (('s \<times> error) \<times> 't heap) go" where
  "attrs_from L P sa v s h = do {
     ((props, vals, e), h1) \<leftarrow> map_attributes_to L (\<lambda>v u. (u, None)) v (map (apsnd PropTF) (sa_attrs sa s)) h;
     let s1 = sa_set sa (map (prop_attr o snd) props) s;
     (case e of
        Some e' \<Rightarrow> Some ((s1, Some e'), h1)
      | None \<Rightarrow>
          if val_known L (lookup_value L vals ''transport'') then do {
            ((em, e), h2) \<leftarrow> embedded_from_value L P (sa_transport sa s1) (lookup_value L vals ''transport'') h1;
            Some ((sa_set_transport sa em s1, e), h2)
          } else Some ((s1, None), h1))
   }"

definition attrs_type :: "('t, 'v) tf_lib \<Rightarrow> ('s, 'v) state_attrs \<Rightarrow> 's \<Rightarrow> 't heap \<Rightarrow> 't \<times> 't heap" where
  "attrs_type L sa s h =
     object_of L [] (map (apsnd (flat_type L)) (sa_attrs sa s) @ [(''transport'', ty_dynamic L)]) h"

definition attrs_value :: "('t, 'v) tf_lib \<Rightarrow> ('s, 'v) state_attrs \<Rightarrow> 's \<Rightarrow> 't heap \<Rightarrow> ('v \<times> 't heap) go" where
  "attrs_value L sa s h = do {
     (kvs, h1) \<leftarrow> attr_values L (sa_attrs sa s) h;
     (tv, h2) \<leftarrow> embedded_value L (sa_transport sa s) h1;
     (case attrs_type L sa s h2 of (t, h3) \<Rightarrow> do {
        v \<leftarrow> new_value L h3 t (MapValue (kvs @ [(''transport'', tv)]));
        Some (v, h3)
      })
   }"

definition attrs_ops ::
  "('t, 'v) tf_lib \<Rightarrow> 'p path_lib \<Rightarrow> ('s, 'v) state_attrs \<Rightarrow> ('w go_ctx \<Rightarrow> 's \<Rightarrow> 'w \<Rightarrow> error)
    \<Rightarrow> ('w, 's, 't, 'v) state_ops" where
  "attrs_ops L P sa validate = \<lparr>so_type = attrs_type L sa, so_value = attrs_value L sa,
     so_from = attrs_from L P sa, so_validate = validate, so_embedded = sa_transport sa,
     so_set_embedded = sa_set_transport sa\<rparr>"

subsection \<open>Planning and applying\<close>

definition plan_resource ::
  "('t, 'v) tf_lib \<Rightarrow> 'p path_lib \<Rightarrow> ('w, 's, 't, 'v) state_ops \<Rightarrow> ('s \<Rightarrow> 's \<Rightarrow> 's) \<Rightarrow> 'p error_view \<Rightarrow> 'w go_ctx
    \<Rightarrow> 'v provider_config \<Rightarrow> ('v, 'd) change_request \<Rightarrow> 's \<Rightarrow> 's \<Rightarrow> 't heap \<Rightarrow> 'w
    \<Rightarrow> (('s \<times> 'p diagnostic list \<times> 'p list) \<times> 't heap) go" where
  "plan_resource L P so computed ev ctx c req prior0 proposed0 h w = do {
     (b, h1) \<leftarrow> plan_build_transport L P so ev ctx c req prior0 proposed0 h w;
     Some ((if has_errors (bt_diagnostics b) then bt_next b else computed (bt_prior b) (bt_next b),
       bt_diagnostics b, bt_replace b), h1)
   }"

text \<open>
  The operation gets the prior state and the planned one, which has its id by then. A client
  that is nil is followed when its Close is deferred.
\<close>

definition apply_resource ::
  "('t, 'v) tf_lib \<Rightarrow> 'p path_lib \<Rightarrow> ('v, 't, 'd) wire \<Rightarrow> ('w, 's, 't, 'v) state_ops \<Rightarrow> ('s \<Rightarrow> 's)
    \<Rightarrow> ('s \<Rightarrow> 's \<Rightarrow> 'w transport \<Rightarrow> 'w \<Rightarrow> (('s \<times> 'p diagnostic list) \<times> 'w) go) \<Rightarrow> 'p error_view \<Rightarrow> 'w go_ctx
    \<Rightarrow> ('w, 'w transport) dialer \<Rightarrow> 'v provider_config \<Rightarrow> ('v, 'd) change_request \<Rightarrow> 's \<Rightarrow> 's \<Rightarrow> 't heap \<Rightarrow> 'w
    \<Rightarrow> (('s \<times> 'p diagnostic list) \<times> 't heap \<times> 'w) go" where
  "apply_resource L P wr so set_id act ev ctx dial c req prior0 planned0 h w = do {
     ((ds, prior, planned), h1) \<leftarrow> apply_unmarshal_state so ev ctx req prior0 planned0 h w;
     if has_errors ds \<or> is_delete wr req then Some ((planned, ds), h1, w)
     else do {
       ((et, ds), s, h2) \<leftarrow> apply_build_transport L P so ev ctx c planned h1 w;
       if has_errors ds then Some ((s, ds), h2, w)
       else do {
         let s1 = set_id s;
         em \<leftarrow> deref et;
         (case embedded_client P ctx dial em w of
            ((_, Some e), w1) \<Rightarrow> Some ((s1, ds @ [err_to_diagnostic ev ''Transport Error'' e]), h2, w1)
          | ((client, None), w1) \<Rightarrow> do {
              tr \<leftarrow> deref client;
              ((s2, ds2), w2) \<leftarrow> act prior s1 tr w1;
              Some ((s2, ds @ ds2), h2, w2)
            })
       }
     }
   }"

definition op_diagnostic :: "'p error_view \<Rightarrow> string \<Rightarrow> error \<Rightarrow> 'p diagnostic list" where
  "op_diagnostic ev summary e = (case e of None \<Rightarrow> [] | Some e' \<Rightarrow> [err_to_diagnostic ev summary e'])"

text \<open>\<open>reflect.DeepEqual\<close> of two states whose failure handlers are not empty: functions that are not nil never are equal.\<close>

definition deeply_equal :: "nat \<Rightarrow> 's \<Rightarrow> 's \<Rightarrow> bool" where
  "deeply_equal handlers s t \<longleftrightarrow> s = t \<and> handlers = 0"

subsection \<open>What the contract of a state gives\<close>

text \<open>The planned state, or the planned state that knows its transport.\<close>

definition planned_as :: "('w, 's, 't, 'v) state_ops \<Rightarrow> 's \<Rightarrow> 's \<Rightarrow> bool" where
  "planned_as so planned s1 \<longleftrightarrow> s1 = planned \<or> (\<exists>ts. s1 = set_resolved so ts planned)"

lemma op_diagnostic_simps [simp]: "op_diagnostic ev summary None = []" "has_errors (op_diagnostic ev summary (Some e))"
  "op_diagnostic ev summary err = [] \<longleftrightarrow> err = None"
  by (auto simp: op_diagnostic_def split: option.split)

context resource_state
begin

lemma plan_kind_change_panics:
  assumes "tf_laws L" "config_from_value L P pv new_provider_config ph = Some ((c, None), ph1)" "ctx_err ctx w = None"
    and "so_embedded so prior0 = new_embedded" "so_embedded so proposed0 = new_embedded"
    and "\<And>h. \<exists>h1. so_from so (cr_prior req) prior0 h = Some ((prior, None), h1)"
    and "\<And>h. \<exists>h1. so_from so (cr_next req) proposed0 h = Some ((proposed, None), h1)"
    and "(t1, tr1) \<in> set (em_transports (so_embedded so prior))"
    and "\<exists>(n, a) \<in> set (ts_attrs tr1). is_unknown a \<or> \<not> is_null a"
    and "em_transports (so_embedded so proposed) = [(t2, tr2)]" "t1 \<noteq> t2"
  shows "plan_resource L P so computed ev ctx c req prior0 proposed0 h w = None"
  using kind_change_panics [OF assms] by (simp add: plan_resource_def)

text \<open>
  An apply that does not delete: it ends before the host is reached, with an error, or it runs the
  operation on a state that was validated, over the client of a transport that was checked.
\<close>

lemma apply_resource_cases:
  assumes "apply_unmarshal_state so ev ctx req prior0 planned0 h w = Some (([], prior, planned), h1)"
    and "\<not> is_delete wr req"
    and "apply_resource L P wr so set_id act ev ctx dial c req prior0 planned0 h w = Some ((s, ds), h', w')"
  obtains (ran) s1 and em :: "'v embedded" and tr w1 where "planned_as so planned s1"
      "embedded_validate P ctx em w = None" "so_validate so ctx s1 w = None"
      "embedded_client P ctx dial em w = ((Some tr, None), w1)" "act prior (set_id s1) tr w1 = Some ((s, ds), w')"
    | (failed) s1 and em :: "'v embedded" where "planned_as so planned s1" "s = s1 \<or> s = set_id s1" "has_errors ds"
      "w' = w \<or> w' = snd (embedded_client P ctx dial em w)"
proof -
  from assms obtain et ds1 s1 h2 where
    b: "apply_build_transport L P so ev ctx c planned h1 w = Some ((et, ds1), s1, h2)"
    by (auto simp: apply_resource_def elim!: bind_eq_SomeE split: if_split_asm)
  note out = apply_build_outcome [OF b]
  then have like: "planned_as so planned s1" by (simp add: planned_as_def)
  show thesis
  proof (cases et)
    case None
    with out obtain d where d: "ds1 = [d]" "is_error d" by auto
    with assms b have "w' = w" "ds = ds1" "s = s1"
      by (simp_all add: apply_resource_def)
    with d like show thesis by (intro failed [of s1]) auto
  next
    case (Some em)
    with out have o: "ds1 = []" "embedded_validate P ctx em w = None" "so_validate so ctx s1 w = None" by auto
    obtain r w1 where client: "embedded_client P ctx dial em w = (r, w1)" by (metis surj_pair)
    show thesis
    proof (cases "snd r")
      case None
      with assms b Some o client obtain tr where "r = (Some tr, None)" "act prior (set_id s1) tr w1 = Some ((s, ds), w')"
        by (auto simp: apply_resource_def Let_def deref_def elim!: bind_eq_SomeE split: prod.split_asm option.split_asm)
      with like o client show thesis by (intro ran) auto
    next
      case e: (Some e)
      with assms b Some o client have "w' = w1 \<and> has_errors ds \<and> s = set_id s1"
        by (auto simp: apply_resource_def Let_def deref_def elim!: bind_eq_SomeE split: prod.split_asm option.split_asm)
      with client like show thesis by (intro failed [of s1 em]) auto
    qed
  qed
qed

end

subsection \<open>States that are rows of attributes\<close>

text \<open>What a block is made of is read back from its value, on every heap.\<close>

lemma faithful_block_reads:
  assumes "tf_laws L" "faithful_block L P (em_transports em)"
  shows "\<exists>v h1. embedded_value L em h = Some (v, h1) \<and> val_known L v
    \<and> (\<forall>h2. \<exists>h3. embedded_from_value L P new_embedded v h2 = Some ((unresolved em, None), h3))"
proof (cases "em_transports em = []")
  case True
  with new_block [of em] show ?thesis
    by (simp add: embedded_value_def embedded_from_value_def null_dst_val_def null_value_def unresolved_def
        as_laws_simps [OF assms(1)] value_laws_simps [OF assms(1)] new_embedded_def)
next
  case False
  from faithful_block_values [OF assms(1) assms(2), of new_embedded h] obtain kvs h1 where
    kvs: "transport_tf_values L (em_transports em) h = Some (kvs, h1)"
    and again: "\<And>h. transports_from_values L P new_embedded kvs h
      = Some ((new_embedded\<lparr>em_transports := em_transports em\<rparr>, None), h)"
    by (auto simp: new_embedded_def)
  from terraform5_value_made [OF assms(1), of kvs h1] obtain a h2 where
    "terraform5_value L kvs h1 = Some (val_make L (ty_object L a []) (MapValue kvs), h2)" by blast
  with False kvs again new_block [of em] show ?thesis
    by (simp add: embedded_value_def embedded_from_value_def unresolved_def
        as_laws_simps [OF assms(1)] value_laws_simps [OF assms(1)])
qed

text \<open>The attributes are flat, and each is the fresh one of its kind in a new state.\<close>

definition flat_attrs :: "(string \<times> 'v tf_any) list \<Rightarrow> bool" where
  "flat_attrs attrs \<longleftrightarrow> distinct (''transport'' # map fst attrs) \<and> (\<forall>(n, x) \<in> set attrs. flat_view x \<noteq> None)"

lemma fresh_flat: "flat_view (fresh_like x) = None \<longleftrightarrow> flat_view x = None"
  by (cases x) simp_all

lemma fresh_idem [simp]: "fresh_like (fresh_like x) = fresh_like x"
  by (cases x) simp_all

lemma same_view_kind: "flat_view y = flat_view x \<Longrightarrow> flat_view x \<noteq> None \<Longrightarrow> fresh_like y = fresh_like x"
  by (cases x; cases y) simp_all

lemma attr_values_made:
  assumes "tf_laws L" "\<forall>(n, x) \<in> set attrs. flat_view x \<noteq> None"
  shows "\<exists>kvs. attr_values L attrs h = Some (kvs, h) \<and> map fst kvs = map fst attrs
    \<and> list_all2 (\<lambda>(n, x) (m, v). n = m \<and> val_type L v = flat_type L x
        \<and> (\<forall>h'. \<exists>y. any_from_value L (fresh_like x) v h' = Some ((y, None), h') \<and> flat_view y = flat_view x)) attrs kvs"
  using assms(2)
proof (induction attrs)
  case (Cons nx attrs)
  obtain n x where nx: "nx = (n, x)" by force
  with Cons.prems obtain vw where vw: "flat_view x = Some vw" by auto
  from flat_same [OF assms(1) vw, of h] obtain v where v: "any_value L x h = Some (v, h)" by blast
  have again: "\<exists>y. any_from_value L (fresh_like x) v h' = Some ((y, None), h') \<and> flat_view y = flat_view x" for h'
    using flat_same [OF assms(1) vw, of h h'] v vw by auto
  have "val_type L v = flat_type L x"
    using v vw by (cases x) (auto dest: flat_value_types [OF assms(1)] elim!: bind_eq_SomeE)
  with Cons v again nx show ?case by auto
qed simp

lemma map_attributes_made:
  assumes "list_all2 (\<lambda>(n, x) (m, v). n = m \<and> (\<forall>h'. \<exists>y. any_from_value L (fresh_like x) v h' = Some ((y, None), h')
      \<and> flat_view y = flat_view x)) attrs kvs"
    and "\<forall>(n, v) \<in> set kvs. map_of vals n = Some v"
    and "list_all2 (\<lambda>(n, x) (m, z). n = m \<and> z = fresh_like x) attrs zs"
  shows "\<exists>ys. map_attributes L g vals (map (apsnd PropTF) zs) h
      = Some ((map (apsnd PropTF) ys, None), h)
    \<and> list_all2 (\<lambda>(n, x) (m, y). n = m \<and> flat_view y = flat_view x) attrs ys"
  using assms
proof (induction attrs arbitrary: kvs zs)
  case (Cons nx attrs)
  obtain n x where nx: "nx = (n, x)" by force
  with Cons.prems obtain v kvs1 zs1 where kvs: "kvs = (n, v) # kvs1" "zs = (n, fresh_like x) # zs1"
    by (auto simp: list_all2_Cons1)
  with Cons.prems nx obtain y where y: "any_from_value L (fresh_like x) v h = Some ((y, None), h)" "flat_view y = flat_view x"
    by fastforce
  from Cons.IH [of kvs1 zs1] Cons.prems kvs nx obtain ys where
    "map_attributes L g vals (map (apsnd PropTF) zs1) h = Some ((map (apsnd PropTF) ys, None), h)"
    "list_all2 (\<lambda>(n, x) (m, y). n = m \<and> flat_view y = flat_view x) attrs ys" by auto
  with y kvs nx Cons.prems(2) show ?case
    by (intro exI [of _ "(n, y) # ys"]) auto
qed simp

text \<open>
  The contract of a row of attributes: its attributes are flat, setting attributes of the same
  kinds leaves the names and the transport alone, and setting the transport leaves the attributes.
\<close>

definition same_kinds :: "'v tf_any list \<Rightarrow> (string \<times> 'v tf_any) list \<Rightarrow> bool" where
  "same_kinds xs attrs \<longleftrightarrow> map fresh_like xs = map (fresh_like o snd) attrs"

lemma fresh_like_iff [simp]:
  "fresh_like x = TfBool (new_tf False) \<longleftrightarrow> (\<exists>b. x = TfBool b)" "fresh_like x = TfNum (new_tf 0) \<longleftrightarrow> (\<exists>b. x = TfNum b)"
  "fresh_like x = TfString (new_tf []) \<longleftrightarrow> (\<exists>b. x = TfString b)"
  "fresh_like x = TfStringSlice (new_tf []) \<longleftrightarrow> (\<exists>b. x = TfStringSlice b)"
  "fresh_like x = TfStringMap (new_tf []) \<longleftrightarrow> (\<exists>b. x = TfStringMap b)"
  by (cases x; simp)+

lemma same_kinds_simps [simp]: "same_kinds xs [] \<longleftrightarrow> xs = []"
  "same_kinds xs ((n, x) # attrs) \<longleftrightarrow> (\<exists>y ys. xs = y # ys \<and> fresh_like y = fresh_like x \<and> same_kinds ys attrs)"
  by (auto simp: same_kinds_def map_eq_Cons_conv)

locale attr_state =
  fixes sa :: "('s, 'v) state_attrs"
  assumes flat: "flat_attrs (sa_attrs sa s)"
    and attrs_set: "same_kinds xs (sa_attrs sa s) \<Longrightarrow> sa_attrs sa (sa_set sa xs s) = zip (map fst (sa_attrs sa s)) xs"
    and set_keeps: "sa_transport sa (sa_set sa xs s) = sa_transport sa s"
    and transport_set: "sa_transport sa (sa_set_transport sa em s) = em"
    and transport_keeps: "sa_attrs sa (sa_set_transport sa em s) = sa_attrs sa s"

context attr_state
begin

text \<open>A row of attributes is a state of the resource calls.\<close>

lemma rows_state: "resource_state L P (attrs_ops L P sa validate)"
proof unfold_locales
  show "so_embedded (attrs_ops L P sa validate) (so_set_embedded (attrs_ops L P sa validate) em s) = em" for em s
    by (simp add: attrs_ops_def transport_set)
  fix s v h s1 h1
  assume "tf_laws L" "so_embedded (attrs_ops L P sa validate) s = new_embedded"
    "so_from (attrs_ops L P sa validate) v s h = Some ((s1, None), h1)"
  then show "faithful_block L P (em_transports (so_embedded (attrs_ops L P sa validate) s1))"
    by (auto simp: attrs_ops_def attrs_from_def set_keeps transport_set Let_def elim!: bind_eq_SomeE
        dest!: read_block_faithful split: option.split_asm prod.split_asm if_split_asm)
qed

text \<open>A state is written and read back into a new one as what shows the same.\<close>

lemma state_roundtrip:
  assumes "tf_laws L" "faithful_block L P (em_transports (sa_transport sa s))"
    and "sa_transport sa s0 = new_embedded" "sa_attrs sa s0 = map (apsnd fresh_like) (sa_attrs sa s)"
  shows "\<exists>v h1. attrs_value L sa s h = Some (v, h1)
    \<and> (\<forall>h2. \<exists>s' h3. attrs_from L P sa v s0 h2 = Some ((s', None), h3)
        \<and> map (apsnd flat_view) (sa_attrs sa s') = map (apsnd flat_view) (sa_attrs sa s)
        \<and> sa_transport sa s' = unresolved (sa_transport sa s))"
proof -
  have fl: "distinct (''transport'' # map fst (sa_attrs sa s))" "\<forall>(n, x) \<in> set (sa_attrs sa s). flat_view x \<noteq> None"
    using flat [of s] by (simp_all add: flat_attrs_def)
  from attr_values_made [OF assms(1) fl(2)] obtain kvs where
    kvs: "attr_values L (sa_attrs sa s) h = Some (kvs, h)" "map fst kvs = map fst (sa_attrs sa s)"
    and made: "list_all2 (\<lambda>(n, x) (m, v). n = m \<and> val_type L v = flat_type L x
        \<and> (\<forall>h'. \<exists>y. any_from_value L (fresh_like x) v h' = Some ((y, None), h') \<and> flat_view y = flat_view x))
      (sa_attrs sa s) kvs" by blast
  from faithful_block_reads [OF assms(1,2), of h] obtain tv h1 where
    tv: "embedded_value L (sa_transport sa s) h = Some (tv, h1)" "val_known L tv"
    and again: "\<And>h2. \<exists>h3. embedded_from_value L P new_embedded tv h2 = Some ((unresolved (sa_transport sa s), None), h3)"
    by blast
  let ?kvs = "kvs @ [(''transport'', tv)]"
  let ?ts = "map (apsnd (flat_type L)) (sa_attrs sa s) @ [(''transport'', ty_dynamic L)]"
  obtain a h2 where a: "new_map h1 = (a, h2)" by force
  let ?h3 = "h2\<lparr>hp_maps := (hp_maps h2)(a := ?ts)\<rparr>"
  have "list_all2 (\<lambda>(n, t) (m, v). n = m \<and> (t = ty_dynamic L \<or> t = val_type L v)) ?ts ?kvs"
    by (intro list_all2_appendI) (use made in \<open>auto simp: list_all2_map1 elim!: list_all2_mono\<close>)
  then have "val_fits L ?h3 (ty_object L a []) (MapValue ?kvs)"
    by (intro make_laws_simps(6) [OF assms(1)]) simp
  then have v: "attrs_value L sa s h = Some (val_make L (ty_object L a []) (MapValue ?kvs), ?h3)"
    by (simp add: attrs_value_def kvs tv attrs_type_def object_of_def a new_value_def)
  have names: "map_of ?kvs ''transport'' = Some tv" "\<forall>(n, v) \<in> set kvs. map_of ?kvs n = Some v"
  proof -
    have d: "''transport'' \<notin> fst ` set kvs" "distinct (map fst kvs)"
      using fl(1) by (simp_all flip: kvs(2))
    from d(1) have "map_of kvs ''transport'' = None" by (simp add: map_of_eq_None_iff)
    then show "map_of ?kvs ''transport'' = Some tv" by (simp add: map_add_def)
    show "\<forall>(n, v) \<in> set kvs. map_of ?kvs n = Some v"
      using d by (force simp: map_add_def split: option.splits)
  qed
  show ?thesis
  proof (rule exI, rule exI, rule conjI, rule v, rule allI)
    fix h4
    have "list_all2 (\<lambda>(n, x) (m, z). n = m \<and> z = fresh_like x) (sa_attrs sa s) (sa_attrs sa s0)"
      by (simp add: assms(4) list_all2_map2 list.rel_refl case_prod_beta)
    moreover have "list_all2 (\<lambda>(n, x) (m, v). n = m
        \<and> (\<forall>h'. \<exists>y. any_from_value L (fresh_like x) v h' = Some ((y, None), h') \<and> flat_view y = flat_view x))
      (sa_attrs sa s) kvs"
      using made by (rule list_all2_mono) auto
    ultimately obtain ys where
      ys: "map_attributes L (\<lambda>v u. ((), None)) ?kvs (map (apsnd PropTF) (sa_attrs sa s0)) h4
        = Some ((map (apsnd PropTF) ys, None), h4)"
      "list_all2 (\<lambda>(n, x) (m, y). n = m \<and> flat_view y = flat_view x) (sa_attrs sa s) ys"
      using map_attributes_made [OF _ names(2)] by blast
    have snd_ys: "map fst ys = map fst (sa_attrs sa s)" "map (apsnd flat_view) ys = map (apsnd flat_view) (sa_attrs sa s)"
      using ys(2) by (induction rule: list_all2_induct) auto
    have "map (fresh_like o snd) ys = map (fresh_like o snd) (sa_attrs sa s)"
      using ys(2) fl(2) by (induction rule: list_all2_induct) (auto dest: same_view_kind)
    then have "same_kinds (map snd ys) (sa_attrs sa s0)"
      by (simp add: same_kinds_def assms(4) comp_def)
    from attrs_set [OF this] have set: "sa_attrs sa (sa_set sa (map snd ys) s0) = ys"
      by (simp add: assms(4) comp_def snd_ys(1) [symmetric] zip_map_fst_snd)
    have lookup: "lookup_value L ?kvs ''transport'' = tv" using names(1) by (simp only: lookup_value_def option.case)
    from again obtain h5 where "embedded_from_value L P new_embedded tv h4 = Some ((unresolved (sa_transport sa s), None), h5)"
      by blast
    then show "\<exists>s' h3. attrs_from L P sa (val_make L (ty_object L a []) (MapValue ?kvs)) s0 h4 = Some ((s', None), h3)
      \<and> map (apsnd flat_view) (sa_attrs sa s') = map (apsnd flat_view) (sa_attrs sa s)
      \<and> sa_transport sa s' = unresolved (sa_transport sa s)"
      by (simp add: attrs_from_def map_attributes_to_def as_laws_simps [OF assms(1)] ys(1) lookup Let_def
          comp_def set_keeps assms(3) transport_set transport_keeps set snd_ys tv(2))
  qed
qed

end

subsection \<open>The calls of an instance\<close>

text \<open>A transport of ssh as it is configured, the block that is read from it, and an apply over its client.\<close>

definition demo_ssh_block :: demo_value where
  "demo_ssh_block = demo_value_of [] [(''ssh'', demo_value_of
     [(''host'', ''10.0.4.34''), (''user'', ''ubuntu''), (''private_key'', ''k'')] [])]"

definition demo_ssh_transport :: "demo_value transport_state" where
  "demo_ssh_transport = \<lparr>ts_type = SSH, ts_attrs = [(''user'', Tfv False False ''ubuntu''),
     (''host'', Tfv False False ''10.0.4.34''), (''private_key'', Tfv False False ''k''),
     (''private_key_path'', Tfv False True []), (''passphrase'', Tfv False True []), (''passphrase_path'', Tfv False True [])],
     ts_values = [(''host'', DemoValue TyString (StringValue ''10.0.4.34'')),
       (''user'', DemoValue TyString (StringValue ''ubuntu'')), (''private_key'', DemoValue TyString (StringValue ''k''))]\<rparr>"

definition demo_read_block :: "demo_value embedded" where
  "demo_read_block = \<lparr>em_transports = [(SSH, demo_ssh_transport)], em_resolved = None\<rparr>"

definition dialer_to :: "'w transport \<Rightarrow> ('w, 'w transport) dialer" where
  "dialer_to tr = (\<lambda>t opts w. ((Some tr, None), w))"

lemma demo_reads_block: "embedded_from_value demo_lib demo_paths new_embedded demo_ssh_block h = Some ((demo_read_block, None), h)"
  by (simp add: demo_reading demo_ssh_block_def demo_read_block_def demo_ssh_transport_def tf_get_def)

lemma demo_block_known: "val_known demo_lib demo_ssh_block"
  by (simp add: demo_ssh_block_def demo_lib_def demo_value_of_def)

lemma demo_built:
  assumes "so_embedded so planned = demo_read_block"
    and "so_validate so live_ctx (set_resolved so (Some demo_ssh_transport) planned) w = None"
  shows "\<exists>em h2. apply_build_transport demo_lib demo_paths so demo_view live_ctx new_provider_config planned h w
      = Some ((Some em, []), set_resolved so (Some demo_ssh_transport) planned, h2)
    \<and> embedded_client demo_paths live_ctx (dialer_to tr) em w = ((Some tr, None), w)"
  using assms
  by (simp add: demo_building demo_reading new_map_def demo_read_block_def demo_ssh_transport_def live Let_def
      check_k8s_not_configured_def client_opts_def dialer_to_def)

lemma demo_applied:
  assumes "apply_unmarshal_state so demo_view live_ctx req prior0 planned0 h w = Some (([], prior, planned), h1)"
    and "\<not> is_delete demo_wire req" "so_embedded so planned = demo_read_block"
    and "so_validate so live_ctx (set_resolved so (Some demo_ssh_transport) planned) w = None"
    and "act prior (set_id (set_resolved so (Some demo_ssh_transport) planned)) tr w = Some ((s, []), w')"
  shows "\<exists>h2. apply_resource demo_lib demo_paths demo_wire so set_id act demo_view live_ctx (dialer_to tr)
    new_provider_config req prior0 planned0 h w = Some ((s, []), h2, w')"
proof -
  obtain em h2 where "apply_build_transport demo_lib demo_paths so demo_view live_ctx new_provider_config planned h1 w
      = Some ((Some em, []), set_resolved so (Some demo_ssh_transport) planned, h2)"
    "embedded_client demo_paths live_ctx (dialer_to tr) em w = ((Some tr, None), w)"
    using demo_built [OF assms(3,4)] by blast
  with assms(1,2,5) show ?thesis by (simp add: apply_resource_def deref_def)
qed

lemma dialer_to_client:
  "embedded_client P ctx (dialer_to tr) em w = ((Some tr', None), w1) \<Longrightarrow> tr' = tr \<and> w1 = w"
  by (auto simp: embedded_client_def transport_client_def dialer_to_def Let_def
      split: option.split_asm prod.split_asm transport_type.split_asm if_split_asm)

lemma demo_not_delete: "\<not> is_delete demo_wire (demo_change v (demo_value_of xs ys))"
  by (simp add: is_delete_def demo_wire_def demo_change_def demo_value_of_def)

text \<open>Reading the attributes of an instance.\<close>

definition demo_strings :: "string list \<Rightarrow> demo_value" where
  "demo_strings xs = DemoValue (TyList TyString) (ListValue (map (\<lambda>x. DemoValue TyString (StringValue x)) xs))"

lemma demo_fields: "val_as_map demo_lib (demo_value_of ss vs) []
    = (map (\<lambda>(k, x). (k, DemoValue TyString (StringValue x))) ss @ vs, None)"
  by (simp add: demo_lib_def demo_value_of_def)

lemma demo_string_read: "string_from_value demo_lib h b (DemoValue TyString (StringValue x)) = (Tfv False False x, None)"
  by (simp add: string_from_value_def from_tf_value_def demo_lib_def unknown_dst_val_def unknown_value_def
      null_dst_val_def null_value_def tf_set_def)

lemma demo_num_read: "num_from_value demo_lib h b (DemoValue TyNumber (NumValue n)) = (Tfv False False n, None)"
  by (simp add: num_from_value_def from_tf_value_def demo_lib_def unknown_dst_val_def unknown_value_def
      null_dst_val_def null_value_def tf_set_def)

lemma demo_strings_read: "string_slice_from_value demo_lib h b (demo_strings xs)
    = (Tfv False False (map (Tfv False False) xs), None)"
proof -
  have "strings_from_values demo_lib h (map (\<lambda>x. DemoValue TyString (StringValue x)) xs) = (map (Tfv False False) xs, None)"
    by (induction xs) (simp_all add: demo_string_read)
  then show ?thesis
    by (simp add: string_slice_from_value_def from_tf_value_def demo_strings_def demo_lib_def unknown_dst_val_def
      unknown_value_def null_dst_val_def null_value_def tf_set_def)
qed

lemmas demo_rows = attrs_ops_def attrs_from_def map_attributes_to_def lookup_value_def demo_fields demo_string_read
  demo_num_read demo_strings_read demo_reads_block demo_block_known

end
