(* ===== verification/VaultStart.thy ===== *)
theory VaultStart
  imports VaultConfig ResourceState VaultChecks User
begin

text \<open>
  The resource enos_vault_start (\<open>internal/plugin/resource_vault_start.go\<close>): its state, how the
  configuration is rendered as HCL and as environment variables, what starting Vault does on the
  host, and the plan and the apply. Maps are read in the order of their lists.
\<close>

subsection \<open>Seals as environment variables\<close>

definition upper_char :: "char \<Rightarrow> char" where
  "upper_char c = (let n = of_char c :: nat in if 97 \<le> n \<and> n \<le> 122 then char_of (n - 32) else c)"

text \<open>\<open>strings.ToUpper\<close> of the ASCII names the attributes have.\<close>

definition to_upper :: "string \<Rightarrow> string" where
  "to_upper = map upper_char"

definition seal_attr_to_string :: "('v native \<Rightarrow> string) \<Rightarrow> 'v native \<Rightarrow> (goerr, string) sum" where
  "seal_attr_to_string show v =
     (case v of
        NatString s \<Rightarrow> Inr s
      | NatNum n \<Rightarrow> Inr (show_int (sint n))
      | _ \<Rightarrow> Inl (ErrNew (''unsupported seal attribute value, got '' @ show v @ '' for '' @ show v
          @ '', must be string or integer'')))"

text \<open>
  The environment variable of an attribute of a seal: none for a name, a priority and what has no
  variable, an error for what a transit seal does not have.
\<close>

definition seal_variable :: "string \<Rightarrow> string \<Rightarrow> (goerr, string option) sum" where
  "seal_variable seal k =
     (if k = ''name'' \<or> k = ''priority'' then Inr None
      else if seal = ''alicloudkms'' then Inr (Some
        (if k = ''kms_key_id'' then ''VAULT_ALICLOUDKMS_SEAL_KEY_ID'' else ''ALICLOUD_'' @ to_upper k))
      else if seal = ''awskms'' then Inr (Some
        (if k = ''kms_key_id'' then ''VAULT_AWSKMS_SEAL_KEY_ID''
         else if k = ''secret_key'' then ''AWS_SECRET_ACCESS_KEY'' else ''AWS_'' @ to_upper k))
      else if seal = ''azurekeyvault'' then Inr (Some
        (if k = ''vault_name'' \<or> k = ''key_name'' then ''VAULT_AZUREKEYVAULT_'' @ to_upper k
         else if k = ''resource'' then ''AZURE_AD_RESOURCE'' else ''AZURE_'' @ to_upper k))
      else if seal = ''gcpckms'' then Inr (Some
        (if k = ''key_ring'' \<or> k = ''crypto_ring'' \<or> k = ''crypto_key'' then ''VAULT_GCPCKMS_SEAL_'' @ to_upper k
         else ''GOOGLE_'' @ to_upper k))
      else if seal = ''pkcs11'' then Inr (Some
        (if k = ''default_hmac_key_label'' then ''VAULT_HSM_HMAC_DEFAULT_KEY_LABEL''
         else ''VAULT_HSM_'' @ to_upper k))
      else if seal = ''ocikms'' then Inr (Some
        (if k = ''key_id'' then ''VAULT_OCIKMS_SEAL_KEY_ID'' else ''VAULT_OCIKMS_'' @ to_upper k))
      else if k = ''address'' then Inr (Some ''VAULT_ADDR'')
      else if k = ''token'' \<or> k = ''namespace'' then Inr (Some (''VAULT_'' @ to_upper k))
      else if k = ''key_name'' \<or> k = ''mount_path'' \<or> k = ''disable_renewal''
        then Inr (Some (''VAULT_TRANSIT_SEAL_'' @ to_upper k))
      else if k = ''tls_ca_cert'' \<or> k = ''tls_client_cert'' \<or> k = ''tls_client_key'' \<or> k = ''tls_skip_verify''
        then Inr (Some (''VAULT_'' @ to_upper (drop 4 k)))
      else if k = ''tls_server_name'' then Inr (Some ''VAULT_TLS_SERVER_NAME'')
      else if k = ''key_id_prefix'' then Inr None
      else Inl (ErrNew (''unknown transit seal key: '' @ k)))"

fun translate_seal ::
  "('v native \<Rightarrow> string) \<Rightarrow> string \<Rightarrow> (string \<times> 'v native) list \<Rightarrow> (string \<times> string) list
    \<Rightarrow> (goerr, (string \<times> string) list) sum" where
  "translate_seal show seal [] out = Inr out"
| "translate_seal show seal ((k, v) # attrs) out =
     (case seal_attr_to_string show v of
        Inl e \<Rightarrow> Inl e
      | Inr s \<Rightarrow>
          (case seal_variable seal k of
             Inl e \<Rightarrow> Inl e
           | Inr None \<Rightarrow> translate_seal show seal attrs out
           | Inr (Some n) \<Rightarrow> translate_seal show seal attrs (map_set n s out)))"

definition supported_seals :: "string list" where
  "supported_seals = [''alicloudkms'', ''awskms'', ''azurekeyvault'', ''gcpckms'', ''ocikms'', ''pkcs11'', ''transit'']"

definition to_env_vars ::
  "('v native \<Rightarrow> string) \<Rightarrow> string \<Rightarrow> (string \<times> 'v native) list \<Rightarrow> (goerr, (string \<times> string) list) sum" where
  "to_env_vars show seal attrs =
     (if seal = [] then Inl (ErrNew ''no seal type provided'')
      else if attrs = [] then Inl (ErrNew ''no seal attributes provided'')
      else if seal \<in> set supported_seals then translate_seal show seal attrs [(''VAULT_SEAL_TYPE'', seal)]
      else Inl (ErrNew (seal @ '' is not a supported seal type'')))"

subsection \<open>Rendering the configuration\<close>

type_synonym env_vars = "(string \<times> string) list"

text \<open>\<open>maps.Copy\<close>.\<close>

definition copy_vars :: "env_vars \<Rightarrow> env_vars \<Rightarrow> env_vars" where
  "copy_vars dst src = fold (\<lambda>(k, v) m. map_set k v m) src dst"

definition render_setting ::
  "string \<Rightarrow> string \<Rightarrow> string \<Rightarrow> ('a \<Rightarrow> 'v native) \<Rightarrow> ('a \<Rightarrow> string) \<Rightarrow> 'a tfv
    \<Rightarrow> 'v hcl_builder \<times> env_vars \<Rightarrow> 'v hcl_builder \<times> env_vars" where
  "render_setting mode key var nv txt a r =
     (case r of (b, env) \<Rightarrow>
        if \<not> snd (tf_get a) then r
        else if mode = ''file'' then (b @ [HclAttribute key (nv (raw_val a))], env)
        else (b, map_set var (txt (raw_val a)) env))"

definition block_object :: "'v dynamic_block \<Rightarrow> ((string \<times> 'v native) list \<times> bool) go" where
  "block_object d = do { b \<leftarrow> deref (dy_object d); Some (get_object b) }"

definition named_block :: "'v stanza \<Rightarrow> string \<Rightarrow> ((string \<times> 'v native) list \<times> bool) go" where
  "named_block s n = do { d \<leftarrow> deref (map_of (sz_blocks s) n); block_object d }"

fun render_nested :: "'v stanza \<Rightarrow> string list \<Rightarrow> 'v hcl_builder go" where
  "render_nested s [] = Some []"
| "render_nested s (n # ns) = do {
     (m, ok) \<leftarrow> named_block s n;
     rest \<leftarrow> render_nested s ns;
     Some (if ok then HclBlock n [] (hcl_attributes m) # rest else rest)
   }"

definition render_listener :: "'v stanza \<Rightarrow> 'v hcl_builder go" where
  "render_listener s =
     (if \<not> snd (tf_get (sz_type s)) then Some []
      else do {
        (attrs, ok) \<leftarrow> named_block s ''attributes'';
        nested \<leftarrow> render_nested s (tl listener_blocks);
        Some [HclBlock ''listener'' [raw_val (sz_type s)] ((if ok then hcl_attributes attrs else []) @ nested)]
      })"

definition render_seal ::
  "('v native \<Rightarrow> string) \<Rightarrow> bool \<Rightarrow> string \<Rightarrow> (string \<times> 'v native) list \<Rightarrow> 'v hcl_builder \<times> env_vars
    \<Rightarrow> (goerr, 'v hcl_builder \<times> env_vars) sum" where
  "render_seal show as_env label attrs r =
     (case r of (b, env) \<Rightarrow>
        if as_env then
          (case to_env_vars show label attrs of Inl e \<Rightarrow> Inl e | Inr vars \<Rightarrow> Inr (b, copy_vars env vars))
        else Inr (b @ [HclBlock ''seal'' [label] (hcl_attributes attrs)], env))"

definition with_default :: "string \<Rightarrow> string \<Rightarrow> (string \<times> 'v native) list \<Rightarrow> (string \<times> 'v native) list" where
  "with_default k v attrs = (if map_of attrs k = None then map_set k (NatString v) attrs else attrs)"

definition seal_priority :: "string \<Rightarrow> string" where
  "seal_priority name = (if name = ''primary'' then ''1'' else if name = ''secondary'' then ''2'' else ''3'')"

fun render_seals ::
  "('v native \<Rightarrow> string) \<Rightarrow> bool \<Rightarrow> (string \<times> 'v config_block) list \<Rightarrow> 'v hcl_builder \<times> env_vars
    \<Rightarrow> (goerr, 'v hcl_builder \<times> env_vars) sum" where
  "render_seals show as_env [] r = Inr r"
| "render_seals show as_env ((name, seal) # seals) r =
     (let label = raw_val (cb_type seal) in
      case get_object (cb_attrs seal) of (attrs, ok) \<Rightarrow>
        if snd (tf_get (cb_type seal)) \<and> label \<noteq> ''shamir'' \<and> label \<noteq> ''none'' \<and> ok then
          (case render_seal show as_env label
             (with_default ''name'' name (with_default ''priority'' (seal_priority name) attrs)) r of
             Inl e \<Rightarrow> Inl e
           | Inr r1 \<Rightarrow> render_seals show as_env seals r1)
        else render_seals show as_env seals r)"

definition default_raft_data_dir :: string where
  "default_raft_data_dir = ''/opt/raft/data''"

definition render_storage :: "'v vault_config \<Rightarrow> (goerr, 'v hcl_builder) sum go" where
  "render_storage c =
     (let s = vc_storage c; label = raw_val (sz_type s) in
      if \<not> snd (tf_get (sz_type s)) then Some (Inr [])
      else do {
        (attrs, ok) \<leftarrow> named_block s ''attributes'';
        if \<not> ok then Some (Inr [HclBlock ''storage'' [label] []])
        else if label \<noteq> ''raft'' then Some (Inr [HclBlock ''storage'' [label] (hcl_attributes attrs)])
        else do {
          (join, joined) \<leftarrow> named_block s ''retry_join'';
          let path = (if map_of attrs ''path'' = None then [HclAttribute ''path'' (NatString default_raft_data_dir)] else []);
          let storage = (\<lambda>retry. [HclBlock ''storage'' [label] (hcl_attributes attrs @ path @ [HclBlock ''retry_join'' [] retry])]);
          Some (if joined then Inr (storage (hcl_attributes join))
            else if \<not> snd (tf_get (vc_cluster_name c)) then Inl (ErrNew ''enos_vault_start.cluster_name must be set'')
            else Inr (storage
              [HclAttribute ''auto_join'' (NatString (''provider=aws tag_key=Type tag_value='' @ raw_val (vc_cluster_name c))),
               HclAttribute ''auto_join_scheme'' (NatString ''http'')]))
        }
      })"

definition render_config ::
  "('v native \<Rightarrow> string) \<Rightarrow> string \<Rightarrow> 'v vault_config \<Rightarrow> (goerr, 'v hcl_builder \<times> env_vars) sum go" where
  "render_config show mode c =
     (if mode \<noteq> ''env'' \<and> mode \<noteq> ''file'' then
        Some (Inl (ErrNew (''unsupported config_mode '' @ mode @ '', expected '' @ CHR 0x27 # ''env'' @ CHR 0x27
          # '' or '' @ CHR 0x27 # ''file'' @ [CHR 0x27])))
      else do {
        let r0 = render_setting mode ''log_level'' ''VAULT_LOG_LEVEL'' NatString id (vc_log_level c)
          (render_setting mode ''ui'' ''VAULT_UI'' NatBool show_bool (vc_ui c)
          (render_setting mode ''cluster_addr'' ''VAULT_CLUSTER_ADDR'' NatString id (vc_cluster_addr c)
          (render_setting mode ''api_addr'' ''VAULT_API_ADDR'' NatString id (vc_api_addr c) ([], []))));
        listener \<leftarrow> render_listener (vc_listener c);
        let r1 = apfst (\<lambda>b. b @ listener) r0;
        let label = raw_val (cb_type (vc_seal c));
        (case (case get_object (cb_attrs (vc_seal c)) of (attrs, ok) \<Rightarrow>
            if snd (tf_get (cb_type (vc_seal c))) \<and> label \<noteq> ''shamir'' \<and> ok
            then render_seal show (mode \<noteq> ''file'') label attrs r1 else Inr r1) of
           Inl e \<Rightarrow> Some (Inl e)
         | Inr r2 \<Rightarrow>
             (let multi = needs_multiseal (vc_seals c);
                  r3 = (if multi then apfst (\<lambda>b. b @ [HclAttribute ''enable_multiseal'' (NatBool True)]) r2 else r2) in
              case render_seals show (\<not> multi \<and> mode = ''env'') (seals_list (vc_seals c)) r3 of
                Inl e \<Rightarrow> Some (Inl e)
              | Inr r4 \<Rightarrow> do {
                  st \<leftarrow> render_storage c;
                  (case st of
                     Inl e \<Rightarrow> Some (Inl e)
                   | Inr storage \<Rightarrow> do {
                       (m, ok) \<leftarrow> block_object (vc_telemetry c);
                       Some (Inr (apfst (\<lambda>b. b @ storage
                         @ (if ok then [HclBlock ''telemetry'' [] (hcl_attributes m)] else [])) r4))
                     })
                }))
      })"

subsection \<open>The state\<close>

record 'v vault_start_state =
  sv_id :: tf_string
  sv_bin_path :: tf_string
  sv_config :: "'v vault_config"
  sv_config_dir :: tf_string
  sv_config_mode :: tf_string
  sv_license :: tf_string
  sv_status :: tf_num
  sv_unit :: tf_string
  sv_manage :: tf_bool
  sv_transport :: "'v embedded"
  sv_username :: tf_string
  sv_environment :: tf_string_map

definition new_vault_start_state :: "'t heap \<Rightarrow> 'v vault_start_state \<times> 't heap" where
  "new_vault_start_state h = (case new_vault_config h of (c, h1) \<Rightarrow>
     (\<lparr>sv_id = new_tf [], sv_bin_path = new_tf [], sv_config = c, sv_config_dir = new_tf [],
       sv_config_mode = new_tf [], sv_license = new_tf [], sv_status = new_tf 0, sv_unit = new_tf [],
       sv_manage = new_tf False, sv_transport = new_embedded, sv_username = new_tf [],
       sv_environment = new_tf []\<rparr>, h1))"

definition vault_start_props :: "'v vault_start_state \<Rightarrow> (string \<times> ('v, unit) attr_prop) list" where
  "vault_start_props s = string_props [(''bin_path'', sv_bin_path s), (''config_dir'', sv_config_dir s),
       (''config_mode'', sv_config_mode s), (''id'', sv_id s), (''license'', sv_license s),
       (''unit_name'', sv_unit s), (''username'', sv_username s)]
     @ [(''status'', PropTF (TfNum (sv_status s))), (''manage_service'', PropTF (TfBool (sv_manage s))),
        (''environment'', PropTF (TfStringMap (sv_environment s)))]"

fun prop_num :: "('v, unit) attr_prop \<Rightarrow> tf_num" where
  "prop_num (PropTF (TfNum n)) = n"
| "prop_num _ = new_tf 0"

fun prop_map :: "('v, unit) attr_prop \<Rightarrow> tf_string_map" where
  "prop_map (PropTF (TfStringMap m)) = m"
| "prop_map _ = new_tf []"

fun set_vault_start_props :: "('v, unit) attr_prop list \<Rightarrow> 'v vault_start_state \<Rightarrow> 'v vault_start_state" where
  "set_vault_start_props [bin, dir, mode, i, lic, un, usr, stat, manage, vars] s =
     s\<lparr>sv_bin_path := prop_string bin, sv_config_dir := prop_string dir, sv_config_mode := prop_string mode,
       sv_id := prop_string i, sv_license := prop_string lic, sv_unit := prop_string un,
       sv_username := prop_string usr, sv_status := prop_num stat, sv_manage := prop_bool manage,
       sv_environment := prop_map vars\<rparr>"
| "set_vault_start_props _ s = s"

text \<open>A part that is known is read; a part the value does not have is the zero value.\<close>

definition read_known ::
  "('t, 'v) tf_lib \<Rightarrow> (string \<times> 'v) list \<Rightarrow> string \<Rightarrow> ('v \<Rightarrow> 'c \<Rightarrow> 't heap \<Rightarrow> (('c \<times> error) \<times> 't heap) go)
    \<Rightarrow> ('c \<times> error) \<times> 't heap \<Rightarrow> (('c \<times> error) \<times> 't heap) go" where
  "read_known L vals name rd r =
     (case r of
        ((c, Some e), h) \<Rightarrow> Some r
      | ((c, None), h) \<Rightarrow>
          if val_known L (lookup_value L vals name) then rd (lookup_value L vals name) c h else Some r)"

definition vault_start_from_value ::
  "('t, 'v) tf_lib \<Rightarrow> 'p path_lib \<Rightarrow> 'v \<Rightarrow> 'v vault_start_state \<Rightarrow> 't heap
    \<Rightarrow> (('v vault_start_state \<times> error) \<times> 't heap) go" where
  "vault_start_from_value L P val s h = do {
     ((props, vals, e), h1) \<leftarrow> map_attributes_to L (\<lambda>v u. (u, None)) val (vault_start_props s) h;
     r \<leftarrow> read_known L vals ''config'' (\<lambda>v s h. do {
         ((x, e), h1) \<leftarrow> vault_config_from_value L P v (sv_config s) h;
         Some ((s\<lparr>sv_config := x\<rparr>, e), h1) }) ((set_vault_start_props (map snd props) s, e), h1);
     read_known L vals ''transport'' (\<lambda>v s h. do {
         ((x, e), h1) \<leftarrow> embedded_from_value L P (sv_transport s) v h;
         Some ((s\<lparr>sv_transport := x\<rparr>, e), h1) }) r
   }"

definition vault_start_type :: "('t, 'v) tf_lib \<Rightarrow> 'v vault_start_state \<Rightarrow> 't heap \<Rightarrow> 't \<times> 't heap" where
  "vault_start_type L s h =
     (case vault_config_type L h of (cfg, h1) \<Rightarrow> object_of L []
        [(''bin_path'', ty_string L), (''config'', cfg), (''config_dir'', ty_string L), (''config_mode'', ty_string L),
         (''id'', ty_string L), (''license'', ty_string L), (''status'', ty_number L), (''unit_name'', ty_string L),
         (''manage_service'', ty_bool L), (''transport'', ty_dynamic L), (''username'', ty_string L),
         (''environment'', string_map_type L)] h1)"

definition vault_start_value :: "('t, 'v) tf_lib \<Rightarrow> 'v vault_start_state \<Rightarrow> 't heap \<Rightarrow> ('v \<times> 't heap) go" where
  "vault_start_value L s h =
     (case vault_start_type L s h of (t, h1) \<Rightarrow> do {
        (cfg, h2) \<leftarrow> vault_config_value L (sv_config s) h1;
        strings \<leftarrow> map_values L h2 [(''bin_path'', sv_bin_path s), (''config_dir'', sv_config_dir s),
          (''config_mode'', sv_config_mode s), (''id'', sv_id s), (''license'', sv_license s),
          (''unit_name'', sv_unit s), (''username'', sv_username s)];
        status \<leftarrow> num_value L h2 (sv_status s);
        manage \<leftarrow> bool_value L h2 (sv_manage s);
        (tr, h3) \<leftarrow> embedded_value L (sv_transport s) h2;
        vars \<leftarrow> string_map_value L h3 (sv_environment s);
        v \<leftarrow> new_value L h3 t (MapValue (strings @ [(''config'', cfg), (''status'', status),
          (''manage_service'', manage), (''transport'', tr), (''environment'', vars)]));
        Some (v, h3)
      })"

definition vault_start_validate :: "'p path_lib \<Rightarrow> 'w go_ctx \<Rightarrow> 'v vault_start_state \<Rightarrow> 'w \<Rightarrow> error" where
  "vault_start_validate P ctx s w =
     (case ctx_err ctx w of
        Some e \<Rightarrow> Some e
      | None \<Rightarrow>
          (case check_k8s_not_configured (sv_transport s) ''enos_vault_start'' of
             Some e \<Rightarrow> Some e
           | None \<Rightarrow>
               if \<not> snd (tf_get (sv_bin_path s))
               then Some (validation_error P ''you must provide a vault binary path'' [''bin_path'']) else None))"

definition vault_start_ops ::
  "('t, 'v) tf_lib \<Rightarrow> 'p path_lib \<Rightarrow> ('w, 'v vault_start_state, 't, 'v) state_ops" where
  "vault_start_ops L P = \<lparr>so_type = vault_start_type L, so_value = vault_start_value L,
     so_from = vault_start_from_value L P, so_validate = vault_start_validate P, so_embedded = sv_transport,
     so_set_embedded = (\<lambda>em s. s\<lparr>sv_transport := em\<rparr>)\<rparr>"

subsection \<open>Starting Vault\<close>

text \<open>
  What starting Vault needs of the outside: the embedded binaries, the HCL library, how a value is
  printed, the context that ends after a duration, the order of properties in messages, and the
  printing of raw JSON and of pods.
\<close>

record ('w, 'v, 'c, 'b) start_env =
  sx_embed :: embed_fs
  sx_hcl :: "('v, 'c, 'b) hcl_lib"
  sx_show :: "'v native \<Rightarrow> string"
  sx_timeout :: "duration \<Rightarrow> 'w go_ctx \<Rightarrow> 'w go_ctx"
  sx_visit :: "unit_properties \<Rightarrow> unit_properties"
  sx_raw_text :: "json option \<Rightarrow> string"
  sx_pods_text :: "pod_list \<Rightarrow> string"

definition vault_unit :: "string \<Rightarrow> string \<Rightarrow> string \<Rightarrow> unit_file" where
  "vault_unit bin cfg env_file =
     [(''Unit'', [(''Description'', ''HashiCorp Vault - A tool for managing secrets''),
        (''Documentation'', ''https://www.vaultproject.io/docs/''), (''Requires'', ''network-online.target''),
        (''After'', ''network-online.target''), (''ConditionFileNotEmpty'', cfg),
        (''StartLimitIntervalSec'', ''60''), (''StartLimitBurst'', ''3'')]),
      (''Service'', [(''Type'', ''notify''), (''EnvironmentFile'', env_file), (''User'', ''vault''),
        (''Group'', ''vault''), (''ProtectSystem'', ''full''), (''ProtectHome'', ''read-only''),
        (''PrivateTmp'', ''yes''), (''PrivateDevices'', ''yes''), (''SecureBits'', ''keep-caps''),
        (''AmbientCapabilities'', ''CAP_IPC_LOCK''), (''Capabilities'', ''CAP_IPC_LOCK+ep''),
        (''CapabilityBoundingSet'', ''CAP_SYSLOG CAP_IPC_LOCK''), (''NoNewPrivileges'', ''yes''),
        (''ExecStart'', bin @ '' server -config '' @ cfg), (''ExecReload'', ''/bin/kill --signal HUP $MAINPID''),
        (''KillMode'', ''process''), (''KillSignal'', ''SIGINT''), (''Restart'', ''on-failure''),
        (''RestartSec'', ''5''), (''TimeoutStopSec'', ''30''), (''LimitNOFILE'', ''65536''),
        (''LimitMEMLOCK'', ''infinity'')]),
      (''Install'', [(''WantedBy'', ''multi-user.target'')])]"

definition known_or :: "string \<Rightarrow> tf_string \<Rightarrow> string" where
  "known_or d a = (if snd (tf_get a) then raw_val a else d)"

definition known_vars :: "tf_string_map \<Rightarrow> env_vars" where
  "known_vars m = (if snd (tf_get m)
     then map (\<lambda>(k, v). (k, raw_val v)) (filter (\<lambda>(k, v). snd (tf_get v)) (raw_val m)) else [])"

definition env_file_text :: "env_vars \<Rightarrow> string" where
  "env_file_text vars = concat (map (\<lambda>(k, v). k @ ''='' @ v @ [nl]) vars)"

text \<open>
  The steps of \<open>startVault\<close> up to the restart, each with the text that its error gets. A step that
  fails ends the start. \<open>wrap_step\<close> adds the text.
\<close>

definition wrap_step :: "string \<Rightarrow> error \<times> 'w \<Rightarrow> error \<times> 'w" where
  "wrap_step msg r = (case r of (Some e, w) \<Rightarrow> (Some (ErrWrap msg e []), w) | (None, w) \<Rightarrow> (None, w))"

definition owned_copy :: "string \<Rightarrow> string \<Rightarrow> string \<Rightarrow> string \<Rightarrow> 'w copy_file_request" where
  "owned_copy usr md dest text = new_copy_file_request
     [with_copy_file_destination dest, with_copy_file_chmod md, with_copy_file_chown (usr @ '':'' @ usr),
      with_copy_file_content (new_reader text)]"

text \<open>The pointers of the new user are addresses of this call; none of them outlives it.\<close>

definition ensure_user :: "'w transport \<Rightarrow> string \<Rightarrow> string \<Rightarrow> 'w \<Rightarrow> error \<times> 'w" where
  "ensure_user tr name dir w =
     (case create_or_update_user tr (Some (new_user [with_user_name (Ptr 0 name), with_user_home_dir (Ptr 1 dir),
        with_user_shell (Ptr 2 ''/bin/false'')])) 3 w of
        (((_, e), _), w1) \<Rightarrow> wrap_step ''failed to find or create the vault user, due to: '' (e, w1))"

definition copy_license ::
  "'w go_ctx \<Rightarrow> 'w transport \<Rightarrow> string \<Rightarrow> string \<Rightarrow> tf_string \<Rightarrow> env_vars \<Rightarrow> 'w
    \<Rightarrow> ((error \<times> env_vars) \<times> 'w) go" where
  "copy_license ctx tr usr path lic vars w =
     (if \<not> snd (tf_get lic) then Some ((None, vars), w)
      else do {
        ((e, _), w1) \<leftarrow> copy_file ctx tr (Some (owned_copy usr ''640'' path (raw_val lic))) w;
        Some (case e of
            Some e' \<Rightarrow> ((Some (ErrWrap ''failed to copy vault license, due to: '' e' []), vars), w1)
          | None \<Rightarrow> ((None, map_set ''VAULT_LICENSE_PATH'' path vars), w1))
      })"

definition write_unit ::
  "'w go_ctx \<Rightarrow> 'w transport \<Rightarrow> string \<Rightarrow> string \<Rightarrow> unit_file \<Rightarrow> 'w \<Rightarrow> (error \<times> 'w) go" where
  "write_unit ctx tr usr un u w = do {
     r \<leftarrow> create_unit_file ctx tr (new_create_unit_file_request
       [with_unit_unit_path (''/etc/systemd/system/'' @ un @ ''.service''), with_unit_chmod ''644'',
        with_unit_chown (usr @ '':'' @ usr), with_unit_file (Some (to_ini u))]) w;
     Some (case wrap_step ''failed to create the vault systemd unit, due to: '' r of
         (Some e, w1) \<Rightarrow> (Some e, w1)
       | (None, w1) \<Rightarrow>
           (case run_systemctl tr (new_run_systemctl_command [with_systemctl_sub_command SubCommandDaemonReload]) w1 of
              ((_, e), w2) \<Rightarrow> wrap_step
                ''failed to daemon-reload systemd after writing the vault systemd unit, due to: '' (e, w2)))
   }"

definition own_raft_dir :: "'w transport \<Rightarrow> string \<Rightarrow> 'v stanza \<Rightarrow> 'w \<Rightarrow> error \<times> 'w" where
  "own_raft_dir tr usr storage w =
     (if snd (tf_get (sz_type storage)) \<and> raw_val (sz_type storage) = ''raft''
      then wrap_step ''failed to change ownership on raft data directory, due to: ''
        (create_directory tr (Some (new_create_directory_request [with_dir_name default_raft_data_dir, with_dir_chown usr])) w)
      else (None, w))"

text \<open>The files of the service: the license, the configuration, the environment and the unit.\<close>

definition install_vault ::
  "('w, 'v, 'c, 'b) start_env \<Rightarrow> 'w go_ctx \<Rightarrow> 'w transport \<Rightarrow> 'v vault_start_state \<Rightarrow> 'w \<Rightarrow> (error \<times> 'w) go" where
  "install_vault E ctx tr s w =
     (let usr = known_or ''vault'' (sv_username s);
          dir = known_or ''/etc/vault.d'' (sv_config_dir s);
          cfg_path = path_join [dir, ''vault.hcl''];
          env_path = ''/etc/vault.d/vault.env'';
          mode = (if snd (tf_get (sv_config_mode s)) \<and> raw_val (sv_config_mode s) \<noteq> []
            then raw_val (sv_config_mode s) else ''file'') in
      case ensure_user tr usr dir w of
        (Some e, w1) \<Rightarrow> Some (Some e, w1)
      | (None, w1) \<Rightarrow> do {
     ((e, vars), w2) \<leftarrow> copy_license ctx tr usr (path_join [dir, ''vault.lic'']) (sv_license s)
       (known_vars (sv_environment s)) w1;
     if e \<noteq> None then Some (e, w2) else do {
     rendered \<leftarrow> render_config (sx_show E) mode (sv_config s);
     (case rendered of
        Inl e \<Rightarrow> Some (Some (ErrWrap ''failed to create the vault HCL configuration, due to: '' e []), w2)
      | Inr (doc, config_env) \<Rightarrow> do {
     r \<leftarrow> create_hcl_config_file (sx_hcl E) ctx tr (new_hcl_request [with_hcl_path cfg_path, with_hcl_chmod ''640'',
       with_hcl_chown (usr @ '':'' @ usr), with_hcl_file doc]) w2;
     (case wrap_step ''failed to create the vault configuration file, due to: '' r of
        (Some e, w3) \<Rightarrow> Some (Some e, w3)
      | (None, w3) \<Rightarrow> do {
     ((e, _), w4) \<leftarrow> copy_file ctx tr (Some (owned_copy usr ''644'' env_path
       (env_file_text (copy_vars vars config_env)))) w3;
     (case e of
        Some e' \<Rightarrow> Some (Some (ErrWrap ''failed to create the vault environment file, due to: '' e' []), w4)
      | None \<Rightarrow> do {
     r \<leftarrow> (if snd (tf_get (sv_manage s)) \<and> \<not> raw_val (sv_manage s) then Some (None, w4)
       else write_unit ctx tr usr (known_or ''vault'' (sv_unit s)) (vault_unit (raw_val (sv_bin_path s)) cfg_path env_path) w4);
     (case r of
        (Some e, w5) \<Rightarrow> Some (Some e, w5)
      | (None, w5) \<Rightarrow> Some (own_raft_dir tr usr (vc_storage (sv_config s)) w5))
     }) }) }) } })"

text \<open>What the status becomes, and the error with the printed state.\<close>

definition started_state ::
  "('w, 'v, 'c, 'b) start_env \<Rightarrow> vault_state option \<times> error \<Rightarrow> (vault_code \<times> error) go" where
  "started_state E r =
     (case r of (st, err) \<Rightarrow>
      let (code, err) = (case st of
             None \<Rightarrow> (StatusUnknown, err)
           | Some _ \<Rightarrow> (case state_status_code st of (code, err1) \<Rightarrow> (code, join_errs [err, err1]))) in
      case err of
        None \<Rightarrow> Some (code, None)
      | Some e \<Rightarrow>
          let e1 = ErrWrap ''failed to start the vault service: '' e [] in
          (case st of
             None \<Rightarrow> Some (code, Some e1)
           | Some v \<Rightarrow> do {
               text \<leftarrow> state_string (sx_raw_text E) (sx_pods_text E) (sx_visit E) v;
               Some (code, Some (ErrWrap [] e1
                 ([nl] @ ''Cluster State after starting the vault systemd service:'' @ [nl] @ indent ''  '' text)))
             }))"

definition start_request :: "duration \<Rightarrow> 'v vault_start_state \<Rightarrow> 'w state_request" where
  "start_request ovf s = new_state_request ovf [with_state_fc_use_home_dir, with_state_bin_path (raw_val (sv_bin_path s)),
     with_state_addr (raw_val (vc_api_addr (sv_config s))), with_state_unit (known_or ''vault'' (sv_unit s))]"

definition set_status :: "vault_code \<Rightarrow> 'v vault_start_state \<Rightarrow> 'v vault_start_state" where
  "set_status code s = s\<lparr>sv_status := tf_set (word_of_int code) (sv_status s)\<rparr>"

definition set_log_level :: "'v vault_start_state \<Rightarrow> 'v vault_start_state" where
  "set_log_level s = (if snd (tf_get (vc_log_level (sv_config s))) then s
     else s\<lparr>sv_config := (sv_config s)\<lparr>vc_log_level := tf_set ''info'' (vc_log_level (sv_config s))\<rparr>\<rparr>)"

text \<open>
  The context of one minute is what \<open>sx_timeout\<close> makes of the caller's: its deadline is not tied
  to the moment the code makes it, which is after the installation. The code hands it to the
  restart as well; the commands of systemd are modelled without a context.
\<close>

definition start_vault ::
  "('w, 'v, 'c, 'b) start_env \<Rightarrow> 'w go_ctx \<Rightarrow> 'w transport \<Rightarrow> 'v vault_start_state \<Rightarrow> 'w
    \<Rightarrow> ((error \<times> 'v vault_start_state) \<times> 'w) go" where
  "start_vault E ctx tr s0 w =
     (let s = set_log_level (set_status StatusUnknown s0);
          un = known_or ''vault'' (sv_unit s);
          tctx = sx_timeout E (60 * second) ctx in do {
      r \<leftarrow> install_vault E ctx tr s w;
      (case r of
         (Some e, w1) \<Rightarrow> Some ((Some e, s), w1)
       | (None, w1) \<Rightarrow>
           (case wrap_step ''failed to start the vault service, due to: '' (restart_service (sx_visit E) tr un w1) of
              (Some e, w2) \<Rightarrow> Some ((Some e, s), w2)
            | (None, w2) \<Rightarrow> do {
                (out, _, w3) \<leftarrow> wait_for_state (sx_embed E) tctx tr (start_request (pow_overflow ctx) s)
                  [check_has_systemd_properties, check_seal_state_known] w2;
                (code, err) \<leftarrow> started_state E out;
                Some ((err, set_status code s), w3)
              }))
     })"

subsection \<open>Planning and applying\<close>

definition vault_start_computed :: "'v vault_start_state \<Rightarrow> 'v vault_start_state \<Rightarrow> 'v vault_start_state" where
  "vault_start_computed prior s =
     (if snd (tf_get (sv_id prior)) then s
      else s\<lparr>sv_id := set_unknown (sv_id s), sv_status := set_unknown (sv_status s)\<rparr>)"

definition vault_start_plan ::
  "('t, 'v) tf_lib \<Rightarrow> 'p path_lib \<Rightarrow> 'p error_view \<Rightarrow> 'w go_ctx
    \<Rightarrow> 'v provider_config \<Rightarrow> ('v, 'd) change_request \<Rightarrow> 't heap \<Rightarrow> 'w
    \<Rightarrow> (('v vault_start_state \<times> 'p diagnostic list \<times> 'p list) \<times> 't heap) go" where
  "vault_start_plan L P ev ctx c req h w =
     (case new_vault_start_state h of (prior0, h0) \<Rightarrow>
      case new_vault_start_state h0 of (proposed0, h1) \<Rightarrow>
        plan_resource L P (vault_start_ops L P) vault_start_computed ev ctx c req prior0 proposed0 h1 w)"

text \<open>The states are compared with their failure handlers, of which each has two.\<close>

definition start_handlers :: nat where
  "start_handlers = 2"

definition vault_start_act ::
  "('w, 'v, 'c, 'b) start_env \<Rightarrow> 'p error_view \<Rightarrow> 'w go_ctx \<Rightarrow> 'v vault_start_state \<Rightarrow> 'v vault_start_state
    \<Rightarrow> 'w transport \<Rightarrow> 'w \<Rightarrow> (('v vault_start_state \<times> 'p diagnostic list) \<times> 'w) go" where
  "vault_start_act E ev ctx prior s tr w =
     (if \<not> snd (tf_get (sv_id prior)) \<or> deeply_equal start_handlers s prior then do {
        ((e, s1), w1) \<leftarrow> start_vault E ctx tr s w;
        Some ((s1, op_diagnostic ev ''Vault Start Error'' e), w1)
      }
      else Some ((s, []), w))"

definition vault_start_apply ::
  "('t, 'v) tf_lib \<Rightarrow> 'p path_lib \<Rightarrow> ('v, 't, 'd) wire \<Rightarrow> ('w, 'v, 'c, 'b) start_env \<Rightarrow> 'p error_view \<Rightarrow> 'w go_ctx
    \<Rightarrow> ('w, 'w transport) dialer \<Rightarrow> 'v provider_config \<Rightarrow> ('v, 'd) change_request \<Rightarrow> 't heap \<Rightarrow> 'w
    \<Rightarrow> (('v vault_start_state \<times> 'p diagnostic list) \<times> 't heap \<times> 'w) go" where
  "vault_start_apply L P wr E ev ctx dial c req h w =
     (case new_vault_start_state h of (prior0, h0) \<Rightarrow>
      case new_vault_start_state h0 of (planned0, h1) \<Rightarrow>
        apply_resource L P wr (vault_start_ops L P) (\<lambda>s. s\<lparr>sv_id := tf_set ''static'' (sv_id s)\<rparr>)
          (vault_start_act E ev ctx) ev ctx dial c req prior0 planned0 h1 w)"

subsection \<open>Properties\<close>

lemma set_vault_start_props_transport [simp]: "sv_transport (set_vault_start_props xs s) = sv_transport s"
  by (induction xs s rule: set_vault_start_props.induct) simp_all

lemma vault_start_read_faithful:
  assumes "tf_laws L" "sv_transport s0 = new_embedded" "vault_start_from_value L P v s0 h = Some ((s, None), h1)"
  shows "faithful_block L P (em_transports (sv_transport s))"
  using assms(3)
  by (auto simp: vault_start_from_value_def read_known_def assms(2) elim!: bind_eq_SomeE
      dest!: read_block_faithful [OF assms(1)] split: option.split_asm prod.split_asm if_split_asm)

interpretation vault_start_states: resource_state L P "vault_start_ops L P"
  by unfold_locales (auto simp: vault_start_ops_def intro: vault_start_read_faithful)

lemma planned_start_keeps:
  assumes "planned_as (vault_start_ops L P) planned s"
  shows "sv_config s = sv_config planned" "sv_status s = sv_status planned"
  using assms by (auto simp: planned_as_def vault_start_ops_def set_resolved_def)

text \<open>
  C40: applying a change of a Vault that was started before
  does nothing on the host beyond making the client. The new configuration only becomes the state.
\<close>

theorem vault_update_never_starts:
  fixes s :: "'v vault_start_state"
  assumes "new_vault_start_state h = (prior0, h0)" "new_vault_start_state h0 = (planned0, h1)"
    and "apply_unmarshal_state (vault_start_ops L P) ev ctx req prior0 planned0 h1 w = Some (([], prior, planned), h2)"
    and "snd (tf_get (sv_id prior))" "\<not> is_delete wr req"
    and "vault_start_apply L P wr E ev ctx dial c req h w = Some ((s, ds), h', w')"
  shows "(w' = w \<or> (\<exists>em :: 'v embedded. w' = snd (embedded_client P ctx dial em w)))
    \<and> sv_config s = sv_config planned \<and> sv_status s = sv_status planned"
proof -
  have "apply_resource L P wr (vault_start_ops L P) (\<lambda>s. s\<lparr>sv_id := tf_set ''static'' (sv_id s)\<rparr>)
      (vault_start_act E ev ctx) ev ctx dial c req prior0 planned0 h1 w = Some ((s, ds), h', w')"
    using assms(1,2,6) by (simp add: vault_start_apply_def)
  from assms(3,5) this show ?thesis
  proof (cases rule: vault_start_states.apply_resource_cases)
    case (ran s1 em tr w1)
    then have "s = s1\<lparr>sv_id := tf_set ''static'' (sv_id s1)\<rparr> \<and> w' = w1"
      using assms(4) by (simp add: vault_start_act_def deeply_equal_def start_handlers_def)
    with ran planned_start_keeps [OF ran(1)] show ?thesis by (intro conjI disjI2 exI [of _ em]) simp_all
  next
    case (failed s1 em)
    with planned_start_keeps [OF failed(1)] show ?thesis by auto
  qed
qed

text \<open>
  A start without an error installed the files, restarted the
  service and read a state after, in which the unit is enabled and running and all readings agree
  whether Vault is sealed; the status is that of a sealed or an unsealed Vault.
\<close>

theorem start_vault_running:
  assumes "start_vault E ctx tr s0 w = Some ((None, s), w')"
  shows "\<exists>w1 w2 w3 st req1 req2 sealed.
    install_vault E ctx tr (set_log_level (set_status StatusUnknown s0)) w = Some (None, w1)
    \<and> restart_service (sx_visit E) tr (known_or ''vault'' (sv_unit s0)) w1 = (None, w2)
    \<and> get_state (sx_embed E) (sx_timeout E (60 * second) ctx) tr req1 w3 = Some ((Some st, None), req2, w')
    \<and> check_has_systemd_properties (Some st) = Some None \<and> state_is_sealed (Some st) = (sealed, None)
    \<and> sv_status s = Tfv False False (if sealed then 2 else 0)"
proof -
  let ?s = "set_log_level (set_status StatusUnknown s0)"
  let ?un = "known_or ''vault'' (sv_unit s0)"
  have un: "sv_unit ?s = sv_unit s0" by (simp add: set_log_level_def set_status_def)
  from assms obtain w1 w2 out code req2 where
    i: "install_vault E ctx tr ?s w = Some (None, w1)" "restart_service (sx_visit E) tr ?un w1 = (None, w2)"
    and wt: "wait_for_state (sx_embed E) (sx_timeout E (60 * second) ctx) tr (start_request (pow_overflow ctx) ?s)
        [check_has_systemd_properties, check_seal_state_known] w2 = Some (out, req2, w')"
    and st: "started_state E out = Some (code, None)" "s = set_status code ?s"
    by (auto simp: start_vault_def Let_def un wrap_step_def elim!: bind_eq_SomeE
        split: option.split_asm prod.split_asm)
  obtain sp e where out: "out = (sp, e)" by force
  with st(1) have "e = None" "snd (state_status_code sp) = None \<or> sp = None" "sp \<noteq> None \<Longrightarrow> code = fst (state_status_code sp)"
    by (auto simp: started_state_def Let_def elim!: bind_eq_SomeE split: option.split_asm prod.split_asm)
  with wait_for_state_ok wt out obtain v req1 w3 where v: "sp = Some v"
    "get_state (sx_embed E) (sx_timeout E (60 * second) ctx) tr req1 w3 = Some ((Some v, None), req2, w')"
    "check_has_systemd_properties (Some v) = Some None" "check_seal_state_known (Some v) = Some None"
    by (metis list.set_intros(1,2))
  from v(4) obtain sealed where sealed: "state_is_sealed (Some v) = (sealed, None)"
    by (auto simp: check_seal_state_known_def split: prod.split_asm option.split_asm)
  then have "fst (state_status_code (Some v)) = (if sealed then 2 else 0)"
    by (auto simp: state_is_sealed_ok_iff status_is_sealed_ok_iff state_status_code_def vault_code_defs)
  with \<open>sp \<noteq> None \<Longrightarrow> code = fst (state_status_code sp)\<close> v(1) st(2) have "sv_status s = Tfv False False (if sealed then 2 else 0)"
    by (simp add: set_status_def tf_set_def)
  with i v sealed show ?thesis by blast
qed

subsection \<open>Witnesses\<close>

definition demo_vault :: "string \<Rightarrow> demo_value" where
  "demo_vault level = demo_value_of [(''bin_path'', ''/opt/vault/bin''), (''id'', ''static'')]
     [(''config'', demo_value_of [(''log_level'', level)] []), (''transport'', demo_ssh_block)]"

definition demo_hcl :: "(demo_value, string, string) hcl_lib" where
  "demo_hcl = \<lparr>hl_value = (\<lambda>v. Inr ''1''), hl_show = (\<lambda>v. ''1''), hl_empty = [], hl_set = (\<lambda>k c b. b @ k @ ''=1 ''),
     hl_block = (\<lambda>name labels nested b. b @ name @ nested), hl_text = id\<rparr>"

definition demo_start_env :: "(nat, demo_value, string, string) start_env" where
  "demo_start_env = \<lparr>sx_embed = demo_fs, sx_hcl = demo_hcl, sx_show = (\<lambda>v. []), sx_timeout = (\<lambda>d c. c),
     sx_visit = id, sx_raw_text = (\<lambda>j. []), sx_pods_text = (\<lambda>p. [])\<rparr>"

lemmas demo_configuring = new_vault_start_state_def new_vault_config_def new_config_block_def new_stanza_def
  new_seals_config_def storage_blocks_def listener_blocks_def new_dynamic_block_def new_tf_object_def new_map_def
  vault_start_ops_def vault_start_from_value_def vault_start_props_def read_known_def vault_config_from_value_def
  vault_config_props_def vault_config_strings_def read_part_def

lemma demo_vault_read:
  "\<exists>prior0 h0 planned0 h1 prior planned h2. new_vault_start_state demo_heap = (prior0, h0)
   \<and> new_vault_start_state h0 = (planned0, h1)
   \<and> apply_unmarshal_state (vault_start_ops demo_lib demo_paths) demo_view live_ctx
       (demo_change (demo_vault ''info'') (demo_vault ''debug'')) prior0 planned0 h1 0 = Some (([], prior, planned), h2)
   \<and> snd (tf_get (sv_id prior)) \<and> vc_log_level (sv_config planned) = Tfv False False ''debug''"
  by (simp add: demo_configuring apply_unmarshal_state_def demo_change_def live demo_vault_def demo_ssh_block_def
      demo_reading tf_get_def demo_heap_def)

lemma demo_vault_applied:
  "\<exists>s h2 w'. vault_start_apply demo_lib demo_paths demo_wire demo_start_env demo_view live_ctx demo_dialer
     new_provider_config (demo_change (demo_vault ''info'') (demo_vault ''debug'')) demo_heap 0 = Some ((s, []), h2, w')"
  by (simp add: vault_start_apply_def apply_resource_def demo_configuring apply_unmarshal_state_def demo_change_def live demo_vault_def
      demo_ssh_block_def demo_reading tf_get_def demo_heap_def is_delete_def demo_wire_def)
    (simp add: demo_building demo_heap_def demo_reading new_map_def transport_type_from_def live,
     simp add: Let_def vault_start_validate_def check_k8s_not_configured_def live tf_get_def demo_building
      client_opts_def set_resolved_def demo_dialer_def vault_start_act_def deeply_equal_def start_handlers_def)

theorem vault_update_never_starts_witness:
  "\<exists>s h2 w'. vault_start_apply demo_lib demo_paths demo_wire demo_start_env demo_view live_ctx demo_dialer
     new_provider_config (demo_change (demo_vault ''info'') (demo_vault ''debug'')) demo_heap 0 = Some ((s, []), h2, w')
     \<and> vc_log_level (sv_config s) = Tfv False False ''debug''"
proof -
  let ?req = "demo_change (demo_vault ''info'') (demo_vault ''debug'')"
  obtain prior0 h0 planned0 h1 prior planned h2 where r: "new_vault_start_state demo_heap = (prior0, h0)"
    "new_vault_start_state h0 = (planned0, h1)"
    "apply_unmarshal_state (vault_start_ops demo_lib demo_paths) demo_view live_ctx ?req prior0 planned0 h1 0
      = Some (([], prior, planned), h2)"
    "snd (tf_get (sv_id prior))" "vc_log_level (sv_config planned) = Tfv False False ''debug''"
    using demo_vault_read by blast
  obtain s h3 w' where s: "vault_start_apply demo_lib demo_paths demo_wire demo_start_env demo_view live_ctx demo_dialer
     new_provider_config ?req demo_heap 0 = Some ((s, []), h3, w')"
    using demo_vault_applied by blast
  have "\<not> is_delete demo_wire ?req"
    by (simp add: is_delete_def demo_wire_def demo_change_def demo_vault_def demo_value_of_def)
  from vault_update_never_starts [OF r(1,2,3,4) this s] r(5) s show ?thesis by auto
qed

end
