(* ===== verification/HostResources.thy ===== *)
theory HostResources
  imports ResourceState User
begin

text \<open>
  The resources that look at the host when they are read: enos_user
  (\<open>internal/plugin/resource_user.go\<close>) and enos_host_info (\<open>resource_host_info.go\<close>). Reading them
  makes a client of the transport in the state and refreshes the state with what the host
  answers; what fails on the way leaves the state as it is.
\<close>

subsection \<open>Reading a resource on its host\<close>

definition read_live ::
  "('t, 'v) tf_lib \<Rightarrow> 'p path_lib \<Rightarrow> ('v, 't, 'd) wire \<Rightarrow> ('w, 's, 't, 'v) state_ops \<Rightarrow> 'p error_view
    \<Rightarrow> ('s \<Rightarrow> string) \<Rightarrow> ('s \<Rightarrow> bool) \<Rightarrow> ('s \<Rightarrow> 'w transport \<Rightarrow> 'w \<Rightarrow> ('s \<times> 'w) go) \<Rightarrow> 'w go_ctx
    \<Rightarrow> ('w, 'w transport) dialer \<Rightarrow> 'v provider_config \<Rightarrow> 'd \<Rightarrow> 's \<Rightarrow> 't heap \<Rightarrow> 'w
    \<Rightarrow> (('d option \<times> 'p diagnostic list) \<times> 'w) go" where
  "read_live L P wr so ev show ready refresh ctx dial c dyn s0 h w =
     (case ctx_err ctx w of
        Some e \<Rightarrow> Some ((None, [ctx_to_diagnostic ev e]), w)
      | None \<Rightarrow>
          (case read_build_transport L P wr so ev show ctx c dyn s0 h w of
             ((et, ds), s, h1) \<Rightarrow> do {
               (s1, w1) \<leftarrow> (case et of
                   None \<Rightarrow> Some (s, w)
                 | Some em \<Rightarrow>
                     if \<not> ready s then Some (s, w)
                     else (case embedded_client P ctx dial em w of
                         ((_, Some e), w1) \<Rightarrow> Some (s, w1)
                       | ((client, None), w1) \<Rightarrow> do { tr \<leftarrow> deref client; refresh s tr w1 }));
               ((dyn1, e), _) \<leftarrow> marshal_of wr so s1 h1;
               Some ((Some dyn1, ds @ op_diagnostic ev ''Serialization Error'' e), w1)
             }))"

subsection \<open>Users\<close>

record 'v user_state =
  ur_id :: tf_string
  ur_name :: tf_string
  ur_home_dir :: tf_string
  ur_shell :: tf_string
  ur_gid :: tf_string
  ur_uid :: tf_string
  ur_transport :: "'v embedded"

definition new_user_state :: "'v user_state" where
  "new_user_state = \<lparr>ur_id = new_tf [], ur_name = new_tf [], ur_home_dir = new_tf [], ur_shell = new_tf [],
     ur_gid = new_tf [], ur_uid = new_tf [], ur_transport = new_embedded\<rparr>"

fun set_user_attrs :: "'v tf_any list \<Rightarrow> 'v user_state \<Rightarrow> 'v user_state" where
  "set_user_attrs [i, n, d, sh, u, g] s =
     s\<lparr>ur_id := any_string i, ur_name := any_string n, ur_home_dir := any_string d, ur_shell := any_string sh,
       ur_uid := any_string u, ur_gid := any_string g\<rparr>"
| "set_user_attrs _ s = s"

definition user_attrs :: "('v user_state, 'v) state_attrs" where
  "user_attrs = \<lparr>sa_attrs = (\<lambda>s. [(''id'', TfString (ur_id s)), (''name'', TfString (ur_name s)),
       (''home_dir'', TfString (ur_home_dir s)), (''shell'', TfString (ur_shell s)),
       (''uid'', TfString (ur_uid s)), (''gid'', TfString (ur_gid s))]),
     sa_set = set_user_attrs, sa_transport = ur_transport, sa_set_transport = (\<lambda>em s. s\<lparr>ur_transport := em\<rparr>)\<rparr>"

definition user_validate :: "'w go_ctx \<Rightarrow> 'v user_state \<Rightarrow> 'w \<Rightarrow> error" where
  "user_validate ctx s w = ctx_err ctx w"

definition user_ops :: "('t, 'v) tf_lib \<Rightarrow> 'p path_lib \<Rightarrow> ('w, 'v user_state, 't, 'v) state_ops" where
  "user_ops L P = attrs_ops L P user_attrs user_validate"

definition user_computed :: "'v user_state \<Rightarrow> 'v user_state \<Rightarrow> 'v user_state" where
  "user_computed prior s = s\<lparr>
     ur_id := (if snd (tf_get (ur_id prior)) then ur_id s else set_unknown (ur_id s)),
     ur_home_dir := unknown_unless_set (ur_home_dir s), ur_shell := unknown_unless_set (ur_shell s),
     ur_uid := unknown_unless_set (ur_uid s), ur_gid := unknown_unless_set (ur_gid s)\<rparr>"

definition user_plan ::
  "('t, 'v) tf_lib \<Rightarrow> 'p path_lib \<Rightarrow> 'p error_view \<Rightarrow> 'w go_ctx
    \<Rightarrow> 'v provider_config \<Rightarrow> ('v, 'd) change_request \<Rightarrow> 't heap \<Rightarrow> 'w
    \<Rightarrow> (('v user_state \<times> 'p diagnostic list \<times> 'p list) \<times> 't heap) go" where
  "user_plan L P ev ctx c req = plan_resource L P (user_ops L P) user_computed ev ctx c req new_user_state new_user_state"

text \<open>\<open>User\<close>, and the user that is made of it: each option has the address of its own parameter.\<close>

definition user_option :: "(string ptr \<Rightarrow> user_opt) \<Rightarrow> nat \<Rightarrow> tf_string \<Rightarrow> user_opt list" where
  "user_option opt a x = (if snd (tf_get x) then [opt (Ptr a (raw_val x))] else [])"

definition user_spec :: "'v user_state \<Rightarrow> user option" where
  "user_spec s =
     (if \<not> snd (tf_get (ur_name s)) \<or> raw_val (ur_name s) = [] then None
      else Some (new_user (with_user_name (Ptr 0 (raw_val (ur_name s)))
        # user_option with_user_home_dir 1 (ur_home_dir s) @ user_option with_user_shell 2 (ur_shell s)
        @ user_option with_user_uid 3 (ur_uid s) @ user_option with_user_gid 4 (ur_gid s))))"

definition field_text :: "string ptr option \<Rightarrow> string" where
  "field_text p = (case p of Some q \<Rightarrow> pointee q | None \<Rightarrow> [])"

definition set_user :: "user \<Rightarrow> 'v user_state \<Rightarrow> 'v user_state" where
  "set_user u s = s\<lparr>
     ur_name := (case us_name u of Some p \<Rightarrow> tf_set (pointee p) (ur_name s) | None \<Rightarrow> ur_name s),
     ur_home_dir := tf_set (field_text (us_home_dir u)) (ur_home_dir s),
     ur_shell := tf_set (field_text (us_shell u)) (ur_shell s),
     ur_uid := tf_set (field_text (us_uid u)) (ur_uid s),
     ur_gid := tf_set (field_text (us_gid u)) (ur_gid s)\<rparr>"

definition user_act ::
  "'p error_view \<Rightarrow> 'v user_state \<Rightarrow> 'v user_state \<Rightarrow> 'w transport \<Rightarrow> 'w
    \<Rightarrow> (('v user_state \<times> 'p diagnostic list) \<times> 'w) go" where
  "user_act ev prior s tr w =
     (case user_spec s of
        None \<Rightarrow> Some ((s, [err_to_diagnostic ev ''Apply Error'' (ErrNew ''cannot create a user without a name'')]), w)
      | Some u \<Rightarrow>
          (case create_or_update_user tr (Some u) 5 w of
             (((_, Some e), _), w1) \<Rightarrow> Some ((s, [err_to_diagnostic ev ''Apply Error'' e]), w1)
           | (((found, None), _), w1) \<Rightarrow> do { v \<leftarrow> deref found; Some ((set_user v s, []), w1) }))"

definition user_apply ::
  "('t, 'v) tf_lib \<Rightarrow> 'p path_lib \<Rightarrow> ('v, 't, 'd) wire \<Rightarrow> 'p error_view \<Rightarrow> 'w go_ctx
    \<Rightarrow> ('w, 'w transport) dialer \<Rightarrow> 'v provider_config \<Rightarrow> ('v, 'd) change_request \<Rightarrow> 't heap \<Rightarrow> 'w
    \<Rightarrow> (('v user_state \<times> 'p diagnostic list) \<times> 't heap \<times> 'w) go" where
  "user_apply L P wr ev ctx dial c req = apply_resource L P wr (user_ops L P)
     (\<lambda>s. s\<lparr>ur_id := tf_set ''static'' (ur_id s)\<rparr>) (user_act ev) ev ctx dial c req new_user_state new_user_state"

text \<open>Fields that the user found does not have stay; a user that is not found makes them unknown.\<close>

definition set_when_found :: "string ptr option \<Rightarrow> tf_string \<Rightarrow> tf_string" where
  "set_when_found p a = (case p of Some q \<Rightarrow> tf_set (pointee q) a | None \<Rightarrow> a)"

definition user_refresh :: "'v user_state \<Rightarrow> 'w transport \<Rightarrow> 'w \<Rightarrow> ('v user_state \<times> 'w) go" where
  "user_refresh s tr w =
     (case find_user tr (raw_val (ur_name s)) 0 w of
        (((_, Some e), _), w1) \<Rightarrow>
          Some (s\<lparr>ur_home_dir := set_unknown (ur_home_dir s), ur_shell := set_unknown (ur_shell s),
            ur_uid := set_unknown (ur_uid s), ur_gid := set_unknown (ur_gid s)\<rparr>, w1)
      | (((found, None), _), w1) \<Rightarrow> do {
          u \<leftarrow> deref found;
          Some (s\<lparr>ur_home_dir := set_when_found (us_home_dir u) (ur_home_dir s),
            ur_shell := set_when_found (us_shell u) (ur_shell s), ur_uid := set_when_found (us_uid u) (ur_uid s),
            ur_gid := set_when_found (us_gid u) (ur_gid s)\<rparr>, w1)
        })"

definition user_read ::
  "('t, 'v) tf_lib \<Rightarrow> 'p path_lib \<Rightarrow> ('v, 't, 'd) wire \<Rightarrow> 'p error_view \<Rightarrow> ('v user_state \<Rightarrow> string) \<Rightarrow> 'w go_ctx
    \<Rightarrow> ('w, 'w transport) dialer \<Rightarrow> 'v provider_config \<Rightarrow> 'd \<Rightarrow> 't heap \<Rightarrow> 'w
    \<Rightarrow> (('d option \<times> 'p diagnostic list) \<times> 'w) go" where
  "user_read L P wr ev show ctx dial c dyn = read_live L P wr (user_ops L P) ev show
     (\<lambda>s. snd (tf_get (ur_name s))) user_refresh ctx dial c dyn new_user_state"

subsection \<open>Host info\<close>

record 'v host_state =
  hs_id :: tf_string
  hs_arch :: tf_string
  hs_distro :: tf_string
  hs_distro_version :: tf_string
  hs_hostname :: tf_string
  hs_pid1 :: tf_string
  hs_platform :: tf_string
  hs_platform_version :: tf_string
  hs_transport :: "'v embedded"

definition new_host_state :: "'v host_state" where
  "new_host_state = \<lparr>hs_id = new_tf [], hs_arch = new_tf [], hs_distro = new_tf [], hs_distro_version = new_tf [],
     hs_hostname = new_tf [], hs_pid1 = new_tf [], hs_platform = new_tf [], hs_platform_version = new_tf [],
     hs_transport = new_embedded\<rparr>"

fun set_host_attrs :: "'v tf_any list \<Rightarrow> 'v host_state \<Rightarrow> 'v host_state" where
  "set_host_attrs [i, a, d, dv, n, p1, p, pv] s =
     s\<lparr>hs_id := any_string i, hs_arch := any_string a, hs_distro := any_string d,
       hs_distro_version := any_string dv, hs_hostname := any_string n, hs_pid1 := any_string p1,
       hs_platform := any_string p, hs_platform_version := any_string pv\<rparr>"
| "set_host_attrs _ s = s"

definition host_attrs :: "('v host_state, 'v) state_attrs" where
  "host_attrs = \<lparr>sa_attrs = (\<lambda>s. [(''id'', TfString (hs_id s)), (''arch'', TfString (hs_arch s)),
       (''distro'', TfString (hs_distro s)), (''distro_version'', TfString (hs_distro_version s)),
       (''hostname'', TfString (hs_hostname s)), (''pid1'', TfString (hs_pid1 s)),
       (''platform'', TfString (hs_platform s)), (''platform_version'', TfString (hs_platform_version s))]),
     sa_set = set_host_attrs, sa_transport = hs_transport, sa_set_transport = (\<lambda>em s. s\<lparr>hs_transport := em\<rparr>)\<rparr>"

definition host_validate :: "'w go_ctx \<Rightarrow> 'v host_state \<Rightarrow> 'w \<Rightarrow> error" where
  "host_validate ctx s w = ctx_err ctx w"

definition host_ops :: "('t, 'v) tf_lib \<Rightarrow> 'p path_lib \<Rightarrow> ('w, 'v host_state, 't, 'v) state_ops" where
  "host_ops L P = attrs_ops L P host_attrs host_validate"

definition host_computed :: "'v host_state \<Rightarrow> 'v host_state \<Rightarrow> 'v host_state" where
  "host_computed prior s = s\<lparr>
     hs_id := (if snd (tf_get (hs_id prior)) then hs_id s else set_unknown (hs_id s)),
     hs_arch := unknown_unless_set (hs_arch s), hs_distro := unknown_unless_set (hs_distro s),
     hs_distro_version := unknown_unless_set (hs_distro_version s),
     hs_hostname := unknown_unless_set (hs_hostname s), hs_pid1 := unknown_unless_set (hs_pid1 s),
     hs_platform := unknown_unless_set (hs_platform s),
     hs_platform_version := unknown_unless_set (hs_platform_version s)\<rparr>"

definition host_plan ::
  "('t, 'v) tf_lib \<Rightarrow> 'p path_lib \<Rightarrow> 'p error_view \<Rightarrow> 'w go_ctx
    \<Rightarrow> 'v provider_config \<Rightarrow> ('v, 'd) change_request \<Rightarrow> 't heap \<Rightarrow> 'w
    \<Rightarrow> (('v host_state \<times> 'p diagnostic list \<times> 'p list) \<times> 't heap) go" where
  "host_plan L P ev ctx c req = plan_resource L P (host_ops L P) host_computed ev ctx c req new_host_state new_host_state"

definition host_info_request :: "duration \<Rightarrow> 'w target_request" where
  "host_info_request ovf = new_target_request ovf [with_target_request_retry_opts
     [with_interval_func (interval_exponential ovf (2 * second)), with_max_retries 3]]"

text \<open>The answer of \<open>TargetHostInfo\<close> is never nil: a question that failed answers with an empty text.\<close>

definition set_info :: "host_info \<Rightarrow> 'v host_state \<Rightarrow> 'v host_state" where
  "set_info i s = s\<lparr>hs_arch := tf_set (hi_arch i) (hs_arch s), hs_distro := tf_set (hi_distro i) (hs_distro s),
     hs_distro_version := tf_set (hi_distro_version i) (hs_distro_version s),
     hs_hostname := tf_set (hi_hostname i) (hs_hostname s), hs_pid1 := tf_set (hi_pid1 i) (hs_pid1 s),
     hs_platform := tf_set (hi_platform i) (hs_platform s),
     hs_platform_version := tf_set (hi_platform_version i) (hs_platform_version s)\<rparr>"

definition host_act ::
  "'p path_lib \<Rightarrow> 'p error_view \<Rightarrow> 'w go_ctx \<Rightarrow> 'v host_state \<Rightarrow> 'v host_state \<Rightarrow> 'w transport \<Rightarrow> 'w
    \<Rightarrow> (('v host_state \<times> 'p diagnostic list) \<times> 'w) go" where
  "host_act P ev ctx prior s tr w = do {
     ((info, e), w1) \<leftarrow> target_host_info ctx tr (host_info_request (pow_overflow ctx)) w;
     Some ((set_info info s, case e of
         None \<Rightarrow> []
       | Some e' \<Rightarrow> [err_to_diagnostic_warn ev ''getting target host info'' (attribute_path_error P
           (ErrWrap ''failed to determine host information, due to: '' e' []) [''transport''])]), w1)
   }"

definition host_apply ::
  "('t, 'v) tf_lib \<Rightarrow> 'p path_lib \<Rightarrow> ('v, 't, 'd) wire \<Rightarrow> 'p error_view \<Rightarrow> 'w go_ctx
    \<Rightarrow> ('w, 'w transport) dialer \<Rightarrow> 'v provider_config \<Rightarrow> ('v, 'd) change_request \<Rightarrow> 't heap \<Rightarrow> 'w
    \<Rightarrow> (('v host_state \<times> 'p diagnostic list) \<times> 't heap \<times> 'w) go" where
  "host_apply L P wr ev ctx dial c req = apply_resource L P wr (host_ops L P)
     (\<lambda>s. s\<lparr>hs_id := tf_set ''static'' (hs_id s)\<rparr>) (host_act P ev ctx) ev ctx dial c req new_host_state new_host_state"

definition host_refresh :: "'w go_ctx \<Rightarrow> 'v host_state \<Rightarrow> 'w transport \<Rightarrow> 'w \<Rightarrow> ('v host_state \<times> 'w) go" where
  "host_refresh ctx s tr w = do {
     ((info, _), w1) \<leftarrow> target_host_info ctx tr (host_info_request (pow_overflow ctx)) w;
     Some (set_info info s, w1)
   }"

definition host_read ::
  "('t, 'v) tf_lib \<Rightarrow> 'p path_lib \<Rightarrow> ('v, 't, 'd) wire \<Rightarrow> 'p error_view \<Rightarrow> ('v host_state \<Rightarrow> string) \<Rightarrow> 'w go_ctx
    \<Rightarrow> ('w, 'w transport) dialer \<Rightarrow> 'v provider_config \<Rightarrow> 'd \<Rightarrow> 't heap \<Rightarrow> 'w
    \<Rightarrow> (('d option \<times> 'p diagnostic list) \<times> 'w) go" where
  "host_read L P wr ev show ctx dial c dyn = read_live L P wr (host_ops L P) ev show (\<lambda>s. True) (host_refresh ctx)
     ctx dial c dyn new_host_state"

subsection \<open>The contracts of the states\<close>

lemma set_user_attrs_transport [simp]: "ur_transport (set_user_attrs xs s) = ur_transport s"
  by (induction xs s rule: set_user_attrs.induct) simp_all

lemma set_host_attrs_transport [simp]: "hs_transport (set_host_attrs xs s) = hs_transport s"
  by (induction xs s rule: set_host_attrs.induct) simp_all

interpretation user_rows: attr_state user_attrs
  by unfold_locales (auto simp: user_attrs_def flat_attrs_def)

interpretation host_rows: attr_state host_attrs
  by unfold_locales (auto simp: host_attrs_def flat_attrs_def)

interpretation user_states: resource_state L P "user_ops L P"
  unfolding user_ops_def by (rule user_rows.rows_state)

interpretation host_states: resource_state L P "host_ops L P"
  unfolding host_ops_def by (rule host_rows.rows_state)

subsection \<open>A host that does not answer\<close>

definition unreachable :: "'w transport \<Rightarrow> bool" where
  "unreachable tr \<longleftrightarrow> (\<forall>c w. \<exists>out serr e w'. run_cmd tr c w = ((out, serr, Some e), w'))"

lemma unreachable_run:
  assumes "unreachable tr"
  obtains out serr e w' where "run_cmd tr c w = ((out, serr, Some e), w')"
  using assms unfolding unreachable_def by blast

lemma unreachable_ask:
  assumes "unreachable tr"
  shows "\<exists>e w'. ask tr c f g w = Some ((Some [], Some e), w')"
  by (rule unreachable_run [OF assms, of c w]) (simp add: ask_def)

lemma unreachable_distro:
  assumes "unreachable tr"
  shows "\<exists>e w'. distro_fn tr w = Some ((Some [], Some e), w')"
    and "\<exists>e w'. distro_version_fn tr w = Some ((Some [], Some e), w')"
proof -
  obtain o1 s1 e1 w1 where r1: "run_cmd tr ''cat /etc/os-release'' w = ((o1, s1, Some e1), w1)"
    by (rule unreachable_run [OF assms])
  obtain o2 s2 e2 w2 where r2: "run_cmd tr ''lsb_release -si'' w1 = ((o2, s2, Some e2), w2)"
    by (rule unreachable_run [OF assms])
  obtain o3 s3 e3 w3 where r3: "run_cmd tr ''lsb_release -sr'' w1 = ((o3, s3, Some e3), w3)"
    by (rule unreachable_run [OF assms])
  show "\<exists>e w'. distro_fn tr w = Some ((Some [], Some e), w')"
    by (simp add: distro_fn_def r1 r2 Let_def join_errs_def map_filter_simps)
  show "\<exists>e w'. distro_version_fn tr w = Some ((Some [], Some e), w')"
    by (simp add: distro_version_fn_def r1 r3 Let_def join_errs_def map_filter_simps)
qed

lemma unanswered_retry:
  assumes "retrier_capped (tg_retrier req)" "ctx_err ctx w = None" "\<And>w. \<exists>e w'. f w = Some ((Some [], Some e), w')"
  shows "\<exists>e req1 w1. retry_target ctx f req w = Some ((Some [], Some e), req1, w1) \<and> retrier_capped (tg_retrier req1)"
proof -
  have "returns (f w)" for w using assms(3) [of w] by auto
  then obtain v err req1 w1 where
    ret: "retry_target ctx f req w = Some ((v, err), req1, w1)" "retrier_capped (tg_retrier req1)"
    using retry_target_returns [OF assms(1), of f ctx w] by blast
  have "err \<noteq> None"
  proof
    assume "err = None"
    with ret retry_target_ok obtain w2 where "f w2 = Some ((v, None), w1)" by metis
    with assms(3) [of w2] show False by auto
  qed
  moreover from ret obtain r1 where
    "retry retrier_ops ctx (with_retrier_func f (tg_retrier req)) w = Some ((v, err), r1, w1)"
    by (auto simp: retry_target_def bind_eq_Some_iff)
  then obtain w2 e w3 where "f w2 = Some ((v, e), w3)"
    using retrier_value [of ctx "with_retrier_func f (tg_retrier req)" w v err r1 w1 f] assms(2)
    by (auto simp: with_retrier_func_def)
  with assms(3) [of w2] have "v = Some []" by auto
  ultimately show ?thesis using ret by auto
qed

lemma unanswered_questions:
  assumes "retrier_capped (tg_retrier req)" "\<And>w. ctx_err ctx w = None" "unreachable tr" "tr_type tr = ''ssh''"
  shows "\<exists>e w1. ask_clone (target_architecture ctx tr) req s = Some ([], Some e, w1)"
    "\<exists>e w1. ask_clone (target_distro ctx tr) req s = Some ([], Some e, w1)"
    "\<exists>e w1. ask_clone (target_distro_version ctx tr) req s = Some ([], Some e, w1)"
    "\<exists>e w1. ask_clone (target_hostname ctx tr) req s = Some ([], Some e, w1)"
    "\<exists>e w1. ask_clone (target_process_manager ctx tr) req s = Some ([], Some e, w1)"
    "\<exists>e w1. ask_clone (target_platform ctx tr) req s = Some ([], Some e, w1)"
    "\<exists>e w1. ask_clone (target_platform_version ctx tr) req s = Some ([], Some e, w1)"
proof -
  have cap: "retrier_capped (tg_retrier (target_clone req))" using assms(1) by (simp add: target_clone_def)
  obtain errs w where s: "s = (errs, w)" by (cases s)
  note ret = unanswered_retry [OF cap, of ctx w, OF assms(2)]
  note asks = unreachable_ask [OF assms(3)]
  have j: "\<exists>e. join_errs [errs, Some e'] = Some e" for errs and e' :: goerr
    by (cases errs) (simp_all add: join_errs_def map_filter_simps)
  note [simp] = ask_clone_def s target_architecture_def target_distro_def target_distro_version_def
    target_hostname_def target_process_manager_def target_platform_def target_platform_version_def
    string_result_def deref_def assms(4)
  show "\<exists>e w1. ask_clone (target_architecture ctx tr) req s = Some ([], Some e, w1)"
    using ret [of "arch_fn tr"] asks j by (fastforce simp: arch_fn_def)
  show "\<exists>e w1. ask_clone (target_distro ctx tr) req s = Some ([], Some e, w1)"
    using ret [of "distro_fn tr"] unreachable_distro(1) [OF assms(3)] j by fastforce
  show "\<exists>e w1. ask_clone (target_distro_version ctx tr) req s = Some ([], Some e, w1)"
    using ret [of "distro_version_fn tr"] unreachable_distro(2) [OF assms(3)] j by fastforce
  show "\<exists>e w1. ask_clone (target_hostname ctx tr) req s = Some ([], Some e, w1)"
    using ret [of "hostname_fn tr"] asks j by (fastforce simp: hostname_fn_def)
  show "\<exists>e w1. ask_clone (target_process_manager ctx tr) req s = Some ([], Some e, w1)"
    using ret [of "pid1_fn tr"] asks j by (fastforce simp: pid1_fn_def)
  show "\<exists>e w1. ask_clone (target_platform ctx tr) req s = Some ([], Some e, w1)"
    using ret [of "platform_fn tr"] asks j by (fastforce simp: platform_fn_def)
  show "\<exists>e w1. ask_clone (target_platform_version ctx tr) req s = Some ([], Some e, w1)"
    using ret [of "platform_version_fn tr"] asks j by (fastforce simp: platform_version_fn_def)
qed

lemma host_info_capped: "retrier_capped (tg_retrier (host_info_request ovf))"
  by (simp add: host_info_request_def new_target_request_def with_target_request_retry_opts_def
      retrier_opt_defs retrier_capped_def interval_exponential_def Let_def)

definition blank_info :: host_info where
  "blank_info = \<lparr>hi_arch = [], hi_distro = [], hi_distro_version = [], hi_hostname = [], hi_pid1 = [],
     hi_platform = [], hi_platform_version = []\<rparr>"

lemma unreachable_host_info:
  assumes "retrier_capped (tg_retrier req)" "\<And>w. ctx_err ctx w = None" "unreachable tr" "tr_type tr = ''ssh''"
  shows "\<exists>e w1. target_host_info ctx tr req w = Some ((blank_info, Some e), w1)"
proof -
  note q = unanswered_questions [OF assms]
  obtain s1 where s1: "ask_clone (target_architecture ctx tr) req (None, w) = Some ([], s1)" using q(1) by blast
  obtain s2 where s2: "ask_clone (target_distro ctx tr) req s1 = Some ([], s2)" using q(2) by blast
  obtain s3 where s3: "ask_clone (target_distro_version ctx tr) req s2 = Some ([], s3)" using q(3) by blast
  obtain s4 where s4: "ask_clone (target_hostname ctx tr) req s3 = Some ([], s4)" using q(4) by blast
  obtain s5 where s5: "ask_clone (target_process_manager ctx tr) req s4 = Some ([], s5)" using q(5) by blast
  obtain s6 where s6: "ask_clone (target_platform ctx tr) req s5 = Some ([], s6)" using q(6) by blast
  obtain e w1 where s7: "ask_clone (target_platform_version ctx tr) req s6 = Some ([], Some e, w1)" using q(7) by blast
  show ?thesis
    by (simp add: target_host_info_def s1 s2 s3 s4 s5 s6 s7 blank_info_def)
qed

subsection \<open>Properties\<close>

text \<open>
  Enos_host_info on a host that fails every command. Neither reading
  nor applying takes that for an error: TargetHostInfo never gives nil, so the branch of the
  reading that makes the attributes unknown is not taken. Both answer with every attribute known
  and empty, in place of what the state held; the apply adds a warning.
\<close>

theorem host_info_blank:
  assumes "\<And>w. ctx_err ctx w = None" "unreachable tr" "tr_type tr = ''ssh''"
  shows "\<exists>w1. host_refresh ctx s tr w = Some (set_info blank_info s, w1)
    \<and> (\<exists>ds. host_act P ev ctx prior s tr w = Some ((set_info blank_info s, ds), w1) \<and> \<not> has_errors ds \<and> ds \<noteq> [])
    \<and> list_all (\<lambda>(n, x). n = ''id'' \<or> x = TfString (Tfv False False [])) (sa_attrs host_attrs (set_info blank_info s))"
proof -
  obtain e w1 where i: "target_host_info ctx tr (host_info_request (pow_overflow ctx)) w = Some ((blank_info, Some e), w1)"
    using unreachable_host_info [OF host_info_capped assms] by blast
  have "list_all (\<lambda>(n, x). n = ''id'' \<or> x = TfString (Tfv False False [])) (sa_attrs host_attrs (set_info blank_info s))"
    by (simp add: host_attrs_def set_info_def blank_info_def tf_set_def)
  then show ?thesis
    by (simp add: host_refresh_def host_act_def i err_to_diagnostic_warn_def diagnostic_of_def has_errors_def
        get_error_diagnostic_def is_error_def split: option.split)
qed

definition dead_host :: "nat transport" where
  "dead_host = mock_transport\<lparr>tr_type := ''ssh'', tr_run := (\<lambda>c w. (([], [], Some (ErrNew ''no route to host'')), w))\<rparr>"

theorem host_info_blank_witness:
  "\<exists>w1. host_refresh live_ctx (new_host_state\<lparr>hs_hostname := Tfv False False ''vault-1''\<rparr> :: demo_value host_state) dead_host 0
    = Some (set_info blank_info new_host_state, w1)"
proof -
  have "unreachable dead_host" "tr_type dead_host = ''ssh''"
    by (simp_all add: unreachable_def dead_host_def run_cmd_def)
  then obtain w1 where "host_refresh live_ctx (new_host_state\<lparr>hs_hostname := Tfv False False ''vault-1''\<rparr> :: demo_value host_state)
      dead_host 0 = Some (set_info blank_info (new_host_state\<lparr>hs_hostname := Tfv False False ''vault-1''\<rparr>), w1)"
    using host_info_blank [of live_ctx dead_host "new_host_state\<lparr>hs_hostname := Tfv False False ''vault-1''\<rparr> :: demo_value host_state"
        0 demo_paths demo_view new_host_state] by (auto simp: live)
  then show ?thesis by (simp add: set_info_def new_host_state_def tf_set_def)
qed

text \<open>
  C25: an apply of enos_user that does not delete and ends without
  diagnostics had a name that is known and not empty and got a user back from CreateOrUpdateUser
  over the client of the checked transport; in the state it answers with every attribute is known
  and is what that user has, or empty where the user has nothing.
\<close>

theorem user_apply_settles:
  fixes s :: "'v user_state" and ctx :: "'w go_ctx" and L :: "('t, 'v) tf_lib"
  assumes "apply_unmarshal_state (user_ops L P) ev ctx req new_user_state new_user_state h w = Some (([], prior, planned), h1)"
    and "\<not> is_delete wr req"
    and "user_apply L P wr ev ctx dial c req h w = Some ((s, []), h', w')"
  shows "\<exists>s1 u v tr (em :: 'v embedded) w1 brk.
      planned_as (user_ops L P :: ('w, 'v user_state, 't, 'v) state_ops) planned s1 \<and> raw_val (ur_name s1) \<noteq> []
    \<and> embedded_client P ctx dial em w = ((Some tr, None), w1) \<and> user_spec s1 = Some u
    \<and> create_or_update_user tr (Some u) 5 w1 = (((Some v, None), brk), w')
    \<and> (\<forall>n. us_name v = Some n \<longrightarrow> ur_name s = Tfv False False (pointee n))
    \<and> ur_home_dir s = Tfv False False (field_text (us_home_dir v))
    \<and> ur_shell s = Tfv False False (field_text (us_shell v))
    \<and> ur_uid s = Tfv False False (field_text (us_uid v)) \<and> ur_gid s = Tfv False False (field_text (us_gid v))
    \<and> ur_id s = Tfv False False ''static''"
proof -
  from assms(1,2) assms(3) [unfolded user_apply_def] show ?thesis
  proof (cases rule: user_states.apply_resource_cases)
    case (ran s1 em tr w1)
    let ?s = "s1\<lparr>ur_id := tf_set ''static'' (ur_id s1)\<rparr>"
    have spec: "user_spec ?s = user_spec s1" by (simp add: user_spec_def)
    from ran(5) obtain u where u: "user_spec s1 = Some u" by (auto simp: user_act_def spec split: option.split_asm)
    then have "raw_val (ur_name s1) \<noteq> []" by (auto simp: user_spec_def split: if_split_asm)
    moreover from ran(5) u obtain v brk where "create_or_update_user tr (Some u) 5 w1 = (((Some v, None), brk), w')"
      "s = set_user v ?s"
      by (auto simp: user_act_def spec deref_def elim!: bind_eq_SomeE split: prod.split_asm option.split_asm)
    ultimately show ?thesis
      using ran(1,4) u
      by - (rule exI [of _ s1], rule exI [of _ u], rule exI [of _ v], rule exI [of _ tr], rule exI [of _ em],
        rule exI [of _ w1], rule exI [of _ brk], simp add: set_user_def tf_set_def)
  qed simp
qed

definition demo_user :: demo_value where
  "demo_user = demo_value_of [(''name'', ''v''), (''home_dir'', ''/h'')] [(''transport'', demo_ssh_block)]"

lemma entry_host_run: "run_cmd entry_host c w = ((''v:x:1:2::/h:/bin/sh'', [], None), w)"
  by (simp add: run_cmd_def entry_host_def)

lemma entry_host_found:
  "find_user entry_host ''v'' brk w =
    (((Some \<lparr>us_name = Some (Ptr brk ''v''), us_home_dir = Some (Ptr (brk + 5) ''/h''),
        us_shell = Some (Ptr (brk + 6) ''/bin/sh''), us_gid = Some (Ptr (brk + 3) ''2''),
        us_uid = Some (Ptr (brk + 2) ''1'')\<rparr>, None), brk + 7), w)"
  by (simp add: find_user_def find_user_get_ent_def entry_host_run decode_passwd_line_def Let_def)

lemma demo_user_read:
  "\<exists>planned h1. apply_unmarshal_state (user_ops demo_lib demo_paths) demo_view live_ctx
       (demo_change demo_user demo_user) new_user_state new_user_state demo_heap 0 = Some (([], planned, planned), h1)
     \<and> planned = new_user_state\<lparr>ur_name := Tfv False False ''v'', ur_home_dir := Tfv False False ''/h'', ur_transport := demo_read_block\<rparr>"
  by (simp add: user_ops_def demo_rows user_attrs_def new_user_state_def apply_unmarshal_state_def demo_change_def live
      demo_user_def)

theorem user_apply_settles_witness:
  "\<exists>s h2 w' (v :: user). user_apply demo_lib demo_paths demo_wire demo_view live_ctx (dialer_to entry_host)
     new_provider_config (demo_change demo_user demo_user) demo_heap 0 = Some ((s, []), h2, w')
     \<and> ur_shell s = Tfv False False (field_text (us_shell v)) \<and> ur_id s = Tfv False False ''static''"
proof -
  obtain planned h1 where r: "apply_unmarshal_state (user_ops demo_lib demo_paths) demo_view live_ctx
      (demo_change demo_user demo_user) new_user_state new_user_state demo_heap 0 = Some (([], planned, planned), h1)"
    and p: "planned = new_user_state\<lparr>ur_name := Tfv False False ''v'', ur_home_dir := Tfv False False ''/h'', ur_transport := demo_read_block\<rparr>"
    using demo_user_read by blast
  have d: "\<not> is_delete demo_wire (demo_change demo_user demo_user)" by (simp add: demo_user_def demo_not_delete)
  let ?so = "user_ops demo_lib demo_paths :: (nat, demo_value user_state, demo_type, demo_value) state_ops"
  let ?set = "\<lambda>s :: demo_value user_state. s\<lparr>ur_id := tf_set ''static'' (ur_id s)\<rparr>"
  have act: "\<exists>s w'. user_act demo_view planned (?set (set_resolved ?so (Some demo_ssh_transport) planned)) entry_host 0
      = Some ((s, []), w')"
    by (simp add: p set_resolved_def user_ops_def attrs_ops_def user_attrs_def user_act_def user_spec_def user_option_def
      new_user_state_def tf_get_def new_tf_def new_user_def no_user_def
      with_user_name_def with_user_home_dir_def create_or_update_user_def entry_host_found usermod_def entry_host_run
      has_same_set_properties_def same_field_def ptr_eq_def deref_def)
  have "so_embedded ?so planned = demo_read_block" "so_validate ?so live_ctx (set_resolved ?so (Some demo_ssh_transport) planned) 0 = None"
    by (simp_all add: p user_ops_def attrs_ops_def user_attrs_def user_validate_def live)
  then obtain s w' h2 where s: "user_apply demo_lib demo_paths demo_wire demo_view live_ctx (dialer_to entry_host)
     new_provider_config (demo_change demo_user demo_user) demo_heap 0 = Some ((s, []), h2, w')"
    unfolding user_apply_def using act demo_applied [OF r d, where tr = entry_host and act = "user_act demo_view" and set_id = ?set]
    by blast
  with user_apply_settles [OF r d s] obtain v :: user where "ur_shell s = Tfv False False (field_text (us_shell v))"
    "ur_id s = Tfv False False ''static''" by auto
  with s show ?thesis by blast
qed

end
