(* ===== verification/VaultResources.thy ===== *)
theory VaultResources
  imports HostResources VaultStart VaultInit
begin

text \<open>
  The resources enos_vault_init (\<open>internal/plugin/resource_vault_init.go\<close>) and enos_vault_unseal
  (\<open>resource_vault_unseal.go\<close>): their states, the requests they make of them for Init and Unseal of
  \<open>remoteflight/vault\<close>, what becomes of the responses, planning and applying. Both wait for at
  most two minutes; the errors they give carry the state of the cluster as it was printed.
\<close>

subsection \<open>Requests of attributes\<close>

text \<open>An option that is only given for an attribute that is known.\<close>

definition opt_known :: "'a tfv \<Rightarrow> ('a \<Rightarrow> 'o) \<Rightarrow> 'o list" where
  "opt_known a opt = (if snd (tf_get a) then [opt (raw_val a)] else [])"

definition opt_strings :: "tf_string_slice \<Rightarrow> (string list \<Rightarrow> 'o) \<Rightarrow> 'o list" where
  "opt_strings a opt = (case string_slice_get_strings a of (ss, ok) \<Rightarrow> if ok then [opt ss] else [])"

definition request_state_opts :: "tf_string \<Rightarrow> tf_string \<Rightarrow> tf_string \<Rightarrow> 'w state_opt list" where
  "request_state_opts bin vaddr un = [with_state_fc_use_home_dir] @ opt_known bin with_state_bin_path
     @ opt_known vaddr with_state_addr @ [with_state_unit (known_or ''vault'' un)]"

text \<open>
  The error with the states before and after. What is printed as the state after is the state
  before as well; of a state that is nil String panics.
\<close>

definition state_text :: "('w, 'v, 'c, 'b) start_env \<Rightarrow> vault_state option \<Rightarrow> string go" where
  "state_text E sp = do { v \<leftarrow> deref sp; state_string (sx_raw_text E) (sx_pods_text E) (sx_visit E) v }"

definition with_state_texts ::
  "('w, 'v, 'c, 'b) start_env \<Rightarrow> string \<Rightarrow> string \<Rightarrow> goerr \<Rightarrow> vault_state option \<Rightarrow> vault_state option \<Rightarrow> goerr go" where
  "with_state_texts E before after e prior post = do {
     e1 \<leftarrow> (if prior = None then Some e else do {
       text \<leftarrow> state_text E prior; Some (ErrWrap [] e (before @ indent ''  '' text)) });
     (if post = None then Some e1 else do {
       text \<leftarrow> state_text E prior; Some (ErrWrap [] e1 (after @ indent ''  '' text)) })
   }"

subsection \<open>Initializing\<close>

record 'v vinit_state =
  vi_id :: tf_string
  vi_bin_path :: tf_string
  vi_unit :: tf_string
  vi_addr :: tf_string
  vi_key_shares :: tf_num
  vi_key_threshold :: tf_num
  vi_pgp_keys :: tf_string_slice
  vi_root_token_pgp_key :: tf_string
  vi_recovery_shares :: tf_num
  vi_recovery_threshold :: tf_num
  vi_recovery_pgp_keys :: tf_string_slice
  vi_stored_shares :: tf_num
  vi_consul_auto :: tf_bool
  vi_consul_service :: tf_string
  vi_unseal_keys_b64 :: tf_string_slice
  vi_unseal_keys_hex :: tf_string_slice
  vi_unseal_shares :: tf_num
  vi_unseal_threshold :: tf_num
  vi_recovery_keys_b64 :: tf_string_slice
  vi_recovery_keys_hex :: tf_string_slice
  vi_recovery_keys_shares :: tf_num
  vi_recovery_keys_threshold :: tf_num
  vi_root_token :: tf_string
  vi_transport :: "'v embedded"

definition new_vinit_state :: "'v vinit_state" where
  "new_vinit_state = \<lparr>vi_id = new_tf [], vi_bin_path = new_tf [], vi_unit = new_tf [], vi_addr = new_tf [],
     vi_key_shares = new_tf 0, vi_key_threshold = new_tf 0, vi_pgp_keys = new_tf [], vi_root_token_pgp_key = new_tf [],
     vi_recovery_shares = new_tf 0, vi_recovery_threshold = new_tf 0, vi_recovery_pgp_keys = new_tf [],
     vi_stored_shares = new_tf 0, vi_consul_auto = new_tf False, vi_consul_service = new_tf [],
     vi_unseal_keys_b64 = new_tf [], vi_unseal_keys_hex = new_tf [], vi_unseal_shares = new_tf 0,
     vi_unseal_threshold = new_tf 0, vi_recovery_keys_b64 = new_tf [], vi_recovery_keys_hex = new_tf [],
     vi_recovery_keys_shares = new_tf 0, vi_recovery_keys_threshold = new_tf 0, vi_root_token = new_tf [],
     vi_transport = new_embedded\<rparr>"

definition vinit_rows :: "'v vinit_state \<Rightarrow> (string \<times> 'v tf_any) list" where
  "vinit_rows s = [(''id'', TfString (vi_id s)), (''bin_path'', TfString (vi_bin_path s)),
     (''unit_name'', TfString (vi_unit s)), (''vault_addr'', TfString (vi_addr s)),
     (''key_shares'', TfNum (vi_key_shares s)), (''key_threshold'', TfNum (vi_key_threshold s)),
     (''pgp_keys'', TfStringSlice (vi_pgp_keys s)), (''root_token_pgp_key'', TfString (vi_root_token_pgp_key s)),
     (''recovery_shares'', TfNum (vi_recovery_shares s)), (''recovery_threshold'', TfNum (vi_recovery_threshold s)),
     (''recovery_pgp_keys'', TfStringSlice (vi_recovery_pgp_keys s)), (''stored_shares'', TfNum (vi_stored_shares s)),
     (''consul_auto'', TfBool (vi_consul_auto s)), (''consul_service'', TfString (vi_consul_service s)),
     (''unseal_keys_b64'', TfStringSlice (vi_unseal_keys_b64 s)), (''unseal_keys_hex'', TfStringSlice (vi_unseal_keys_hex s)),
     (''unseal_keys_shares'', TfNum (vi_unseal_shares s)), (''unseal_keys_threshold'', TfNum (vi_unseal_threshold s)),
     (''recovery_keys_b64'', TfStringSlice (vi_recovery_keys_b64 s)),
     (''recovery_keys_hex'', TfStringSlice (vi_recovery_keys_hex s)),
     (''recovery_keys_shares'', TfNum (vi_recovery_keys_shares s)),
     (''recovery_keys_threshold'', TfNum (vi_recovery_keys_threshold s)), (''root_token'', TfString (vi_root_token s))]"

definition set_vinit_attrs :: "'v tf_any list \<Rightarrow> 'v vinit_state \<Rightarrow> 'v vinit_state" where
  "set_vinit_attrs xs s = (if length xs \<noteq> 23 then s else s\<lparr>
     vi_id := any_string (xs ! 0), vi_bin_path := any_string (xs ! 1), vi_unit := any_string (xs ! 2),
     vi_addr := any_string (xs ! 3), vi_key_shares := any_num (xs ! 4), vi_key_threshold := any_num (xs ! 5),
     vi_pgp_keys := any_strings (xs ! 6), vi_root_token_pgp_key := any_string (xs ! 7),
     vi_recovery_shares := any_num (xs ! 8), vi_recovery_threshold := any_num (xs ! 9),
     vi_recovery_pgp_keys := any_strings (xs ! 10), vi_stored_shares := any_num (xs ! 11),
     vi_consul_auto := any_bool (xs ! 12), vi_consul_service := any_string (xs ! 13),
     vi_unseal_keys_b64 := any_strings (xs ! 14), vi_unseal_keys_hex := any_strings (xs ! 15),
     vi_unseal_shares := any_num (xs ! 16), vi_unseal_threshold := any_num (xs ! 17),
     vi_recovery_keys_b64 := any_strings (xs ! 18), vi_recovery_keys_hex := any_strings (xs ! 19),
     vi_recovery_keys_shares := any_num (xs ! 20), vi_recovery_keys_threshold := any_num (xs ! 21),
     vi_root_token := any_string (xs ! 22)\<rparr>)"

definition vinit_attrs :: "('v vinit_state, 'v) state_attrs" where
  "vinit_attrs = \<lparr>sa_attrs = vinit_rows, sa_set = set_vinit_attrs, sa_transport = vi_transport,
     sa_set_transport = (\<lambda>em s. s\<lparr>vi_transport := em\<rparr>)\<rparr>"

definition vinit_request :: "duration \<Rightarrow> 'v vinit_state \<Rightarrow> 'w init_request" where
  "vinit_request ovf s = new_init_request ovf
     (with_init_state_opts (request_state_opts (vi_bin_path s) (vi_addr s) (vi_unit s))
      # opt_known (vi_key_shares s) (with_init_key_shares o sint) @ opt_known (vi_key_threshold s) (with_init_key_threshold o sint)
      @ opt_strings (vi_pgp_keys s) with_init_pgp_keys @ opt_known (vi_root_token_pgp_key s) with_init_root_token_pgp_key
      @ opt_known (vi_recovery_shares s) (with_init_recovery_shares o sint)
      @ opt_known (vi_recovery_threshold s) (with_init_recovery_threshold o sint)
      @ opt_strings (vi_recovery_pgp_keys s) with_init_recovery_pgp_keys
      @ opt_known (vi_stored_shares s) (with_init_stored_shares o sint)
      @ opt_known (vi_consul_auto s) with_init_consul_auto @ opt_known (vi_consul_service s) with_init_consul_service)"

definition vinit_validate :: "'w go_ctx \<Rightarrow> 'v vinit_state \<Rightarrow> 'w \<Rightarrow> error" where
  "vinit_validate ctx s w =
     (case ctx_err ctx w of
        Some e \<Rightarrow> Some e
      | None \<Rightarrow> init_validate (vinit_request (pow_overflow ctx) s :: 'w init_request))"

definition vinit_ops :: "('t, 'v) tf_lib \<Rightarrow> 'p path_lib \<Rightarrow> ('w, 'v vinit_state, 't, 'v) state_ops" where
  "vinit_ops L P = attrs_ops L P vinit_attrs vinit_validate"

text \<open>\<open>json.Number.Int64\<close>; a number that is none, or that does not fit, makes the attribute null.\<close>

definition number_int64 :: "string \<Rightarrow> int option" where
  "number_int64 n = (case parse_int n of
     Some i \<Rightarrow> if - (2 ^ 63) \<le> i \<and> i < 2 ^ 63 then Some i else None | None \<Rightarrow> None)"

definition set_number :: "string \<Rightarrow> tf_num \<Rightarrow> tf_num" where
  "set_number n a = (case number_int64 n of
     Some i \<Rightarrow> tf_set (word_of_int i) a | None \<Rightarrow> Tfv False True (raw_val a))"

definition set_init_response :: "init_response \<Rightarrow> 'v vinit_state \<Rightarrow> 'v vinit_state" where
  "set_init_response r s = s\<lparr>
     vi_unseal_keys_b64 := string_slice_set_strings (ir_unseal_keys_b64 r) (vi_unseal_keys_b64 s),
     vi_unseal_keys_hex := string_slice_set_strings (ir_unseal_keys_hex r) (vi_unseal_keys_hex s),
     vi_unseal_shares := set_number (ir_unseal_shares r) (vi_unseal_shares s),
     vi_unseal_threshold := set_number (ir_unseal_threshold r) (vi_unseal_threshold s),
     vi_recovery_keys_b64 := string_slice_set_strings (ir_recovery_keys_b64 r) (vi_recovery_keys_b64 s),
     vi_recovery_keys_hex := string_slice_set_strings (ir_recovery_keys_hex r) (vi_recovery_keys_hex s),
     vi_recovery_keys_shares := set_number (ir_recovery_keys_shares r) (vi_recovery_keys_shares s),
     vi_recovery_keys_threshold := set_number (ir_recovery_keys_threshold r) (vi_recovery_keys_threshold s),
     vi_root_token := tf_set (ir_root_token r) (vi_root_token s)\<rparr>"

definition two_minutes :: duration where
  "two_minutes = 120 * second"

definition vinit_init ::
  "('w, 'x, 'c, 'b) start_env \<Rightarrow> 'w go_ctx \<Rightarrow> 'w transport \<Rightarrow> 'v vinit_state \<Rightarrow> 'w
    \<Rightarrow> ((error \<times> 'v vinit_state) \<times> 'w) go" where
  "vinit_init E ctx tr s w =
     (let req = vinit_request (pow_overflow ctx) s; text = init_request_string (Some req) in
      case init_validate req of
        Some e \<Rightarrow> Some ((Some (ErrWrap ''failed to initialize vault because init request validation failed: '' e []), s), w)
      | None \<Rightarrow> do {
          ((resp, err), _, w1) \<leftarrow> vault_init (sx_embed E) (sx_timeout E two_minutes ctx) tr req w;
          r \<leftarrow> deref resp;
          (case err of
             Some e \<Rightarrow> do {
               e1 \<leftarrow> with_state_texts E ([nl] @ ''Vault State before running '' @ quoted text @ [nl])
                 ([nl] @ ''Vault State after running '' @ quoted text @ [nl])
                 (ErrWrap ''failed to initialize the vault cluster: '' e []) (ir_prior_state r) (ir_post_state r);
               Some ((Some e1, s), w1)
             }
           | None \<Rightarrow> Some ((None, set_init_response r s), w1))
        })"

definition vinit_computed :: "'v vinit_state \<Rightarrow> 'v vinit_state \<Rightarrow> 'v vinit_state" where
  "vinit_computed prior s = (if snd (tf_get (vi_id prior)) then s else s\<lparr>
     vi_id := set_unknown (vi_id s), vi_unseal_keys_b64 := set_unknown (vi_unseal_keys_b64 s),
     vi_unseal_keys_hex := set_unknown (vi_unseal_keys_hex s), vi_unseal_shares := set_unknown (vi_unseal_shares s),
     vi_unseal_threshold := set_unknown (vi_unseal_threshold s),
     vi_recovery_keys_b64 := set_unknown (vi_recovery_keys_b64 s),
     vi_recovery_keys_hex := set_unknown (vi_recovery_keys_hex s),
     vi_recovery_keys_shares := set_unknown (vi_recovery_keys_shares s),
     vi_recovery_keys_threshold := set_unknown (vi_recovery_keys_threshold s),
     vi_root_token := set_unknown (vi_root_token s)\<rparr>)"

definition vinit_plan ::
  "('t, 'v) tf_lib \<Rightarrow> 'p path_lib \<Rightarrow> 'p error_view \<Rightarrow> 'w go_ctx
    \<Rightarrow> 'v provider_config \<Rightarrow> ('v, 'd) change_request \<Rightarrow> 't heap \<Rightarrow> 'w
    \<Rightarrow> (('v vinit_state \<times> 'p diagnostic list \<times> 'p list) \<times> 't heap) go" where
  "vinit_plan L P ev ctx c req = plan_resource L P (vinit_ops L P) vinit_computed ev ctx c req new_vinit_state new_vinit_state"

text \<open>Both states have two failure handlers, so they never are deeply equal.\<close>

definition vault_handlers :: nat where
  "vault_handlers = 2"

definition vinit_act ::
  "('w, 'x, 'c, 'b) start_env \<Rightarrow> 'p error_view \<Rightarrow> 'w go_ctx \<Rightarrow> 'v vinit_state \<Rightarrow> 'v vinit_state \<Rightarrow> 'w transport \<Rightarrow> 'w
    \<Rightarrow> (('v vinit_state \<times> 'p diagnostic list) \<times> 'w) go" where
  "vinit_act E ev ctx prior s tr w =
     (if deeply_equal vault_handlers prior s then Some ((s, []), w)
      else do {
        ((e, s1), w1) \<leftarrow> vinit_init E ctx tr s w;
        Some ((s1, op_diagnostic ev ''Vault Init Error'' e), w1)
      })"

definition vinit_apply ::
  "('t, 'v) tf_lib \<Rightarrow> 'p path_lib \<Rightarrow> ('v, 't, 'd) wire \<Rightarrow> ('w, 'x, 'c, 'b) start_env \<Rightarrow> 'p error_view \<Rightarrow> 'w go_ctx
    \<Rightarrow> ('w, 'w transport) dialer \<Rightarrow> 'v provider_config \<Rightarrow> ('v, 'd) change_request \<Rightarrow> 't heap \<Rightarrow> 'w
    \<Rightarrow> (('v vinit_state \<times> 'p diagnostic list) \<times> 't heap \<times> 'w) go" where
  "vinit_apply L P wr E ev ctx dial c req = apply_resource L P wr (vinit_ops L P)
     (\<lambda>s. s\<lparr>vi_id := tf_set ''static'' (vi_id s)\<rparr>) (vinit_act E ev ctx) ev ctx dial c req new_vinit_state new_vinit_state"

subsection \<open>Unsealing\<close>

record 'v vunseal_state =
  vu_id :: tf_string
  vu_bin_path :: tf_string
  vu_addr :: tf_string
  vu_unit :: tf_string
  vu_seal_type :: tf_string
  vu_unseal_keys :: tf_string_slice
  vu_transport :: "'v embedded"

definition new_vunseal_state :: "'v vunseal_state" where
  "new_vunseal_state = \<lparr>vu_id = new_tf [], vu_bin_path = new_tf [], vu_addr = new_tf [], vu_unit = new_tf [],
     vu_seal_type = new_tf [], vu_unseal_keys = new_tf [], vu_transport = new_embedded\<rparr>"

fun set_vunseal_attrs :: "'v tf_any list \<Rightarrow> 'v vunseal_state \<Rightarrow> 'v vunseal_state" where
  "set_vunseal_attrs [i, b, t, u, ks, a] s = s\<lparr>vu_id := any_string i, vu_bin_path := any_string b,
     vu_seal_type := any_string t, vu_unit := any_string u, vu_unseal_keys := any_strings ks, vu_addr := any_string a\<rparr>"
| "set_vunseal_attrs _ s = s"

definition vunseal_attrs :: "('v vunseal_state, 'v) state_attrs" where
  "vunseal_attrs = \<lparr>sa_attrs = (\<lambda>s. [(''id'', TfString (vu_id s)), (''bin_path'', TfString (vu_bin_path s)),
       (''seal_type'', TfString (vu_seal_type s)), (''unit_name'', TfString (vu_unit s)),
       (''unseal_keys'', TfStringSlice (vu_unseal_keys s)), (''vault_addr'', TfString (vu_addr s))]),
     sa_set = set_vunseal_attrs, sa_transport = vu_transport, sa_set_transport = (\<lambda>em s. s\<lparr>vu_transport := em\<rparr>)\<rparr>"

definition vunseal_validate :: "'p path_lib \<Rightarrow> 'w go_ctx \<Rightarrow> 'v vunseal_state \<Rightarrow> 'w \<Rightarrow> error" where
  "vunseal_validate P ctx s w =
     (case ctx_err ctx w of
        Some e \<Rightarrow> Some e
      | None \<Rightarrow>
          if \<not> snd (tf_get (vu_bin_path s)) then Some (validation_error P ''you must provide the Vault bin path'' [''bin_path''])
          else if \<not> snd (tf_get (vu_addr s)) then Some (validation_error P ''you must provide the Vault address'' [''vault_addr''])
          else None)"

definition vunseal_ops :: "('t, 'v) tf_lib \<Rightarrow> 'p path_lib \<Rightarrow> ('w, 'v vunseal_state, 't, 'v) state_ops" where
  "vunseal_ops L P = attrs_ops L P vunseal_attrs (vunseal_validate P)"

definition vunseal_request :: "duration \<Rightarrow> 'v vunseal_state \<Rightarrow> 'w unseal_request" where
  "vunseal_request ovf s = new_unseal_request ovf
     ([with_unseal_state_opts (request_state_opts (vu_bin_path s) (vu_addr s) (vu_unit s)),
       with_unseal_seal_type (known_or SealTypeShamir (vu_seal_type s))]
      @ opt_strings (vu_unseal_keys s) with_unseal_keys)"

definition vunseal_unseal ::
  "('w, 'x, 'c, 'b) start_env \<Rightarrow> 'w go_ctx \<Rightarrow> 'w transport \<Rightarrow> 'v vunseal_state \<Rightarrow> 'w \<Rightarrow> (error \<times> 'w) go" where
  "vunseal_unseal E ctx tr s w = do {
     ((resp, err), _, w1) \<leftarrow> vault_unseal (sx_embed E) (sx_timeout E two_minutes ctx) tr
       (vunseal_request (pow_overflow ctx) s) w;
     (case err of
        None \<Rightarrow> Some (None, w1)
      | Some e \<Rightarrow> do {
          r \<leftarrow> deref resp;
          e1 \<leftarrow> with_state_texts E ([nl] @ ''Vault State before attempting to unseal cluster'' @ [nl])
            ([nl] @ ''Vault State after attempting to unseal cluster'' @ [nl])
            (ErrWrap ''failed to unseal the vault cluster: '' e []) (ur_prior_state r) (ur_post_state r);
          Some (Some e1, w1)
        })
   }"

definition vunseal_computed :: "'v vunseal_state \<Rightarrow> 'v vunseal_state \<Rightarrow> 'v vunseal_state" where
  "vunseal_computed prior s = (if snd (tf_get (vu_id prior)) then s else s\<lparr>vu_id := set_unknown (vu_id s)\<rparr>)"

definition vunseal_plan ::
  "('t, 'v) tf_lib \<Rightarrow> 'p path_lib \<Rightarrow> 'p error_view \<Rightarrow> 'w go_ctx
    \<Rightarrow> 'v provider_config \<Rightarrow> ('v, 'd) change_request \<Rightarrow> 't heap \<Rightarrow> 'w
    \<Rightarrow> (('v vunseal_state \<times> 'p diagnostic list \<times> 'p list) \<times> 't heap) go" where
  "vunseal_plan L P ev ctx c req =
     plan_resource L P (vunseal_ops L P) vunseal_computed ev ctx c req new_vunseal_state new_vunseal_state"

definition vunseal_act ::
  "('w, 'x, 'c, 'b) start_env \<Rightarrow> 'p error_view \<Rightarrow> 'w go_ctx \<Rightarrow> 'v vunseal_state \<Rightarrow> 'v vunseal_state \<Rightarrow> 'w transport
    \<Rightarrow> 'w \<Rightarrow> (('v vunseal_state \<times> 'p diagnostic list) \<times> 'w) go" where
  "vunseal_act E ev ctx prior s tr w =
     (if snd (tf_get (vu_id prior)) \<and> deeply_equal vault_handlers s prior then Some ((s, []), w)
      else do {
        (e, w1) \<leftarrow> vunseal_unseal E ctx tr s w;
        Some ((s, op_diagnostic ev ''Vault Unseal Error'' e), w1)
      })"

definition vunseal_apply ::
  "('t, 'v) tf_lib \<Rightarrow> 'p path_lib \<Rightarrow> ('v, 't, 'd) wire \<Rightarrow> ('w, 'x, 'c, 'b) start_env \<Rightarrow> 'p error_view \<Rightarrow> 'w go_ctx
    \<Rightarrow> ('w, 'w transport) dialer \<Rightarrow> 'v provider_config \<Rightarrow> ('v, 'd) change_request \<Rightarrow> 't heap \<Rightarrow> 'w
    \<Rightarrow> (('v vunseal_state \<times> 'p diagnostic list) \<times> 't heap \<times> 'w) go" where
  "vunseal_apply L P wr E ev ctx dial c req = apply_resource L P wr (vunseal_ops L P)
     (\<lambda>s. s\<lparr>vu_id := tf_set ''static'' (vu_id s)\<rparr>) (vunseal_act E ev ctx) ev ctx dial c req new_vunseal_state new_vunseal_state"

subsection \<open>The contracts of the states\<close>

lemma same_kinds_length: "same_kinds xs attrs \<Longrightarrow> length xs = length attrs"
  by (simp add: same_kinds_def) (metis length_map)

interpretation vinit_rows: attr_state vinit_attrs
proof unfold_locales
  fix xs :: "'a tf_any list" and s
  assume k: "same_kinds xs (sa_attrs vinit_attrs s)"
  then show "sa_attrs vinit_attrs (sa_set vinit_attrs xs s) = zip (map fst (sa_attrs vinit_attrs s)) xs"
    by (auto simp: vinit_attrs_def vinit_rows_def set_vinit_attrs_def)
qed (simp_all add: vinit_attrs_def flat_attrs_def vinit_rows_def set_vinit_attrs_def)

lemma set_vunseal_attrs_transport [simp]: "vu_transport (set_vunseal_attrs xs s) = vu_transport s"
  by (induction xs s rule: set_vunseal_attrs.induct) simp_all

interpretation vunseal_rows: attr_state vunseal_attrs
  by unfold_locales (auto simp: vunseal_attrs_def flat_attrs_def)

interpretation vinit_states: resource_state L P "vinit_ops L P"
  unfolding vinit_ops_def by (rule vinit_rows.rows_state)

interpretation vunseal_states: resource_state L P "vunseal_ops L P"
  unfolding vunseal_ops_def by (rule vunseal_rows.rows_state)

subsection \<open>Lemmas on the requests and the operations\<close>

lemma never_deeply_equal [simp]: "\<not> deeply_equal vault_handlers s t"
  by (simp add: deeply_equal_def vault_handlers_def)

lemma vinit_request_id [simp]: "vinit_request ovf (s\<lparr>vi_id := i\<rparr>) = vinit_request ovf s"
  by (simp add: vinit_request_def)

lemma vunseal_request_id [simp]: "vunseal_request ovf (s\<lparr>vu_id := i\<rparr>) = vunseal_request ovf s"
  by (simp add: vunseal_request_def)

lemma vinit_act_ok:
  assumes "vinit_act E ev ctx prior s tr w = Some ((s', []), w')"
  obtains r req' where "init_validate (vinit_request (pow_overflow ctx) s :: 'w init_request) = None"
    "vault_init (sx_embed E) (sx_timeout E two_minutes ctx) tr (vinit_request (pow_overflow ctx) s) (w :: 'w)
      = Some ((Some r, None), req', w')" "s' = set_init_response r s"
proof -
  from assms have "vinit_init E ctx tr s w = Some ((None, s'), w')"
    by (auto simp: vinit_act_def elim!: bind_eq_SomeE)
  then show thesis
    by (auto simp: vinit_init_def Let_def deref_def elim!: bind_eq_SomeE intro: that
        split: option.split_asm prod.split_asm)
qed

lemma vunseal_act_ok:
  assumes "vunseal_act E ev ctx prior s tr w = Some ((s', []), w')"
  obtains r req' where
    "vault_unseal (sx_embed E) (sx_timeout E two_minutes ctx) tr (vunseal_request (pow_overflow ctx) s) w
      = Some ((r, None), req', w')" "s' = s"
proof -
  from assms have "vunseal_unseal E ctx tr s w = Some (None, w')" "s' = s"
    by (auto simp: vunseal_act_def elim!: bind_eq_SomeE)
  then show thesis
    by (auto simp: vunseal_unseal_def elim!: bind_eq_SomeE intro: that split: option.split_asm)
qed

definition unseal_keys_of :: "tf_string_slice \<Rightarrow> string list" where
  "unseal_keys_of a = (case string_slice_get_strings a of (ss, ok) \<Rightarrow> if ok then ss else [])"

text \<open>What the state answered holds when the response has neither keys nor a token.\<close>

definition no_keys :: "'v vinit_state \<Rightarrow> bool" where
  "no_keys s \<longleftrightarrow> vi_root_token s = Tfv False False [] \<and> vi_unseal_keys_b64 s = Tfv False False []
     \<and> vi_unseal_keys_hex s = Tfv False False [] \<and> vi_recovery_keys_b64 s = Tfv False False []
     \<and> vi_recovery_keys_hex s = Tfv False False [] \<and> is_null (vi_unseal_shares s) \<and> is_null (vi_unseal_threshold s)
     \<and> is_null (vi_recovery_keys_shares s) \<and> is_null (vi_recovery_keys_threshold s)"

lemma zero_response_no_keys:
  "no_keys (set_init_response (zero_init_response\<lparr>ir_prior_state := p\<rparr>) s)"
  by (simp add: no_keys_def set_init_response_def zero_init_response_def string_slice_set_strings_def tf_set_def
      set_number_def number_int64_def parse_int_def)

subsection \<open>Properties\<close>

text \<open>
  C26: an apply of enos_vault_init without diagnostics that does not
  delete, also one that only updates. It waited for a state whose seal state is known. When
  that one was not initialized the init command ran without error right after, and the keys and the token of
  the state are what it printed. When it was initialized already, nothing ran and the state has
  no keys and an empty root token, whatever was in it before: applying a change to a Vault that
  the resource has initialized loses its keys.
\<close>

theorem vinit_apply_ok:
  fixes s :: "'v vinit_state" and ctx :: "'w go_ctx" and L :: "('t, 'v) tf_lib"
  assumes "apply_unmarshal_state (vinit_ops L P) ev ctx req new_vinit_state new_vinit_state h w = Some (([], prior, planned), h1)"
    and "\<not> is_delete wr req"
    and "vinit_apply L P wr E ev ctx dial c req h w = Some ((s, []), h', w')"
  shows "\<exists>s1 (em :: 'v embedded) tr w1 before sq w2.
    planned_as (vinit_ops L P :: ('w, 'v vinit_state, 't, 'v) state_ops) planned s1
    \<and> embedded_client P ctx dial em w = ((Some tr, None), w1)
    \<and> wait_for_state (sx_embed E) (sx_timeout E two_minutes ctx) tr (iq_state (vinit_request (pow_overflow ctx) s1))
        (init_prior_checks tr) w1 = Some ((Some before, None), sq, w2)
    \<and> (if state_is_initialized (Some before) = (True, None) then no_keys s
       else \<exists>printed w3 res. tr_run tr (new_command
              (init_request_string (Some ((vinit_request (pow_overflow ctx) s1)\<lparr>iq_state := sq\<rparr>)))
              [with_env_var ''VAULT_ADDR'' (cli_addr (sq_cli sq))]) w2 = ((printed, [], None), w3)
         \<and> unmarshal (dec_ptr zero_init_response dec_init_response) printed
             (Some (zero_init_response\<lparr>ir_prior_state := Some before\<rparr>)) = (Some res, None)
         \<and> s = set_init_response res (s1\<lparr>vi_id := Tfv False False ''static''\<rparr>))"
proof -
  from assms(1,2) assms(3) [unfolded vinit_apply_def] show ?thesis
  proof (cases rule: vinit_states.apply_resource_cases)
    case (ran s1 em tr w1)
    let ?s = "s1\<lparr>vi_id := tf_set ''static'' (vi_id s1)\<rparr>"
    obtain r req' where
      r: "vault_init (sx_embed E) (sx_timeout E two_minutes ctx) tr (vinit_request (pow_overflow ctx) s1) w1
        = Some ((Some r, None), req', w')" "s = set_init_response r ?s"
      by (rule vinit_act_ok [OF ran(5)]) simp
    from vault_init_ok [OF r(1)] obtain before post w2 sq res where
      w: "wait_for_state (sx_embed E) (sx_timeout E two_minutes ctx) tr (iq_state (vinit_request (pow_overflow ctx) s1))
        (init_prior_checks tr) w1 = Some ((Some before, None), sq, w2)"
      and res: "r = res\<lparr>ir_post_state := Some post\<rparr>"
      and how: "if state_is_initialized (Some before) = (True, None)
        then res = zero_init_response\<lparr>ir_prior_state := Some before\<rparr>
        else \<exists>w3 printed. tr_run tr (new_command
              (init_request_string (Some ((vinit_request (pow_overflow ctx) s1)\<lparr>iq_state := sq\<rparr>)))
              [with_env_var ''VAULT_ADDR'' (cli_addr (sq_cli sq))]) w2 = ((printed, [], None), w3)
         \<and> unmarshal (dec_ptr zero_init_response dec_init_response) printed
             (Some (zero_init_response\<lparr>ir_prior_state := Some before\<rparr>)) = (Some res, None)"
      by (auto split: if_split_asm)
    have s: "s = set_init_response res (s1\<lparr>vi_id := Tfv False False ''static''\<rparr>)"
      by (simp add: r(2) res set_init_response_def tf_set_def)
    from how s have "if state_is_initialized (Some before) = (True, None) then no_keys s
       else \<exists>printed w3 res. tr_run tr (new_command
              (init_request_string (Some ((vinit_request (pow_overflow ctx) s1)\<lparr>iq_state := sq\<rparr>)))
              [with_env_var ''VAULT_ADDR'' (cli_addr (sq_cli sq))]) w2 = ((printed, [], None), w3)
         \<and> unmarshal (dec_ptr zero_init_response dec_init_response) printed
             (Some (zero_init_response\<lparr>ir_prior_state := Some before\<rparr>)) = (Some res, None)
         \<and> s = set_init_response res (s1\<lparr>vi_id := Tfv False False ''static''\<rparr>)"
      using zero_response_no_keys [of "Some before"] by (auto split: if_split_asm)
    with ran(1,4) w show ?thesis by blast
  qed simp
qed

text \<open>
  C27: an apply of enos_vault_unseal without diagnostics that does
  not delete always waits for the cluster, on creation and on update. Before it the cluster was
  initialized; when it was sealed and the seal is shamir every key was given to the cluster, in order
  and without error; the state read last is initialized and unsealed.
\<close>

theorem vunseal_apply_ok:
  fixes s :: "'v vunseal_state" and ctx :: "'w go_ctx" and L :: "('t, 'v) tf_lib"
  assumes "apply_unmarshal_state (vunseal_ops L P) ev ctx req new_vunseal_state new_vunseal_state h w = Some (([], prior, planned), h1)"
    and "\<not> is_delete wr req"
    and "vunseal_apply L P wr E ev ctx dial c req h w = Some ((s, []), h', w')"
  shows "\<exists>s1 (em :: 'v embedded) tr w1 (ureq :: 'w unseal_request) before sealed w2 w3 after req'.
    planned_as (vunseal_ops L P :: ('w, 'v vunseal_state, 't, 'v) state_ops) planned s1
    \<and> embedded_client P ctx dial em w = ((Some tr, None), w1)
    \<and> wait_for_state (sx_embed E) (sx_timeout E two_minutes ctx) tr (uq_state (vunseal_request (pow_overflow ctx) s1))
        (unseal_prior_checks tr) w1 = Some ((Some before, None), uq_state ureq, w2)
    \<and> state_is_initialized (Some before) = (True, None) \<and> state_is_sealed (Some before) = (sealed, None)
    \<and> (if sealed \<and> known_or SealTypeShamir (vu_seal_type s1) = SealTypeShamir
       then ran_all tr (map (unseal_command ureq) (unseal_keys_of (vu_unseal_keys s1))) w2 w3
       else w3 = w2)
    \<and> unseal_await (sx_embed E) (sx_timeout E two_minutes ctx) tr ureq
        \<lparr>ur_prior_state = Some before, ur_post_state = None\<rparr> w3
      = Some ((Some \<lparr>ur_prior_state = Some before, ur_post_state = Some after\<rparr>, None), req', w')
    \<and> state_is_initialized (Some after) = (True, None) \<and> state_is_sealed (Some after) = (False, None)"
proof -
  from assms(1,2) assms(3) [unfolded vunseal_apply_def] show ?thesis
  proof (cases rule: vunseal_states.apply_resource_cases)
    case (ran s1 em tr w1)
    let ?req = "vunseal_request (pow_overflow ctx) s1 :: 'w unseal_request"
    obtain r req' where
      r: "vault_unseal (sx_embed E) (sx_timeout E two_minutes ctx) tr ?req w1 = Some ((r, None), req', w')"
      by (rule vunseal_act_ok [OF ran(5)]) simp
    have q: "uq_seal_type ?req = known_or SealTypeShamir (vu_seal_type s1)"
      "uq_unseal_keys ?req = unseal_keys_of (vu_unseal_keys s1)"
      by (auto simp: vunseal_request_def new_unseal_request_def with_unseal_state_opts_def with_unseal_seal_type_def
          with_unseal_keys_def opt_strings_def unseal_keys_of_def Let_def split: prod.split)
    from vault_unseal_ok [OF r] obtain before after w2 w3 sq sealed where
      u: "wait_for_state (sx_embed E) (sx_timeout E two_minutes ctx) tr (uq_state ?req) (unseal_prior_checks tr) w1
        = Some ((Some before, None), sq, w2)"
      "state_is_initialized (Some before) = (True, None)" "state_is_sealed (Some before) = (sealed, None)"
      "if sealed \<and> uq_seal_type ?req = SealTypeShamir
        then ran_all tr (map (unseal_command (?req\<lparr>uq_state := sq\<rparr>)) (uq_unseal_keys ?req)) w2 w3
        else w3 = w2 \<and> (sealed \<longrightarrow> uq_seal_type ?req \<in> set auto_seal_types)"
      "unseal_await (sx_embed E) (sx_timeout E two_minutes ctx) tr (?req\<lparr>uq_state := sq\<rparr>)
        \<lparr>ur_prior_state = Some before, ur_post_state = None\<rparr> w3 = Some ((r, None), req', w')"
      "r = Some \<lparr>ur_prior_state = Some before, ur_post_state = Some after\<rparr>"
      "state_is_initialized (Some after) = (True, None)" "state_is_sealed (Some after) = (False, None)"
      by metis
    from u(4) q have keys: "if sealed \<and> known_or SealTypeShamir (vu_seal_type s1) = SealTypeShamir
       then ran_all tr (map (unseal_command (?req\<lparr>uq_state := sq\<rparr>)) (unseal_keys_of (vu_unseal_keys s1))) w2 w3
       else w3 = w2" by (auto split: if_split_asm)
    show ?thesis
      using ran(1,4) u(1-3) keys u(5) [unfolded u(6)] u(7,8)
      by - (rule exI [of _ s1], rule exI [of _ em], rule exI [of _ tr], rule exI [of _ w1],
        rule exI [of _ "?req\<lparr>uq_state := sq\<rparr>"], rule exI [of _ before], rule exI [of _ sealed], rule exI [of _ w2],
        rule exI [of _ w3], rule exI [of _ after], rule exI [of _ req'], simp)
  qed simp
qed

text \<open>
  A path or an address that is known and empty passes
  the validation of enos_vault_unseal, but Unseal answers it with no response, and printing the
  error follows that nil pointer: the apply panics instead of giving the error.
\<close>

theorem vunseal_empty_path_panics:
  assumes "ctx_err ctx w = None" "snd (tf_get (vu_bin_path s))" "snd (tf_get (vu_addr s))"
    and "raw_val (vu_bin_path s) = [] \<or> raw_val (vu_addr s) = []"
  shows "vunseal_validate P ctx s w = None \<and> vunseal_act E ev ctx prior s tr w1 = None"
proof -
  have "cli_bin (sq_cli (uq_state (vunseal_request ovf s))) = [] \<or> cli_addr (sq_cli (uq_state (vunseal_request ovf s))) = []"
    for ovf
    using assms(2-4) by (auto simp: vunseal_request_def new_unseal_request_def with_unseal_state_opts_def
        with_unseal_seal_type_def with_unseal_keys_def opt_strings_def opt_known_def request_state_opts_def
        new_state_request_def with_state_bin_path_def with_state_addr_def with_state_fc_use_home_dir_def
        with_state_unit_def Let_def split: prod.split)
  then have "vunseal_unseal E ctx tr s w1 = None"
    by (auto simp: vunseal_unseal_def vault_unseal_def deref_def split: option.split)
  with assms(1-3) show ?thesis by (simp add: vunseal_validate_def vunseal_act_def)
qed

subsection \<open>A cluster that lives\<close>

definition demo_cluster :: "(string \<times> demo_value) list \<Rightarrow> demo_value" where
  "demo_cluster more' = demo_value_of [(''bin_path'', ''/vault''), (''vault_addr'', ''http://v''), (''id'', ''static'')]
     (more' @ [(''transport'', demo_ssh_block)])"

lemma demo_opts_request:
  "apply_opts (request_state_opts (Tfv False False ''/vault'') (Tfv False False ''http://v'') (new_tf []))
     (new_state_request 0 []) = demo_request"
  by (simp add: request_state_opts_def opt_known_def tf_get_def known_or_def new_tf_def demo_request_def
      new_state_request_def with_state_bin_path_def with_state_addr_def with_state_fc_use_home_dir_def
      with_state_unit_def Let_def)

definition demo_vinit :: "demo_value vinit_state" where
  "demo_vinit = new_vinit_state\<lparr>vi_bin_path := Tfv False False ''/vault'', vi_addr := Tfv False False ''http://v''\<rparr>"

lemma demo_vinit_request:
  "iq_state (vinit_request 0 (demo_vinit\<lparr>vi_id := i, vi_transport := em\<rparr>)) = demo_request"
  "init_validate (vinit_request 0 (demo_vinit\<lparr>vi_id := i, vi_transport := em\<rparr>) :: nat init_request) = None"
proof -
  have r: "vinit_request 0 (demo_vinit\<lparr>vi_id := i, vi_transport := em\<rparr>) = new_init_request 0 [with_init_state_opts
      (request_state_opts (Tfv False False ''/vault'') (Tfv False False ''http://v'') (new_tf []))]"
    by (simp add: vinit_request_def demo_vinit_def new_vinit_state_def opt_known_def opt_strings_def
        string_slice_get_strings_def tf_get_def new_tf_def)
  show "iq_state (vinit_request 0 (demo_vinit\<lparr>vi_id := i, vi_transport := em\<rparr>)) = demo_request"
    by (simp add: r new_init_request_def with_init_state_opts_def demo_opts_request Let_def)
  then show "init_validate (vinit_request 0 (demo_vinit\<lparr>vi_id := i, vi_transport := em\<rparr>) :: nat init_request) = None"
    by (simp add: init_validate_def r new_init_request_def with_init_state_opts_def demo_opts_request Let_def fresh_commands)
qed

lemma demo_initialized:
  assumes "iq_state req = demo_request"
  shows "vault_init demo_fs live_ctx fresh_vault req 1 = Some ((Some (zero_init_response\<lparr>
    ir_prior_state := Some (fresh_state 1), ir_post_state := Some (fresh_state 1)\<rparr>), None), req, 1)"
proof -
  have "req\<lparr>iq_state := demo_request\<rparr> = req" by (simp flip: assms)
  then show ?thesis
    by (simp add: vault_init_def init_await_def assms fresh_commands init_prior_checks_def init_post_checks_def
        fresh_process_checks fresh_wait fresh_checks fresh_questions deref_def)
qed

lemma demo_vinit_act:
  "vinit_act demo_start_env ev live_ctx prior (demo_vinit\<lparr>vi_id := i, vi_transport := em\<rparr>) fresh_vault 1
    = Some ((set_init_response (zero_init_response\<lparr>ir_prior_state := Some (fresh_state 1), ir_post_state := Some (fresh_state 1)\<rparr>)
        (demo_vinit\<lparr>vi_id := i, vi_transport := em\<rparr>), []), 1)"
proof -
  have "pow_overflow live_ctx = 0" by (simp add: live_ctx_def)
  then show ?thesis
    by (simp add: vinit_act_def vinit_init_def Let_def demo_vinit_request demo_start_env_def demo_initialized deref_def del: One_nat_def)
qed

lemma demo_vinit_read:
  "\<exists>h1. apply_unmarshal_state (vinit_ops demo_lib demo_paths) demo_view live_ctx
       (demo_change (demo_cluster []) (demo_cluster [])) new_vinit_state new_vinit_state demo_heap 1
     = Some (([], demo_vinit\<lparr>vi_id := Tfv False False ''static'', vi_transport := demo_read_block\<rparr>,
         demo_vinit\<lparr>vi_id := Tfv False False ''static'', vi_transport := demo_read_block\<rparr>), h1)"
  by (simp add: vinit_ops_def demo_rows vinit_attrs_def vinit_rows_def set_vinit_attrs_def new_vinit_state_def
      apply_unmarshal_state_def demo_change_def live demo_cluster_def demo_vinit_def)

text \<open>The cluster was initialized before, and the change loses what the state had.\<close>

theorem vinit_apply_ok_witness:
  "\<exists>s h2 w'. vinit_apply demo_lib demo_paths demo_wire demo_start_env demo_view live_ctx (dialer_to fresh_vault)
     new_provider_config (demo_change (demo_cluster []) (demo_cluster [])) demo_heap 1 = Some ((s, []), h2, w') \<and> no_keys s"
proof -
  let ?req = "demo_change (demo_cluster []) (demo_cluster [])"
  let ?p = "demo_vinit\<lparr>vi_id := Tfv False False ''static'', vi_transport := demo_read_block\<rparr>"
  let ?so = "vinit_ops demo_lib demo_paths :: (nat, demo_value vinit_state, demo_type, demo_value) state_ops"
  let ?set = "\<lambda>s :: demo_value vinit_state. s\<lparr>vi_id := tf_set ''static'' (vi_id s)\<rparr>"
  obtain h1 where r: "apply_unmarshal_state ?so demo_view live_ctx ?req new_vinit_state new_vinit_state demo_heap 1
      = Some (([], ?p, ?p), h1)"
    using demo_vinit_read by blast
  have d: "\<not> is_delete demo_wire ?req" by (simp add: demo_cluster_def demo_not_delete)
  have res: "set_resolved ?so (Some demo_ssh_transport) ?p
      = demo_vinit\<lparr>vi_id := Tfv False False ''static'', vi_transport := set_resolved_transport (Some demo_ssh_transport) demo_read_block\<rparr>"
    by (simp add: set_resolved_def vinit_ops_def attrs_ops_def vinit_attrs_def)
  have o: "pow_overflow live_ctx = 0" by (simp add: live_ctx_def)
  have act: "\<exists>s. vinit_act demo_start_env demo_view live_ctx ?p (?set (set_resolved ?so (Some demo_ssh_transport) ?p))
      fresh_vault 1 = Some ((s, []), 1)"
  proof -
    have "?set (set_resolved ?so (Some demo_ssh_transport) ?p) = demo_vinit\<lparr>vi_id := Tfv False False ''static'',
        vi_transport := set_resolved_transport (Some demo_ssh_transport) demo_read_block\<rparr>"
      by (simp add: res tf_set_def)
    then show ?thesis using demo_vinit_act by metis
  qed
  have "so_embedded ?so ?p = demo_read_block" "so_validate ?so live_ctx (set_resolved ?so (Some demo_ssh_transport) ?p) 1 = None"
    unfolding res by (simp_all add: vinit_ops_def attrs_ops_def vinit_attrs_def vinit_validate_def live demo_vinit_request o)
  then obtain s h2 where s: "vinit_apply demo_lib demo_paths demo_wire demo_start_env demo_view live_ctx (dialer_to fresh_vault)
     new_provider_config ?req demo_heap 1 = Some ((s, []), h2, 1)"
    unfolding vinit_apply_def using act
      demo_applied [OF r d, where tr = fresh_vault and act = "vinit_act demo_start_env demo_view live_ctx" and set_id = ?set]
    by blast
  from vinit_apply_ok [OF r d s] obtain s1 and em :: "demo_value embedded" and tr w1 before sq w2 where
    c: "planned_as ?so ?p s1" "embedded_client demo_paths live_ctx (dialer_to fresh_vault) em 1 = ((Some tr, None), w1)"
    and w: "wait_for_state demo_fs live_ctx tr (iq_state (vinit_request 0 s1)) (init_prior_checks tr) w1
      = Some ((Some before, None), sq, w2)"
    and out: "state_is_initialized (Some before) = (True, None) \<Longrightarrow> no_keys s"
    unfolding o by (auto simp: demo_start_env_def)
  have tr: "tr = fresh_vault" "w1 = 1" using dialer_to_client [OF c(2)] by simp_all
  have "\<exists>em. s1 = demo_vinit\<lparr>vi_id := Tfv False False ''static'', vi_transport := em\<rparr>"
    using c(1) by (auto simp: planned_as_def set_resolved_def vinit_ops_def attrs_ops_def vinit_attrs_def)
  with w have "before = fresh_state 1"
    by (auto simp: tr demo_vinit_request init_prior_checks_def fresh_process_checks fresh_wait fresh_checks)
  with out s show ?thesis by (auto simp: fresh_questions)
qed

definition demo_vunseal :: "demo_value vunseal_state" where
  "demo_vunseal = new_vunseal_state\<lparr>vu_id := Tfv False False ''static'', vu_bin_path := Tfv False False ''/vault'',
     vu_addr := Tfv False False ''http://v'', vu_unseal_keys := Tfv False False [Tfv False False ''k'']\<rparr>"

lemma demo_vunseal_request:
  "uq_state (vunseal_request 0 (demo_vunseal\<lparr>vu_transport := em\<rparr>)) = demo_request"
  "uq_seal_type (vunseal_request 0 (demo_vunseal\<lparr>vu_transport := em\<rparr>)) = ''shamir''"
  "uq_unseal_keys (vunseal_request 0 (demo_vunseal\<lparr>vu_transport := em\<rparr>)) = [''k'']"
proof -
  have r: "vunseal_request 0 (demo_vunseal\<lparr>vu_transport := em\<rparr>) = new_unseal_request 0 [with_unseal_state_opts
      (request_state_opts (Tfv False False ''/vault'') (Tfv False False ''http://v'') (new_tf [])),
      with_unseal_seal_type ''shamir'', with_unseal_keys [''k'']]"
    by (simp add: vunseal_request_def demo_vunseal_def new_vunseal_state_def opt_strings_def known_or_def
        string_slice_get_strings_def tf_get_def new_tf_def SealTypeShamir_def)
  show "uq_state (vunseal_request 0 (demo_vunseal\<lparr>vu_transport := em\<rparr>)) = demo_request"
    "uq_seal_type (vunseal_request 0 (demo_vunseal\<lparr>vu_transport := em\<rparr>)) = ''shamir''"
    "uq_unseal_keys (vunseal_request 0 (demo_vunseal\<lparr>vu_transport := em\<rparr>)) = [''k'']"
    by (simp_all add: r new_unseal_request_def with_unseal_state_opts_def with_unseal_seal_type_def with_unseal_keys_def
        demo_opts_request Let_def)
qed

lemma demo_unsealed:
  assumes "uq_state req = demo_request" "uq_seal_type req = ''shamir''" "uq_unseal_keys req = [''k'']"
  shows "vault_unseal demo_fs live_ctx fresh_vault req 1
    = Some ((Some \<lparr>ur_prior_state = Some (fresh_state 1), ur_post_state = Some (fresh_state 2)\<rparr>, None), req, 2)"
proof -
  have same: "req\<lparr>uq_state := demo_request\<rparr> = req" by (simp flip: assms(1))
  have "apply_keys live_ctx fresh_vault req 0 [''k''] 1 = ([], 2)"
    by (simp add: live unseal_command_def assms fresh_commands fresh_vault_def new_command_def with_env_var_def Let_def)
  moreover have "unseal_await demo_fs live_ctx fresh_vault req res 2
      = Some ((Some (res\<lparr>ur_post_state := Some (fresh_state 2)\<rparr>), None), req, 2)" for res
    by (simp add: unseal_await_def unseal_post_checks_def SealTypeShamir_def fresh_process_checks assms
        fresh_wait fresh_checks same)
  ultimately show ?thesis
    by (simp add: vault_unseal_def live assms fresh_commands unseal_prior_checks_def fresh_process_checks fresh_wait
        fresh_checks fresh_questions same SealTypeShamir_def)
qed

lemma demo_vunseal_read:
  "\<exists>h1. apply_unmarshal_state (vunseal_ops demo_lib demo_paths) demo_view live_ctx
       (demo_change (demo_cluster [(''unseal_keys'', demo_strings [''k''])]) (demo_cluster [(''unseal_keys'', demo_strings [''k''])]))
       new_vunseal_state new_vunseal_state demo_heap 1
     = Some (([], demo_vunseal\<lparr>vu_transport := demo_read_block\<rparr>, demo_vunseal\<lparr>vu_transport := demo_read_block\<rparr>), h1)"
  by (simp add: vunseal_ops_def demo_rows vunseal_attrs_def new_vunseal_state_def
      apply_unmarshal_state_def demo_change_def live demo_cluster_def demo_vunseal_def)

theorem vunseal_apply_ok_witness:
  "\<exists>s h2. vunseal_apply demo_lib demo_paths demo_wire demo_start_env demo_view live_ctx (dialer_to fresh_vault)
     new_provider_config (demo_change (demo_cluster [(''unseal_keys'', demo_strings [''k''])])
       (demo_cluster [(''unseal_keys'', demo_strings [''k''])])) demo_heap 1 = Some ((s, []), h2, 2)
     \<and> (\<exists>(ureq :: nat unseal_request) w2 w3. ran_all fresh_vault (map (unseal_command ureq) [''k'']) w2 w3)"
proof -
  let ?req = "demo_change (demo_cluster [(''unseal_keys'', demo_strings [''k''])]) (demo_cluster [(''unseal_keys'', demo_strings [''k''])])"
  let ?p = "demo_vunseal\<lparr>vu_transport := demo_read_block\<rparr>"
  let ?so = "vunseal_ops demo_lib demo_paths :: (nat, demo_value vunseal_state, demo_type, demo_value) state_ops"
  let ?set = "\<lambda>s :: demo_value vunseal_state. s\<lparr>vu_id := tf_set ''static'' (vu_id s)\<rparr>"
  obtain h1 where r: "apply_unmarshal_state ?so demo_view live_ctx ?req new_vunseal_state new_vunseal_state demo_heap 1
      = Some (([], ?p, ?p), h1)"
    using demo_vunseal_read by blast
  have d: "\<not> is_delete demo_wire ?req" by (simp add: demo_cluster_def demo_not_delete)
  have res: "set_resolved ?so (Some demo_ssh_transport) ?p
      = demo_vunseal\<lparr>vu_transport := set_resolved_transport (Some demo_ssh_transport) demo_read_block\<rparr>"
    by (simp add: set_resolved_def vunseal_ops_def attrs_ops_def vunseal_attrs_def)
  have o: "pow_overflow live_ctx = 0" by (simp add: live_ctx_def)
  have act: "\<exists>s. vunseal_act demo_start_env demo_view live_ctx ?p (?set (set_resolved ?so (Some demo_ssh_transport) ?p))
      fresh_vault 1 = Some ((s, []), 2)"
    by (simp add: res vunseal_act_def vunseal_unseal_def o demo_vunseal_request demo_start_env_def demo_unsealed
        del: One_nat_def)
  have "so_embedded ?so ?p = demo_read_block" "so_validate ?so live_ctx (set_resolved ?so (Some demo_ssh_transport) ?p) 1 = None"
    unfolding res by (simp_all add: vunseal_ops_def attrs_ops_def vunseal_attrs_def vunseal_validate_def live
        demo_vunseal_def tf_get_def)
  then obtain s h2 where s: "vunseal_apply demo_lib demo_paths demo_wire demo_start_env demo_view live_ctx (dialer_to fresh_vault)
     new_provider_config ?req demo_heap 1 = Some ((s, []), h2, 2)"
    unfolding vunseal_apply_def using act
      demo_applied [OF r d, where tr = fresh_vault and act = "vunseal_act demo_start_env demo_view live_ctx" and set_id = ?set]
    by blast
  from vunseal_apply_ok [OF r d s] obtain s1 and em :: "demo_value embedded" and tr w1 before sealed
      and ureq :: "nat unseal_request" and w2 w3 where
    c: "planned_as ?so ?p s1" "embedded_client demo_paths live_ctx (dialer_to fresh_vault) em 1 = ((Some tr, None), w1)"
    and w: "wait_for_state demo_fs live_ctx tr (uq_state (vunseal_request 0 s1)) (unseal_prior_checks tr) w1
      = Some ((Some before, None), uq_state ureq, w2)" "state_is_sealed (Some before) = (sealed, None)"
    and out: "if sealed \<and> known_or SealTypeShamir (vu_seal_type s1) = SealTypeShamir
       then ran_all tr (map (unseal_command ureq) (unseal_keys_of (vu_unseal_keys s1))) w2 w3 else w3 = w2"
    unfolding o by (auto simp: demo_start_env_def)
  have tr: "tr = fresh_vault" "w1 = 1" using dialer_to_client [OF c(2)] by simp_all
  obtain em' where s1: "s1 = demo_vunseal\<lparr>vu_transport := em'\<rparr>"
    using c(1) by (auto simp: planned_as_def set_resolved_def vunseal_ops_def attrs_ops_def vunseal_attrs_def)
  with w have "before = fresh_state 1"
    by (auto simp: tr demo_vunseal_request unseal_prior_checks_def fresh_process_checks fresh_wait fresh_checks)
  with w(2) have "sealed" by (simp add: fresh_questions)
  with out have "ran_all fresh_vault (map (unseal_command ureq) [''k'']) w2 w3"
    by (simp add: tr s1 demo_vunseal_def new_vunseal_state_def known_or_def tf_get_def new_tf_def unseal_keys_of_def
        string_slice_get_strings_def)
  with s show ?thesis by blast
qed

theorem vunseal_empty_path_panics_witness:
  "vunseal_validate demo_paths live_ctx (demo_vunseal\<lparr>vu_bin_path := Tfv False False []\<rparr>) 1 = None
    \<and> vunseal_act demo_start_env demo_view live_ctx new_vunseal_state (demo_vunseal\<lparr>vu_bin_path := Tfv False False []\<rparr>)
        fresh_vault 1 = None"
  by (rule vunseal_empty_path_panics) (simp_all add: live demo_vunseal_def tf_get_def)

end
