(* ===== verification/ExecResource.thy ===== *)
theory ExecResource
  imports ResourceState FileResource Package
begin

text \<open>
  The resources that run commands: enos_remote_exec (\<open>internal/plugin/resource_remote_exec.go\<close>) over
  a transport and enos_local_exec (\<open>resource_local_exec.go\<close>) on the machine of the provider, with
  the sum of their configuration (\<open>exec_config.go\<close>). Both plan alike; the states share their
  attributes as a record that each extends.
\<close>

subsection \<open>States and the sum of the configuration\<close>

record exec_state =
  xs_id :: tf_string
  xs_env :: tf_string_map
  xs_content :: tf_string
  xs_inline :: tf_string_slice
  xs_scripts :: tf_string_slice
  xs_sum :: tf_string
  xs_stderr :: tf_string
  xs_stdout :: tf_string

text \<open>What a digest or the opening of a script can fail with, as for every local file; the names are the attributes.\<close>

definition err_invalid :: "'p path_lib \<Rightarrow> string \<Rightarrow> goerr \<Rightarrow> string \<Rightarrow> goerr" where
  "err_invalid P what e name = attribute_path_error P (ErrWrap (''invalid configuration, '' @ what @ '', due to: '') e []) [name]"

fun script_digests ::
  "'p path_lib \<Rightarrow> 'w local_files \<Rightarrow> 'w go_ctx \<Rightarrow> string list \<Rightarrow> 'w \<Rightarrow> (goerr, string) sum" where
  "script_digests P lf ctx [] w = Inr []"
| "script_digests P lf ctx (path # paths) w =
     (case ctx_err ctx w of
        Some e \<Rightarrow> Inl e
      | None \<Rightarrow>
     (case lf_open lf path w of
        (_, Some e) \<Rightarrow> Inl (err_invalid P (''unable to open scripts file: ['' @ path @ '']'') e ''scripts'')
      | (cp, None) \<Rightarrow>
     (case lf_read lf cp w of
        Some e \<Rightarrow> Inl (err_invalid P ''unable to determine script file SHA256 sum'' e ''scripts'')
      | None \<Rightarrow>
     (case script_digests P lf ctx paths w of
        Inl e \<Rightarrow> Inl e
      | Inr ds \<Rightarrow> Inr (sha256_hex (cp_rest cp) @ ds)))))"

text \<open>Lists and maps with an attribute that is not known are left out. Digests follow each other without a mark.\<close>

definition strings_or_nil :: "tf_string_slice \<Rightarrow> string list" where
  "strings_or_nil a = (case string_slice_get_strings a of (ss, ok) \<Rightarrow> if ok then ss else [])"

definition env_digests :: "tf_string_map \<Rightarrow> string" where
  "env_digests m = (case string_map_get_strings m of
     (kvs, ok) \<Rightarrow> if ok then concat (map (\<lambda>(k, v). sha256_hex (k @ '':'' @ v)) (sort_key fst kvs)) else [])"

definition exec_sum ::
  "'p path_lib \<Rightarrow> 'w local_files \<Rightarrow> 'w go_ctx \<Rightarrow> 'a exec_state_scheme \<Rightarrow> 'w \<Rightarrow> (goerr, string) sum" where
  "exec_sum P lf ctx s w =
     (case ctx_err ctx w of
        Some e \<Rightarrow> Inl e
      | None \<Rightarrow>
     (case script_digests P lf ctx (strings_or_nil (xs_scripts s)) w of
        Inl e \<Rightarrow> Inl e
      | Inr scripts \<Rightarrow> Inr (sha256_hex (
          (if snd (tf_get (xs_content s)) then sha256_hex (raw_val (xs_content s)) else [])
          @ concat (map sha256_hex (strings_or_nil (xs_inline s)))
          @ scripts @ env_digests (xs_env s)))))"

definition slice_unknown :: "tf_string_slice \<Rightarrow> bool" where
  "slice_unknown a \<longleftrightarrow> is_unknown a \<or> snd (tf_get a) \<and> \<not> string_slice_fully_known a"

definition map_unknown :: "tf_string_map \<Rightarrow> bool" where
  "map_unknown a \<longleftrightarrow> is_unknown a \<or> snd (tf_get a) \<and> \<not> string_map_fully_known a"

definition exec_unknown :: "'a exec_state_scheme \<Rightarrow> bool" where
  "exec_unknown s \<longleftrightarrow> is_unknown (xs_content s) \<or> slice_unknown (xs_scripts s) \<or> slice_unknown (xs_inline s)
     \<or> map_unknown (xs_env s)"

subsection \<open>The plan of both resources\<close>

definition unknown_output :: "'a exec_state_scheme \<Rightarrow> 'a exec_state_scheme" where
  "unknown_output s = s\<lparr>xs_stdout := set_unknown (xs_stdout s), xs_stderr := set_unknown (xs_stderr s)\<rparr>"

definition err_read_scripts :: "goerr \<Rightarrow> goerr" where
  "err_read_scripts e = ErrWrap ''failed to read all scripts, due to: '' e []"

definition exec_planned ::
  "'p path_lib \<Rightarrow> 'w local_files \<Rightarrow> 'p error_view \<Rightarrow> 'w go_ctx \<Rightarrow> 'a exec_state_scheme \<Rightarrow> 'a exec_state_scheme \<Rightarrow> 'w
    \<Rightarrow> 'a exec_state_scheme \<times> 'p diagnostic list" where
  "exec_planned P lf ev ctx prior s w =
     (case (if exec_unknown s then Inr (unknown_unless_set (xs_sum s))
            else (case exec_sum P lf ctx s w of Inl e \<Rightarrow> Inl e | Inr sm \<Rightarrow> Inr (tf_set sm (xs_sum s)))) of
        Inl e \<Rightarrow> (s, [err_to_diagnostic ev ''Invalid Configuration'' (err_read_scripts e)])
      | Inr sm \<Rightarrow>
          (let s1 = s\<lparr>xs_sum := sm\<rparr> in
           (if \<not> snd (tf_get (xs_id prior)) then unknown_output (s1\<lparr>xs_id := set_unknown (xs_id s1)\<rparr>)
            else if exec_unknown s1 then unknown_output (s1\<lparr>xs_sum := set_unknown (xs_sum s1)\<rparr>)
            else if snd (tf_get (xs_sum prior)) \<and> snd (tf_get (xs_sum s1)) \<and> raw_val (xs_sum prior) \<noteq> raw_val (xs_sum s1)
              then unknown_output s1
            else s1, [])))"

text \<open>Whether an apply runs the commands.\<close>

definition exec_due :: "'a exec_state_scheme \<Rightarrow> 'a exec_state_scheme \<Rightarrow> bool" where
  "exec_due prior s \<longleftrightarrow> \<not> snd (tf_get (xs_id prior)) \<or> \<not> snd (tf_get (xs_sum prior)) \<or> \<not> snd (tf_get (xs_sum s))
     \<or> raw_val (xs_sum prior) \<noteq> raw_val (xs_sum s)"

definition set_output :: "buffered \<Rightarrow> 'a exec_state_scheme \<Rightarrow> 'a exec_state_scheme" where
  "set_output ui s = s\<lparr>xs_stdout := tf_set (bf_stdout ui) (xs_stdout s), xs_stderr := tf_set (bf_stderr ui) (xs_stderr s)\<rparr>"

definition format_output :: "buffered \<Rightarrow> string" where
  "format_output ui = (if bf_combined ui \<noteq> [] then [nl, nl] @ ''output:'' @ [nl] @ bf_combined ui else [])"

definition exec_diagnostic :: "'p error_view \<Rightarrow> buffered \<Rightarrow> error \<Rightarrow> 'p diagnostic list" where
  "exec_diagnostic ev ui e = (case e of
     None \<Rightarrow> [] | Some e' \<Rightarrow> [err_to_diagnostic ev ''Execution Error''
       (ErrWrap ''failed to execute commands due to: '' e' (format_output ui))])"

subsection \<open>enos_remote_exec\<close>

record 'v rexec_state = exec_state +
  rx_transport :: "'v embedded"

definition new_rexec_state :: "'v rexec_state" where
  "new_rexec_state = \<lparr>xs_id = new_tf [], xs_env = new_tf [], xs_content = new_tf [], xs_inline = new_tf [],
     xs_scripts = new_tf [], xs_sum = new_tf [], xs_stderr = new_tf [], xs_stdout = new_tf [], rx_transport = new_embedded\<rparr>"

definition exec_rows :: "'a exec_state_scheme \<Rightarrow> (string \<times> 'v tf_any) list" where
  "exec_rows s = [(''id'', TfString (xs_id s)), (''content'', TfString (xs_content s)), (''sum'', TfString (xs_sum s)),
     (''stdout'', TfString (xs_stdout s)), (''stderr'', TfString (xs_stderr s)), (''environment'', TfStringMap (xs_env s)),
     (''inline'', TfStringSlice (xs_inline s)), (''scripts'', TfStringSlice (xs_scripts s))]"

fun set_exec_attrs :: "'v tf_any list \<Rightarrow> 'a exec_state_scheme \<Rightarrow> 'a exec_state_scheme" where
  "set_exec_attrs [i, c, sm, out, serr, env, inl, scr] s = s\<lparr>xs_id := any_string i, xs_content := any_string c,
     xs_sum := any_string sm, xs_stdout := any_string out, xs_stderr := any_string serr, xs_env := any_string_map env,
     xs_inline := any_strings inl, xs_scripts := any_strings scr\<rparr>"
| "set_exec_attrs _ s = s"

definition rexec_attrs :: "('v rexec_state, 'v) state_attrs" where
  "rexec_attrs = \<lparr>sa_attrs = exec_rows, sa_set = set_exec_attrs, sa_transport = rx_transport,
     sa_set_transport = (\<lambda>em s. s\<lparr>rx_transport := em\<rparr>)\<rparr>"

definition scripts_open :: "'w local_files \<Rightarrow> string list \<Rightarrow> 'w \<Rightarrow> (string \<times> goerr) option" where
  "scripts_open lf paths w = (case List.find (\<lambda>p. snd (lf_open lf p w) \<noteq> None) paths of
     None \<Rightarrow> None | Some p \<Rightarrow> Some (p, the (snd (lf_open lf p w))))"

definition rexec_validate :: "'p path_lib \<Rightarrow> 'w local_files \<Rightarrow> 'w go_ctx \<Rightarrow> 'v rexec_state \<Rightarrow> 'w \<Rightarrow> error" where
  "rexec_validate P lf ctx s w =
     (case ctx_err ctx w of
        Some e \<Rightarrow> Some e
      | None \<Rightarrow>
          if \<not> snd (tf_get (xs_content s)) \<and> \<not> snd (tf_get (xs_inline s)) \<and> \<not> snd (tf_get (xs_scripts s)) then
            Some (validation_error P ''you must provide one or more of content, inline commands or scripts'' [])
          else (case scripts_open lf (strings_or_nil (xs_scripts s)) w of
              Some (path, _) \<Rightarrow> Some (validation_error P (''unable to open script file: ['' @ path @ '']'') [''scripts''])
            | None \<Rightarrow> None))"

definition rexec_ops ::
  "('t, 'v) tf_lib \<Rightarrow> 'p path_lib \<Rightarrow> 'w local_files \<Rightarrow> ('w, 'v rexec_state, 't, 'v) state_ops" where
  "rexec_ops L P lf = attrs_ops L P rexec_attrs (rexec_validate P lf)"

text \<open>
  One source: its digest names the file on the host that is run. \<open>xe_seek\<close> is going back to the
  start of what was read; both can fail for files only. The environment is what is known of it.
\<close>

definition exec_script_request ::
  "'w go_ctx \<Rightarrow> 'v rexec_state \<Rightarrow> copyable \<Rightarrow> 'w \<Rightarrow> 'w run_script_request \<times> 'w" where
  "exec_script_request ctx s src = new_run_script_request ctx
     [with_run_script_content (src\<lparr>cp_pos := 0\<rparr>),
      with_run_script_destination (''/tmp/'' @ raw_val (xs_id s) @ ''-'' @ sha256_hex (cp_rest src) @ ''.sh''),
      with_run_script_env (map_of (fst (string_map_get_strings (xs_env s)))), with_run_script_chmod ''0777'']"

record 'w exec_env =
  xe_files :: "'w local_files"
  xe_seek :: "copyable \<Rightarrow> 'w \<Rightarrow> error"

definition copy_and_run ::
  "'w exec_env \<Rightarrow> 'w go_ctx \<Rightarrow> 'w transport \<Rightarrow> 'v rexec_state \<Rightarrow> string \<Rightarrow> copyable \<Rightarrow> buffered \<Rightarrow> 'w
    \<Rightarrow> ((error \<times> buffered) \<times> 'w) go" where
  "copy_and_run X ctx tr s what src ui w =
     (case ctx_err ctx w of
        Some e \<Rightarrow> Some ((Some e, ui), w)
      | None \<Rightarrow>
     (case (if what = ''script'' then lf_read (xe_files X) src w else None) of
        Some e \<Rightarrow> Some ((Some (ErrWrap (''unable to determine '' @ what @ '' SHA256 sum, due to: '') e []), ui), w)
      | None \<Rightarrow>
     (case (if what = ''script'' then xe_seek X src w else None) of
        Some e \<Rightarrow> Some ((Some (ErrWrap (''unable to seek to '' @ what @ '' start, due to: '') e []), ui), w)
      | None \<Rightarrow>
          (case exec_script_request ctx s src w of (req, w1) \<Rightarrow> do {
             ((res, e), _, w2) \<leftarrow> run_script ctx tr req w1;
             Some ((error_or_nil (multi_append [] [e]), ui_append (sr_out res) (sr_err res) ui), w2)
           }))))"

text \<open>The inline commands that are not empty, then the scripts, then the content; the first error ends it.\<close>

fun run_inline ::
  "'w exec_env \<Rightarrow> 'w go_ctx \<Rightarrow> 'w transport \<Rightarrow> 'v rexec_state \<Rightarrow> string list \<Rightarrow> buffered \<Rightarrow> 'w
    \<Rightarrow> ((error \<times> buffered) \<times> 'w) go" where
  "run_inline X ctx tr s [] ui w = Some ((None, ui), w)"
| "run_inline X ctx tr s (cmd # cmds) ui w =
     (case ctx_err ctx w of
        Some e \<Rightarrow> Some ((Some (ErrWrap ''context deadline exceeded while running inline commands, due to: '' e []), ui), w)
      | None \<Rightarrow>
          if cmd = [] then run_inline X ctx tr s cmds ui w
          else do {
            ((e, ui1), w1) \<leftarrow> copy_and_run X ctx tr s ''inline'' (new_reader cmd) ui w;
            (case e of
               Some e' \<Rightarrow> Some ((Some (ErrWrap ''running inline command failed, due to: '' e' []), ui1), w1)
             | None \<Rightarrow> run_inline X ctx tr s cmds ui1 w1)
          })"

fun run_scripts ::
  "'w exec_env \<Rightarrow> 'w go_ctx \<Rightarrow> 'w transport \<Rightarrow> 'v rexec_state \<Rightarrow> string list \<Rightarrow> buffered \<Rightarrow> 'w
    \<Rightarrow> ((error \<times> buffered) \<times> 'w) go" where
  "run_scripts X ctx tr s [] ui w = Some ((None, ui), w)"
| "run_scripts X ctx tr s (path # paths) ui w = do {
     ((e, ui1), w1) \<leftarrow> (case lf_open (xe_files X) path w of
         (_, Some e) \<Rightarrow> Some ((Some (ErrWrap (''failed to open script file: ['' @ path @ ''], due to: '') e []), ui), w)
       | (src, None) \<Rightarrow> copy_and_run X ctx tr s ''script'' src ui w);
     (case e of
        Some e' \<Rightarrow> Some ((Some (ErrWrap (''running script: ['' @ path @ ''] failed, due to: '') e' []), ui1), w1)
      | None \<Rightarrow> run_scripts X ctx tr s paths ui1 w1)
   }"

definition execute_commands ::
  "'w exec_env \<Rightarrow> 'w go_ctx \<Rightarrow> 'w transport \<Rightarrow> 'v rexec_state \<Rightarrow> 'w \<Rightarrow> ((error \<times> buffered) \<times> 'w) go" where
  "execute_commands X ctx tr s w = do {
     ((e, ui), w1) \<leftarrow> run_inline X ctx tr s (strings_or_nil (xs_inline s)) new_buffered w;
     if e \<noteq> None then Some ((e, ui), w1) else do {
     ((e, ui), w2) \<leftarrow> run_scripts X ctx tr s (strings_or_nil (xs_scripts s)) ui w1;
     if e \<noteq> None \<or> \<not> snd (tf_get (xs_content s)) then Some ((e, ui), w2) else do {
     ((e, ui), w3) \<leftarrow> copy_and_run X ctx tr s ''content'' (new_reader (raw_val (xs_content s))) ui w2;
     Some ((case e of None \<Rightarrow> None | Some e' \<Rightarrow> Some (ErrWrap ''running command content failed, due to: '' e' []), ui), w3) }}
   }"

definition rexec_plan ::
  "('t, 'v) tf_lib \<Rightarrow> 'p path_lib \<Rightarrow> 'w local_files \<Rightarrow> 'p error_view \<Rightarrow> 'w go_ctx
    \<Rightarrow> 'v provider_config \<Rightarrow> ('v, 'd) change_request \<Rightarrow> 't heap \<Rightarrow> 'w
    \<Rightarrow> (('v rexec_state \<times> 'p diagnostic list \<times> 'p list) \<times> 't heap) go" where
  "rexec_plan L P lf ev ctx c req h w = do {
     (b, h1) \<leftarrow> plan_build_transport L P (rexec_ops L P lf) ev ctx c req new_rexec_state new_rexec_state h w;
     Some (if has_errors (bt_diagnostics b) then (bt_next b, bt_diagnostics b, bt_replace b)
       else (case exec_planned P lf ev ctx (bt_prior b) (bt_next b) w of
         (s, ds) \<Rightarrow> (s, bt_diagnostics b @ ds, bt_replace b)), h1)
   }"

text \<open>A sum that was not known at the plan is computed when the commands have run.\<close>

definition rexec_run ::
  "'p path_lib \<Rightarrow> 'w exec_env \<Rightarrow> 'p error_view \<Rightarrow> 'w go_ctx \<Rightarrow> 'w transport \<Rightarrow> 'v rexec_state \<Rightarrow> 'w
    \<Rightarrow> (('v rexec_state \<times> 'p diagnostic list) \<times> 'w) go" where
  "rexec_run P X ev ctx tr s w = do {
     ((e, ui), w1) \<leftarrow> execute_commands X ctx tr s w;
     let s1 = set_output ui s;
     Some (if e \<noteq> None then (s1, exec_diagnostic ev ui e)
       else if snd (tf_get (xs_sum s)) then (s1, [])
       else (case exec_sum P (xe_files X) ctx s1 w1 of
           Inl e \<Rightarrow> (s1, [err_to_diagnostic ev ''Invalid Configuration'' (err_read_scripts e)])
         | Inr sm \<Rightarrow> (s1\<lparr>xs_sum := tf_set sm (xs_sum s1)\<rparr>, [])), w1)
   }"

definition rexec_apply ::
  "('t, 'v) tf_lib \<Rightarrow> 'p path_lib \<Rightarrow> ('v, 't, 'd) wire \<Rightarrow> 'w exec_env \<Rightarrow> 'p error_view \<Rightarrow> 'w go_ctx
    \<Rightarrow> ('w, 'w transport) dialer \<Rightarrow> 'v provider_config \<Rightarrow> ('v, 'd) change_request \<Rightarrow> 't heap \<Rightarrow> 'w
    \<Rightarrow> (('v rexec_state \<times> 'p diagnostic list) \<times> 't heap \<times> 'w) go" where
  "rexec_apply L P wr X ev ctx dial c req h w = do {
     ((ds, prior, planned), h1) \<leftarrow>
       apply_unmarshal_state (rexec_ops L P (xe_files X)) ev ctx req new_rexec_state new_rexec_state h w;
     if has_errors ds \<or> is_delete wr req then Some ((planned, ds), h1, w)
     else do {
       ((et, ds), s, h2) \<leftarrow> apply_build_transport L P (rexec_ops L P (xe_files X)) ev ctx c planned h1 w;
       if has_errors ds then Some ((s, ds), h2, w)
       else (case (if snd (tf_get (xs_id prior)) then (xs_id s, w)
             else (case random_id ctx w of (i, w1) \<Rightarrow> (tf_set i (xs_id s), w1))) of
           (i, w1) \<Rightarrow>
             let s1 = s\<lparr>xs_id := i\<rparr> in
             if \<not> exec_due prior s1 then Some ((s1, ds), h2, w1)
             else do {
               em \<leftarrow> deref et;
               (case embedded_client P ctx dial em w1 of
                  ((_, Some e), w2) \<Rightarrow> Some ((s1, ds @ [err_to_diagnostic ev ''Transport Error'' e]), h2, w2)
                | ((client, None), w2) \<Rightarrow> do {
                    tr \<leftarrow> deref client;
                    ((s2, ds2), w3) \<leftarrow> rexec_run P X ev ctx tr s1 w2;
                    Some ((s2, ds @ ds2), h2, w3)
                  })
             })
     }
   }"

subsection \<open>enos_local_exec\<close>

record lexec_state = exec_state +
  lx_inherit_env :: tf_bool

definition new_lexec_state :: lexec_state where
  "new_lexec_state = \<lparr>xs_id = new_tf [], xs_env = new_tf [], xs_content = new_tf [], xs_inline = new_tf [],
     xs_scripts = new_tf [], xs_sum = new_tf [], xs_stderr = new_tf [], xs_stdout = new_tf [], lx_inherit_env = new_tf False\<rparr>"

definition lexec_rows :: "lexec_state \<Rightarrow> (string \<times> 'v tf_any) list" where
  "lexec_rows s = exec_rows s @ [(''inherit_environment'', TfBool (lx_inherit_env s))]"

definition set_lexec_attrs :: "'v tf_any list \<Rightarrow> lexec_state \<Rightarrow> lexec_state" where
  "set_lexec_attrs xs s = (if length xs \<noteq> 9 then s
     else (set_exec_attrs (take 8 xs) s)\<lparr>lx_inherit_env := any_bool (xs ! 8)\<rparr>)"

definition lexec_from_value ::
  "('t, 'v) tf_lib \<Rightarrow> 'v \<Rightarrow> lexec_state \<Rightarrow> 't heap \<Rightarrow> ((lexec_state \<times> error) \<times> 't heap) go" where
  "lexec_from_value L v s h = do {
     ((props, _, e), h1) \<leftarrow> map_attributes_to L (\<lambda>v u. (u, None)) v (map (apsnd PropTF) (lexec_rows s)) h;
     Some ((set_lexec_attrs (map (prop_attr o snd) props) s, e), h1)
   }"

definition lexec_type :: "('t, 'v) tf_lib \<Rightarrow> lexec_state \<Rightarrow> 't heap \<Rightarrow> 't \<times> 't heap" where
  "lexec_type L s h = object_of L [] (map (apsnd (flat_type L)) (lexec_rows s)) h"

definition lexec_value :: "('t, 'v) tf_lib \<Rightarrow> lexec_state \<Rightarrow> 't heap \<Rightarrow> ('v \<times> 't heap) go" where
  "lexec_value L s h = do {
     (kvs, h1) \<leftarrow> attr_values L (lexec_rows s) h;
     (case lexec_type L s h1 of (t, h2) \<Rightarrow> do { v \<leftarrow> new_value L h2 t (MapValue kvs); Some (v, h2) })
   }"

definition lexec_validate :: "'p path_lib \<Rightarrow> 'w local_files \<Rightarrow> 'w go_ctx \<Rightarrow> lexec_state \<Rightarrow> 'w \<Rightarrow> error" where
  "lexec_validate P lf ctx s w =
     (case ctx_err ctx w of
        Some e \<Rightarrow> Some e
      | None \<Rightarrow>
          (case string_slice_get_strings (xs_scripts s) of (scripts, ok) \<Rightarrow>
          if \<not> snd (tf_get (xs_content s)) \<and> \<not> snd (tf_get (xs_inline s)) \<and> \<not> ok then
            Some (validation_error P ''you must provide one of content, inline commands, or scripts'' [])
          else (case scripts_open lf scripts w of
              Some (path, e) \<Rightarrow> Some (attribute_path_error P
                (ErrWrap (''validation error, unable to open script file: ['' @ path @ ''], due to: '') e []) [''scripts''])
            | None \<Rightarrow> None)))"

text \<open>
  The machine of the provider: temporary files, what is copied into them, their mode, opening a
  script and whether it is a directory, running bash on a file with an environment, and the
  environment of the process. What bash writes comes in pieces of standard output and error.
\<close>

datatype local_source = FromText string | FromPath string

record 'w machine =
  mc_create :: "'w \<Rightarrow> (string \<times> error) \<times> 'w"
  mc_fill :: "string \<Rightarrow> local_source \<Rightarrow> 'w \<Rightarrow> error \<times> 'w"
  mc_chmod :: "string \<Rightarrow> 'w \<Rightarrow> error \<times> 'w"
  mc_run :: "string \<Rightarrow> string list option \<Rightarrow> 'w \<Rightarrow> ((bool \<times> string) list \<times> error) \<times> 'w"
  mc_remove :: "string \<Rightarrow> 'w \<Rightarrow> 'w"
  mc_open :: "string \<Rightarrow> 'w \<Rightarrow> error"
  mc_stat :: "string \<Rightarrow> 'w \<Rightarrow> (bool \<times> error)"
  mc_environ :: "'w \<Rightarrow> string list"

text \<open>
  The environment of the command: nil, which stands for that of the process, until something is
  assigned or appended.
\<close>

definition command_environ :: "'w machine \<Rightarrow> lexec_state \<Rightarrow> 'w \<Rightarrow> string list option" where
  "command_environ M s w =
     (case string_map_get_strings (xs_env s) of
        (kvs, False) \<Rightarrow> None
      | (kvs, True) \<Rightarrow>
          let base = (if \<not> snd (tf_get (lx_inherit_env s)) \<or> raw_val (lx_inherit_env s) then Some (mc_environ M w) else None) in
          if kvs = [] then base
          else Some ((case base of Some env \<Rightarrow> env | None \<Rightarrow> []) @ map (\<lambda>(k, v). k @ ''='' @ v) kvs))"

definition ui_pieces :: "(bool \<times> string) list \<Rightarrow> buffered \<Rightarrow> buffered" where
  "ui_pieces ps ui = fold (\<lambda>(out, s). if out then write_stdout s else write_stderr s) ps ui"

definition run_local ::
  "'w machine \<Rightarrow> 'w go_ctx \<Rightarrow> lexec_state \<Rightarrow> local_source \<Rightarrow> buffered \<Rightarrow> 'w \<Rightarrow> (error \<times> buffered) \<times> 'w" where
  "run_local M ctx s src ui w =
     (case ctx_err ctx w of
        Some e \<Rightarrow> ((Some e, ui), w)
      | None \<Rightarrow>
     (case mc_create M w of
        ((_, Some e), w1) \<Rightarrow> ((Some e, ui), w1)
      | ((name, None), w1) \<Rightarrow>
     (case (case mc_fill M name src w1 of
          (Some e, w2) \<Rightarrow> ((Some e, ui), w2)
        | (None, w2) \<Rightarrow>
       (case mc_chmod M name w2 of
          (Some e, w3) \<Rightarrow> ((Some (ErrWrap (''failed to change ownership on script: '' @ name
            @ '', while executing commands, due to: '') e []), ui), w3)
        | (None, w3) \<Rightarrow>
       (case mc_run M name (command_environ M s w3) w3 of
          ((ps, e), w4) \<Rightarrow> (((case e of None \<Rightarrow> None | Some e' \<Rightarrow>
            Some (ErrWrap ''failed to execute command due to: '' e' [])), ui_pieces ps ui), w4)))) of
        (r, w5) \<Rightarrow> (r, mc_remove M name w5))))"

fun local_inline ::
  "'w machine \<Rightarrow> 'w go_ctx \<Rightarrow> lexec_state \<Rightarrow> string list \<Rightarrow> buffered \<Rightarrow> 'w \<Rightarrow> (error \<times> buffered) \<times> 'w" where
  "local_inline M ctx s [] ui w = ((None, ui), w)"
| "local_inline M ctx s (cmd # cmds) ui w =
     (if cmd = [] then local_inline M ctx s cmds ui w
      else (case run_local M ctx s (FromText cmd) ui w of
          ((Some e, ui1), w1) \<Rightarrow> ((Some (ErrWrap ''running inline command failed, due to: '' e []), ui1), w1)
        | ((None, ui1), w1) \<Rightarrow> local_inline M ctx s cmds ui1 w1))"

fun local_scripts ::
  "'w machine \<Rightarrow> 'w go_ctx \<Rightarrow> lexec_state \<Rightarrow> string list \<Rightarrow> buffered \<Rightarrow> 'w \<Rightarrow> (error \<times> buffered) \<times> 'w" where
  "local_scripts M ctx s [] ui w = ((None, ui), w)"
| "local_scripts M ctx s (path # paths) ui w =
     (case mc_open M path w of
        Some e \<Rightarrow> ((Some (ErrWrap (''failed to open script file: ['' @ path @ ''], due to: '') e []), ui), w)
      | None \<Rightarrow>
     (case mc_stat M path w of
        (_, Some e) \<Rightarrow> ((Some e, ui), w)
      | (dir, None) \<Rightarrow>
          if dir then ((Some (ErrNew (path @ '' is a directory but should be a file'')), ui), w)
          else (case run_local M ctx s (FromPath path) ui w of
              ((Some e, ui1), w1) \<Rightarrow> ((Some (ErrWrap (''running script: ['' @ path @ ''] failed, due to: '') e []), ui1), w1)
            | ((None, ui1), w1) \<Rightarrow> local_scripts M ctx s paths ui1 w1)))"

definition local_commands ::
  "'w machine \<Rightarrow> 'w go_ctx \<Rightarrow> lexec_state \<Rightarrow> 'w \<Rightarrow> (error \<times> buffered) \<times> 'w" where
  "local_commands M ctx s w =
     (case local_inline M ctx s (strings_or_nil (xs_inline s)) new_buffered w of
        ((Some e, ui), w1) \<Rightarrow> ((Some e, ui), w1)
      | ((None, ui), w1) \<Rightarrow>
     (case local_scripts M ctx s (strings_or_nil (xs_scripts s)) ui w1 of
        ((Some e, ui), w2) \<Rightarrow> ((Some e, ui), w2)
      | ((None, ui), w2) \<Rightarrow>
          if \<not> snd (tf_get (xs_content s)) then ((None, ui), w2)
          else (case run_local M ctx s (FromText (raw_val (xs_content s))) ui w2 of
              ((Some e, ui), w3) \<Rightarrow> ((Some (ErrWrap ''running command content failed, due to: '' e []), ui), w3)
            | ((None, ui), w3) \<Rightarrow> ((None, ui), w3))))"

definition lexec_plan ::
  "('t, 'v) tf_lib \<Rightarrow> 'p path_lib \<Rightarrow> 'w local_files \<Rightarrow> 'p error_view \<Rightarrow> 'w go_ctx \<Rightarrow> ('v, 'd) change_request
    \<Rightarrow> 't heap \<Rightarrow> 'w \<Rightarrow> ((lexec_state \<times> 'p diagnostic list) \<times> 't heap) go" where
  "lexec_plan L P lf ev ctx req h w =
     (case ctx_err ctx w of
        Some e \<Rightarrow> Some ((new_lexec_state, [ctx_to_diagnostic ev e]), h)
      | None \<Rightarrow> do {
          ((prior, e), h1) \<leftarrow> lexec_from_value L (cr_prior req) new_lexec_state h;
          if e \<noteq> None then Some ((new_lexec_state, op_diagnostic ev ''Serialization Error'' e), h1) else do {
          ((s, e), h2) \<leftarrow> lexec_from_value L (cr_next req) new_lexec_state h1;
          Some (if e \<noteq> None then (s, op_diagnostic ev ''Serialization Error'' e)
            else exec_planned P lf ev ctx prior s w, h2) }
        })"

text \<open>A sum that was not known at the plan is not computed here.\<close>

definition lexec_apply ::
  "('t, 'v) tf_lib \<Rightarrow> 'p path_lib \<Rightarrow> ('v, 't, 'd) wire \<Rightarrow> 'w local_files \<Rightarrow> 'w machine \<Rightarrow> 'p error_view \<Rightarrow> 'w go_ctx
    \<Rightarrow> ('v, 'd) change_request \<Rightarrow> 't heap \<Rightarrow> 'w \<Rightarrow> ((lexec_state \<times> 'p diagnostic list) \<times> 't heap \<times> 'w) go" where
  "lexec_apply L P wr lf M ev ctx req h w =
     (case ctx_err ctx w of
        Some e \<Rightarrow> Some ((new_lexec_state, [ctx_to_diagnostic ev e]), h, w)
      | None \<Rightarrow> do {
          ((s, e), h1) \<leftarrow> lexec_from_value L (cr_next req) new_lexec_state h;
          if e \<noteq> None then Some ((s, op_diagnostic ev ''Serialization Error'' e), h1, w) else do {
          ((prior, e), h2) \<leftarrow> lexec_from_value L (cr_prior req) new_lexec_state h1;
          if e \<noteq> None then Some ((s, op_diagnostic ev ''Serialization Error'' e), h2, w)
          else if is_delete wr req then Some ((s, []), h2, w)
          else let s1 = s\<lparr>xs_id := tf_set ''static'' (xs_id s)\<rparr> in
            (case lexec_validate P lf ctx s1 w of
               Some e \<Rightarrow> Some ((s1, [err_to_diagnostic ev ''Validation Failure'' e]), h2, w)
             | None \<Rightarrow>
                 if \<not> exec_due prior s1 then Some ((s1, []), h2, w)
                 else (case local_commands M ctx s1 w of
                   ((e, ui), w1) \<Rightarrow> Some ((set_output ui s1, exec_diagnostic ev ui e), h2, w1))) }
        })"

subsection \<open>The contract of the state\<close>

lemma set_exec_attrs_transport [simp]: "rx_transport (set_exec_attrs xs s) = rx_transport s"
  by (induction xs s rule: set_exec_attrs.induct) simp_all

interpretation rexec_rows: attr_state rexec_attrs
  by unfold_locales (auto simp: rexec_attrs_def flat_attrs_def exec_rows_def)

interpretation rexec_states: resource_state L P "rexec_ops L P lf"
  unfolding rexec_ops_def by (rule rexec_rows.rows_state)

subsection \<open>What is run, in order\<close>

definition exec_order :: "'a exec_state_scheme \<Rightarrow> local_source list" where
  "exec_order s = map FromText (filter (\<lambda>c. c \<noteq> []) (strings_or_nil (xs_inline s)))
     @ map FromPath (strings_or_nil (xs_scripts s))
     @ (if snd (tf_get (xs_content s)) then [FromText (raw_val (xs_content s))] else [])"

text \<open>The reference: one source after the other, each without error.\<close>

definition run_source ::
  "'w exec_env \<Rightarrow> 'w go_ctx \<Rightarrow> 'w transport \<Rightarrow> 'v rexec_state \<Rightarrow> local_source \<Rightarrow> buffered \<Rightarrow> 'w \<Rightarrow> (buffered \<times> 'w) go" where
  "run_source X ctx tr s src ui w =
     (case (case src of
          FromText t \<Rightarrow> copy_and_run X ctx tr s ''inline'' (new_reader t) ui w
        | FromPath p \<Rightarrow> (case lf_open (xe_files X) p w of
            (_, Some e) \<Rightarrow> None
          | (cp, None) \<Rightarrow> copy_and_run X ctx tr s ''script'' cp ui w)) of
        Some ((None, ui1), w1) \<Rightarrow> Some (ui1, w1)
      | _ \<Rightarrow> None)"

fun run_order ::
  "'w exec_env \<Rightarrow> 'w go_ctx \<Rightarrow> 'w transport \<Rightarrow> 'v rexec_state \<Rightarrow> local_source list \<Rightarrow> buffered \<Rightarrow> 'w \<Rightarrow> (buffered \<times> 'w) go" where
  "run_order X ctx tr s [] ui w = Some (ui, w)"
| "run_order X ctx tr s (src # srcs) ui w = do {
     (ui1, w1) \<leftarrow> run_source X ctx tr s src ui w;
     run_order X ctx tr s srcs ui1 w1
   }"

lemma run_order_append: "run_order X ctx tr s (xs @ ys) ui w = run_order X ctx tr s xs ui w \<bind> (\<lambda>(ui1, w1). run_order X ctx tr s ys ui1 w1)"
  by (induction xs arbitrary: ui w) (auto split: Option.bind_split)

lemma copy_and_run_text:
  "copy_and_run X ctx tr s ''content'' src ui w = copy_and_run X ctx tr s ''inline'' src ui w"
  by (simp add: copy_and_run_def split: option.split)

lemma run_inline_order:
  assumes "\<And>w. ctx_err ctx w = None"
  shows "run_inline X ctx tr s cmds ui w = Some ((None, ui'), w')
    \<longleftrightarrow> run_order X ctx tr s (map FromText (filter (\<lambda>c. c \<noteq> []) cmds)) ui w = Some (ui', w')"
proof (induction cmds arbitrary: ui w)
  case (Cons cmd cmds)
  then show ?case
    by (cases "copy_and_run X ctx tr s ''inline'' (new_reader cmd) ui w")
      (auto simp: assms run_source_def split: option.split option.split_asm)
qed simp

lemma run_scripts_order:
  "run_scripts X ctx tr s paths ui w = Some ((None, ui'), w')
    \<longleftrightarrow> run_order X ctx tr s (map FromPath paths) ui w = Some (ui', w')"
proof (induction paths arbitrary: ui w)
  case (Cons path paths)
  obtain cp e where o: "lf_open (xe_files X) path w = (cp, e)" by (metis surj_pair)
  with Cons show ?case
    by (cases e; cases "copy_and_run X ctx tr s ''script'' cp ui w")
      (auto simp: run_source_def split: option.split option.split_asm)
qed simp

lemma execute_commands_runs:
  assumes "\<And>w. ctx_err ctx w = None"
  shows "execute_commands X ctx tr s w = Some ((None, ui), w')
    \<longleftrightarrow> run_order X ctx tr s (exec_order s) new_buffered w = Some (ui, w')"
proof -
  let ?inl = "map FromText (filter (\<lambda>c. c \<noteq> []) (strings_or_nil (xs_inline s)))"
    and ?scr = "map FromPath (strings_or_nil (xs_scripts s))"
  have last: "(if snd (tf_get (xs_content s)) then copy_and_run X ctx tr s ''content'' (new_reader (raw_val (xs_content s))) ui2 w2
      = Some ((None, ui), w') else ui = ui2 \<and> w' = w2)
    \<longleftrightarrow> run_order X ctx tr s (if snd (tf_get (xs_content s)) then [FromText (raw_val (xs_content s))] else []) ui2 w2 = Some (ui, w')"
    for ui2 w2
    by (cases "copy_and_run X ctx tr s ''inline'' (new_reader (raw_val (xs_content s))) ui2 w2")
      (auto simp: copy_and_run_text run_source_def split: option.split option.split_asm)
  have "execute_commands X ctx tr s w = Some ((None, ui), w') \<longleftrightarrow>
      (\<exists>ui1 w1. run_inline X ctx tr s (strings_or_nil (xs_inline s)) new_buffered w = Some ((None, ui1), w1)
      \<and> (\<exists>ui2 w2. run_scripts X ctx tr s (strings_or_nil (xs_scripts s)) ui1 w1 = Some ((None, ui2), w2)
      \<and> (if snd (tf_get (xs_content s)) then copy_and_run X ctx tr s ''content'' (new_reader (raw_val (xs_content s))) ui2 w2
          = Some ((None, ui), w') else ui = ui2 \<and> w' = w2)))"
    by (auto simp: execute_commands_def elim!: bind_eq_SomeE split: if_split_asm option.split_asm)
  also have "\<dots> \<longleftrightarrow> (\<exists>ui1 w1. run_order X ctx tr s ?inl new_buffered w = Some (ui1, w1)
      \<and> (\<exists>ui2 w2. run_order X ctx tr s ?scr ui1 w1 = Some (ui2, w2)
      \<and> run_order X ctx tr s (if snd (tf_get (xs_content s)) then [FromText (raw_val (xs_content s))] else []) ui2 w2 = Some (ui, w')))"
    by (simp only: run_inline_order [OF assms] run_scripts_order last)
  finally show ?thesis
    by (auto simp: exec_order_def run_order_append bind_eq_Some_iff)
qed

subsection \<open>Properties\<close>

text \<open>
  C28: while the context is live, running the commands of
  enos_remote_exec succeeds exactly when every inline command that is not empty, then every script, then the content
  can be copied and run without error in this order, and it leaves the output and the host these runs leave.
\<close>

theorem execute_commands_order:
  assumes "\<And>w. ctx_err ctx w = None"
  shows "execute_commands X ctx tr s w = Some ((None, ui), w')
    \<longleftrightarrow> run_order X ctx tr s (exec_order s) new_buffered w = Some (ui, w')"
  by (rule execute_commands_runs [OF assms])

text \<open>A host that takes every file and runs it without output.\<close>

definition quiet_env :: "nat exec_env" where
  "quiet_env = \<lparr>xe_files = \<lparr>lf_open = (\<lambda>p w. (new_reader p, None)), lf_read = (\<lambda>c w. None)\<rparr>, xe_seek = (\<lambda>c w. None)\<rparr>"

lemma mock_run_source:
  "run_source quiet_env live_ctx mock_transport s src ui w = Some (ui, w)"
proof -
  have "copy_and_run quiet_env live_ctx mock_transport s what cp ui w = Some ((None, ui), w)" for what cp
  proof -
    obtain req where req: "exec_script_request live_ctx s cp w = (req, w)" "cf_destination (sc_copy req) \<noteq> []"
      "\<not> sc_no_cleanup req"
      by (simp add: exec_script_request_def new_run_script_request_def live_ctx_def with_run_script_content_def
          with_run_script_destination_def with_run_script_env_def with_run_script_chmod_def)
    have "\<exists>req'. run_script live_ctx mock_transport req w = Some ((\<lparr>sr_out = [], sr_err = []\<rparr>, None), req', w)"
      using quiet_copy_file [OF quiet_mock req(2), of w] req(3)
      by (simp add: run_script_def Let_def mock_transport_def ui_append_def new_buffered_def join_errs_def
          map_filter_simps script_copied_def script_cleanup_def script_output_def)
    then show ?thesis
      by (auto simp: copy_and_run_def live quiet_env_def req(1) error_or_nil_def ui_append_def)
  qed
  then show ?thesis by (simp add: run_source_def quiet_env_def split: local_source.split)
qed

lemma mock_run_order: "run_order quiet_env live_ctx mock_transport s srcs ui w = Some (ui, w)"
  by (induction srcs) (simp_all add: mock_run_source)

definition demo_commands :: "demo_value rexec_state" where
  "demo_commands = new_rexec_state\<lparr>xs_id := Tfv False False ''1'', xs_content := Tfv False False ''echo c'',
     xs_inline := Tfv False False [Tfv False False ''echo a'', Tfv False False []]\<rparr>"

theorem execute_commands_order_witness:
  "execute_commands quiet_env live_ctx mock_transport demo_commands 0 = Some ((None, new_buffered), 0)
    \<and> exec_order demo_commands = [FromText ''echo a'', FromText ''echo c'']"
proof -
  have "exec_order demo_commands = [FromText ''echo a'', FromText ''echo c'']"
    by (simp add: exec_order_def demo_commands_def new_rexec_state_def strings_or_nil_def string_slice_get_strings_def
        tf_get_def new_tf_def)
  with execute_commands_order [of live_ctx quiet_env mock_transport demo_commands 0 new_buffered 0] show ?thesis
    by (simp add: live mock_run_source)
qed

text \<open>
  C29: an apply of enos_remote_exec that does not delete and ends
  without diagnostics. When the prior sum is known and the planned one, nothing happened on the host
  and the planned state is the answer. Otherwise every source of the planned state was run in order and without error
  over the client of the transport, under the identifier of the state, which is a new one on creation; the
  output is that of the runs, and the sum is known.
\<close>

theorem rexec_apply_outcome:
  fixes s :: "'v rexec_state" and ctx :: "'w go_ctx" and L :: "('t, 'v) tf_lib"
  assumes "apply_unmarshal_state (rexec_ops L P (xe_files X)) ev ctx req new_rexec_state new_rexec_state h w
      = Some (([], prior, planned), h1)"
    and "\<not> is_delete wr req" "\<And>w. ctx_err ctx w = None"
    and "rexec_apply L P wr X ev ctx dial c req h w = Some ((s, []), h', w')"
  shows "\<exists>s1. planned_as (rexec_ops L P (xe_files X)) planned s1
    \<and> (if exec_due prior s1 then
         \<exists>i w1 (em :: 'v embedded) tr w2 ui. (i, w1) = (if snd (tf_get (xs_id prior)) then (xs_id s1, w)
             else apfst (Tfv False False) (random_id ctx w))
           \<and> embedded_client P ctx dial em w1 = ((Some tr, None), w2)
           \<and> run_order X ctx tr (s1\<lparr>xs_id := i\<rparr>) (exec_order s1) new_buffered w2 = Some (ui, w')
           \<and> xs_id s = i \<and> xs_stdout s = Tfv False False (bf_stdout ui) \<and> xs_stderr s = Tfv False False (bf_stderr ui)
           \<and> snd (tf_get (xs_sum s))
       else s = s1 \<and> w' = w)"
proof -
  from assms(1,2,4) obtain et ds s1 h2 where
    b: "apply_build_transport L P (rexec_ops L P (xe_files X)) ev ctx c planned h1 w = Some ((et, ds), s1, h2)"
    and no: "\<not> has_errors ds"
    by (auto simp: rexec_apply_def elim!: bind_eq_SomeE split: if_split_asm)
  from apply_build_outcome [OF b] no obtain em where et: "et = Some em" "ds = []"
    by (cases et) (auto simp: has_errors_def get_error_diagnostic_def)
  have like: "planned_as (rexec_ops L P (xe_files X)) planned s1"
    using apply_build_outcome [OF b] by (simp add: planned_as_def)
  obtain i w1 where i: "(i, w1) = (if snd (tf_get (xs_id prior)) then (xs_id s1, w)
      else apfst (Tfv False False) (random_id ctx w))" by (metis surj_pair)
  have pick: "(if snd (tf_get (xs_id prior)) then (xs_id s1, w)
      else (case random_id ctx w of (i, w1) \<Rightarrow> (tf_set i (xs_id s1), w1))) = (i, w1)"
    using i by (cases "random_id ctx w") (auto simp: tf_set_def split: if_split_asm)
  note run = assms(4) [unfolded rexec_apply_def, simplified assms(1) b et no bind.bind_lunit prod.case]
  show ?thesis
  proof (cases "exec_due prior s1")
    case False
    then have "snd (tf_get (xs_id prior))" "\<not> exec_due prior (s1\<lparr>xs_id := i\<rparr>)" by (simp_all add: exec_due_def)
    with run assms(2) pick i False like show ?thesis by (auto simp: Let_def)
  next
    case True
    then have due: "exec_due prior (s1\<lparr>xs_id := i\<rparr>)" by (simp add: exec_due_def)
    let ?s = "s1\<lparr>xs_id := i\<rparr>"
    from run assms(2) pick due obtain tr w2 where c: "embedded_client P ctx dial em w1 = ((Some tr, None), w2)"
      and r: "rexec_run P X ev ctx tr ?s w2 = Some ((s, []), w')"
      by (auto simp: Let_def deref_def elim!: bind_eq_SomeE split: prod.split_asm option.split_asm)
    from r obtain ui where e: "execute_commands X ctx tr ?s w2 = Some ((None, ui), w')"
      "xs_id s = i" "xs_stdout s = Tfv False False (bf_stdout ui)" "xs_stderr s = Tfv False False (bf_stderr ui)"
      "snd (tf_get (xs_sum s))"
      by (auto simp: rexec_run_def Let_def set_output_def tf_set_def tf_get_def exec_diagnostic_def elim!: bind_eq_SomeE
          split: if_split_asm sum.split_asm option.split_asm)
    have "exec_order ?s = exec_order s1" by (simp add: exec_order_def)
    with e(1) execute_commands_runs [OF assms(3)] have
      "run_order X ctx tr ?s (exec_order s1) new_buffered w2 = Some (ui, w')" by metis
    with i c e(2-5) have "\<exists>i w1 (em :: 'v embedded) tr w2 ui. (i, w1) = (if snd (tf_get (xs_id prior)) then (xs_id s1, w)
             else apfst (Tfv False False) (random_id ctx w))
           \<and> embedded_client P ctx dial em w1 = ((Some tr, None), w2)
           \<and> run_order X ctx tr (s1\<lparr>xs_id := i\<rparr>) (exec_order s1) new_buffered w2 = Some (ui, w')
           \<and> xs_id s = i \<and> xs_stdout s = Tfv False False (bf_stdout ui) \<and> xs_stderr s = Tfv False False (bf_stderr ui)
           \<and> snd (tf_get (xs_sum s))"
      by (intro exI conjI) assumption+
    with True like show ?thesis by (intro exI [of _ s1]) (simp only: if_True simp_thms)
  qed
qed

text \<open>
  The sum does not say where a digest comes from, while the
  order of what is run does depend on it. When the content of a resource that was applied becomes its
  first inline command, the plan keeps the sum and the output, the apply finds nothing due, and
  the commands, now in another order, are not run.
\<close>

theorem moved_command_not_run:
  assumes "\<not> exec_unknown nxt" "snd (tf_get (xs_id prior))" "snd (tf_get (xs_content prior))"
    and "xs_sum prior = Tfv False False sm" "exec_sum P lf ctx prior w = Inr sm"
    and moved: "raw_val (xs_content prior) \<noteq> []" "\<not> snd (tf_get (xs_content nxt))"
      "strings_or_nil (xs_inline nxt) = raw_val (xs_content prior) # strings_or_nil (xs_inline prior)"
    and same: "xs_scripts nxt = xs_scripts prior" "xs_env nxt = xs_env prior"
  shows "exec_planned P lf ev ctx prior nxt w = (nxt\<lparr>xs_sum := Tfv False False sm\<rparr>, [])
    \<and> \<not> exec_due prior (nxt\<lparr>xs_sum := Tfv False False sm\<rparr>)
    \<and> exec_order nxt = FromText (raw_val (xs_content prior)) # butlast (exec_order prior)
    \<and> last (exec_order prior) = FromText (raw_val (xs_content prior))"
proof -
  have "exec_sum P lf ctx nxt w = exec_sum P lf ctx prior w"
    using assms(3) by (simp add: exec_sum_def moved same split: option.split sum.split)
  with assms have p: "exec_planned P lf ev ctx prior nxt w = (nxt\<lparr>xs_sum := Tfv False False sm\<rparr>, [])"
    by (simp add: exec_planned_def tf_set_def tf_get_def exec_unknown_def Let_def)
  have "\<not> exec_due prior (nxt\<lparr>xs_sum := Tfv False False sm\<rparr>)"
    using assms(2,4) by (simp add: exec_due_def tf_get_def)
  with p show ?thesis using assms(3) by (simp add: exec_order_def moved same butlast_append)
qed

definition demo_moved :: "demo_value rexec_state" where
  "demo_moved = new_rexec_state\<lparr>xs_id := Tfv False False ''1'',
     xs_inline := Tfv False False [Tfv False False ''echo c'', Tfv False False ''echo a'', Tfv False False []]\<rparr>"

theorem moved_command_not_run_witness:
  "\<exists>sm. \<not> exec_due (demo_commands\<lparr>xs_sum := Tfv False False sm\<rparr>) (demo_moved\<lparr>xs_sum := Tfv False False sm\<rparr>)
    \<and> exec_order demo_moved = [FromText ''echo c'', FromText ''echo a'']"
proof -
  note defs = demo_commands_def demo_moved_def new_rexec_state_def strings_or_nil_def string_slice_get_strings_def
    tf_get_def new_tf_def exec_unknown_def slice_unknown_def map_unknown_def string_slice_fully_known_def
  obtain sm where "exec_sum demo_paths (xe_files quiet_env) live_ctx demo_commands 0 = Inr sm"
    by (simp add: exec_sum_def live defs)
  then have sm: "exec_sum demo_paths (xe_files quiet_env) live_ctx (demo_commands\<lparr>xs_sum := Tfv False False sm\<rparr>) 0 = Inr sm"
    by (simp add: exec_sum_def live defs)
  have "exec_planned demo_paths (xe_files quiet_env) demo_view live_ctx (demo_commands\<lparr>xs_sum := Tfv False False sm\<rparr>) demo_moved 0
      = (demo_moved\<lparr>xs_sum := Tfv False False sm\<rparr>, [])
    \<and> \<not> exec_due (demo_commands\<lparr>xs_sum := Tfv False False sm\<rparr>) (demo_moved\<lparr>xs_sum := Tfv False False sm\<rparr>)"
    using moved_command_not_run [OF _ _ _ _ sm, of demo_moved demo_view] by (simp add: defs)
  moreover have "exec_order demo_moved = [FromText ''echo c'', FromText ''echo a'']"
    by (simp add: exec_order_def defs)
  ultimately show ?thesis by blast
qed

text \<open>
  Enos_local_exec with attributes that were not known at the
  plan. The plan makes the sum unknown; the apply runs the commands, ends without diagnostics and leaves
  the sum unknown, a state Terraform does not take. (enos_remote_exec computes the sum then.)
\<close>

theorem local_sum_stays_unknown:
  assumes "exec_unknown s0" "lexec_from_value L (cr_next req) new_lexec_state h = Some ((planned, None), h1)"
    and "xs_sum planned = xs_sum (fst (exec_planned P lf ev ctx prior0 s0 w0))"
    and "snd (tf_get (xs_id prior0)) \<or> \<not> snd (tf_get (xs_sum s0))"
    and "\<not> is_delete wr req" "lexec_apply L P wr lf M ev ctx req h w = Some ((s, []), h', w')"
  shows "is_unknown (xs_sum s) \<and> (\<exists>s1 ui. local_commands M ctx s1 w = ((None, ui), w') \<and> s = set_output ui s1)"
proof -
  have u: "is_unknown (xs_sum planned)"
    using assms(1,3,4) by (auto simp: exec_planned_def Let_def unknown_output_def set_unknown_def unknown_unless_set_def
        exec_unknown_def split: if_split_asm)
  let ?s1 = "planned\<lparr>xs_id := tf_set ''static'' (xs_id planned)\<rparr>"
  from u have due: "exec_due prior ?s1" for prior :: lexec_state
    by (simp add: exec_due_def tf_get_def)
  from assms(2,5,6) due obtain e ui where "local_commands M ctx ?s1 w = ((e, ui), w')" "s = set_output ui ?s1"
    "exec_diagnostic ev ui e = []"
    by (auto simp: lexec_apply_def op_diagnostic_def Let_def elim!: bind_eq_SomeE
        split: option.split_asm if_split_asm prod.split_asm)
  moreover from this have "e = None" by (cases e) (simp_all add: exec_diagnostic_def)
  moreover from u have "is_unknown (xs_sum (set_output ui ?s1))" by (simp add: set_output_def)
  ultimately show ?thesis by metis
qed

text \<open>
  C@ExecResource.empty_environment_inherits: \<open>inherit_environment = false\<close> has no effect when there
  are no variables of the resource's own, and otherwise the command gets exactly those.
\<close>

theorem empty_environment_inherits:
  assumes "lx_inherit_env s = Tfv False False False"
  shows "command_environ M s w = (case string_map_get_strings (xs_env s) of (kvs, ok) \<Rightarrow>
    if \<not> ok \<or> kvs = [] then None else Some (map (\<lambda>(k, v). k @ ''='' @ v) kvs))"
  using assms by (cases "string_map_get_strings (xs_env s)"; cases "snd (string_map_get_strings (xs_env s))")
    (auto simp: command_environ_def tf_get_def)

definition demo_local :: lexec_state where
  "demo_local = new_lexec_state\<lparr>xs_content := Tfv True True [], lx_inherit_env := Tfv False False False,
     xs_env := Tfv False False [(''A'', Tfv False False ''b'')]\<rparr>"

theorem empty_environment_inherits_witness:
  "command_environ M demo_local w = Some [''A=b''] \<and> command_environ M (demo_local\<lparr>xs_env := Tfv False False []\<rparr>) w = None"
  using empty_environment_inherits [of demo_local M w]
    empty_environment_inherits [of "demo_local\<lparr>xs_env := Tfv False False []\<rparr>" M w]
  by (simp add: demo_local_def string_map_get_strings_def tf_get_def)

definition quiet_machine :: "nat machine" where
  "quiet_machine = \<lparr>mc_create = (\<lambda>w. ((''/tmp/localExec-1'', None), w)), mc_fill = (\<lambda>n src w. (None, w)),
     mc_chmod = (\<lambda>n w. (None, w)), mc_run = (\<lambda>n env w. (([], None), w)), mc_remove = (\<lambda>n w. w), mc_open = (\<lambda>p w. None),
     mc_stat = (\<lambda>p w. (False, None)), mc_environ = (\<lambda>w. [])\<rparr>"

definition demo_echo :: demo_value where
  "demo_echo = demo_value_of [(''content'', ''echo'')] [(''sum'', DemoValue TyString UnknownValue)]"

lemma demo_echo_read: "\<exists>h1. lexec_from_value demo_lib demo_echo new_lexec_state h
    = Some ((new_lexec_state\<lparr>xs_content := Tfv False False ''echo'', xs_sum := Tfv True True []\<rparr>, None), h1)"
proof -
  have u: "string_from_value demo_lib h (new_tf []) (DemoValue TyString UnknownValue) = (Tfv True True [], None)" for h
    by (simp add: string_from_value_def from_tf_value_def demo_lib_def unknown_dst_val_def unknown_value_def
        set_unknown_def new_tf_def)
  show ?thesis
    by (simp add: lexec_from_value_def map_attributes_to_def demo_echo_def demo_fields lexec_rows_def exec_rows_def
        new_lexec_state_def demo_string_read u set_lexec_attrs_def)
qed

theorem local_sum_stays_unknown_witness:
  "\<exists>s h'. lexec_apply demo_lib demo_paths demo_wire (xe_files quiet_env) quiet_machine demo_view live_ctx
     (demo_change demo_echo demo_echo) demo_heap 0 = Some ((s, []), h', 0) \<and> is_unknown (xs_sum s)"
proof -
  let ?p = "new_lexec_state\<lparr>xs_content := Tfv False False ''echo'', xs_sum := Tfv True True []\<rparr>"
  note defs = new_lexec_state_def strings_or_nil_def string_slice_get_strings_def tf_get_def new_tf_def
  obtain h1 where r: "lexec_from_value demo_lib (cr_next (demo_change demo_echo demo_echo)) new_lexec_state demo_heap
      = Some ((?p, None), h1)"
    using demo_echo_read [of demo_heap] by (auto simp: demo_change_def)
  have d: "\<not> is_delete demo_wire (demo_change demo_echo demo_echo)" by (simp add: demo_echo_def demo_not_delete)
  obtain h2 where "lexec_from_value demo_lib (cr_prior (demo_change demo_echo demo_echo)) new_lexec_state h1
      = Some ((?p, None), h2)"
    using demo_echo_read [of h1] by (auto simp: demo_change_def)
  with r d have "\<exists>s h'. lexec_apply demo_lib demo_paths demo_wire (xe_files quiet_env) quiet_machine demo_view live_ctx
     (demo_change demo_echo demo_echo) demo_heap 0 = Some ((s, []), h', 0)"
    by (simp add: lexec_apply_def live Let_def lexec_validate_def scripts_open_def exec_due_def local_commands_def run_local_def
        quiet_machine_def ui_pieces_def exec_diagnostic_def defs)
  then obtain s h' where s: "lexec_apply demo_lib demo_paths demo_wire (xe_files quiet_env) quiet_machine demo_view live_ctx
     (demo_change demo_echo demo_echo) demo_heap 0 = Some ((s, []), h', 0)" by blast
  have "is_unknown (xs_sum s)"
    using local_sum_stays_unknown [OF _ r _ _ d s, where ?prior0.0 = new_lexec_state and ?w0.0 = 0
        and ?s0.0 = "new_lexec_state\<lparr>xs_content := Tfv True True []\<rparr>"]
    by (simp add: exec_unknown_def exec_planned_def unknown_output_def set_unknown_def unknown_unless_set_def defs Let_def)
  with s show ?thesis by blast
qed

definition demo_remote :: demo_value where
  "demo_remote = demo_value_of [(''content'', ''echo c'')] [(''inline'', demo_strings [''echo a'', []]), (''transport'', demo_ssh_block)]"

definition demo_remote_state :: "demo_value rexec_state" where
  "demo_remote_state = new_rexec_state\<lparr>xs_content := Tfv False False ''echo c'',
     xs_inline := Tfv False False [Tfv False False ''echo a'', Tfv False False []], rx_transport := demo_read_block\<rparr>"

lemma demo_remote_read:
  "\<exists>h1. apply_unmarshal_state (rexec_ops demo_lib demo_paths (xe_files quiet_env)) demo_view live_ctx
     (demo_change demo_remote demo_remote) new_rexec_state new_rexec_state demo_heap 0
    = Some (([], demo_remote_state, demo_remote_state), h1)"
  by (simp add: rexec_ops_def demo_rows rexec_attrs_def exec_rows_def new_rexec_state_def apply_unmarshal_state_def
      demo_change_def live demo_remote_def demo_remote_state_def)

theorem rexec_apply_outcome_witness:
  "\<exists>s h'. rexec_apply demo_lib demo_paths demo_wire quiet_env demo_view live_ctx (dialer_to mock_transport)
     new_provider_config (demo_change demo_remote demo_remote) demo_heap 0 = Some ((s, []), h', 0)
     \<and> xs_id s = Tfv False False ''1'' \<and> snd (tf_get (xs_sum s))"
proof -
  let ?so = "rexec_ops demo_lib demo_paths (xe_files quiet_env) :: (nat, demo_value rexec_state, demo_type, demo_value) state_ops"
  let ?s1 = "set_resolved ?so (Some demo_ssh_transport) demo_remote_state"
  note defs = demo_remote_state_def new_rexec_state_def strings_or_nil_def string_slice_get_strings_def
    string_map_get_strings_def tf_get_def new_tf_def
  obtain h1 where r: "apply_unmarshal_state ?so demo_view live_ctx (demo_change demo_remote demo_remote)
      new_rexec_state new_rexec_state demo_heap 0 = Some (([], demo_remote_state, demo_remote_state), h1)"
    using demo_remote_read by blast
  have d: "\<not> is_delete demo_wire (demo_change demo_remote demo_remote)" by (simp add: demo_remote_def demo_not_delete)
  have e: "?s1 = demo_remote_state\<lparr>rx_transport := set_resolved_transport (Some demo_ssh_transport) demo_read_block\<rparr>"
    by (simp add: set_resolved_def rexec_ops_def attrs_ops_def rexec_attrs_def demo_remote_state_def)
  have "so_embedded ?so demo_remote_state = demo_read_block" "so_validate ?so live_ctx ?s1 0 = None"
    unfolding e by (simp_all add: rexec_ops_def attrs_ops_def rexec_attrs_def rexec_validate_def live defs
        scripts_open_def quiet_env_def)
  from demo_built [OF this, of h1 mock_transport] obtain em h2 where b:
    "apply_build_transport demo_lib demo_paths ?so demo_view live_ctx new_provider_config demo_remote_state h1 0
      = Some ((Some em, []), ?s1, h2)"
    "embedded_client demo_paths live_ctx (dialer_to mock_transport) em 0 = ((Some mock_transport, None), 0 :: nat)" by blast
  have x: "execute_commands quiet_env live_ctx mock_transport (?s1\<lparr>xs_id := i\<rparr>) 0 = Some ((None, new_buffered), 0)" for i
    using execute_commands_runs [of live_ctx quiet_env mock_transport "?s1\<lparr>xs_id := i\<rparr>" 0 new_buffered 0]
    by (simp add: live mock_run_order)
  have "\<exists>s. rexec_run demo_paths quiet_env demo_view live_ctx mock_transport (?s1\<lparr>xs_id := Tfv False False ''1''\<rparr>) 0
      = Some ((s, []), 0)"
    unfolding e by (simp add: rexec_run_def x [unfolded e]) (simp add: exec_sum_def live defs set_output_def Let_def)
  then obtain s where s: "rexec_run demo_paths quiet_env demo_view live_ctx mock_transport
      (?s1\<lparr>xs_id := Tfv False False ''1''\<rparr>) 0 = Some ((s, []), 0)" by blast
  have sum: "exec_due demo_remote_state (?s1\<lparr>xs_id := Tfv False False ''1''\<rparr>)"
    "\<not> snd (tf_get (xs_id demo_remote_state))"
    by (simp_all add: exec_due_def defs)
  from s sum r d b have "\<exists>h'. rexec_apply demo_lib demo_paths demo_wire quiet_env demo_view live_ctx (dialer_to mock_transport)
     new_provider_config (demo_change demo_remote demo_remote) demo_heap 0 = Some ((s, []), h', 0)"
    by (simp add: rexec_apply_def deref_def live_ctx_def [THEN arg_cong [where f = random_id]] tf_set_def)
  then obtain h' where s: "rexec_apply demo_lib demo_paths demo_wire quiet_env demo_view live_ctx (dialer_to mock_transport)
     new_provider_config (demo_change demo_remote demo_remote) demo_heap 0 = Some ((s, []), h', 0)" by blast
  from rexec_apply_outcome [OF r d live s] have "xs_id s = Tfv False False ''1'' \<and> snd (tf_get (xs_sum s))"
    by (auto simp: exec_due_def demo_remote_state_def new_rexec_state_def tf_get_def new_tf_def live_ctx_def)
  with s show ?thesis by blast
qed

end
