(* ===== verification/ConsulStart.thy ===== *)
theory ConsulStart
  imports VaultStart Consul
begin

text \<open>
  The resource enos_consul_start (\<open>internal/plugin/resource_consul_start.go\<close>): its configuration
  and state, the configuration as HCL, what starting Consul does on the host, and the plan and the
  apply. The steps it shares with enos_vault_start are those of VaultStart.
\<close>

subsection \<open>The configuration\<close>

record consul_config =
  co_bind_addr :: tf_string
  co_datacenter :: tf_string
  co_data_dir :: tf_string
  co_retry_join :: tf_string_slice
  co_server :: tf_bool
  co_bootstrap_expect :: tf_num
  co_log_file :: tf_string
  co_log_level :: tf_string

definition new_consul_config :: consul_config where
  "new_consul_config = \<lparr>co_bind_addr = new_tf [], co_datacenter = new_tf [], co_data_dir = new_tf [],
     co_retry_join = new_tf [], co_server = new_tf False, co_bootstrap_expect = new_tf 0,
     co_log_file = new_tf [], co_log_level = new_tf []\<rparr>"

definition consul_config_attrs :: "consul_config \<Rightarrow> (string \<times> 'v tf_any) list" where
  "consul_config_attrs c = [(''bind_addr'', TfString (co_bind_addr c)), (''data_dir'', TfString (co_data_dir c)),
     (''datacenter'', TfString (co_datacenter c)), (''retry_join'', TfStringSlice (co_retry_join c)),
     (''server'', TfBool (co_server c)), (''bootstrap_expect'', TfNum (co_bootstrap_expect c)),
     (''log_file'', TfString (co_log_file c)), (''log_level'', TfString (co_log_level c))]"

fun set_consul_config_attrs :: "'v tf_any list \<Rightarrow> consul_config \<Rightarrow> consul_config" where
  "set_consul_config_attrs [baddr, dir, dc, join, server, expect, file, level] c =
     \<lparr>co_bind_addr = any_string baddr, co_datacenter = any_string dc, co_data_dir = any_string dir,
       co_retry_join = any_strings join, co_server = any_bool server, co_bootstrap_expect = any_num expect,
       co_log_file = any_string file, co_log_level = any_string level\<rparr>"
| "set_consul_config_attrs _ c = c"

definition consul_config_from_value ::
  "('t, 'v) tf_lib \<Rightarrow> 'v \<Rightarrow> consul_config \<Rightarrow> 't heap \<Rightarrow> ((consul_config \<times> error) \<times> 't heap) go" where
  "consul_config_from_value L v c h = do {
     ((props, vals, e), h1) \<leftarrow> map_attributes_to L (\<lambda>v u. (u, None)) v
       (map (apsnd (PropTF :: 'v tf_any \<Rightarrow> ('v, unit) attr_prop)) (consul_config_attrs c)) h;
     Some ((set_consul_config_attrs (map (prop_attr o snd) props) c, e), h1)
   }"

text \<open>The type has bind_addr as its optional attribute; the value is made at the type without it.\<close>

definition consul_config_type :: "('t, 'v) tf_lib \<Rightarrow> string list \<Rightarrow> consul_config \<Rightarrow> 't heap \<Rightarrow> 't \<times> 't heap" where
  "consul_config_type L opt c h =
     object_of L opt (map (apsnd (flat_type L)) (consul_config_attrs c :: (string \<times> 'v tf_any) list)) h"

definition consul_config_value :: "('t, 'v) tf_lib \<Rightarrow> consul_config \<Rightarrow> 't heap \<Rightarrow> ('v \<times> 't heap) go" where
  "consul_config_value L c h =
     (case consul_config_type L [] c h of (t, h1) \<Rightarrow> do {
        (kvs, h2) \<leftarrow> attr_values L (consul_config_attrs c) h1;
        v \<leftarrow> new_value L h2 t (MapValue kvs);
        Some (v, h2)
      })"

definition when_known :: "string \<Rightarrow> ('a \<Rightarrow> 'v native) \<Rightarrow> 'a tfv \<Rightarrow> 'v hcl_builder" where
  "when_known k nv a = (if snd (tf_get a) then [HclAttribute k (nv (raw_val a))] else [])"

definition consul_hcl :: "consul_config \<Rightarrow> 'v hcl_builder" where
  "consul_hcl c =
     when_known ''bind_addr'' NatString (co_bind_addr c) @ when_known ''datacenter'' NatString (co_datacenter c)
     @ when_known ''data_dir'' NatString (co_data_dir c)
     @ (case string_slice_get_strings (co_retry_join c) of
          (ss, ok) \<Rightarrow> if ok then [HclAttribute ''retry_join'' (NatStrings ss)] else [])
     @ when_known ''server'' NatBool (co_server c)
     @ when_known ''bootstrap_expect'' NatNum (co_bootstrap_expect c)
     @ when_known ''log_file'' NatString (co_log_file c) @ when_known ''log_level'' NatString (co_log_level c)"

subsection \<open>The state\<close>

record 'v consul_start_state =
  sc_id :: tf_string
  sc_bin_path :: tf_string
  sc_config_dir :: tf_string
  sc_data_dir :: tf_string
  sc_config :: consul_config
  sc_license :: tf_string
  sc_unit :: tf_string
  sc_transport :: "'v embedded"
  sc_username :: tf_string

definition new_consul_start_state :: "'v consul_start_state" where
  "new_consul_start_state = \<lparr>sc_id = new_tf [], sc_bin_path = new_tf [], sc_config_dir = new_tf [],
     sc_data_dir = new_tf [], sc_config = new_consul_config, sc_license = new_tf [], sc_unit = new_tf [],
     sc_transport = new_embedded, sc_username = new_tf []\<rparr>"

definition consul_start_attrs :: "'v consul_start_state \<Rightarrow> (string \<times> 'v tf_any) list" where
  "consul_start_attrs s = [(''bin_path'', TfString (sc_bin_path s)), (''config_dir'', TfString (sc_config_dir s)),
     (''data_dir'', TfString (sc_data_dir s)), (''id'', TfString (sc_id s)), (''license'', TfString (sc_license s)),
     (''unit_name'', TfString (sc_unit s)), (''username'', TfString (sc_username s))]"

fun set_consul_start_attrs :: "'v tf_any list \<Rightarrow> 'v consul_start_state \<Rightarrow> 'v consul_start_state" where
  "set_consul_start_attrs [bin, dir, data, i, lic, un, usr] s =
     s\<lparr>sc_bin_path := any_string bin, sc_config_dir := any_string dir, sc_data_dir := any_string data,
       sc_id := any_string i, sc_license := any_string lic, sc_unit := any_string un, sc_username := any_string usr\<rparr>"
| "set_consul_start_attrs _ s = s"

definition consul_start_from_value ::
  "('t, 'v) tf_lib \<Rightarrow> 'p path_lib \<Rightarrow> 'v \<Rightarrow> 'v consul_start_state \<Rightarrow> 't heap
    \<Rightarrow> (('v consul_start_state \<times> error) \<times> 't heap) go" where
  "consul_start_from_value L P val s h = do {
     ((props, vals, e), h1) \<leftarrow> map_attributes_to L (\<lambda>v u. (u, None)) val
       (map (apsnd (PropTF :: 'v tf_any \<Rightarrow> ('v, unit) attr_prop)) (consul_start_attrs s)) h;
     r \<leftarrow> read_known L vals ''config'' (\<lambda>v s h. do {
         ((x, e), h1) \<leftarrow> consul_config_from_value L v (sc_config s) h;
         Some ((s\<lparr>sc_config := x\<rparr>, e), h1) }) ((set_consul_start_attrs (map (prop_attr o snd) props) s, e), h1);
     read_known L vals ''transport'' (\<lambda>v s h. do {
         ((x, e), h1) \<leftarrow> embedded_from_value L P (sc_transport s) v h;
         Some ((s\<lparr>sc_transport := x\<rparr>, e), h1) }) r
   }"

definition consul_start_type :: "('t, 'v) tf_lib \<Rightarrow> 'v consul_start_state \<Rightarrow> 't heap \<Rightarrow> 't \<times> 't heap" where
  "consul_start_type L s h =
     (case consul_config_type L [''bind_addr''] (sc_config s) h of (cfg, h1) \<Rightarrow>
        object_of L [] (map (apsnd (flat_type L)) (consul_start_attrs s)
          @ [(''config'', cfg), (''transport'', ty_dynamic L)]) h1)"

definition consul_start_value :: "('t, 'v) tf_lib \<Rightarrow> 'v consul_start_state \<Rightarrow> 't heap \<Rightarrow> ('v \<times> 't heap) go" where
  "consul_start_value L s h =
     (case consul_start_type L s h of (t, h1) \<Rightarrow> do {
        (kvs, h2) \<leftarrow> attr_values L (consul_start_attrs s) h1;
        (cfg, h3) \<leftarrow> consul_config_value L (sc_config s) h2;
        (tr, h4) \<leftarrow> embedded_value L (sc_transport s) h3;
        v \<leftarrow> new_value L h4 t (MapValue (kvs @ [(''config'', cfg), (''transport'', tr)]));
        Some (v, h4)
      })"

definition consul_start_validate :: "'p path_lib \<Rightarrow> 'w go_ctx \<Rightarrow> 'v consul_start_state \<Rightarrow> 'w \<Rightarrow> error" where
  "consul_start_validate P ctx s w =
     (case ctx_err ctx w of
        Some e \<Rightarrow> Some e
      | None \<Rightarrow>
          (case check_k8s_not_configured (sc_transport s) ''enos_consul_start'' of
             Some e \<Rightarrow> Some e
           | None \<Rightarrow>
               if \<not> snd (tf_get (sc_bin_path s))
               then Some (validation_error P ''you must provide a consul binary path'' [''attribute'']) else None))"

definition consul_start_ops ::
  "('t, 'v) tf_lib \<Rightarrow> 'p path_lib \<Rightarrow> ('w, 'v consul_start_state, 't, 'v) state_ops" where
  "consul_start_ops L P = \<lparr>so_type = consul_start_type L, so_value = consul_start_value L,
     so_from = consul_start_from_value L P, so_validate = consul_start_validate P, so_embedded = sc_transport,
     so_set_embedded = (\<lambda>em s. s\<lparr>sc_transport := em\<rparr>)\<rparr>"

subsection \<open>Starting Consul\<close>

definition consul_unit :: "string \<Rightarrow> string \<Rightarrow> env_vars \<Rightarrow> unit_file" where
  "consul_unit bin cfg licensed =
     [(''Unit'', [(''Description'', ''HashiCorp Consul - A service mesh solution''),
        (''Documentation'', ''https://www.consul.io/''), (''Requires'', ''network-online.target''),
        (''After'', ''network-online.target''), (''ConditionFileNotEmpty'', cfg)]),
      (''Service'', [(''Type'', ''notify''), (''User'', ''root''), (''Group'', ''root''), (''ProtectSystem'', ''full''),
        (''ExecStart'', bin @ '' agent -config-dir '' @ cfg), (''ExecReload'', ''/bin/kill --signal HUP $MAINPID''),
        (''KillMode'', ''process''), (''KillSignal'', ''SIGINT''), (''Restart'', ''on-failure''),
        (''LimitNOFILE'', ''65536'')] @ licensed),
      (''Install'', [(''WantedBy'', ''multi-user.target'')])]"

definition consul_user :: "'w transport \<Rightarrow> string \<Rightarrow> string \<Rightarrow> 'w \<Rightarrow> error \<times> 'w" where
  "consul_user tr name dir w =
     (case create_or_update_user tr (Some (new_user [with_user_name (Ptr 0 name), with_user_home_dir (Ptr 1 dir),
        with_user_shell (Ptr 2 ''/bin/false'')])) 3 w of
        (((_, e), _), w1) \<Rightarrow> wrap_step ''failed to find or create the consul user, due to: '' (e, w1))"

text \<open>The license is copied and inspected; the entry is what the unit gets of it.\<close>

definition consul_license ::
  "'w go_ctx \<Rightarrow> 'w transport \<Rightarrow> string \<Rightarrow> string \<Rightarrow> string \<Rightarrow> tf_string \<Rightarrow> 'w \<Rightarrow> ((error \<times> env_vars) \<times> 'w) go" where
  "consul_license ctx tr usr bin path lic w =
     (if \<not> snd (tf_get lic) then Some ((None, []), w)
      else do {
        ((e, _), w1) \<leftarrow> copy_file ctx tr (Some (owned_copy usr ''644'' path (raw_val lic))) w;
        Some (case wrap_step ''failed to copy consul license, due to: '' (e, w1) of
            (Some e', w1) \<Rightarrow> ((Some e', []), w1)
          | (None, w1) \<Rightarrow>
              (case wrap_step ''consul license validation failed, due to: '' (validate_consul_license tr
                  (new_validate_file_request [with_validate_bin_path bin, with_validate_file_path path]) w1) of
                 (Some e', w2) \<Rightarrow> ((Some e', []), w2)
               | (None, w2) \<Rightarrow> ((None, [(''Environment'', ''CONSUL_LICENSE_PATH='' @ path)]), w2)))
      })"

definition write_consul_unit ::
  "'w go_ctx \<Rightarrow> 'w transport \<Rightarrow> string \<Rightarrow> string \<Rightarrow> unit_file \<Rightarrow> 'w \<Rightarrow> (error \<times> 'w) go" where
  "write_consul_unit ctx tr usr un u w = do {
     r \<leftarrow> create_unit_file ctx tr (new_create_unit_file_request
       [with_unit_unit_path (''/etc/systemd/system/'' @ un @ ''.service''), with_unit_chmod ''644'',
        with_unit_chown (usr @ '':'' @ usr), with_unit_file (Some (to_ini u))]) w;
     Some (case wrap_step ''failed to create the consul systemd unit, due to: '' r of
         (Some e, w1) \<Rightarrow> (Some e, w1)
       | (None, w1) \<Rightarrow>
           (case run_systemctl tr (new_run_systemctl_command [with_systemctl_sub_command SubCommandDaemonReload]) w1 of
              ((_, e), w2) \<Rightarrow> wrap_step
                ''failed to daemon-reload systemd after writing the consul systemd unit, due to: '' (e, w2)))
   }"

text \<open>A step that runs when those before it had no error.\<close>

definition then_step :: "error \<times> 'w \<Rightarrow> ('w \<Rightarrow> error \<times> 'w) \<Rightarrow> error \<times> 'w" where
  "then_step r f = (case r of (Some e, w) \<Rightarrow> r | (None, w) \<Rightarrow> f w)"

definition own_consul_dirs :: "'w transport \<Rightarrow> string \<Rightarrow> string \<Rightarrow> string \<Rightarrow> 'w \<Rightarrow> error \<times> 'w" where
  "own_consul_dirs tr usr data_dir config_dir w = then_step
     (wrap_step ''failed to change ownership on data directory, due to: ''
       (create_directory tr (Some (new_create_directory_request [with_dir_name data_dir, with_dir_chown usr])) w))
     (\<lambda>w. wrap_step ''failed to change ownership on config directory, due to: ''
       (create_directory tr (Some (new_create_directory_request [with_dir_name config_dir, with_dir_chown usr])) w))"

definition install_consul ::
  "('w, 'v, 'c, 'b) start_env \<Rightarrow> 'w go_ctx \<Rightarrow> 'w transport \<Rightarrow> 'v consul_start_state \<Rightarrow> 'w \<Rightarrow> (error \<times> 'w) go" where
  "install_consul E ctx tr s w =
     (let usr = known_or ''consul'' (sc_username s);
          config_dir = known_or ''/etc/consul.d'' (sc_config_dir s);
          data_dir = known_or ''/opt/consul/data'' (sc_data_dir s);
          cfg_path = path_join [config_dir, ''consul.hcl'']; bin = raw_val (sc_bin_path s) in
      case consul_user tr usr data_dir w of
        (Some e, w1) \<Rightarrow> Some (Some e, w1)
      | (None, w1) \<Rightarrow> do {
     ((e, licensed), w2) \<leftarrow> consul_license ctx tr usr bin (path_join [config_dir, ''consul.lic'']) (sc_license s) w1;
     if e \<noteq> None then Some (e, w2) else do {
     (e, w3) \<leftarrow> write_consul_unit ctx tr usr (known_or ''consul'' (sc_unit s)) (consul_unit bin cfg_path licensed) w2;
     if e \<noteq> None then Some (e, w3) else do {
     r \<leftarrow> create_hcl_config_file (sx_hcl E) ctx tr (new_hcl_request [with_hcl_path cfg_path, with_hcl_chmod ''644'',
       with_hcl_chown (usr @ '':'' @ usr), with_hcl_file (consul_hcl (sc_config s))]) w3;
     Some (then_step (then_step (wrap_step ''failed to create the consul configuration file, due to: '' r)
         (own_consul_dirs tr usr data_dir config_dir))
       (\<lambda>w. wrap_step ''failed to validate consul configuration file, due to: '' (validate_consul_config tr
         (new_validate_file_request [with_validate_username usr, with_validate_bin_path bin,
            with_validate_file_path cfg_path]) w)))
     } } })"

text \<open>\<open>uint\<close> of the number of nodes is its 64 bits without a sign.\<close>

definition consul_checks :: "consul_config \<Rightarrow> consul_check list" where
  "consul_checks c = [consul_has_systemd_properties, consul_node_is_healthy, consul_has_leader]
     @ (if snd (tf_get (co_bootstrap_expect c))
        then [consul_has_min_voters (unat (raw_val (co_bootstrap_expect c))),
              consul_has_min_healthy (unat (raw_val (co_bootstrap_expect c)))] else [])"

definition consul_start_request :: "'v consul_start_state \<Rightarrow> consul_state_request" where
  "consul_start_request s = new_consul_state_request
     [with_consul_state_fc_use_home_dir, with_consul_state_unit (known_or ''consul'' (sc_unit s))]"

definition consul_started ::
  "('w, 'v, 'c, 'b) start_env \<Rightarrow> consul_state option \<times> error \<Rightarrow> error go" where
  "consul_started E r =
     (case r of
        (st, None) \<Rightarrow> Some None
      | (None, Some e) \<Rightarrow> Some (Some (ErrWrap ''failed to start the consul service: '' e []))
      | (Some v, Some e) \<Rightarrow> do {
          text \<leftarrow> consul_state_string (sx_visit E) v;
          Some (Some (ErrWrap [] (ErrWrap ''failed to start the consul service: '' e [])
            ([nl] @ ''Consul State after starting the consul systemd service:'' @ [nl] @ indent ''  '' text)))
        })"

text \<open>The service that is restarted is consul whatever the name of the unit is.\<close>

definition start_consul ::
  "('w, 'v, 'c, 'b) start_env \<Rightarrow> 'w go_ctx \<Rightarrow> 'w transport \<Rightarrow> 'v consul_start_state \<Rightarrow> 'w \<Rightarrow> (error \<times> 'w) go" where
  "start_consul E ctx tr s w =
     (let tctx = sx_timeout E (120 * second) ctx in do {
      (e, w1) \<leftarrow> install_consul E ctx tr s w;
      (case then_step (e, w1) (\<lambda>w. wrap_step ''failed to start the consul service, due to: ''
           (restart_service (sx_visit E) tr ''consul'' w)) of
         (Some e, w2) \<Rightarrow> Some (Some e, w2)
       | (None, w2) \<Rightarrow> do {
           (out, w3) \<leftarrow> consul_wait_for_state (sx_embed E) tctx tr (consul_start_request s) (consul_checks (sc_config s)) w2;
           err \<leftarrow> consul_started E out;
           Some (err, w3)
         })
     })"

subsection \<open>Planning and applying\<close>

definition consul_start_computed :: "'v consul_start_state \<Rightarrow> 'v consul_start_state \<Rightarrow> 'v consul_start_state" where
  "consul_start_computed prior s = (if snd (tf_get (sc_id prior)) then s else s\<lparr>sc_id := set_unknown (sc_id s)\<rparr>)"

definition consul_start_plan ::
  "('t, 'v) tf_lib \<Rightarrow> 'p path_lib \<Rightarrow> 'p error_view \<Rightarrow> 'w go_ctx
    \<Rightarrow> 'v provider_config \<Rightarrow> ('v, 'd) change_request \<Rightarrow> 't heap \<Rightarrow> 'w
    \<Rightarrow> (('v consul_start_state \<times> 'p diagnostic list \<times> 'p list) \<times> 't heap) go" where
  "consul_start_plan L P ev ctx c req = plan_resource L P (consul_start_ops L P) consul_start_computed ev ctx c req
     new_consul_start_state new_consul_start_state"

definition consul_start_act ::
  "('w, 'v, 'c, 'b) start_env \<Rightarrow> 'p error_view \<Rightarrow> 'w go_ctx \<Rightarrow> 'v consul_start_state \<Rightarrow> 'v consul_start_state
    \<Rightarrow> 'w transport \<Rightarrow> 'w \<Rightarrow> (('v consul_start_state \<times> 'p diagnostic list) \<times> 'w) go" where
  "consul_start_act E ev ctx prior s tr w =
     (if \<not> snd (tf_get (sc_id prior)) \<or> deeply_equal start_handlers s prior then do {
        (e, w1) \<leftarrow> start_consul E ctx tr s w;
        Some ((s, op_diagnostic ev ''Consul Start Error'' e), w1)
      }
      else Some ((s, []), w))"

definition consul_start_apply ::
  "('t, 'v) tf_lib \<Rightarrow> 'p path_lib \<Rightarrow> ('v, 't, 'd) wire \<Rightarrow> ('w, 'v, 'c, 'b) start_env \<Rightarrow> 'p error_view \<Rightarrow> 'w go_ctx
    \<Rightarrow> ('w, 'w transport) dialer \<Rightarrow> 'v provider_config \<Rightarrow> ('v, 'd) change_request \<Rightarrow> 't heap \<Rightarrow> 'w
    \<Rightarrow> (('v consul_start_state \<times> 'p diagnostic list) \<times> 't heap \<times> 'w) go" where
  "consul_start_apply L P wr E ev ctx dial c req = apply_resource L P wr (consul_start_ops L P)
     (\<lambda>s. s\<lparr>sc_id := tf_set ''static'' (sc_id s)\<rparr>) (consul_start_act E ev ctx) ev ctx dial c req
     new_consul_start_state new_consul_start_state"

subsection \<open>Properties\<close>

lemma set_consul_start_attrs_transport [simp]: "sc_transport (set_consul_start_attrs xs s) = sc_transport s"
  by (induction xs s rule: set_consul_start_attrs.induct) simp_all

lemma consul_start_read_faithful:
  assumes "tf_laws L" "sc_transport s0 = new_embedded" "consul_start_from_value L P v s0 h = Some ((s, None), h1)"
  shows "faithful_block L P (em_transports (sc_transport s))"
  using assms(3)
  by (auto simp: consul_start_from_value_def read_known_def assms(2) elim!: bind_eq_SomeE
      dest!: read_block_faithful [OF assms(1)] split: option.split_asm prod.split_asm if_split_asm)

interpretation consul_start_states: resource_state L P "consul_start_ops L P"
  by unfold_locales (auto simp: consul_start_ops_def intro: consul_start_read_faithful)

lemma wrap_step_ok_iff [simp]: "wrap_step msg r = (None, w) \<longleftrightarrow> r = (None, w)"
  by (auto simp: wrap_step_def split: prod.split option.split)

lemma then_step_ok_iff: "then_step r f = (None, w) \<longleftrightarrow> (\<exists>w1. r = (None, w1) \<and> f w1 = (None, w))"
  by (auto simp: then_step_def split: prod.split option.split)

lemma consul_started_ok_iff: "consul_started E r = Some None \<longleftrightarrow> snd r = None"
  by (auto simp: consul_started_def bind_eq_Some_iff split: prod.split option.split)

text \<open>
  C30: a start of Consul that returns without error installed the
  files, restarted the service of the name consul, whatever unit the resource names, and read,
  in one pass of GetState that asks for the unit of the resource, a state in which that unit is
  enabled and running and a raft server leads. With bootstrap_expect set, read as a number without
  a sign, at least so many servers vote and at least so many nodes are healthy.
\<close>

theorem start_consul_ready:
  assumes "start_consul E ctx tr s w = Some (None, w')"
  shows "\<exists>w1 w2 w3 st raft servers. install_consul E ctx tr s w = Some (None, w1)
    \<and> restart_service (sx_visit E) tr ''consul'' w1 = (None, w2)
    \<and> consul_get_state (sx_embed E) (sx_timeout E (120 * second) ctx) tr (consul_start_request s) w3 = Some ((Some st, None), w')
    \<and> csq_unit (consul_start_request s) = known_or ''consul'' (sc_unit s)
    \<and> consul_has_systemd_properties st = Some None
    \<and> cs_raft st = Some raft \<and> crr_servers raft = Some servers
    \<and> (\<exists>l. Some l \<in> set servers \<and> csv_leader l)
    \<and> (snd (tf_get (co_bootstrap_expect (sc_config s))) \<longrightarrow>
         (let n = unat (raw_val (co_bootstrap_expect (sc_config s))) in
            None \<notin> set servers \<and> n \<le> length (filter (\<lambda>v. csv_voter (the v)) servers)
            \<and> (\<exists>passing nodes. cs_health_passing st = Some passing \<and> hpr_nodes passing = Some nodes
                \<and> n \<le> length (filter (\<lambda>v. nh_status (the v) = ''passing'') nodes))))"
proof -
  let ?tctx = "sx_timeout E (120 * second) ctx"
  let ?expect = "co_bootstrap_expect (sc_config s)"
  from assms obtain w1 w2 out where i: "install_consul E ctx tr s w = Some (None, w1)"
    "restart_service (sx_visit E) tr ''consul'' w1 = (None, w2)"
    and wt: "consul_wait_for_state (sx_embed E) ?tctx tr (consul_start_request s) (consul_checks (sc_config s)) w2
      = Some (out, w')" and st: "consul_started E out = Some None"
    by (auto simp: start_consul_def Let_def then_step_ok_iff elim!: bind_eq_SomeE split: option.split_asm prod.split_asm)
  from st obtain sp where "out = (sp, None)" by (cases out) (simp add: consul_started_ok_iff)
  with wt consul_wait_ok obtain v w3 where
    v: "consul_get_state (sx_embed E) ?tctx tr (consul_start_request s) w3 = Some ((Some v, None), w')"
    and checks: "\<And>c. c \<in> set (consul_checks (sc_config s)) \<Longrightarrow> c v = Some None" by metis
  from checks have base: "consul_has_systemd_properties v = Some None" "consul_has_leader v = Some None"
    by (simp_all add: consul_checks_def)
  from base(2) obtain raft servers l where raft: "cs_raft v = Some raft" "crr_servers raft = Some servers"
    "Some l \<in> set servers" "csv_leader l"
    by (auto simp: consul_has_leader_iff dest: any_ptr_True)
  have most: "consul_has_min_voters (unat (raw_val ?expect)) v = Some None"
    "consul_has_min_healthy (unat (raw_val ?expect)) v = Some None" if "snd (tf_get ?expect)"
    using checks that by (simp_all add: consul_checks_def)
  have un: "csq_unit (consul_start_request s) = known_or ''consul'' (sc_unit s)"
    by (simp add: consul_start_request_def new_consul_state_request_def with_consul_state_fc_use_home_dir_def
        with_consul_state_unit_def)
  show ?thesis
    using i v base(1) raft un most
    by (intro exI [of _ w1] exI [of _ w2] exI [of _ w3] exI [of _ v] exI [of _ raft] exI [of _ servers])
      (auto simp: consul_has_min_voters_iff consul_has_min_healthy_iff Let_def)
qed

text \<open>
  Applying a change of a Consul that was started before
  does nothing on the host beyond making the client, and the new configuration only becomes the state.
\<close>

theorem consul_update_never_starts:
  fixes s :: "'v consul_start_state"
  assumes "apply_unmarshal_state (consul_start_ops L P) ev ctx req new_consul_start_state new_consul_start_state h w
      = Some (([], prior, planned), h1)"
    and "snd (tf_get (sc_id prior))" "\<not> is_delete wr req"
    and "consul_start_apply L P wr E ev ctx dial c req h w = Some ((s, ds), h', w')"
  shows "(w' = w \<or> (\<exists>em :: 'v embedded. w' = snd (embedded_client P ctx dial em w))) \<and> sc_config s = sc_config planned"
  using assms(1,3) assms(4) [unfolded consul_start_apply_def]
proof (cases rule: consul_start_states.apply_resource_cases)
  case (ran s1 em tr w1)
  then have "s = s1\<lparr>sc_id := tf_set ''static'' (sc_id s1)\<rparr> \<and> w' = w1"
    using assms(2) by (simp add: consul_start_act_def deeply_equal_def start_handlers_def)
  with ran show ?thesis
    by (intro conjI disjI2 exI [of _ em]) (auto simp: planned_as_def consul_start_ops_def set_resolved_def)
next
  case (failed s1 em)
  then show ?thesis by (auto simp: planned_as_def consul_start_ops_def set_resolved_def)
qed

subsection \<open>Witnesses\<close>

definition demo_consul_config :: consul_config where
  "demo_consul_config = new_consul_config\<lparr>co_bootstrap_expect := Tfv False False 1\<rparr>"

definition demo_consul :: "demo_value consul_start_state" where
  "demo_consul = new_consul_start_state\<lparr>sc_bin_path := Tfv False False ''/opt/consul'', sc_config := demo_consul_config\<rparr>"

lemma run_consul_cmd: "run_cmd consul_host c w = ((consul_answer c, [], None), w)"
  by (simp add: run_cmd_def run_consul_host cmd_text_plain)

lemma consul_host_user: "consul_user consul_host ''consul'' dir w = (None, w)"
proof -
  have f: "\<exists>v. find_user consul_host ''consul'' brk w = (((Some v, None), brk + 7), w) \<and> us_name v = Some (Ptr brk ''consul'')
      \<and> fresh_ptrs brk v" for brk
    by (simp add: find_user_def find_user_get_ent_def run_consul_cmd consul_answers decode_passwd_line_def Let_def fresh_ptrs_def)
  have u: "usermod consul_host flag name want had w = (None, w)" for flag name want had
    by (simp add: usermod_def run_consul_cmd split: option.split)
  obtain v1 where "find_user consul_host ''consul'' 3 w = (((Some v1, None), 10), w)" using f [of 3] by auto
  moreover obtain v2 where "find_user consul_host ''consul'' 10 w = (((Some v2, None), 17), w)" using f [of 10] by auto
  ultimately show ?thesis
    by (auto simp: consul_user_def create_or_update_user_def new_user_def no_user_def with_user_name_def
        with_user_home_dir_def with_user_shell_def u Let_def wrap_step_def)
qed

lemma consul_host_unit: "write_consul_unit live_ctx consul_host usr un u w = Some (None, w)"
  by (simp add: write_consul_unit_def create_unit_file_def deref_def new_create_unit_file_request_def with_unit_chmod_def with_unit_chown_def with_unit_unit_path_def with_unit_file_def systemctl_string_def new_run_systemctl_command_def systemctl_opt_defs
      quiet_copy_file [OF quiet_consul_host] to_ini_def run_systemctl_def run_consul_host wrap_step_def Let_def
      new_copy_file_request_def copy_file_opt_defs)

lemma consul_host_dir: "create_directory consul_host (Some (new_create_directory_request [with_dir_name d, with_dir_chown usr])) w
    = (if d = [] then (Some (ErrNew ''no directory provided''), w) else (None, w))"
  by (simp add: create_directory_def new_create_directory_request_def with_dir_name_def with_dir_chown_def run_consul_cmd)

lemma consul_host_hcl: "create_hcl_config_file demo_hcl live_ctx consul_host (new_hcl_request [with_hcl_path (c # path),
    with_hcl_chmod md, with_hcl_chown usr, with_hcl_file (consul_hcl demo_consul_config)]) w = Some (None, w)"
  by (simp add: create_hcl_config_file_def new_hcl_request_def hcl_opt_defs deref_def consul_hcl_def demo_consul_config_def
      new_consul_config_def when_known_def tf_get_def new_tf_def string_slice_get_strings_def build_hcl_def demo_hcl_def
      quiet_copy_file [OF quiet_consul_host] hcl_copy_request_def new_copy_file_request_def copy_file_opt_defs)

lemma consul_host_installs: "install_consul demo_start_env live_ctx consul_host demo_consul w = Some (None, w)"
proof -
  have hcl: "sx_hcl demo_start_env = demo_hcl" by (simp add: demo_start_env_def)
  show ?thesis
    by (simp add: install_consul_def Let_def known_or_def demo_consul_def new_consul_start_state_def tf_get_def new_tf_def
        consul_host_user consul_license_def consul_host_unit path_join_def path_clean_def hcl consul_host_hcl
        then_step_def own_consul_dirs_def consul_host_dir wrap_step_def validate_consul_config_def run_or_wrap_def
        run_consul_cmd)
qed

lemma consul_host_restart: "restart_service visit consul_host ''consul'' w = (None, w)"
proof -
  have "stop_service consul_host u w = (None, w)" "enable_service consul_host u w = (None, w)"
    "start_service consul_host u w = (None, w)" for u w
    by (simp_all add: stop_service_def enable_service_def start_service_def run_systemctl_def run_consul_host
        service_result_def systemctl_string_def unit_command_def new_run_systemctl_command_def systemctl_opt_defs)
  then show ?thesis by (simp add: restart_service_def consul_host_props Let_def)
qed

theorem start_consul_ready_witness:
  "start_consul demo_start_env live_ctx consul_host demo_consul 0 = Some (None, 0)
   \<and> (\<exists>st raft servers. consul_get_state demo_fs live_ctx consul_host consul_demo_request 0 = Some ((Some st, None), 0)
      \<and> cs_raft st = Some raft \<and> crr_servers raft = Some servers \<and> 1 \<le> length (filter (\<lambda>v. csv_voter (the v)) servers))"
proof -
  have q: "consul_start_request demo_consul = consul_demo_request"
    by (simp add: consul_start_request_def demo_consul_def new_consul_start_state_def known_or_def tf_get_def new_tf_def
        consul_demo_request_def new_consul_state_request_def with_consul_state_fc_use_home_dir_def with_consul_state_unit_def)
  have e: "sx_embed demo_start_env = demo_fs" "sx_timeout demo_start_env d c = c" for d c
    by (simp_all add: demo_start_env_def)
  have known: "snd (tf_get (co_bootstrap_expect (sc_config demo_consul)))"
    "raw_val (co_bootstrap_expect (sc_config demo_consul)) = 1"
    by (simp_all add: demo_consul_def demo_consul_config_def tf_get_def)
  have "c consul_demo_state = Some None" if "c \<in> set (consul_checks (sc_config demo_consul))" for c
    using that known by (auto simp: consul_checks_def consul_demo_state_def consul_demo_nodes_def consul_node_is_healthy_iff
        consul_has_leader_iff consul_has_min_healthy_iff consul_has_min_voters_iff deref_def consul_has_systemd_properties_def
        enabled_and_running_properties_def find_properties_def find_props_def new_unit_properties_def)
  then have "consul_wait_for_state demo_fs live_ctx consul_host consul_demo_request (consul_checks (sc_config demo_consul)) 0
      = Some ((Some consul_demo_state, None), 0)"
    by (rule consul_host_waits)
  then have run: "start_consul demo_start_env live_ctx consul_host demo_consul 0 = Some (None, 0)"
    by (simp add: start_consul_def consul_host_installs consul_host_restart then_step_def wrap_step_def q e consul_started_def)
  from start_consul_ready [OF run] obtain w3 st raft servers where
    "consul_get_state demo_fs live_ctx consul_host consul_demo_request w3 = Some ((Some st, None), 0)"
    "cs_raft st = Some raft" "crr_servers raft = Some servers" "1 \<le> length (filter (\<lambda>v. csv_voter (the v)) servers)"
    unfolding q e using known by (auto simp: Let_def)
  moreover from this(1) have "w3 = 0" by (simp add: consul_host_state)
  ultimately show ?thesis using run by blast
qed

end
