(* ===== verification/BoundaryResources.thy ===== *)
theory BoundaryResources
  imports ConsulStart
begin

text \<open>
  The resources enos_boundary_init (\<open>internal/plugin/resource_boundary_init.go\<close>, with the request
  and the response of \<open>internal/remoteflight/boundary\<close>) and enos_boundary_start
  (\<open>resource_boundary_start.go\<close>): what boundary answers to the initialization and what of it
  becomes the state, and what starting the service does on the host.
\<close>

subsection \<open>The init request and its response (boundary/init.go)\<close>

record boundary_request =
  bq_bin_name :: string
  bq_bin_path :: string
  bq_config_path :: string
  bq_license :: string

type_synonym boundary_opt = "boundary_request \<Rightarrow> boundary_request"

definition new_boundary_request :: "boundary_opt list \<Rightarrow> boundary_request" where
  "new_boundary_request opts =
     apply_opts opts \<lparr>bq_bin_name = [], bq_bin_path = [], bq_config_path = [], bq_license = []\<rparr>"

definition with_boundary_bin_name :: "string \<Rightarrow> boundary_opt" where
  "with_boundary_bin_name n i = i\<lparr>bq_bin_name := n\<rparr>"

definition with_boundary_bin_path :: "string \<Rightarrow> boundary_opt" where
  "with_boundary_bin_path p i = i\<lparr>bq_bin_path := p\<rparr>"

definition with_boundary_config_path :: "string \<Rightarrow> boundary_opt" where
  "with_boundary_config_path p i = i\<lparr>bq_config_path := p\<rparr>"

definition with_boundary_license :: "string \<Rightarrow> boundary_opt" where
  "with_boundary_license l i = i\<lparr>bq_license := l\<rparr>"

definition boundary_validate :: "boundary_request \<Rightarrow> error" where
  "boundary_validate r =
     (if bq_bin_path r = [] then Some (ErrNew ''no binary path has been supplied'')
      else if bq_config_path r = [] then Some (ErrNew ''no config path has been supplied'')
      else None)"

definition boundary_request_string :: "boundary_request \<Rightarrow> string" where
  "boundary_request_string r = bq_bin_path r @ ''/'' @ bq_bin_name r @ '' database init -format json''
     @ '' -config='' @ bq_config_path r @ ''/boundary.hcl''"

record auth_method =
  am_method_id :: string
  am_method_name :: string
  am_login_name :: string
  am_password :: string
  am_scope_id :: string
  am_user_id :: string
  am_user_name :: string

record host_resources =
  hs_catalog_id :: string
  hs_set_id :: string
  hs_host_id :: string
  hs_type :: string
  hs_scope_id :: string
  hs_catalog_name :: string
  hs_set_name :: string
  hs_host_name :: string

record login_role =
  lr_scope_id :: string
  lr_name :: string

text \<open>The organization scope and the project scope have the same fields.\<close>

record boundary_scope =
  bs_scope_id :: string
  bs_type :: string
  bs_name :: string

record boundary_target =
  bt_target_id :: string
  bt_default_port :: int
  bt_session_max_seconds :: int
  bt_session_connection_limit :: int
  bt_type :: string
  bt_scope_id :: string
  bt_name :: string

record boundary_response =
  br_auth_method :: auth_method
  br_host_resources :: host_resources
  br_login_role :: login_role
  br_org_scope :: boundary_scope
  br_project_scope :: boundary_scope
  br_target :: boundary_target

definition zero_boundary_response :: boundary_response where
  "zero_boundary_response = \<lparr>
     br_auth_method = \<lparr>am_method_id = [], am_method_name = [], am_login_name = [], am_password = [],
       am_scope_id = [], am_user_id = [], am_user_name = []\<rparr>,
     br_host_resources = \<lparr>hs_catalog_id = [], hs_set_id = [], hs_host_id = [], hs_type = [], hs_scope_id = [],
       hs_catalog_name = [], hs_set_name = [], hs_host_name = []\<rparr>,
     br_login_role = \<lparr>lr_scope_id = [], lr_name = []\<rparr>,
     br_org_scope = \<lparr>bs_scope_id = [], bs_type = [], bs_name = []\<rparr>,
     br_project_scope = \<lparr>bs_scope_id = [], bs_type = [], bs_name = []\<rparr>,
     br_target = \<lparr>bt_target_id = [], bt_default_port = 0, bt_session_max_seconds = 0,
       bt_session_connection_limit = 0, bt_type = [], bt_scope_id = [], bt_name = []\<rparr>\<rparr>"

definition dec_auth_method :: "auth_method decoder" where
  "dec_auth_method = dec_struct [field ''auth_method_id'' dec_string am_method_id am_method_id_update,
     field ''auth_method_name'' dec_string am_method_name am_method_name_update,
     field ''login_name'' dec_string am_login_name am_login_name_update,
     field ''password'' dec_string am_password am_password_update,
     field ''scope_id'' dec_string am_scope_id am_scope_id_update,
     field ''user_id'' dec_string am_user_id am_user_id_update,
     field ''user_name'' dec_string am_user_name am_user_name_update]"

definition dec_host_resources :: "host_resources decoder" where
  "dec_host_resources = dec_struct [field ''host_catalog_id'' dec_string hs_catalog_id hs_catalog_id_update,
     field ''host_set_id'' dec_string hs_set_id hs_set_id_update,
     field ''host_id'' dec_string hs_host_id hs_host_id_update,
     field ''type'' dec_string hs_type hs_type_update,
     field ''scope_id'' dec_string hs_scope_id hs_scope_id_update,
     field ''host_catalog_name'' dec_string hs_catalog_name hs_catalog_name_update,
     field ''host_set_name'' dec_string hs_set_name hs_set_name_update,
     field ''host_name'' dec_string hs_host_name hs_host_name_update]"

definition dec_login_role :: "login_role decoder" where
  "dec_login_role = dec_struct [field ''scope_id'' dec_string lr_scope_id lr_scope_id_update,
     field ''name'' dec_string lr_name lr_name_update]"

definition dec_boundary_scope :: "boundary_scope decoder" where
  "dec_boundary_scope = dec_struct [field ''scope_id'' dec_string bs_scope_id bs_scope_id_update,
     field ''type'' dec_string bs_type bs_type_update, field ''name'' dec_string bs_name bs_name_update]"

definition dec_boundary_target :: "boundary_target decoder" where
  "dec_boundary_target = dec_struct [field ''target_id'' dec_string bt_target_id bt_target_id_update,
     field ''default_port'' dec_int bt_default_port bt_default_port_update,
     field ''session_max_seconds'' dec_int bt_session_max_seconds bt_session_max_seconds_update,
     field ''session_connection_limit'' dec_int bt_session_connection_limit bt_session_connection_limit_update,
     field ''type'' dec_string bt_type bt_type_update,
     field ''scope_id'' dec_string bt_scope_id bt_scope_id_update,
     field ''name'' dec_string bt_name bt_name_update]"

definition dec_boundary_response :: "boundary_response decoder" where
  "dec_boundary_response = dec_struct
     [field ''auth_method'' dec_auth_method br_auth_method br_auth_method_update,
      field ''host_resources'' dec_host_resources br_host_resources br_host_resources_update,
      field ''login_role'' dec_login_role br_login_role br_login_role_update,
      field ''org_scope'' dec_boundary_scope br_org_scope br_org_scope_update,
      field ''project_scope'' dec_boundary_scope br_project_scope br_project_scope_update,
      field ''target'' dec_boundary_target br_target br_target_update]"

text \<open>
  The response is unmarshalled into the address of its pointer, so that a null makes the pointer
  nil without an error.
\<close>

definition boundary_env :: "boundary_request \<Rightarrow> string \<Rightarrow> string option" where
  "boundary_env req = (if bq_license req \<noteq> [] then [''BOUNDARY_LICENSE'' \<mapsto> bq_license req] else Map.empty)"

definition boundary_init ::
  "'w transport \<Rightarrow> boundary_request \<Rightarrow> 'w \<Rightarrow> (boundary_response option \<times> error) \<times> 'w" where
  "boundary_init tr req w =
     (case tr_run tr (new_command (boundary_request_string req) [with_env_vars (boundary_env req)]) w of
        ((out, serr, Some e), w1) \<Rightarrow>
          ((Some zero_boundary_response, Some (ErrText ''failed to init: '' e ('' stderr: '' @ serr))), w1)
      | ((out, serr, None), w1) \<Rightarrow>
          if out = [] then ((Some zero_boundary_response, Some (ErrNew ''boundary init failed to return output'')), w1)
          else (case unmarshal (dec_ptr zero_boundary_response dec_boundary_response) out (Some zero_boundary_response) of
              (res, Some e) \<Rightarrow> ((res, Some (ErrText ''failed to unmarshal json: '' e ('', stdout: '' @ quoted out))), w1)
            | (res, None) \<Rightarrow> ((res, None), w1)))"

subsection \<open>The state of enos\_boundary\_init\<close>

text \<open>The outputs are kept in the groups that the response has.\<close>

record auth_attrs =
  aa_method_id :: tf_string
  aa_method_name :: tf_string
  aa_login_name :: tf_string
  aa_password :: tf_string
  aa_scope_id :: tf_string
  aa_user_id :: tf_string
  aa_user_name :: tf_string

record catalog_attrs =
  ha_catalog_id :: tf_string
  ha_set_id :: tf_string
  ha_host_id :: tf_string
  ha_type :: tf_string
  ha_scope_id :: tf_string
  ha_catalog_name :: tf_string
  ha_set_name :: tf_string
  ha_host_name :: tf_string

record scope_attrs =
  sp_role_scope_id :: tf_string
  sp_role_name :: tf_string
  sp_org_id :: tf_string
  sp_org_type :: tf_string
  sp_org_name :: tf_string
  sp_project_id :: tf_string
  sp_project_type :: tf_string
  sp_project_name :: tf_string

record target_attrs =
  ta_target_id :: tf_string
  ta_default_port :: tf_num
  ta_session_max_seconds :: tf_num
  ta_session_connection_limit :: tf_num
  ta_type :: tf_string
  ta_scope_id :: tf_string
  ta_name :: tf_string

record 'v binit_state =
  bi_id :: tf_string
  bi_bin_name :: tf_string
  bi_bin_path :: tf_string
  bi_config_path :: tf_string
  bi_license :: tf_string
  bi_auth :: auth_attrs
  bi_host :: catalog_attrs
  bi_scopes :: scope_attrs
  bi_target :: target_attrs
  bi_transport :: "'v embedded"

definition new_binit_state :: "'v binit_state" where
  "new_binit_state = \<lparr>bi_id = new_tf [], bi_bin_name = new_tf [], bi_bin_path = new_tf [],
     bi_config_path = new_tf [], bi_license = new_tf [],
     bi_auth = \<lparr>aa_method_id = new_tf [], aa_method_name = new_tf [], aa_login_name = new_tf [],
       aa_password = new_tf [], aa_scope_id = new_tf [], aa_user_id = new_tf [], aa_user_name = new_tf []\<rparr>,
     bi_host = \<lparr>ha_catalog_id = new_tf [], ha_set_id = new_tf [], ha_host_id = new_tf [], ha_type = new_tf [],
       ha_scope_id = new_tf [], ha_catalog_name = new_tf [], ha_set_name = new_tf [], ha_host_name = new_tf []\<rparr>,
     bi_scopes = \<lparr>sp_role_scope_id = new_tf [], sp_role_name = new_tf [], sp_org_id = new_tf [],
       sp_org_type = new_tf [], sp_org_name = new_tf [], sp_project_id = new_tf [], sp_project_type = new_tf [],
       sp_project_name = new_tf []\<rparr>,
     bi_target = \<lparr>ta_target_id = new_tf [], ta_default_port = new_tf 0, ta_session_max_seconds = new_tf 0,
       ta_session_connection_limit = new_tf 0, ta_type = new_tf [], ta_scope_id = new_tf [], ta_name = new_tf []\<rparr>,
     bi_transport = new_embedded\<rparr>"

definition auth_rows :: "auth_attrs \<Rightarrow> (string \<times> 'v tf_any) list" where
  "auth_rows a = [(''auth_method_id'', TfString (aa_method_id a)), (''auth_method_name'', TfString (aa_method_name a)),
     (''auth_login_name'', TfString (aa_login_name a)), (''auth_password'', TfString (aa_password a)),
     (''auth_scope_id'', TfString (aa_scope_id a)), (''auth_user_id'', TfString (aa_user_id a)),
     (''auth_user_name'', TfString (aa_user_name a))]"

fun set_auth_rows :: "'v tf_any list \<Rightarrow> auth_attrs \<Rightarrow> auth_attrs" where
  "set_auth_rows [mid, mname, login, pw, sid, uid, uname] a =
     \<lparr>aa_method_id = any_string mid, aa_method_name = any_string mname, aa_login_name = any_string login,
       aa_password = any_string pw, aa_scope_id = any_string sid, aa_user_id = any_string uid,
       aa_user_name = any_string uname\<rparr>"
| "set_auth_rows _ a = a"

definition catalog_rows :: "catalog_attrs \<Rightarrow> (string \<times> 'v tf_any) list" where
  "catalog_rows a = [(''host_catalog_id'', TfString (ha_catalog_id a)), (''host_set_id'', TfString (ha_set_id a)),
     (''host_id'', TfString (ha_host_id a)), (''host_type'', TfString (ha_type a)),
     (''host_scope_id'', TfString (ha_scope_id a)), (''host_catalog_name'', TfString (ha_catalog_name a)),
     (''host_set_name'', TfString (ha_set_name a)), (''host_name'', TfString (ha_host_name a))]"

fun set_catalog_rows :: "'v tf_any list \<Rightarrow> catalog_attrs \<Rightarrow> catalog_attrs" where
  "set_catalog_rows [cid, stid, hid, typ, sid, cname, sname, hname] a =
     \<lparr>ha_catalog_id = any_string cid, ha_set_id = any_string stid, ha_host_id = any_string hid,
       ha_type = any_string typ, ha_scope_id = any_string sid, ha_catalog_name = any_string cname,
       ha_set_name = any_string sname, ha_host_name = any_string hname\<rparr>"
| "set_catalog_rows _ a = a"

definition scope_rows :: "scope_attrs \<Rightarrow> (string \<times> 'v tf_any) list" where
  "scope_rows a = [(''login_role_scope_id'', TfString (sp_role_scope_id a)), (''login_role_name'', TfString (sp_role_name a)),
     (''org_scope_id'', TfString (sp_org_id a)), (''org_scope_type'', TfString (sp_org_type a)),
     (''org_scope_name'', TfString (sp_org_name a)), (''project_scope_id'', TfString (sp_project_id a)),
     (''project_scope_type'', TfString (sp_project_type a)), (''project_scope_name'', TfString (sp_project_name a))]"

fun set_scope_rows :: "'v tf_any list \<Rightarrow> scope_attrs \<Rightarrow> scope_attrs" where
  "set_scope_rows [rid, rname, oid, otype, oname, pid, ptype, pname] a =
     \<lparr>sp_role_scope_id = any_string rid, sp_role_name = any_string rname, sp_org_id = any_string oid,
       sp_org_type = any_string otype, sp_org_name = any_string oname, sp_project_id = any_string pid,
       sp_project_type = any_string ptype, sp_project_name = any_string pname\<rparr>"
| "set_scope_rows _ a = a"

definition target_rows :: "target_attrs \<Rightarrow> (string \<times> 'v tf_any) list" where
  "target_rows a = [(''target_id'', TfString (ta_target_id a)), (''target_default_port'', TfNum (ta_default_port a)),
     (''target_session_max_seconds'', TfNum (ta_session_max_seconds a)),
     (''target_session_connection_limit'', TfNum (ta_session_connection_limit a)),
     (''target_type'', TfString (ta_type a)), (''target_scope_id'', TfString (ta_scope_id a)),
     (''target_name'', TfString (ta_name a))]"

fun set_target_rows :: "'v tf_any list \<Rightarrow> target_attrs \<Rightarrow> target_attrs" where
  "set_target_rows [tid, port, secs, limit, typ, sid, name] a =
     \<lparr>ta_target_id = any_string tid, ta_default_port = any_num port, ta_session_max_seconds = any_num secs,
       ta_session_connection_limit = any_num limit, ta_type = any_string typ, ta_scope_id = any_string sid,
       ta_name = any_string name\<rparr>"
| "set_target_rows _ a = a"

definition binit_inputs :: "'v binit_state \<Rightarrow> (string \<times> 'v tf_any) list" where
  "binit_inputs s = [(''id'', TfString (bi_id s)), (''bin_name'', TfString (bi_bin_name s)),
     (''bin_path'', TfString (bi_bin_path s)), (''config_path'', TfString (bi_config_path s)),
     (''license'', TfString (bi_license s))]"

fun set_binit_inputs :: "'v tf_any list \<Rightarrow> 'v binit_state \<Rightarrow> 'v binit_state" where
  "set_binit_inputs [i, name, path, cfg, lic] s =
     s\<lparr>bi_id := any_string i, bi_bin_name := any_string name, bi_bin_path := any_string path,
       bi_config_path := any_string cfg, bi_license := any_string lic\<rparr>"
| "set_binit_inputs _ s = s"

definition binit_rows :: "'v binit_state \<Rightarrow> (string \<times> 'v tf_any) list" where
  "binit_rows s = binit_inputs s @ auth_rows (bi_auth s) @ catalog_rows (bi_host s) @ scope_rows (bi_scopes s)
     @ target_rows (bi_target s)"

definition set_binit_rows :: "'v tf_any list \<Rightarrow> 'v binit_state \<Rightarrow> 'v binit_state" where
  "set_binit_rows xs s = (set_binit_inputs (take 5 xs) s)\<lparr>
     bi_auth := set_auth_rows (take 7 (drop 5 xs)) (bi_auth s),
     bi_host := set_catalog_rows (take 8 (drop 12 xs)) (bi_host s),
     bi_scopes := set_scope_rows (take 8 (drop 20 xs)) (bi_scopes s),
     bi_target := set_target_rows (drop 28 xs) (bi_target s)\<rparr>"

definition binit_attrs :: "('v binit_state, 'v) state_attrs" where
  "binit_attrs = \<lparr>sa_attrs = binit_rows, sa_set = set_binit_rows, sa_transport = bi_transport,
     sa_set_transport = (\<lambda>em s. s\<lparr>bi_transport := em\<rparr>)\<rparr>"

definition binit_validate :: "'p path_lib \<Rightarrow> 'w go_ctx \<Rightarrow> 'v binit_state \<Rightarrow> 'w \<Rightarrow> error" where
  "binit_validate P ctx s w =
     (case ctx_err ctx w of
        Some e \<Rightarrow> Some e
      | None \<Rightarrow>
          if \<not> snd (tf_get (bi_bin_path s))
          then Some (validation_error P ''you must provide the Boundary bin path'' [''bin_path''])
          else if \<not> snd (tf_get (bi_config_path s))
          then Some (validation_error P ''you must provide the Boundary config path'' [''config_path'']) else None)"

definition binit_ops :: "('t, 'v) tf_lib \<Rightarrow> 'p path_lib \<Rightarrow> ('w, 'v binit_state, 't, 'v) state_ops" where
  "binit_ops L P = attrs_ops L P binit_attrs (binit_validate P)"

subsection \<open>Initializing Boundary\<close>

definition binit_request :: "'v binit_state \<Rightarrow> boundary_request" where
  "binit_request s = new_boundary_request
     ([with_boundary_bin_name (known_or ''boundary'' (bi_bin_name s)), with_boundary_bin_path (raw_val (bi_bin_path s)),
       with_boundary_config_path (raw_val (bi_config_path s))]
      @ (if snd (tf_get (bi_license s)) then [with_boundary_license (raw_val (bi_license s))] else []))"

text \<open>The name of the host catalog is in the response and in the state, and is not set.\<close>

definition set_auth :: "auth_method \<Rightarrow> auth_attrs \<Rightarrow> auth_attrs" where
  "set_auth m a = \<lparr>aa_method_id = tf_set (am_method_id m) (aa_method_id a),
     aa_method_name = tf_set (am_method_name m) (aa_method_name a), aa_login_name = tf_set (am_login_name m) (aa_login_name a),
     aa_password = tf_set (am_password m) (aa_password a), aa_scope_id = tf_set (am_scope_id m) (aa_scope_id a),
     aa_user_id = tf_set (am_user_id m) (aa_user_id a), aa_user_name = tf_set (am_user_name m) (aa_user_name a)\<rparr>"

definition set_catalog :: "host_resources \<Rightarrow> catalog_attrs \<Rightarrow> catalog_attrs" where
  "set_catalog r a = a\<lparr>ha_catalog_id := tf_set (hs_catalog_id r) (ha_catalog_id a),
     ha_set_id := tf_set (hs_set_id r) (ha_set_id a), ha_host_id := tf_set (hs_host_id r) (ha_host_id a),
     ha_type := tf_set (hs_type r) (ha_type a), ha_scope_id := tf_set (hs_scope_id r) (ha_scope_id a),
     ha_set_name := tf_set (hs_set_name r) (ha_set_name a), ha_host_name := tf_set (hs_host_name r) (ha_host_name a)\<rparr>"

definition set_scopes :: "login_role \<Rightarrow> boundary_scope \<Rightarrow> boundary_scope \<Rightarrow> scope_attrs \<Rightarrow> scope_attrs" where
  "set_scopes role org proj a =
     \<lparr>sp_role_scope_id = tf_set (lr_scope_id role) (sp_role_scope_id a), sp_role_name = tf_set (lr_name role) (sp_role_name a),
      sp_org_id = tf_set (bs_scope_id org) (sp_org_id a), sp_org_type = tf_set (bs_type org) (sp_org_type a),
      sp_org_name = tf_set (bs_name org) (sp_org_name a), sp_project_id = tf_set (bs_scope_id proj) (sp_project_id a),
      sp_project_type = tf_set (bs_type proj) (sp_project_type a), sp_project_name = tf_set (bs_name proj) (sp_project_name a)\<rparr>"

definition set_target :: "boundary_target \<Rightarrow> target_attrs \<Rightarrow> target_attrs" where
  "set_target t a = \<lparr>ta_target_id = tf_set (bt_target_id t) (ta_target_id a),
     ta_default_port = tf_set (word_of_int (bt_default_port t)) (ta_default_port a),
     ta_session_max_seconds = tf_set (word_of_int (bt_session_max_seconds t)) (ta_session_max_seconds a),
     ta_session_connection_limit = tf_set (word_of_int (bt_session_connection_limit t)) (ta_session_connection_limit a),
     ta_type = tf_set (bt_type t) (ta_type a), ta_scope_id = tf_set (bt_scope_id t) (ta_scope_id a),
     ta_name = tf_set (bt_name t) (ta_name a)\<rparr>"

definition set_boundary_response :: "boundary_response \<Rightarrow> 'v binit_state \<Rightarrow> 'v binit_state" where
  "set_boundary_response r s = s\<lparr>bi_auth := set_auth (br_auth_method r) (bi_auth s),
     bi_host := set_catalog (br_host_resources r) (bi_host s),
     bi_scopes := set_scopes (br_login_role r) (br_org_scope r) (br_project_scope r) (bi_scopes s),
     bi_target := set_target (br_target r) (bi_target s)\<rparr>"

definition binit_init ::
  "'w transport \<Rightarrow> 'v binit_state \<Rightarrow> 'w \<Rightarrow> ((error \<times> 'v binit_state) \<times> 'w) go" where
  "binit_init tr s w =
     (case boundary_validate (binit_request s) of
        Some e \<Rightarrow> Some ((Some e, s), w)
      | None \<Rightarrow>
          (case boundary_init tr (binit_request s) w of
             ((_, Some e), w1) \<Rightarrow> Some ((Some e, s), w1)
           | ((res, None), w1) \<Rightarrow> do { r \<leftarrow> deref res; Some ((None, set_boundary_response r s), w1) }))"

text \<open>At the plan of a new resource every output is unknown but the name of the host catalog.\<close>

definition unknown_auth :: "auth_attrs \<Rightarrow> auth_attrs" where
  "unknown_auth a = \<lparr>aa_method_id = set_unknown (aa_method_id a), aa_method_name = set_unknown (aa_method_name a),
     aa_login_name = set_unknown (aa_login_name a), aa_password = set_unknown (aa_password a),
     aa_scope_id = set_unknown (aa_scope_id a), aa_user_id = set_unknown (aa_user_id a),
     aa_user_name = set_unknown (aa_user_name a)\<rparr>"

definition unknown_catalog :: "catalog_attrs \<Rightarrow> catalog_attrs" where
  "unknown_catalog a = a\<lparr>ha_catalog_id := set_unknown (ha_catalog_id a), ha_set_id := set_unknown (ha_set_id a),
     ha_host_id := set_unknown (ha_host_id a), ha_type := set_unknown (ha_type a),
     ha_scope_id := set_unknown (ha_scope_id a), ha_set_name := set_unknown (ha_set_name a),
     ha_host_name := set_unknown (ha_host_name a)\<rparr>"

definition unknown_scopes :: "scope_attrs \<Rightarrow> scope_attrs" where
  "unknown_scopes a = \<lparr>sp_role_scope_id = set_unknown (sp_role_scope_id a), sp_role_name = set_unknown (sp_role_name a),
     sp_org_id = set_unknown (sp_org_id a), sp_org_type = set_unknown (sp_org_type a),
     sp_org_name = set_unknown (sp_org_name a), sp_project_id = set_unknown (sp_project_id a),
     sp_project_type = set_unknown (sp_project_type a), sp_project_name = set_unknown (sp_project_name a)\<rparr>"

definition unknown_target :: "target_attrs \<Rightarrow> target_attrs" where
  "unknown_target a = \<lparr>ta_target_id = set_unknown (ta_target_id a), ta_default_port = set_unknown (ta_default_port a),
     ta_session_max_seconds = set_unknown (ta_session_max_seconds a),
     ta_session_connection_limit = set_unknown (ta_session_connection_limit a), ta_type = set_unknown (ta_type a),
     ta_scope_id = set_unknown (ta_scope_id a), ta_name = set_unknown (ta_name a)\<rparr>"

definition binit_computed :: "'v binit_state \<Rightarrow> 'v binit_state \<Rightarrow> 'v binit_state" where
  "binit_computed prior s = (if snd (tf_get (bi_id prior)) then s else s\<lparr>
     bi_id := set_unknown (bi_id s), bi_auth := unknown_auth (bi_auth s), bi_host := unknown_catalog (bi_host s),
     bi_scopes := unknown_scopes (bi_scopes s), bi_target := unknown_target (bi_target s)\<rparr>)"

definition binit_plan ::
  "('t, 'v) tf_lib \<Rightarrow> 'p path_lib \<Rightarrow> 'p error_view \<Rightarrow> 'w go_ctx
    \<Rightarrow> 'v provider_config \<Rightarrow> ('v, 'd) change_request \<Rightarrow> 't heap \<Rightarrow> 'w
    \<Rightarrow> (('v binit_state \<times> 'p diagnostic list \<times> 'p list) \<times> 't heap) go" where
  "binit_plan L P ev ctx c req = plan_resource L P (binit_ops L P) binit_computed ev ctx c req new_binit_state new_binit_state"

text \<open>Each state has one failure handler, so two of them never are deeply equal.\<close>

definition binit_handlers :: nat where
  "binit_handlers = 1"

definition binit_act ::
  "'p error_view \<Rightarrow> 'v binit_state \<Rightarrow> 'v binit_state \<Rightarrow> 'w transport \<Rightarrow> 'w
    \<Rightarrow> (('v binit_state \<times> 'p diagnostic list) \<times> 'w) go" where
  "binit_act ev prior s tr w =
     (if \<not> snd (tf_get (bi_id prior)) \<or> \<not> deeply_equal binit_handlers s prior then do {
        ((e, s1), w1) \<leftarrow> binit_init tr s w;
        Some ((s1, op_diagnostic ev ''Boundary Init Error'' e), w1)
      }
      else Some ((s, []), w))"

definition binit_apply ::
  "('t, 'v) tf_lib \<Rightarrow> 'p path_lib \<Rightarrow> ('v, 't, 'd) wire \<Rightarrow> 'p error_view \<Rightarrow> 'w go_ctx
    \<Rightarrow> ('w, 'w transport) dialer \<Rightarrow> 'v provider_config \<Rightarrow> ('v, 'd) change_request \<Rightarrow> 't heap \<Rightarrow> 'w
    \<Rightarrow> (('v binit_state \<times> 'p diagnostic list) \<times> 't heap \<times> 'w) go" where
  "binit_apply L P wr ev ctx dial c req = apply_resource L P wr (binit_ops L P)
     (\<lambda>s. s\<lparr>bi_id := tf_set ''static'' (bi_id s)\<rparr>) (binit_act ev) ev ctx dial c req new_binit_state new_binit_state"

subsection \<open>The state of enos\_boundary\_start\<close>

record 'v bstart_state =
  bo_id :: tf_string
  bo_bin_name :: tf_string
  bo_bin_path :: tf_string
  bo_config_path :: tf_string
  bo_config_name :: tf_string
  bo_license :: tf_string
  bo_manage :: tf_bool
  bo_status :: tf_num
  bo_unit :: tf_string
  bo_username :: tf_string
  bo_recording :: tf_string
  bo_debug :: tf_bool
  bo_transport :: "'v embedded"

definition new_bstart_state :: "'v bstart_state" where
  "new_bstart_state = \<lparr>bo_id = new_tf [], bo_bin_name = new_tf [], bo_bin_path = new_tf [], bo_config_path = new_tf [],
     bo_config_name = new_tf [], bo_license = new_tf [], bo_manage = new_tf False, bo_status = new_tf 0,
     bo_unit = new_tf [], bo_username = new_tf [], bo_recording = new_tf [], bo_debug = new_tf False,
     bo_transport = new_embedded\<rparr>"

definition bstart_rows :: "'v bstart_state \<Rightarrow> (string \<times> 'v tf_any) list" where
  "bstart_rows s = [(''id'', TfString (bo_id s)), (''bin_name'', TfString (bo_bin_name s)),
     (''bin_path'', TfString (bo_bin_path s)), (''config_path'', TfString (bo_config_path s)),
     (''config_name'', TfString (bo_config_name s)), (''manage_service'', TfBool (bo_manage s)),
     (''license'', TfString (bo_license s)), (''status'', TfNum (bo_status s)), (''unit_name'', TfString (bo_unit s)),
     (''username'', TfString (bo_username s)), (''recording_storage_path'', TfString (bo_recording s)),
     (''debug'', TfBool (bo_debug s))]"

definition set_bstart_rows :: "'v tf_any list \<Rightarrow> 'v bstart_state \<Rightarrow> 'v bstart_state" where
  "set_bstart_rows xs s = (if length xs \<noteq> 12 then s else s\<lparr>
     bo_id := any_string (xs ! 0), bo_bin_name := any_string (xs ! 1), bo_bin_path := any_string (xs ! 2),
     bo_config_path := any_string (xs ! 3), bo_config_name := any_string (xs ! 4), bo_manage := any_bool (xs ! 5),
     bo_license := any_string (xs ! 6), bo_status := any_num (xs ! 7), bo_unit := any_string (xs ! 8),
     bo_username := any_string (xs ! 9), bo_recording := any_string (xs ! 10), bo_debug := any_bool (xs ! 11)\<rparr>)"

definition bstart_attrs :: "('v bstart_state, 'v) state_attrs" where
  "bstart_attrs = \<lparr>sa_attrs = bstart_rows, sa_set = set_bstart_rows, sa_transport = bo_transport,
     sa_set_transport = (\<lambda>em s. s\<lparr>bo_transport := em\<rparr>)\<rparr>"

definition bstart_validate :: "'p path_lib \<Rightarrow> 'w go_ctx \<Rightarrow> 'v bstart_state \<Rightarrow> 'w \<Rightarrow> error" where
  "bstart_validate P ctx s w =
     (case ctx_err ctx w of
        Some e \<Rightarrow> Some e
      | None \<Rightarrow>
          (case check_k8s_not_configured (bo_transport s) ''enos_boundary_start'' of
             Some e \<Rightarrow> Some e
           | None \<Rightarrow>
               if \<not> snd (tf_get (bo_config_path s))
               then Some (validation_error P ''you must provide the boundary config path'' [''config_path'']) else None))"

definition bstart_ops :: "('t, 'v) tf_lib \<Rightarrow> 'p path_lib \<Rightarrow> ('w, 'v bstart_state, 't, 'v) state_ops" where
  "bstart_ops L P = attrs_ops L P bstart_attrs (bstart_validate P)"

subsection \<open>Starting Boundary\<close>

definition boundary_unit :: "string \<Rightarrow> string \<Rightarrow> string \<Rightarrow> string \<Rightarrow> unit_file" where
  "boundary_unit usr start cfg env_file =
     [(''Unit'', [(''Description'', ''HashiCorp Boundary''), (''Documentation'', ''https://www.boundaryproject.io/docs/''),
        (''Requires'', ''network-online.target''), (''After'', ''network-online.target''),
        (''ConditionFileNotEmpty'', cfg), (''StartLimitIntervalSec'', ''60''), (''StartLimitBurst'', ''3'')]),
      (''Service'', [(''EnvironmentFile'', env_file), (''User'', usr), (''Group'', usr), (''ProtectSystem'', ''full''),
        (''ProtectHome'', ''read-only''), (''PrivateTmp'', ''yes''), (''PrivateDevices'', ''yes''),
        (''SecureBits'', ''keep-caps''), (''AmbientCapabilities'', ''CAP_IPC_LOCK''),
        (''Capabilities'', ''CAP_IPC_LOCK+ep''), (''CapabilityBoundingSet'', ''CAP_SYSLOG CAP_IPC_LOCK''),
        (''NoNewPrivileges'', ''yes''), (''ExecStart'', start), (''ExecReload'', ''/bin/kill --signal HUP $MAINPID''),
        (''KillMode'', ''process''), (''KillSignal'', ''SIGINT''), (''Restart'', ''on-failure''),
        (''RestartSec'', ''5''), (''TimeoutStopSec'', ''30''), (''StartLimitInterval'', ''60''),
        (''StartLimitIntervalSec'', ''60''), (''StartLimitBurst'', ''10''), (''LimitNOFILE'', ''65536''),
        (''LimitMEMLOCK'', ''infinity'')]),
      (''Install'', [(''WantedBy'', ''multi-user.target'')])]"

definition bstart_exec :: "'v bstart_state \<Rightarrow> string \<Rightarrow> string" where
  "bstart_exec s cfg = raw_val (bo_bin_path s) @ ''/'' @ known_or ''boundary'' (bo_bin_name s) @ '' server -config '' @ cfg
     @ (if snd (tf_get (bo_debug s)) \<and> raw_val (bo_debug s) then '' -debug'' else [])"

definition boundary_user :: "'w transport \<Rightarrow> string \<Rightarrow> string \<Rightarrow> 'w \<Rightarrow> error \<times> 'w" where
  "boundary_user tr name dir w =
     (case create_or_update_user tr (Some (new_user [with_user_name (Ptr 0 name), with_user_home_dir (Ptr 1 dir),
        with_user_shell (Ptr 2 ''/bin/false'')])) 3 w of
        (((_, e), _), w1) \<Rightarrow> wrap_step ''failed to find or create the boundary user, due to: '' (e, w1))"

definition recording_dir :: "'w transport \<Rightarrow> string \<Rightarrow> tf_string \<Rightarrow> 'w \<Rightarrow> error \<times> 'w" where
  "recording_dir tr usr path w =
     (if snd (tf_get path)
      then wrap_step ''failed to create recording_storage_path directory, due to ''
        (create_directory tr (Some (new_create_directory_request
          [with_dir_name (raw_val path), with_dir_chown (usr @ '':'' @ usr)])) w)
      else (None, w))"

definition write_boundary_unit ::
  "'w go_ctx \<Rightarrow> 'w transport \<Rightarrow> string \<Rightarrow> string \<Rightarrow> unit_file \<Rightarrow> 'w \<Rightarrow> (error \<times> 'w) go" where
  "write_boundary_unit ctx tr usr un u w = do {
     r \<leftarrow> create_unit_file ctx tr (new_create_unit_file_request
       [with_unit_unit_path (''/etc/systemd/system/'' @ un @ ''.service''), with_unit_chmod ''644'',
        with_unit_chown (usr @ '':'' @ usr), with_unit_file (Some (to_ini u))]) w;
     Some (then_step (wrap_step ''failed to create the boundary systemd unit, due to: '' r)
       (\<lambda>w. case run_systemctl tr (new_run_systemctl_command [with_systemctl_sub_command SubCommandDaemonReload]) w of
          ((_, e), w2) \<Rightarrow> wrap_step
            ''failed to daemon-reload systemd after writing the boundary systemd unit, due to: '' (e, w2)))
   }"

text \<open>The copy of a file with the text of its error.\<close>

definition copy_step :: "'w go_ctx \<Rightarrow> 'w transport \<Rightarrow> string \<Rightarrow> 'w copy_file_request \<Rightarrow> 'w \<Rightarrow> (error \<times> 'w) go" where
  "copy_step ctx tr msg req w = do {
     ((e, _), w1) \<leftarrow> copy_file ctx tr (Some req) w;
     Some (wrap_step msg (e, w1))
   }"

text \<open>The files of the service. The environment file has its fixed place whatever the directory of the configuration is.\<close>

definition install_boundary :: "'w go_ctx \<Rightarrow> 'w transport \<Rightarrow> 'v bstart_state \<Rightarrow> 'w \<Rightarrow> (error \<times> 'w) go" where
  "install_boundary ctx tr s w =
     (let usr = known_or ''boundary'' (bo_username s);
          dir = known_or ''/etc/boundary'' (bo_config_path s);
          cfg = path_join [dir, known_or ''boundary.hcl'' (bo_config_name s)];
          lic_path = path_join [dir, ''boundary.lic'']; env_path = ''/etc/boundary/boundary.env'';
          licensed = snd (tf_get (bo_license s)) in
      case then_step (boundary_user tr usr dir w) (recording_dir tr usr (bo_recording s)) of
        (Some e, w1) \<Rightarrow> Some (Some e, w1)
      | (None, w1) \<Rightarrow> do {
     (e, w2) \<leftarrow> (if licensed then copy_step ctx tr ''failed to copy boundary license, due to: ''
         (owned_copy usr ''640'' lic_path (raw_val (bo_license s))) w1 else Some (None, w1));
     if e \<noteq> None then Some (e, w2) else do {
     (e, w3) \<leftarrow> copy_step ctx tr ''failed to create the boundary environment file, due to: ''
       (owned_copy usr ''644'' env_path (if licensed then ''BOUNDARY_LICENSE=file:///'' @ lic_path @ [nl] else [])) w2;
     if e \<noteq> None then Some (e, w3)
     else if snd (tf_get (bo_manage s)) \<and> \<not> raw_val (bo_manage s) then Some (None, w3)
     else write_boundary_unit ctx tr usr (known_or ''boundary'' (bo_unit s))
       (boundary_unit usr (bstart_exec s cfg) cfg env_path) w3
     } })"

text \<open>The service that is restarted and asked for is boundary whatever the name of the unit is.\<close>

definition start_boundary ::
  "(unit_properties \<Rightarrow> unit_properties) \<Rightarrow> 'w go_ctx \<Rightarrow> 'w transport \<Rightarrow> 'v bstart_state \<Rightarrow> 'w
    \<Rightarrow> ((error \<times> 'v bstart_state) \<times> 'w) go" where
  "start_boundary visit ctx tr s w = do {
     r \<leftarrow> install_boundary ctx tr s w;
     Some (case then_step r (\<lambda>w. wrap_step ''failed to start the boundary service, due to: ''
         (restart_service visit tr ''boundary'' w)) of
         (Some e, w1) \<Rightarrow> ((Some e, s), w1)
       | (None, w1) \<Rightarrow>
           (case service_status tr ''boundary'' w1 of
              (code, w2) \<Rightarrow> ((None, s\<lparr>bo_status := tf_set (word_of_int code) (bo_status s)\<rparr>), w2)))
   }"

definition bstart_computed :: "'v bstart_state \<Rightarrow> 'v bstart_state \<Rightarrow> 'v bstart_state" where
  "bstart_computed prior s = (if snd (tf_get (bo_id prior)) then s
     else s\<lparr>bo_id := set_unknown (bo_id s), bo_status := set_unknown (bo_status s)\<rparr>)"

definition bstart_plan ::
  "('t, 'v) tf_lib \<Rightarrow> 'p path_lib \<Rightarrow> 'p error_view \<Rightarrow> 'w go_ctx
    \<Rightarrow> 'v provider_config \<Rightarrow> ('v, 'd) change_request \<Rightarrow> 't heap \<Rightarrow> 'w
    \<Rightarrow> (('v bstart_state \<times> 'p diagnostic list \<times> 'p list) \<times> 't heap) go" where
  "bstart_plan L P ev ctx c req =
     plan_resource L P (bstart_ops L P) bstart_computed ev ctx c req new_bstart_state new_bstart_state"

definition bstart_act ::
  "(unit_properties \<Rightarrow> unit_properties) \<Rightarrow> 'p error_view \<Rightarrow> 'w go_ctx \<Rightarrow> 'v bstart_state \<Rightarrow> 'v bstart_state
    \<Rightarrow> 'w transport \<Rightarrow> 'w \<Rightarrow> (('v bstart_state \<times> 'p diagnostic list) \<times> 'w) go" where
  "bstart_act visit ev ctx prior s tr w =
     (if \<not> snd (tf_get (bo_id prior)) \<or> deeply_equal start_handlers s prior then do {
        ((e, s1), w1) \<leftarrow> start_boundary visit ctx tr s w;
        Some ((s1, op_diagnostic ev ''Boundary Start Error'' e), w1)
      }
      else Some ((s, []), w))"

definition bstart_apply ::
  "('t, 'v) tf_lib \<Rightarrow> 'p path_lib \<Rightarrow> ('v, 't, 'd) wire \<Rightarrow> (unit_properties \<Rightarrow> unit_properties) \<Rightarrow> 'p error_view \<Rightarrow> 'w go_ctx
    \<Rightarrow> ('w, 'w transport) dialer \<Rightarrow> 'v provider_config \<Rightarrow> ('v, 'd) change_request \<Rightarrow> 't heap \<Rightarrow> 'w
    \<Rightarrow> (('v bstart_state \<times> 'p diagnostic list) \<times> 't heap \<times> 'w) go" where
  "bstart_apply L P wr visit ev ctx dial c req = apply_resource L P wr (bstart_ops L P)
     (\<lambda>s. s\<lparr>bo_id := tf_set ''static'' (bo_id s)\<rparr>) (bstart_act visit ev ctx) ev ctx dial c req
     new_bstart_state new_bstart_state"

subsection \<open>The contract of the states\<close>

lemma set_binit_inputs_keeps [simp]: "bi_transport (set_binit_inputs xs s) = bi_transport s"
  "bi_auth (set_binit_inputs xs s) = bi_auth s" "bi_host (set_binit_inputs xs s) = bi_host s"
  "bi_scopes (set_binit_inputs xs s) = bi_scopes s" "bi_target (set_binit_inputs xs s) = bi_target s"
  by (induction xs s rule: set_binit_inputs.induct) simp_all

lemma group_rows:
  "same_kinds xs (auth_rows a) \<Longrightarrow> auth_rows (set_auth_rows xs a) = zip (map fst (auth_rows a :: (string \<times> 'v tf_any) list)) xs"
  "same_kinds xs (catalog_rows b) \<Longrightarrow> catalog_rows (set_catalog_rows xs b) = zip (map fst (catalog_rows b :: (string \<times> 'v tf_any) list)) xs"
  "same_kinds xs (scope_rows c) \<Longrightarrow> scope_rows (set_scope_rows xs c) = zip (map fst (scope_rows c :: (string \<times> 'v tf_any) list)) xs"
  "same_kinds xs (target_rows t) \<Longrightarrow> target_rows (set_target_rows xs t) = zip (map fst (target_rows t :: (string \<times> 'v tf_any) list)) xs"
  "same_kinds xs (binit_inputs s) \<Longrightarrow> binit_inputs (set_binit_inputs xs s) = zip (map fst (binit_inputs s :: (string \<times> 'v tf_any) list)) xs"
  by (auto simp: auth_rows_def catalog_rows_def scope_rows_def target_rows_def binit_inputs_def)

lemma same_kinds_append:
  "same_kinds xs (as @ bs) \<longleftrightarrow> same_kinds (take (length as) xs) as \<and> same_kinds (drop (length as) xs) bs"
proof
  assume "same_kinds xs (as @ bs)"
  then have "map fresh_like xs = map (fresh_like o snd) as @ map (fresh_like o snd) bs"
    by (simp add: same_kinds_def)
  then show "same_kinds (take (length as) xs) as \<and> same_kinds (drop (length as) xs) bs"
    by (simp add: same_kinds_def flip: take_map drop_map)
next
  assume "same_kinds (take (length as) xs) as \<and> same_kinds (drop (length as) xs) bs"
  then show "same_kinds xs (as @ bs)"
    unfolding same_kinds_def map_append by (metis append_take_drop_id map_append)
qed

lemma group_lengths: "length (auth_rows a) = 7" "length (catalog_rows b) = 8" "length (scope_rows c) = 8"
  "length (target_rows t) = 7" "length (binit_inputs s) = 5"
  by (simp_all add: auth_rows_def catalog_rows_def scope_rows_def target_rows_def binit_inputs_def)

lemma binit_inputs_other [simp]:
  "binit_inputs (s\<lparr>bi_auth := a\<rparr>) = binit_inputs s" "binit_inputs (s\<lparr>bi_host := b\<rparr>) = binit_inputs s"
  "binit_inputs (s\<lparr>bi_scopes := c\<rparr>) = binit_inputs s" "binit_inputs (s\<lparr>bi_target := t\<rparr>) = binit_inputs s"
  by (simp_all add: binit_inputs_def)

interpretation binit_state_rows: attr_state binit_attrs
proof unfold_locales
  fix xs :: "'a tf_any list" and s
  assume "same_kinds xs (sa_attrs binit_attrs s)"
  then have k: "same_kinds (take 5 xs) (binit_inputs s)" "same_kinds (take 7 (drop 5 xs)) (auth_rows (bi_auth s))"
    "same_kinds (take 8 (drop 12 xs)) (catalog_rows (bi_host s))" "same_kinds (take 8 (drop 20 xs)) (scope_rows (bi_scopes s))"
    "same_kinds (drop 28 xs) (target_rows (bi_target s))"
    by (simp_all add: binit_attrs_def binit_rows_def same_kinds_append group_lengths)
  show "sa_attrs binit_attrs (sa_set binit_attrs xs s) = zip (map fst (sa_attrs binit_attrs s)) xs"
    using k by (simp add: binit_attrs_def binit_rows_def set_binit_rows_def group_rows zip_append1 group_lengths)
qed (simp_all add: binit_attrs_def binit_rows_def set_binit_rows_def flat_attrs_def binit_inputs_def auth_rows_def
    catalog_rows_def scope_rows_def target_rows_def)

interpretation binit_states: resource_state L P "binit_ops L P"
  unfolding binit_ops_def by (rule binit_state_rows.rows_state)

interpretation bstart_state_rows: attr_state bstart_attrs
proof unfold_locales
  fix xs :: "'a tf_any list" and s
  assume "same_kinds xs (sa_attrs bstart_attrs s)"
  then show "sa_attrs bstart_attrs (sa_set bstart_attrs xs s) = zip (map fst (sa_attrs bstart_attrs s)) xs"
    by (auto simp: bstart_attrs_def bstart_rows_def set_bstart_rows_def)
qed (simp_all add: bstart_attrs_def flat_attrs_def bstart_rows_def set_bstart_rows_def)

interpretation bstart_states: resource_state L P "bstart_ops L P"
  unfolding bstart_ops_def by (rule bstart_state_rows.rows_state)

subsection \<open>Properties\<close>

lemma planned_binit:
  assumes "planned_as (binit_ops L P) planned s"
  shows "binit_rows s = binit_rows planned"
  using assms by (auto simp: planned_as_def binit_ops_def attrs_ops_def binit_attrs_def set_resolved_def
      binit_rows_def binit_inputs_def)

text \<open>
  C31: an apply of enos_boundary_init that does not delete and
  adds no diagnostic ran the init command of the planned state once, whether or not the resource was
  applied before, with the license as its only variable; the output is not empty and is the JSON
  of the response that the state gets. The name of the host catalog is not set: it is that of the plan.
\<close>

theorem binit_apply_ok:
  fixes s :: "'v binit_state" and ctx :: "'w go_ctx" and L :: "('t, 'v) tf_lib"
  assumes "apply_unmarshal_state (binit_ops L P) ev ctx req new_binit_state new_binit_state h w = Some (([], prior, planned), h1)"
    and "\<not> is_delete wr req"
    and "binit_apply L P wr ev ctx dial c req h w = Some ((s, []), h', w')"
  shows "\<exists>s1 (em :: 'v embedded) tr w1 out serr res.
    planned_as (binit_ops L P :: ('w, 'v binit_state, 't, 'v) state_ops) planned s1
    \<and> embedded_client P ctx dial em w = ((Some tr, None), w1)
    \<and> boundary_validate (binit_request s1) = None
    \<and> tr_run tr (new_command (boundary_request_string (binit_request s1)) [with_env_vars (boundary_env (binit_request s1))]) w1
        = ((out, serr, None), w')
    \<and> out \<noteq> [] \<and> unmarshal (dec_ptr zero_boundary_response dec_boundary_response) out (Some zero_boundary_response) = (Some res, None)
    \<and> s = set_boundary_response res (s1\<lparr>bi_id := tf_set ''static'' (bi_id s1)\<rparr>)
    \<and> ha_catalog_name (bi_host s) = ha_catalog_name (bi_host planned)"
  using assms(1,2) assms(3) [unfolded binit_apply_def]
proof (cases rule: binit_states.apply_resource_cases)
  case (ran s1 em tr w1)
  let ?s1 = "s1\<lparr>bi_id := tf_set ''static'' (bi_id s1)\<rparr>"
  have q: "binit_request ?s1 = binit_request s1" by (simp add: binit_request_def)
  from ran(5) obtain out serr res where run: "boundary_validate (binit_request s1) = None"
    "tr_run tr (new_command (boundary_request_string (binit_request s1)) [with_env_vars (boundary_env (binit_request s1))]) w1
      = ((out, serr, None), w')" "out \<noteq> []"
    "unmarshal (dec_ptr zero_boundary_response dec_boundary_response) out (Some zero_boundary_response) = (Some res, None)"
    "s = set_boundary_response res ?s1"
    by (auto simp: binit_act_def deeply_equal_def binit_handlers_def binit_init_def boundary_init_def q deref_def
        elim!: bind_eq_SomeE split: option.split_asm prod.split_asm if_split_asm)
  have "ha_catalog_name (bi_host s1) = ha_catalog_name (bi_host planned)"
    using ran(1) by (auto simp: planned_as_def binit_ops_def attrs_ops_def binit_attrs_def set_resolved_def)
  with run have "ha_catalog_name (bi_host s) = ha_catalog_name (bi_host planned)"
    by (simp add: set_boundary_response_def set_catalog_def)
  with ran(1,4) run show ?thesis
    by - (rule exI [of _ s1], rule exI [of _ em], rule exI [of _ tr], rule exI [of _ w1], rule exI [of _ out],
      rule exI [of _ serr], rule exI [of _ res], simp)
next
  case failed
  then show ?thesis by simp
qed

text \<open>
  When boundary answers the init command with a JSON
  null, Init panics: the null sets the pointer to the response to nil without an error, and it is followed.
\<close>

theorem boundary_null_panics:
  assumes "boundary_validate (binit_request s) = None"
    and "tr_run tr (new_command (boundary_request_string (binit_request s)) [with_env_vars (boundary_env (binit_request s))]) w
      = ((out, serr, None), w1)"
    and "parse_json out = Some JNull" "out \<noteq> []" "\<not> snd (tf_get (bi_id prior))"
  shows "binit_act ev prior s tr w = None"
  using assms by (simp add: binit_act_def binit_init_def boundary_init_def unmarshal_def dec_ptr_def deref_def)

text \<open>
  A start of Boundary without an error
  restarted and asked for the service of the name boundary, whatever unit the resource names and
  has written; the exit code of the question is the status. Nothing else of the state changes.
\<close>

theorem boundary_restart_ignores_unit:
  assumes "start_boundary visit ctx tr s w = Some ((None, s'), w')"
  shows "\<exists>w1 w2 code. install_boundary ctx tr s w = Some (None, w1)
    \<and> restart_service visit tr ''boundary'' w1 = (None, w2) \<and> service_status tr ''boundary'' w2 = (code, w')
    \<and> s' = s\<lparr>bo_status := Tfv False False (word_of_int code)\<rparr>"
  using assms
  by (auto simp: start_boundary_def then_step_def tf_set_def elim!: bind_eq_SomeE split: option.split_asm prod.split_asm)

subsection \<open>Witnesses\<close>

text \<open>Hosts that answer every command with the same text.\<close>

definition answering :: "string \<Rightarrow> nat transport" where
  "answering text = mock_transport\<lparr>tr_run := (\<lambda>c w. ((text, [], None), w + 1))\<rparr>"

definition demo_boundary :: demo_value where
  "demo_boundary = demo_value_of [(''bin_path'', ''/opt/bin''), (''config_path'', ''/etc/boundary''), (''id'', ''static'')]
     [(''transport'', demo_ssh_block)]"

definition demo_binit :: "demo_value binit_state" where
  "demo_binit = new_binit_state\<lparr>bi_bin_path := Tfv False False ''/opt/bin'', bi_config_path := Tfv False False ''/etc/boundary''\<rparr>"

lemma demo_binit_read:
  "\<exists>h1. apply_unmarshal_state (binit_ops demo_lib demo_paths) demo_view live_ctx
       (demo_change demo_boundary demo_boundary) new_binit_state new_binit_state demo_heap 0
     = Some (([], demo_binit\<lparr>bi_id := Tfv False False ''static'', bi_transport := demo_read_block\<rparr>,
         demo_binit\<lparr>bi_id := Tfv False False ''static'', bi_transport := demo_read_block\<rparr>), h1)"
  by (simp add: binit_ops_def demo_rows binit_attrs_def binit_rows_def set_binit_rows_def binit_inputs_def auth_rows_def
      catalog_rows_def scope_rows_def target_rows_def new_binit_state_def apply_unmarshal_state_def demo_change_def live
      demo_boundary_def demo_binit_def)

lemma demo_binit_request:
  "binit_request (demo_binit\<lparr>bi_id := i, bi_transport := em\<rparr>)
    = \<lparr>bq_bin_name = ''boundary'', bq_bin_path = ''/opt/bin'', bq_config_path = ''/etc/boundary'', bq_license = []\<rparr>"
  "boundary_validate (binit_request (demo_binit\<lparr>bi_id := i, bi_transport := em\<rparr>)) = None"
  by (simp_all add: binit_request_def demo_binit_def new_binit_state_def known_or_def tf_get_def new_tf_def
      new_boundary_request_def with_boundary_bin_name_def with_boundary_bin_path_def with_boundary_config_path_def
      boundary_validate_def)

lemma answering_run: "tr_run (answering text) c w = ((text, [], None), w + 1)"
  by (simp add: answering_def)

lemma empty_json: "parse_json ''{}'' = Some (JObj [])" "parse_json ''null'' = Some JNull"
  by (simp_all add: json_text_defs)

lemma demo_binit_act:
  "binit_act ev prior (demo_binit\<lparr>bi_id := i, bi_transport := em\<rparr>) (answering ''{}'') w
    = Some ((set_boundary_response zero_boundary_response (demo_binit\<lparr>bi_id := i, bi_transport := em\<rparr>), []), w + 1)"
  by (simp add: binit_act_def deeply_equal_def binit_handlers_def binit_init_def demo_binit_request boundary_init_def boundary_validate_def
      answering_run unmarshal_def empty_json dec_ptr_def dec_boundary_response_def deref_def del: One_nat_def)

theorem binit_apply_ok_witness:
  "\<exists>s h2. binit_apply demo_lib demo_paths demo_wire demo_view live_ctx (dialer_to (answering ''{}''))
     new_provider_config (demo_change demo_boundary demo_boundary) demo_heap 0 = Some ((s, []), h2, 1)
   \<and> ha_catalog_name (bi_host s) = new_tf []"
proof -
  let ?req = "demo_change demo_boundary demo_boundary"
  let ?p = "demo_binit\<lparr>bi_id := Tfv False False ''static'', bi_transport := demo_read_block\<rparr>"
  let ?so = "binit_ops demo_lib demo_paths :: (nat, demo_value binit_state, demo_type, demo_value) state_ops"
  let ?set = "\<lambda>s :: demo_value binit_state. s\<lparr>bi_id := tf_set ''static'' (bi_id s)\<rparr>"
  obtain h1 where r: "apply_unmarshal_state ?so demo_view live_ctx ?req new_binit_state new_binit_state demo_heap 0
      = Some (([], ?p, ?p), h1)"
    using demo_binit_read by blast
  have d: "\<not> is_delete demo_wire ?req" by (simp add: demo_boundary_def demo_not_delete)
  have res: "set_resolved ?so (Some demo_ssh_transport) ?p
      = demo_binit\<lparr>bi_id := Tfv False False ''static'', bi_transport := set_resolved_transport (Some demo_ssh_transport) demo_read_block\<rparr>"
    by (simp add: set_resolved_def binit_ops_def attrs_ops_def binit_attrs_def)
  have act: "\<exists>s. binit_act demo_view ?p (?set (set_resolved ?so (Some demo_ssh_transport) ?p)) (answering ''{}'') 0 = Some ((s, []), 1)"
  proof -
    have "?set (set_resolved ?so (Some demo_ssh_transport) ?p) = demo_binit\<lparr>bi_id := Tfv False False ''static'',
        bi_transport := set_resolved_transport (Some demo_ssh_transport) demo_read_block\<rparr>"
      by (simp add: res tf_set_def)
    then show ?thesis using demo_binit_act [where w = 0] by (metis add_0)
  qed
  have "so_embedded ?so ?p = demo_read_block" "so_validate ?so live_ctx (set_resolved ?so (Some demo_ssh_transport) ?p) 0 = None"
    unfolding res by (simp_all add: binit_ops_def attrs_ops_def binit_attrs_def binit_validate_def live demo_binit_def tf_get_def)
  then obtain s h2 where s: "binit_apply demo_lib demo_paths demo_wire demo_view live_ctx (dialer_to (answering ''{}''))
     new_provider_config ?req demo_heap 0 = Some ((s, []), h2, 1)"
    unfolding binit_apply_def using act
      demo_applied [OF r d, where tr = "answering ''{}''" and act = "binit_act demo_view" and set_id = ?set]
    by blast
  from binit_apply_ok [OF r d s] have "ha_catalog_name (bi_host s) = ha_catalog_name (bi_host ?p)" by blast
  with s show ?thesis by (simp add: demo_binit_def new_binit_state_def)
qed

theorem boundary_null_panics_witness: "binit_act demo_view new_binit_state demo_binit (answering ''null'') 0 = None"
proof -
  have "demo_binit = demo_binit\<lparr>bi_id := bi_id demo_binit, bi_transport := bi_transport demo_binit\<rparr>" by simp
  then have "boundary_validate (binit_request demo_binit) = None" by (metis demo_binit_request(2))
  then show ?thesis
    by (rule boundary_null_panics [OF _ answering_run])
      (simp_all add: empty_json new_binit_state_def tf_get_def new_tf_def)
qed

end
