(* ===== verification/Releases.thy ===== *)
theory Releases
  imports GoJson "HOL-Library.List_Lexorder" "HOL-Library.Char_ord"
begin

text \<open>
  Releases of releases.hashicorp.com (\<open>internal/releases/releases.go\<close>) and the search of
  Artifactory (\<open>internal/artifactory\<close>). The HTTP client is a parameter, the record \<open>http_lib\<close>.
\<close>

subsection \<open>The HTTP client\<close>

record http_request =
  rq_method :: string
  rq_url :: string
  rq_headers :: "(string \<times> string) list"
  rq_body :: string

text \<open>The text of the status, its code, and what reading the body gives.\<close>

record http_response =
  rs_status :: string
  rs_code :: int
  rs_body :: "string \<times> error"

text \<open>
  \<open>http.NewRequestWithContext\<close> as an error of the method and the URL, \<open>Client.Do\<close>, and
  \<open>url.Parse\<close> followed by \<open>String\<close>.
\<close>

record 'w http_lib =
  ht_request :: "string \<Rightarrow> string \<Rightarrow> error"
  ht_do :: "http_request \<Rightarrow> 'w \<Rightarrow> (goerr, http_response) sum \<times> 'w"
  ht_parse_url :: "string \<Rightarrow> (goerr, string) sum"
  ht_basic_auth :: "string \<Rightarrow> string \<Rightarrow> string"

definition http_ok :: int where
  "http_ok = 200"

definition read_all :: "http_response \<Rightarrow> (goerr, string) sum" where
  "read_all r = (case rs_body r of (text, None) \<Rightarrow> Inr text | (_, Some e) \<Rightarrow> Inl e)"

subsection \<open>Releases\<close>

record release =
  rl_product :: string
  rl_version :: string
  rl_edition :: string
  rl_platform :: string
  rl_arch :: string

type_synonym release_opt = "release \<Rightarrow> release"

definition new_release :: "release_opt list \<Rightarrow> release \<times> error" where
  "new_release opts = (apply_opts opts \<lparr>rl_product = [], rl_version = [], rl_edition = [], rl_platform = [], rl_arch = []\<rparr>, None)"

definition with_release_product :: "string \<Rightarrow> release_opt" where
  "with_release_product p re = re\<lparr>rl_product := p\<rparr>"

definition with_release_version :: "string \<Rightarrow> release_opt" where
  "with_release_version v re = re\<lparr>rl_version := v\<rparr>"

definition with_release_edition :: "string \<Rightarrow> release_opt" where
  "with_release_edition e re = re\<lparr>rl_edition := e\<rparr>"

definition with_release_platform :: "string \<Rightarrow> release_opt" where
  "with_release_platform p re = re\<lparr>rl_platform := p\<rparr>"

definition with_release_arch :: "string \<Rightarrow> release_opt" where
  "with_release_arch a re = re\<lparr>rl_arch := a\<rparr>"

definition version_with_edition :: "release \<Rightarrow> string" where
  "version_with_edition r =
     (if rl_edition r = ''ce'' \<or> rl_edition r = ''oss'' then rl_version r else rl_version r @ ''+'' @ rl_edition r)"

definition directory_url :: "release \<Rightarrow> string" where
  "directory_url r = ''https://releases.hashicorp.com/'' @ rl_product r @ ''/'' @ version_with_edition r @ ''/''"

definition bundle_artifact_name :: "release \<Rightarrow> string" where
  "bundle_artifact_name r =
     rl_product r @ ''_'' @ version_with_edition r @ ''_'' @ rl_platform r @ ''_'' @ rl_arch r @ ''.zip''"

definition bundle_url :: "release \<Rightarrow> string" where
  "bundle_url r = directory_url r @ bundle_artifact_name r"

definition sha256sums_url :: "release \<Rightarrow> string" where
  "sha256sums_url r = directory_url r @ rl_product r @ ''_'' @ version_with_edition r @ ''_SHA256SUMS''"

fun contains_str :: "string \<Rightarrow> string \<Rightarrow> bool" where
  "contains_str [] t \<longleftrightarrow> t = []"
| "contains_str (c # s) t \<longleftrightarrow> has_prefix (c # s) t \<or> contains_str s t"

text \<open>The sums that were got, scanned for the first line that has the name of the artifact in it.\<close>

definition release_sha256_of :: "string \<Rightarrow> string \<Rightarrow> string \<times> error" where
  "release_sha256_of name sums =
     (case List.find (\<lambda>l. contains_str l name) (scan_lines sums) of
        Some l \<Rightarrow> (hd (split_on (CHR '' '') l), None)
      | None \<Rightarrow>
          (case scan_err sums of
             Some e \<Rightarrow> ([], Some (ErrWrap (''unable to locate SHA256Sum for '' @ name @ '': '') e []))
           | None \<Rightarrow> ([], Some (ErrNew (''unable to locate SHA256Sum for '' @ name)))))"

definition get_sha256sums :: "'w http_lib \<Rightarrow> release \<Rightarrow> 'w \<Rightarrow> (string \<times> error) \<times> 'w" where
  "get_sha256sums H r w =
     (case ht_request H ''GET'' (sha256sums_url r) of
        Some e \<Rightarrow> (([], Some e), w)
      | None \<Rightarrow>
          (case ht_do H \<lparr>rq_method = ''GET'', rq_url = sha256sums_url r, rq_headers = [], rq_body = []\<rparr> w of
             (Inl e, w1) \<Rightarrow> (([], Some e), w1)
           | (Inr res, w1) \<Rightarrow>
               (case read_all res of
                  Inl e \<Rightarrow> (([], Some e), w1)
                | Inr text \<Rightarrow>
                    if rs_code res \<noteq> http_ok
                    then (([], Some (ErrNew (''getting release SHA256SUMS: '' @ rs_status res @ '' - '' @ text))), w1)
                    else ((text, None), w1))))"

definition release_sha256 :: "'w http_lib \<Rightarrow> release \<Rightarrow> 'w \<Rightarrow> (string \<times> error) \<times> 'w" where
  "release_sha256 H r w =
     (case get_sha256sums H r w of
        ((_, Some e), w1) \<Rightarrow> (([], Some e), w1)
      | ((sums, None), w1) \<Rightarrow> (release_sha256_of (bundle_artifact_name r) sums, w1))"

subsection \<open>Supported builds of Vault (artifactory/go.go)\<close>

definition supported_vault_targets :: "(string \<times> string list) list" where
  "supported_vault_targets = [(''darwin'', [''amd64'']), (''freebsd'', [''386'', ''amd64'', ''arm'']),
     (''linux'', [''386'', ''amd64'', ''arm'', ''arm64'']), (''netbsd'', [''386'', ''amd64'']),
     (''openbsd'', [''386'', ''amd64'', ''arm'']), (''solaris'', [''amd64'']), (''windows'', [''386'', ''amd64''])]"

definition supported_vault_editions :: "string list" where
  "supported_vault_editions = [''ce'', ''oss'', ''ent'', ''ent.fips1402'', ''ent.fips1403'', ''ent.hsm'',
     ''ent.hsm.fips1402'', ''ent.hsm.fips1403'']"

definition supported_vault_arch :: "string \<Rightarrow> string \<Rightarrow> bool" where
  "supported_vault_arch platform arch =
     (case map_of supported_vault_targets platform of None \<Rightarrow> False | Some archs \<Rightarrow> arch \<in> set archs)"

definition supported_vault_platform :: "string \<Rightarrow> bool" where
  "supported_vault_platform platform \<longleftrightarrow> map_of supported_vault_targets platform \<noteq> None"

definition supported_vault_edition :: "string \<Rightarrow> bool" where
  "supported_vault_edition ed \<longleftrightarrow> ed \<in> set supported_vault_editions"

subsection \<open>The search request (aql.go)\<close>

text \<open>
  A query template is what executing it on a request gives; \<open>text/template\<close> ranges over a map in
  the order of its keys, which \<open>sorted\<close> gives. In the default template every action but the first
  trims the white space behind it.
\<close>

record aql_fields =
  aq_repo :: string
  aq_path :: string
  aq_name :: string
  aq_properties :: "(string \<times> string) list"
  aq_limit :: string

record aql_request = aql_fields +
  aq_template :: "aql_fields \<Rightarrow> (goerr, string) sum"

definition aql_match :: "string \<Rightarrow> string \<Rightarrow> string" where
  "aql_match k v = CHR 0x22 # k @ [CHR 0x22] @ '': { '' @ [CHR 0x22] @ ''$match'' @ [CHR 0x22] @ '': '' @ [CHR 0x22]
     @ v @ [CHR 0x22] @ '' }''"

definition aql_criterion :: "string \<Rightarrow> string \<Rightarrow> bool \<Rightarrow> string" where
  "aql_criterion k v more' =
     (if v = [] then [] else aql_match k v @ (if more' then '','' else []) @ [nl] @ ''  '')"

fun aql_rest :: "(string \<times> string) list \<Rightarrow> string" where
  "aql_rest [] = []"
| "aql_rest ((k, v) # ps) = '','' @ aql_match (CHR ''@'' # k) v @ [nl] @ ''  '' @ aql_rest ps"

fun aql_properties :: "(string \<times> string) list \<Rightarrow> string" where
  "aql_properties [] = []"
| "aql_properties ((k, v) # ps) = aql_match (CHR ''@'' # k) v @ [nl] @ ''  '' @ aql_rest ps"

definition aql_include :: string where
  "aql_include = ''}) .include('' @ quoted ''*'' @ '', '' @ quoted ''property.*'' @ '') .sort({'' @ quoted ''$desc''
     @ '': ['' @ quoted ''modified'' @ '']}) ''"

definition aql_query_template :: "aql_fields \<Rightarrow> (goerr, string) sum" where
  "aql_query_template f =
     (let props = aq_properties f \<noteq> [] in
      Inr (''items.find({'' @ [nl] @ ''  ''
        @ aql_criterion ''repo'' (aq_repo f) (aq_path f \<noteq> [] \<or> aq_name f \<noteq> [] \<or> props)
        @ aql_criterion ''path'' (aq_path f) (aq_name f \<noteq> [] \<or> props)
        @ aql_criterion ''name'' (aq_name f) props
        @ aql_properties (sort_key fst (aq_properties f))
        @ aql_include @ (if aq_limit f \<noteq> [] then ''.limit('' @ aq_limit f @ '')'' else [])))"

type_synonym aql_opt = "aql_request \<Rightarrow> aql_request"

definition new_aql_request :: "aql_opt list \<Rightarrow> aql_request" where
  "new_aql_request opts = apply_opts opts \<lparr>aq_repo = [], aq_path = [], aq_name = [], aq_properties = [], aq_limit = [],
     aq_template = aql_query_template\<rparr>"

definition with_aql_repo :: "string \<Rightarrow> aql_opt" where
  "with_aql_repo repo req = req\<lparr>aq_repo := repo\<rparr>"

definition with_aql_path :: "string \<Rightarrow> aql_opt" where
  "with_aql_path path req = req\<lparr>aq_path := path\<rparr>"

definition with_aql_name :: "string \<Rightarrow> aql_opt" where
  "with_aql_name name req = req\<lparr>aq_name := name\<rparr>"

definition with_aql_limit :: "string \<Rightarrow> aql_opt" where
  "with_aql_limit limit req = req\<lparr>aq_limit := limit\<rparr>"

definition with_aql_template :: "(aql_fields \<Rightarrow> (goerr, string) sum) \<Rightarrow> aql_opt" where
  "with_aql_template temp req = req\<lparr>aq_template := temp\<rparr>"

definition with_aql_property :: "string \<Rightarrow> string \<Rightarrow> aql_opt" where
  "with_aql_property k v req = req\<lparr>aq_properties := map_set k v (aq_properties req)\<rparr>"

definition with_aql_properties :: "(string \<times> string) list \<Rightarrow> aql_opt" where
  "with_aql_properties props req =
     req\<lparr>aq_properties := fold (\<lambda>(k, v) m. map_set k v m) props (aq_properties req)\<rparr>"

record aql_item =
  ai_repo :: string
  ai_path :: string
  ai_name :: string
  ai_type :: string
  ai_size :: string
  ai_sha256 :: string
  ai_properties :: "(string \<times> string) list"

definition zero_aql_item :: aql_item where
  "zero_aql_item = \<lparr>ai_repo = [], ai_path = [], ai_name = [], ai_type = [], ai_size = [], ai_sha256 = [], ai_properties = []\<rparr>"

definition dec_aql_item :: "aql_item decoder" where
  "dec_aql_item = dec_struct [field ''repo'' dec_string ai_repo ai_repo_update, field ''path'' dec_string ai_path ai_path_update,
     field ''name'' dec_string ai_name ai_name_update, field ''type'' dec_string ai_type ai_type_update,
     field ''size'' dec_number ai_size ai_size_update, field ''sha256'' dec_string ai_sha256 ai_sha256_update,
     field ''properties'' (dec_slice ([], []) (dec_struct [field ''key'' dec_string fst apfst,
       field ''value'' dec_string snd apsnd])) ai_properties ai_properties_update]"

record aql_response =
  ar_results :: "aql_item list"

definition new_aql_response :: aql_response where
  "new_aql_response = \<lparr>ar_results = []\<rparr>"

definition dec_aql_response :: "aql_response decoder" where
  "dec_aql_response = dec_struct [field ''results'' (dec_slice zero_aql_item dec_aql_item) ar_results ar_results_update]"

subsection \<open>The search (client.go)\<close>

record aql_client =
  ac_host :: string
  ac_username :: string
  ac_token :: string

type_synonym aql_client_opt = "aql_client \<Rightarrow> aql_client"

definition new_aql_client :: "aql_client_opt list \<Rightarrow> aql_client" where
  "new_aql_client opts = apply_opts opts \<lparr>ac_host = [], ac_username = [], ac_token = []\<rparr>"

definition with_aql_host :: "string \<Rightarrow> aql_client_opt" where
  "with_aql_host domain c = c\<lparr>ac_host := domain\<rparr>"

definition with_aql_username :: "string \<Rightarrow> aql_client_opt" where
  "with_aql_username u c = c\<lparr>ac_username := u\<rparr>"

definition with_aql_token :: "string \<Rightarrow> aql_client_opt" where
  "with_aql_token t c = c\<lparr>ac_token := t\<rparr>"

definition aql_post :: "'w http_lib \<Rightarrow> aql_client \<Rightarrow> string \<Rightarrow> string \<Rightarrow> http_request" where
  "aql_post H c url query = \<lparr>rq_method = ''POST'', rq_url = url,
     rq_headers = [(''Content-Type'', ''text/plain''), (''Authorization'',
       if ac_username c = [] then ''Bearer '' @ ac_token c else ht_basic_auth H (ac_username c) (ac_token c))],
     rq_body = query\<rparr>"

text \<open>The answer of the service, or the error of a step of the exchange.\<close>

definition aql_exchange ::
  "'w http_lib \<Rightarrow> aql_client \<Rightarrow> string \<Rightarrow> string \<Rightarrow> 'w \<Rightarrow> (goerr, string) sum \<times> 'w" where
  "aql_exchange H c url query w =
     (case ht_request H ''POST'' url of
        Some e \<Rightarrow> (Inl (ErrWrap ''generating artifactory search request: '' e []), w)
      | None \<Rightarrow>
          (case ht_do H (aql_post H c url query) w of
             (Inl e, w1) \<Rightarrow> (Inl (ErrWrap ''executing artifactory search query: '' e []), w1)
           | (Inr res, w1) \<Rightarrow>
               (case read_all res of
                  Inl e \<Rightarrow> (Inl (ErrWrap ''reading artifactory search query response body: '' e []), w1)
                | Inr body \<Rightarrow>
                    if rs_code res \<noteq> http_ok
                    then (Inl (ErrNew (''executing artifactory search query: '' @ rs_status res @ '' - '' @ body)), w1)
                    else (Inr body, w1))))"

text \<open>A body that is null makes the pointer to the response nil, and its results are asked for.\<close>

definition search_aql ::
  "'w http_lib \<Rightarrow> aql_client \<Rightarrow> aql_request \<Rightarrow> 'w \<Rightarrow> ((aql_response option \<times> error) \<times> 'w) go" where
  "search_aql H c req w =
     (let failed = (\<lambda>e w. Some ((Some new_aql_response, Some e), w)) in
      case ht_parse_url H (ac_host c @ ''/api/search/aql'') of
        Inl e \<Rightarrow> failed (ErrWrap ''generating search url: '' e []) w
      | Inr url \<Rightarrow>
          (case aq_template req (aql_fields.truncate req) of
             Inl e \<Rightarrow> failed (ErrWrap ''generating AQL query template: '' e []) w
           | Inr query \<Rightarrow>
               (case aql_exchange H c url query w of
                  (Inl e, w1) \<Rightarrow> failed e w1
                | (Inr body, w1) \<Rightarrow>
                    (case unmarshal (dec_ptr new_aql_response dec_aql_response) body (Some new_aql_response) of
                       (res, Some e) \<Rightarrow>
                         Some ((res, Some (ErrWrap ''marshaling artifactory search query response: '' e [])), w1)
                     | (res, None) \<Rightarrow> do {
                         r \<leftarrow> deref res;
                         Some (if ar_results r = []
                           then ((None, Some (ErrNew (''no artifactory item found for host: ['' @ ac_host c
                             @ ''] with query:'' @ [nl] @ query))), w1)
                           else ((Some r, None), w1))
                       }))))"

subsection \<open>Properties\<close>

lemma contains_str_iff: "contains_str s t \<longleftrightarrow> (\<exists>a b. s = a @ t @ b)"
proof (induction s)
  case (Cons c s)
  show ?case
  proof
    assume "contains_str (c # s) t"
    then consider "has_prefix (c # s) t" | "contains_str s t" by auto
    then show "\<exists>a b. c # s = a @ t @ b"
    proof cases
      case 1
      then have "c # s = [] @ t @ drop (length t) (c # s)"
        by (metis append_Nil append_take_drop_id has_prefix_def)
      then show ?thesis by blast
    next
      case 2
      with Cons.IH obtain a b where "s = a @ t @ b" by blast
      then have "c # s = (c # a) @ t @ b" by simp
      then show ?thesis by blast
    qed
  next
    assume "\<exists>a b. c # s = a @ t @ b"
    then obtain a b where ab: "c # s = a @ t @ b" by blast
    show "contains_str (c # s) t"
    proof (cases a)
      case Nil
      with ab have "has_prefix (c # s) t" by (simp add: has_prefix_def)
      then show ?thesis by simp
    next
      case (Cons d a')
      with ab have "s = a' @ t @ b" by simp
      with Cons.IH show ?thesis by auto
    qed
  qed
qed auto

text \<open>A list of sums as the releases have it: a sum, two spaces and the name of the file in each line.\<close>

definition sums_line :: "string \<times> string \<Rightarrow> string" where
  "sums_line e = fst e @ ''  '' @ snd e"

definition sums_text :: "(string \<times> string) list \<Rightarrow> string" where
  "sums_text es = concat (map line (map sums_line es))"

definition plain_entry :: "string \<times> string \<Rightarrow> bool" where
  "plain_entry e \<longleftrightarrow> CHR '' '' \<notin> set (fst e) \<and> nl \<notin> set (fst e @ snd e) \<and> cr \<notin> set (fst e @ snd e)
     \<and> length (fst e) + length (snd e) < 65534"

lemma plain_sums_line: "plain_entry e \<Longrightarrow> nl \<notin> set (sums_line e) \<and> cr \<notin> set (sums_line e) \<and> scan_fits (sums_line e)"
  by (auto simp: plain_entry_def sums_line_def scan_fits_def)

lemma scan_sums:
  assumes "list_all plain_entry es"
  shows "scan_lines (sums_text es) = map sums_line es" "scan_err (sums_text es) = None"
proof -
  have p: "nl \<notin> set l \<and> cr \<notin> set l \<and> scan_fits l" if "l \<in> set (map sums_line es)" for l
    using that assms by (auto simp: list_all_iff dest: plain_sums_line)
  then show "scan_lines (sums_text es) = map sums_line es"
    unfolding sums_text_def by (intro scan_lines_join) (auto simp: scan_fits_def)
  have "raw_lines (sums_text es) = map sums_line es"
    unfolding sums_text_def using p by (intro raw_lines_join) auto
  with p show "scan_err (sums_text es) = None" by (simp add: scan_err_def list_all_iff)
qed

lemma digest_of_line: "plain_entry e \<Longrightarrow> hd (split_on (CHR '' '') (sums_line e)) = fst e"
  using split_on_append_sep [of "CHR '' ''" "fst e" "CHR '' '' # snd e"] by (simp add: plain_entry_def sums_line_def)

lemma find_digest:
  assumes "list_all plain_entry es" "e \<in> set es" "contains_str (sums_line e) name"
  obtains e' where "e' \<in> set es" "contains_str (sums_line e') name"
    "release_sha256_of name (sums_text es) = (fst e', None)"
proof -
  obtain m where m: "List.find (\<lambda>l. contains_str l name) (map sums_line es) = Some m"
    using assms(2,3) by (cases "List.find (\<lambda>l. contains_str l name) (map sums_line es)") (auto simp: find_None_iff)
  then have "m \<in> set (map sums_line es)" "contains_str m name"
    by (auto simp: find_Some_iff)
  then obtain e' where "e' \<in> set es" "m = sums_line e'" "contains_str (sums_line e') name" by auto
  with assms(1) m show thesis
    by (intro that) (auto simp: release_sha256_of_def scan_sums digest_of_line list_all_iff)
qed

text \<open>
  Of a list of sums as the releases have it, a line of the
  sum, two spaces and the name of a file each, SHA256 returns the sum of the artifact of the release
  when no line of another sum has the name of the artifact in it, and an error when no line has it.
\<close>

theorem release_sha256_found:
  assumes "list_all plain_entry es" "\<forall>e \<in> set es. contains_str (sums_line e) name \<longrightarrow> fst e = digest"
  shows "((d, name) \<in> set es \<longrightarrow> release_sha256_of name (sums_text es) = (digest, None))
    \<and> ((\<forall>e \<in> set es. \<not> contains_str (sums_line e) name)
        \<longrightarrow> release_sha256_of name (sums_text es) = ([], Some (ErrNew (''unable to locate SHA256Sum for '' @ name))))"
proof (intro conjI impI)
  assume d: "(d, name) \<in> set es"
  have "contains_str (sums_line (d, name)) name"
    unfolding contains_str_iff by (intro exI [of _ "d @ ''  ''"] exI [of _ "[]"]) (simp add: sums_line_def)
  with find_digest [OF assms(1) d] assms(2) show "release_sha256_of name (sums_text es) = (digest, None)" by metis
next
  assume "\<forall>e \<in> set es. \<not> contains_str (sums_line e) name"
  then have "List.find (\<lambda>l. contains_str l name) (map sums_line es) = None" by (auto simp: find_None_iff)
  with assms(1) show "release_sha256_of name (sums_text es) = ([], Some (ErrNew (''unable to locate SHA256Sum for '' @ name)))"
    by (simp add: release_sha256_of_def scan_sums)
qed

theorem release_sha256_found_witness:
  "release_sha256_of ''v_1_l_a.zip'' (sums_text [(''12'', ''v_1_d_a.zip''), (''ab'', ''v_1_l_a.zip'')]) = (''ab'', None)"
proof -
  let ?es = "[(''12'', ''v_1_d_a.zip''), (''ab'', ''v_1_l_a.zip'')]"
  have "list_all plain_entry ?es" "\<forall>e \<in> set ?es. contains_str (sums_line e) ''v_1_l_a.zip'' \<longrightarrow> fst e = ''ab''"
    by (simp_all add: plain_entry_def sums_line_def has_prefix_def)
  from release_sha256_found [OF this, of "''ab''"] show ?thesis by simp
qed

text \<open>
  A search that returns without error found at least one item, in the body of an answer of
  status 200 to the query of the template of the request; a body that is null makes it panic.
\<close>

theorem search_aql_outcome:
  assumes "ht_parse_url H (ac_host c @ ''/api/search/aql'') = Inr url"
    and "aq_template req (aql_fields.truncate req) = Inr query"
    and "aql_exchange H c url query w = (Inr body, w1)"
  shows "(parse_json body = Some JNull \<longrightarrow> search_aql H c req w = None)
    \<and> (\<forall>r. search_aql H c req w = Some ((r, None), w1) \<longrightarrow>
        (\<exists>res. r = Some res \<and> ar_results res \<noteq> []
          \<and> unmarshal (dec_ptr new_aql_response dec_aql_response) body (Some new_aql_response) = (Some res, None)))"
proof -
  let ?u = "unmarshal (dec_ptr new_aql_response dec_aql_response) body (Some new_aql_response)"
  have eval: "search_aql H c req w = (case ?u of
      (res, Some e) \<Rightarrow> Some ((res, Some (ErrWrap ''marshaling artifactory search query response: '' e [])), w1)
    | (res, None) \<Rightarrow> deref res \<bind> (\<lambda>r. Some (if ar_results r = []
        then ((None, Some (ErrNew (''no artifactory item found for host: ['' @ ac_host c @ ''] with query:'' @ [nl] @ query))), w1)
        else ((Some r, None), w1))))"
    by (simp only: search_aql_def Let_def assms sum.case prod.case)
  have "?u = (None, None)" if "parse_json body = Some JNull"
    using that by (simp add: unmarshal_def dec_ptr_def)
  then show ?thesis
    by (auto simp: eval deref_def bind_eq_Some_iff split: prod.splits option.splits if_splits)
qed

end
