(* ===== verification/BundleInstall.thy ===== *)
theory BundleInstall
  imports ResourceState Package Releases
begin

text \<open>
  The resource enos_bundle_install (\<open>internal/plugin/resource_bundle_install.go\<close>): an artifact
  from a path, a release or Artifactory is made a package install request, and installed on the
  host. The HTTP client, the files and the working directory are parameters.
\<close>

subsection \<open>The state\<close>

record 'v bundle_state =
  bd_id :: tf_string
  bd_path :: tf_string
  bd_destination :: tf_string
  bd_product :: tf_string
  bd_version :: tf_string
  bd_edition :: tf_string
  bd_username :: tf_string
  bd_token :: tf_string
  bd_url :: tf_string
  bd_sha256 :: tf_string
  bd_transport :: "'v embedded"
  bd_getter :: tf_string
  bd_installer :: tf_string
  bd_name :: tf_string

definition new_bundle_state :: "'v bundle_state" where
  "new_bundle_state = \<lparr>bd_id = new_tf [], bd_path = new_tf [], bd_destination = new_tf [],
     bd_product = new_tf [], bd_version = new_tf [], bd_edition = new_tf [], bd_username = new_tf [],
     bd_token = new_tf [], bd_url = new_tf [], bd_sha256 = new_tf [], bd_transport = new_embedded,
     bd_getter = new_tf [], bd_installer = new_tf [], bd_name = new_tf []\<rparr>"

definition bundle_rows :: "'v bundle_state \<Rightarrow> (string \<times> 'v tf_any) list" where
  "bundle_rows s = [(''id'', TfString (bd_id s)), (''destination'', TfString (bd_destination s)),
     (''path'', TfString (bd_path s)), (''getter'', TfString (bd_getter s)),
     (''installer'', TfString (bd_installer s)), (''name'', TfString (bd_name s))]"

fun set_bundle_rows :: "'v tf_any list \<Rightarrow> 'v bundle_state \<Rightarrow> 'v bundle_state" where
  "set_bundle_rows [i, dest, path, getter, installer, name] s =
     s\<lparr>bd_id := any_string i, bd_destination := any_string dest, bd_path := any_string path,
       bd_getter := any_string getter, bd_installer := any_string installer, bd_name := any_string name\<rparr>"
| "set_bundle_rows _ s = s"

definition release_rows :: "'v bundle_state \<Rightarrow> (string \<times> 'v tf_any) list" where
  "release_rows s = [(''product'', TfString (bd_product s)), (''version'', TfString (bd_version s)),
     (''edition'', TfString (bd_edition s))]"

fun set_release_rows :: "'v tf_any list \<Rightarrow> 'v bundle_state \<Rightarrow> 'v bundle_state" where
  "set_release_rows [prd, ver, ed] s =
     s\<lparr>bd_product := any_string prd, bd_version := any_string ver, bd_edition := any_string ed\<rparr>"
| "set_release_rows _ s = s"

definition artifactory_rows :: "'v bundle_state \<Rightarrow> (string \<times> 'v tf_any) list" where
  "artifactory_rows s = [(''username'', TfString (bd_username s)), (''token'', TfString (bd_token s)),
     (''url'', TfString (bd_url s)), (''sha256'', TfString (bd_sha256 s))]"

fun set_artifactory_rows :: "'v tf_any list \<Rightarrow> 'v bundle_state \<Rightarrow> 'v bundle_state" where
  "set_artifactory_rows [usr, tok, url, sha] s =
     s\<lparr>bd_username := any_string usr, bd_token := any_string tok, bd_url := any_string url, bd_sha256 := any_string sha\<rparr>"
| "set_artifactory_rows _ s = s"

text \<open>The object of an optional block is read when the value has one that is known and not null.\<close>

definition read_object ::
  "('t, 'v) tf_lib \<Rightarrow> ('v bundle_state \<Rightarrow> (string \<times> 'v tf_any) list) \<Rightarrow> ('v tf_any list \<Rightarrow> 'v bundle_state \<Rightarrow> 'v bundle_state)
    \<Rightarrow> (string \<times> 'v) list \<Rightarrow> string \<Rightarrow> ('v bundle_state \<times> error) \<times> 't heap \<Rightarrow> (('v bundle_state \<times> error) \<times> 't heap) go" where
  "read_object L rows set_rows vals name r =
     (case r of
        ((s, Some e), h) \<Rightarrow> Some r
      | ((s, None), h) \<Rightarrow>
          (case map_of vals name of
             None \<Rightarrow> Some r
           | Some v \<Rightarrow>
               if val_known L v \<and> \<not> val_null L v then do {
                 ((props, _, e), h1) \<leftarrow> map_attributes_to L (\<lambda>v u. (u, None)) v
                   (map (apsnd (PropTF :: 'v tf_any \<Rightarrow> ('v, unit) attr_prop)) (rows s)) h;
                 Some ((set_rows (map (prop_attr o snd) props) s, e), h1)
               }
               else Some r))"

definition bundle_from_value ::
  "('t, 'v) tf_lib \<Rightarrow> 'p path_lib \<Rightarrow> 'v \<Rightarrow> 'v bundle_state \<Rightarrow> 't heap
    \<Rightarrow> (('v bundle_state \<times> error) \<times> 't heap) go" where
  "bundle_from_value L P val s h = do {
     ((props, vals, e), h1) \<leftarrow> map_attributes_to L (\<lambda>v u. (u, None)) val
       (map (apsnd (PropTF :: 'v tf_any \<Rightarrow> ('v, unit) attr_prop)) (bundle_rows s)) h;
     r1 \<leftarrow> read_object L release_rows set_release_rows vals ''release''
       ((set_bundle_rows (map (prop_attr o snd) props) s, e), h1);
     r2 \<leftarrow> read_object L artifactory_rows set_artifactory_rows vals ''artifactory'' r1;
     (case r2 of
        ((s2, Some e), h2) \<Rightarrow> Some r2
      | ((s2, None), h2) \<Rightarrow>
          if val_known L (lookup_value L vals ''transport'') then do {
            ((em, e), h3) \<leftarrow> embedded_from_value L P (bd_transport s2) (lookup_value L vals ''transport'') h2;
            Some ((s2\<lparr>bd_transport := em\<rparr>, e), h3)
          } else Some r2)
   }"

definition rows_type :: "('t, 'v) tf_lib \<Rightarrow> (string \<times> 'v tf_any) list \<Rightarrow> 't heap \<Rightarrow> 't \<times> 't heap" where
  "rows_type L rows h = object_of L [] (map (apsnd (flat_type L)) rows) h"

definition bundle_type :: "('t, 'v) tf_lib \<Rightarrow> 'v bundle_state \<Rightarrow> 't heap \<Rightarrow> 't \<times> 't heap" where
  "bundle_type L s h =
     (case rows_type L (artifactory_rows s) h of (art, h1) \<Rightarrow>
      case rows_type L (release_rows s) h1 of (rel, h2) \<Rightarrow>
        object_of L [] (map (apsnd (flat_type L)) (bundle_rows s)
          @ [(''artifactory'', art), (''release'', rel), (''transport'', ty_dynamic L)]) h2)"

definition set_or_unknown :: "tf_string list \<Rightarrow> bool" where
  "set_or_unknown args \<longleftrightarrow> (\<exists>a \<in> set args. is_unknown a \<or> snd (tf_get a))"

text \<open>An optional block none of whose attributes is set is the nil object. The digest is not asked for.\<close>

definition optional_object ::
  "('t, 'v) tf_lib \<Rightarrow> bool \<Rightarrow> (string \<times> 'v tf_any) list \<Rightarrow> 't heap \<Rightarrow> ('v \<times> 't heap) go" where
  "optional_object L given rows h =
     (case rows_type L rows h of (t, h1) \<Rightarrow>
        if given then do {
          (kvs, h2) \<leftarrow> attr_values L rows h1;
          v \<leftarrow> new_value L h2 t (MapValue kvs);
          Some (v, h2)
        }
        else do { v \<leftarrow> new_value L h1 t NilValue; Some (v, h1) })"

definition bundle_value :: "('t, 'v) tf_lib \<Rightarrow> 'v bundle_state \<Rightarrow> 't heap \<Rightarrow> ('v \<times> 't heap) go" where
  "bundle_value L s h =
     (case bundle_type L s h of (t, h1) \<Rightarrow> do {
        (kvs, h2) \<leftarrow> attr_values L (bundle_rows s) h1;
        (art, h3) \<leftarrow> optional_object L (set_or_unknown [bd_username s, bd_token s, bd_url s]) (artifactory_rows s) h2;
        (rel, h4) \<leftarrow> optional_object L (set_or_unknown [bd_product s, bd_version s, bd_edition s]) (release_rows s) h3;
        (tr, h5) \<leftarrow> embedded_value L (bd_transport s) h4;
        v \<leftarrow> new_value L h5 t (MapValue (kvs @ [(''artifactory'', art), (''release'', rel), (''transport'', tr)]));
        Some (v, h5)
      })"

subsection \<open>Validation\<close>

text \<open>The working directory of the provider, and the errors of \<open>os.Stat\<close> and of \<open>url.Parse\<close>.\<close>

record 'w bundle_env =
  be_cwd :: "'w \<Rightarrow> (goerr, string) sum"
  be_stat :: "string \<Rightarrow> 'w \<Rightarrow> error"
  be_http :: "'w http_lib"
  be_package :: "'w package_env"

definition path_abs :: "'w bundle_env \<Rightarrow> string \<Rightarrow> 'w \<Rightarrow> (goerr, string) sum" where
  "path_abs B p w =
     (if has_prefix p [slash] then Inr (path_clean p)
      else (case be_cwd B w of Inl e \<Rightarrow> Inl e | Inr dir \<Rightarrow> Inr (path_join [dir, p])))"

definition install_sources :: "'v bundle_state \<Rightarrow> nat" where
  "install_sources s = length (filter (\<lambda>a. snd (tf_get a)) [bd_path s, bd_product s, bd_url s])"

definition needs_destination :: "string \<Rightarrow> 'v bundle_state \<Rightarrow> bool" where
  "needs_destination file s \<longleftrightarrow> installer_for_file file = Some PackageInstallInstallerZip \<and> \<not> snd (tf_get (bd_destination s))"

definition validate_path :: "'p path_lib \<Rightarrow> 'w bundle_env \<Rightarrow> 'v bundle_state \<Rightarrow> 'w \<Rightarrow> error" where
  "validate_path P B s w =
     (if \<not> snd (tf_get (bd_path s)) then None
      else (case path_abs B (raw_val (bd_path s)) w of
          Inl e \<Rightarrow> Some (validation_error P ''unable to expand path'' [''path''])
        | Inr p \<Rightarrow>
            if has_suffix p [slash] then Some (validation_error P ''path must not be a directory'' [''path''])
            else if be_stat B (path_dir p) w \<noteq> None
            then Some (validation_error P ''path base directory does not exist'' [''path''])
            else if needs_destination (raw_val (bd_path s)) s
            then Some (validation_error P ''you must set a destination for a local copy install of a zip bundle'' [''destination''])
            else None))"

definition validate_release :: "'p path_lib \<Rightarrow> 'v bundle_state \<Rightarrow> error" where
  "validate_release P s =
     (if \<not> snd (tf_get (bd_product s)) then None
      else if \<not> snd (tf_get (bd_destination s))
      then Some (validation_error P ''you must set a destination for a releases install'' [''destination''])
      else if raw_val (bd_product s) \<noteq> ''vault'' then None
      else if \<not> snd (tf_get (bd_edition s))
      then Some (validation_error P ''you must supply a vault edition'' [''release'', ''edition''])
      else if \<not> supported_vault_edition (raw_val (bd_edition s))
      then Some (validation_error P (''unsupported vault edition: '' @ raw_val (bd_edition s)) [''release'', ''edition''])
      else None)"

definition validate_artifactory :: "'p path_lib \<Rightarrow> 'w bundle_env \<Rightarrow> 'p error_view \<Rightarrow> 'v bundle_state \<Rightarrow> error" where
  "validate_artifactory P B ev s =
     (if \<not> snd (tf_get (bd_url s)) then None
      else (case pe_url_path (be_package B) (raw_val (bd_url s)) of
          (_, Some e) \<Rightarrow> Some (validation_error P
            (ev_text ev (ErrWrap ''failed to parse artifactory URL due to: '' e [])) [''artifactory'', ''url''])
        | (_, None) \<Rightarrow>
            if needs_destination (raw_val (bd_url s)) s
            then Some (validation_error P ''you must set a destination for an artifactory install of a zip bundle'' [''destination''])
            else None))"

definition no_source :: string where
  "no_source = ''no install source configured, you must configure one of [\"path\", \"release\", or \"artifactory\"]''"

definition many_sources :: string where
  "many_sources = ''only one of the install sources [\"path\", \"release\", or \"artifactory\"] can be configured''"

definition bundle_validate ::
  "'p path_lib \<Rightarrow> 'w bundle_env \<Rightarrow> 'p error_view \<Rightarrow> 'w go_ctx \<Rightarrow> 'v bundle_state \<Rightarrow> 'w \<Rightarrow> error" where
  "bundle_validate P B ev ctx s w =
     (case ctx_err ctx w of
        Some e \<Rightarrow> Some e
      | None \<Rightarrow>
     (case check_k8s_not_configured (bd_transport s) ''enos_bundle_install'' of
        Some e \<Rightarrow> Some e
      | None \<Rightarrow>
          if install_sources s = 0 then Some (validation_error P no_source [])
          else if install_sources s \<ge> 2 then Some (validation_error P many_sources [])
          else (case validate_path P B s w of
              Some e \<Rightarrow> Some e
            | None \<Rightarrow> (case validate_release P s of Some e \<Rightarrow> Some e | None \<Rightarrow> validate_artifactory P B ev s))))"

definition bundle_ops ::
  "('t, 'v) tf_lib \<Rightarrow> 'p path_lib \<Rightarrow> 'w bundle_env \<Rightarrow> 'p error_view \<Rightarrow> ('w, 'v bundle_state, 't, 'v) state_ops" where
  "bundle_ops L P B ev = \<lparr>so_type = bundle_type L, so_value = bundle_value L, so_from = bundle_from_value L P,
     so_validate = bundle_validate P B ev, so_embedded = bd_transport,
     so_set_embedded = (\<lambda>em s. s\<lparr>bd_transport := em\<rparr>)\<rparr>"

subsection \<open>Installing\<close>

definition package_getter_of :: "'v bundle_state \<Rightarrow> (goerr, package_getter) sum" where
  "package_getter_of s =
     (if snd (tf_get (bd_path s)) then Inr PackageInstallGetterCopy
      else if snd (tf_get (bd_product s)) \<and> snd (tf_get (bd_version s)) then Inr PackageInstallGetterReleases
      else if snd (tf_get (bd_url s)) \<and> snd (tf_get (bd_token s)) \<and> snd (tf_get (bd_sha256 s))
      then Inr PackageInstallGetterArtifactory
      else Inl err_getter_unknown)"

text \<open>The options of each getter, or the error that keeps them from being made.\<close>

definition copy_options :: "'p path_lib \<Rightarrow> 'v bundle_state \<Rightarrow> (goerr, 'w package_opt list) sum" where
  "copy_options P s =
     (let path = raw_val (bd_path s) in
      if \<not> snd (tf_get (bd_path s))
      then Inl (validation_error P ''you must set a package path for a local copy install'' [''path''])
      else if needs_destination path s
      then Inl (validation_error P ''you must set a destination for a local copy install'' [''destination''])
      else Inr ((if installer_for_file path = Some PackageInstallInstallerZip
            then [with_package_destination (raw_val (bd_destination s))] else [])
          @ [with_package_copy_path path, with_package_installer (installer_for_file path)]))"

definition artifactory_options :: "'p path_lib \<Rightarrow> 'v bundle_state \<Rightarrow> (goerr, 'w package_opt list) sum" where
  "artifactory_options P s =
     (let url = raw_val (bd_url s); installer = installer_for_file (path_base url); token = raw_val (bd_token s) in
      if \<not> snd (tf_get (bd_url s)) then Inl (validation_error P ''you must supply an artifactory url'' [''artifactory'', ''url''])
      else if needs_destination (path_base url) s
      then Inl (validation_error P ''you must set a destination for a local copy install'' [''destination''])
      else if \<not> snd (tf_get (bd_token s))
      then Inl (validation_error P ''you must supply an artifactory token'' [''artifactory'', ''token''])
      else if \<not> snd (tf_get (bd_sha256 s))
      then Inl (validation_error P ''you must supply an artifactory sha256'' [''artifactory'', ''sha256''])
      else Inr ((if installer = Some PackageInstallInstallerZip
            then [with_package_destination (raw_val (bd_destination s))] else [])
          @ [with_package_download_opts ([with_download_url url, with_download_sha256 (raw_val (bd_sha256 s))]
              @ (if snd (tf_get (bd_username s))
                 then [with_download_auth_user (raw_val (bd_username s)), with_download_auth_password token]
                 else [with_download_auth_token token])),
             with_package_installer installer]))"

definition platform_request :: "duration \<Rightarrow> 'w target_request" where
  "platform_request ovf = new_target_request ovf
     [with_target_request_retry_opts [with_interval_func (interval_exponential ovf (2 * second))]]"

definition release_of :: "'v bundle_state \<Rightarrow> string \<Rightarrow> string \<Rightarrow> release" where
  "release_of s platform arch = fst (new_release [with_release_product (raw_val (bd_product s)),
     with_release_version (raw_val (bd_version s)), with_release_edition (raw_val (bd_edition s)),
     with_release_platform platform, with_release_arch arch])"

definition release_options ::
  "'p path_lib \<Rightarrow> 'w bundle_env \<Rightarrow> 'w go_ctx \<Rightarrow> 'w transport \<Rightarrow> 'v bundle_state \<Rightarrow> 'w
    \<Rightarrow> ((goerr, 'w package_opt list) sum \<times> 'w) go" where
  "release_options P B ctx tr s w =
     (let req = platform_request (pow_overflow ctx);
          failed = (\<lambda>what e. Inl (attribute_path_error P (ErrWrap (''failed to determine target host '' @ what @ '', due to: '') e [])
            [''transport''])) in
      if \<not> snd (tf_get (bd_destination s))
      then Some (Inl (validation_error P ''you must set a destination for a releases install'' [''destination'']), w)
      else if \<not> snd (tf_get (bd_product s))
      then Some (Inl (validation_error P ''you must set a release product to install from releases.hashicorp.com''
        [''release'', ''product'']), w)
      else if \<not> snd (tf_get (bd_version s))
      then Some (Inl (validation_error P ''you must set a release version to install from releases.hashicorp.com''
        [''release'', ''version'']), w)
      else do {
        ((platform, e), _, w1) \<leftarrow> target_platform ctx tr req w;
        (case e of
           Some e' \<Rightarrow> Some (failed ''plaform'' e', w1)
         | None \<Rightarrow> do {
             ((arch, e), _, w2) \<leftarrow> target_architecture ctx tr req w1;
             (case e of
                Some e' \<Rightarrow> Some (failed ''architecture'' e', w2)
              | None \<Rightarrow>
                  if \<not> snd (tf_get (bd_edition s))
                  then Some (Inl (validation_error P ''you must supply a release edition'' [''release'', ''edition'']), w2)
                  else (case release_sha256 (be_http B) (release_of s platform arch) w2 of
                      ((_, Some e'), w3) \<Rightarrow> Some (Inl (ErrWrap ''failed to determine release SHA, due to: '' e' []), w3)
                    | ((sha, None), w3) \<Rightarrow> Some (Inr
                        [with_package_destination (raw_val (bd_destination s)),
                         with_package_download_opts [with_download_url (bundle_url (release_of s platform arch)),
                           with_download_sha256 sha],
                         with_package_installer (Some PackageInstallInstallerZip)], w3)))
           })
      })"

definition bundle_options ::
  "'p path_lib \<Rightarrow> 'w bundle_env \<Rightarrow> 'w go_ctx \<Rightarrow> 'w transport \<Rightarrow> package_getter \<Rightarrow> 'v bundle_state \<Rightarrow> 'w
    \<Rightarrow> ((goerr, 'w package_opt list) sum \<times> 'w) go" where
  "bundle_options P B ctx tr g s w =
     (case g of
        PackageInstallGetterCopy \<Rightarrow> Some (copy_options P s, w)
      | PackageInstallGetterReleases \<Rightarrow> release_options P B ctx tr s w
      | PackageInstallGetterArtifactory \<Rightarrow> Some (artifactory_options P s, w)
      | PackageInstallGetterRepository \<Rightarrow> Some (Inl (ErrSentinel ''package install get is unsupported''), w))"

definition set_installed :: "package_response \<Rightarrow> 'v bundle_state \<Rightarrow> 'v bundle_state" where
  "set_installed r s = s\<lparr>bd_name := tf_set (pr_name r) (bd_name s), bd_getter := tf_set (pr_getter r) (bd_getter s),
     bd_installer := tf_set (pr_installer r) (bd_installer s)\<rparr>"

definition bundle_install ::
  "'p path_lib \<Rightarrow> 'w bundle_env \<Rightarrow> 'w go_ctx \<Rightarrow> 'w transport \<Rightarrow> 'v bundle_state \<Rightarrow> 'w
    \<Rightarrow> ((error \<times> 'v bundle_state) \<times> 'w) go" where
  "bundle_install P B ctx tr s w =
     (case package_getter_of s of
        Inl e \<Rightarrow> Some ((Some (ErrWrap ''failed to determine which package getter to use, due to: '' e []), s), w)
      | Inr g \<Rightarrow> do {
          (opts, w1) \<leftarrow> bundle_options P B ctx tr g s w;
          (case opts of
             Inl e \<Rightarrow> Some ((Some e, s), w1)
           | Inr os \<Rightarrow> do {
               ((res, e), _, w2) \<leftarrow> package_install (be_package B) ctx tr
                 (new_package_request (with_package_getter (Some g) # os)) w1;
               (case e of
                  Some e' \<Rightarrow> Some ((Some e', s), w2)
                | None \<Rightarrow> do { r \<leftarrow> deref res; Some ((None, set_installed r s), w2) })
             })
        })"

subsection \<open>Planning and applying\<close>

text \<open>The edition of a product is ce unless it is known, so also when it is not known yet.\<close>

definition default_edition :: "'v bundle_state \<Rightarrow> 'v bundle_state" where
  "default_edition s = (if snd (tf_get (bd_product s)) \<and> \<not> snd (tf_get (bd_edition s))
     then s\<lparr>bd_edition := tf_set ''ce'' (bd_edition s)\<rparr> else s)"

definition bundle_computed :: "'v bundle_state \<Rightarrow> 'v bundle_state \<Rightarrow> 'v bundle_state" where
  "bundle_computed prior s = default_edition (if snd (tf_get (bd_id s)) then s
     else s\<lparr>bd_id := set_unknown (bd_id s), bd_getter := set_unknown (bd_getter s),
       bd_installer := set_unknown (bd_installer s), bd_name := set_unknown (bd_name s)\<rparr>)"

definition bundle_plan ::
  "('t, 'v) tf_lib \<Rightarrow> 'p path_lib \<Rightarrow> 'w bundle_env \<Rightarrow> 'p error_view \<Rightarrow> 'w go_ctx
    \<Rightarrow> 'v provider_config \<Rightarrow> ('v, 'd) change_request \<Rightarrow> 't heap \<Rightarrow> 'w
    \<Rightarrow> (('v bundle_state \<times> 'p diagnostic list \<times> 'p list) \<times> 't heap) go" where
  "bundle_plan L P B ev ctx c req =
     plan_resource L P (bundle_ops L P B ev) bundle_computed ev ctx c req new_bundle_state new_bundle_state"

text \<open>Each state has one failure handler.\<close>

definition bundle_handlers :: nat where
  "bundle_handlers = 1"

definition bundle_act ::
  "'p path_lib \<Rightarrow> 'w bundle_env \<Rightarrow> 'p error_view \<Rightarrow> 'w go_ctx \<Rightarrow> 'v bundle_state \<Rightarrow> 'v bundle_state
    \<Rightarrow> 'w transport \<Rightarrow> 'w \<Rightarrow> (('v bundle_state \<times> 'p diagnostic list) \<times> 'w) go" where
  "bundle_act P B ev ctx prior s tr w =
     (if deeply_equal bundle_handlers prior s then Some ((s, []), w)
      else do {
        ((e, s1), w1) \<leftarrow> bundle_install P B ctx tr s w;
        Some ((s1, op_diagnostic ev ''Install Error'' e), w1)
      })"

definition bundle_apply ::
  "('t, 'v) tf_lib \<Rightarrow> 'p path_lib \<Rightarrow> ('v, 't, 'd) wire \<Rightarrow> 'w bundle_env \<Rightarrow> 'p error_view \<Rightarrow> 'w go_ctx
    \<Rightarrow> ('w, 'w transport) dialer \<Rightarrow> 'v provider_config \<Rightarrow> ('v, 'd) change_request \<Rightarrow> 't heap \<Rightarrow> 'w
    \<Rightarrow> (('v bundle_state \<times> 'p diagnostic list) \<times> 't heap \<times> 'w) go" where
  "bundle_apply L P wr B ev ctx dial c req = apply_resource L P wr (bundle_ops L P B ev)
     (\<lambda>s. s\<lparr>bd_id := tf_set ''static'' (bd_id s)\<rparr>) (bundle_act P B ev ctx) ev ctx dial c req new_bundle_state new_bundle_state"

subsection \<open>The contract of the state\<close>

lemma set_rows_transport [simp]: "bd_transport (set_bundle_rows xs s) = bd_transport s"
  "bd_transport (set_release_rows xs s) = bd_transport s" "bd_transport (set_artifactory_rows xs s) = bd_transport s"
proof -
  show "bd_transport (set_bundle_rows xs s) = bd_transport s" by (induction xs s rule: set_bundle_rows.induct) simp_all
  show "bd_transport (set_release_rows xs s) = bd_transport s" by (induction xs s rule: set_release_rows.induct) simp_all
  show "bd_transport (set_artifactory_rows xs s) = bd_transport s"
    by (induction xs s rule: set_artifactory_rows.induct) simp_all
qed

lemma read_object_transport:
  assumes "read_object L rows set_rows vals name ((s, e), h) = Some ((s', e'), h')"
    and "\<And>xs s. bd_transport (set_rows xs s) = bd_transport s"
  shows "bd_transport s' = bd_transport s"
  using assms by (auto simp: read_object_def elim!: bind_eq_SomeE split: option.split_asm prod.split_asm if_split_asm)

lemma bundle_read_faithful:
  assumes "tf_laws L" "bd_transport s0 = new_embedded" "bundle_from_value L P v s0 h = Some ((s, None), h1)"
  shows "faithful_block L P (em_transports (bd_transport s))"
  using assms(3)
  by (auto simp: bundle_from_value_def assms(2) elim!: bind_eq_SomeE
      dest!: read_object_transport [OF _ set_rows_transport(2)] read_object_transport [OF _ set_rows_transport(3)]
      dest!: read_block_faithful [OF assms(1)] split: option.split_asm prod.split_asm if_split_asm)

interpretation bundle_states: resource_state L P "bundle_ops L P B ev"
  by unfold_locales (auto simp: bundle_ops_def intro: bundle_read_faithful)

subsection \<open>Properties\<close>

text \<open>
  C32: an apply that does not delete and adds no diagnostic
  installed the package, whether or not it was installed before: the getter is that of the planned
  state, the artifact was got and put onto the host by PackageInstall, and the name, the getter and the
  installer of the state are those of its response. The digest a download is checked with is the one
  of the configuration, or, for a release, the one that the sums of the release give its artifact.
\<close>

theorem bundle_apply_installs:
  fixes s :: "'v bundle_state" and ctx :: "'w go_ctx" and L :: "('t, 'v) tf_lib"
  assumes "apply_unmarshal_state (bundle_ops L P B ev) ev ctx req new_bundle_state new_bundle_state h w = Some (([], prior, planned), h1)"
    and "\<not> is_delete wr req"
    and "bundle_apply L P wr B ev ctx dial c req h w = Some ((s, []), h', w')"
  shows "\<exists>s1 (em :: 'v embedded) tr w1 g os w2 req2 res.
    planned_as (bundle_ops L P B ev :: ('w, 'v bundle_state, 't, 'v) state_ops) planned s1
    \<and> bundle_validate P B ev ctx s1 w = None \<and> embedded_client P ctx dial em w = ((Some tr, None), w1)
    \<and> package_getter_of s1 = Inr g \<and> bundle_options P B ctx tr g s1 w1 = Some (Inr os, w2)
    \<and> package_install (be_package B) ctx tr (new_package_request (with_package_getter (Some g) # os)) w2
        = Some ((Some res, None), req2, w')
    \<and> s = set_installed res (s1\<lparr>bd_id := tf_set ''static'' (bd_id s1)\<rparr>)"
  using assms(1,2) assms(3) [unfolded bundle_apply_def]
proof (cases rule: bundle_states.apply_resource_cases)
  case (ran s1 em tr w1)
  let ?s1 = "s1\<lparr>bd_id := tf_set ''static'' (bd_id s1)\<rparr>"
  have same: "package_getter_of ?s1 = package_getter_of s1"
    "bundle_options P B ctx tr g ?s1 w1 = bundle_options P B ctx tr g s1 w1" for g
  proof -
    have keep: "needs_destination f ?s1 = needs_destination f s1" "release_of ?s1 p a = release_of s1 p a" for f p a
      by (simp_all add: needs_destination_def release_of_def)
    show "package_getter_of ?s1 = package_getter_of s1"
      "bundle_options P B ctx tr g ?s1 w1 = bundle_options P B ctx tr g s1 w1"
      by (simp add: package_getter_of_def) (cases g; simp add: keep bundle_options_def copy_options_def artifactory_options_def
        release_options_def Let_def cong: if_cong option.case_cong prod.case_cong)
  qed
  have "bundle_validate P B ev ctx s1 w = None" using ran(3) by (simp add: bundle_ops_def)
  moreover from ran(5) obtain g os w2 req2 res where "package_getter_of s1 = Inr g"
    "bundle_options P B ctx tr g s1 w1 = Some (Inr os, w2)"
    "package_install (be_package B) ctx tr (new_package_request (with_package_getter (Some g) # os)) w2
        = Some ((Some res, None), req2, w')" "s = set_installed res ?s1"
    by (auto simp: bundle_act_def deeply_equal_def bundle_handlers_def bundle_install_def same deref_def
        elim!: bind_eq_SomeE split: option.split_asm prod.split_asm sum.split_asm)
  ultimately show ?thesis using ran(1,4)
    by - (rule exI [of _ s1], rule exI [of _ em], rule exI [of _ tr], rule exI [of _ w1], rule exI [of _ g],
      rule exI [of _ os], rule exI [of _ w2], rule exI [of _ req2], rule exI [of _ res], simp)
next
  case failed
  then show ?thesis by simp
qed

text \<open>
  Planning gives a product without a known edition the edition ce, even
  when the edition is given and is only not known yet; a planned value that is known cannot change.
\<close>

theorem bundle_edition_guessed:
  assumes "plan_build_transport L P (bundle_ops L P B ev) ev ctx c req new_bundle_state new_bundle_state h w = Some (b, h1)"
    and "\<not> has_errors (bt_diagnostics b)" "snd (tf_get (bd_product (bt_next b)))" "is_unknown (bd_edition (bt_next b))"
    and "bundle_plan L P B ev ctx c req h w = Some ((s, ds, rs), h')"
  shows "bd_edition s = Tfv False False ''ce''"
  using assms by (auto simp: bundle_plan_def plan_resource_def bundle_computed_def default_edition_def tf_get_def tf_set_def)

text \<open>A cleaned path ends in a slash only when it is the root.\<close>

definition plain_elems :: "string list \<Rightarrow> bool" where
  "plain_elems es \<longleftrightarrow> list_all (\<lambda>e. slash \<notin> set e \<and> e \<noteq> []) es"

lemma plain_elems_simps [simp]: "plain_elems []" "plain_elems (e # es) \<longleftrightarrow> slash \<notin> set e \<and> e \<noteq> [] \<and> plain_elems es"
  "plain_elems (rev es) \<longleftrightarrow> plain_elems es"
  by (simp_all add: plain_elems_def)

lemma clean_elems_plain:
  "\<forall>e \<in> set es. slash \<notin> set e \<Longrightarrow> plain_elems out \<Longrightarrow> plain_elems (clean_elems rooted out es)"
proof (induction es arbitrary: rooted out)
  case (Cons e es)
  have es: "plain_elems out' \<Longrightarrow> plain_elems (clean_elems r out' es)" for r out'
    using Cons by simp
  show ?case using Cons.prems by (cases out) (simp_all add: es)
qed simp

lemma join_last:
  "xs \<noteq> [] \<Longrightarrow> plain_elems xs \<Longrightarrow> join_with [slash] xs \<noteq> [] \<and> last (join_with [slash] xs) \<noteq> slash"
proof (induction xs rule: induct_list012)
  case (2 x)
  then show ?case by simp (metis last_in_set)
next
  case (3 x y zs)
  then show ?case by auto
qed simp

lemma path_clean_last:
  assumes "has_suffix (path_clean p) [slash]"
  shows "path_clean p = [slash]"
proof -
  let ?es = "\<lambda>rooted. clean_elems rooted [] (split_on slash p)"
  have es: "plain_elems (?es rooted)" for rooted
    by (rule clean_elems_plain) (auto dest: split_on_pieces)
  have suffix: "has_suffix s [slash] \<longleftrightarrow> s \<noteq> [] \<and> last s = slash" for s
    by (cases s rule: rev_cases) (auto simp: has_suffix_def has_prefix_def)
  show ?thesis
  proof (cases "?es (hd p = slash) = []")
    case True
    with assms show ?thesis by (auto simp: path_clean_def Let_def suffix split: if_splits)
  next
    case False
    with assms join_last [OF False es] show ?thesis
      by (auto simp: path_clean_def Let_def suffix split: if_splits)
  qed
qed

text \<open>
  The validation of a path refuses a directory only
  when it is the root: the path is made absolute first, which takes away the slash the check looks for.
\<close>

theorem directory_path_accepted:
  assumes "has_prefix path [slash]" "path_clean path \<noteq> [slash]"
    and "be_stat B (path_dir (path_clean path)) w = None" "\<not> needs_destination path s"
    and "bd_path s = Tfv False False path"
  shows "validate_path P B s w = None"
  using assms path_clean_last [of path] by (auto simp: validate_path_def path_abs_def tf_get_def)

subsection \<open>Witnesses\<close>

definition demo_bundle_env :: "nat bundle_env" where
  "demo_bundle_env = \<lparr>be_cwd = (\<lambda>w. Inr ''/''), be_stat = (\<lambda>p w. None),
     be_http = \<lparr>ht_request = (\<lambda>m u. None), ht_do = (\<lambda>r w. (Inl (ErrNew ''no route to host''), w)),
       ht_parse_url = Inr, ht_basic_auth = (\<lambda>u p. u @ '':'' @ p)\<rparr>, be_package = local_env\<rparr>"

definition demo_bundle_value :: demo_value where
  "demo_bundle_value = demo_value_of [(''path'', ''/a/v.deb''), (''id'', ''static'')] [(''transport'', demo_ssh_block)]"

definition demo_bundle :: "demo_value bundle_state" where
  "demo_bundle = new_bundle_state\<lparr>bd_path := Tfv False False ''/a/v.deb''\<rparr>"

lemma demo_bundle_read:
  "\<exists>h1. apply_unmarshal_state (bundle_ops demo_lib demo_paths demo_bundle_env demo_view) demo_view live_ctx
       (demo_change demo_bundle_value demo_bundle_value) new_bundle_state new_bundle_state demo_heap 0
     = Some (([], demo_bundle\<lparr>bd_id := Tfv False False ''static'', bd_transport := demo_read_block\<rparr>,
         demo_bundle\<lparr>bd_id := Tfv False False ''static'', bd_transport := demo_read_block\<rparr>), h1)"
  by (simp add: bundle_ops_def bundle_from_value_def read_object_def demo_rows bundle_rows_def new_bundle_state_def
      apply_unmarshal_state_def demo_change_def live demo_bundle_value_def demo_bundle_def)

lemma deb_path: "path_clean ''/a/v.deb'' = ''/a/v.deb''" "installer_for_file ''/a/v.deb'' = Some PackageInstallInstallerDEB"
  by code_simp+

lemma package_response_given: "package_install env ctx tr req w = Some ((res, None), req1, w1) \<Longrightarrow> res \<noteq> None"
  by (auto simp: package_install_def elim!: bind_eq_SomeE split: option.split_asm prod.split_asm if_split_asm)

lemma demo_bundle_act:
  "\<exists>r. bundle_act P demo_bundle_env ev live_ctx prior (demo_bundle\<lparr>bd_id := i, bd_transport := em\<rparr>) mock_transport 0
    = Some ((set_installed r (demo_bundle\<lparr>bd_id := i, bd_transport := em\<rparr>), []), 0)"
proof -
  let ?s = "demo_bundle\<lparr>bd_id := i, bd_transport := em\<rparr>"
  have g: "package_getter_of ?s = Inr PackageInstallGetterCopy"
    by (simp add: package_getter_of_def demo_bundle_def tf_get_def)
  have o: "bundle_options P demo_bundle_env live_ctx mock_transport PackageInstallGetterCopy ?s w = Some (Inr
      [with_package_copy_path ''/a/v.deb'', with_package_installer (Some PackageInstallInstallerDEB)], w)" for w :: nat
    by (simp add: bundle_options_def copy_options_def demo_bundle_def tf_get_def needs_destination_def deb_path)
  have q: "new_package_request (with_package_getter (Some PackageInstallGetterCopy)
      # [with_package_copy_path ''/a/v.deb'', with_package_installer (Some PackageInstallInstallerDEB)]) = deb_request"
    by (simp add: deb_request_def new_package_request_def with_package_installer_def with_package_getter_def
        with_package_copy_path_def)
  obtain res req' where i: "package_install local_env live_ctx mock_transport deb_request 0 = Some ((res, None), req', 0)"
    using deb_request_installed by blast
  then obtain r where "res = Some r" using package_response_given [OF i] by (cases res) simp_all
  with i have "package_install (be_package demo_bundle_env) live_ctx mock_transport deb_request 0 = Some ((Some r, None), req', 0)"
    by (simp add: demo_bundle_env_def)
  then show ?thesis
    by (intro exI [of _ r])
      (simp add: bundle_act_def deeply_equal_def bundle_handlers_def bundle_install_def g o q deref_def del: One_nat_def)
qed

theorem bundle_apply_installs_witness:
  "\<exists>s h2. bundle_apply demo_lib demo_paths demo_wire demo_bundle_env demo_view live_ctx (dialer_to mock_transport)
     new_provider_config (demo_change demo_bundle_value demo_bundle_value) demo_heap 0 = Some ((s, []), h2, 0)
   \<and> (\<exists>g w2 req req2 res. package_install local_env live_ctx mock_transport req w2 = Some ((Some res, None), req2, 0)
        \<and> pi_getter req = g)"
proof -
  let ?req = "demo_change demo_bundle_value demo_bundle_value"
  let ?p = "demo_bundle\<lparr>bd_id := Tfv False False ''static'', bd_transport := demo_read_block\<rparr>"
  let ?so = "bundle_ops demo_lib demo_paths demo_bundle_env demo_view :: (nat, demo_value bundle_state, demo_type, demo_value) state_ops"
  let ?set = "\<lambda>s :: demo_value bundle_state. s\<lparr>bd_id := tf_set ''static'' (bd_id s)\<rparr>"
  let ?act = "bundle_act demo_paths demo_bundle_env demo_view live_ctx"
  obtain h1 where r: "apply_unmarshal_state ?so demo_view live_ctx ?req new_bundle_state new_bundle_state demo_heap 0
      = Some (([], ?p, ?p), h1)"
    using demo_bundle_read by blast
  have d: "\<not> is_delete demo_wire ?req" by (simp add: demo_bundle_value_def demo_not_delete)
  have res: "set_resolved ?so (Some demo_ssh_transport) ?p
      = demo_bundle\<lparr>bd_id := Tfv False False ''static'', bd_transport := set_resolved_transport (Some demo_ssh_transport) demo_read_block\<rparr>"
    by (simp add: set_resolved_def bundle_ops_def)
  have act: "\<exists>s. ?act ?p (?set (set_resolved ?so (Some demo_ssh_transport) ?p)) mock_transport 0 = Some ((s, []), 0)"
  proof -
    have "?set (set_resolved ?so (Some demo_ssh_transport) ?p) = demo_bundle\<lparr>bd_id := Tfv False False ''static'',
        bd_transport := set_resolved_transport (Some demo_ssh_transport) demo_read_block\<rparr>"
      by (simp add: res tf_set_def)
    then show ?thesis using demo_bundle_act by metis
  qed
  have "so_embedded ?so ?p = demo_read_block" "so_validate ?so live_ctx (set_resolved ?so (Some demo_ssh_transport) ?p) 0 = None"
    unfolding res by (simp_all add: bundle_ops_def bundle_validate_def live demo_bundle_def new_bundle_state_def tf_get_def new_tf_def
        check_k8s_not_configured_def demo_read_block_def demo_ssh_transport_def set_resolved_transport_def install_sources_def
        validate_path_def path_abs_def has_prefix_def has_suffix_def deb_path needs_destination_def validate_release_def
        validate_artifactory_def demo_bundle_env_def)
  then obtain s h2 where s: "bundle_apply demo_lib demo_paths demo_wire demo_bundle_env demo_view live_ctx (dialer_to mock_transport)
     new_provider_config ?req demo_heap 0 = Some ((s, []), h2, 0)"
    unfolding bundle_apply_def using act
      demo_applied [OF r d, where tr = mock_transport and act = ?act and set_id = ?set]
    by blast
  from bundle_apply_installs [OF r d s] obtain tr w1 g os w2 req2 res' and em :: "demo_value embedded" where
    c: "embedded_client demo_paths live_ctx (dialer_to mock_transport) em 0 = ((Some tr, None), w1)"
    and i: "package_install (be_package demo_bundle_env) live_ctx tr (new_package_request (with_package_getter (Some g) # os)) w2
      = Some ((Some res', None), req2, 0)" by blast
  from dialer_to_client [OF c] i have "package_install local_env live_ctx mock_transport
      (new_package_request (with_package_getter (Some g) # os)) w2 = Some ((Some res', None), req2, 0)"
    by (simp add: demo_bundle_env_def)
  then show ?thesis using s by (intro exI conjI) (assumption | rule refl)+
qed

theorem directory_path_accepted_witness:
  "validate_path demo_paths demo_bundle_env (new_bundle_state\<lparr>bd_path := Tfv False False ''/tmp/''\<rparr>) 0 = None"
proof (rule directory_path_accepted)
  have "path_clean ''/tmp/'' = ''/tmp''" by code_simp
  then show "path_clean ''/tmp/'' \<noteq> [slash]" by simp
  have "installer_for_file ''/tmp/'' = None" by code_simp
  then show "\<not> needs_destination ''/tmp/'' (new_bundle_state\<lparr>bd_path := Tfv False False ''/tmp/''\<rparr>)"
    by (simp add: needs_destination_def)
qed (simp_all add: has_prefix_def demo_bundle_env_def)

end
