(* ===== verification/ExecStreams.thy ===== *)
theory ExecStreams
  imports Transport "HOL-Library.Sublist"
begin

text \<open>
  How the transports of Kubernetes and Nomad execute (\<open>internal/transport/exec.go\<close>,
  \<open>internal/transport/k8s\<close>, \<open>internal/transport/nomad\<close>, the executions of \<open>internal/kubernetes\<close> and
  \<open>internal/nomad\<close>). A copy runs in three goroutines that meet in a pipe and two channels: one
  writes a tar archive to the standard input of the command, one executes the command, and the
  caller waits for both. They are the step relation \<open>pipe_step\<close>.
\<close>

subsection \<open>The archive\<close>

text \<open>
  What \<open>archive/tar\<close> makes of a header, and of the end of an archive: parameters. A header can be
  refused. \<open>Close\<close> writes no trailer when fewer bytes than the header announced were written.
\<close>

record tar_lib =
  tar_header :: "string \<Rightarrow> nat \<Rightarrow> goerr + string"
  tar_trailer :: "nat \<Rightarrow> string"

text \<open>Where the writer of the archive is: the bytes it has still to write, or the end.\<close>

datatype tar_writer = TarHeader string | TarBody string | TarTrailer string | TarDone

text \<open>
  The two ends of an execution: it was refused before a goroutine was made, it reads its input, or
  it has ended and closed the streams.
\<close>

datatype exec_side = Refused | Executing | Ended

datatype copy_main = AwaitExec | AwaitWrite exec_response | CopyReturned error

text \<open>
  The channels hold at most one error each: \<open>cy_write_err\<close> is the one of the writer, \<open>cy_exec_err\<close>
  that of the execution together with its streams. \<open>cy_read\<close> is what the command has read of
  its input, \<open>cy_closed\<close> says that the writing end of the pipe is closed.
\<close>

record copy_state =
  cy_writer :: tar_writer
  cy_write_err :: "error option"
  cy_closed :: bool
  cy_exec :: exec_side
  cy_exec_err :: "exec_response option"
  cy_read :: string
  cy_main :: copy_main

definition err_closed_pipe :: goerr where
  "err_closed_pipe = ErrSentinel ''io: read/write on closed pipe''"

text \<open>
  The writer of \<open>TarCopyWriter\<close> before its first step. A header that is refused is reported at
  once, and the pipe closed.
\<close>

definition tar_copy_writer :: "tar_lib \<Rightarrow> copyable \<Rightarrow> string \<Rightarrow> tar_writer \<times> error option \<times> bool" where
  "tar_copy_writer T src dst =
     (case tar_header T (path_base dst) (cp_size src) of
        Inl e \<Rightarrow> (TarDone, Some (Some e), True)
      | Inr h \<Rightarrow> (TarHeader h, None, False))"

definition end_of_archive :: "tar_lib \<Rightarrow> copyable \<Rightarrow> string" where
  "end_of_archive T src =
     (if length (cp_rest src) = cp_size src then tar_trailer T (cp_size src) else [])"

subsection \<open>Copy\<close>

text \<open>
  \<open>Copy\<close> starts the writer and the execution. An execution that is refused has put its error into
  the channel already and never reads its input.
\<close>

definition copy_start :: "tar_lib \<Rightarrow> copyable \<Rightarrow> string \<Rightarrow> error \<Rightarrow> copy_state" where
  "copy_start T src dst refused =
     (case tar_copy_writer T src dst of (wr, we, closed) \<Rightarrow>
       \<lparr>cy_writer = wr, cy_write_err = we, cy_closed = closed,
        cy_exec = (case refused of Some e \<Rightarrow> Refused | None \<Rightarrow> Executing),
        cy_exec_err = (case refused of Some e \<Rightarrow> Some \<lparr>resp_stdout = None, resp_stderr = None, resp_err = Some e\<rparr> | None \<Rightarrow> None),
        cy_read = [], cy_main = AwaitExec\<rparr>)"

text \<open>
  A write to the pipe waits until the command has read all of it, or until the pipe is closed. The
  command can end at any time with what \<open>remote\<close> allows for the input it has read; its goroutine
  then sends the error and closes the streams. The caller takes the results of the execution, which
  one that was started gives only with its streams closed, and then the error of the writer;
  \<open>exec_copy\<close> makes its own error of them.
\<close>

inductive pipe_step ::
  "tar_lib \<Rightarrow> copyable \<Rightarrow> string \<Rightarrow> (string \<Rightarrow> exec_response \<Rightarrow> bool) \<Rightarrow> copy_state \<Rightarrow> copy_state \<Rightarrow> bool"
  for T src dst remote where
  read_header: "cy_writer s = TarHeader (a @ b) \<Longrightarrow> a \<noteq> [] \<Longrightarrow> cy_exec s = Executing \<Longrightarrow> \<not> cy_closed s \<Longrightarrow>
     pipe_step T src dst remote s (s\<lparr>cy_writer := TarHeader b, cy_read := cy_read s @ a\<rparr>)"
| header_done: "cy_writer s = TarHeader [] \<Longrightarrow>
     pipe_step T src dst remote s (s\<lparr>cy_writer := TarBody (cp_rest src)\<rparr>)"
| header_fails: "cy_writer s = TarHeader h \<Longrightarrow> h \<noteq> [] \<Longrightarrow> cy_closed s \<Longrightarrow>
     pipe_step T src dst remote s
       (s\<lparr>cy_writer := TarDone, cy_write_err := Some (Some err_closed_pipe)\<rparr>)"
| read_body: "cy_writer s = TarBody (a @ b) \<Longrightarrow> a \<noteq> [] \<Longrightarrow> cy_exec s = Executing \<Longrightarrow> \<not> cy_closed s \<Longrightarrow>
     pipe_step T src dst remote s (s\<lparr>cy_writer := TarBody b, cy_read := cy_read s @ a\<rparr>)"
| body_done: "cy_writer s = TarBody [] \<Longrightarrow>
     pipe_step T src dst remote s
       (s\<lparr>cy_writer := TarTrailer (end_of_archive T src), cy_write_err := Some None\<rparr>)"
| body_fails: "cy_writer s = TarBody b \<Longrightarrow> b \<noteq> [] \<Longrightarrow> cy_closed s \<Longrightarrow>
     pipe_step T src dst remote s
       (s\<lparr>cy_writer := TarDone, cy_write_err := Some (Some err_closed_pipe)\<rparr>)"
| read_trailer: "cy_writer s = TarTrailer (a @ b) \<Longrightarrow> a \<noteq> [] \<Longrightarrow> cy_exec s = Executing \<Longrightarrow> \<not> cy_closed s \<Longrightarrow>
     pipe_step T src dst remote s (s\<lparr>cy_writer := TarTrailer b, cy_read := cy_read s @ a\<rparr>)"
| close_input: "cy_writer s = TarTrailer t \<Longrightarrow> t = [] \<or> cy_closed s \<Longrightarrow>
     pipe_step T src dst remote s (s\<lparr>cy_writer := TarDone, cy_closed := True\<rparr>)"
| command_ends: "cy_exec s = Executing \<Longrightarrow> remote (cy_read s) out \<Longrightarrow>
     pipe_step T src dst remote s (s\<lparr>cy_exec := Ended, cy_exec_err := Some out, cy_closed := True\<rparr>)"
| take_exec: "cy_main s = AwaitExec \<Longrightarrow> cy_exec_err s = Some out \<Longrightarrow>
     pipe_step T src dst remote s (s\<lparr>cy_main := AwaitWrite out, cy_exec_err := None\<rparr>)"
| take_write: "cy_main s = AwaitWrite out \<Longrightarrow> cy_write_err s = Some write_err \<Longrightarrow>
     pipe_step T src dst remote s
       (s\<lparr>cy_main := CopyReturned (exec_copy write_err dst out), cy_write_err := None\<rparr>)"

inductive_cases pipe_stepE: "pipe_step T src dst remote s s'"

subsection \<open>Executions\<close>

text \<open>
  The options of an execution. Kubernetes gets its command as a text for \<open>/bin/sh -c\<close>, Nomad as
  words.
\<close>

record k8s_exec_opts =
  ke_command :: string
  ke_stdin :: bool
  ke_namespace :: string
  ke_pod :: string
  ke_container :: string

record nomad_exec_opts =
  ne_allocation :: string
  ne_task :: string
  ne_command :: "string list"
  ne_stdin :: bool

text \<open>What makes an execution fail before it starts: the context, and for Kubernetes the executor.\<close>

definition k8s_exec_refused :: "'w go_ctx \<Rightarrow> (k8s_exec_opts \<Rightarrow> 'w \<Rightarrow> error) \<Rightarrow> k8s_exec_opts \<Rightarrow> 'w \<Rightarrow> error" where
  "k8s_exec_refused ctx executor opts w =
     (case ctx_err ctx w of Some e \<Rightarrow> Some e | None \<Rightarrow> executor opts w)"

definition nomad_exec_refused :: "'w go_ctx \<Rightarrow> 'w \<Rightarrow> error" where
  "nomad_exec_refused ctx w = ctx_err ctx w"

text \<open>
  The error an execution sends when its stream ends. \<open>exit_status\<close> is \<open>errors.As\<close> with the exit
  error of the Kubernetes client.
\<close>

definition k8s_exec_err :: "(goerr \<Rightarrow> int option) \<Rightarrow> error \<Rightarrow> error" where
  "k8s_exec_err exit_status err =
     (case err of
        None \<Rightarrow> None
      | Some e \<Rightarrow> (case exit_status e of
            Some c \<Rightarrow> Some (new_exec_error (Some e) c)
          | None \<Rightarrow> Some e))"

definition nomad_exec_err :: "int \<Rightarrow> error \<Rightarrow> error" where
  "nomad_exec_err code err =
     (if code \<noteq> 0
      then Some (new_exec_error
             (case err of None \<Rightarrow> Some (ErrNew (''command terminated with exit code '' @ show_int code))
              | Some e \<Rightarrow> Some e) code)
      else err)"

subsection \<open>Nomad\<close>

record allocation =
  al_id :: string
  al_name :: string
  al_namespace :: string

text \<open>The calls of the Nomad library.\<close>

record 'w nomad_api =
  na_prefix_list :: "string \<Rightarrow> 'w \<Rightarrow> (allocation list \<times> error) \<times> 'w"
  na_info :: "string \<Rightarrow> 'w \<Rightarrow> (allocation \<times> error) \<times> 'w"
  na_exec :: "allocation \<Rightarrow> nomad_exec_opts \<Rightarrow> string \<Rightarrow> 'w \<Rightarrow> (string \<times> string \<times> int \<times> error) \<times> 'w"

definition get_allocation_info ::
  "'w nomad_api \<Rightarrow> string \<Rightarrow> 'w \<Rightarrow> (allocation option \<times> error) \<times> 'w" where
  "get_allocation_info A ident w =
     (case na_info A ident w of
        ((al, Some e), w1) \<Rightarrow> ((None, Some (ErrWrap (''failed to find allocation info for id: '' @ ident @ '', due to: '') e [])), w1)
      | ((al, None), w1) \<Rightarrow> ((Some al, None), w1))"

definition get_allocation ::
  "'w nomad_api \<Rightarrow> string \<Rightarrow> 'w \<Rightarrow> (allocation option \<times> error) \<times> 'w" where
  "get_allocation A ident w =
     (case na_prefix_list A ident w of
        ((als, Some e), w1) \<Rightarrow> ((None, Some (ErrWrap (''failed to list allocs by prefix: '' @ ident @ '', due to: '') e [])), w1)
      | ((als, None), w1) \<Rightarrow>
          (case als of
             [al] \<Rightarrow> get_allocation_info A (al_id al) w1
           | _ \<Rightarrow> ((None, Some (ErrNew (''failed to find allocations for prefix: '' @ ident
                    @ '', expected 1, got: '' @ show_nat (length als)))), w1)))"

text \<open>The goroutine of \<open>Exec\<close>: what it writes to the streams and the error it sends.\<close>

definition nomad_exec ::
  "'w nomad_api \<Rightarrow> nomad_exec_opts \<Rightarrow> string \<Rightarrow> 'w \<Rightarrow> (string \<times> string \<times> error) \<times> 'w" where
  "nomad_exec A opts stdin w =
     (case get_allocation A (ne_allocation opts) w of
        ((_, Some e), w1) \<Rightarrow> (([], [], Some e), w1)
      | ((None, None), w1) \<Rightarrow> (([], [], None), w1)
      | ((Some al, None), w1) \<Rightarrow>
          (case na_exec A al opts stdin w1 of
             ((out, serr, code, err), w2) \<Rightarrow> ((out, serr, nomad_exec_err code err), w2)))"

text \<open>
  \<open>GetLogs\<close> reads frames until one is nil. The events of the channels come as a list: a frame, the
  nil frame, an error, or a context that is done. When they stop the loop waits for ever.
\<close>

datatype log_event = LogFrame string | LogEnd | LogError goerr | LogDone goerr

fun read_frames :: "string \<Rightarrow> log_event list \<Rightarrow> (goerr + string) go" where
  "read_frames acc [] = None"
| "read_frames acc (LogFrame d # evs) = read_frames (acc @ d) evs"
| "read_frames acc (LogEnd # evs) = Some (Inr acc)"
| "read_frames acc (LogError e # evs) = Some (Inl (ErrWrap ''failed to read logs, due to: '' e []))"
| "read_frames acc (LogDone e # evs) = Some (Inl (ErrWrap ''failed to get logs, due to: '' e []))"

record task_logs =
  tl_namespace :: string
  tl_allocation :: string
  tl_task :: string
  tl_logs :: string

definition nomad_get_logs ::
  "'w go_ctx \<Rightarrow> 'w nomad_api \<Rightarrow> (allocation \<Rightarrow> string \<Rightarrow> 'w \<Rightarrow> log_event list) \<Rightarrow> string \<Rightarrow> string \<Rightarrow> 'w
    \<Rightarrow> ((goerr + task_logs) \<times> 'w) go" where
  "nomad_get_logs ctx A events alloc_id task w =
     (case ctx_err ctx w of
        Some e \<Rightarrow> Some (Inl e, w)
      | None \<Rightarrow>
          (case get_allocation A alloc_id w of
             ((_, Some e), w1) \<Rightarrow> Some (Inl (ErrWrap ''failed to get logs, due to: '' e []), w1)
           | ((None, None), w1) \<Rightarrow> None
           | ((Some al, None), w1) \<Rightarrow> do {
               r \<leftarrow> read_frames [] (events al task w1);
               Some ((case r of
                   Inl e \<Rightarrow> Inl e
                 | Inr logs \<Rightarrow> Inr \<lparr>tl_namespace = al_namespace al, tl_allocation = al_name al,
                     tl_task = task, tl_logs = logs\<rparr>), w1)
             }))"

definition task_log_file_name :: "task_logs \<Rightarrow> string" where
  "task_log_file_name r =
     join_with ''_'' ((if tl_namespace r \<noteq> [] then [tl_namespace r] else [])
       @ [tl_allocation r, tl_task r]) @ ''.log''"

text \<open>The configuration of the Nomad client; an empty secret is not set.\<close>

definition nomad_client_config :: "string \<Rightarrow> string \<Rightarrow> string \<times> string option" where
  "nomad_client_config host secret = (host, if length secret > 0 then Some secret else None)"

subsection \<open>The transports\<close>

record k8s_target =
  kt_namespace :: string
  kt_pod :: string
  kt_container :: string

text \<open>\<open>NewTransport\<close> once it has its client.\<close>

definition new_k8s_target :: "string \<Rightarrow> string \<Rightarrow> string \<Rightarrow> k8s_target" where
  "new_k8s_target namespace pod container =
     \<lparr>kt_namespace = (if namespace \<noteq> [] then namespace else ''default''),
      kt_pod = pod, kt_container = container\<rparr>"

definition k8s_opts :: "k8s_target \<Rightarrow> bool \<Rightarrow> string \<Rightarrow> k8s_exec_opts" where
  "k8s_opts t stdin command = \<lparr>ke_command = command, ke_stdin = stdin,
     ke_namespace = kt_namespace t, ke_pod = kt_pod t, ke_container = kt_container t\<rparr>"

definition k8s_copy_opts :: "k8s_target \<Rightarrow> string \<Rightarrow> k8s_exec_opts" where
  "k8s_copy_opts t dst = k8s_opts t True (''tar -xmf - -C '' @ path_dir dst)"

definition k8s_run_opts :: "k8s_target \<Rightarrow> string list \<Rightarrow> command \<Rightarrow> k8s_exec_opts" where
  "k8s_run_opts t order c = k8s_opts t False (render_cmd order c)"

text \<open>How the executor of Kubernetes passes the command on.\<close>

definition k8s_argv :: "k8s_exec_opts \<Rightarrow> string list" where
  "k8s_argv opts = [''/bin/sh'', ''-c'', ke_command opts]"

definition nomad_copy_opts :: "string \<Rightarrow> string \<Rightarrow> string \<Rightarrow> nomad_exec_opts" where
  "nomad_copy_opts alloc task dst = \<lparr>ne_allocation = alloc, ne_task = task,
     ne_command = [''tar'', ''-xmf'', ''-'', ''-C'', path_dir dst], ne_stdin = True\<rparr>"

definition nomad_run_opts :: "string \<Rightarrow> string \<Rightarrow> string list \<Rightarrow> command \<Rightarrow> nomad_exec_opts" where
  "nomad_run_opts alloc task order c = \<lparr>ne_allocation = alloc, ne_task = task,
     ne_command = [''sh'', ''-c'', render_cmd order c], ne_stdin = False\<rparr>"

text \<open>
  \<open>Copy\<close> of the transports as what it can return, from a world in which the context is not done
  again when the execution starts or is.
\<close>

inductive transport_copy ::
  "'w go_ctx \<Rightarrow> tar_lib \<Rightarrow> ('w \<Rightarrow> error) \<Rightarrow> (string \<Rightarrow> exec_response \<Rightarrow> bool) \<Rightarrow> copyable \<Rightarrow> string \<Rightarrow> 'w
    \<Rightarrow> error \<Rightarrow> bool" for ctx T refused remote src dst w where
  context_done: "ctx_err ctx w = Some e \<Longrightarrow> transport_copy ctx T refused remote src dst w (Some e)"
| copied: "ctx_err ctx w = None \<Longrightarrow>
     (pipe_step T src dst remote)\<^sup>*\<^sup>* (copy_start T src dst (refused w)) s \<Longrightarrow>
     cy_main s = CopyReturned err \<Longrightarrow> transport_copy ctx T refused remote src dst w err"

definition k8s_copy ::
  "'w go_ctx \<Rightarrow> tar_lib \<Rightarrow> (k8s_exec_opts \<Rightarrow> 'w \<Rightarrow> error) \<Rightarrow> (string \<Rightarrow> exec_response \<Rightarrow> bool)
    \<Rightarrow> k8s_target \<Rightarrow> copyable \<Rightarrow> string \<Rightarrow> 'w \<Rightarrow> error \<Rightarrow> bool" where
  "k8s_copy ctx T executor remote t src dst w err =
     transport_copy ctx T (k8s_exec_refused ctx executor (k8s_copy_opts t dst)) remote src dst w err"

definition nomad_copy ::
  "'w go_ctx \<Rightarrow> tar_lib \<Rightarrow> (string \<Rightarrow> exec_response \<Rightarrow> bool) \<Rightarrow> copyable \<Rightarrow> string \<Rightarrow> 'w \<Rightarrow> error \<Rightarrow> bool" where
  "nomad_copy ctx T remote src dst w err =
     transport_copy ctx T (nomad_exec_refused ctx) remote src dst w err"

subsection \<open>Lemmas\<close>

lemma exec_copy_None:
  assumes "exec_copy write_err dst out = None"
  shows "write_err = None \<or> write_err = Some (ErrMulti [])"
    and "resp_err out = None \<or> resp_err out = Some (ErrMulti [])"
    and "trim_suffix (captured (resp_stderr out)) [nl] = []"
proof -
  let ?err = "captured (resp_stderr out)"
  have m: "multi_append (multi_append [] [write_err]) es = [] \<Longrightarrow> multi_append [] [write_err] = []" for es
    by (simp add: multi_append_Nil_iff)
  from assms show "write_err = None \<or> write_err = Some (ErrMulti [])"
    by (auto simp: exec_copy_def wait_for_results_def Let_def with_more_errs_None_iff
        multi_append_Nil_iff split: if_splits)
  from assms show "trim_suffix ?err [nl] = []"
    by (auto simp: exec_copy_def wait_for_results_def Let_def with_more_errs_None_iff
        multi_append_Nil_iff split: if_splits)
  from assms have "with_more_errs (resp_err out) [] = None \<or> with_more_errs (resp_err out) [] = Some (ErrMulti [])"
    by (auto simp: exec_copy_def wait_for_results_def Let_def with_more_errs_None_iff split: if_splits)
  then show "resp_err out = None \<or> resp_err out = Some (ErrMulti [])"
    by (auto simp: with_more_errs_def error_or_nil_def multi_append_Nil_iff
        split: option.splits goerr.splits if_splits)
qed

text \<open>What holds of every state of a copy whose archive has the header \<open>h\<close>.\<close>

definition copy_inv :: "tar_lib \<Rightarrow> copyable \<Rightarrow> string \<Rightarrow> copy_state \<Rightarrow> bool" where
  "copy_inv T src h s \<longleftrightarrow>
     (case cy_writer s of
        TarHeader b \<Rightarrow> cy_read s @ b = h \<and> cy_write_err s = None \<and> (\<forall>e. cy_main s \<noteq> CopyReturned e)
      | TarBody b \<Rightarrow> cy_read s @ b = h @ cp_rest src \<and> cy_write_err s = None
          \<and> (\<forall>e. cy_main s \<noteq> CopyReturned e)
      | TarTrailer b \<Rightarrow> cy_read s @ b = h @ cp_rest src @ end_of_archive T src
          \<and> cy_write_err s \<in> {None, Some None} \<and> prefix (h @ cp_rest src) (cy_read s)
      | TarDone \<Rightarrow> (cy_write_err s = Some None \<longrightarrow> prefix (h @ cp_rest src) (cy_read s))
          \<and> cy_write_err s \<in> {None, Some None, Some (Some err_closed_pipe)})
     \<and> (cy_write_err s = None \<longrightarrow> (case cy_writer s of TarHeader b \<Rightarrow> True | TarBody b \<Rightarrow> True
          | _ \<Rightarrow> \<exists>e. cy_main s = CopyReturned e))
     \<and> (cy_main s = CopyReturned None \<longrightarrow> prefix (h @ cp_rest src) (cy_read s))"

definition quiet_success :: "exec_response \<Rightarrow> bool" where
  "quiet_success out \<longleftrightarrow> (resp_err out = None \<or> resp_err out = Some (ErrMulti []))
     \<and> trim_suffix (captured (resp_stderr out)) [nl] = []"

definition exec_inv :: "(string \<Rightarrow> exec_response \<Rightarrow> bool) \<Rightarrow> copy_state \<Rightarrow> bool" where
  "exec_inv remote s \<longleftrightarrow>
     (case cy_exec s of
        Refused \<Rightarrow> False
      | Executing \<Rightarrow> cy_main s = AwaitExec \<and> cy_exec_err s = None
      | Ended \<Rightarrow> cy_closed s \<and>
          (case cy_main s of
             AwaitExec \<Rightarrow> (\<exists>out. cy_exec_err s = Some out \<and> remote (cy_read s) out)
           | AwaitWrite out \<Rightarrow> remote (cy_read s) out
           | CopyReturned e \<Rightarrow> e = None \<longrightarrow> (\<exists>out. remote (cy_read s) out \<and> quiet_success out)))"

lemma copy_inv_step:
  assumes "pipe_step T src dst remote s s'" "copy_inv T src h s"
  shows "copy_inv T src h s'"
  using assms
proof cases
  case (take_write out write_err)
  with assms(2) show ?thesis
    by (auto simp: copy_inv_def err_closed_pipe_def split: tar_writer.splits dest: exec_copy_None(1))
qed (auto simp: copy_inv_def split: tar_writer.splits)

lemma exec_inv_step:
  assumes "pipe_step T src dst remote s s'" "exec_inv remote s"
  shows "exec_inv remote s'"
  using assms
proof cases
  case (take_write out write_err)
  with assms(2) show ?thesis
    by (auto simp: exec_inv_def quiet_success_def split: exec_side.splits
        dest: exec_copy_None(2,3))
qed (auto simp: exec_inv_def split: exec_side.splits copy_main.splits)

lemma copy_inv_reach:
  "(pipe_step T src dst remote)\<^sup>*\<^sup>* s s' \<Longrightarrow> copy_inv T src h s \<Longrightarrow> copy_inv T src h s'"
  by (induction rule: rtranclp_induct) (auto intro: copy_inv_step)

lemma exec_inv_reach:
  "(pipe_step T src dst remote)\<^sup>*\<^sup>* s s' \<Longrightarrow> exec_inv remote s \<Longrightarrow> exec_inv remote s'"
  by (induction rule: rtranclp_induct) (auto intro: exec_inv_step)

lemma copy_start_inv:
  "tar_header T (path_base dst) (cp_size src) = Inr h \<Longrightarrow> copy_inv T src h (copy_start T src dst refused)"
  by (auto simp: copy_inv_def copy_start_def tar_copy_writer_def)

lemma exec_start_inv: "exec_inv remote (copy_start T src dst None)"
  by (auto simp: exec_inv_def copy_start_def split: prod.splits)

text \<open>Every step of a copy brings it nearer to its end.\<close>

definition writer_left :: "tar_lib \<Rightarrow> copyable \<Rightarrow> tar_writer \<Rightarrow> nat" where
  "writer_left T src wr =
     (let t = length (end_of_archive T src) in
      case wr of
        TarHeader b \<Rightarrow> length b + length (cp_rest src) + t + 3
      | TarBody b \<Rightarrow> length b + t + 2
      | TarTrailer b \<Rightarrow> length b + 1
      | TarDone \<Rightarrow> 0)"

definition copy_measure :: "tar_lib \<Rightarrow> copyable \<Rightarrow> copy_state \<Rightarrow> nat" where
  "copy_measure T src s = writer_left T src (cy_writer s)
     + (if cy_exec s = Executing then 1 else 0)
     + (case cy_main s of AwaitExec \<Rightarrow> 2 | AwaitWrite out \<Rightarrow> 1 | CopyReturned e \<Rightarrow> 0)"

lemma pipe_step_decreases:
  assumes "pipe_step T src dst remote s s'"
  shows "copy_measure T src s' < copy_measure T src s"
  using assms
  by cases (auto simp: copy_measure_def writer_left_def Let_def neq_Nil_conv split: copy_main.splits)

lemma copy_progress:
  assumes inv: "copy_inv T src h s" "exec_inv remote s"
    and remote: "\<And>r. \<exists>out. remote r out"
    and running: "\<And>e. cy_main s \<noteq> CopyReturned e"
  shows "\<exists>s'. pipe_step T src dst remote s s'"
proof (cases "cy_exec s")
  case Refused
  with inv(2) show ?thesis by (simp add: exec_inv_def)
next
  case Executing
  from remote obtain out where "remote (cy_read s) out" by blast
  with Executing show ?thesis by (blast intro: command_ends)
next
  case Ended
  with inv(2) have closed: "cy_closed s" by (simp add: exec_inv_def)
  show ?thesis
  proof (cases "cy_main s")
    case AwaitExec
    with Ended inv(2) show ?thesis by (auto simp: exec_inv_def intro: take_exec)
  next
    case (AwaitWrite out)
    show ?thesis
    proof (cases "cy_write_err s")
      case (Some e)
      with AwaitWrite show ?thesis by (blast intro: take_write)
    next
      case None
      with inv(1) running consider b where "cy_writer s = TarHeader b" | b where "cy_writer s = TarBody b"
        by (auto simp: copy_inv_def split: tar_writer.splits)
      then show ?thesis
      proof cases
        case (1 b)
        with closed show ?thesis by (cases "b = []") (blast intro: header_done header_fails)+
      next
        case (2 b)
        with closed show ?thesis by (cases "b = []") (blast intro: body_done body_fails)+
      qed
    qed
  next
    case (CopyReturned e)
    with running show ?thesis by blast
  qed
qed

subsection \<open>What a copy does\<close>

text \<open>
  C37: a copy that returns without an error has had the whole archive read, but for its trailer: the
  header and what was left of the source. The command ended without an error after reading it and
  had nothing on its standard error.
\<close>

theorem copy_reads_all:
  assumes "tar_header T (path_base dst) (cp_size src) = Inr h"
    and "transport_copy ctx T refused remote src dst w None"
    and "refused w = None"
  shows "\<exists>r out. remote r out \<and> prefix (h @ cp_rest src) r \<and> quiet_success out"
  using assms(2)
proof cases
  case (copied s)
  from copied(2) copy_start_inv [OF assms(1)] have inv: "copy_inv T src h s" by (rule copy_inv_reach)
  from copied(2) have ex: "exec_inv remote s"
    unfolding assms(3) by (rule exec_inv_reach) (rule exec_start_inv)
  from inv copied(3) have "prefix (h @ cp_rest src) (cy_read s)" by (simp add: copy_inv_def)
  moreover from ex copied(3) obtain out where "remote (cy_read s) out" "quiet_success out"
    by (auto simp: exec_inv_def split: exec_side.splits)
  ultimately show ?thesis by blast
qed

text \<open>
  C38: a copy whose execution was started returns: until it does there is a step, and steps get fewer.
\<close>

theorem copy_started_returns:
  assumes "tar_header T (path_base dst) (cp_size src) = Inr h" "\<And>r. \<exists>out. remote r out"
    and "(pipe_step T src dst remote)\<^sup>*\<^sup>* (copy_start T src dst None) s"
  shows "((\<exists>e. cy_main s = CopyReturned e) \<or> (\<exists>s'. pipe_step T src dst remote s s'))
    \<and> (\<forall>s'. pipe_step T src dst remote s s' \<longrightarrow> copy_measure T src s' < copy_measure T src s)"
  using copy_progress [of T src h s remote dst]
    copy_inv_reach [OF assms(3) copy_start_inv [OF assms(1)]]
    exec_inv_reach [OF assms(3) exec_start_inv] assms(2) pipe_step_decreases
  by blast+

lemma refused_waits:
  assumes "(pipe_step T src dst remote)\<^sup>*\<^sup>* (copy_start T src dst (Some e)) s"
    and "tar_header T (path_base dst) (cp_size src) = Inr h" "h \<noteq> []"
  shows "cy_writer s = TarHeader h \<and> cy_write_err s = None \<and> \<not> cy_closed s \<and> cy_exec s = Refused
    \<and> (\<forall>e. cy_main s \<noteq> CopyReturned e)"
  using assms(1)
proof (induction rule: rtranclp_induct)
  case base
  from assms(2) show ?case by (simp add: copy_start_def tar_copy_writer_def)
next
  case (step s s')
  from step.hyps(2) step.IH assms(3) show ?case by cases auto
qed

text \<open>
  C39: a copy whose execution is refused after the writer was made never returns: nobody reads the pipe
  and nobody closes it, and the caller waits for the writer.
\<close>

theorem refused_copy_hangs:
  assumes "tar_header T (path_base dst) (cp_size src) = Inr h" "h \<noteq> []"
    and "ctx_err ctx w = None" "executor (k8s_copy_opts t dst) w = Some e"
  shows "\<not> k8s_copy ctx T executor remote t src dst w err"
proof
  assume "k8s_copy ctx T executor remote t src dst w err"
  then have "transport_copy ctx T (k8s_exec_refused ctx executor (k8s_copy_opts t dst)) remote src dst w err"
    by (simp add: k8s_copy_def)
  then show False
  proof cases
    case (context_done e)
    with assms(3) show False by simp
  next
    case (copied s)
    with assms(3,4) have "(pipe_step T src dst remote)\<^sup>*\<^sup>* (copy_start T src dst (Some e)) s"
      by (simp add: k8s_exec_refused_def)
    from refused_waits [OF this assms(1,2)] copied(3) show False by simp
  qed
qed

subsection \<open>Witnesses\<close>

definition demo_tar :: tar_lib where
  "demo_tar = \<lparr>tar_header = (\<lambda>n k. Inr (n @ '' '' @ show_nat k @ '' '')), tar_trailer = (\<lambda>k. ''#'')\<rparr>"

definition demo_done :: exec_response where
  "demo_done = \<lparr>resp_stdout = Some [], resp_stderr = Some [], resp_err = None\<rparr>"

lemma demo_tar_header:
  "tar_header demo_tar (path_base ''/tmp/a'') (cp_size (new_reader ''hi'')) = Inr ''a 2 ''"
  by (simp add: demo_tar_def new_reader_def cp_size_def) code_simp

lemma pipe_step_to:
  "pipe_step T src dst remote s s'' \<Longrightarrow> s'' = s' \<Longrightarrow> (pipe_step T src dst remote)\<^sup>*\<^sup>* s s'"
  by (auto intro: r_into_rtranclp)

lemma demo_no_error: "exec_copy None ''/tmp/a'' demo_done = None"
  by code_simp

lemma demo_copied:
  "transport_copy live_ctx demo_tar (\<lambda>w. None) (\<lambda>r out. out = demo_done) (new_reader ''hi'') ''/tmp/a'' (0::nat) None"
proof (rule copied)
  show "ctx_err live_ctx (0::nat) = None" by (simp add: live_ctx_def)
  let ?step = "pipe_step demo_tar (new_reader ''hi'') ''/tmp/a'' (\<lambda>r out. out = demo_done)"
  let ?s = "\<lambda>wr we closed ex ee r m. \<lparr>cy_writer = wr, cy_write_err = we, cy_closed = closed, cy_exec = ex,
    cy_exec_err = ee, cy_read = r, cy_main = m\<rparr>"
  have start: "copy_start demo_tar (new_reader ''hi'') ''/tmp/a'' None
      = ?s (TarHeader ''a 2 '') None False Executing None [] AwaitExec"
    by (simp add: copy_start_def tar_copy_writer_def demo_tar_header)
  have s0: "?step\<^sup>*\<^sup>* (?s (TarHeader ''a 2 '') None False Executing None [] AwaitExec) (?s (TarHeader []) None False Executing None ''a 2 '' AwaitExec)"
    by (rule pipe_step_to [OF read_header [where a = "''a 2 ''" and b = "[]"]]) simp_all
  have s1: "?step\<^sup>*\<^sup>* (?s (TarHeader []) None False Executing None ''a 2 '' AwaitExec) (?s (TarBody ''hi'') None False Executing None ''a 2 '' AwaitExec)"
    by (rule pipe_step_to [OF header_done]) simp_all
  have s2: "?step\<^sup>*\<^sup>* (?s (TarBody ''hi'') None False Executing None ''a 2 '' AwaitExec) (?s (TarBody []) None False Executing None ''a 2 hi'' AwaitExec)"
    by (rule pipe_step_to [OF read_body [where a = "''hi''" and b = "[]"]]) simp_all
  have s3: "?step\<^sup>*\<^sup>* (?s (TarBody []) None False Executing None ''a 2 hi'' AwaitExec) (?s (TarTrailer ''#'') (Some None) False Executing None ''a 2 hi'' AwaitExec)"
    by (rule pipe_step_to [OF body_done])
      (simp_all add: end_of_archive_def demo_tar_def cp_size_def new_reader_def cp_rest_def)
  have s4: "?step\<^sup>*\<^sup>* (?s (TarTrailer ''#'') (Some None) False Executing None ''a 2 hi'' AwaitExec) (?s (TarTrailer ''#'') (Some None) True Ended (Some demo_done) ''a 2 hi'' AwaitExec)"
    by (rule pipe_step_to [OF command_ends [where out = demo_done]]) simp_all
  have s5: "?step\<^sup>*\<^sup>* (?s (TarTrailer ''#'') (Some None) True Ended (Some demo_done) ''a 2 hi'' AwaitExec) (?s (TarTrailer ''#'') (Some None) True Ended None ''a 2 hi'' (AwaitWrite demo_done))"
    by (rule pipe_step_to [OF take_exec]) simp_all
  have s6: "?step\<^sup>*\<^sup>* (?s (TarTrailer ''#'') (Some None) True Ended None ''a 2 hi'' (AwaitWrite demo_done)) (?s (TarTrailer ''#'') None True Ended None ''a 2 hi'' (CopyReturned None))"
    by (rule pipe_step_to [OF take_write]) (use demo_no_error in \<open>simp_all\<close>)
  note rtranclp_trans [OF s0 rtranclp_trans [OF s1 rtranclp_trans [OF s2 rtranclp_trans [OF s3
    rtranclp_trans [OF s4 rtranclp_trans [OF s5 s6]]]]]]
  then show "?step\<^sup>*\<^sup>* (copy_start demo_tar (new_reader ''hi'') ''/tmp/a'' None)
    (?s (TarTrailer ''#'') None True Ended None ''a 2 hi'' (CopyReturned None))" unfolding start .
qed simp

theorem copy_reads_all_witness:
  "\<exists>r out. out = demo_done \<and> prefix ''a 2 hi'' r \<and> quiet_success out"
  using copy_reads_all [OF demo_tar_header demo_copied refl] by simp

theorem copy_started_returns_witness:
  "\<exists>s'. pipe_step demo_tar (new_reader ''hi'') ''/tmp/a'' (\<lambda>r out. out = demo_done)
     (copy_start demo_tar (new_reader ''hi'') ''/tmp/a'' None) s'"
proof -
  have "cy_main (copy_start demo_tar (new_reader ''hi'') ''/tmp/a'' None) = AwaitExec"
    by (simp add: copy_start_def split: prod.splits)
  then show ?thesis
    using copy_started_returns [OF demo_tar_header, of "\<lambda>r out. out = demo_done"
        "copy_start demo_tar (new_reader ''hi'') ''/tmp/a'' None"] by simp
qed

theorem refused_copy_hangs_witness:
  "\<not> k8s_copy live_ctx demo_tar (\<lambda>opts w. Some (ErrNew ''no config'')) (\<lambda>r out. out = demo_done)
     (new_k8s_target [] ''vault-0'' ''vault'') (new_reader ''hi'') ''/tmp/a'' (0::nat) None"
  by (rule refused_copy_hangs [OF demo_tar_header]) (simp_all add: live_ctx_def)

end
