(* ===== verification/SshTransport.thy ===== *)
theory SshTransport
  imports ExecStreams
begin

text \<open>
  The ssh transport (\<open>internal/transport/ssh\<close>): how the client authenticates, how it waits for a
  connection and for a session, and \<open>Copy\<close>, \<open>Stream\<close> and \<open>Run\<close> over a session. The ssh library is
  a parameter; the goroutines are the step relations \<open>poll_step\<close> and \<open>scp_step\<close>.
\<close>

subsection \<open>Configuration and authentication\<close>

record transport_cfg =
  tc_user :: string
  tc_host :: string
  tc_key :: string
  tc_key_path :: string
  tc_passphrase :: string
  tc_passphrase_path :: string
  tc_password :: string
  tc_port :: string

type_synonym ssh_opt = "transport_cfg \<Rightarrow> transport_cfg"

definition default_cfg :: transport_cfg where
  "default_cfg = \<lparr>tc_user = [], tc_host = [], tc_key = [], tc_key_path = [], tc_passphrase = [],
     tc_passphrase_path = [], tc_password = [], tc_port = ''22''\<rparr>"

definition with_ssh_user :: "string \<Rightarrow> ssh_opt" where
  "with_ssh_user u c = c\<lparr>tc_user := u\<rparr>"

definition with_ssh_host :: "string \<Rightarrow> ssh_opt" where
  "with_ssh_host h c = c\<lparr>tc_host := h\<rparr>"

definition with_ssh_key :: "string \<Rightarrow> ssh_opt" where
  "with_ssh_key k c = c\<lparr>tc_key := k\<rparr>"

definition with_ssh_key_path :: "string \<Rightarrow> ssh_opt" where
  "with_ssh_key_path p c = c\<lparr>tc_key_path := p\<rparr>"

definition with_ssh_passphrase :: "string \<Rightarrow> ssh_opt" where
  "with_ssh_passphrase p c = c\<lparr>tc_passphrase := p\<rparr>"

definition with_ssh_passphrase_path :: "string \<Rightarrow> ssh_opt" where
  "with_ssh_passphrase_path p c = c\<lparr>tc_passphrase_path := p\<rparr>"

definition with_ssh_password :: "string \<Rightarrow> ssh_opt" where
  "with_ssh_password p c = c\<lparr>tc_password := p\<rparr>"

definition with_ssh_port :: "string \<Rightarrow> ssh_opt" where
  "with_ssh_port p c = c\<lparr>tc_port := p\<rparr>"

text \<open>
  The library's parsers of private keys, into signers \<open>'g\<close>, and the local file system: the absolute
  path and the bytes of a file, or the error of the step that fails.
\<close>

record 'g key_lib =
  kl_parse :: "string \<Rightarrow> goerr + 'g"
  kl_parse_with_passphrase :: "string \<Rightarrow> string \<Rightarrow> goerr + 'g"
  kl_abs :: "string \<Rightarrow> goerr + string"
  kl_read :: "string \<Rightarrow> goerr + string"

datatype 'g ssh_auth = PasswordAuth string | PublicKeyAuth 'g

definition parse_key :: "'w go_ctx \<Rightarrow> 'g key_lib \<Rightarrow> string \<Rightarrow> 'w \<Rightarrow> goerr + 'g ssh_auth" where
  "parse_key ctx K key w =
     (case ctx_err ctx w of
        Some e \<Rightarrow> Inl e
      | None \<Rightarrow> (case kl_parse K key of
            Inl e \<Rightarrow> Inl (ErrWrap ''parsing private key: '' e [])
          | Inr g \<Rightarrow> Inr (PublicKeyAuth g)))"

definition parse_key_with_passphrase ::
  "'w go_ctx \<Rightarrow> 'g key_lib \<Rightarrow> string \<Rightarrow> string \<Rightarrow> 'w \<Rightarrow> goerr + 'g ssh_auth" where
  "parse_key_with_passphrase ctx K key passphrase w =
     (case ctx_err ctx w of
        Some e \<Rightarrow> Inl e
      | None \<Rightarrow> (case kl_parse_with_passphrase K key passphrase of
            Inl e \<Rightarrow> Inl (ErrWrap ''parsing private key with passphrase: '' e [])
          | Inr g \<Rightarrow> Inr (PublicKeyAuth g)))"

definition read_key_file :: "'w go_ctx \<Rightarrow> 'g key_lib \<Rightarrow> string \<Rightarrow> 'w \<Rightarrow> goerr + string" where
  "read_key_file ctx K path w =
     (case ctx_err ctx w of
        Some e \<Rightarrow> Inl e
      | None \<Rightarrow> (case kl_abs K path of
            Inl e \<Rightarrow> Inl e
          | Inr p \<Rightarrow> (case kl_read K p of
                Inl e \<Rightarrow> Inl e
              | Inr s \<Rightarrow> Inr (trim_space s))))"

text \<open>
  \<open>init\<close>: the methods to authenticate, in order, and the error. A file that is named replaces the
  value that was given.
\<close>

definition key_material ::
  "'w go_ctx \<Rightarrow> 'g key_lib \<Rightarrow> string \<Rightarrow> string \<Rightarrow> 'w \<Rightarrow> goerr + string" where
  "key_material ctx K val path w = (if path \<noteq> [] then read_key_file ctx K path w else Inr val)"

definition init_client ::
  "'w go_ctx \<Rightarrow> 'g key_lib \<Rightarrow> transport_cfg \<Rightarrow> 'w \<Rightarrow> 'g ssh_auth list \<times> error" where
  "init_client ctx K c w =
     (case ctx_err ctx w of
        Some e \<Rightarrow> ([], Some e)
      | None \<Rightarrow>
          let auth = (if tc_password c \<noteq> [] then [PasswordAuth (tc_password c)] else []) in
          (case key_material ctx K (tc_key c) (tc_key_path c) w of
             Inl e \<Rightarrow> (auth, Some e)
           | Inr key \<Rightarrow>
               (case key_material ctx K (tc_passphrase c) (tc_passphrase_path c) w of
                  Inl e \<Rightarrow> (auth, Some e)
                | Inr passphrase \<Rightarrow>
                    if key = [] then (auth, None)
                    else
                      (case (if passphrase \<noteq> [] then parse_key_with_passphrase ctx K key passphrase w
                             else parse_key ctx K key w) of
                         Inl e \<Rightarrow> (auth, Some e)
                       | Inr a \<Rightarrow> (auth @ [a], None)))))"

text \<open>\<open>New\<close>: the options are applied to the default configuration; the transport comes back with the error.\<close>

definition new_ssh_transport ::
  "'w go_ctx \<Rightarrow> 'g key_lib \<Rightarrow> ssh_opt list \<Rightarrow> 'w \<Rightarrow> (transport_cfg \<times> 'g ssh_auth list) \<times> error" where
  "new_ssh_transport ctx K opts w =
     (let c = apply_opts opts default_cfg in
      case init_client ctx K c w of (auth, err) \<Rightarrow> ((c, auth), err))"

subsection \<open>Waiting for a connection and for a session\<close>

text \<open>
  \<open>Connect\<close> and \<open>newSession\<close> start an attempt at once and one more at every tick, until an attempt
  succeeds, the context is done or the time is over. \<open>po_cap\<close> is the capacity of the channel of
  errors, \<open>po_label\<close> what an attempt makes of its error, \<open>po_fail\<close> what the loop returns when it
  gives up, from the cause, the last error that was assigned and the errors it drains.
\<close>

record polling =
  po_cap :: nat
  po_label :: "goerr \<Rightarrow> goerr"
  po_fail :: "goerr \<Rightarrow> error \<Rightarrow> goerr list \<Rightarrow> goerr"

record 'c poll_state =
  pl_flying :: nat
  pl_errs :: "goerr list"
  pl_blocked :: "goerr list"
  pl_offers :: "'c list"
  pl_last :: error
  pl_result :: "(goerr + 'c) option"

definition poll_start :: "'c poll_state" where
  "poll_start = \<lparr>pl_flying = 1, pl_errs = [], pl_blocked = [], pl_offers = [], pl_last = None,
     pl_result = None\<rparr>"

inductive poll_step ::
  "polling \<Rightarrow> (goerr + 'c \<Rightarrow> bool) \<Rightarrow> (goerr \<Rightarrow> bool) \<Rightarrow> 'c poll_state \<Rightarrow> 'c poll_state \<Rightarrow> bool"
  for P attempt cause where
  succeeds: "pl_flying s > 0 \<Longrightarrow> attempt (Inr c) \<Longrightarrow>
     poll_step P attempt cause s
       (s\<lparr>pl_flying := pl_flying s - 1, pl_offers := pl_offers s @ [c], pl_last := None\<rparr>)"
| fails: "pl_flying s > 0 \<Longrightarrow> attempt (Inl e) \<Longrightarrow>
     poll_step P attempt cause s
       (s\<lparr>pl_flying := pl_flying s - 1, pl_blocked := pl_blocked s @ [po_label P e], pl_last := Some e\<rparr>)"
| reports: "pl_blocked s = e # es \<Longrightarrow> length (pl_errs s) < po_cap P \<Longrightarrow>
     poll_step P attempt cause s (s\<lparr>pl_blocked := es, pl_errs := pl_errs s @ [e]\<rparr>)"
| ticks: "pl_result s = None \<Longrightarrow>
     poll_step P attempt cause s (s\<lparr>pl_flying := pl_flying s + 1\<rparr>)"
| takes: "pl_result s = None \<Longrightarrow> pl_offers s = c # cs \<Longrightarrow>
     poll_step P attempt cause s (s\<lparr>pl_offers := cs, pl_result := Some (Inr c)\<rparr>)"
| gives_up: "pl_result s = None \<Longrightarrow> cause e \<Longrightarrow> pl_blocked s = xs @ ys \<Longrightarrow>
     poll_step P attempt cause s
       (s\<lparr>pl_blocked := ys, pl_errs := [],
          pl_result := Some (Inl (po_fail P e (pl_last s) (pl_errs s @ xs)))\<rparr>)"

definition connect_polling :: "transport_cfg \<Rightarrow> polling" where
  "connect_polling c = \<lparr>po_cap = 5, po_label = id,
     po_fail = (\<lambda>e last_e errs. ErrWrap (''timed out dialing '' @ tc_host c @ '':'' @ tc_port c @ '': '')
       (ErrMulti (multi_append [] (Some e # map Some errs))) [])\<rparr>"

definition wait_limit :: goerr where
  "wait_limit = ErrNew ''exceeded client wait connection limit''"

text \<open>
  \<open>newSession\<close> gives the text of the cause to the error; with no error to wrap, \<open>%w\<close> prints that it
  is nil. \<open>text\<close> is the text of an error.
\<close>

definition session_polling :: "(goerr \<Rightarrow> string) \<Rightarrow> polling" where
  "session_polling text = \<lparr>po_cap = 7,
     po_label = (\<lambda>e. ErrWrap ''sending test SSH session request '' e []),
     po_fail = (\<lambda>e last_e errs.
       (case error_or_nil (multi_append [] (last_e # map Some errs)) of
          None \<Rightarrow> ErrNew (text e @ '': %!w(<nil>)'')
        | Some m \<Rightarrow> ErrWrap (text e @ '': '') m []))\<rparr>"

text \<open>What \<open>Connect\<close> can end with, from a context of the cause \<open>done_err\<close>.\<close>

definition connect_ends ::
  "transport_cfg \<Rightarrow> (goerr + 'c \<Rightarrow> bool) \<Rightarrow> goerr \<Rightarrow> goerr + 'c \<Rightarrow> bool" where
  "connect_ends c dial done_err out \<longleftrightarrow>
     (\<exists>s. (poll_step (connect_polling c) dial (\<lambda>e. e = done_err \<or> e = wait_limit))\<^sup>*\<^sup>* poll_start s
        \<and> pl_result s = Some out)"

text \<open>What the test requests of \<open>newSession\<close> can end with.\<close>

definition request_limit :: goerr where
  "request_limit = ErrNew ''request timeout exceeded''"

definition session_ends ::
  "(goerr \<Rightarrow> string) \<Rightarrow> (goerr + unit \<Rightarrow> bool) \<Rightarrow> goerr \<Rightarrow> goerr + unit \<Rightarrow> bool" where
  "session_ends text request done_err out \<longleftrightarrow>
     (\<exists>s. (poll_step (session_polling text) request (\<lambda>e. e = done_err \<or> e = request_limit))\<^sup>*\<^sup>* poll_start s
        \<and> pl_result s = Some out)"

text \<open>
  \<open>newSession\<close>: a client is connected first when there is none. A session whose requests fail comes
  back with the error and stays open.
\<close>

inductive new_session ::
  "('w \<Rightarrow> goerr + 'c \<Rightarrow> bool) \<Rightarrow> ('c \<Rightarrow> 'w \<Rightarrow> goerr + 's) \<Rightarrow> ('s \<Rightarrow> goerr + unit \<Rightarrow> bool) \<Rightarrow> 'c option \<Rightarrow> 'w
    \<Rightarrow> 's option \<times> error \<Rightarrow> bool" for connect open_session requests client w where
  not_connected: "client = None \<Longrightarrow> connect w (Inl e) \<Longrightarrow>
     new_session connect open_session requests client w
       (None, Some (ErrWrap ''creating client connection: '' e []))"
| not_opened: "client = Some c \<or> client = None \<and> connect w (Inr c) \<Longrightarrow> open_session c w = Inl e \<Longrightarrow>
     new_session connect open_session requests client w
       (None, Some (ErrWrap ''creating SSH session: '' e []))"
| not_answered: "client = Some c \<or> client = None \<and> connect w (Inr c) \<Longrightarrow> open_session c w = Inr S \<Longrightarrow>
     requests S (Inl e) \<Longrightarrow>
     new_session connect open_session requests client w (Some S, Some e)"
| session_open: "client = Some c \<or> client = None \<and> connect w (Inr c) \<Longrightarrow> open_session c w = Inr S \<Longrightarrow>
     requests S (Inr ()) \<Longrightarrow>
     new_session connect open_session requests client w (Some S, None)"

subsection \<open>Sessions\<close>

text \<open>
  A session of the ssh library: its pipes, how a command is started and waited for (\<open>Run\<close> does
  both), what is written to and read from the command, and its end.
\<close>

record 'w ssh_session =
  ss_stdin_pipe :: "'w \<Rightarrow> error \<times> 'w"
  ss_stdout_pipe :: "'w \<Rightarrow> error \<times> 'w"
  ss_stderr_pipe :: "'w \<Rightarrow> error \<times> 'w"
  ss_start :: "string \<Rightarrow> 'w \<Rightarrow> error \<times> 'w"
  ss_wait :: "'w \<Rightarrow> error \<times> 'w"
  ss_run :: "string \<Rightarrow> 'w \<Rightarrow> error \<times> 'w"
  ss_write :: "string \<Rightarrow> 'w \<Rightarrow> error \<times> 'w"
  ss_io_copy :: "copyable \<Rightarrow> 'w \<Rightarrow> (error \<times> copyable) \<times> 'w"
  ss_close_stdin :: "'w \<Rightarrow> 'w"
  ss_read_byte :: "'w \<Rightarrow> (goerr + char) \<times> 'w"
  ss_read_line :: "'w \<Rightarrow> (goerr + string) \<times> 'w"
  ss_output :: "'w \<Rightarrow> string \<times> string"
  ss_close :: "'w \<Rightarrow> error \<times> 'w"

definition err_eof :: goerr where
  "err_eof = ErrSentinel ''EOF''"

definition session_cleanup :: "'w ssh_session \<Rightarrow> 'w \<Rightarrow> error \<times> 'w" where
  "session_cleanup S w =
     (case ss_close S w of (err, w1) \<Rightarrow> if error_is err err_eof then (None, w1) else (err, w1))"

subsection \<open>Copy\<close>

text \<open>What scp answers: a byte, and when it is not zero a line with the reason.\<close>

definition check_scp_stdout :: "'w ssh_session \<Rightarrow> 'w \<Rightarrow> error \<times> 'w" where
  "check_scp_stdout S w =
     (case ss_read_byte S w of
        (Inl e, w1) \<Rightarrow> (Some (ErrWrap ''reading SCP session STDOUT: '' e []), w1)
      | (Inr c, w1) \<Rightarrow>
          if c = CHR 0x00 then (None, w1)
          else
            (case ss_read_line S w1 of
               (Inl e, w2) \<Rightarrow> (Some (ErrWrap ''reading SCP sesssion error message: '' e []), w2)
             | (Inr msg, w2) \<Rightarrow> (Some (ErrNew (''running SCP session command: '' @ msg)), w2)))"

text \<open>The goroutine that speaks to scp, one operation at a time, with the error it reports at last.\<close>

datatype scp_writer = ScpHeader | ScpHeaderReply | ScpBody | ScpEnd | ScpEndReply | ScpReport error | ScpClosed

definition scp_next :: "string \<Rightarrow> error \<Rightarrow> scp_writer \<Rightarrow> scp_writer" where
  "scp_next what err pc =
     (case err of Some e \<Rightarrow> ScpReport (Some (ErrWrap (what @ '': '') e [])) | None \<Rightarrow> pc)"

fun scp_operation ::
  "'w ssh_session \<Rightarrow> string \<Rightarrow> scp_writer \<Rightarrow> copyable \<Rightarrow> 'w \<Rightarrow> scp_writer \<times> copyable \<times> 'w" where
  "scp_operation S dst ScpHeader src w =
     (case ss_write S (''C0644 '' @ show_nat (cp_size src) @ '' '' @ path_base dst @ [nl]) w of
        (err, w1) \<Rightarrow> (scp_next ''writing file header'' err ScpHeaderReply, src, w1))"
| "scp_operation S dst ScpHeaderReply src w =
     (case check_scp_stdout S w of
        (err, w1) \<Rightarrow> (scp_next ''writing file header'' err (if cp_size src > 0 then ScpBody else ScpEnd), src, w1))"
| "scp_operation S dst ScpBody src w =
     (case ss_io_copy S src w of
        ((err, src1), w1) \<Rightarrow> (scp_next ''writing file'' err ScpEnd, src1, w1))"
| "scp_operation S dst ScpEnd src w =
     (case ss_write S [CHR 0x00] w of
        (err, w1) \<Rightarrow> (scp_next ''writing end of file'' err ScpEndReply, src, w1))"
| "scp_operation S dst ScpEndReply src w =
     (case check_scp_stdout S w of
        (err, w1) \<Rightarrow> (scp_next ''writing end of file'' err (ScpReport None), src, w1))"
| "scp_operation S dst pc src w = (pc, src, w)"

text \<open>
  The caller runs scp, which starts the command and waits for it, then starts a goroutine that waits
  for it again, and takes the first of the context's error, what a goroutine reports and the end of
  the command. Whatever it returns, the deferred function assigns the error of the cleanup to the
  result. \<open>sp_err\<close> is that result, a variable the waiting goroutine assigns too.
\<close>

datatype scp_waiter = NotWaiting | AwaitCommand | WaitReport goerr | WaitOk | WaiterGone

datatype scp_main = ScpRun | ScpSelect | ScpDefer | ScpReturning | ScpReturned error

record 'w scp_state =
  sp_writer :: scp_writer
  sp_src :: copyable
  sp_errc :: "error option"
  sp_waiter :: scp_waiter
  sp_main :: scp_main
  sp_err :: error
  sp_world :: 'w

definition scp_start :: "copyable \<Rightarrow> 'w \<Rightarrow> 'w scp_state" where
  "scp_start src w = \<lparr>sp_writer = ScpHeader, sp_src = src, sp_errc = None, sp_waiter = NotWaiting,
     sp_main = ScpRun, sp_err = None, sp_world = w\<rparr>"

text \<open>\<open>exit_status\<close> is \<open>errors.As\<close> with the exit error of the ssh library.\<close>

definition handle_exec_err :: "(goerr \<Rightarrow> int option) \<Rightarrow> error \<Rightarrow> error" where
  "handle_exec_err exit_status err =
     (case err of
        None \<Rightarrow> None
      | Some e \<Rightarrow> (case exit_status e of
            Some c \<Rightarrow> Some (new_exec_error (Some e) c)
          | None \<Rightarrow> Some e))"

definition busy_writer :: "scp_writer \<Rightarrow> bool" where
  "busy_writer pc \<longleftrightarrow> (case pc of ScpReport e \<Rightarrow> False | ScpClosed \<Rightarrow> False | _ \<Rightarrow> True)"

inductive scp_step ::
  "'w go_ctx \<Rightarrow> (goerr \<Rightarrow> int option) \<Rightarrow> 'w ssh_session \<Rightarrow> string \<Rightarrow> 'w scp_state \<Rightarrow> 'w scp_state \<Rightarrow> bool"
  for ctx exit_status S dst where
  writer: "busy_writer (sp_writer s) \<Longrightarrow> scp_operation S dst (sp_writer s) (sp_src s) (sp_world s) = (pc, src, w) \<Longrightarrow>
     scp_step ctx exit_status S dst s (s\<lparr>sp_writer := pc, sp_src := src, sp_world := w\<rparr>)"
| reported: "sp_writer s = ScpReport e \<Longrightarrow> sp_errc s = None \<Longrightarrow>
     scp_step ctx exit_status S dst s
       (s\<lparr>sp_writer := ScpClosed, sp_errc := Some e, sp_world := ss_close_stdin S (sp_world s)\<rparr>)"
| run_fails: "sp_main s = ScpRun \<Longrightarrow> ss_run S (''scp -tr '' @ dst) (sp_world s) = (Some e, w) \<Longrightarrow>
     scp_step ctx exit_status S dst s
       (s\<lparr>sp_main := ScpDefer, sp_err := Some (ErrWrap ''starting scp: '' e []), sp_world := w\<rparr>)"
| run_ends: "sp_main s = ScpRun \<Longrightarrow> ss_run S (''scp -tr '' @ dst) (sp_world s) = (None, w) \<Longrightarrow>
     scp_step ctx exit_status S dst s
       (s\<lparr>sp_main := ScpSelect, sp_err := None, sp_waiter := AwaitCommand, sp_world := w\<rparr>)"
| wait_fails: "sp_waiter s = AwaitCommand \<Longrightarrow> ss_wait S (sp_world s) = (Some e, w) \<Longrightarrow>
     handle_exec_err exit_status (Some e) = Some e1 \<Longrightarrow>
     scp_step ctx exit_status S dst s (s\<lparr>sp_waiter := WaitReport e1, sp_err := Some e, sp_world := w\<rparr>)"
| wait_ends: "sp_waiter s = AwaitCommand \<Longrightarrow> ss_wait S (sp_world s) = (None, w) \<Longrightarrow>
     scp_step ctx exit_status S dst s (s\<lparr>sp_waiter := WaitOk, sp_err := None, sp_world := w\<rparr>)"
| wait_reported: "sp_waiter s = WaitReport e \<Longrightarrow> sp_errc s = None \<Longrightarrow>
     scp_step ctx exit_status S dst s (s\<lparr>sp_waiter := WaiterGone, sp_errc := Some (Some e)\<rparr>)"
| select_done: "sp_main s = ScpSelect \<Longrightarrow> ctx_err ctx (sp_world s) = Some e \<Longrightarrow>
     scp_step ctx exit_status S dst s (s\<lparr>sp_main := ScpDefer, sp_err := Some e\<rparr>)"
| select_error: "sp_main s = ScpSelect \<Longrightarrow> sp_errc s = Some e \<Longrightarrow>
     scp_step ctx exit_status S dst s (s\<lparr>sp_main := ScpDefer, sp_err := e, sp_errc := None\<rparr>)"
| select_ended: "sp_main s = ScpSelect \<Longrightarrow> sp_waiter s = WaitOk \<Longrightarrow>
     scp_step ctx exit_status S dst s (s\<lparr>sp_main := ScpDefer, sp_err := None, sp_waiter := WaiterGone\<rparr>)"
| cleanup: "sp_main s = ScpDefer \<Longrightarrow> session_cleanup S (sp_world s) = (e, w) \<Longrightarrow>
     scp_step ctx exit_status S dst s (s\<lparr>sp_main := ScpReturning, sp_err := e, sp_world := w\<rparr>)"
| returns: "sp_main s = ScpReturning \<Longrightarrow>
     scp_step ctx exit_status S dst s (s\<lparr>sp_main := ScpReturned (sp_err s)\<rparr>)"

inductive_cases scp_stepE: "scp_step ctx exit_status S dst s s'"

text \<open>
  \<open>Copy\<close> as what it can return. The pipes of the session are made before the goroutines; when one
  fails the deferred cleanup runs as well.
\<close>

definition scp_pipes :: "'w ssh_session \<Rightarrow> 'w \<Rightarrow> error \<times> 'w" where
  "scp_pipes S w =
     (case ss_stdin_pipe S w of
        (Some e, w1) \<Rightarrow> (Some (ErrWrap ''creating SSH STDIN pipe: '' e []), w1)
      | (None, w1) \<Rightarrow>
          (case ss_stdout_pipe S w1 of
             (Some e, w2) \<Rightarrow> (Some (ErrWrap ''creating SSH STDOUT pipe: '' e []), w2)
           | (None, w2) \<Rightarrow> (None, w2)))"

inductive ssh_copy ::
  "'w go_ctx \<Rightarrow> (goerr \<Rightarrow> int option) \<Rightarrow> ('w \<Rightarrow> (goerr + 'w ssh_session) \<times> 'w) \<Rightarrow> copyable \<Rightarrow> string \<Rightarrow> 'w
    \<Rightarrow> error \<Rightarrow> bool" for ctx exit_status open_session src dst w where
  context_done: "ctx_err ctx w = Some e \<Longrightarrow> ssh_copy ctx exit_status open_session src dst w (Some e)"
| no_session: "ctx_err ctx w = None \<Longrightarrow> open_session w = (Inl e, w1) \<Longrightarrow>
     ssh_copy ctx exit_status open_session src dst w (Some e)"
| no_pipes: "ctx_err ctx w = None \<Longrightarrow> open_session w = (Inr S, w1) \<Longrightarrow> scp_pipes S w1 = (Some e, w2) \<Longrightarrow>
     ssh_copy ctx exit_status open_session src dst w (fst (session_cleanup S w2))"
| copied: "ctx_err ctx w = None \<Longrightarrow> open_session w = (Inr S, w1) \<Longrightarrow> scp_pipes S w1 = (None, w2) \<Longrightarrow>
     (scp_step ctx exit_status S dst)\<^sup>*\<^sup>* (scp_start src w2) s \<Longrightarrow> sp_main s = ScpReturned err \<Longrightarrow>
     ssh_copy ctx exit_status open_session src dst w err"

subsection \<open>Stream and Run\<close>

text \<open>What the error channel of a stream gets: the error of the execution joined with the cleanup's.\<close>

definition complete_stream :: "'w ssh_session \<Rightarrow> error \<Rightarrow> 'w \<Rightarrow> error \<times> 'w" where
  "complete_stream S err w =
     (case session_cleanup S w of
        (cleanup_err, w1) \<Rightarrow>
          ((case err of
              None \<Rightarrow> cleanup_err
            | Some (ErrExec es c) \<Rightarrow> Some (exec_append (ErrExec es c) cleanup_err)
            | Some e \<Rightarrow> error_or_nil (multi_append [] [Some e, cleanup_err])), w1))"

text \<open>
  \<open>Stream\<close> until its error arrives. A reader that was made and whose command did not run reads
  nothing.
\<close>

definition ssh_stream ::
  "'w go_ctx \<Rightarrow> (goerr \<Rightarrow> int option) \<Rightarrow> ('w \<Rightarrow> (goerr + 'w ssh_session) \<times> 'w) \<Rightarrow> string \<Rightarrow> 'w
    \<Rightarrow> exec_response \<times> 'w" where
  "ssh_stream ctx exit_status open_session cmd w =
     (let res = (\<lambda>out serr p. case p of (e, w) \<Rightarrow>
            (\<lparr>resp_stdout = out, resp_stderr = serr, resp_err = e\<rparr>, w)) in
      case ctx_err ctx w of
        Some e \<Rightarrow> res None None (Some e, w)
      | None \<Rightarrow>
          (case open_session w of
             (Inl e, w1) \<Rightarrow> res None None (Some e, w1)
           | (Inr S, w1) \<Rightarrow>
               (case ss_stdout_pipe S w1 of
                  (Some e, w2) \<Rightarrow> res None None (complete_stream S (Some e) w2)
                | (None, w2) \<Rightarrow>
                    (case ss_stderr_pipe S w2 of
                       (Some e, w3) \<Rightarrow> res (Some []) None (complete_stream S (Some e) w3)
                     | (None, w3) \<Rightarrow>
                         (case ss_stdin_pipe S w3 of
                            (Some e, w4) \<Rightarrow> res (Some []) (Some []) (complete_stream S (Some e) w4)
                          | (None, w4) \<Rightarrow>
                              (case ss_start S cmd w4 of
                                 (Some e, w5) \<Rightarrow> res (Some []) (Some []) (complete_stream S (Some e) (ss_close_stdin S w5))
                               | (None, w5) \<Rightarrow>
                                   (case ss_wait S (ss_close_stdin S w5) of
                                      (err, w6) \<Rightarrow>
                                        (case ss_output S w6 of
                                           (out, serr) \<Rightarrow> res (Some out) (Some serr)
                                             (complete_stream S (handle_exec_err exit_status err) w6)))))))))"

definition ssh_run ::
  "'w go_ctx \<Rightarrow> (goerr \<Rightarrow> int option) \<Rightarrow> ('w \<Rightarrow> (goerr + 'w ssh_session) \<times> 'w) \<Rightarrow> string \<Rightarrow> 'w
    \<Rightarrow> (string \<times> string \<times> error) \<times> 'w" where
  "ssh_run ctx exit_status open_session cmd w =
     (case ctx_err ctx w of
        Some e \<Rightarrow> (([], [], Some e), w)
      | None \<Rightarrow>
          (case ssh_stream ctx exit_status open_session cmd w of
             (r, w1) \<Rightarrow>
               ((trim_suffix (captured (resp_stdout r)) [nl], trim_suffix (captured (resp_stderr r)) [nl],
                 handle_exec_err exit_status (resp_err r)), w1)))"

subsection \<open>Closing\<close>

text \<open>
  \<open>Close\<close> of the client joins what the keepalive has reported and the errors of closing the
  connection and the agent's, which are not counted when they are EOF.
\<close>

definition unless_eof :: "error \<Rightarrow> error" where
  "unless_eof err = (if error_is err err_eof then None else err)"

definition ssh_close :: "error option \<Rightarrow> error option \<Rightarrow> error option \<Rightarrow> error" where
  "ssh_close keepalive conn agent =
     error_or_nil (multi_append [] (List.map_filter id [keepalive, map_option unless_eof conn, map_option unless_eof agent]))"

subsection \<open>Lemmas\<close>

text \<open>What the result variable can hold once the deferred function has run.\<close>

definition left_by :: "'w ssh_session \<Rightarrow> error \<Rightarrow> bool" where
  "left_by S err \<longleftrightarrow> (\<exists>w. err = fst (session_cleanup S w) \<or> err = fst (ss_wait S w))"

lemma left_by_intros:
  "session_cleanup S w = (e, w1) \<Longrightarrow> left_by S e"
  "ss_wait S w = (e, w1) \<Longrightarrow> left_by S e"
  by (auto simp: left_by_def intro: exI [of _ w])

lemma scp_returned:
  assumes "(scp_step ctx exit_status S dst)\<^sup>*\<^sup>* (scp_start src w) s"
  shows "(sp_main s = ScpReturning \<longrightarrow> left_by S (sp_err s))
    \<and> (\<forall>err. sp_main s = ScpReturned err \<longrightarrow> left_by S err)"
  using assms
proof (induction rule: rtranclp_induct)
  case base
  then show ?case by (simp add: scp_start_def)
next
  case (step s s')
  from step.hyps(2) step.IH show ?case
    by cases (auto intro: left_by_intros)
qed

lemma ssh_copy_left_by:
  assumes "ctx_err ctx w = None" "open_session w = (Inr S, w1)"
    and "ssh_copy ctx exit_status open_session src dst w err"
  shows "left_by S err"
  using assms(3)
proof cases
  case (no_pipes S' w1' e w2)
  with assms(2) show ?thesis by (auto simp: left_by_def)
next
  case (copied S' w1' w2 s)
  with assms(2) scp_returned [OF copied(4)] show ?thesis by auto
qed (use assms(1,2) in auto)

lemma multi_append_first:
  assumes multi: "\<And>es. f (ErrMulti es) = first_some (map f es)" and "f e = Some c"
  shows "first_some (map f (multi_append [] (Some e # es))) = Some c"
proof -
  have keeps: "first_some (map f (multi_append acc es)) = Some c" if "first_some (map f acc) = Some c" for acc
    using that by (induction acc es rule: multi_append.induct) (auto simp: first_some_append_Some)
  from assms have "first_some (map f (case e of ErrMulti xs \<Rightarrow> xs | _ \<Rightarrow> [e])) = Some c"
    by (auto split: goerr.splits)
  from keeps [OF this] show ?thesis by simp
qed

lemma multi_append_Cons: "multi_append (multi_append [] xs) ys = multi_append [] (xs @ ys)"
  for xs ys
proof -
  have "multi_append (multi_append acc xs) ys = multi_append acc (xs @ ys)" for acc
    by (induction acc xs rule: multi_append.induct) auto
  then show ?thesis .
qed

subsection \<open>What the transport does\<close>

text \<open>
  C33: when scp fails on a session that was opened, Copy can return
  without an error, and it does unless the cleanup of the session or waiting for it once more fails:
  every error that Copy returns after a session was opened is one of these two, and none of scp, of
  what was written to it or of the context.
\<close>

theorem failed_copy_succeeds:
  assumes "ctx_err ctx w = None" "open_session w = (Inr S, w1)" "scp_pipes S w1 = (None, w2)"
    and "ss_run S (''scp -tr '' @ dst) w2 = (Some e, w3)" "session_cleanup S w3 = (None, w4)"
  shows "ssh_copy ctx exit_status open_session src dst w None
    \<and> (\<forall>err. ssh_copy ctx exit_status open_session src dst w err \<longrightarrow> left_by S err)"
proof
  let ?step = "scp_step ctx exit_status S dst"
  let ?s = "scp_start src w2"
  let ?s1 = "?s\<lparr>sp_main := ScpDefer, sp_err := Some (ErrWrap ''starting scp: '' e []), sp_world := w3\<rparr>"
  let ?s2 = "?s1\<lparr>sp_main := ScpReturning, sp_err := None, sp_world := w4\<rparr>"
  have "?step ?s ?s1" by (rule run_fails) (use assms(4) in \<open>simp_all add: scp_start_def\<close>)
  moreover have "?step ?s1 ?s2" by (rule cleanup) (simp_all add: assms(5))
  moreover have "?step ?s2 (?s2\<lparr>sp_main := ScpReturned (sp_err ?s2)\<rparr>)" by (rule returns) simp
  ultimately have "?step\<^sup>*\<^sup>* ?s (?s2\<lparr>sp_main := ScpReturned (sp_err ?s2)\<rparr>)"
    by (meson converse_rtranclp_into_rtranclp r_into_rtranclp)
  then show "ssh_copy ctx exit_status open_session src dst w None"
    by (rule copied [rotated 3]) (use assms(1-3) in simp_all)
  show "\<forall>err. ssh_copy ctx exit_status open_session src dst w err \<longrightarrow> left_by S err"
    using assms(1,2) by (blast intro: ssh_copy_left_by)
qed

text \<open>
  C34: a command that was started and ended with an exit code makes Run
  return an error that is an ExecError of this code, whatever the cleanup returns, together with
  what it wrote.
\<close>

theorem ssh_run_exit_code:
  assumes as_exit: "\<And>es k. exit_status (ErrExec es k) = first_some (map exit_status es)"
      "\<And>es. exit_status (ErrMulti es) = first_some (map exit_status es)"
    and session: "ctx_err ctx w = None" "open_session w = (Inr S, w1)" "ss_stdout_pipe S w1 = (None, w2)"
      "ss_stderr_pipe S w2 = (None, w3)" "ss_stdin_pipe S w3 = (None, w4)"
      "ss_start S cmd w4 = (None, w5)" "ss_wait S (ss_close_stdin S w5) = (Some e, w6)"
    and code: "exit_status e = Some c" and printed: "ss_output S w6 = (out, serr)"
  shows "\<exists>err w7. ssh_run ctx exit_status open_session cmd w
      = ((trim_suffix out [nl], trim_suffix serr [nl], Some err), w7) \<and> as_exec err = Some c"
proof -
  obtain cl w7 where cl: "session_cleanup S w6 = (cl, w7)" by (metis surj_pair)
  let ?es = "multi_append [] [Some e, cl]"
  have "complete_stream S (handle_exec_err exit_status (Some e)) w6 = (Some (ErrExec ?es c), w7)"
    using multi_append_Cons [of "[Some e]" "[cl]"]
    by (simp add: complete_stream_def cl handle_exec_err_def code new_exec_error_def)
  moreover have "exit_status (ErrExec ?es c) = Some c"
    using multi_append_first [of exit_status, OF as_exit(2) code] by (simp add: as_exit(1))
  ultimately show ?thesis
    by (simp add: ssh_run_def ssh_stream_def session printed Let_def captured_def handle_exec_err_def
        code new_exec_error_def)
qed

definition poll_inv ::
  "polling \<Rightarrow> (goerr + 'c \<Rightarrow> bool) \<Rightarrow> (goerr \<Rightarrow> bool) \<Rightarrow> 'c poll_state \<Rightarrow> bool" where
  "poll_inv P attempt cause s \<longleftrightarrow>
     (\<forall>e \<in> set (pl_errs s) \<union> set (pl_blocked s). \<exists>x. attempt (Inl x) \<and> e = po_label P x)
     \<and> (\<forall>c \<in> set (pl_offers s). attempt (Inr c))
     \<and> (\<forall>x. pl_last s = Some x \<longrightarrow> attempt (Inl x))
     \<and> length (pl_errs s) \<le> po_cap P
     \<and> (case pl_result s of
          None \<Rightarrow> True
        | Some (Inr c) \<Rightarrow> attempt (Inr c)
        | Some (Inl e) \<Rightarrow> (\<exists>x l es. cause x \<and> (\<forall>y. l = Some y \<longrightarrow> attempt (Inl y))
            \<and> (\<forall>e \<in> set es. \<exists>y. attempt (Inl y) \<and> e = po_label P y) \<and> e = po_fail P x l es))"

lemma poll_inv_step:
  assumes "poll_step P attempt cause s s'" "poll_inv P attempt cause s"
  shows "poll_inv P attempt cause s'"
  using assms
proof cases
  case (gives_up e xs ys)
  with assms(2) have "\<forall>e \<in> set (pl_errs s @ xs). \<exists>y. attempt (Inl y) \<and> e = po_label P y"
    "\<forall>y. pl_last s = Some y \<longrightarrow> attempt (Inl y)"
    by (auto simp: poll_inv_def)
  then have "\<exists>x l es. cause x \<and> (\<forall>y. l = Some y \<longrightarrow> attempt (Inl y))
      \<and> (\<forall>e \<in> set es. \<exists>y. attempt (Inl y) \<and> e = po_label P y)
      \<and> po_fail P e (pl_last s) (pl_errs s @ xs) = po_fail P x l es"
    using gives_up(3) by blast
  moreover from gives_up(4) assms(2) have "\<forall>e \<in> set ys. \<exists>y. attempt (Inl y) \<and> e = po_label P y"
    by (simp add: poll_inv_def)
  ultimately show ?thesis using gives_up(1) assms(2) by (simp add: poll_inv_def)
qed (auto simp: poll_inv_def)

lemma poll_inv_reach:
  "(poll_step P attempt cause)\<^sup>*\<^sup>* poll_start s \<Longrightarrow> poll_inv P attempt cause s"
proof (induction rule: rtranclp_induct)
  case base
  show ?case by (simp add: poll_inv_def poll_start_def)
next
  case (step s s')
  from step.hyps(2) step.IH show ?case by (rule poll_inv_step)
qed

text \<open>
  Whatever the order in which attempts fail, tick and succeed, the
  client that Connect ends with is one that an attempt made, and the error wraps the cause, the end
  of the context or of the time, followed by errors of attempts.
\<close>

theorem connect_outcome:
  assumes "connect_ends c dial done_err out"
  shows "case out of
      Inr cl \<Rightarrow> dial (Inr cl)
    | Inl e \<Rightarrow> \<exists>x es. (x = done_err \<or> x = wait_limit) \<and> (\<forall>y \<in> set es. dial (Inl y))
        \<and> e = ErrWrap (''timed out dialing '' @ tc_host c @ '':'' @ tc_port c @ '': '')
                (ErrMulti (multi_append [] (map Some (x # es)))) []"
proof -
  let ?cause = "\<lambda>e. e = done_err \<or> e = wait_limit"
  from assms obtain s where "(poll_step (connect_polling c) dial ?cause)\<^sup>*\<^sup>* poll_start s"
    and out: "pl_result s = Some out"
    by (auto simp: connect_ends_def)
  have inv: "poll_inv (connect_polling c) dial ?cause s" by (rule poll_inv_reach) fact
  show ?thesis
  proof (cases out)
    case (Inr cl)
    with inv out show ?thesis by (simp add: poll_inv_def)
  next
    case (Inl e)
    with inv out obtain x l es where "?cause x"
      and es: "\<forall>e \<in> set es. \<exists>y. dial (Inl y) \<and> e = po_label (connect_polling c) y"
      and e: "e = po_fail (connect_polling c) x l es"
      by (auto simp: poll_inv_def)
    moreover from es have "\<forall>y \<in> set es. dial (Inl y)" by (auto simp: connect_polling_def)
    moreover from e have "e = ErrWrap (''timed out dialing '' @ tc_host c @ '':'' @ tc_port c @ '': '')
        (ErrMulti (multi_append [] (map Some (x # es)))) []"
      by (simp add: connect_polling_def del: multi_append.simps)
    ultimately have "\<exists>x es. ?cause x \<and> (\<forall>y \<in> set es. dial (Inl y))
        \<and> e = ErrWrap (''timed out dialing '' @ tc_host c @ '':'' @ tc_port c @ '': '')
                (ErrMulti (multi_append [] (map Some (x # es)))) []" by blast
    with Inl show ?thesis by simp
  qed
qed

subsection \<open>Witnesses\<close>

definition failing_scp :: "nat ssh_session" where
  "failing_scp = \<lparr>ss_stdin_pipe = Pair None, ss_stdout_pipe = Pair None, ss_stderr_pipe = Pair None,
     ss_start = (\<lambda>c. Pair None), ss_wait = Pair (Some (ErrSentinel ''exit 7'')),
     ss_run = (\<lambda>c. Pair (Some (ErrSentinel ''exit 7''))), ss_write = (\<lambda>s. Pair None),
     ss_io_copy = (\<lambda>src. Pair (None, cp_drain src)), ss_close_stdin = id,
     ss_read_byte = Pair (Inr (CHR 0x01)), ss_read_line = Pair (Inr ''no space left''),
     ss_output = (\<lambda>w. (''out'', ''no'')), ss_close = Pair (Some err_eof)\<rparr>"

fun exit_seven :: "goerr \<Rightarrow> int option" where
  "exit_seven (ErrSentinel s) = (if s = ''exit 7'' then Some 7 else None)"
| "exit_seven (ErrExec es k) = first_some (map exit_seven es)"
| "exit_seven (ErrMulti es) = first_some (map exit_seven es)"
| "exit_seven e = None"

theorem failed_copy_succeeds_witness:
  "ssh_copy live_ctx exit_seven (\<lambda>w. (Inr failing_scp, w)) (new_reader ''hi'') ''/tmp/a'' 0 None"
proof -
  have "session_cleanup failing_scp 0 = (None, 0)"
    by (simp add: session_cleanup_def failing_scp_def error_is_def err_eof_def)
  then show ?thesis
    using failed_copy_succeeds [of live_ctx 0 "\<lambda>w. (Inr failing_scp, w)" failing_scp 0 0 "''/tmp/a''"
        "ErrSentinel ''exit 7''" 0 0 exit_seven "new_reader ''hi''"]
    by (simp add: live_ctx_def scp_pipes_def failing_scp_def)
qed

theorem ssh_run_exit_code_witness:
  "\<exists>err w7. ssh_run live_ctx exit_seven (\<lambda>w. (Inr failing_scp, w)) ''false'' 0
     = ((''out'', ''no'', Some err), w7) \<and> as_exec err = Some 7"
proof -
  have "trim_suffix ''out'' [nl] = ''out''" "trim_suffix ''no'' [nl] = ''no''" by code_simp+
  then show ?thesis
    using ssh_run_exit_code [of exit_seven live_ctx 0 "\<lambda>w. (Inr failing_scp, w)" failing_scp 0 0 0 0
        "''false''" 0 "ErrSentinel ''exit 7''" 0 7 "''out''" "''no''"]
    by (simp add: live_ctx_def failing_scp_def)
qed

theorem connect_outcome_witness:
  "\<exists>x es. (x = err_canceled \<or> x = wait_limit) \<and> (\<forall>y \<in> set es. y = ErrNew ''refused'')
     \<and> ErrWrap ''timed out dialing h:22: '' (ErrMulti [err_canceled]) []
       = ErrWrap ''timed out dialing h:22: '' (ErrMulti (multi_append [] (map Some (x # es)))) []"
proof -
  let ?c = "with_ssh_host ''h'' default_cfg"
  let ?dial = "\<lambda>r :: goerr + unit. r = Inl (ErrNew ''refused'')"
  let ?e = "ErrWrap (''timed out dialing '' @ tc_host ?c @ '':'' @ tc_port ?c @ '': '') (ErrMulti [err_canceled]) []"
  let ?P = "connect_polling ?c"
  let ?s = "poll_start\<lparr>pl_blocked := [], pl_errs := [], pl_result := Some (Inl (po_fail ?P err_canceled
    (pl_last (poll_start :: unit poll_state)) (pl_errs (poll_start :: unit poll_state) @ [])))\<rparr>"
  have "poll_step ?P ?dial (\<lambda>e. e = err_canceled \<or> e = wait_limit) poll_start ?s"
    by (rule gives_up [where xs = "[]"]) (simp_all add: poll_start_def)
  then have "(poll_step ?P ?dial (\<lambda>e. e = err_canceled \<or> e = wait_limit))\<^sup>*\<^sup>* poll_start ?s"
    by (rule r_into_rtranclp)
  moreover have "pl_result ?s = Some (Inl ?e)"
    by (simp add: connect_polling_def poll_start_def err_canceled_def)
  ultimately have "connect_ends ?c ?dial err_canceled (Inl ?e)"
    unfolding connect_ends_def by (intro exI conjI)
  from connect_outcome [OF this] show ?thesis
    by (simp add: with_ssh_host_def default_cfg_def del: multi_append.simps)
qed

end
