(* ===== verification/KubeClient.thy ===== *)
theory KubeClient
  imports Transport
begin

text \<open>
  The Kubernetes client (\<open>internal/kubernetes/client.go\<close>): querying pods with retries, asking for a
  pod and its logs, the path of the configuration and the text of a container. The calls of the
  client library are parameters; what executes in a pod is in ExecStreams.
\<close>

subsection \<open>Querying pods\<close>

text \<open>A pod of the library, cut to what the queries read.\<close>

record kube_pod =
  kp_name :: string
  kp_namespace :: string
  kp_phase :: string
  kp_containers :: "string list"

record query_pods_request =
  qp_namespace :: string
  qp_labels :: string
  qp_fields :: string
  qp_expected :: "64 word"
  qp_timeout :: duration

record pod_info =
  pi_name :: string
  pi_namespace :: string
  pi_containers :: "string list"
  pi_pod :: kube_pod

text \<open>
  The calls of the library: listing by namespace, labels and fields, where the list can be nil,
  getting a pod, and the logs of a container, which are opened and then copied. \<open>ka_show\<close> is what
  \<open>%#v\<close> prints of a request.
\<close>

record 'w kube_api =
  ka_list :: "string \<Rightarrow> string \<Rightarrow> string \<Rightarrow> 'w \<Rightarrow> (kube_pod list option \<times> error) \<times> 'w"
  ka_get :: "string \<Rightarrow> string \<Rightarrow> 'w \<Rightarrow> (goerr + kube_pod) \<times> 'w"
  ka_logs :: "string \<Rightarrow> string \<Rightarrow> string \<Rightarrow> 'w \<Rightarrow> (goerr + (goerr + string)) \<times> 'w"
  ka_show :: "query_pods_request \<Rightarrow> string"

definition or_default_namespace :: "string \<Rightarrow> string" where
  "or_default_namespace ns = (if trim_space ns = [] then default_namespace else ns)"

definition pod_running :: string where
  "pod_running = ''Running''"

text \<open>The error of the first pod that is not running.\<close>

fun not_running :: "kube_pod list \<Rightarrow> error" where
  "not_running [] = None"
| "not_running (p # ps) =
     (if kp_phase p \<noteq> pod_running
      then Some (ErrNew (''expected pod '' @ [CHR 0x27] @ ''Phase'' @ [CHR 0x27] @ '' to be ['' @ pod_running
        @ ''], was: ['' @ kp_phase p @ ''], for pod: ['' @ kp_name p @ '']''))
      else not_running ps)"

definition check_pods :: "'w kube_api \<Rightarrow> query_pods_request \<Rightarrow> kube_pod list option \<Rightarrow> error" where
  "check_pods A req pods =
     (case pods of
        None \<Rightarrow> Some (ErrNew (''failed to find any pods for request: '' @ ka_show A req))
      | Some ps \<Rightarrow>
          if ps = [] then Some (ErrNew (''failed to find any pods for request: '' @ ka_show A req))
          else if sint (qp_expected req) > 0 \<and> int (length ps) \<noteq> sint (qp_expected req)
          then Some (ErrNew (''expected to find: ['' @ show_int (sint (qp_expected req)) @ ''] pods found: [''
                 @ show_nat (length ps) @ '']''))
          else not_running ps)"

text \<open>One query; it asks with the context of the caller, whatever context the loop has.\<close>

definition query_fn ::
  "'w kube_api \<Rightarrow> query_pods_request \<Rightarrow> 'w \<Rightarrow> ((kube_pod list option \<times> error) \<times> 'w) go" where
  "query_fn A req w =
     (case ka_list A (or_default_namespace (qp_namespace req)) (qp_labels req) (qp_fields req) w of
        ((pods, Some e), w1) \<Rightarrow>
          Some ((None, Some (ErrWrap (''failed to query pods for request: '' @ ka_show A req @ '', due to: '') e [])), w1)
      | ((pods, None), w1) \<Rightarrow>
          (case check_pods A req pods of
             Some e \<Rightarrow> Some ((None, Some e), w1)
           | None \<Rightarrow> Some ((pods, None), w1)))"

definition query_retrier :: "'w kube_api \<Rightarrow> query_pods_request \<Rightarrow> ('w, kube_pod list) retrier \<times> error" where
  "query_retrier A req = new_retrier [with_retrier_func (query_fn A req),
     with_interval_func (interval_fibonacci second), with_max_retries 10]"

definition err_query_pods :: "goerr \<Rightarrow> goerr" where
  "err_query_pods e = ErrWrap ''failed to query pods, due to: '' e []"

definition to_pod_info :: "kube_pod \<Rightarrow> pod_info" where
  "to_pod_info p = \<lparr>pi_name = kp_name p, pi_namespace = kp_namespace p, pi_containers = kp_containers p,
     pi_pod = p\<rparr>"

text \<open>\<open>timed\<close> is the context of the caller with a timeout.\<close>

definition query_result :: "(kube_pod list option \<times> error) \<Rightarrow> pod_info list \<times> error" where
  "query_result out =
     (case out of
        (_, Some e) \<Rightarrow> ([], Some (err_query_pods e))
      | (None, None) \<Rightarrow> ([], Some (ErrNew ''failed to process pod query result''))
      | (Some ps, None) \<Rightarrow> (map to_pod_info ps, None))"

definition query_pod_infos ::
  "(duration \<Rightarrow> 'w go_ctx) \<Rightarrow> 'w kube_api \<Rightarrow> query_pods_request \<Rightarrow> 'w
    \<Rightarrow> ((pod_info list \<times> error) \<times> 'w) go" where
  "query_pod_infos timed A req w =
     (if sint (qp_timeout req) > 0 then
        (case query_retrier A req of
           (r, Some e) \<Rightarrow> Some (([], Some (err_query_pods e)), w)
         | (r, None) \<Rightarrow> do {
             (out, r1, w1) \<leftarrow> retry retrier_ops (timed (qp_timeout req)) r w;
             Some (query_result out, w1)
           })
      else do {
        (out, w1) \<leftarrow> query_fn A req w;
        Some (query_result out, w1)
      })"

subsection \<open>A pod and its logs\<close>

definition get_pod_info :: "'w kube_api \<Rightarrow> string \<Rightarrow> string \<Rightarrow> 'w \<Rightarrow> (goerr + pod_info) \<times> 'w" where
  "get_pod_info A namespace name w =
     (if trim_space name = [] then (Inl (ErrNew ''cannot get pod info without the pod name''), w)
      else
        (case ka_get A (or_default_namespace namespace) name w of
           (Inl e, w1) \<Rightarrow> (Inl (ErrWrap (''failed to get a pod for name: '' @ name @ '' and namespace: ''
              @ namespace @ '', due to: '') e []), w1)
         | (Inr p, w1) \<Rightarrow> (Inr \<lparr>pi_name = name, pi_namespace = or_default_namespace namespace,
              pi_containers = kp_containers p, pi_pod = p\<rparr>, w1)))"

record pod_logs =
  pg_context :: string
  pg_namespace :: string
  pg_pod :: string
  pg_container :: string
  pg_logs :: string

definition get_pod_logs ::
  "'w go_ctx \<Rightarrow> 'w kube_api \<Rightarrow> string \<Rightarrow> string \<Rightarrow> string \<Rightarrow> string \<Rightarrow> 'w \<Rightarrow> (goerr + pod_logs) \<times> 'w" where
  "get_pod_logs ctx A context_name namespace pod container w =
     (let place = '', for Pod: ['' @ pod @ ''], in Namepsace: ['' @ namespace @ ''], due to: '' in
      if trim_space pod = [] then (Inl (ErrNew ''cannot get pod logs without providing a pod name''), w)
      else
        (case ctx_err ctx w of
           Some e \<Rightarrow> (Inl (ErrWrap ''failed to get logs, due to: '' e []), w)
         | None \<Rightarrow>
             (case ka_logs A (or_default_namespace namespace) pod container w of
                (Inl e, w1) \<Rightarrow> (Inl (ErrWrap (''failed to get pod logs'' @ place) e []), w1)
              | (Inr (Inl e), w1) \<Rightarrow> (Inl (ErrWrap (''failed to copy pod logs'' @ place) e []), w1)
              | (Inr (Inr logs), w1) \<Rightarrow> (Inr \<lparr>pg_context = context_name, pg_namespace = or_default_namespace namespace,
                   pg_pod = pod, pg_container = container, pg_logs = logs\<rparr>, w1))))"

definition pod_log_file_name :: "pod_logs \<Rightarrow> string" where
  "pod_log_file_name p =
     join_with ''_'' [pg_context p, pg_namespace p, pg_pod p, pg_container p] @ ''.log''"

subsection \<open>The configuration\<close>

text \<open>\<open>filepath.SplitList\<close>: an empty list has no elements.\<close>

definition split_list :: "string \<Rightarrow> string list" where
  "split_list s = (if s = [] then [] else split_on (CHR 0x3A) s)"

text \<open>
  \<open>GetKubeConfigPath\<close>: the environment has the variable or not, and the home directory may not be
  known. \<open>file_join\<close> is \<open>filepath.Join\<close>. The case that returns the first element of the list is
  that of a list without elements.
\<close>

definition kube_config_path ::
  "(string list \<Rightarrow> string) \<Rightarrow> string option \<Rightarrow> goerr + string \<Rightarrow> string \<Rightarrow> (goerr + string) go" where
  "kube_config_path file_join env home path =
     (let from_home = (case home of
            Inl e \<Rightarrow> Inl (ErrWrap ''failed to get user home dir, when looking for the kubeconfig, due to: '' e [])
          | Inr h \<Rightarrow> Inr (file_join [h, ''.kube'', ''config''])) in
      if path \<noteq> [] then Some (Inr path)
      else
        (case env of
           None \<Rightarrow> Some from_home
         | Some v \<Rightarrow>
             let paths = split_list v in
             if length paths = 0 then do { p \<leftarrow> go_index paths 0; Some (Inr p) }
             else if length paths > 1
             then Some (Inl (ErrNew (''ambiguous kubeconfig path, using '' @ [CHR 0x27] @ ''KUBECONFIG'' @ [CHR 0x27]
                    @ '' env var value: ['' @ v @ '']'')))
             else Some from_home))"

text \<open>\<open>DecodeAndLoadKubeConfig\<close> and \<open>createClientset\<close> with the decoder, the loader and the makers of the library.\<close>

record ('k, 'r, 'c) kube_lib =
  kb_decode :: "string \<Rightarrow> goerr + string"
  kb_load :: "string \<Rightarrow> goerr + 'k"
  kb_rest :: "'k \<Rightarrow> string \<Rightarrow> goerr + 'r"
  kb_clientset :: "'r \<Rightarrow> goerr + 'c"
  kb_contexts :: "'k \<Rightarrow> string list"

definition load_kube_config :: "('k, 'r, 'c) kube_lib \<Rightarrow> string \<Rightarrow> goerr + 'k" where
  "load_kube_config B encoded =
     (case kb_decode B encoded of
        Inl e \<Rightarrow> Inl (ErrWrap ''failed to decode kubeconfig, due to: '' e [])
      | Inr s \<Rightarrow>
          (case kb_load B s of
             Inl e \<Rightarrow> Inl (ErrWrap ''failed to load kubeconfig due to: '' e [])
           | Inr k \<Rightarrow> Inr k))"

definition create_clientset :: "('k, 'r, 'c) kube_lib \<Rightarrow> string \<Rightarrow> string \<Rightarrow> goerr + ('c \<times> 'r)" where
  "create_clientset B encoded context_name =
     (case load_kube_config B encoded of
        Inl e \<Rightarrow> Inl e
      | Inr k \<Rightarrow>
          (case kb_rest B k context_name of
             Inl e \<Rightarrow> Inl (ErrWrap (''failed to create rest client config for context ['' @ context_name @ ''], due to: '') e [])
           | Inr r \<Rightarrow>
               (case kb_clientset B r of
                  Inl e \<Rightarrow> Inl (ErrWrap (''failed to create kuberentes clientset for context: ['' @ context_name @ ''] due to: '') e [])
                | Inr c \<Rightarrow> Inr (c, r))))"

definition new_kube_client :: "('k, 'r, 'c) kube_lib \<Rightarrow> string \<Rightarrow> string \<Rightarrow> goerr + ('c \<times> 'r)" where
  "new_kube_client B encoded context_name =
     (case create_clientset B encoded context_name of
        Inl e \<Rightarrow> Inl (ErrWrap ''failed to create kubernetes clientset, due to: '' e [])
      | Inr c \<Rightarrow> Inr c)"

subsection \<open>The text of a container\<close>

text \<open>Where a variable comes from: the pairs that are joined with a colon, when they are given.\<close>

record env_source =
  ev_field :: "(string \<times> string) option"
  ev_resource :: "(string \<times> string) option"
  ev_config_map :: "(string \<times> string) option"
  ev_secret :: "(string \<times> string) option"

record env_var =
  ev_name :: string
  ev_value :: string
  ev_from :: "env_source option"

record container_port =
  po_name :: string
  po_host :: int
  po_container :: int
  po_protocol :: string
  po_host_ip :: string

record kube_container =
  kc_name :: string
  kc_image :: string
  kc_command :: "string list"
  kc_args :: "string list"
  kc_ports :: "container_port list"
  kc_env :: "env_var list"

text \<open>The last reference that is given wins.\<close>

definition source_string :: "env_source \<Rightarrow> string" where
  "source_string src =
     fold (\<lambda>r s. case r of None \<Rightarrow> s | Some (a, b) \<Rightarrow> a @ '':'' @ b)
       [ev_field src, ev_resource src, ev_config_map src, ev_secret src] []"

definition env_shown :: "env_var \<Rightarrow> string" where
  "env_shown v =
     (let val = (case ev_from v of
          None \<Rightarrow> ev_value v
        | Some src \<Rightarrow>
            (if ev_value v = [] then ''('' @ source_string src @ '')''
             else ev_value v @ '' ('' @ source_string src @ '')'')) in
      if ev_name v = ''VAULT_LICENSE'' then ''[redacted]'' else val)"

definition env_line :: "env_var \<Rightarrow> string" where
  "env_line v = ''    '' @ ev_name v @ ''='' @ env_shown v @ [nl]"

definition port_string :: "container_port \<Rightarrow> string" where
  "port_string p = ''    '' @ po_name p @ '':'' @ [nl]
     @ ''      Host Port: '' @ show_int (po_host p) @ [nl]
     @ ''      Container Port: '' @ show_int (po_container p) @ [nl]
     @ ''      Protocol: '' @ po_protocol p @ [nl]
     @ ''      Host IP: '' @ po_host_ip p @ [nl]"

definition container_string :: "kube_container \<Rightarrow> string" where
  "container_string c =
     kc_name c @ [nl] @ ''  Name: '' @ kc_name c @ [nl] @ ''  Image: '' @ kc_image c @ [nl]
     @ ''  Command: '' @ join_with '' '' (kc_command c) @ [nl] @ ''  Args:'' @ [nl]
     @ concat (map (indent ''    '') (kc_args c)) @ [nl]
     @ ''  Ports:'' @ [nl] @ concat (map port_string (kc_ports c))
     @ ''  Environment:'' @ [nl]
     @ concat (map env_line (kc_env c))"

record kube_container_status =
  ks_name :: string
  ks_image :: string
  ks_image_id :: string
  ks_container_id :: string
  ks_ready :: bool
  ks_restarts :: int

definition container_status_string :: "kube_container_status \<Rightarrow> string" where
  "container_status_string s =
     ks_name s @ [nl] @ ''  Name: '' @ ks_name s @ [nl] @ ''  Image: '' @ ks_image s @ [nl]
     @ ''  Image ID: '' @ ks_image_id s @ [nl] @ ''  Container ID: '' @ ks_container_id s @ [nl]
     @ ''  Ready: '' @ (if ks_ready s then ''true'' else ''false'') @ [nl]
     @ ''  Restart Count: '' @ show_int (ks_restarts s) @ [nl]"

subsection \<open>Lemmas\<close>

lemma not_running_None: "not_running ps = None \<longleftrightarrow> (\<forall>p \<in> set ps. kp_phase p = pod_running)"
  by (induction ps) auto

lemma check_pods_None:
  "check_pods A req pods = None \<longleftrightarrow>
     (\<exists>ps. pods = Some ps \<and> ps \<noteq> [] \<and> (sint (qp_expected req) > 0 \<longrightarrow> int (length ps) = sint (qp_expected req))
        \<and> (\<forall>p \<in> set ps. kp_phase p = pod_running))"
  by (auto simp: check_pods_def not_running_None split: option.splits)

lemma query_fn_ok:
  assumes "query_fn A req w = Some ((pods, None), w1)"
  shows "ka_list A (or_default_namespace (qp_namespace req)) (qp_labels req) (qp_fields req) w = ((pods, None), w1)
    \<and> check_pods A req pods = None"
  using assms by (auto simp: query_fn_def split: prod.splits option.splits)

lemma query_retrier_func: "retry_func (fst (query_retrier A req)) = Some (query_fn A req)"
  "snd (query_retrier A req) = None"
  by (simp_all add: query_retrier_def new_retrier_def default_retrier_def retrier_opt_defs Let_def)

lemma query_result_None:
  "query_result out = (infos, None) \<longleftrightarrow> (\<exists>ps. out = (Some ps, None) \<and> infos = map to_pod_info ps)"
  by (auto simp: query_result_def split: prod.splits option.splits)

subsection \<open>What the client does\<close>

text \<open>
  What QueryPodInfos returns without an error is one answer of the cluster, asked for in the
  namespace of the request or the default one: it has pods, as many as are expected when a number
  is, all of them running.
\<close>

lemma query_pods_ok:
  assumes "query_pod_infos timed A req w = Some ((infos, None), w')"
  shows "\<exists>w1 ps. ka_list A (or_default_namespace (qp_namespace req)) (qp_labels req) (qp_fields req) w1
        = ((Some ps, None), w')
    \<and> infos = map to_pod_info ps \<and> ps \<noteq> [] \<and> (sint (qp_expected req) > 0 \<longrightarrow> int (length ps) = sint (qp_expected req))
    \<and> (\<forall>p \<in> set ps. kp_phase p = pod_running)"
proof (cases "sint (qp_timeout req) > 0")
  case True
  obtain r where r: "query_retrier A req = (r, None)" "retry_func r = Some (query_fn A req)"
    using query_retrier_func(1,2) [of A req] by (metis prod.collapse)
  with assms True obtain ps r1 where
    ret: "retry retrier_ops (timed (qp_timeout req)) r w = Some ((Some ps, None), r1, w')"
    and infos: "infos = map to_pod_info ps"
    by (auto simp: query_pod_infos_def query_result_None elim!: bind_eq_SomeE)
  from retrier_ok_last [OF ret r(2)] infos show ?thesis
    by (blast dest: query_fn_ok check_pods_None [THEN iffD1])
next
  case False
  with assms obtain ps where "query_fn A req w = Some ((Some ps, None), w')" "infos = map to_pod_info ps"
    by (auto simp: query_pod_infos_def query_result_None elim!: bind_eq_SomeE)
  then show ?thesis by (blast dest: query_fn_ok check_pods_None [THEN iffD1])
qed

text \<open>
  C36: the text of a container does not depend on the value of
  VAULT_LICENSE nor on where it comes from.
\<close>

theorem license_redacted:
  "container_string (c\<lparr>kc_env := map (\<lambda>v. if ev_name v = ''VAULT_LICENSE''
     then v\<lparr>ev_value := secret v, ev_from := place v\<rparr> else v) (kc_env c)\<rparr>) = container_string c"
proof -
  let ?hide = "\<lambda>v. if ev_name v = ''VAULT_LICENSE'' then v\<lparr>ev_value := secret v, ev_from := place v\<rparr> else v"
  have "env_line (?hide v) = env_line v" for v
    by (simp add: env_line_def env_shown_def)
  then have same: "map env_line (map ?hide (kc_env c)) = map env_line (kc_env c)"
    by (simp only: map_map comp_def)
  have keep: "map env_line xs = map env_line (kc_env c) \<Longrightarrow> container_string (c\<lparr>kc_env := xs\<rparr>) = container_string c" for xs
    by (simp add: container_string_def)
  show ?thesis by (rule keep [OF same])
qed

text \<open>
  A variable KUBECONFIG with one path is not used: the path is that of the home directory. When it
  is set and empty the call panics.
\<close>

theorem kube_config_env_unused:
  assumes "v \<noteq> []" "CHR 0x3A \<notin> set v"
  shows "kube_config_path file_join (Some v) home [] = kube_config_path file_join None home []
    \<and> kube_config_path file_join (Some []) home [] = None"
  using assms by (simp add: kube_config_path_def split_list_def split_on_no_sep go_index_def Let_def)

subsection \<open>A cluster\<close>

definition demo_cluster :: "nat kube_api" where
  "demo_cluster = \<lparr>ka_list = (\<lambda>ns ls fs w. ((Some (if w = 0 then []
       else [\<lparr>kp_name = ''vault-0'', kp_namespace = ns, kp_phase = pod_running, kp_containers = [''vault'']\<rparr>]), None), w + 1)),
     ka_get = (\<lambda>ns n w. (Inl (ErrNew ''not found''), w)), ka_logs = (\<lambda>ns p c w. (Inl (ErrNew ''not found''), w)),
     ka_show = (\<lambda>r. [])\<rparr>"

end
