(* ===== verification/DataSources.thy ===== *)
theory DataSources
  imports ResourceState IpResolver Releases KubeClient
begin

text \<open>
  The data sources of the plugin: enos_environment (\<open>datasource_environment.go\<close>),
  enos_artifactory_item (\<open>datasource_artifactory_item.go\<close>) and enos_kubernetes_pods
  (\<open>datasource_kubernetes_pods.go\<close>). Each reads its state from the configuration, fills it from the
  network and marshals it; the reading is the same but for the validation and the filling.
\<close>

subsection \<open>States without a transport\<close>

record ('s, 'v) data_attrs =
  da_attrs :: "'s \<Rightarrow> (string \<times> 'v tf_any) list"
  da_set :: "'v tf_any list \<Rightarrow> 's \<Rightarrow> 's"

fun any_objects :: "'v tf_any \<Rightarrow> 'v tf_object_slice \<Rightarrow> 'v tf_object_slice" where
  "any_objects (TfObjectSlice b) old = b"
| "any_objects _ old = old"

fun data_attr_type :: "('t, 'v) tf_lib \<Rightarrow> 'v tf_any \<Rightarrow> 't" where
  "data_attr_type L (TfObjectSlice b) = object_slice_type L b"
| "data_attr_type L x = flat_type L x"

definition data_type :: "('t, 'v) tf_lib \<Rightarrow> ('s, 'v) data_attrs \<Rightarrow> 's \<Rightarrow> 't heap \<Rightarrow> 't \<times> 't heap" where
  "data_type L D s h = object_of L [] (map (apsnd (data_attr_type L)) (da_attrs D s)) h"

definition data_value :: "('t, 'v) tf_lib \<Rightarrow> ('s, 'v) data_attrs \<Rightarrow> 's \<Rightarrow> 't heap \<Rightarrow> ('v \<times> 't heap) go" where
  "data_value L D s h =
     (case data_type L D s h of (t, h1) \<Rightarrow> do {
        (kvs, h2) \<leftarrow> attr_values L (da_attrs D s) h1;
        v \<leftarrow> new_value L h2 t (MapValue kvs);
        Some (v, h2)
      })"

definition data_from ::
  "('t, 'v) tf_lib \<Rightarrow> ('s, 'v) data_attrs \<Rightarrow> 'v \<Rightarrow> 's \<Rightarrow> 't heap \<Rightarrow> (('s \<times> error) \<times> 't heap) go" where
  "data_from L D v s h = do {
     ((props, vals, e), h1) \<leftarrow> map_attributes_to L (\<lambda>v u. (u, None)) v (map (apsnd PropTF) (da_attrs D s)) h;
     Some ((da_set D (map (prop_attr o snd) props) s, e), h1)
   }"

definition data_ops ::
  "('t, 'v) tf_lib \<Rightarrow> ('s, 'v) data_attrs \<Rightarrow> ('w go_ctx \<Rightarrow> 's \<Rightarrow> 'w \<Rightarrow> error) \<Rightarrow> ('w, 's, 't, 'v) state_ops" where
  "data_ops L D validate = \<lparr>so_type = data_type L D, so_value = data_value L D, so_from = data_from L D,
     so_validate = validate, so_embedded = (\<lambda>s. new_embedded), so_set_embedded = (\<lambda>em s. s)\<rparr>"

subsection \<open>Validating and reading\<close>

text \<open>
  \<open>ValidateDataResourceConfig\<close>: one of the sources validates the state as well, under the
  summary given; the others pass none.
\<close>

definition validate_data ::
  "('v, 't, 'd) wire \<Rightarrow> ('w, 's, 't, 'v) state_ops \<Rightarrow> string option \<Rightarrow> 'p error_view \<Rightarrow> 'w go_ctx \<Rightarrow> 'd \<Rightarrow> 's
    \<Rightarrow> 't heap \<Rightarrow> 'w \<Rightarrow> ('p diagnostic list \<times> 't heap) go" where
  "validate_data wr so summary ev ctx dyn s0 h w =
     (case ctx_err ctx w of
        Some e \<Rightarrow> Some ([ctx_to_diagnostic ev e], h)
      | None \<Rightarrow> do {
          ((s, e), h1) \<leftarrow> unmarshal_state wr so dyn s0 h;
          Some ((case e of
              Some e' \<Rightarrow> [err_to_diagnostic ev ''Serialization Error'' e']
            | None \<Rightarrow> (case summary of
                None \<Rightarrow> []
              | Some msg \<Rightarrow> op_diagnostic ev msg (so_validate so ctx s w))), h1)
        })"

text \<open>
  \<open>ReadDataSource\<close>: the state that was filled is marshalled, and the response gets what came of it
  also when there is an error. Filling fails with the summary of the diagnostic.
\<close>

definition read_data ::
  "('v, 't, 'd) wire \<Rightarrow> ('w, 's, 't, 'v) state_ops \<Rightarrow> string \<Rightarrow> 'p error_view \<Rightarrow> 'w go_ctx
    \<Rightarrow> ('s \<Rightarrow> 't heap \<Rightarrow> 'w \<Rightarrow> (((string \<times> goerr) + 's) \<times> 't heap \<times> 'w) go) \<Rightarrow> 'd \<Rightarrow> 's \<Rightarrow> 't heap \<Rightarrow> 'w
    \<Rightarrow> (('d option \<times> 'p diagnostic list) \<times> 't heap \<times> 'w) go" where
  "read_data wr so marshal_summary ev ctx fill dyn s0 h w =
     (case ctx_err ctx w of
        Some e \<Rightarrow> Some ((None, [ctx_to_diagnostic ev e]), h, w)
      | None \<Rightarrow> do {
          ((s, e), h1) \<leftarrow> unmarshal_state wr so dyn s0 h;
          (case e of
             Some e' \<Rightarrow> Some ((None, [err_to_diagnostic ev ''Serialization Error'' e']), h1, w)
           | None \<Rightarrow> do {
               (filled, h2, w1) \<leftarrow> fill s h1 w;
               (case filled of
                  Inl (msg, e') \<Rightarrow> Some ((None, [err_to_diagnostic ev msg e']), h2, w1)
                | Inr s1 \<Rightarrow> do {
                    ((dyn1, e), h3) \<leftarrow> marshal_of wr so s1 h2;
                    Some ((Some dyn1, op_diagnostic ev marshal_summary e), h3, w1)
                  })
             })
        })"

subsection \<open>enos_environment\<close>

record environment_state =
  en_id :: tf_string
  en_ip :: tf_string
  en_ips :: tf_string_slice
  en_v4 :: tf_string_slice
  en_v6 :: tf_string_slice

definition new_environment_state :: environment_state where
  "new_environment_state = \<lparr>en_id = new_tf [], en_ip = new_tf [], en_ips = new_tf [], en_v4 = new_tf [],
     en_v6 = new_tf []\<rparr>"

definition environment_rows :: "environment_state \<Rightarrow> (string \<times> 'v tf_any) list" where
  "environment_rows s = [(''id'', TfString (en_id s)), (''public_ip_address'', TfString (en_ip s)),
     (''public_ip_addresses'', TfStringSlice (en_ips s)), (''public_ipv4_addresses'', TfStringSlice (en_v4 s)),
     (''public_ipv6_addresses'', TfStringSlice (en_v6 s))]"

fun set_environment_rows :: "'v tf_any list \<Rightarrow> environment_state \<Rightarrow> environment_state" where
  "set_environment_rows [i, ip, ips, v4, v6] s =
     \<lparr>en_id = any_string i, en_ip = any_string ip, en_ips = any_strings ips, en_v4 = any_strings v4,
      en_v6 = any_strings v6\<rparr>"
| "set_environment_rows _ s = s"

definition environment_attrs :: "(environment_state, 'v) data_attrs" where
  "environment_attrs = \<lparr>da_attrs = environment_rows, da_set = set_environment_rows\<rparr>"

text \<open>A word in single quotes.\<close>

definition quote1 :: "string \<Rightarrow> string" where
  "quote1 s = [CHR 0x27] @ s @ [CHR 0x27]"

definition ctx_validate :: "'w go_ctx \<Rightarrow> 's \<Rightarrow> 'w \<Rightarrow> error" where
  "ctx_validate ctx s w = ctx_err ctx w"

definition environment_ops :: "('t, 'v) tf_lib \<Rightarrow> ('w, environment_state, 't, 'v) state_ops" where
  "environment_ops L = data_ops L environment_attrs ctx_validate"

text \<open>What an outcome of the resolver makes of the state; without an address there is an error.\<close>

definition environment_fill ::
  "error \<Rightarrow> ip_set \<Rightarrow> environment_state \<Rightarrow> ((string \<times> goerr) + environment_state) go" where
  "environment_fill err r s =
     (let err = (if set_ips r = []
          then join_errs [err, Some (ErrNew ''unable to resolve public ip address'')] else err) in
      case err of
        Some e \<Rightarrow> Some (Inl (''Resolve IP Error'', ErrWrap ''failed to resolve public IP addresses, due to: '' e []))
      | None \<Rightarrow> do {
          ip \<leftarrow> go_index (ips_strings r) 0;
          Some (Inr (s\<lparr>en_id := tf_set ''static'' (en_id s), en_ip := tf_set ip (en_ip s),
            en_ips := string_slice_set_strings (ips_strings r) (en_ips s),
            en_v4 := string_slice_set_strings (v4_strings r) (en_v4 s),
            en_v6 := string_slice_set_strings (v6_strings r) (en_v6 s)\<rparr>))
        })"

text \<open>The read, with any outcome that the resolvers can have.\<close>

definition environment_read ::
  "('t, 'v) tf_lib \<Rightarrow> ('v, 't, 'd) wire \<Rightarrow> 'w ip_resolver list \<Rightarrow> 'w go_ctx \<Rightarrow> 'p error_view \<Rightarrow> 'w go_ctx
    \<Rightarrow> 'd \<Rightarrow> 't heap \<Rightarrow> 'w \<Rightarrow> (('d option \<times> 'p diagnostic list) \<times> 't heap \<times> 'w) go \<Rightarrow> bool" where
  "environment_read L wr resolvers ip_ctx ev ctx dyn h w res \<longleftrightarrow>
     (\<exists>err r w1. resolve resolvers ctx ip_ctx new_public_ip_resolver w ((err, r), w1)
        \<and> res = read_data wr (environment_ops L) ''Serialization Error'' ev ctx
            (\<lambda>s h w0. do { f \<leftarrow> environment_fill err r s; Some (f, h, w1) }) dyn new_environment_state h w)"

subsection \<open>Objects\<close>

text \<open>A map literal of attribute types, and a list of objects that has it.\<close>

definition types_map :: "(string \<times> 't) list \<Rightarrow> 't heap \<Rightarrow> nat \<times> 't heap" where
  "types_map ts h = (case new_map h of (a, h1) \<Rightarrow> (a, h1\<lparr>hp_maps := (hp_maps h1)(a := ts)\<rparr>))"

definition typed_object_slice :: "(string \<times> 't) list \<Rightarrow> 't heap \<Rightarrow> 'v tf_object_slice \<times> 't heap" where
  "typed_object_slice ts h =
     (case new_tf_object_slice h of (b, h1) \<Rightarrow>
      case types_map ts h1 of (a, h2) \<Rightarrow>
        (TfObjs (os_unknown b) (os_null b) a (os_val b) (os_optional b), h2))"

definition object_with :: "(string \<times> 'v tf_any) list \<Rightarrow> 't heap \<Rightarrow> 'v tf_object \<times> 't heap" where
  "object_with m h = (case new_tf_object h of (b, h1) \<Rightarrow> (object_set m b, h1))"

definition string_attr :: "string \<Rightarrow> 'v tf_any" where
  "string_attr s = TfString (tf_set s (new_tf []))"

fun objects_with :: "(string \<times> 'v tf_any) list list \<Rightarrow> 't heap \<Rightarrow> 'v tf_object list \<times> 't heap" where
  "objects_with [] h = ([], h)"
| "objects_with (m # ms) h =
     (case object_with m h of (b, h1) \<Rightarrow> case objects_with ms h1 of (bs, h2) \<Rightarrow> (b # bs, h2))"

subsection \<open>enos_artifactory_item\<close>

record 'v item_state =
  it_id :: tf_string
  it_username :: tf_string
  it_token :: tf_string
  it_host :: tf_string
  it_repo :: tf_string
  it_path :: tf_string
  it_name :: tf_string
  it_properties :: tf_string_map
  it_template :: tf_string
  it_results :: "'v tf_object_slice"

definition item_result_types :: "('t, 'v) tf_lib \<Rightarrow> (string \<times> 't) list" where
  "item_result_types L = map (\<lambda>n. (n, ty_string L)) [''name'', ''type'', ''url'', ''sha256'', ''size'']"

definition new_item_state :: "('t, 'v) tf_lib \<Rightarrow> 't heap \<Rightarrow> 'v item_state \<times> 't heap" where
  "new_item_state L h =
     (case typed_object_slice (item_result_types L) h of (results, h1) \<Rightarrow>
       (\<lparr>it_id = new_tf [], it_username = new_tf [], it_token = new_tf [], it_host = new_tf [],
         it_repo = new_tf [], it_path = new_tf [], it_name = new_tf [], it_properties = new_tf [],
         it_template = new_tf [], it_results = results\<rparr>, h1))"

definition item_rows :: "'v item_state \<Rightarrow> (string \<times> 'v tf_any) list" where
  "item_rows s = [(''id'', TfString (it_id s)), (''username'', TfString (it_username s)),
     (''token'', TfString (it_token s)), (''host'', TfString (it_host s)), (''repo'', TfString (it_repo s)),
     (''path'', TfString (it_path s)), (''name'', TfString (it_name s)),
     (''properties'', TfStringMap (it_properties s)), (''query_template'', TfString (it_template s)),
     (''results'', TfObjectSlice (it_results s))]"

fun set_item_rows :: "'v tf_any list \<Rightarrow> 'v item_state \<Rightarrow> 'v item_state" where
  "set_item_rows [i, usr, tok, hst, repo, path, name, props, templ, results] s =
     \<lparr>it_id = any_string i, it_username = any_string usr, it_token = any_string tok, it_host = any_string hst,
      it_repo = any_string repo, it_path = any_string path, it_name = any_string name,
      it_properties = any_string_map props, it_template = any_string templ,
      it_results = any_objects results (it_results s)\<rparr>"
| "set_item_rows _ s = s"

definition item_attrs :: "('v item_state, 'v) data_attrs" where
  "item_attrs = \<lparr>da_attrs = item_rows, da_set = set_item_rows\<rparr>"

text \<open>Templates of the user are parsed by \<open>text/template\<close>; an URL is checked by a library.\<close>

record item_lib =
  il_is_url :: "string \<Rightarrow> bool"
  il_parse :: "string \<Rightarrow> goerr + (aql_fields \<Rightarrow> goerr + string)"
  il_text :: "goerr \<Rightarrow> string"

definition item_validate :: "'p path_lib \<Rightarrow> item_lib \<Rightarrow> 'w go_ctx \<Rightarrow> 'v item_state \<Rightarrow> 'w \<Rightarrow> error" where
  "item_validate P I ctx s w =
     (case ctx_err ctx w of
        Some e \<Rightarrow> Some e
      | None \<Rightarrow>
          if \<not> is_unknown (it_host s) \<and> (\<not> snd (tf_get (it_host s)) \<or> \<not> il_is_url I (fst (tf_get (it_host s))))
          then Some (validation_error P ''the host must be a valid URL'' [''host''])
          else if \<not> is_unknown (it_template s) \<and> snd (tf_get (it_template s)) \<and> fst (tf_get (it_template s)) \<noteq> []
          then (case il_parse I (fst (tf_get (it_template s))) of
              Inl e \<Rightarrow> Some (validation_error P (''invalid query template: '' @ il_text I e) [''query_template''])
            | Inr t \<Rightarrow> None)
          else None)"

text \<open>The options of the search; the limit comes with a template of the user.\<close>

definition opt_of :: "tf_string \<Rightarrow> (string \<Rightarrow> aql_opt) \<Rightarrow> aql_opt list" where
  "opt_of b opt = (if snd (tf_get b) then [opt (fst (tf_get b))] else [])"

definition item_search_opts :: "item_lib \<Rightarrow> 'v item_state \<Rightarrow> goerr + aql_opt list" where
  "item_search_opts I s =
     (let opts = opt_of (it_repo s) with_aql_repo @ opt_of (it_path s) with_aql_path
            @ opt_of (it_name s) with_aql_name
            @ (case string_map_get_strings (it_properties s) of
                 (props, ok) \<Rightarrow> if ok then [with_aql_properties props] else []) in
      if snd (tf_get (it_template s)) \<and> fst (tf_get (it_template s)) \<noteq> []
      then (case il_parse I (fst (tf_get (it_template s))) of
          Inl e \<Rightarrow> Inl (ErrWrap ''search failed: invalid query template: '' e [])
        | Inr t \<Rightarrow> Inr (opts @ [with_aql_limit ''1'', with_aql_template t]))
      else Inr opts)"

definition item_client :: "'v item_state \<Rightarrow> aql_client" where
  "item_client s = new_aql_client [with_aql_host (raw_val (it_host s)),
     with_aql_username (raw_val (it_username s)), with_aql_token (raw_val (it_token s))]"

definition item_object :: "string \<Rightarrow> aql_item \<Rightarrow> (string \<times> 'v tf_any) list" where
  "item_object url r = [(''name'', string_attr (ai_name r)), (''type'', string_attr (ai_type r)),
     (''url'', string_attr (url @ [slash] @ path_join [ai_repo r, ai_path r, ai_name r])),
     (''sha256'', string_attr (ai_sha256 r)), (''size'', string_attr (ai_size r))]"

text \<open>\<open>Search\<close>. A response that is nil comes with an error.\<close>

definition item_search ::
  "'w http_lib \<Rightarrow> item_lib \<Rightarrow> 'w go_ctx \<Rightarrow> 'v item_state \<Rightarrow> 't heap \<Rightarrow> 'w
    \<Rightarrow> (('v item_state \<times> error) \<times> 't heap \<times> 'w) go" where
  "item_search H I ctx s h w =
     (case ctx_err ctx w of
        Some e \<Rightarrow> Some ((s, Some e), h, w)
      | None \<Rightarrow>
          (case item_search_opts I s of
             Inl e \<Rightarrow> Some ((s, Some e), h, w)
           | Inr opts \<Rightarrow> do {
               ((res, e), w1) \<leftarrow> search_aql H (item_client s) (new_aql_request opts) w;
               (case e of
                  Some e' \<Rightarrow> Some ((s, Some (ErrWrap ''search failed, due to: '' e' [])), h, w1)
                | None \<Rightarrow> do {
                    r \<leftarrow> deref res;
                    (case objects_with (map (item_object (raw_val (it_host s))) (ar_results r)) h of
                       (objs, h1) \<Rightarrow>
                         Some ((s\<lparr>it_results := object_slice_set objs (it_results s)\<rparr>, None), h1, w1))
                  })
             }))"

definition item_ops :: "('t, 'v) tf_lib \<Rightarrow> 'p path_lib \<Rightarrow> item_lib \<Rightarrow> ('w, 'v item_state, 't, 'v) state_ops" where
  "item_ops L P I = data_ops L item_attrs (item_validate P I)"

definition item_fill ::
  "'p path_lib \<Rightarrow> 'w http_lib \<Rightarrow> item_lib \<Rightarrow> 'w go_ctx \<Rightarrow> 'v item_state \<Rightarrow> 't heap \<Rightarrow> 'w
    \<Rightarrow> (((string \<times> goerr) + 'v item_state) \<times> 't heap \<times> 'w) go" where
  "item_fill P H I ctx s h w =
     (let s1 = s\<lparr>it_id := tf_set ''static'' (it_id s)\<rparr> in
      case item_validate P I ctx s1 w of
        Some e \<Rightarrow> Some (Inl (''Validation Failure'', e), h, w)
      | None \<Rightarrow> do {
          ((s2, e), h1, w1) \<leftarrow> item_search H I ctx s1 h w;
          Some ((case e of Some e' \<Rightarrow> Inl (''Search Failed'', e') | None \<Rightarrow> Inr s2), h1, w1)
        })"

definition item_read ::
  "('t, 'v) tf_lib \<Rightarrow> 'p path_lib \<Rightarrow> ('v, 't, 'd) wire \<Rightarrow> 'w http_lib \<Rightarrow> item_lib \<Rightarrow> 'p error_view \<Rightarrow> 'w go_ctx
    \<Rightarrow> 'd \<Rightarrow> 't heap \<Rightarrow> 'w \<Rightarrow> (('d option \<times> 'p diagnostic list) \<times> 't heap \<times> 'w) go" where
  "item_read L P wr H I ev ctx dyn h w =
     (case new_item_state L h of (s0, h1) \<Rightarrow>
       read_data wr (item_ops L P I) ''Failed to Marshal'' ev ctx (item_fill P H I ctx) dyn s0 h1 w)"

subsection \<open>enos_kubernetes_pods\<close>

record 'v pods_state =
  ps_id :: tf_string
  ps_kubeconfig :: tf_string
  ps_context :: tf_string
  ps_namespace :: tf_string
  ps_labels :: tf_string_slice
  ps_fields :: tf_string_slice
  ps_pods :: "'v tf_object_slice"
  ps_transports :: "'v tf_object_slice"
  ps_expected :: tf_num
  ps_timeout :: tf_string

definition new_pods_state :: "('t, 'v) tf_lib \<Rightarrow> 't heap \<Rightarrow> 'v pods_state \<times> 't heap" where
  "new_pods_state L h =
     (case typed_object_slice [(''name'', ty_string L), (''namespace'', ty_string L),
         (''containers'', string_slice_type L)] h of (pods, h1) \<Rightarrow>
      case typed_object_slice (map (\<lambda>n. (n, ty_string L))
         [''kubeconfig_base64'', ''context_name'', ''namespace'', ''pod'', ''container'']) h1 of (transports, h2) \<Rightarrow>
       (\<lparr>ps_id = new_tf [], ps_kubeconfig = new_tf [], ps_context = new_tf [], ps_namespace = new_tf [],
         ps_labels = new_tf [], ps_fields = new_tf [], ps_pods = pods, ps_transports = transports,
         ps_expected = new_tf 0, ps_timeout = new_tf []\<rparr>, h2))"

definition pods_rows :: "'v pods_state \<Rightarrow> (string \<times> 'v tf_any) list" where
  "pods_rows s = [(''id'', TfString (ps_id s)), (''kubeconfig_base64'', TfString (ps_kubeconfig s)),
     (''context_name'', TfString (ps_context s)), (''namespace'', TfString (ps_namespace s)),
     (''label_selectors'', TfStringSlice (ps_labels s)), (''field_selectors'', TfStringSlice (ps_fields s)),
     (''expected_pod_count'', TfNum (ps_expected s)), (''wait_timeout'', TfString (ps_timeout s)),
     (''pods'', TfObjectSlice (ps_pods s)), (''transports'', TfObjectSlice (ps_transports s))]"

fun set_pods_rows :: "'v tf_any list \<Rightarrow> 'v pods_state \<Rightarrow> 'v pods_state" where
  "set_pods_rows [i, kube, cx, ns, labels, selectors, num, tmo, pods, transports] s =
     \<lparr>ps_id = any_string i, ps_kubeconfig = any_string kube, ps_context = any_string cx,
      ps_namespace = any_string ns, ps_labels = any_strings labels, ps_fields = any_strings selectors,
      ps_pods = any_objects pods (ps_pods s), ps_transports = any_objects transports (ps_transports s),
      ps_expected = any_num num, ps_timeout = any_string tmo\<rparr>"
| "set_pods_rows _ s = s"

definition pods_attrs :: "('v pods_state, 'v) data_attrs" where
  "pods_attrs = \<lparr>da_attrs = pods_rows, da_set = set_pods_rows\<rparr>"

text \<open>\<open>parse\<close> is \<open>time.ParseDuration\<close>.\<close>

definition pods_validate ::
  "'p path_lib \<Rightarrow> ('k, 'r, 'c) kube_lib \<Rightarrow> (string \<Rightarrow> goerr + duration) \<Rightarrow> 'w go_ctx \<Rightarrow> 'v pods_state \<Rightarrow> 'w \<Rightarrow> error" where
  "pods_validate P B parse ctx s w =
     (let known = (\<lambda>b. snd (tf_get b)) in
      case ctx_err ctx w of
        Some e \<Rightarrow> Some e
      | None \<Rightarrow>
          if \<not> known (ps_kubeconfig s)
          then Some (validation_error P (''cannot query pods without a '' @ quote1 ''kubeconfig_base64'') [''kubeconfig_base64''])
          else if \<not> known (ps_context s)
          then Some (validation_error P (''cannot query pods without a '' @ quote1 ''context_name'') [''context_name''])
          else
            (case load_kube_config B (fst (tf_get (ps_kubeconfig s))) of
               Inl e \<Rightarrow> Some (validation_error P
                 ''invalid kubeconfig, kubeconfig should be a valid base64 encoded kubeconfig string'' [''kubeconfig_base64''])
             | Inr k \<Rightarrow>
                 if known (ps_timeout s) \<and> isl (parse (fst (tf_get (ps_timeout s))))
                 then Some (validation_error P (''failed to parse duration ['' @ fst (tf_get (ps_timeout s)) @ '']'') [''wait_timeout''])
                 else if snd (tf_get (ps_expected s)) \<and> sint (fst (tf_get (ps_expected s))) \<le> 0
                 then Some (validation_error P ''expected pod count must be greater than 0'' [''expected_pod_count''])
                 else if fst (tf_get (ps_context s)) \<notin> set (kb_contexts B k)
                 then Some (validation_error P (''context: ['' @ fst (tf_get (ps_context s))
                   @ ''] not present in the provided kubeconfig'') [''context_name''])
                 else None))"

definition pods_ops ::
  "('t, 'v) tf_lib \<Rightarrow> 'p path_lib \<Rightarrow> ('k, 'r, 'c) kube_lib \<Rightarrow> (string \<Rightarrow> goerr + duration)
    \<Rightarrow> ('w, 'v pods_state, 't, 'v) state_ops" where
  "pods_ops L P B parse = data_ops L pods_attrs (pods_validate P B parse)"

definition default_wait_timeout :: duration where
  "default_wait_timeout = 60 * second"

text \<open>The request of \<open>defaultPodInfoGetter\<close>; a timeout that does not parse is an error.\<close>

definition pods_request :: "(string \<Rightarrow> goerr + duration) \<Rightarrow> 'v pods_state \<Rightarrow> goerr + query_pods_request" where
  "pods_request parse s =
     (let req = \<lparr>qp_namespace = raw_val (ps_namespace s),
          qp_labels = join_with '','' (string_slice_string_value (ps_labels s)),
          qp_fields = join_with '','' (string_slice_string_value (ps_fields s)),
          qp_expected = (if snd (tf_get (ps_expected s)) then fst (tf_get (ps_expected s)) else 0),
          qp_timeout = default_wait_timeout\<rparr> in
      if snd (tf_get (ps_timeout s))
      then (case parse (fst (tf_get (ps_timeout s))) of
          Inl e \<Rightarrow> Inl (ErrNew (''failed to parse '' @ quote1 ''wait_timeout'' @ '': '' @ fst (tf_get (ps_timeout s))))
        | Inr d \<Rightarrow> Inr (req\<lparr>qp_timeout := d\<rparr>))
      else Inr req)"

text \<open>
  \<open>defaultPodInfoGetter\<close>. \<open>api\<close> is what the clients of the library call, \<open>timed\<close> the context with
  a timeout.
\<close>

definition get_pods ::
  "('k, 'r, 'c) kube_lib \<Rightarrow> ('c \<times> 'r \<Rightarrow> 'w kube_api) \<Rightarrow> (string \<Rightarrow> goerr + duration) \<Rightarrow> (duration \<Rightarrow> 'w go_ctx)
    \<Rightarrow> 'v pods_state \<Rightarrow> 'w \<Rightarrow> ((goerr + pod_info list) \<times> 'w) go" where
  "get_pods B api parse timed s w =
     (case new_kube_client B (raw_val (ps_kubeconfig s)) (raw_val (ps_context s)) of
        Inl e \<Rightarrow> Some (Inl (ErrWrap ''failed to create a Kubernetes Client, due to: '' e []), w)
      | Inr c \<Rightarrow>
          (case pods_request parse s of
             Inl e \<Rightarrow> Some (Inl e, w)
           | Inr req \<Rightarrow> do {
               ((pods, e), w1) \<leftarrow> query_pod_infos timed (api c) req w;
               Some ((case e of
                   Some e' \<Rightarrow> Inl (ErrWrap ''failed to query pods, due to: '' e' [])
                 | None \<Rightarrow> Inr pods), w1)
             }))"

definition pod_object :: "pod_info \<Rightarrow> (string \<times> 'v tf_any) list" where
  "pod_object p = [(''name'', string_attr (pi_name p)), (''namespace'', string_attr (pi_namespace p)),
     (''containers'', TfStringSlice (string_slice_set_strings (pi_containers p) (new_tf [])))]"

definition transport_object :: "'v pods_state \<Rightarrow> pod_info \<Rightarrow> string \<Rightarrow> (string \<times> 'v tf_any) list" where
  "transport_object s p container =
     [(''kubeconfig_base64'', string_attr (raw_val (ps_kubeconfig s))), (''context_name'', string_attr (raw_val (ps_context s))),
      (''namespace'', string_attr (pi_namespace p)), (''pod'', string_attr (pi_name p)), (''container'', string_attr container)]"

fun pod_objects ::
  "'v pods_state \<Rightarrow> pod_info list \<Rightarrow> 't heap \<Rightarrow> 'v tf_object list \<times> 'v tf_object list \<times> 't heap" where
  "pod_objects s [] h = ([], [], h)"
| "pod_objects s (p # ps) h =
     (case object_with (pod_object p) h of (obj, h1) \<Rightarrow>
      case objects_with (map (transport_object s p) (pi_containers p)) h1 of (trs, h2) \<Rightarrow>
      case pod_objects s ps h2 of (objs, trs', h3) \<Rightarrow> (obj # objs, trs @ trs', h3))"

definition pods_found :: "pod_info list \<Rightarrow> 'v pods_state \<Rightarrow> 't heap \<Rightarrow> 'v pods_state \<times> 't heap" where
  "pods_found pods s h =
     (case pod_objects s pods h of (objs, trs, h1) \<Rightarrow>
        (s\<lparr>ps_pods := object_slice_set objs (ps_pods s), ps_transports := object_slice_set trs (ps_transports s)\<rparr>, h1))"

definition pods_fill ::
  "'p path_lib \<Rightarrow> ('k, 'r, 'c) kube_lib \<Rightarrow> ('c \<times> 'r \<Rightarrow> 'w kube_api) \<Rightarrow> (string \<Rightarrow> goerr + duration)
    \<Rightarrow> (duration \<Rightarrow> 'w go_ctx) \<Rightarrow> 'w go_ctx \<Rightarrow> 'v pods_state \<Rightarrow> 't heap \<Rightarrow> 'w
    \<Rightarrow> (((string \<times> goerr) + 'v pods_state) \<times> 't heap \<times> 'w) go" where
  "pods_fill P B api parse timed ctx s h w =
     (case pods_validate P B parse ctx s w of
        Some e \<Rightarrow> Some (Inl (''Validation Error'', e), h, w)
      | None \<Rightarrow> do {
          let s1 = s\<lparr>ps_id := tf_set ''static'' (ps_id s)\<rparr>;
          (r, w1) \<leftarrow> get_pods B api parse timed s1 w;
          Some ((case r of
              Inl e \<Rightarrow> (Inl (''Pod Query Error'', e), h, w1)
            | Inr pods \<Rightarrow> (case pods_found pods s1 h of (s2, h1) \<Rightarrow> (Inr s2, h1, w1))))
        })"

definition pods_read ::
  "('t, 'v) tf_lib \<Rightarrow> 'p path_lib \<Rightarrow> ('v, 't, 'd) wire \<Rightarrow> ('k, 'r, 'c) kube_lib \<Rightarrow> ('c \<times> 'r \<Rightarrow> 'w kube_api)
    \<Rightarrow> (string \<Rightarrow> goerr + duration) \<Rightarrow> (duration \<Rightarrow> 'w go_ctx) \<Rightarrow> 'p error_view \<Rightarrow> 'w go_ctx \<Rightarrow> 'd \<Rightarrow> 't heap \<Rightarrow> 'w
    \<Rightarrow> (('d option \<times> 'p diagnostic list) \<times> 't heap \<times> 'w) go" where
  "pods_read L P wr B api parse timed ev ctx dyn h w =
     (case new_pods_state L h of (s0, h1) \<Rightarrow>
       read_data wr (pods_ops L P B parse) ''Serialization Error'' ev ctx
         (pods_fill P B api parse timed ctx) dyn s0 h1 w)"

subsection \<open>Lemmas\<close>

lemma object_with_val: "object_with m h = (b, h1) \<Longrightarrow> ob_val b = m"
  by (auto simp: object_with_def new_tf_object_def new_map_def object_set_def)

lemma objects_with_val: "objects_with ms h = (bs, h1) \<Longrightarrow> map ob_val bs = ms"
  by (induction ms arbitrary: h bs) (auto split: prod.split_asm dest: object_with_val)

lemma pod_objects_val:
  "pod_objects s ps h = (objs, trs, h1) \<Longrightarrow> map ob_val objs = map pod_object ps
    \<and> map ob_val trs = concat (map (\<lambda>p. map (transport_object s p) (pi_containers p)) ps)"
  by (induction ps arbitrary: h objs trs)
    (auto split: prod.split_asm dest: object_with_val objects_with_val)

lemma transport_object_id: "transport_object (s\<lparr>ps_id := x\<rparr>) = transport_object s"
  by (intro ext) (simp add: transport_object_def)

subsection \<open>What the sources do\<close>

text \<open>
  C35: a read of enos_kubernetes_pods whose state is filled had a context that
  is in the configuration, and the state lists the pods of one answer of the cluster, all of them
  running, with a transport for each of their containers. Without a namespace these are the pods of
  the namespace default.
\<close>

theorem pods_filled:
  assumes "pods_fill P B api parse timed ctx s h w = Some (Inr s2, h1, w1)"
  shows "\<exists>k c ps w0. load_kube_config B (raw_val (ps_kubeconfig s)) = Inr k
    \<and> raw_val (ps_context s) \<in> set (kb_contexts B k)
    \<and> new_kube_client B (raw_val (ps_kubeconfig s)) (raw_val (ps_context s)) = Inr c
    \<and> ka_list (api c) (or_default_namespace (raw_val (ps_namespace s)))
        (join_with '','' (string_slice_string_value (ps_labels s)))
        (join_with '','' (string_slice_string_value (ps_fields s))) w0 = ((Some ps, None), w1)
    \<and> ps \<noteq> [] \<and> (\<forall>p \<in> set ps. kp_phase p = pod_running)
    \<and> map ob_val (os_val (ps_pods s2)) = map (pod_object o to_pod_info) ps
    \<and> map ob_val (os_val (ps_transports s2))
        = concat (map (\<lambda>p. map (transport_object s (to_pod_info p)) (kp_containers p)) ps)"
proof -
  let ?s1 = "s\<lparr>ps_id := tf_set ''static'' (ps_id s)\<rparr>"
  from assms obtain infos where valid: "pods_validate P B parse ctx s w = None"
    and pods: "get_pods B api parse timed ?s1 w = Some (Inr infos, w1)"
    and found: "pods_found infos ?s1 h = (s2, h1)"
    by (auto simp: pods_fill_def Let_def elim!: bind_eq_SomeE split: option.split_asm sum.split_asm prod.split_asm)
  from valid obtain k where k: "load_kube_config B (raw_val (ps_kubeconfig s)) = Inr k"
    "raw_val (ps_context s) \<in> set (kb_contexts B k)"
    by (auto simp: pods_validate_def Let_def tf_get_def split: option.split_asm if_split_asm sum.split_asm)
  from pods obtain c req where c: "new_kube_client B (raw_val (ps_kubeconfig s)) (raw_val (ps_context s)) = Inr c"
    and req: "pods_request parse ?s1 = Inr req"
    and q: "query_pod_infos timed (api c) req w = Some ((infos, None), w1)"
    by (auto simp: get_pods_def elim!: bind_eq_SomeE split: sum.split_asm option.split_asm)
  from req have fields: "qp_namespace req = raw_val (ps_namespace s)"
    "qp_labels req = join_with '','' (string_slice_string_value (ps_labels s))"
    "qp_fields req = join_with '','' (string_slice_string_value (ps_fields s))"
    by (auto simp: pods_request_def Let_def split: if_split_asm sum.split_asm)
  from query_pods_ok [OF q, unfolded fields] obtain w0 ps where
    ps: "ka_list (api c) (or_default_namespace (raw_val (ps_namespace s)))
        (join_with '','' (string_slice_string_value (ps_labels s)))
        (join_with '','' (string_slice_string_value (ps_fields s))) w0 = ((Some ps, None), w1)"
      "infos = map to_pod_info ps" "ps \<noteq> []" "\<forall>p \<in> set ps. kp_phase p = pod_running"
    by blast
  obtain objs trs h2 where objs: "pod_objects ?s1 infos h = (objs, trs, h2)" by (metis prod_cases3)
  with found have "os_val (ps_pods s2) = objs" "os_val (ps_transports s2) = trs"
    by (auto simp: pods_found_def object_slice_set_def)
  moreover from pod_objects_val [OF objs] ps(2) have "map ob_val objs = map (pod_object o to_pod_info) ps"
    "map ob_val trs = concat (map (\<lambda>p. map (transport_object s (to_pod_info p)) (kp_containers p)) ps)"
    by (simp_all add: transport_object_id comp_def to_pod_info_def)
  ultimately show ?thesis using k c ps by blast
qed

text \<open>
  The state of enos_environment is filled with the addresses of the resolver, of which there is one;
  otherwise there is an error, whatever the resolver returned.
\<close>

theorem environment_filled:
  "environment_fill err r s =
     (if set_ips r = [] then Some (Inl (''Resolve IP Error'', ErrWrap ''failed to resolve public IP addresses, due to: ''
        (the (join_errs [err, Some (ErrNew ''unable to resolve public ip address'')])) []))
      else case err of
        Some e \<Rightarrow> Some (Inl (''Resolve IP Error'', ErrWrap ''failed to resolve public IP addresses, due to: '' e []))
      | None \<Rightarrow> Some (Inr (s\<lparr>en_id := tf_set ''static'' (en_id s), en_ip := tf_set (ips_strings r ! 0) (en_ip s),
          en_ips := string_slice_set_strings (ips_strings r) (en_ips s),
          en_v4 := string_slice_set_strings (v4_strings r) (en_v4 s),
          en_v6 := string_slice_set_strings (v6_strings r) (en_v6 s)\<rparr>)))"
proof -
  have "length (ips_strings r) = length (set_ips r)"
    by (simp add: ips_strings_def v4_strings_def v6_strings_def set_ips_def)
  then show ?thesis
    by (auto simp: environment_fill_def Let_def go_index_def join_errs_def map_filter_simps split: option.splits)
qed

subsection \<open>Witnesses\<close>

definition demo_kube_lib :: "(unit, unit, unit) kube_lib" where
  "demo_kube_lib = \<lparr>kb_decode = Inr, kb_load = (\<lambda>s. Inr ()), kb_rest = (\<lambda>k c. Inr ()),
     kb_clientset = (\<lambda>r. Inr ()), kb_contexts = (\<lambda>k. [''kind''])\<rparr>"

definition demo_pods :: "demo_value pods_state" where
  "demo_pods = (fst (new_pods_state demo_lib demo_heap))\<lparr>ps_kubeconfig := Tfv False False ''a3ViZQ=='',
     ps_context := Tfv False False ''kind'', ps_timeout := Tfv False False ''0s''\<rparr>"

theorem pods_filled_witness:
  "\<exists>s2 h1 c ps w0. pods_fill demo_paths demo_kube_lib (\<lambda>c. demo_cluster) (\<lambda>s. Inr 0) (\<lambda>d. live_ctx) live_ctx
      demo_pods demo_heap 1 = Some (Inr s2, h1, 2)
    \<and> ka_list demo_cluster (or_default_namespace []) c c w0 = ((Some ps, None), 2)
    \<and> map ob_val (os_val (ps_pods s2)) = map (pod_object o to_pod_info) ps"
proof -
  let ?fill = "pods_fill demo_paths demo_kube_lib (\<lambda>c. demo_cluster) (\<lambda>s. Inr 0) (\<lambda>d. live_ctx) live_ctx"
  have raw: "raw_val (ps_namespace demo_pods) = []" "string_slice_string_value (ps_labels demo_pods) = []"
    "string_slice_string_value (ps_fields demo_pods) = []"
    by (simp_all add: demo_pods_def new_pods_state_def typed_object_slice_def new_tf_object_slice_def new_map_def
        types_map_def new_tf_def string_slice_string_value_def string_slice_get_strings_def tf_get_def)
  let ?s1 = "demo_pods\<lparr>ps_id := tf_set ''static'' (ps_id demo_pods)\<rparr>"
  have some: "\<exists>infos. query_pod_infos (\<lambda>d. live_ctx) demo_cluster req 1 = Some ((infos, None), 2)"
    if "qp_expected req = 0" "qp_timeout req = 0" for req
    using that by (simp add: query_pod_infos_def query_fn_def)
      (simp add: demo_cluster_def check_pods_def query_result_def)
  have "\<exists>req. pods_request (\<lambda>s. Inr 0) ?s1 = Inr req \<and> qp_expected req = 0 \<and> qp_timeout req = 0"
    by (simp add: pods_request_def Let_def demo_pods_def new_pods_state_def typed_object_slice_def
        new_tf_object_slice_def new_map_def types_map_def new_tf_def tf_get_def)
  then obtain req infos where req: "pods_request (\<lambda>s. Inr 0) ?s1 = Inr req"
    and infos: "query_pod_infos (\<lambda>d. live_ctx) demo_cluster req 1 = Some ((infos, None), 2)"
    using some by blast
  have client: "new_kube_client demo_kube_lib k c = Inr ((), ())" for k c
    by (simp add: new_kube_client_def create_clientset_def load_kube_config_def demo_kube_lib_def)
  have got: "get_pods demo_kube_lib (\<lambda>c. demo_cluster) (\<lambda>s. Inr 0) (\<lambda>d. live_ctx) ?s1 1 = Some (Inr infos, 2)"
    by (simp add: get_pods_def client req infos del: One_nat_def)
  have valid: "pods_validate demo_paths demo_kube_lib (\<lambda>s. Inr 0) live_ctx demo_pods 1 = None"
    by (simp add: pods_validate_def Let_def demo_pods_def new_pods_state_def typed_object_slice_def
        new_tf_object_slice_def new_map_def types_map_def new_tf_def tf_get_def load_kube_config_def
        demo_kube_lib_def live_ctx_def)
  obtain s2 h1 where found: "pods_found infos ?s1 demo_heap = (s2, h1)" by (metis surj_pair)
  have f: "?fill demo_pods demo_heap 1 = Some (Inr s2, h1, 2)"
    by (simp add: pods_fill_def valid got found Let_def del: One_nat_def)
  from pods_filled [OF f] show ?thesis unfolding raw using f by auto
qed

end
