(* ===== verification/Spec2Isabelle.thy ===== *)
theory Spec2Isabelle
  imports VaultInit Consul User Package EmbeddedTransport IpResolver FileResource VaultStart HostResources VaultResources ExecResource
    ConsulStart BoundaryResources Releases BundleInstall SshTransport DataSources
begin

text \<open>
  A verification library for the Terraform provider enos, which sets up Vault and Consul
  clusters on hosts it reaches over ssh, in Kubernetes or in Nomad.

  The program, from the outside in. Terraform calls the provider server (\<open>internal/server\<close>),
  whose routers decode a request and pass it to a resource of the plugin (\<open>internal/plugin\<close>). A
  resource reads its state from the values of Terraform (\<open>tftypes.go\<close>), joins its transport block
  with that of the provider (\<open>embedded_transport*.go\<close>, \<open>transport_resource_util.go\<close>), makes a
  client of it and works on the host with the operations of \<open>internal/remoteflight\<close>: files, users,
  packages, systemd units, Vault and Consul. Those run commands over the interface
  \<open>transport.Transport\<close> and wait with \<open>internal/retry\<close> until the host is in the state they want.

  How Go is modelled. A Go call is a function of the world, which comes last and is returned
  with the results; the world is a type parameter, so nothing is assumed of hosts, clocks or
  networks. A panic and a call that never returns are \<open>None\<close> of \<open>'a go\<close> (Prelude). An error is a
  value of \<open>goerr option\<close> that keeps what it wraps, so \<open>errors.Is\<close> and \<open>errors.As\<close> are functions of
  it (GoErrors). Functional options are functions folded over a zero value. Pointers whose
  identity matters have addresses (User), the type maps of the plugin live in a heap (TfTypes),
  other pointers are options. Maps are association lists in the order a run meets them; where the
  order decides, a theorem quantifies over the permutations. Integers that are stored or printed
  at a width are words; lengths and counters below their width are naturals.
\<close>

text \<open>
  The theories, by layer.

  Go itself: Prelude, GoErrors, GoStrings (\<open>strings\<close>, \<open>bufio.Scanner\<close>, \<open>strconv\<close>, \<open>path/filepath\<close>, the
  verbs of \<open>fmt\<close> in use), GoJson (\<open>json.Unmarshal\<close> with its case folding and numbers), Sha256.

  Waiting and running: Retry (\<open>internal/retry\<close>; the loop is \<open>retry_loop\<close>, a partial function as it need
  not end, \<open>retrier\<close> is the record of the struct), Transport (\<open>internal/transport\<close>, its commands and
  errors; \<open>transport\<close> is the record of the interface's methods), ExecStreams (\<open>Copy\<close> of the Kubernetes and
  Nomad transports, whose goroutines, pipe and channels are the step relation \<open>pipe_step\<close>) and SshTransport (\<open>internal/transport/ssh\<close>: waiting
  for a connection is \<open>poll_step\<close>, a copy with scp \<open>scp_step\<close>) and KubeClient
  (\<open>internal/kubernetes\<close>: queries, logs, the configuration).

  Hosts (\<open>internal/remoteflight\<close>): RemoteFile, Target, Systemd, FlightControl, User and Package.
  A request is a record with the names of the struct, an operation a function of the same name.

  Vault and Consul (\<open>internal/remoteflight/vault\<close>, \<open>consul\<close>): VaultStatus and VaultApi read the
  endpoints, VaultState joins the readings to a \<open>vault_state\<close> and answers questions about it,
  VaultChecks has the checks that waiting uses, VaultInit what changes a Vault. Consul is the
  same for Consul. Hcl writes configuration files (\<open>internal/remoteflight/hcl\<close>).

  The plugin: Server (\<open>internal/server\<close>, \<open>internal/diags\<close>), TfTypes (\<open>tftypes.go\<close>),
  EmbeddedTransport, IpResolver (\<open>ip_resolver.go\<close>; the goroutines are the step relation
  \<open>resolve_step\<close>) and PluginUtil (provider configuration and the calls all resources share).

  The resources of the plugin. ResourceState has the states as rows of attributes (\<open>rows_state\<close>) and
  the apply that the resources write out alike (\<open>apply_resource\<close>). On it: FileResource (enos_file),
  HostResources (enos_user, enos_host_info), ExecResource (enos_remote_exec, enos_local_exec),
  VaultConfig and VaultStart (the blocks of a configuration, enos_vault_start), VaultResources
  (enos_vault_init, enos_vault_unseal), ConsulStart (enos_consul_start), BoundaryResources
  (\<open>internal/remoteflight/boundary\<close>, enos_boundary_init, enos_boundary_start) and BundleInstall
  (enos_bundle_install). DataSources has enos_environment, enos_artifactory_item and
  enos_kubernetes_pods. Releases has what bundles come from (\<open>internal/releases\<close>,
  \<open>internal/artifactory\<close>).
\<close>

text \<open>
  Interfaces. \<open>retry_progress\<close> and \<open>bounded_retryable\<close> (Retry) are what the loop needs to end; they
  are interpreted on the retrier of the package. \<open>checked_source\<close> (Retry) is what WaitForState
  needs of the function that reads a state; Vault's GetState interprets it. \<open>reader\<close> (VaultStatus)
  is the contract of the calls that ask an endpoint, no error without a response; every reader of
  Vault and of Consul interprets it. \<open>resource_state\<close> (PluginUtil) is the contract of the states of
  resources towards the calls that plan and apply. \<open>attr_state\<close> and \<open>rows_state\<close> (ResourceState)
  give it from the attributes of a state; the resources interpret them on their own rows.

  What the groups of lemmas show. For waiting: the loop meets the specification of attempts
  (\<open>retry_spec\<close>), ends within its bound and keeps the errors. For hosts: which commands an
  operation runs in which order, that success means all of them succeeded, that texts that are
  written are read back. For states: which readings a state without error has, when they agree,
  that a state that is waited for passed its checks, and that what the checks accept is what
  they are named for. For changes: an operation that succeeds found, did and left what it should.
  For the plugin: the types that TFType and TFValue record in the heap describe the values at
  every depth (\<open>typed_as\<close>, \<open>value_conforms\<close>), attributes come back as they were written, with an empty
  collection as null (\<open>exact_view\<close>), the copy
  of a transport is the transport, defaults have no precedence, and what planning and applying a
  resource does with the states of a request.

  Where the code departs from what it means to do, the theorem states what it does, and the
  manifest lists the difference as a finding: an owner that becomes a mode, a sum that is not
  computed again, replacements that are never found, updates that never reach the host.
\<close>

text \<open>
  Bounds and fuel. No definition has fuel: recursion is structural, has a measure, or is a
  \<open>partial_function (option)\<close> (\<open>retry_loop\<close>, and \<open>attrs_from_values\<close> of TfTypes, which follows
  values of an abstract type). That \<open>retry_loop\<close> returns is proved for a retrier with a maximum of
  retries or with a context that ends (\<open>retry_bounded_returns\<close>, \<open>target_host_info_returns\<close>);
  where the code has no bound its absence is a theorem (\<open>install_home_dir_unbounded\<close>).

  Parameters. Code outside the repository is an argument with named laws: the library of
  Terraform types and values (\<open>tf_lib\<close> with \<open>tf_laws\<close>, satisfied by \<open>demo_lib\<close>), paths of
  attributes (\<open>path_lib\<close>), the wire format, the makers of clients (\<open>dialer\<close>), the HCL library
  (\<open>hcl_lib\<close>), parsers of addresses and versions. Witnesses instantiate them. The contexts that
  the code makes with a timeout are functions of the caller's context, without a deadline of their
  own. The laws take equality of values as reflexive; the proofs use it at the values FromTFValue
  compares with, the null and unknown ones of a type and of the dynamic type.

  Not modelled. The client libraries behind ssh, Kubernetes, Nomad, docker and kind, and the
  pumping of streams between processes, are I/O. The logs and application data that a failing
  resource gathers are files beside the program. The schemas of resources and their markdown are
  data. The templates that print a transport block as HCL need the text/template engine. The
  release tooling (\<open>tools/publish\<close>, \<open>tools/create-source\<close>) and the code generators are not part of
  the provider. Logging has no result. The resources of local kind clusters, which
  call docker and kind, and the commands that are installed on hosts are not modelled; the
  manifest lists them.
\<close>

end
